(* ===== verification/Prelude.thy ===== *)
theory Prelude
  imports Main "HOL-Library.Multiset" "HOL-Library.Sublist"
begin

text \<open>
  Shared vocabulary of the development.

  \<^item> The proof collections \<open>go_eval\<close> (definitions a concrete evaluation unfolds),
    \<open>tx_simps\<close> (the laws of the statement monad) and \<open>keeps_intros\<close> (the rules by which a
    statement built from parts keeps a property of the state that its parts keep).
  \<^item> Results: a Go function with an \<open>error\<close> result is a function into
    \<open>'e + 'a\<close>, \<open>Inl\<close> the error; \<open>ebind\<close> is the pattern
    \<^verbatim>\<open>x, err := f(); if err != nil { return err }\<close> and \<open>echeck\<close> a guard that
    returns early.
  \<^item> Statements over a state: \<open>('s, 'e, 'a) stm\<close> threads a state (the database) and
    may stop with an error \<^emph>\<open>leaving the changes made so far in place\<close>; \<open>in_tx\<close> is
    \<^verbatim>\<open>Begin ... defer Rollback ... Commit\<close>: an error restores the state at the start.
  \<^item> Generic list facts used by the components.
\<close>

named_theorems go_eval
named_theorems tx_simps
named_theorems keeps_intros

section \<open>Results\<close>

definition ebind :: "'e + 'a \<Rightarrow> ('a \<Rightarrow> 'e + 'b) \<Rightarrow> 'e + 'b" where
  "ebind r f = (case r of Inl e \<Rightarrow> Inl e | Inr x \<Rightarrow> f x)"

definition echeck :: "bool \<Rightarrow> 'e \<Rightarrow> 'e + 'a \<Rightarrow> 'e + 'a" where
  "echeck bad e r = (if bad then Inl e else r)"

lemma ebind_simps [simp]: "ebind (Inl e) f = Inl e" "ebind (Inr x) f = f x"
  by (simp_all add: ebind_def)

lemma ebind_eq_Inr_iff [simp]: "ebind r f = Inr y \<longleftrightarrow> (\<exists>x. r = Inr x \<and> f x = Inr y)"
  by (cases r) auto

lemma ebind_eq_Inl_iff: "ebind r f = Inl e \<longleftrightarrow> r = Inl e \<or> (\<exists>x. r = Inr x \<and> f x = Inl e)"
  by (cases r) auto

lemma echeck_simps [simp]: "echeck True e r = Inl e" "echeck False e r = r"
  by (simp_all add: echeck_def)

lemma echeck_eq_Inr_iff [simp]: "echeck b e r = Inr y \<longleftrightarrow> \<not> b \<and> r = Inr y"
  by (cases b) auto

lemma echeck_eq_Inl_iff: "echeck b e r = Inl e' \<longleftrightarrow> (if b then e = e' else r = Inl e')"
  by (cases b) auto

definition isOk :: "'e + 'a \<Rightarrow> bool" where
  "isOk r = (case r of Inl _ \<Rightarrow> False | Inr _ \<Rightarrow> True)"

lemma isOk_simps [simp]: "isOk (Inl e) = False" "isOk (Inr x) = True"
  by (simp_all add: isOk_def)

lemma isOk_iff: "isOk r \<longleftrightarrow> (\<exists>x. r = Inr x)"
  by (cases r) auto

section \<open>Statements over a state, and transactions\<close>

type_synonym ('s, 'e, 'a) stm = "'s \<Rightarrow> ('e + 'a) \<times> 's"

definition sret :: "'a \<Rightarrow> ('s, 'e, 'a) stm" where
  "sret x s = (Inr x, s)"

definition sfail :: "'e \<Rightarrow> ('s, 'e, 'a) stm" where
  "sfail e s = (Inl e, s)"

definition sbind :: "('s, 'e, 'a) stm \<Rightarrow> ('a \<Rightarrow> ('s, 'e, 'b) stm) \<Rightarrow> ('s, 'e, 'b) stm" where
  "sbind m f s = (case m s of (Inl e, s') \<Rightarrow> (Inl e, s') | (Inr x, s') \<Rightarrow> f x s')"

definition scheck :: "bool \<Rightarrow> 'e \<Rightarrow> ('s, 'e, unit) stm" where
  "scheck bad e s = (if bad then (Inl e, s) else (Inr (), s))"

definition slift :: "'e + 'a \<Rightarrow> ('s, 'e, 'a) stm" where
  "slift r s = (r, s)"

definition sread :: "('s \<Rightarrow> 'e + 'a) \<Rightarrow> ('s, 'e, 'a) stm" where
  "sread f s = (f s, s)"

definition swrite :: "('s \<Rightarrow> 's) \<Rightarrow> ('s, 'e, unit) stm" where
  "swrite f s = (Inr (), f s)"

definition in_tx :: "('s, 'e, 'a) stm \<Rightarrow> ('s, 'e, 'a) stm" where
  "in_tx m s = (case m s of (Inl e, _) \<Rightarrow> (Inl e, s) | (Inr x, s') \<Rightarrow> (Inr x, s'))"

fun sfor :: "('a \<Rightarrow> ('s, 'e, unit) stm) \<Rightarrow> 'a list \<Rightarrow> ('s, 'e, unit) stm" where
  "sfor f [] s = (Inr (), s)"
| "sfor f (x # xs) s = sbind (f x) (\<lambda>_. sfor f xs) s"

text \<open>Running a statement and acting on its error.\<close>

definition stry :: "('s, 'e, 'a) stm \<Rightarrow> ('e \<Rightarrow> ('s, 'e, 'b) stm) \<Rightarrow> ('a \<Rightarrow> ('s, 'e, 'b) stm) \<Rightarrow> ('s, 'e, 'b) stm" where
  "stry m h f s = (case m s of (Inl e, s') \<Rightarrow> h e s' | (Inr x, s') \<Rightarrow> f x s')"

lemma sret_simp [simp, tx_simps]: "sret x s = (Inr x, s)"
  by (simp add: sret_def)

lemma sfail_simp [simp, tx_simps]: "sfail e s = (Inl e, s)"
  by (simp add: sfail_def)

lemma slift_simp [simp, tx_simps]: "slift r s = (r, s)"
  by (simp add: slift_def)

lemma sread_simp [simp, tx_simps]: "sread f s = (f s, s)"
  by (simp add: sread_def)

lemma swrite_simp [simp, tx_simps]: "swrite f s = (Inr (), f s)"
  by (simp add: swrite_def)

lemma sret_Inr_iff: "sret x s = (Inr y, s') \<longleftrightarrow> y = x \<and> s' = s"
  by auto

text \<open>Inversion of a successful statement: the shape every proof about a committed
  operation starts from.\<close>

lemma sbind_Inr_iff [tx_simps]:
  "sbind m f s = (Inr y, s') \<longleftrightarrow> (\<exists>x t. m s = (Inr x, t) \<and> f x t = (Inr y, s'))"
  by (auto simp: sbind_def split: prod.splits sum.splits)

lemma sbind_Inl_iff:
  "sbind m f s = (Inl e, s') \<longleftrightarrow>
     m s = (Inl e, s') \<or> (\<exists>x t. m s = (Inr x, t) \<and> f x t = (Inl e, s'))"
  by (auto simp: sbind_def split: prod.splits sum.splits)

lemma scheck_Inr_iff [tx_simps]: "scheck b e s = (Inr u, s') \<longleftrightarrow> \<not> b \<and> s' = s"
  by (auto simp: scheck_def)

lemma in_tx_Inr_iff [tx_simps]: "in_tx m s = (Inr y, s') \<longleftrightarrow> m s = (Inr y, s')"
  by (auto simp: in_tx_def split: prod.splits sum.splits)

lemma in_tx_Inl: "in_tx m s = (Inl e, s') \<Longrightarrow> s' = s"
  by (auto simp: in_tx_def split: prod.splits sum.splits)

text \<open>Evaluation of a statement whose first part is known.\<close>

lemma sbind_eval:
  "m s = (Inr x, t) \<Longrightarrow> sbind m f s = f x t"
  "m s = (Inl e, t) \<Longrightarrow> sbind m f s = (Inl e, t)"
  by (simp_all add: sbind_def)

lemma scheck_eval [simp]: "scheck True e s = (Inl e, s)" "scheck False e s = (Inr (), s)"
  by (simp_all add: scheck_def)

text \<open>A property of the state that every statement of a loop keeps, the loop keeps.\<close>

lemma sfor_invariant:
  assumes "sfor f xs s = (r, s')" "P s"
    and "\<And>x s r s'. x \<in> set xs \<Longrightarrow> f x s = (r, s') \<Longrightarrow> P s \<Longrightarrow> P s'"
  shows "P s'"
  using assms
proof (induction xs arbitrary: s)
  case Nil
  then show ?case by simp
next
  case (Cons x xs)
  show ?case
  proof (cases "f x s")
    case (Pair q t)
    have t: "P t" using Cons.prems(2,3) Pair by auto
    show ?thesis
    proof (cases q)
      case (Inl e)
      with Cons.prems(1) Pair t show ?thesis by (simp add: sbind_def)
    next
      case (Inr u)
      with Cons.prems(1) Pair have "sfor f xs t = (r, s')" by (simp add: sbind_def)
      then show ?thesis using t Cons.prems(3) by (intro Cons.IH) auto
    qed
  qed
qed

text \<open>A statement that is seen to succeed.\<close>

lemma result_cases: "isOk (fst (m s)) \<Longrightarrow> \<exists>x s'. m s = (Inr x, s')"
  by (cases "m s"; cases "fst (m s)") auto

section \<open>Properties of the state that statements keep\<close>

definition keeps :: "('s \<Rightarrow> bool) \<Rightarrow> ('s, 'e, 'a) stm \<Rightarrow> bool" where
  "keeps P m \<longleftrightarrow> (\<forall>s. P s \<longrightarrow> P (snd (m s)))"

lemma keepsI: "(\<And>s r s'. P s \<Longrightarrow> m s = (r, s') \<Longrightarrow> P s') \<Longrightarrow> keeps P m"
  by (metis keeps_def prod.collapse)

lemma keepsD: "keeps P m \<Longrightarrow> P s \<Longrightarrow> m s = (r, s') \<Longrightarrow> P s'"
  by (metis keeps_def snd_conv)

lemma keeps_pure [keeps_intros]:
  "keeps P (sret x)" "keeps P (sfail e)" "keeps P (slift r)" "keeps P (sread f)" "keeps P (scheck b e)"
  by (simp_all add: keeps_def scheck_def)

lemma keeps_swrite: "(\<And>s. P s \<Longrightarrow> P (f s)) \<Longrightarrow> keeps P (swrite f)"
  by (simp add: keeps_def)

lemma keeps_sbind [keeps_intros]:
  "keeps P m \<Longrightarrow> (\<And>x. keeps P (f x)) \<Longrightarrow> keeps P (sbind m f)"
  by (auto simp: keeps_def sbind_def split: prod.splits sum.splits)

lemma keeps_in_tx [keeps_intros]: "keeps P m \<Longrightarrow> keeps P (in_tx m)"
  by (auto simp: keeps_def in_tx_def split: prod.splits sum.splits)

lemma keeps_sfor [keeps_intros]:
  assumes "\<And>x. keeps P (f x)"
  shows "keeps P (sfor f xs)"
proof (rule keepsI)
  fix s r s' assume p: "P s" and run: "sfor f xs s = (r, s')"
  show "P s'" by (rule sfor_invariant [where P = P, OF run p]) (rule keepsD [OF assms])
qed

lemma keeps_cases [keeps_intros]:
  "(b \<Longrightarrow> keeps P m) \<Longrightarrow> (\<not> b \<Longrightarrow> keeps P m') \<Longrightarrow> keeps P (if b then m else m')"
  "(x = None \<Longrightarrow> keeps P n) \<Longrightarrow> (\<And>y. x = Some y \<Longrightarrow> keeps P (g y)) \<Longrightarrow>
     keeps P (case x of None \<Rightarrow> n | Some y \<Rightarrow> g y)"
  "(\<And>e. z = Inl e \<Longrightarrow> keeps P (l e)) \<Longrightarrow> (\<And>y. z = Inr y \<Longrightarrow> keeps P (h y)) \<Longrightarrow>
     keeps P (case z of Inl e \<Rightarrow> l e | Inr y \<Rightarrow> h y)"
  "(\<And>a b. w = (a, b) \<Longrightarrow> keeps P (k a b)) \<Longrightarrow> keeps P (case w of (a, b) \<Rightarrow> k a b)"
  by (simp_all split: option.split sum.split prod.split)

lemma keeps_stry [keeps_intros]:
  "keeps P m \<Longrightarrow> (\<And>e. keeps P (h e)) \<Longrightarrow> (\<And>x. keeps P (f x)) \<Longrightarrow> keeps P (stry m h f)"
  by (auto simp: keeps_def stry_def split: prod.splits sum.splits)

lemma keeps_let [keeps_intros]: "(\<And>x. x = v \<Longrightarrow> keeps P (f x)) \<Longrightarrow> keeps P (let x = v in f x)"
  by (simp add: Let_def)

lemma sfor_cong:
  "(\<And>x. x \<in> set xs \<Longrightarrow> f x = g x) \<Longrightarrow> sfor f xs s = sfor g xs s"
  by (induction xs arbitrary: s) (simp_all add: sbind_def split: prod.splits sum.splits)

section \<open>Lists\<close>

lemma sum_list_map_filter_split:
  fixes f :: "'a \<Rightarrow> 'b::comm_monoid_add"
  shows "sum_list (map f xs) = sum_list (map f (filter P xs)) + sum_list (map f (filter (\<lambda>x. \<not> P x) xs))"
  by (induction xs) (auto simp: ac_simps)

lemma find_append_key: "find P (xs @ ys) = (case find P xs of Some x \<Rightarrow> Some x | None \<Rightarrow> find P ys)"
  by (induction xs) auto

lemma filter_length_le_one_distinct_key:
  assumes "distinct (map k xs)" "x \<in> set xs" "k x = v"
  shows "filter (\<lambda>y. k y = v) xs = [x]"
  using assms
proof (induction xs)
  case Nil
  then show ?case by simp
next
  case (Cons a xs)
  show ?case
  proof (cases "k a = v")
    case True
    with Cons.prems have "a = x" by (metis distinct.simps(2) image_eqI list.simps(9) set_ConsD set_map)
    moreover have "filter (\<lambda>y. k y = v) xs = []"
      using Cons.prems(1) True by (force simp: filter_empty_conv image_iff)
    ultimately show ?thesis using True by simp
  next
    case False
    with Cons show ?thesis by auto
  qed
qed

end
