(* ===== verification/Go_Strings.thy ===== *)
theory Go_Strings
  imports Prelude "HOL-Library.Char_ord" "HOL-Library.List_Lexorder"
begin

text \<open>
  The functions of Go's package \<^verbatim>\<open>strings\<close> that the program uses. A Go string is its
  byte sequence, so a string here is a list of bytes (\<^typ>\<open>char\<close> is a byte) and
  \<^verbatim>\<open>len(s)\<close> is \<^const>\<open>length\<close>. \<open>TrimSpace\<close> knows every rune of
  \<^verbatim>\<open>unicode.IsSpace\<close> by its UTF-8 bytes. \<open>ToUpper\<close> and \<open>ToLower\<close> map the ASCII
  letters and leave every other byte alone: the case tables of the other Unicode letters are
  not modelled.
\<close>

section \<open>Trimming\<close>

text \<open>The UTF-8 encodings of the runes that \<^verbatim>\<open>unicode.IsSpace\<close> accepts: the six ASCII
  ones, U+0085, U+00A0, U+1680, U+2000 to U+200A, U+2028, U+2029, U+202F, U+205F, U+3000.\<close>

definition space_runes :: "string list" where
  "space_runes =
    [[CHR 0x09], [CHR 0x0A], [CHR 0x0B], [CHR 0x0C], [CHR 0x0D], [CHR 0x20],
     [CHR 0xC2, CHR 0x85], [CHR 0xC2, CHR 0xA0], [CHR 0xE1, CHR 0x9A, CHR 0x80],
     [CHR 0xE2, CHR 0x80, CHR 0x80], [CHR 0xE2, CHR 0x80, CHR 0x81],
     [CHR 0xE2, CHR 0x80, CHR 0x82], [CHR 0xE2, CHR 0x80, CHR 0x83],
     [CHR 0xE2, CHR 0x80, CHR 0x84], [CHR 0xE2, CHR 0x80, CHR 0x85],
     [CHR 0xE2, CHR 0x80, CHR 0x86], [CHR 0xE2, CHR 0x80, CHR 0x87],
     [CHR 0xE2, CHR 0x80, CHR 0x88], [CHR 0xE2, CHR 0x80, CHR 0x89],
     [CHR 0xE2, CHR 0x80, CHR 0x8A], [CHR 0xE2, CHR 0x80, CHR 0xA8],
     [CHR 0xE2, CHR 0x80, CHR 0xA9], [CHR 0xE2, CHR 0x80, CHR 0xAF],
     [CHR 0xE2, CHR 0x81, CHR 0x9F], [CHR 0xE3, CHR 0x80, CHR 0x80]]"

function trim_left :: "string list \<Rightarrow> string \<Rightarrow> string" where
  "trim_left encs s =
     (case find (\<lambda>e. e \<noteq> [] \<and> prefix e s) encs of
        None \<Rightarrow> s
      | Some e \<Rightarrow> trim_left encs (drop (length e) s))"
  by pat_completeness auto
termination
  by (relation "measure (\<lambda>(encs, s). length s)") (auto simp: find_Some_iff prefix_def)

declare trim_left.simps [simp del]

definition TrimSpace :: "string \<Rightarrow> string" where
  "TrimSpace s = rev (trim_left (map rev space_runes) (rev (trim_left space_runes s)))"

text \<open>What is left of a trim starts with none of the space runes, and so does every prefix
  of it.\<close>

definition starts_with_any :: "string list \<Rightarrow> string \<Rightarrow> bool" where
  "starts_with_any encs s = (\<exists>e\<in>set encs. e \<noteq> [] \<and> prefix e s)"

lemma trim_left_stops: "\<not> starts_with_any encs (trim_left encs s)"
proof (induction encs s rule: trim_left.induct)
  case (1 encs s)
  show ?case
  proof (cases "find (\<lambda>e. e \<noteq> [] \<and> prefix e s) encs")
    case None
    then have "trim_left encs s = s" by (simp add: trim_left.simps [of encs s])
    with None show ?thesis by (auto simp: starts_with_any_def find_None_iff)
  next
    case (Some e)
    with "1.IH" show ?thesis by (simp add: trim_left.simps [of encs s])
  qed
qed

lemma trim_left_id: "\<not> starts_with_any encs s \<Longrightarrow> trim_left encs s = s"
proof -
  assume "\<not> starts_with_any encs s"
  then have "find (\<lambda>e. e \<noteq> [] \<and> prefix e s) encs = None"
    by (auto simp: starts_with_any_def find_None_iff)
  then show ?thesis by (simp add: trim_left.simps [of encs s])
qed

lemma trim_left_suffix: "suffix (trim_left encs s) s"
proof (induction encs s rule: trim_left.induct)
  case (1 encs s)
  show ?case
  proof (cases "find (\<lambda>e. e \<noteq> [] \<and> prefix e s) encs")
    case None
    then show ?thesis by (simp add: trim_left.simps [of encs s])
  next
    case (Some e)
    with "1.IH" show ?thesis
      by (simp add: trim_left.simps [of encs s]) (meson suffix_drop suffix_order.trans)
  qed
qed

lemma starts_with_any_prefix: "prefix r s \<Longrightarrow> starts_with_any encs r \<Longrightarrow> starts_with_any encs s"
  unfolding starts_with_any_def by (meson prefix_order.trans)

lemma TrimSpace_prefix: "prefix (TrimSpace s) (trim_left space_runes s)"
  using trim_left_suffix [of "map rev space_runes" "rev (trim_left space_runes s)"]
  by (simp add: TrimSpace_def suffix_to_prefix)

lemma TrimSpace_idem [simp]: "TrimSpace (TrimSpace s) = TrimSpace s"
proof -
  have "\<not> starts_with_any space_runes (TrimSpace s)"
    using starts_with_any_prefix [OF TrimSpace_prefix] trim_left_stops by blast
  then have l: "trim_left space_runes (TrimSpace s) = TrimSpace s" by (rule trim_left_id)
  have "\<not> starts_with_any (map rev space_runes) (rev (TrimSpace s))"
    by (simp add: TrimSpace_def trim_left_stops)
  then have "trim_left (map rev space_runes) (rev (TrimSpace s)) = rev (TrimSpace s)"
    by (rule trim_left_id)
  with l show ?thesis by (simp add: TrimSpace_def [of "TrimSpace s"])
qed

lemma TrimSpace_Nil [simp]: "TrimSpace [] = []"
  by (simp add: TrimSpace_def trim_left_id starts_with_any_def)

text \<open>A string whose first and last bytes are printable ASCII characters is left alone; this
  is how the identifiers and codes of the witnesses evaluate.\<close>

definition printable :: "char \<Rightarrow> bool" where
  "printable c = (of_char c \<in> {33..126::nat})"

lemma space_rune_head: "e \<in> set space_runes \<Longrightarrow> e \<noteq> [] \<and> \<not> printable (hd e) \<and> \<not> printable (last e)"
  by (auto simp: space_runes_def printable_def)

lemma TrimSpace_printable:
  assumes "s \<noteq> []" "printable (hd s)" "printable (last s)"
  shows "TrimSpace s = s"
proof -
  have "\<not> starts_with_any space_runes s"
  proof
    assume "starts_with_any space_runes s"
    then obtain e where e: "e \<in> set space_runes" "prefix e s" by (auto simp: starts_with_any_def)
    with space_rune_head have "e \<noteq> []" "\<not> printable (hd e)" by auto
    with e(2) assms(2) show False by (auto simp: prefix_def)
  qed
  then have l: "trim_left space_runes s = s" by (rule trim_left_id)
  have "\<not> starts_with_any (map rev space_runes) (rev s)"
  proof
    assume "starts_with_any (map rev space_runes) (rev s)"
    then obtain e where e: "e \<in> set space_runes" "prefix (rev e) (rev s)"
      by (auto simp: starts_with_any_def)
    with space_rune_head have "e \<noteq> []" "\<not> printable (last e)" by auto
    moreover from e(2) have "suffix e s" by (simp add: suffix_to_prefix)
    ultimately show False using assms(3) by (auto simp: suffix_def)
  qed
  then have "trim_left (map rev space_runes) (rev s) = rev s" by (rule trim_left_id)
  with l show ?thesis by (simp add: TrimSpace_def)
qed

section \<open>Case mapping and replacement\<close>

definition upper_byte :: "char \<Rightarrow> char" where
  "upper_byte c = (let n = (of_char c :: nat) in if 97 \<le> n \<and> n \<le> 122 then char_of (n - 32) else c)"

definition lower_byte :: "char \<Rightarrow> char" where
  "lower_byte c = (let n = (of_char c :: nat) in if 65 \<le> n \<and> n \<le> 90 then char_of (n + 32) else c)"

definition ToUpper :: "string \<Rightarrow> string" where
  "ToUpper s = map upper_byte s"

definition ToLower :: "string \<Rightarrow> string" where
  "ToLower s = map lower_byte s"

text \<open>The same by the bits of the byte, for evaluation.\<close>

lemma upper_byte_bits [code]:
  "upper_byte (Char b0 b1 b2 b3 b4 b5 b6 b7) =
     (if b5 \<and> b6 \<and> \<not> b7 \<and> (b0 \<or> b1 \<or> b2 \<or> b3 \<or> b4) \<and> \<not> (b4 \<and> b3 \<and> (b2 \<or> b1 \<and> b0))
      then Char b0 b1 b2 b3 b4 False b6 b7 else Char b0 b1 b2 b3 b4 b5 b6 b7)"
  by (cases b0; cases b1; cases b2; cases b3; cases b4; cases b5; cases b6; cases b7)
    (simp_all add: upper_byte_def of_char_def char_of_def bit_0)

lemma lower_byte_bits [code]:
  "lower_byte (Char b0 b1 b2 b3 b4 b5 b6 b7) =
     (if \<not> b5 \<and> b6 \<and> \<not> b7 \<and> (b0 \<or> b1 \<or> b2 \<or> b3 \<or> b4) \<and> \<not> (b4 \<and> b3 \<and> (b2 \<or> b1 \<and> b0))
      then Char b0 b1 b2 b3 b4 True b6 b7 else Char b0 b1 b2 b3 b4 b5 b6 b7)"
  by (cases b0; cases b1; cases b2; cases b3; cases b4; cases b5; cases b6; cases b7)
    (simp_all add: lower_byte_def of_char_def char_of_def bit_0)

lemma upper_byte_idem [simp]: "upper_byte (upper_byte c) = upper_byte c"
  by (auto simp: upper_byte_def Let_def of_char_of)

lemma ToUpper_idem [simp]: "ToUpper (ToUpper s) = ToUpper s"
  by (simp add: ToUpper_def)

lemma ToUpper_Nil [simp]: "ToUpper [] = []" "ToUpper s = [] \<longleftrightarrow> s = []"
  by (simp_all add: ToUpper_def)

definition ReplaceAllByte :: "char \<Rightarrow> char \<Rightarrow> string \<Rightarrow> string" where
  "ReplaceAllByte old new s = map (\<lambda>c. if c = old then new else c) s"

text \<open>Trimming commutes with upper-casing: no space rune contains an ASCII letter, and
  upper-casing changes ASCII letters only.\<close>

definition letter :: "char \<Rightarrow> bool" where
  "letter c = (of_char c \<in> {65..90::nat} \<or> of_char c \<in> {97..122::nat})"

lemma upper_byte_nonletter:
  assumes "\<not> letter c"
  shows "upper_byte d = c \<longleftrightarrow> d = c"
proof (cases "97 \<le> (of_char d :: nat) \<and> of_char d \<le> (122 :: nat)")
  case True
  then have "(of_char (upper_byte d) :: nat) = of_char d - 32"
    by (auto simp: upper_byte_def Let_def of_char_of intro: mod_less)
  with True assms show ?thesis by (auto simp: letter_def)
next
  case False
  then show ?thesis by (auto simp: upper_byte_def Let_def)
qed

lemma space_rune_nonletter: "e \<in> set space_runes \<Longrightarrow> c \<in> set e \<Longrightarrow> \<not> letter c"
  by (auto simp: space_runes_def letter_def)

lemma prefix_map_upper:
  assumes "\<And>c. c \<in> set e \<Longrightarrow> \<not> letter c"
  shows "prefix e (map upper_byte s) \<longleftrightarrow> prefix e s"
  using assms
proof (induction e arbitrary: s)
  case Nil
  then show ?case by simp
next
  case (Cons a e)
  have "upper_byte d = a \<longleftrightarrow> d = a" for d
    using Cons.prems by (intro upper_byte_nonletter) simp
  then have "a = upper_byte d \<longleftrightarrow> a = d" for d
    by metis
  with Cons show ?case by (cases s) simp_all
qed

lemma trim_left_map_upper:
  assumes "\<And>e c. e \<in> set encs \<Longrightarrow> c \<in> set e \<Longrightarrow> \<not> letter c"
  shows "trim_left encs (map upper_byte s) = map upper_byte (trim_left encs s)"
  using assms
proof (induction encs s rule: trim_left.induct)
  case (1 encs s)
  have eq: "find (\<lambda>e. e \<noteq> [] \<and> prefix e (map upper_byte s)) encs = find (\<lambda>e. e \<noteq> [] \<and> prefix e s) encs"
    using "1.prems" prefix_map_upper by (intro find_cong) blast+
  show ?case
  proof (cases "find (\<lambda>e. e \<noteq> [] \<and> prefix e s) encs")
    case None
    with eq show ?thesis
      by (simp add: trim_left.simps [of encs "map upper_byte s"] trim_left.simps [of encs s])
  next
    case (Some e)
    with eq "1.IH" [OF Some "1.prems"] show ?thesis
      by (simp add: trim_left.simps [of encs "map upper_byte s"] trim_left.simps [of encs s] drop_map)
  qed
qed

lemma TrimSpace_ToUpper: "TrimSpace (ToUpper s) = ToUpper (TrimSpace s)"
proof -
  have l: "trim_left space_runes (map upper_byte x) = map upper_byte (trim_left space_runes x)" for x
    using space_rune_nonletter by (intro trim_left_map_upper) blast
  have r: "trim_left (map rev space_runes) (map upper_byte x) =
             map upper_byte (trim_left (map rev space_runes) x)" for x
    by (intro trim_left_map_upper) (auto dest: space_rune_nonletter)
  show ?thesis by (simp add: TrimSpace_def ToUpper_def l r rev_map)
qed

end
