(* ===== verification/Go_Time.thy ===== *)
theory Go_Time
  imports Prelude "HOL-Library.While_Combinator"
begin

text \<open>
  The part of Go's package \<^verbatim>\<open>time\<close> that the program uses. A \<^verbatim>\<open>time.Time\<close> is an instant
  (nanoseconds since the zero time, 1 January of year 1, 00:00 UTC) together with the
  offset of its location at that instant; \<^verbatim>\<open>Year\<close>, \<^verbatim>\<open>Month\<close> and \<^verbatim>\<open>Day\<close> read the local
  wall clock, while \<^verbatim>\<open>Before\<close>, \<^verbatim>\<open>After\<close>, \<^verbatim>\<open>Equal\<close> and \<^verbatim>\<open>IsZero\<close> look at the instant
  only. \<^verbatim>\<open>Date\<close> normalises months and days the way the package does (month 13 is January
  of the next year, day 0 the last day of the month before). Dates are days of the
  proleptic Gregorian calendar, counted from the zero time.

  The second half is about \<open>dateOnly\<close>, which every package of the program defines for
  itself in the same words, and about \<open>dayRange\<close>, the days a loop
  \<^verbatim>\<open>for day := from; !day.After(to); day = day.AddDate(0, 0, 1)\<close> runs through.
\<close>

section \<open>The calendar\<close>

definition leap :: "int \<Rightarrow> bool" where
  "leap y = (y mod 4 = 0 \<and> (y mod 100 \<noteq> 0 \<or> y mod 400 = 0))"

definition days_before_year :: "int \<Rightarrow> int" where
  "days_before_year y = 365 * (y - 1) + (y - 1) div 4 - (y - 1) div 100 + (y - 1) div 400"

text \<open>Days before month \<open>m\<close> (counted from 0) of a year.\<close>

definition days_before_month :: "bool \<Rightarrow> int \<Rightarrow> int" where
  "days_before_month lp m =
     (if m \<le> 0 then 0 else if m = 1 then 31
      else (if lp then 1 else 0) +
        (if m = 2 then 59 else if m = 3 then 90 else if m = 4 then 120 else if m = 5 then 151
         else if m = 6 then 181 else if m = 7 then 212 else if m = 8 then 243
         else if m = 9 then 273 else if m = 10 then 304 else if m = 11 then 334 else 365))"

definition month_of_yday :: "bool \<Rightarrow> int \<Rightarrow> int" where
  "month_of_yday lp r =
     (if r < days_before_month lp 1 then 0 else if r < days_before_month lp 2 then 1
      else if r < days_before_month lp 3 then 2 else if r < days_before_month lp 4 then 3
      else if r < days_before_month lp 5 then 4 else if r < days_before_month lp 6 then 5
      else if r < days_before_month lp 7 then 6 else if r < days_before_month lp 8 then 7
      else if r < days_before_month lp 9 then 8 else if r < days_before_month lp 10 then 9
      else if r < days_before_month lp 11 then 10 else 11)"

definition year_of_day :: "int \<Rightarrow> int" where
  "year_of_day n =
     (let y = (n * 400) div 146097 + 1
      in if n < days_before_year y then y - 1
         else if days_before_year (y + 1) \<le> n then y + 1 else y)"

text \<open>Year, month (0 to 11) and day of the month (from 1) of a day number.\<close>

definition civil :: "int \<Rightarrow> int \<times> int \<times> int" where
  "civil n =
     (let y = year_of_day n; r = n - days_before_year y; m = month_of_yday (leap y) r
      in (y, m, r - days_before_month (leap y) m + 1))"

text \<open>The day number of year, month and day with \<^verbatim>\<open>Date\<close>'s normalisation.\<close>

definition days_of_civil :: "int \<Rightarrow> int \<Rightarrow> int \<Rightarrow> int" where
  "days_of_civil y m d =
     (let y' = y + m div 12; m' = m mod 12
      in days_before_year y' + days_before_month (leap y') m' + (d - 1))"

lemma div_pred:
  fixes y c :: int
  assumes "0 < c"
  shows "y div c = (y - 1) div c + (if y mod c = 0 then 1 else 0)"
proof (cases "y mod c = 0")
  case True
  then have "y - 1 = (y div c - 1) * c + (c - 1)"
    using div_mult_mod_eq [of y c] by (simp add: algebra_simps)
  moreover have "((y div c - 1) * c + (c - 1)) div c = y div c - 1"
    using assms by (simp add: div_mult_self3 div_pos_pos_trivial)
  ultimately have "(y - 1) div c = y div c - 1" by metis
  with True show ?thesis by simp
next
  case False
  have r: "0 \<le> y mod c - 1" "y mod c - 1 < c"
    using False assms pos_mod_bound [of c y] pos_mod_sign [of c y] by linarith+
  have "y - 1 = (y div c) * c + (y mod c - 1)"
    using div_mult_mod_eq [of y c] by linarith
  moreover have "((y div c) * c + (y mod c - 1)) div c = y div c"
    using r assms by (simp add: div_mult_self3 div_pos_pos_trivial)
  ultimately have "(y - 1) div c = y div c" by metis
  with False show ?thesis by simp
qed

lemma days_before_year_Suc:
  "days_before_year (y + 1) = days_before_year y + (if leap y then 366 else 365)"
proof -
  have m: "y mod 100 = 0 \<Longrightarrow> y mod 4 = 0" "y mod 400 = 0 \<Longrightarrow> y mod 100 = 0"
    using dvd_trans [of 4 100 y] dvd_trans [of 100 400 y] by (simp_all add: dvd_eq_mod_eq_0)
  have corr: "(a \<longrightarrow> b) \<Longrightarrow> (b \<longrightarrow> c) \<Longrightarrow>
      x + 365 + (if c then 1 else 0) - (if b then 1 else 0) + (if a then 1 else 0) =
      x + (if c \<and> (\<not> b \<or> a) then 366 else 365)" for a b c and x :: int
    by (cases a; cases b; cases c) simp_all
  have d: "y div 4 = (y - 1) div 4 + (if y mod 4 = 0 then 1 else 0)"
    "y div 100 = (y - 1) div 100 + (if y mod 100 = 0 then 1 else 0)"
    "y div 400 = (y - 1) div 400 + (if y mod 400 = 0 then 1 else 0)"
    by (rule div_pred, simp)+
  have "days_before_year (y + 1) = 365 * y + y div 4 - y div 100 + y div 400"
    by (simp add: days_before_year_def)
  also have "\<dots> = days_before_year y + 365 + (if y mod 4 = 0 then 1 else 0)
      - (if y mod 100 = 0 then 1 else 0) + (if y mod 400 = 0 then 1 else 0)"
    unfolding days_before_year_def d by simp
  also have "\<dots> = days_before_year y + (if leap y then 366 else 365)"
    unfolding leap_def by (rule corr) (use m in blast)+
  finally show ?thesis .
qed

text \<open>The estimate of \<open>year_of_day\<close> is off by at most one year.\<close>

lemma days_before_year_linear:
  "146097 * (y - 1) - 699 \<le> 400 * days_before_year y"
  "400 * days_before_year y \<le> 146097 * (y - 1) + 396"
proof -
  define k where "k = y - 1"
  define a where "a = k div 4"
  define b where "b = k div 100"
  define c where "c = k div 400"
  have a: "4 * a \<le> k" "k \<le> 4 * a + 3" by (simp_all add: a_def)
  have b: "100 * b \<le> k" "k \<le> 100 * b + 99" by (simp_all add: b_def)
  have c: "400 * c \<le> k" "k \<le> 400 * c + 399" by (simp_all add: c_def)
  have "400 * days_before_year y = 146000 * k + 400 * a - 400 * b + 400 * c"
    by (simp add: days_before_year_def k_def a_def b_def c_def)
  with a b c show "146097 * (y - 1) - 699 \<le> 400 * days_before_year y"
    "400 * days_before_year y \<le> 146097 * (y - 1) + 396"
    by (simp_all add: k_def [symmetric])
qed

lemma year_of_day_bounds:
  "days_before_year (year_of_day n) \<le> n" "n < days_before_year (year_of_day n + 1)"
proof -
  define y where "y = (n * 400) div 146097 + 1"
  have lo: "146097 * (y - 1) \<le> n * 400" and hi: "n * 400 < 146097 * y"
    by (simp_all add: y_def)
  have below: "days_before_year (y - 1) \<le> n"
    using days_before_year_linear(2) [of "y - 1"] lo by simp
  have above: "n < days_before_year (y + 2)"
    using days_before_year_linear(1) [of "y + 2"] hi by simp
  show "days_before_year (year_of_day n) \<le> n" "n < days_before_year (year_of_day n + 1)"
    using below above unfolding year_of_day_def Let_def y_def [symmetric] by (auto simp: add.commute)
qed

lemma days_before_year_mono: "y \<le> z \<Longrightarrow> days_before_year y \<le> days_before_year z"
proof (induction z rule: int_ge_induct)
  case base
  then show ?case by simp
next
  case (step z)
  then show ?case by (auto simp: days_before_year_Suc)
qed

lemma year_of_day_unique:
  assumes "days_before_year y \<le> n" "n < days_before_year (y + 1)"
  shows "year_of_day n = y"
proof (rule ccontr)
  assume "year_of_day n \<noteq> y"
  then consider "year_of_day n + 1 \<le> y" | "y + 1 \<le> year_of_day n" by linarith
  then show False
  proof cases
    case 1
    from days_before_year_mono [OF 1] year_of_day_bounds(2) [of n] assms show False by linarith
  next
    case 2
    from days_before_year_mono [OF 2] year_of_day_bounds(1) [of n] assms show False by linarith
  qed
qed

lemma month_of_yday_range: "0 \<le> month_of_yday lp r" "month_of_yday lp r \<le> 11"
  by (simp_all add: month_of_yday_def)

lemma days_before_month_table:
  "days_before_month lp 0 = 0" "days_before_month lp 1 = 31"
  "days_before_month lp 2 = (if lp then 60 else 59)" "days_before_month lp 3 = (if lp then 91 else 90)"
  "days_before_month lp 4 = (if lp then 121 else 120)" "days_before_month lp 5 = (if lp then 152 else 151)"
  "days_before_month lp 6 = (if lp then 182 else 181)" "days_before_month lp 7 = (if lp then 213 else 212)"
  "days_before_month lp 8 = (if lp then 244 else 243)" "days_before_month lp 9 = (if lp then 274 else 273)"
  "days_before_month lp 10 = (if lp then 305 else 304)" "days_before_month lp 11 = (if lp then 335 else 334)"
  "days_before_month lp 12 = (if lp then 366 else 365)"
  by (simp_all add: days_before_month_def)

lemma month_of_yday_bounds:
  assumes "0 \<le> r" "r < (if lp then 366 else 365)"
  shows "days_before_month lp (month_of_yday lp r) \<le> r"
    "r < days_before_month lp (month_of_yday lp r + 1)"
  using assms by (cases lp; simp add: month_of_yday_def days_before_month_table)+

lemma month_cases:
  fixes m :: int
  assumes "0 \<le> m" "m \<le> 11"
  obtains "m = 0" | "m = 1" | "m = 2" | "m = 3" | "m = 4" | "m = 5"
    | "m = 6" | "m = 7" | "m = 8" | "m = 9" | "m = 10" | "m = 11"
proof (cases "m \<le> 5")
  case True
  with assms have "m = 0 \<or> m = 1 \<or> m = 2 \<or> m = 3 \<or> m = 4 \<or> m = 5" by linarith
  then show ?thesis using that by blast
next
  case False
  with assms have "m = 6 \<or> m = 7 \<or> m = 8 \<or> m = 9 \<or> m = 10 \<or> m = 11" by linarith
  then show ?thesis using that by blast
qed

lemma month_of_yday_unique:
  assumes "0 \<le> m" "m \<le> 11" "days_before_month lp m \<le> r" "r < days_before_month lp (m + 1)"
  shows "month_of_yday lp r = m"
  using assms(1,2)
proof (cases rule: month_cases)
qed (insert assms(3,4), (cases lp; simp add: month_of_yday_def days_before_month_table)+)

lemma days_before_month_total: "days_before_month lp 12 = (if lp then 366 else 365)"
  by (simp add: days_before_month_def)

lemma days_before_month_mono: "m \<le> m' \<Longrightarrow> days_before_month lp m \<le> days_before_month lp m'"
  by (auto simp: days_before_month_def) presburger+

text \<open>The calendar round trips: a day number is its civil date, and a valid civil date is the
  date of its day number.\<close>

lemma days_of_civil_civil: "(case civil n of (y, m, d) \<Rightarrow> days_of_civil y m d) = n"
proof -
  define y where "y = year_of_day n"
  define r where "r = n - days_before_year y"
  define m where "m = month_of_yday (leap y) r"
  have "0 \<le> m" "m \<le> 11" by (simp_all add: m_def month_of_yday_range)
  then have "m div 12 = 0" "m mod 12 = m" by simp_all
  moreover have "civil n = (y, m, r - days_before_month (leap y) m + 1)"
    by (simp add: civil_def Let_def y_def r_def m_def)
  ultimately show ?thesis by (simp add: days_of_civil_def Let_def r_def)
qed

lemma civil_days_of_civil:
  assumes "0 \<le> m" "m \<le> 11" "1 \<le> d" "d \<le> days_before_month (leap y) (m + 1) - days_before_month (leap y) m"
  shows "civil (days_of_civil y m d) = (y, m, d)"
proof -
  define n where "n = days_of_civil y m d"
  have m: "m div 12 = 0" "m mod 12 = m" using assms by simp_all
  have n: "n = days_before_year y + (days_before_month (leap y) m + (d - 1))"
    by (simp add: n_def days_of_civil_def Let_def m)
  have "0 \<le> days_before_month (leap y) m"
    using assms(1) by (auto simp: days_before_month_def)
  moreover have "days_before_month (leap y) (m + 1) \<le> days_before_month (leap y) 12"
    using assms(2) by (intro days_before_month_mono) simp
  ultimately have "year_of_day n = y"
    using n assms by (intro year_of_day_unique)
      (auto simp: days_before_year_Suc days_before_month_total split: if_splits)
  moreover have "month_of_yday (leap y) (days_before_month (leap y) m + (d - 1)) = m"
    using assms by (intro month_of_yday_unique) auto
  ultimately show ?thesis by (simp add: civil_def Let_def n n_def [symmetric])
qed

lemma civil_year_month_bounds:
  assumes "civil n = (y, m, d)"
  shows "0 \<le> m" "m \<le> 11" "1 \<le> d"
    "n = days_before_year y + days_before_month (leap y) m + (d - 1)"
    "n < days_before_year y + days_before_month (leap y) (m + 1)"
proof -
  define r where "r = n - days_before_year y"
  have y: "y = year_of_day n" and m: "m = month_of_yday (leap y) r"
    and d: "d = r - days_before_month (leap y) m + 1"
    using assms by (auto simp: civil_def Let_def r_def)
  have r: "0 \<le> r" "r < (if leap y then 366 else 365)"
    using year_of_day_bounds [of n] by (auto simp: y r_def days_before_year_Suc split: if_splits)
  show "0 \<le> m" "m \<le> 11" by (simp_all add: m month_of_yday_range)
  show "1 \<le> d" using month_of_yday_bounds(1) [OF r] by (simp add: m d)
  show "n = days_before_year y + days_before_month (leap y) m + (d - 1)" by (simp add: d r_def)
  show "n < days_before_year y + days_before_month (leap y) (m + 1)"
    using month_of_yday_bounds(2) [OF r] by (simp add: m r_def)
qed


section \<open>Instants and locations\<close>

record time =
  t_ns :: int \<comment> \<open>nanoseconds since 0001-01-01T00:00:00Z\<close>
  t_off :: int \<comment> \<open>offset of the location at that instant, in seconds east of UTC\<close>

type_synonym duration = int \<comment> \<open>nanoseconds\<close>

definition ns_per_day :: int where
  "ns_per_day = 86400000000000"

definition ns_per_second :: int where
  "ns_per_second = 1000000000"

definition zero_time :: time where
  "zero_time = \<lparr>t_ns = 0, t_off = 0\<rparr>"

definition IsZero :: "time \<Rightarrow> bool" where
  "IsZero t = (t_ns t = 0)"

definition Before :: "time \<Rightarrow> time \<Rightarrow> bool" where
  "Before t u = (t_ns t < t_ns u)"

definition After :: "time \<Rightarrow> time \<Rightarrow> bool" where
  "After t u = (t_ns u < t_ns t)"

definition TimeEqual :: "time \<Rightarrow> time \<Rightarrow> bool" where
  "TimeEqual t u = (t_ns t = t_ns u)"

definition TimeAdd :: "time \<Rightarrow> duration \<Rightarrow> time" where
  "TimeAdd t d = t\<lparr>t_ns := t_ns t + d\<rparr>"

text \<open>\<^verbatim>\<open>t.Sub(u)\<close>: a difference outside the range of a \<^verbatim>\<open>Duration\<close> is its bound.\<close>

definition TimeSub :: "time \<Rightarrow> time \<Rightarrow> duration" where
  "TimeSub t u = max (- (2 ^ 63)) (min (2 ^ 63 - 1) (t_ns t - t_ns u))"

definition UTC :: "time \<Rightarrow> time" where
  "UTC t = t\<lparr>t_off := 0\<rparr>"

text \<open>The wall clock: day number and nanosecond within the day.\<close>

definition local_day :: "time \<Rightarrow> int" where
  "local_day t = (t_ns t + t_off t * ns_per_second) div ns_per_day"

definition local_clock :: "time \<Rightarrow> int" where
  "local_clock t = (t_ns t + t_off t * ns_per_second) mod ns_per_day"

definition Year :: "time \<Rightarrow> int" where
  "Year t = fst (civil (local_day t))"

text \<open>\<^verbatim>\<open>Month\<close> counts from 1 in Go; the model keeps Go's numbering.\<close>

definition Month :: "time \<Rightarrow> int" where
  "Month t = fst (snd (civil (local_day t))) + 1"

definition Day :: "time \<Rightarrow> int" where
  "Day t = snd (snd (civil (local_day t)))"

text \<open>\<^verbatim>\<open>time.Date(y, m, d, <clock>, loc)\<close> for a location of constant offset \<open>off\<close>; the clock
  is given in nanoseconds of the day.\<close>

definition Date :: "int \<Rightarrow> int \<Rightarrow> int \<Rightarrow> int \<Rightarrow> int \<Rightarrow> time" where
  "Date y m d clock off =
     \<lparr>t_ns = days_of_civil y (m - 1) d * ns_per_day + clock - off * ns_per_second, t_off = off\<rparr>"

definition AddDate :: "time \<Rightarrow> int \<Rightarrow> int \<Rightarrow> int \<Rightarrow> time" where
  "AddDate t years months days =
     Date (Year t + years) (Month t + months) (Day t + days) (local_clock t) (t_off t)"

lemmas time_cmp_defs = Before_def After_def TimeEqual_def IsZero_def

lemma ns_per_day_pos [simp]: "0 < ns_per_day" "ns_per_day \<noteq> 0"
  by (simp_all add: ns_per_day_def)

lemma days_of_civil_add_days: "days_of_civil y m (d + k) = days_of_civil y m d + k"
  by (simp add: days_of_civil_def Let_def)

lemma days_of_civil_fields: "days_of_civil (Year t) (Month t - 1) (Day t) = local_day t"
  using days_of_civil_civil [of "local_day t"]
  by (cases "civil (local_day t)") (simp add: Year_def Month_def Day_def)

text \<open>Adding days moves the instant by whole days, whatever the clock and the month.\<close>

lemma AddDate_days: "AddDate t 0 0 k = t\<lparr>t_ns := t_ns t + k * ns_per_day\<rparr>"
proof -
  have "local_day t * ns_per_day + local_clock t = t_ns t + t_off t * ns_per_second"
    by (simp add: local_day_def local_clock_def)
  then have "local_day t * ns_per_day + k * ns_per_day + local_clock t - t_off t * ns_per_second =
      t_ns t + k * ns_per_day"
    by linarith
  moreover have "days_of_civil (Year t) (Month t - 1) (Day t + k) = local_day t + k"
    by (simp only: days_of_civil_add_days days_of_civil_fields)
  ultimately show ?thesis
    by (intro time.equality) (simp_all add: AddDate_def Date_def distrib_right)
qed

section \<open>Calendar dates as times\<close>

text \<open>Midnight UTC of a day number: the values \<open>dateOnly\<close> returns.\<close>

definition day_time :: "int \<Rightarrow> time" where
  "day_time n = \<lparr>t_ns = n * ns_per_day, t_off = 0\<rparr>"

definition dateOnly :: "time \<Rightarrow> time" where
  "dateOnly date =
     (if IsZero date then zero_time
      else Date (Year date) (Month date) (Day date) 0 0)"

text \<open>The day number of \<open>dateOnly\<close>'s result.\<close>

definition date_day :: "time \<Rightarrow> int" where
  "date_day t = (if IsZero t then 0 else local_day t)"

lemma dateOnly_day_time [code]: "dateOnly t = day_time (date_day t)"
  by (simp add: dateOnly_def date_day_def day_time_def zero_time_def Date_def
      days_of_civil_fields)

lemma date_day_day_time [simp]: "date_day (day_time n) = n"
  by (simp add: date_day_def day_time_def local_day_def IsZero_def)

lemma dateOnly_day [simp]: "dateOnly (day_time n) = day_time n"
  by (simp add: dateOnly_day_time)

lemma dateOnly_idem [simp]: "dateOnly (dateOnly t) = dateOnly t"
  by (simp add: dateOnly_day_time)

lemma day_time_inject [simp]: "day_time m = day_time n \<longleftrightarrow> m = n"
  by (simp add: day_time_def)

lemma day_time_cmp [simp]:
  "Before (day_time m) (day_time n) \<longleftrightarrow> m < n"
  "After (day_time m) (day_time n) \<longleftrightarrow> n < m"
  "TimeEqual (day_time m) (day_time n) \<longleftrightarrow> m = n"
  "IsZero (day_time m) \<longleftrightarrow> m = 0"
  by (simp_all add: time_cmp_defs day_time_def)

lemma AddDate_day_time [simp]: "AddDate (day_time n) 0 0 k = day_time (n + k)"
  by (simp add: AddDate_days day_time_def algebra_simps)

lemma local_day_day_time [simp]: "local_day (day_time n) = n"
  by (simp add: local_day_def day_time_def)

section \<open>Months\<close>

text \<open>First and last day of the month of a day number.\<close>

definition month_first :: "int \<Rightarrow> int" where
  "month_first n = (case civil n of (y, m, _) \<Rightarrow> days_of_civil y m 1)"

definition month_last :: "int \<Rightarrow> int" where
  "month_last n = (case civil n of (y, m, _) \<Rightarrow> days_of_civil y (m + 1) 0)"

lemma days_of_civil_next_month:
  assumes "0 \<le> m" "m \<le> 11"
  shows "days_of_civil y (m + 1) 0 = days_before_year y + days_before_month (leap y) (m + 1) - 1"
proof (cases "m = 11")
  case True
  have "days_of_civil y 12 0 = days_before_year (y + 1) - 1"
    by (simp add: days_of_civil_def Let_def days_before_month_table)
  with True show ?thesis by (simp add: days_before_year_Suc days_before_month_table)
next
  case False
  with assms have "(m + 1) div 12 = 0" "(m + 1) mod 12 = m + 1" by simp_all
  then show ?thesis by (simp add: days_of_civil_def Let_def)
qed

lemma month_first_le: "month_first n \<le> n"
proof (cases "civil n")
  case (fields y m d)
  note b = civil_year_month_bounds [OF fields]
  then have "m div 12 = 0" "m mod 12 = m" by simp_all
  with b fields show ?thesis by (simp add: month_first_def days_of_civil_def Let_def)
qed

lemma month_last_ge: "n \<le> month_last n"
proof (cases "civil n")
  case (fields y m d)
  note b = civil_year_month_bounds [OF fields]
  with fields show ?thesis by (simp add: month_last_def days_of_civil_next_month)
qed

text \<open>A day between the first and the last day of a month belongs to that month.\<close>

lemma same_month:
  assumes "month_first n \<le> k" "k \<le> month_last n"
  shows "month_first k = month_first n" "month_last k = month_last n"
    "fst (civil k) = fst (civil n)" "fst (snd (civil k)) = fst (snd (civil n))"
proof -
  obtain y m d where c: "civil n = (y, m, d)" by (cases "civil n")
  note b = civil_year_month_bounds [OF c]
  then have m: "m div 12 = 0" "m mod 12 = m" by simp_all
  define e where "e = k - days_before_year y - days_before_month (leap y) m + 1"
  have first: "month_first n = days_before_year y + days_before_month (leap y) m"
    by (simp add: month_first_def c days_of_civil_def Let_def m)
  have "month_last n = days_before_year y + days_before_month (leap y) (m + 1) - 1"
    by (simp add: month_last_def c days_of_civil_next_month b(1,2))
  with assms first have "civil (days_of_civil y m e) = (y, m, e)"
    using b by (intro civil_days_of_civil) (simp_all add: e_def)
  moreover have "days_of_civil y m e = k"
    by (simp add: days_of_civil_def Let_def m e_def)
  ultimately have ck: "civil k = (y, m, e)" by simp
  show "month_first k = month_first n" "month_last k = month_last n"
    "fst (civil k) = fst (civil n)" "fst (snd (civil k)) = fst (snd (civil n))"
    by (simp_all add: month_first_def month_last_def c ck)
qed

lemma Date_month_first: "Date (Year (day_time n)) (Month (day_time n)) 1 0 0 = day_time (month_first n)"
  by (cases "civil n")
    (simp add: Date_def Year_def Month_def month_first_def day_time_def [of "days_of_civil _ _ _"])

lemma Date_month_last: "Date (Year (day_time n)) (Month (day_time n) + 1) 0 0 0 = day_time (month_last n)"
  by (cases "civil n")
    (simp add: Date_def Year_def Month_def month_last_def day_time_def [of "days_of_civil _ _ _"]
      add.commute [of 1])

section \<open>Day loops\<close>

function dayRange :: "time \<Rightarrow> time \<Rightarrow> time list" where
  "dayRange day toDate =
     (if After day toDate then [] else day # dayRange (AddDate day 0 0 1) toDate)"
  by pat_completeness auto
termination
  by (relation "measure (\<lambda>(day, to). nat (t_ns to - t_ns day + 1))")
    (auto simp: AddDate_days After_def ns_per_day_def)

declare dayRange.simps [simp del]

lemma dayRange_day_time: "dayRange (day_time m) (day_time n) = map day_time [m..n]"
proof (induction "nat (n - m + 1)" arbitrary: m)
  case 0
  then show ?case by (subst dayRange.simps) simp
next
  case (Suc k)
  then have "m \<le> n" "k = nat (n - (m + 1) + 1)" by linarith+
  with Suc.hyps(1) [of "m + 1"] show ?case
    by (subst dayRange.simps) (simp add: upto_rec1)
qed

text \<open>The loop as the code writes it, which may not end for all the syntax says:
  \<^verbatim>\<open>for day := fromDate; !day.After(toDate); day = day.AddDate(0, 0, 1)\<close>, with the days it visits.\<close>

definition dayLoop :: "time \<Rightarrow> time \<Rightarrow> (time \<times> time list) option" where
  "dayLoop fromDate toDate =
     while_option (\<lambda>(day, days). \<not> After day toDate) (\<lambda>(day, days). (AddDate day 0 0 1, days @ [day])) (fromDate, [])"

lemma AddDate_add_days: "AddDate (AddDate t 0 0 j) 0 0 k = AddDate t 0 0 (j + k)"
  by (simp add: AddDate_days algebra_simps)

lemma while_days:
  "while_option (\<lambda>(day, days). \<not> After day toDate) (\<lambda>(day, days). (AddDate day 0 0 1, days @ [day])) (day, acc) =
     Some (AddDate day 0 0 (int (length (dayRange day toDate))), acc @ dayRange day toDate)"
proof (induction day toDate arbitrary: acc rule: dayRange.induct)
  case (1 day toDate)
  show ?case
  proof (cases "After day toDate")
    case True
    then show ?thesis by (subst while_option_unfold) (simp add: dayRange.simps [of day] AddDate_days)
  next
    case False
    with 1 have "while_option (\<lambda>(day, days). \<not> After day toDate) (\<lambda>(day, days). (AddDate day 0 0 1, days @ [day]))
        (AddDate day 0 0 1, acc @ [day]) =
      Some (AddDate (AddDate day 0 0 1) 0 0 (int (length (dayRange (AddDate day 0 0 1) toDate))),
        (acc @ [day]) @ dayRange (AddDate day 0 0 1) toDate)" by blast
    with False show ?thesis
      by (subst while_option_unfold) (simp add: dayRange.simps [of day] AddDate_add_days add.commute)
  qed
qed

lemma length_dayRange: "length (dayRange day toDate) = nat ((t_ns toDate - t_ns day) div ns_per_day + 1)"
proof (induction day toDate rule: dayRange.induct)
  case (1 day toDate)
  show ?case
  proof (cases "After day toDate")
    case True
    then have "(t_ns toDate - t_ns day) div ns_per_day \<le> - 1"
      using div_neg_pos_less0 [of "t_ns toDate - t_ns day" ns_per_day] by (simp add: After_def ns_per_day_def)
    with True show ?thesis by (simp add: dayRange.simps [of day])
  next
    case False
    have "t_ns toDate - t_ns (AddDate day 0 0 1) = t_ns toDate - t_ns day + - 1 * ns_per_day" by (simp add: AddDate_days)
    then have "(t_ns toDate - t_ns (AddDate day 0 0 1)) div ns_per_day = (t_ns toDate - t_ns day) div ns_per_day - 1"
      using div_mult_self1 [of ns_per_day "t_ns toDate - t_ns day" "- 1"] by (simp add: ns_per_day_def)
    moreover have "0 \<le> (t_ns toDate - t_ns day) div ns_per_day"
      using False by (simp add: After_def ns_per_day_def)
    ultimately show ?thesis using False 1 by (simp add: dayRange.simps [of day])
  qed
qed

text \<open>C11. The day loops of the interest engine end. Between any two times, also when they are not
  midnights, lie in different zones or are in the wrong order, the loop runs once for every full day
  from the first to the last and once more, never if the last is before the first; the days it visits
  are those of \<open>dayRange\<close>, over which the model of the engine recurs.\<close>

theorem day_loop_terminates:
  "dayLoop fromDate toDate =
     Some (AddDate fromDate 0 0 (int (length (dayRange fromDate toDate))), dayRange fromDate toDate) \<and>
   length (dayRange fromDate toDate) = nat ((t_ns toDate - t_ns fromDate) div ns_per_day + 1)"
  by (simp add: dayLoop_def while_days length_dayRange)

end
