(* ===== verification/Decimal.thy ===== *)
theory Decimal
  imports Complex_Main Prelude
begin

text \<open>
  The package \<^verbatim>\<open>github.com/shopspring/decimal\<close> is not part of the repository. The model
  takes it as a parameter: a record \<open>'d decimal_ops\<close> of the operations the program calls,
  over an arbitrary type \<open>'d\<close> of decimals, and the locale \<open>decimal_pkg\<close> with what the
  package documents of them, stated through the rational value \<open>val x\<close> of a decimal \<open>x\<close>:
  addition, subtraction, multiplication and negation are exact, \<^verbatim>\<open>Round\<close> rounds half away
  from zero, \<^verbatim>\<open>Div\<close> rounds the quotient to 16 decimal places, comparisons compare values,
  a decimal is an integer multiple of ten to the power of its exponent, and the text of a
  non-negative integer is its digits.

  The type \<open>dec\<close> (coefficient and scale) with \<open>dec_ops\<close> is a concrete implementation of
  these operations; the interpretation \<open>dec\<close> proves the laws for it, and the witnesses
  evaluate on it.
\<close>

section \<open>Rounding of rationals\<close>

text \<open>Truncation towards zero.\<close>

definition trunc :: "rat \<Rightarrow> int" where
  "trunc q = (if q < 0 then - \<lfloor>- q\<rfloor> else \<lfloor>q\<rfloor>)"

definition round_away :: "nat \<Rightarrow> rat \<Rightarrow> rat" where
  "round_away n q =
     (if q < 0 then - of_int \<lfloor>- q * 10 ^ n + 1 / 2\<rfloor> / 10 ^ n
      else of_int \<lfloor>q * 10 ^ n + 1 / 2\<rfloor> / 10 ^ n)"

text \<open>A rational with at most \<open>n\<close> decimal places.\<close>

definition has_scale :: "nat \<Rightarrow> rat \<Rightarrow> bool" where
  "has_scale n q \<longleftrightarrow> of_int \<lfloor>q * 10 ^ n\<rfloor> = q * 10 ^ n"

lemma has_scaleI: "q * 10 ^ n = of_int k \<Longrightarrow> has_scale n q"
  by (simp add: has_scale_def)

lemma has_scaleE:
  assumes "has_scale n q"
  obtains k where "q * 10 ^ n = of_int k"
  using that [of "\<lfloor>q * 10 ^ n\<rfloor>"] assms unfolding has_scale_def by metis

lemma has_scale_uminus [simp]: "has_scale n (- q) \<longleftrightarrow> has_scale n q"
  by (metis add.inverse_inverse has_scaleE has_scaleI mult_minus_left of_int_minus)

lemma has_scale_add: "has_scale n p \<Longrightarrow> has_scale n q \<Longrightarrow> has_scale n (p + q)"
  by (metis distrib_right has_scaleE has_scaleI of_int_add)

lemma has_scale_of_int [simp]: "has_scale n (of_int k)"
  by (rule has_scaleI [where k = "k * 10 ^ n"]) simp

lemma has_scale_zero [simp]: "has_scale n 0"
  using has_scale_of_int [of n 0] by simp

lemma has_scale_mono:
  assumes "has_scale m q" "m \<le> n"
  shows "has_scale n q"
proof -
  obtain k where k: "q * 10 ^ m = of_int k" using assms(1) by (rule has_scaleE)
  have "q * 10 ^ n = q * 10 ^ m * 10 ^ (n - m)"
    using assms(2) by (simp flip: power_add)
  then have "q * 10 ^ n = of_int (k * 10 ^ (n - m))" by (simp add: k)
  then show ?thesis by (rule has_scaleI)
qed

lemma has_scale_round_away [simp]: "has_scale n (round_away n q)"
proof -
  have "round_away n q * 10 ^ n =
      of_int (if q < 0 then - \<lfloor>- q * 10 ^ n + 1 / 2\<rfloor> else \<lfloor>q * 10 ^ n + 1 / 2\<rfloor>)"
    by (simp add: round_away_def)
  then show ?thesis by (rule has_scaleI)
qed

lemma floor_of_int_half: "\<lfloor>(of_int k :: rat) + 1 / 2\<rfloor> = k"
  by linarith

text \<open>Rounding changes exactly the rationals with more places.\<close>

lemma round_away_id:
  assumes "has_scale n q"
  shows "round_away n q = q"
proof -
  obtain k where k: "q * 10 ^ n = of_int k" using assms by (rule has_scaleE)
  then have "\<lfloor>q * 10 ^ n + 1 / 2\<rfloor> = k" "\<lfloor>- q * 10 ^ n + 1 / 2\<rfloor> = - k"
    using floor_of_int_half [of k] floor_of_int_half [of "- k"] by simp_all
  then have "round_away n q = of_int k / 10 ^ n" by (simp add: round_away_def)
  then have "round_away n q * 10 ^ n = q * 10 ^ n" by (simp add: k)
  then show ?thesis by (simp only: mult_cancel_right) simp
qed

lemma round_away_eq_iff: "round_away n q = q \<longleftrightarrow> has_scale n q"
  using has_scale_round_away [of n q] round_away_id by metis

lemma round_away_zero [simp]: "round_away n 0 = 0"
  by (simp add: round_away_id)

lemma round_away_uminus: "round_away n (- q) = - round_away n q"
  by (cases "q = 0") (auto simp: round_away_def floor_eq_iff)

lemma round_away_nonneg: "0 \<le> q \<Longrightarrow> 0 \<le> round_away n q"
  by (simp add: round_away_def)

lemma round_away_mono_nonneg: "0 \<le> p \<Longrightarrow> p \<le> q \<Longrightarrow> round_away n p \<le> round_away n q"
  by (simp add: round_away_def divide_right_mono floor_mono mult_right_mono)

lemma round_away_error:
  "\<bar>round_away n q - q\<bar> \<le> 1 / 2 / 10 ^ n"
proof -
  have *: "\<bar>of_int \<lfloor>x * 10 ^ n + 1 / 2\<rfloor> / 10 ^ n - x\<bar> \<le> 1 / 2 / 10 ^ n" for x :: rat
  proof -
    define k where "k = (of_int \<lfloor>x * 10 ^ n + 1 / 2\<rfloor> :: rat)"
    have "\<bar>k - x * 10 ^ n\<bar> \<le> 1 / 2" unfolding k_def by linarith
    then have "\<bar>k - x * 10 ^ n\<bar> / 10 ^ n \<le> 1 / 2 / 10 ^ n" by (rule divide_right_mono) simp
    moreover have "k / 10 ^ n - x = (k - x * 10 ^ n) / 10 ^ n" by (simp add: diff_divide_distrib)
    ultimately show ?thesis by (simp only: k_def [symmetric] abs_divide) simp
  qed
  show ?thesis
  proof (cases "q < 0")
    case True
    have "\<bar>round_away n q - q\<bar> = \<bar>of_int \<lfloor>- q * 10 ^ n + 1 / 2\<rfloor> / 10 ^ n - - q\<bar>"
      using True by (simp add: round_away_def abs_minus_commute)
    with * [of "- q"] show ?thesis by simp
  next
    case False
    with * [of q] show ?thesis by (simp add: round_away_def)
  qed
qed

lemma trunc_of_int [simp]: "trunc (of_int k) = k"
  by (simp add: trunc_def)

lemma trunc_of_nat [simp]: "trunc (of_nat k) = int k"
  by (simp add: trunc_def)

section \<open>Digits\<close>

definition digit :: "nat \<Rightarrow> char" where
  "digit k = char_of (48 + k)"

lemma digit_table [code]: "digit k = (if k < 10 then ''0123456789'' ! k else char_of (48 + k))"
proof (cases "k < 10")
  case True
  then have "k = 0 \<or> k = 1 \<or> k = 2 \<or> k = 3 \<or> k = 4 \<or> k = 5 \<or> k = 6 \<or> k = 7 \<or> k = 8 \<or> k = 9" by arith
  then show ?thesis by (elim disjE) (simp_all add: digit_def char_of_def bit_0 bit_numeral_rec)
qed (simp add: digit_def)

fun digits_of :: "nat \<Rightarrow> string" where
  "digits_of n = (if n < 10 then [digit n] else digits_of (n div 10) @ [digit (n mod 10)])"

declare digits_of.simps [simp del]

lemma digits_of_Nil [simp]: "digits_of n \<noteq> []"
  by (subst digits_of.simps) simp

text \<open>A number has at most \<open>k\<close> digits exactly when it is below ten to the power \<open>k\<close>.\<close>

lemma length_digits_of: "0 < k \<Longrightarrow> length (digits_of n) \<le> k \<longleftrightarrow> n < 10 ^ k"
proof (induction n arbitrary: k rule: digits_of.induct)
  case (1 n)
  show ?case
  proof (cases "n < 10")
    case True
    with \<open>0 < k\<close> have "n < 10 ^ k" by (meson less_le_trans one_le_power power_increasing self_le_power
        one_le_numeral)
    with True \<open>0 < k\<close> show ?thesis by (subst digits_of.simps) simp
  next
    case False
    obtain j where k: "k = Suc j" using \<open>0 < k\<close> by (cases k) auto
    show ?thesis
    proof (cases "j = 0")
      case True
      have "length (digits_of (n div 10)) > 0" by simp
      with False k True show ?thesis by (subst digits_of.simps) simp
    next
      case False': False
      have "length (digits_of n) \<le> k \<longleftrightarrow> length (digits_of (n div 10)) \<le> j"
        using False k by (subst digits_of.simps) simp
      also have "\<dots> \<longleftrightarrow> n div 10 < 10 ^ j" using 1 False False' by simp
      also have "\<dots> \<longleftrightarrow> n < 10 ^ k" by (simp add: k less_mult_imp_div_less div_less_iff_less_mult mult.commute)
      finally show ?thesis .
    qed
  qed
qed

section \<open>The package's operations\<close>

record 'd decimal_ops =
  d_Zero :: 'd
  d_NewFromInt :: "int \<Rightarrow> 'd"
  d_NewFromString :: "string \<Rightarrow> 'd option"
  d_Add :: "'d \<Rightarrow> 'd \<Rightarrow> 'd"
  d_Sub :: "'d \<Rightarrow> 'd \<Rightarrow> 'd"
  d_Mul :: "'d \<Rightarrow> 'd \<Rightarrow> 'd"
  d_Div :: "'d \<Rightarrow> 'd \<Rightarrow> 'd"
  d_Neg :: "'d \<Rightarrow> 'd"
  d_Abs :: "'d \<Rightarrow> 'd"
  d_Round :: "'d \<Rightarrow> int \<Rightarrow> 'd"
  d_Truncate :: "'d \<Rightarrow> int \<Rightarrow> 'd"
  d_Cmp :: "'d \<Rightarrow> 'd \<Rightarrow> int"
  d_Exponent :: "'d \<Rightarrow> int"
  d_IsInteger :: "'d \<Rightarrow> bool"
  d_IntPart :: "'d \<Rightarrow> int"
  d_String :: "'d \<Rightarrow> string"
  d_StringFixed :: "'d \<Rightarrow> int \<Rightarrow> string"

text \<open>\<^verbatim>\<open>RequireFromString\<close> panics on malformed text; the program calls it only on literals.\<close>

definition d_RequireFromString :: "'d decimal_ops \<Rightarrow> string \<Rightarrow> 'd" where
  "d_RequireFromString D s = (case d_NewFromString D s of Some x \<Rightarrow> x | None \<Rightarrow> d_Zero D)"

text \<open>The package's comparisons are readings of \<^verbatim>\<open>Cmp\<close>.\<close>

definition d_Equal :: "'d decimal_ops \<Rightarrow> 'd \<Rightarrow> 'd \<Rightarrow> bool" where
  "d_Equal D x y = (d_Cmp D x y = 0)"

definition d_LessThan :: "'d decimal_ops \<Rightarrow> 'd \<Rightarrow> 'd \<Rightarrow> bool" where
  "d_LessThan D x y = (d_Cmp D x y = -1)"

definition d_GreaterThan :: "'d decimal_ops \<Rightarrow> 'd \<Rightarrow> 'd \<Rightarrow> bool" where
  "d_GreaterThan D x y = (d_Cmp D x y = 1)"

definition d_IsZero :: "'d decimal_ops \<Rightarrow> 'd \<Rightarrow> bool" where
  "d_IsZero D x = (d_Cmp D x (d_Zero D) = 0)"

definition d_IsPositive :: "'d decimal_ops \<Rightarrow> 'd \<Rightarrow> bool" where
  "d_IsPositive D x = (d_Cmp D x (d_Zero D) = 1)"

definition d_IsNegative :: "'d decimal_ops \<Rightarrow> 'd \<Rightarrow> bool" where
  "d_IsNegative D x = (d_Cmp D x (d_Zero D) = -1)"

lemmas d_cmp_defs = d_Equal_def d_LessThan_def d_GreaterThan_def d_IsZero_def d_IsPositive_def
  d_IsNegative_def

locale decimal_pkg =
  fixes D :: "'d decimal_ops" and val :: "'d \<Rightarrow> rat"
  assumes val_Zero [simp]: "val (d_Zero D) = 0"
    and val_NewFromInt [simp]: "val (d_NewFromInt D i) = of_int i"
    and val_Add [simp]: "val (d_Add D x y) = val x + val y"
    and val_Sub [simp]: "val (d_Sub D x y) = val x - val y"
    and val_Mul [simp]: "val (d_Mul D x y) = val x * val y"
    and val_Neg [simp]: "val (d_Neg D x) = - val x"
    and val_Abs [simp]: "val (d_Abs D x) = \<bar>val x\<bar>"
    and val_Div: "val y \<noteq> 0 \<Longrightarrow> val (d_Div D x y) = round_away 16 (val x / val y)"
    and val_Round: "0 \<le> n \<Longrightarrow> val (d_Round D x n) = round_away (nat n) (val x)"
    and val_Truncate: "val (d_Truncate D x 0) = of_int (trunc (val x))"
    and Cmp_val: "d_Cmp D x y = (if val x < val y then -1 else if val x = val y then 0 else 1)"
    and Exponent_val: "has_scale (nat (- d_Exponent D x)) (val x)"
    and IsInteger_val [simp]: "d_IsInteger D x \<longleftrightarrow> has_scale 0 (val x)"
    and IntPart_val: "- (2 ^ 63) \<le> trunc (val x) \<Longrightarrow> trunc (val x) < 2 ^ 63 \<Longrightarrow>
          d_IntPart D x = trunc (val x)"
    and String_val: "val x = of_nat k \<Longrightarrow> d_String D x = digits_of k"
    and NewFromString_digits: "\<exists>x. d_NewFromString D (digits_of k) = Some x \<and> val x = of_nat k"
begin

lemma cmp_val [simp]:
  "d_Equal D x y \<longleftrightarrow> val x = val y"
  "d_LessThan D x y \<longleftrightarrow> val x < val y"
  "d_GreaterThan D x y \<longleftrightarrow> val y < val x"
  "d_IsZero D x \<longleftrightarrow> val x = 0"
  "d_IsPositive D x \<longleftrightarrow> 0 < val x"
  "d_IsNegative D x \<longleftrightarrow> val x < 0"
  by (auto simp: d_cmp_defs Cmp_val)

lemma val_RequireFromString: "val (d_RequireFromString D (digits_of k)) = of_nat k"
  using NewFromString_digits [of k] by (auto simp: d_RequireFromString_def)

lemma val_foldl_Add:
  "val (foldl (\<lambda>a x. d_Add D a (f x)) z xs) = val z + sum_list (map (\<lambda>x. val (f x)) xs)"
  by (induction xs arbitrary: z) simp_all

end

section \<open>A concrete implementation\<close>

datatype dec = Dec (dcoef: int) (dscale: nat)

definition dval :: "dec \<Rightarrow> rat" where
  "dval x = of_int (dcoef x) / 10 ^ dscale x"

definition rescale :: "nat \<Rightarrow> dec \<Rightarrow> int" where
  "rescale n x = dcoef x * 10 ^ (n - dscale x)"

definition dec_Add :: "dec \<Rightarrow> dec \<Rightarrow> dec" where
  "dec_Add x y = (let n = max (dscale x) (dscale y) in Dec (rescale n x + rescale n y) n)"

definition dec_Cmp :: "dec \<Rightarrow> dec \<Rightarrow> int" where
  "dec_Cmp x y =
     (let n = max (dscale x) (dscale y)
      in if rescale n x < rescale n y then -1 else if rescale n x = rescale n y then 0 else 1)"

text \<open>Division of integers, the quotient rounded half away from zero.\<close>

definition div_away :: "int \<Rightarrow> int \<Rightarrow> int" where
  "div_away a b = sgn a * sgn b * ((2 * \<bar>a\<bar> + \<bar>b\<bar>) div (2 * \<bar>b\<bar>))"

definition dec_Round :: "dec \<Rightarrow> int \<Rightarrow> dec" where
  "dec_Round x n =
     (if nat n < dscale x then Dec (div_away (dcoef x) (10 ^ (dscale x - nat n))) (nat n) else x)"

definition dec_Div :: "dec \<Rightarrow> dec \<Rightarrow> dec" where
  "dec_Div x y = Dec (div_away (dcoef x * 10 ^ (16 + dscale y)) (dcoef y * 10 ^ dscale x)) 16"

definition dec_Trunc :: "dec \<Rightarrow> int" where
  "dec_Trunc x = sgn (dcoef x) * (\<bar>dcoef x\<bar> div 10 ^ dscale x)"

function int_digits :: "int \<Rightarrow> string" where
  "int_digits n =
     (if n < 10 then [digit (nat n)] else int_digits (n div 10) @ [digit (nat (n mod 10))])"
  by pat_completeness auto
termination
  by (relation "measure nat") auto

declare int_digits.simps [simp del]

lemma int_digits_of: "0 \<le> n \<Longrightarrow> int_digits n = digits_of (nat n)"
proof (induction n rule: int_digits.induct)
  case (1 n)
  show ?case
  proof (cases "n < 10")
    case True
    then show ?thesis by (subst int_digits.simps, subst digits_of.simps) simp
  next
    case False
    then have "nat (n div 10) = nat n div 10" "nat (n mod 10) = nat n mod 10"
      by (simp_all add: nat_div_distrib nat_mod_distrib)
    moreover have "int_digits (n div 10) = digits_of (nat (n div 10))" using 1 False by simp
    moreover have "\<not> nat n < 10" using False by simp
    ultimately show ?thesis using False unfolding int_digits.simps [of n] digits_of.simps [of "nat n"] by (simp only: if_False)
  qed
qed

definition dec_frac :: "dec \<Rightarrow> string" where
  "dec_frac x =
     (let ds = int_digits (\<bar>dcoef x\<bar> mod 10 ^ dscale x)
      in replicate (dscale x - length ds) (digit 0) @ ds)"

definition dec_String :: "dec \<Rightarrow> string" where
  "dec_String x =
     (if dcoef x < 0 then ''-'' else '''') @ int_digits (\<bar>dcoef x\<bar> div 10 ^ dscale x) @
     (if \<bar>dcoef x\<bar> mod 10 ^ dscale x = 0 then []
      else ''.'' @ rev (dropWhile (\<lambda>c. c = digit 0) (rev (dec_frac x))))"

definition dec_StringFixed :: "dec \<Rightarrow> int \<Rightarrow> string" where
  "dec_StringFixed x n =
     (let r = dec_Round x n; f = (if dscale r = 0 then [] else dec_frac r)
      in (if dcoef r < 0 then ''-'' else '''') @ int_digits (\<bar>dcoef r\<bar> div 10 ^ dscale r) @
         (if nat n = 0 then [] else ''.'' @ f @ replicate (nat n - length f) (digit 0)))"

text \<open>A sign, digits and an optional fraction; exponents are left out.\<close>

definition is_digit :: "char \<Rightarrow> bool" where
  "is_digit c = (48 \<le> (of_char c :: nat) \<and> (of_char c :: nat) \<le> 57)"

lemma is_digit_bits [code]:
  "is_digit (Char b0 b1 b2 b3 b4 b5 b6 b7) \<longleftrightarrow> \<not> b7 \<and> \<not> b6 \<and> b5 \<and> b4 \<and> \<not> (b3 \<and> (b2 \<or> b1))"
  by (cases b0; cases b1; cases b2; cases b3; cases b4; cases b5; cases b6; cases b7)
    (simp_all add: is_digit_def of_char_def)

definition int_of_digits :: "string \<Rightarrow> int" where
  "int_of_digits s = foldl (\<lambda>a c. 10 * a + (of_char c - 48)) 0 s"

definition dec_unsigned :: "string \<Rightarrow> dec option" where
  "dec_unsigned s =
     (let i = takeWhile is_digit s; r = dropWhile is_digit s
      in if r = [] then (if i = [] then None else Some (Dec (int_of_digits i) 0))
         else if hd r = CHR ''.'' \<and> list_all is_digit (tl r) \<and> i @ tl r \<noteq> []
         then Some (Dec (int_of_digits (i @ tl r)) (length (tl r)))
         else None)"

definition dec_NewFromString :: "string \<Rightarrow> dec option" where
  "dec_NewFromString s =
     (case s of [] \<Rightarrow> None
      | c # cs \<Rightarrow>
          if c = CHR ''-'' then map_option (\<lambda>x. Dec (- dcoef x) (dscale x)) (dec_unsigned cs)
          else if c = CHR ''+'' then dec_unsigned cs else dec_unsigned s)"

definition dec_ops :: "dec decimal_ops" where
  "dec_ops =
     \<lparr>d_Zero = Dec 0 0, d_NewFromInt = (\<lambda>k. Dec k 0), d_NewFromString = dec_NewFromString,
      d_Add = dec_Add, d_Sub = (\<lambda>x y. dec_Add x (Dec (- dcoef y) (dscale y))),
      d_Mul = (\<lambda>x y. Dec (dcoef x * dcoef y) (dscale x + dscale y)),
      d_Div = dec_Div, d_Neg = (\<lambda>x. Dec (- dcoef x) (dscale x)),
      d_Abs = (\<lambda>x. Dec \<bar>dcoef x\<bar> (dscale x)), d_Round = dec_Round,
      d_Truncate = (\<lambda>x n. if nat n = 0 then Dec (dec_Trunc x) 0 else x),
      d_Cmp = dec_Cmp, d_Exponent = (\<lambda>x. - int (dscale x)),
      d_IsInteger = (\<lambda>x. dcoef x mod 10 ^ dscale x = 0), d_IntPart = dec_Trunc,
      d_String = dec_String, d_StringFixed = dec_StringFixed\<rparr>"

lemmas dec_ops_simps [go_eval] = dec_ops_def dec_Add_def dec_Cmp_def dec_Round_def dec_Div_def
  dec_Trunc_def rescale_def div_away_def d_cmp_defs

lemma dval_rescale: "dscale x \<le> n \<Longrightarrow> of_int (rescale n x) = dval x * 10 ^ n"
  by (simp add: rescale_def dval_def field_simps flip: power_add)

lemma dval_Add: "dval (dec_Add x y) = dval x + dval y"
  by (simp add: dec_Add_def Let_def dval_def [of "Dec _ _"] dval_rescale add_divide_distrib)

lemma dec_Cmp_dval:
  "dec_Cmp x y = (if dval x < dval y then -1 else if dval x = dval y then 0 else 1)"
proof -
  define n where "n = max (dscale x) (dscale y)"
  have eq: "of_int (rescale n x) = dval x * 10 ^ n" "of_int (rescale n y) = dval y * 10 ^ n"
    by (simp_all add: dval_rescale n_def)
  have "rescale n x < rescale n y \<longleftrightarrow> (of_int (rescale n x) :: rat) < of_int (rescale n y)" by simp
  also have "\<dots> \<longleftrightarrow> dval x < dval y" by (simp add: eq)
  finally have lt: "rescale n x < rescale n y \<longleftrightarrow> dval x < dval y" .
  have "rescale n x = rescale n y \<longleftrightarrow> (of_int (rescale n x) :: rat) = of_int (rescale n y)"
    by (simp only: of_int_eq_iff)
  also have "\<dots> \<longleftrightarrow> dval x = dval y" by (simp add: eq)
  finally show ?thesis using lt by (simp add: dec_Cmp_def Let_def n_def [symmetric])
qed

lemma dval_neg_iff: "dval x < 0 \<longleftrightarrow> dcoef x < 0"
  by (simp add: dval_def divide_less_0_iff)

text \<open>Integer division with rounding is rounding of the quotient.\<close>

lemma div_away_eq:
  assumes "b \<noteq> 0" "(of_int a / of_int b :: rat) = q * 10 ^ n"
  shows "of_int (div_away a b) / 10 ^ n = round_away n q"
proof -
  have pos: "(0::rat) < 10 ^ n" by simp
  have fl: "\<lfloor>of_int \<bar>a\<bar> / of_int \<bar>b\<bar> + 1 / 2 :: rat\<rfloor> = (2 * \<bar>a\<bar> + \<bar>b\<bar>) div (2 * \<bar>b\<bar>)"
  proof -
    have "of_int \<bar>a\<bar> / of_int \<bar>b\<bar> + 1 / 2 = (of_int (2 * \<bar>a\<bar> + \<bar>b\<bar>) / of_int (2 * \<bar>b\<bar>) :: rat)"
      using assms(1) by (simp add: field_simps)
    then show ?thesis by (simp only: floor_divide_of_int_eq)
  qed
  have ab: "\<bar>q * 10 ^ n\<bar> = of_int \<bar>a\<bar> / of_int \<bar>b\<bar>"
    by (simp add: assms(2) [symmetric] abs_divide)
  consider (neg) "q < 0" | (zero) "q = 0" | (pos) "0 < q" by linarith
  then show ?thesis
  proof cases
    case neg
    then have "(of_int a / of_int b :: rat) < 0" using assms(2) pos by (simp add: mult_neg_pos)
    then have "sgn a * sgn b = -1" by (auto simp: divide_less_0_iff sgn_if)
    moreover have "- q * 10 ^ n = of_int \<bar>a\<bar> / of_int \<bar>b\<bar>"
      using ab neg by (simp add: abs_mult abs_of_neg)
    ultimately show ?thesis using neg fl by (simp add: div_away_def round_away_def)
  next
    case zero
    then have "a = 0" using assms by simp
    then show ?thesis using zero by (simp add: div_away_def)
  next
    case p: pos
    then have "(of_int a / of_int b :: rat) > 0" using assms(2) pos by simp
    then have "sgn a * sgn b = 1" by (auto simp: zero_less_divide_iff sgn_if)
    moreover have "q * 10 ^ n = of_int \<bar>a\<bar> / of_int \<bar>b\<bar>"
      using ab p by (simp add: abs_mult)
    ultimately show ?thesis using p fl by (simp add: div_away_def round_away_def)
  qed
qed

lemma dval_has_scale: "has_scale (dscale x) (dval x)"
  by (rule has_scaleI [where k = "dcoef x"]) (simp add: dval_def)

lemma dval_Round: "0 \<le> n \<Longrightarrow> dval (dec_Round x n) = round_away (nat n) (dval x)"
proof (cases "nat n < dscale x")
  case True
  have "(of_int (dcoef x) / of_int (10 ^ (dscale x - nat n)) :: rat) = dval x * 10 ^ nat n"
    using True by (simp add: dval_def field_simps flip: power_add)
  from div_away_eq [OF _ this] True show ?thesis by (simp add: dec_Round_def dval_def [of "Dec _ _"])
next
  case False
  with has_scale_mono [OF dval_has_scale, of x "nat n"] show ?thesis
    by (simp add: dec_Round_def round_away_id)
qed

lemma dval_Div:
  assumes "dval y \<noteq> 0"
  shows "dval (dec_Div x y) = round_away 16 (dval x / dval y)"
proof -
  have y: "dcoef y \<noteq> 0" using assms by (simp add: dval_def)
  then have "(of_int (dcoef x * 10 ^ (16 + dscale y)) / of_int (dcoef y * 10 ^ dscale x) :: rat) =
      dval x / dval y * 10 ^ 16"
    by (simp add: dval_def power_add field_simps)
  from div_away_eq [OF _ this] y show ?thesis by (simp add: dec_Div_def dval_def [of "Dec _ _"])
qed

lemma dec_Trunc_val: "dec_Trunc x = trunc (dval x)"
proof -
  have "\<lfloor>of_int \<bar>dcoef x\<bar> / (10 ^ dscale x) :: rat\<rfloor> = \<bar>dcoef x\<bar> div 10 ^ dscale x"
    using floor_divide_of_int_eq [where 'a = rat, of "\<bar>dcoef x\<bar>" "10 ^ dscale x"] by simp
  then show ?thesis
    by (cases "dcoef x = 0")
      (auto simp: dec_Trunc_def trunc_def dval_neg_iff sgn_if, auto simp: dval_def)
qed

lemma dec_IsInteger: "dcoef x mod 10 ^ dscale x = 0 \<longleftrightarrow> has_scale 0 (dval x)"
proof
  assume "dcoef x mod 10 ^ dscale x = 0"
  then obtain k where "dcoef x = 10 ^ dscale x * k" by (auto simp: mod_eq_0_iff_dvd dvd_def)
  then show "has_scale 0 (dval x)" by (intro has_scaleI [where k = k]) (simp add: dval_def)
next
  assume "has_scale 0 (dval x)"
  then obtain k where "dval x = of_int k" by (auto elim: has_scaleE)
  then have "of_int (dcoef x) = (of_int (k * 10 ^ dscale x) :: rat)" by (simp add: dval_def field_simps)
  then have "dcoef x = k * 10 ^ dscale x" by (simp only: of_int_eq_iff)
  then show "dcoef x mod 10 ^ dscale x = 0" by simp
qed

lemma dec_String_of_nat:
  assumes "dval x = of_nat k"
  shows "dec_String x = digits_of k"
proof -
  have "(of_int (dcoef x) :: rat) = of_int (int k * 10 ^ dscale x)"
    using assms by (simp add: dval_def field_simps)
  then have "dcoef x = int k * 10 ^ dscale x" by (simp only: of_int_eq_iff)
  then have "\<not> dcoef x < 0" "\<bar>dcoef x\<bar> = int k * 10 ^ dscale x" by (simp_all add: not_less)
  then show ?thesis by (simp add: dec_String_def int_digits_of)
qed

lemma of_char_digit: "k < 10 \<Longrightarrow> (of_char (digit k) :: nat) = 48 + k"
  by (simp add: digit_def)

lemma of_char_digit_int: "k < 10 \<Longrightarrow> (of_char (digit k) :: int) = 48 + int k"
  using of_nat_of_char [where 'a = int, of "digit k"] by (simp add: of_char_digit)

lemma is_digit_digit: "k < 10 \<Longrightarrow> is_digit (digit k)"
  by (simp add: is_digit_def of_char_digit)

lemma is_digit_digits_of: "list_all is_digit (digits_of n)"
  by (induction n rule: digits_of.induct)
    (subst digits_of.simps, simp add: is_digit_digit)

lemma int_of_digits_digits_of: "int_of_digits (digits_of n) = int n"
proof (induction n rule: digits_of.induct)
  case (1 n)
  show ?case
  proof (cases "n < 10")
    case True
    then show ?thesis by (subst digits_of.simps) (simp add: int_of_digits_def of_char_digit_int)
  next
    case False
    with 1 have "int_of_digits (digits_of n) = 10 * int (n div 10) + int (n mod 10)"
      by (subst digits_of.simps) (simp add: int_of_digits_def of_char_digit_int)
    then show ?thesis by (simp add: zdiv_int zmod_int)
  qed
qed

lemma takeWhile_dropWhile_all:
  "list_all P s \<Longrightarrow> takeWhile P s = s" "list_all P s \<Longrightarrow> dropWhile P s = []"
  by (induction s) simp_all

lemma dec_NewFromString_digits: "dec_NewFromString (digits_of k) = Some (Dec (int k) 0)"
proof -
  obtain c cs where c: "digits_of k = c # cs" by (cases "digits_of k") auto
  have "is_digit c" using is_digit_digits_of [of k] by (simp add: c)
  then have "c \<noteq> CHR ''-''" "c \<noteq> CHR ''+''" by (auto simp: is_digit_def)
  then have "dec_NewFromString (digits_of k) = dec_unsigned (digits_of k)"
    by (simp add: dec_NewFromString_def c)
  also have "\<dots> = Some (Dec (int k) 0)"
    by (simp add: dec_unsigned_def Let_def takeWhile_dropWhile_all is_digit_digits_of
        int_of_digits_digits_of)
  finally show ?thesis .
qed

interpretation dec: decimal_pkg dec_ops dval
  by unfold_locales (simp_all add: dec_ops_def dval_Add dval_Round dval_Div dec_Trunc_val dec_Cmp_dval dec_IsInteger
    dec_String_of_nat dval_has_scale dec_NewFromString_digits, simp_all add: dval_def power_add abs_divide)

lemma decimal_pkg_dec: "decimal_pkg dec_ops dval"
  by (rule dec.decimal_pkg_axioms)

end
