(* ===== verification/Models.thy ===== *)
theory Models
  imports Go_Strings Go_Time Decimal "HOL-Library.Word"
begin

text \<open>
  The data of the program: the structs of \<^verbatim>\<open>internal/models\<close> as records (a pointer is an
  \<open>option\<close>, a \<^verbatim>\<open>decimal.Decimal\<close> the type variable \<open>'d\<close>), its string enumerations with
  the values the constants have, and the errors of \<^verbatim>\<open>internal/repository/errors.go\<close> and
  \<^verbatim>\<open>internal/services/errors.go\<close>. A Go string enumeration admits every string, so the
  model's enumerations are strings too and the validators are functions on them.
\<close>

section \<open>Errors\<close>

text \<open>\<open>Wrapped m e\<close> is \<^verbatim>\<open>fmt.Errorf("m: %w", e)\<close>; \<open>PgError\<close> is an error of the database with
  its SQLSTATE.\<close>

datatype err =
    ErrNotFound
  | ErrConflict
  | ErrAccountCurrencyInvariant
  | ErrInsufficientFunds
  | ErrInactiveAccount
  | ErrTransactionBeforeOpen
  | ErrNoRows
  | ErrContext string
  | PgError string
  | Errorf string
  | ValidationError string
  | Wrapped string err

text \<open>\<^verbatim>\<open>err.Error()\<close>.\<close>

fun Error :: "err \<Rightarrow> string" where
  "Error ErrNotFound = ''not found''"
| "Error ErrConflict = ''conflict''"
| "Error ErrAccountCurrencyInvariant = ''account currency cannot be changed after transactions exist''"
| "Error ErrInsufficientFunds = ''insufficient funds''"
| "Error ErrInactiveAccount = ''account is archived''"
| "Error ErrTransactionBeforeOpen = ''transaction date is before account opened date''"
| "Error ErrNoRows = ''no rows in result set''"
| "Error (ErrContext m) = m"
| "Error (PgError code) = ''SQLSTATE '' @ code"
| "Error (Errorf m) = m"
| "Error (ValidationError m) = m"
| "Error (Wrapped m e) = m @ '': '' @ Error e"

text \<open>The error at the end of the chain of \<^verbatim>\<open>Unwrap\<close>: \<^verbatim>\<open>errors.Is(err, target)\<close> for the
  package's sentinel errors compares it with the target.\<close>

fun cause :: "err \<Rightarrow> err" where
  "cause (Wrapped m e) = cause e"
| "cause e = e"

definition errorsIs :: "err \<Rightarrow> err \<Rightarrow> bool" where
  "errorsIs e target = (cause e = target)"

definition validationError :: "string \<Rightarrow> err" where
  "validationError message = ValidationError message"

definition IsValidationError :: "err \<Rightarrow> bool" where
  "IsValidationError e = (case cause e of ValidationError _ \<Rightarrow> True | _ \<Rightarrow> False)"

text \<open>\<^verbatim>\<open>x, err := f(); if err != nil { return fmt.Errorf("m: %w", err) }\<close>\<close>

definition ewrap :: "string \<Rightarrow> err + 'a \<Rightarrow> err + 'a" where
  "ewrap m r = (case r of Inl e \<Rightarrow> Inl (Wrapped m e) | Inr x \<Rightarrow> Inr x)"

definition emap :: "(err \<Rightarrow> err) \<Rightarrow> err + 'a \<Rightarrow> err + 'a" where
  "emap f r = (case r of Inl e \<Rightarrow> Inl (f e) | Inr x \<Rightarrow> Inr x)"

definition swrap :: "string \<Rightarrow> ('s, err, 'a) stm \<Rightarrow> ('s, err, 'a) stm" where
  "swrap m f s = (case f s of (r, s') \<Rightarrow> (ewrap m r, s'))"

lemma ewrap_simps [simp]: "ewrap m (Inl e) = Inl (Wrapped m e)" "ewrap m (Inr x) = Inr x"
  by (simp_all add: ewrap_def)

lemma ewrap_eq_Inr_iff [simp]: "ewrap m r = Inr x \<longleftrightarrow> r = Inr x"
  by (cases r) simp_all

lemma emap_eq_Inr_iff [simp]: "emap f r = Inr x \<longleftrightarrow> r = Inr x"
  by (cases r) (simp_all add: emap_def)

lemma swrap_Inr_iff [tx_simps]: "swrap m f s = (Inr x, s') \<longleftrightarrow> f s = (Inr x, s')"
  by (auto simp: swrap_def split: prod.splits)

lemma swrap_eval:
  "f s = (Inr x, s') \<Longrightarrow> swrap m f s = (Inr x, s')"
  "f s = (Inl e, s') \<Longrightarrow> swrap m f s = (Inl (Wrapped m e), s')"
  by (simp_all add: swrap_def)

lemma keeps_swrap [keeps_intros]: "keeps P f \<Longrightarrow> keeps P (swrap m f)"
  by (auto simp: keeps_def swrap_def split: prod.splits)

section \<open>Contexts\<close>

text \<open>A \<^verbatim>\<open>context.Context\<close> as the operations see it: \<open>None\<close> while it is live, \<open>Some\<close> its
  \<^verbatim>\<open>Err()\<close> once it is done. An operation is given one reading.\<close>

type_synonym ctx = "err option"

definition ctxCheck :: "ctx \<Rightarrow> string \<Rightarrow> err + 'a \<Rightarrow> err + 'a" where
  "ctxCheck ctx m r = (case ctx of Some e \<Rightarrow> Inl (Wrapped m e) | None \<Rightarrow> r)"

lemma ctxCheck_eq_Inr_iff [simp]: "ctxCheck ctx m r = Inr x \<longleftrightarrow> ctx = None \<and> r = Inr x"
  by (cases ctx) (simp_all add: ctxCheck_def)

lemma ctxCheck_None [simp]: "ctxCheck None m r = r"
  by (simp add: ctxCheck_def)

section \<open>Accounts\<close>

type_synonym AccountType = string

abbreviation "AccountTypeCash \<equiv> ''cash''"
abbreviation "AccountTypeCard \<equiv> ''card''"
abbreviation "AccountTypeSavings \<equiv> ''savings''"
abbreviation "AccountTypeTermDeposit \<equiv> ''term_deposit''"
abbreviation "AccountTypeBroker \<equiv> ''broker''"
abbreviation "AccountTypeOther \<equiv> ''other''"

record Account =
  a_ID :: string
  a_LegacyID :: "string option"
  a_OwnerUserID :: "string option"
  a_Name :: string
  a_Bank :: string
  a_Type :: AccountType
  a_Currency :: string
  a_IsActive :: bool
  a_OpenedAt :: time
  a_CreatedAt :: time
  a_UpdatedAt :: time

section \<open>Transactions and transfers\<close>

type_synonym TransactionSource = string

abbreviation "TransactionSourceManual \<equiv> ''manual''"
abbreviation "TransactionSourceCSVImport \<equiv> ''csv_import''"
abbreviation "TransactionSourceTransfer \<equiv> ''transfer''"
abbreviation "TransactionSourceDepositInterest \<equiv> ''deposit_interest''"
abbreviation "TransactionSourceSavingsAllocation \<equiv> ''savings_allocation''"
abbreviation "TransactionSourceSubscription \<equiv> ''subscription''"
abbreviation "TransactionSourceReconciliationAdjustment \<equiv> ''reconciliation_adjustment''"
abbreviation "TransactionSourceAutomationRule \<equiv> ''automation_rule''"
abbreviation "TransactionSourceLLMDraft \<equiv> ''llm_draft''"
abbreviation "TransactionSourceSystem \<equiv> ''system''"

definition TransactionSource_IsValid :: "TransactionSource \<Rightarrow> bool" where
  "TransactionSource_IsValid source =
     (source \<in> {TransactionSourceManual, TransactionSourceCSVImport, TransactionSourceTransfer,
        TransactionSourceDepositInterest, TransactionSourceSavingsAllocation,
        TransactionSourceSubscription, TransactionSourceReconciliationAdjustment,
        TransactionSourceAutomationRule, TransactionSourceLLMDraft, TransactionSourceSystem})"

type_synonym TransactionType = string

abbreviation "TransactionTypeInitialBalance \<equiv> ''initial_balance''"
abbreviation "TransactionTypeIncome \<equiv> ''income''"
abbreviation "TransactionTypeExpense \<equiv> ''expense''"
abbreviation "TransactionTypeTransferIn \<equiv> ''transfer_in''"
abbreviation "TransactionTypeTransferOut \<equiv> ''transfer_out''"
abbreviation "TransactionTypeInterestIncome \<equiv> ''interest_income''"
abbreviation "TransactionTypeAdjustment \<equiv> ''adjustment''"

type_synonym TransactionStatus = string

abbreviation "TransactionStatusPending \<equiv> ''pending''"
abbreviation "TransactionStatusConfirmed \<equiv> ''confirmed''"
abbreviation "TransactionStatusCancelled \<equiv> ''cancelled''"
abbreviation "TransactionStatusReversed \<equiv> ''reversed''"
abbreviation "TransactionStatusSoftDeleted \<equiv> ''soft_deleted''"

definition TransactionStatus_IsValid :: "TransactionStatus \<Rightarrow> bool" where
  "TransactionStatus_IsValid status =
     (status \<in> {TransactionStatusPending, TransactionStatusConfirmed, TransactionStatusCancelled,
        TransactionStatusReversed, TransactionStatusSoftDeleted})"

definition AffectsBalance :: "TransactionStatus \<Rightarrow> bool" where
  "AffectsBalance status =
     (status = '''' \<or> status = TransactionStatusConfirmed \<or> status = TransactionStatusReversed)"

record 'd Transaction =
  t_ID :: string
  t_AccountID :: string
  t_RelatedAccountID :: "string option"
  t_TransferID :: "string option"
  t_SourceType :: TransactionSource
  t_SourceRefID :: "string option"
  t_SourceMetadata :: string
  t_Type :: TransactionType
  t_Status :: TransactionStatus
  t_Amount :: 'd
  t_CategoryID :: "string option"
  t_Description :: string
  t_OccurredAt :: time
  t_CreatedAt :: time

record 'd Transfer =
  x_ID :: string
  x_UserID :: string
  x_FromAccountID :: string
  x_ToAccountID :: string
  x_FromTransactionID :: string
  x_ToTransactionID :: string
  x_FeeTransactionID :: "string option"
  x_FromAmount :: 'd
  x_ToAmount :: 'd
  x_FromCurrency :: string
  x_ToCurrency :: string
  x_ExchangeRate :: string
  x_ExchangeRateScale :: int
  x_ExchangeRateProvider :: string
  x_ExchangeRateDate :: time
  x_FeeAmount :: 'd
  x_FeeCurrency :: "string option"
  x_Status :: string
  x_IdempotencyKey :: string
  x_CreatedAt :: time
  x_UpdatedAt :: time

section \<open>Interest\<close>

type_synonym AccrualFrequency = string
type_synonym CapitalizationFrequency = string
type_synonym DayCountConvention = string

abbreviation "AccrualFrequencyDaily \<equiv> ''daily''"
abbreviation "AccrualFrequencyMonthly \<equiv> ''monthly''"
abbreviation "AccrualFrequencyEndOfTerm \<equiv> ''end_of_term''"
abbreviation "CapitalizationFrequencyDaily \<equiv> ''daily''"
abbreviation "CapitalizationFrequencyMonthly \<equiv> ''monthly''"
abbreviation "CapitalizationFrequencyEndOfTerm \<equiv> ''end_of_term''"
abbreviation "CapitalizationFrequencyNone \<equiv> ''none''"
abbreviation "DayCountConventionActual365 \<equiv> ''actual_365''"
abbreviation "DayCountConventionActual366 \<equiv> ''actual_366''"
abbreviation "DayCountConventionActualActual \<equiv> ''actual_actual''"

record InterestRule =
  r_ID :: string
  r_AccountID :: string
  r_AnnualRateBps :: int
  r_PromoRateBps :: "int option"
  r_PromoEndDate :: "time option"
  r_AccrualFrequency :: AccrualFrequency
  r_CapitalizationFrequency :: CapitalizationFrequency
  r_DayCountConvention :: DayCountConvention
  r_IsActive :: bool
  r_StartDate :: time
  r_EndDate :: "time option"
  r_Version :: int

record 'd InterestAccrual =
  i_ID :: string
  i_AccountID :: string
  i_RuleID :: string
  i_TransactionID :: string
  i_AccrualDate :: time
  i_Amount :: 'd
  i_Balance :: 'd
  i_AnnualRateBps :: int
  i_CreatedAt :: time

section \<open>Users, tokens and audit events\<close>

record User =
  u_ID :: string
  u_Email :: string
  u_PasswordHash :: string
  u_PrimaryCurrency :: string
  u_EmailVerifiedAt :: "time option"
  u_EmailVerificationTokenHash :: "string option"
  u_EmailVerificationSentAt :: "time option"
  u_FailedLoginAttempts :: int
  u_LockedUntil :: "time option"
  u_CreatedAt :: time
  u_UpdatedAt :: time

record RefreshToken =
  k_ID :: string
  k_UserID :: string
  k_TokenHash :: string
  k_ExpiresAt :: time
  k_RevokedAt :: "time option"
  k_RevokedReason :: "string option"
  k_CreatedAt :: time

definition RefreshToken_IsActive :: "RefreshToken \<Rightarrow> time \<Rightarrow> bool" where
  "RefreshToken_IsActive t now = (k_RevokedAt t = None \<and> Before now (k_ExpiresAt t))"

record AuthAuditEvent =
  ae_ID :: string
  ae_UserID :: "string option"
  ae_EventType :: string
  ae_Email :: string
  ae_Success :: bool
  ae_Reason :: string
  ae_CreatedAt :: time

text \<open>The values an audit summary holds, before they are encoded as JSON.\<close>

datatype jval = JString string | JBool bool | JInt int | JTime time | JNull

type_synonym summary = "(string \<times> jval) list"

record AuditEvent =
  e_ID :: string
  e_ActorUserID :: "string option"
  e_EventType :: string
  e_EntityType :: string
  e_EntityID :: string
  e_BeforeSummary :: "summary option"
  e_AfterSummary :: "summary option"
  e_IPAddress :: "string option"
  e_UserAgent :: string
  e_CreatedAt :: time

record IdempotencyRecord =
  ik_ID :: string
  ik_Key :: string
  ik_UserID :: string
  ik_Method :: string
  ik_Path :: string
  ik_Endpoint :: string
  ik_RequestHash :: string
  ik_Status :: string
  ik_StatusCode :: "int option"
  ik_ResponseBody :: string
  ik_LockedUntil :: "time option"
  ik_CreatedAt :: time
  ik_UpdatedAt :: time
  ik_ExpiresAt :: time

record Category =
  c_ID :: string
  c_Slug :: string
  c_Name :: string
  c_CreatedAt :: time
  c_UpdatedAt :: time

section \<open>Goals, limits and passkeys\<close>

type_synonym FinancialGoalStatus = string

abbreviation "FinancialGoalActive \<equiv> ''active''"
abbreviation "FinancialGoalCompleted \<equiv> ''completed''"
abbreviation "FinancialGoalArchived \<equiv> ''archived''"

record 'd FinancialGoal =
  g_ID :: string
  g_OwnerUserID :: string
  g_AccountID :: "string option"
  g_Name :: string
  g_TargetAmount :: 'd
  g_Currency :: string
  g_TargetDate :: "time option"
  g_Status :: FinancialGoalStatus
  g_CreatedAt :: time
  g_UpdatedAt :: time
  g_Version :: int

record 'd CategoryLimit =
  l_ID :: string
  l_OwnerUserID :: string
  l_CategoryID :: string
  l_Amount :: 'd
  l_Currency :: string
  l_IsActive :: bool
  l_CreatedAt :: time
  l_UpdatedAt :: time
  l_Version :: int

record PasskeyCredential =
  pk_ID :: string
  pk_UserID :: string
  pk_CredentialID :: string
  pk_PublicKey :: string
  pk_AttestationType :: string
  pk_Transports :: "string list"
  pk_SignCount :: "32 word"
  pk_CloneWarning :: bool
  pk_BackupEligible :: bool
  pk_BackupState :: bool
  pk_Name :: string
  pk_AAGUID :: "string option"
  pk_LastUsedAt :: "time option"
  pk_RevokedAt :: "time option"
  pk_CreatedAt :: time
  pk_UpdatedAt :: time

definition PasskeyCredential_IsActive :: "PasskeyCredential \<Rightarrow> bool" where
  "PasskeyCredential_IsActive c = (pk_RevokedAt c = None)"

record WebAuthnChallenge =
  wc_ID :: string
  wc_UserID :: "string option"
  wc_Ceremony :: string
  wc_Challenge :: string
  wc_SessionData :: string
  wc_ExpiresAt :: time
  wc_UsedAt :: "time option"
  wc_CreatedAt :: time

end
