(* ===== verification/Money.thy ===== *)
theory Money
  imports Models
begin

text \<open>
  \<^verbatim>\<open>pkg/money\<close> and \<^verbatim>\<open>internal/domain/money\<close>: parsing of amounts, the storage bounds of
  \<^verbatim>\<open>NUMERIC(38,18)\<close> columns, the minor units of currencies and the legacy integer formats.
  The lemmas show which amounts pass the storage check, how far rounding to a currency
  moves an amount, and that the integer formats round-trip.
\<close>

section \<open>Parsing and storage\<close>

definition StoragePrecision :: int where
  "StoragePrecision = 38"

definition StorageScale :: int where
  "StorageScale = 18"

definition ValidateStorageDecimal :: "'d decimal_ops \<Rightarrow> 'd \<Rightarrow> err + unit" where
  "ValidateStorageDecimal D amount =
     (if - d_Exponent D amount > StorageScale
      then Inl (Errorf (''amount scale exceeds 18: '' @ d_String D amount))
      else
        let intDigits = int (length (d_String D (d_Truncate D (d_Abs D amount) 0)));
            intDigits = (if d_LessThan D (d_Abs D amount) (d_NewFromInt D 1) then 0 else intDigits);
            maxIntDigits = StoragePrecision - StorageScale
        in if intDigits > maxIntDigits
           then Inl (Errorf (''amount precision exceeds NUMERIC(38,18): '' @ d_String D amount))
           else Inr ())"

text \<open>The text every parser starts from: a decimal comma becomes a point, white space goes.\<close>

definition normalizeNumber :: "string \<Rightarrow> string" where
  "normalizeNumber input = TrimSpace (ReplaceAllByte CHR '','' CHR ''.'' input)"

definition ParseDecimalString :: "'d decimal_ops \<Rightarrow> string \<Rightarrow> err + 'd" where
  "ParseDecimalString D input =
     (let value = normalizeNumber input
      in if value = '''' then Inl (Errorf ''amount is empty'')
         else case d_NewFromString D value of
             None \<Rightarrow> Inl (Wrapped ''parse amount'' (Errorf ''can't convert to decimal''))
           | Some amount \<Rightarrow> ebind (ValidateStorageDecimal D amount) (\<lambda>_. Inr amount))"

section \<open>Currencies\<close>

definition currencyScales :: "(string \<times> int) list" where
  "currencyScales =
     [(''BHD'', 3), (''BIF'', 0), (''CLF'', 4), (''CLP'', 0), (''DJF'', 0), (''GNF'', 0),
      (''IQD'', 3), (''ISK'', 0), (''JOD'', 3), (''JPY'', 0), (''KMF'', 0), (''KRW'', 0),
      (''KWD'', 3), (''LYD'', 3), (''OMR'', 3), (''PYG'', 0), (''RWF'', 0), (''TND'', 3),
      (''UGX'', 0), (''USDT'', 6), (''UYI'', 0), (''VND'', 0), (''VUV'', 0), (''XAF'', 0),
      (''XOF'', 0), (''XPF'', 0)]"

definition CurrencyScale :: "string \<Rightarrow> int" where
  "CurrencyScale currency =
     (case map_of currencyScales (ToUpper (TrimSpace currency)) of Some scale \<Rightarrow> scale | None \<Rightarrow> 2)"

definition RoundForCurrency :: "'d decimal_ops \<Rightarrow> 'd \<Rightarrow> string \<Rightarrow> 'd" where
  "RoundForCurrency D amount currency = d_Round D amount (CurrencyScale currency)"

text \<open>\<^verbatim>\<open>internal/domain/money\<close>.\<close>

definition money_NormalizeCurrency :: "string \<Rightarrow> string" where
  "money_NormalizeCurrency currency =
     (let currency = ToUpper (TrimSpace currency) in if currency = '''' then ''RUB'' else currency)"

definition ValidateCurrencyScale :: "'d decimal_ops \<Rightarrow> 'd \<Rightarrow> string \<Rightarrow> err + unit" where
  "ValidateCurrencyScale D amount currency =
     (let normalized = money_NormalizeCurrency currency;
          rounded = RoundForCurrency D amount normalized
      in if \<not> d_Equal D amount rounded
         then Inl (Errorf (''amount scale exceeds '' @ normalized @ '' minor units''))
         else Inr ())"

section \<open>Roubles, kopecks and rates\<close>

definition ParseRUB :: "'d decimal_ops \<Rightarrow> string \<Rightarrow> err + 'd" where
  "ParseRUB D input =
     (let value = normalizeNumber input
      in if value = '''' then Inl (Errorf ''amount is empty'')
         else case d_NewFromString D value of
             None \<Rightarrow> Inl (Wrapped ''parse amount'' (Errorf ''can't convert to decimal''))
           | Some amount \<Rightarrow> Inr (d_Round D amount 2))"

definition maxRubAmount :: "'d decimal_ops \<Rightarrow> 'd" where
  "maxRubAmount D = d_NewFromInt D 1000000"

definition ParsePositiveRUB :: "'d decimal_ops \<Rightarrow> string \<Rightarrow> err + 'd" where
  "ParsePositiveRUB D input =
     ebind (ParseRUB D input) (\<lambda>amount.
     echeck (\<not> d_IsPositive D amount) (Errorf ''amount must be positive'')
     (echeck (d_GreaterThan D amount (maxRubAmount D))
        (Errorf (''amount exceeds '' @ d_String D (maxRubAmount D)))
     (Inr amount)))"

definition LegacyKopecksToDecimal :: "'d decimal_ops \<Rightarrow> int \<Rightarrow> 'd" where
  "LegacyKopecksToDecimal D kopecks =
     d_Round D (d_Div D (d_NewFromInt D kopecks) (d_NewFromInt D 100)) 2"

definition MinorUnitsToDecimal :: "'d decimal_ops \<Rightarrow> int \<Rightarrow> 'd" where
  "MinorUnitsToDecimal D amount = d_NewFromInt D amount"

definition DecimalToMinorUnits :: "'d decimal_ops \<Rightarrow> 'd \<Rightarrow> err + int" where
  "DecimalToMinorUnits D amount =
     (if \<not> d_IsInteger D amount
      then Inl (Errorf (''amount cannot be represented as integer minor units: '' @ d_String D amount))
      else if d_GreaterThan D amount (d_NewFromInt D (2 ^ 63 - 1)) \<or>
              d_LessThan D amount (d_NewFromInt D (- (2 ^ 63)))
      then Inl (Errorf (''amount exceeds int64 minor-unit compatibility range: '' @ d_String D amount))
      else Inr (d_IntPart D amount))"

definition DecimalToLegacyKopecks :: "'d decimal_ops \<Rightarrow> 'd \<Rightarrow> err + int" where
  "DecimalToLegacyKopecks D amount =
     (let kopecks = d_Mul D (d_Round D amount 2) (d_NewFromInt D 100)
      in if \<not> d_IsInteger D kopecks
         then Inl (Errorf (''amount cannot be represented as kopecks: '' @ d_String D amount))
         else Inr (d_IntPart D kopecks))"

definition FormatRUB :: "'d decimal_ops \<Rightarrow> 'd \<Rightarrow> string" where
  "FormatRUB D amount = d_StringFixed D (d_Round D amount 2) 2"

definition FormatLegacyKopecks :: "'d decimal_ops \<Rightarrow> int \<Rightarrow> string" where
  "FormatLegacyKopecks D kopecks = FormatRUB D (LegacyKopecksToDecimal D kopecks)"

definition ParseRate :: "'d decimal_ops \<Rightarrow> string \<Rightarrow> err + 'd" where
  "ParseRate D input =
     (let value = normalizeNumber input
      in if value = '''' then Inl (Errorf ''rate is empty'')
         else case d_NewFromString D value of
             None \<Rightarrow> Inl (Wrapped ''parse rate'' (Errorf ''can't convert to decimal''))
           | Some rate \<Rightarrow>
               echeck (\<not> d_IsPositive D rate) (Errorf ''rate must be positive'')
               (echeck (d_GreaterThan D rate (d_NewFromInt D 100)) (Errorf ''rate exceeds 100'')
               (Inr rate)))"

definition RateToBps :: "'d decimal_ops \<Rightarrow> 'd \<Rightarrow> int" where
  "RateToBps D rate = d_IntPart D (d_Round D (d_Mul D rate (d_NewFromInt D 100)) 0)"

definition BpsToRate :: "'d decimal_ops \<Rightarrow> int \<Rightarrow> 'd" where
  "BpsToRate D bps = d_Div D (d_NewFromInt D bps) (d_NewFromInt D 100)"

section \<open>Facts about currencies\<close>

lemma CurrencyScale_bounds: "0 \<le> CurrencyScale currency" "CurrencyScale currency \<le> 6"
proof -
  have "0 \<le> CurrencyScale currency \<and> CurrencyScale currency \<le> 6"
  proof (cases "map_of currencyScales (ToUpper (TrimSpace currency))")
    case None
    then show ?thesis by (simp add: CurrencyScale_def)
  next
    case (Some n)
    then have "(ToUpper (TrimSpace currency), n) \<in> set currencyScales" by (rule map_of_SomeD)
    then have "0 \<le> n \<and> n \<le> 6" by (auto simp: currencyScales_def)
    with Some show ?thesis by (simp add: CurrencyScale_def)
  qed
  then show "0 \<le> CurrencyScale currency" "CurrencyScale currency \<le> 6" by simp_all
qed

text \<open>The number of minor digits as a natural number, and the amounts a currency admits.\<close>

definition currency_digits :: "string \<Rightarrow> nat" where
  "currency_digits currency = nat (CurrencyScale currency)"

lemma currency_digits_le: "currency_digits currency \<le> 6"
  using CurrencyScale_bounds [of currency] by (simp add: currency_digits_def)

lemma CurrencyScale_TrimSpace [simp]:
  "CurrencyScale (ToUpper (TrimSpace currency)) = CurrencyScale currency"
  by (simp add: CurrencyScale_def TrimSpace_ToUpper)

lemma hundredths: "(of_int k :: rat) / 100 * 10 ^ 2 = of_int k"
  by simp

lemma has_scale_hundredths: "has_scale 2 (of_int k / 100)"
  by (rule has_scaleI [OF hundredths])

context decimal_pkg
begin

lemma val_RoundForCurrency:
  "val (RoundForCurrency D amount currency) = round_away (currency_digits currency) (val amount)"
  by (simp add: RoundForCurrency_def currency_digits_def val_Round CurrencyScale_bounds)

lemma ValidateCurrencyScale_ok_iff:
  "ValidateCurrencyScale D amount currency = Inr () \<longleftrightarrow>
     has_scale (currency_digits (money_NormalizeCurrency currency)) (val amount)"
  by (simp add: ValidateCurrencyScale_def Let_def val_RoundForCurrency
      flip: round_away_eq_iff)

lemma length_String_Truncate:
  "0 < k \<Longrightarrow> length (d_String D (d_Truncate D (d_Abs D x) 0)) \<le> k \<longleftrightarrow> \<bar>val x\<bar> < 10 ^ k"
proof -
  assume k: "0 < k"
  have "val (d_Truncate D (d_Abs D x) 0) = of_nat (nat \<lfloor>\<bar>val x\<bar>\<rfloor>)"
    by (simp add: val_Truncate trunc_def)
  then have "d_String D (d_Truncate D (d_Abs D x) 0) = digits_of (nat \<lfloor>\<bar>val x\<bar>\<rfloor>)" by (rule String_val)
  then have "length (d_String D (d_Truncate D (d_Abs D x) 0)) \<le> k \<longleftrightarrow> nat \<lfloor>\<bar>val x\<bar>\<rfloor> < 10 ^ k"
    using length_digits_of [OF k] by simp
  also have "\<dots> \<longleftrightarrow> \<lfloor>\<bar>val x\<bar>\<rfloor> < 10 ^ k" by (simp add: nat_less_iff)
  also have "\<dots> \<longleftrightarrow> \<bar>val x\<bar> < of_int (10 ^ k)" by (rule floor_less_iff)
  finally show ?thesis by simp
qed

lemma ValidateStorageDecimal_ok_iff:
  "ValidateStorageDecimal D x = Inr () \<longleftrightarrow> - 18 \<le> d_Exponent D x \<and> \<bar>val x\<bar> < 10 ^ 20"
proof -
  have *: "length (d_String D (d_Truncate D (d_Abs D x) 0)) \<le> 20 \<longleftrightarrow> \<bar>val x\<bar> < 10 ^ 20"
    by (rule length_String_Truncate) simp
  have "\<bar>val x\<bar> < 10 ^ 20" if "\<bar>val x\<bar> < 1" using that by simp
  with * show ?thesis
    by (auto simp: ValidateStorageDecimal_def Let_def StoragePrecision_def StorageScale_def)
qed

lemma ValidateStorageDecimal_fits:
  assumes "ValidateStorageDecimal D x = Inr ()"
  shows "has_scale 18 (val x)"
proof (rule has_scale_mono [OF Exponent_val])
  have "- 18 \<le> d_Exponent D x" using assms by (simp only: ValidateStorageDecimal_ok_iff)
  then show "nat (- d_Exponent D x) \<le> 18" by linarith
qed

lemma DecimalToMinorUnits_ok_iff:
  "DecimalToMinorUnits D x = Inr k \<longleftrightarrow> val x = of_int k \<and> - (2 ^ 63) \<le> k \<and> k < 2 ^ 63"
proof (cases "has_scale 0 (val x)")
  case True
  then obtain n where n: "val x = of_int n" by (auto elim: has_scaleE)
  have "(of_int n :: rat) > of_int (2 ^ 63 - 1) \<longleftrightarrow> n > 2 ^ 63 - 1"
    "(of_int n :: rat) < of_int (- (2 ^ 63)) \<longleftrightarrow> n < - (2 ^ 63)"
    by (simp_all only: of_int_less_iff)
  then have "DecimalToMinorUnits D x =
      (if n > 2 ^ 63 - 1 \<or> n < - (2 ^ 63)
       then Inl (Errorf (''amount exceeds int64 minor-unit compatibility range: '' @ d_String D x))
       else Inr (d_IntPart D x))"
    using True by (simp add: DecimalToMinorUnits_def n del: of_int_numeral of_int_diff of_int_minus)
  then show ?thesis using IntPart_val [of x] by (auto simp: n)
next
  case False
  moreover have "val x \<noteq> of_int k" using False by auto
  ultimately show ?thesis by (simp add: DecimalToMinorUnits_def)
qed

lemma val_Div_100: "val (d_Div D (d_NewFromInt D k) (d_NewFromInt D 100)) = of_int k / 100"
  using has_scale_mono [OF has_scale_hundredths [of k], of 16]
  by (simp add: val_Div round_away_id)

lemma val_LegacyKopecks: "val (LegacyKopecksToDecimal D k) = of_int k / 100"
  by (simp add: LegacyKopecksToDecimal_def val_Round val_Div_100 round_away_id
      has_scale_hundredths)

lemma DecimalToLegacyKopecks_LegacyKopecks:
  assumes "- (2 ^ 63) \<le> k" "k < 2 ^ 63"
  shows "DecimalToLegacyKopecks D (LegacyKopecksToDecimal D k) = Inr k"
proof -
  define y where "y = d_Mul D (d_Round D (LegacyKopecksToDecimal D k) 2) (d_NewFromInt D 100)"
  have "val y = of_int k"
    by (simp add: y_def val_Round val_LegacyKopecks round_away_id has_scale_hundredths)
  with IntPart_val [of y] assms show ?thesis
    by (simp add: DecimalToLegacyKopecks_def Let_def y_def [symmetric])
qed

lemma RateToBps_BpsToRate:
  assumes "- (2 ^ 63) \<le> k" "k < 2 ^ 63"
  shows "RateToBps D (BpsToRate D k) = k"
proof -
  define y where "y = d_Round D (d_Mul D (BpsToRate D k) (d_NewFromInt D 100)) 0"
  have "val y = of_int k" by (simp add: y_def val_Round BpsToRate_def val_Div_100 round_away_id)
  with IntPart_val [of y] assms show ?thesis by (simp add: RateToBps_def y_def [symmetric])
qed

lemma ParseRate_bounds: "ParseRate D input = Inr rate \<Longrightarrow> 0 < val rate \<and> val rate \<le> 100"
  by (auto simp: ParseRate_def Let_def split: if_splits option.splits)

lemma ParsePositiveRUB_bounds:
  "ParsePositiveRUB D input = Inr amount \<Longrightarrow>
     0 < val amount \<and> val amount \<le> 1000000 \<and> has_scale 2 (val amount)"
  by (auto simp: ParsePositiveRUB_def ParseRUB_def maxRubAmount_def Let_def val_Round
      split: if_splits option.splits)

end

section \<open>Properties\<close>

text \<open>An amount passes the storage check exactly when its exponent is at least \<open>-18\<close> and it
  has at most 20 digits before the point, and then \<^verbatim>\<open>NUMERIC(38,18)\<close> holds it exactly.\<close>

theorem ValidateStorageDecimal_exact:
  assumes "decimal_pkg D val"
  shows "(ValidateStorageDecimal D x = Inr () \<longleftrightarrow> - 18 \<le> d_Exponent D x \<and> \<bar>val x\<bar> < 10 ^ 20) \<and>
    (ValidateStorageDecimal D x = Inr () \<longrightarrow> has_scale 18 (val x))"
  using decimal_pkg.ValidateStorageDecimal_ok_iff [OF assms] decimal_pkg.ValidateStorageDecimal_fits [OF assms]
  by blast

theorem ValidateStorageDecimal_exact_witness:
  "ValidateStorageDecimal dec_ops (Dec 12345 2) = Inr () \<and> has_scale 18 (dval (Dec 12345 2))"
  using ValidateStorageDecimal_exact [OF decimal_pkg_dec, of "Dec 12345 2"]
  by (simp add: dec_ops_def dval_def)

text \<open>Rounding to the minor units of a currency gives an amount the currency admits, moves the
  amount by at most half a minor unit, and is the identity on amounts it admits.\<close>

theorem RoundForCurrency_nearest:
  assumes "decimal_pkg D val"
  shows "has_scale (currency_digits currency) (val (RoundForCurrency D x currency)) \<and>
    \<bar>val (RoundForCurrency D x currency) - val x\<bar> \<le> 1 / 2 / 10 ^ currency_digits currency \<and>
    (val (RoundForCurrency D x currency) = val x \<longleftrightarrow> has_scale (currency_digits currency) (val x))"
  using decimal_pkg.val_RoundForCurrency [OF assms] has_scale_round_away round_away_error
    round_away_eq_iff
  by metis

theorem RoundForCurrency_nearest_witness:
  "dval (RoundForCurrency dec_ops (Dec 10055 4) ''JPY'') \<noteq> dval (Dec 10055 4)"
proof -
  have "\<not> has_scale (currency_digits ''JPY'') (dval (Dec 10055 4))" by code_simp
  then show ?thesis
    using RoundForCurrency_nearest [OF decimal_pkg_dec, of "''JPY''" "Dec 10055 4"] by blast
qed

text \<open>The integer formats lose nothing: an \<^verbatim>\<open>int64\<close> number of kopecks, of minor units or of
  basis points comes back from its decimal, and a decimal that converts to minor units is that
  integer, inside the range of \<^verbatim>\<open>int64\<close>.\<close>

theorem integer_formats_roundtrip:
  assumes "decimal_pkg D val" "- (2 ^ 63) \<le> k" "k < 2 ^ 63"
  shows "DecimalToLegacyKopecks D (LegacyKopecksToDecimal D k) = Inr k \<and>
    DecimalToMinorUnits D (MinorUnitsToDecimal D k) = Inr k \<and>
    RateToBps D (BpsToRate D k) = k \<and>
    (DecimalToMinorUnits D x = Inr n \<longrightarrow> val x = of_int n \<and> - (2 ^ 63) \<le> n \<and> n < 2 ^ 63)"
  using decimal_pkg.DecimalToLegacyKopecks_LegacyKopecks [OF assms]
    decimal_pkg.RateToBps_BpsToRate [OF assms] decimal_pkg.DecimalToMinorUnits_ok_iff [OF assms(1)]
    decimal_pkg.val_NewFromInt [OF assms(1)] assms(2,3)
  by (simp add: MinorUnitsToDecimal_def)

theorem integer_formats_roundtrip_witness:
  "DecimalToLegacyKopecks dec_ops (LegacyKopecksToDecimal dec_ops 12345) = Inr 12345"
  using integer_formats_roundtrip [OF decimal_pkg_dec, of 12345] by simp

end
