(* ===== verification/Domain.thy ===== *)
theory Domain
  imports Money
begin

text \<open>
  The validators of \<^verbatim>\<open>internal/domain\<close>: accounts, transactions, transfers and interest
  frequencies. Each returns the first failing check with the message the code gives; the
  lemmas say, over the values of the amounts, what an input that passes satisfies.
\<close>

section \<open>Accounts\<close>

definition supportedCurrencies :: "string list" where
  "supportedCurrencies =
     [''AED'', ''ARS'', ''AUD'', ''BRL'', ''CAD'', ''CHF'', ''CLF'', ''CNY'', ''EUR'', ''GBP'',
      ''HKD'', ''INR'', ''JPY'', ''KRW'', ''KWD'', ''MXN'', ''RUB'', ''SGD'', ''TRY'', ''USD'',
      ''USDT'']"

definition account_NormalizeCurrency :: "string \<Rightarrow> string" where
  "account_NormalizeCurrency currency = ToUpper (TrimSpace currency)"

definition ValidCurrency :: "string \<Rightarrow> bool" where
  "ValidCurrency currency =
     (let currency = account_NormalizeCurrency currency
      in if currency = '''' then False else currency \<in> set supportedCurrencies)"

definition ValidAccountType :: "AccountType \<Rightarrow> bool" where
  "ValidAccountType accountType =
     (accountType \<in> {AccountTypeCash, AccountTypeCard, AccountTypeSavings, AccountTypeTermDeposit,
        AccountTypeBroker, AccountTypeOther})"

definition account_ValidateCreate :: "string \<Rightarrow> AccountType \<Rightarrow> string \<Rightarrow> err + unit" where
  "account_ValidateCreate name accountType currency =
     echeck (TrimSpace name = '''') (Errorf ''account name is required'')
     (echeck (\<not> ValidAccountType accountType) (Errorf (''invalid account type: '' @ accountType))
     (echeck (\<not> ValidCurrency currency)
        (Errorf (''invalid currency: '' @ account_NormalizeCurrency currency))
     (Inr ())))"

section \<open>Transactions\<close>

definition MaxAmount :: "'d decimal_ops \<Rightarrow> 'd" where
  "MaxAmount D = d_RequireFromString D ''1000000000000''"

record 'd TransactionValidation =
  tv_AccountID :: string
  tv_Type :: TransactionType
  tv_Amount :: 'd
  tv_Currency :: string
  tv_OccurredAt :: time
  tv_AccountOpened :: time
  tv_Now :: time
  tv_AllowFuture :: bool
  tv_AllowTransfer :: bool

definition IsTransferType :: "TransactionType \<Rightarrow> bool" where
  "IsTransferType transactionType =
     (transactionType = TransactionTypeTransferIn \<or> transactionType = TransactionTypeTransferOut)"

definition ValidType :: "TransactionType \<Rightarrow> bool" where
  "ValidType transactionType =
     (transactionType \<in> {TransactionTypeInitialBalance, TransactionTypeIncome,
        TransactionTypeExpense, TransactionTypeTransferIn, TransactionTypeTransferOut,
        TransactionTypeInterestIncome, TransactionTypeAdjustment})"

text \<open>\<open>clock\<close> is the reading of \<^verbatim>\<open>time.Now()\<close>.\<close>

definition transaction_ValidateCreate ::
  "'d decimal_ops \<Rightarrow> time \<Rightarrow> 'd TransactionValidation option \<Rightarrow> err + unit" where
  "transaction_ValidateCreate D clock i =
     (case i of
        None \<Rightarrow> Inl (Errorf ''transaction validation input is required'')
      | Some input \<Rightarrow>
          echeck (TrimSpace (tv_AccountID input) = '''') (Errorf ''account id is required'')
          (echeck (\<not> ValidType (tv_Type input))
             (Errorf (''invalid transaction type: '' @ tv_Type input))
          (echeck (IsTransferType (tv_Type input) \<and> \<not> tv_AllowTransfer input)
             (Errorf ''transfer transactions must be created through the transfer flow'')
          (echeck (d_IsZero D (tv_Amount input)) (Errorf ''amount must be non-zero'')
          (echeck (d_LessThan D (tv_Amount input) (d_Neg D (MaxAmount D)) \<or>
                d_GreaterThan D (tv_Amount input) (MaxAmount D))
             (Errorf (''amount must be between '' @ d_String D (d_Neg D (MaxAmount D)) @ '' and '' @
                d_String D (MaxAmount D)))
          (ebind (ewrap ''validate currency scale''
             (ValidateCurrencyScale D (tv_Amount input) (tv_Currency input))) (\<lambda>_.
          echeck (tv_Type input \<noteq> TransactionTypeAdjustment \<and> d_IsNegative D (tv_Amount input))
             (Errorf (''amount must be positive for '' @ tv_Type input @ '' transactions''))
          (echeck (\<not> tv_AllowFuture input \<and>
                After (tv_OccurredAt input)
                  (if IsZero (tv_Now input) then clock else tv_Now input))
             (Errorf ''transaction date must not be in the future'')
          (echeck (\<not> IsZero (tv_AccountOpened input) \<and>
                Before (dateOnly (tv_OccurredAt input)) (dateOnly (tv_AccountOpened input)))
             (Errorf ''transaction date must be on or after account opened date'')
          (Inr ()))))))))))"

section \<open>Transfers\<close>

record 'd TransferValidation =
  xv_FromAccountID :: string
  xv_ToAccountID :: string
  xv_FromCurrency :: string
  xv_Amount :: 'd
  xv_FeeAmount :: 'd
  xv_FeeCurrency :: string
  xv_IdempotencyKey :: string

definition orRUB :: "string \<Rightarrow> string" where
  "orRUB currency = (if currency = '''' then ''RUB'' else currency)"

definition transfer_ValidateCreate ::
  "'d decimal_ops \<Rightarrow> 'd TransferValidation option \<Rightarrow> err + unit" where
  "transfer_ValidateCreate D i =
     (case i of
        None \<Rightarrow> Inl (Errorf ''transfer validation input is required'')
      | Some input \<Rightarrow>
          let fromAccountID = TrimSpace (xv_FromAccountID input);
              toAccountID = TrimSpace (xv_ToAccountID input)
          in
          echeck (fromAccountID = '''') (Errorf ''from account id is required'')
          (echeck (toAccountID = '''') (Errorf ''to account id is required'')
          (echeck (fromAccountID = toAccountID) (Errorf ''transfer accounts must be different'')
          (echeck (\<not> d_IsPositive D (xv_Amount input)) (Errorf ''transfer amount must be positive'')
          (echeck (d_IsNegative D (xv_FeeAmount input)) (Errorf ''transfer fee must not be negative'')
          (echeck (TrimSpace (xv_IdempotencyKey input) = '''') (Errorf ''idempotency key is required'')
          (echeck (\<not> d_Equal D (xv_Amount input)
                (RoundForCurrency D (xv_Amount input) (xv_FromCurrency input)))
             (Errorf (''transfer amount scale exceeds '' @ orRUB (TrimSpace (xv_FromCurrency input)) @
                '' minor units''))
          (if d_IsPositive D (xv_FeeAmount input)
           then
             let feeCurrency = TrimSpace (xv_FeeCurrency input);
                 feeCurrency = (if feeCurrency = '''' then xv_FromCurrency input else feeCurrency)
             in echeck (\<not> d_Equal D (xv_FeeAmount input)
                    (RoundForCurrency D (xv_FeeAmount input) feeCurrency))
                  (Errorf (''transfer fee scale exceeds '' @ orRUB feeCurrency @ '' minor units''))
                  (Inr ())
           else Inr ()))))))))"

section \<open>Interest frequencies\<close>

definition ValidAccrualFrequency :: "AccrualFrequency \<Rightarrow> bool" where
  "ValidAccrualFrequency frequency =
     (frequency \<in> {AccrualFrequencyDaily, AccrualFrequencyMonthly, AccrualFrequencyEndOfTerm})"

definition ValidCapitalizationFrequency :: "CapitalizationFrequency \<Rightarrow> bool" where
  "ValidCapitalizationFrequency frequency =
     (frequency \<in> {'''', CapitalizationFrequencyDaily, CapitalizationFrequencyMonthly,
        CapitalizationFrequencyEndOfTerm, CapitalizationFrequencyNone})"

definition ValidDayCountConvention :: "DayCountConvention \<Rightarrow> bool" where
  "ValidDayCountConvention convention =
     (convention \<in> {DayCountConventionActual365, DayCountConventionActual366,
        DayCountConventionActualActual})"

definition ValidateFrequencies ::
  "AccrualFrequency \<Rightarrow> CapitalizationFrequency \<Rightarrow> DayCountConvention \<Rightarrow> err + unit" where
  "ValidateFrequencies accrual capitalization dayCount =
     echeck (\<not> ValidAccrualFrequency accrual) (Errorf (''invalid accrual frequency: '' @ accrual))
     (echeck (\<not> ValidCapitalizationFrequency capitalization)
        (Errorf (''invalid capitalization frequency: '' @ capitalization))
     (echeck (\<not> ValidDayCountConvention dayCount)
        (Errorf (''invalid day count convention: '' @ dayCount))
     (Inr ())))"

section \<open>What passes the checks\<close>

lemma digits_of_MaxAmount: "digits_of 1000000000000 = ''1000000000000''"
proof -
  have "digit 0 = CHR ''0''" "digit 1 = CHR ''1''" by code_simp+
  then show ?thesis by (simp add: digits_of.simps)
qed

lemma ValidCurrency_supported:
  "ValidCurrency currency \<longleftrightarrow> account_NormalizeCurrency currency \<in> set supportedCurrencies"
proof -
  have "[] \<notin> set supportedCurrencies" by (simp add: supportedCurrencies_def)
  then show ?thesis by (auto simp: ValidCurrency_def Let_def)
qed

lemma account_NormalizeCurrency_idem [simp]:
  "account_NormalizeCurrency (account_NormalizeCurrency c) = account_NormalizeCurrency c"
  by (simp add: account_NormalizeCurrency_def TrimSpace_ToUpper)

lemma account_ValidateCreate_ok_iff:
  "account_ValidateCreate name accountType currency = Inr () \<longleftrightarrow>
     TrimSpace name \<noteq> [] \<and> ValidAccountType accountType \<and> ValidCurrency currency"
  by (auto simp: account_ValidateCreate_def)

lemma IsTransferType_ValidType: "IsTransferType t \<Longrightarrow> ValidType t"
  by (auto simp: IsTransferType_def ValidType_def)

context decimal_pkg
begin

lemma val_MaxAmount [simp]: "val (MaxAmount D) = 1000000000000"
  using val_RequireFromString [of 1000000000000] by (simp add: MaxAmount_def digits_of_MaxAmount)

lemma transaction_ValidateCreate_ok_iff:
  "transaction_ValidateCreate D clock (Some v) = Inr () \<longleftrightarrow>
     TrimSpace (tv_AccountID v) \<noteq> [] \<and> ValidType (tv_Type v) \<and>
     (IsTransferType (tv_Type v) \<longrightarrow> tv_AllowTransfer v) \<and>
     val (tv_Amount v) \<noteq> 0 \<and> \<bar>val (tv_Amount v)\<bar> \<le> 1000000000000 \<and>
     has_scale (currency_digits (money_NormalizeCurrency (tv_Currency v))) (val (tv_Amount v)) \<and>
     (tv_Type v \<noteq> TransactionTypeAdjustment \<longrightarrow> 0 < val (tv_Amount v)) \<and>
     (\<not> tv_AllowFuture v \<longrightarrow>
        t_ns (tv_OccurredAt v) \<le> t_ns (if IsZero (tv_Now v) then clock else tv_Now v)) \<and>
     (IsZero (tv_AccountOpened v) \<or> date_day (tv_AccountOpened v) \<le> date_day (tv_OccurredAt v))"
proof -
  have future: "After t u \<longleftrightarrow> \<not> t_ns t \<le> t_ns u" for t u by (auto simp: After_def)
  have before: "Before (dateOnly t) (dateOnly u) \<longleftrightarrow> \<not> date_day u \<le> date_day t" for t u
    by (auto simp: dateOnly_day_time)
  show ?thesis
    unfolding transaction_ValidateCreate_def option.case echeck_eq_Inr_iff ebind_eq_Inr_iff
      ewrap_eq_Inr_iff cmp_val val_Neg val_MaxAmount future before unit_all_eq1
      ValidateCurrencyScale_ok_iff
    by (auto simp: abs_le_iff ValidateCurrencyScale_ok_iff)
qed

text \<open>The amount of a valid transaction fits its column.\<close>

lemma valid_amount_storage:
  assumes "transaction_ValidateCreate D clock (Some v) = Inr ()"
  shows "has_scale 6 (val (tv_Amount v))"
  using assms has_scale_mono [OF _ currency_digits_le] by (auto simp: transaction_ValidateCreate_ok_iff)

lemma transfer_ValidateCreate_ok_iff:
  "transfer_ValidateCreate D (Some v) = Inr () \<longleftrightarrow>
     TrimSpace (xv_FromAccountID v) \<noteq> [] \<and> TrimSpace (xv_ToAccountID v) \<noteq> [] \<and>
     TrimSpace (xv_FromAccountID v) \<noteq> TrimSpace (xv_ToAccountID v) \<and>
     0 < val (xv_Amount v) \<and> 0 \<le> val (xv_FeeAmount v) \<and> TrimSpace (xv_IdempotencyKey v) \<noteq> [] \<and>
     has_scale (currency_digits (xv_FromCurrency v)) (val (xv_Amount v)) \<and>
     has_scale (currency_digits
       (if TrimSpace (xv_FeeCurrency v) = [] then xv_FromCurrency v else TrimSpace (xv_FeeCurrency v)))
       (val (xv_FeeAmount v))"
  by (auto simp: transfer_ValidateCreate_def Let_def val_RoundForCurrency
      round_away_eq_iff [symmetric] not_less le_less)

end

end
