(* ===== verification/Balance.thy ===== *)
theory Balance
  imports Domain
begin

text \<open>
  \<^verbatim>\<open>internal/services/balance_service.go\<close> and the sign rule of transactions. The abstract
  contract of a ledger is \<open>ledger\<close>: the balance of an account is the sum of the signed
  amounts of its transactions whose status counts. \<open>Calculate\<close>, the SQL balance queries and
  the operations of the later theories are all shown to agree with it.
\<close>

section \<open>The service\<close>

definition transactionDelta :: "'d decimal_ops \<Rightarrow> 'd Transaction \<Rightarrow> err + 'd" where
  "transactionDelta D tx =
     (if t_Type tx \<in> {TransactionTypeInitialBalance, TransactionTypeIncome,
           TransactionTypeTransferIn, TransactionTypeInterestIncome, TransactionTypeAdjustment}
      then Inr (t_Amount tx)
      else if t_Type tx \<in> {TransactionTypeExpense, TransactionTypeTransferOut}
      then Inr (d_Neg D (t_Amount tx))
      else Inl (Errorf (''unknown transaction type: '' @ t_Type tx)))"

definition transactionDeltaForReversal :: "'d decimal_ops \<Rightarrow> 'd Transaction \<Rightarrow> 'd" where
  "transactionDeltaForReversal D tx =
     (if t_Type tx \<in> {TransactionTypeInitialBalance, TransactionTypeIncome,
           TransactionTypeTransferIn, TransactionTypeInterestIncome, TransactionTypeAdjustment}
      then t_Amount tx
      else if t_Type tx \<in> {TransactionTypeExpense, TransactionTypeTransferOut}
      then d_Neg D (t_Amount tx)
      else d_Zero D)"

record 'd CalculateBalanceResponse =
  cb_AccountID :: string
  cb_Balance :: 'd
  cb_Count :: int

fun calculateLoop ::
  "'d decimal_ops \<Rightarrow> ctx \<Rightarrow> string \<Rightarrow> 'd Transaction list \<Rightarrow> 'd \<Rightarrow> int \<Rightarrow> err + 'd \<times> int" where
  "calculateLoop D ctx accountID [] balance cnt = Inr (balance, cnt)"
| "calculateLoop D ctx accountID (tx # txs) balance cnt =
     ctxCheck ctx ''calculate balance''
     (if t_AccountID tx \<noteq> accountID then calculateLoop D ctx accountID txs balance cnt
      else if \<not> AffectsBalance (t_Status tx) then calculateLoop D ctx accountID txs balance cnt
      else ebind (transactionDelta D tx) (\<lambda>delta.
             calculateLoop D ctx accountID txs (d_Add D balance delta) (cnt + 1)))"

definition Calculate ::
  "'d decimal_ops \<Rightarrow> ctx \<Rightarrow> string \<Rightarrow> 'd Transaction list \<Rightarrow> err + 'd CalculateBalanceResponse" where
  "Calculate D ctx accountID transactions =
     (if accountID = '''' then Inl (Errorf ''account id is required'')
      else ebind (calculateLoop D ctx accountID transactions (d_Zero D) 0) (\<lambda>(balance, cnt).
        Inr \<lparr>cb_AccountID = accountID, cb_Balance = balance, cb_Count = cnt\<rparr>))"

section \<open>The ledger\<close>

text \<open>The signed value of a transaction, and the balance of an account.\<close>

definition signed :: "('d \<Rightarrow> rat) \<Rightarrow> 'd Transaction \<Rightarrow> rat" where
  "signed val tx =
     (if t_Type tx \<in> {TransactionTypeInitialBalance, TransactionTypeIncome,
           TransactionTypeTransferIn, TransactionTypeInterestIncome, TransactionTypeAdjustment}
      then val (t_Amount tx)
      else if t_Type tx \<in> {TransactionTypeExpense, TransactionTypeTransferOut}
      then - val (t_Amount tx) else 0)"

definition counts :: "string \<Rightarrow> 'd Transaction \<Rightarrow> bool" where
  "counts accountID tx = (t_AccountID tx = accountID \<and> AffectsBalance (t_Status tx))"

definition ledger :: "('d \<Rightarrow> rat) \<Rightarrow> string \<Rightarrow> 'd Transaction list \<Rightarrow> rat" where
  "ledger val accountID txs = sum_list (map (signed val) (filter (counts accountID) txs))"

lemma ledger_Nil [simp]: "ledger val a [] = 0"
  by (simp add: ledger_def)

lemma ledger_append [simp]: "ledger val a (xs @ ys) = ledger val a xs + ledger val a ys"
  by (simp add: ledger_def)

lemma ledger_Cons:
  "ledger val a (t # ts) = (if counts a t then signed val t else 0) + ledger val a ts"
  by (simp add: ledger_def)

text \<open>Every transaction type that validates has a sign.\<close>

lemma signed_types:
  "ValidType (t_Type t) \<Longrightarrow> signed val t = val (t_Amount t) \<or> signed val t = - val (t_Amount t)"
  by (auto simp: ValidType_def signed_def)

text \<open>A row of a list with distinct keys is changed in place: the balance moves by the
  difference of the old and the new contribution.\<close>

lemma ledger_update:
  assumes "distinct (map t_ID txs)" "t \<in> set txs" "t_ID (f t) = t_ID t"
  shows "ledger val a (map (\<lambda>u. if t_ID u = t_ID t then f u else u) txs) =
    ledger val a txs - (if counts a t then signed val t else 0) +
      (if counts a (f t) then signed val (f t) else 0)"
  using assms
proof (induction txs)
  case Nil
  then show ?case by simp
next
  case (Cons u us)
  show ?case
  proof (cases "u = t")
    case True
    with Cons.prems have "map (\<lambda>u. if t_ID u = t_ID t then f u else u) us = us"
      by (intro map_idI) (auto simp: image_iff)
    with True show ?thesis by (simp add: ledger_Cons)
  next
    case False
    with Cons.prems have "t_ID u \<noteq> t_ID t" "t \<in> set us" by auto
    with Cons show ?thesis by (simp add: ledger_Cons)
  qed
qed

context decimal_pkg
begin

lemma transactionDelta_signed: "transactionDelta D t = Inr d \<Longrightarrow> val d = signed val t"
  by (auto simp: transactionDelta_def signed_def split: if_splits)

lemma transactionDelta_total: "ValidType (t_Type t) \<Longrightarrow> \<exists>d. transactionDelta D t = Inr d"
  by (auto simp: transactionDelta_def ValidType_def)

lemma transactionDeltaForReversal_signed: "val (transactionDeltaForReversal D t) = signed val t"
  by (simp add: transactionDeltaForReversal_def signed_def)

lemma calculateLoop_ledger:
  "\<forall>t\<in>set txs. counts a t \<longrightarrow> ValidType (t_Type t) \<Longrightarrow>
     \<exists>b. calculateLoop D None a txs balance cnt =
           Inr (b, cnt + int (length (filter (counts a) txs))) \<and>
         val b = val balance + ledger val a txs"
proof (induction txs arbitrary: balance cnt)
  case Nil
  then show ?case by simp
next
  case (Cons t ts)
  show ?case
  proof (cases "counts a t")
    case True
    with Cons.prems obtain d where d: "transactionDelta D t = Inr d"
      using transactionDelta_total by fastforce
    from Cons.IH [of "d_Add D balance d" "cnt + 1"] Cons.prems True d
    show ?thesis
      by (auto simp: counts_def ledger_Cons transactionDelta_signed [OF d] algebra_simps)
  next
    case False
    with Cons.IH [of balance cnt] Cons.prems show ?thesis
      by (auto simp: counts_def ledger_Cons)
  qed
qed

lemma Calculate_ledger:
  assumes "a \<noteq> []" "\<forall>t\<in>set txs. counts a t \<longrightarrow> ValidType (t_Type t)"
  shows "\<exists>b. Calculate D None a txs =
      Inr \<lparr>cb_AccountID = a, cb_Balance = b, cb_Count = int (length (filter (counts a) txs))\<rparr> \<and>
    val b = ledger val a txs"
  using calculateLoop_ledger [OF assms(2), of "d_Zero D" 0] assms(1)
  by (auto simp: Calculate_def)

end

section \<open>Properties\<close>

text \<open>On a ledger whose counting transactions have valid types and while the context is live,
  \<^verbatim>\<open>Calculate\<close> returns, and its balance is the sum of the signed amounts of the account's
  confirmed or reversed transactions, its count their number.\<close>

theorem Calculate_correct:
  assumes "decimal_pkg D val" "accountID \<noteq> ''''"
    "\<forall>t\<in>set transactions. counts accountID t \<longrightarrow> ValidType (t_Type t)"
  shows "\<exists>b. Calculate D None accountID transactions =
      Inr \<lparr>cb_AccountID = accountID, cb_Balance = b,
        cb_Count = int (length (filter (counts accountID) transactions))\<rparr> \<and>
    val b = ledger val accountID transactions"
  by (rule decimal_pkg.Calculate_ledger [OF assms])

definition sample_transaction :: "string \<Rightarrow> string \<Rightarrow> string \<Rightarrow> dec \<Rightarrow> dec Transaction" where
  "sample_transaction tid account typ amount =
     \<lparr>t_ID = tid, t_AccountID = account, t_RelatedAccountID = None, t_TransferID = None,
      t_SourceType = TransactionSourceManual, t_SourceRefID = None, t_SourceMetadata = ''{}'',
      t_Type = typ, t_Status = TransactionStatusConfirmed, t_Amount = amount, t_CategoryID = None,
      t_Description = '''', t_OccurredAt = day_time 738000, t_CreatedAt = day_time 738000\<rparr>"

theorem Calculate_correct_witness:
  "\<exists>b. Calculate dec_ops None ''a''
        [sample_transaction ''1'' ''a'' ''income'' (Dec 1050 1),
         sample_transaction ''2'' ''b'' ''income'' (Dec 7 0),
         sample_transaction ''3'' ''a'' ''expense'' (Dec 25 1)] =
      Inr \<lparr>cb_AccountID = ''a'', cb_Balance = b, cb_Count = 2\<rparr> \<and> dval b = 205 / 2"
  using Calculate_correct [OF decimal_pkg_dec, of "''a''"
        "[sample_transaction ''1'' ''a'' ''income'' (Dec 1050 1),
         sample_transaction ''2'' ''b'' ''income'' (Dec 7 0),
         sample_transaction ''3'' ''a'' ''expense'' (Dec 25 1)]"]
  by (simp add: sample_transaction_def counts_def AffectsBalance_def ledger_def signed_def dval_def
      ValidType_def)

end
