(* ===== verification/Go_Json.thy ===== *)
theory Go_Json
  imports Go_Strings
begin

text \<open>
  \<^verbatim>\<open>encoding/json\<close>'s \<^verbatim>\<open>Valid\<close>: the scanner of the package, a machine with one state per
  position in the grammar and a stack that says whether the innermost open value is an
  object expecting a key, an object expecting a value, or an array. The nesting limit of
  10000 levels is kept.
\<close>

datatype parse_state = parseObjectKey | parseObjectValue | parseArrayValue

datatype scan_state =
    stateBeginValueOrEmpty | stateBeginValue | stateBeginStringOrEmpty | stateBeginString | stateEndValue | stateEndTop
  | stateInString | stateInStringEsc | stateInStringEscU nat
  | stateNeg | state1 | state0 | stateDot | stateDot0 | stateE | stateESign | stateE0
  | stateLiteral string

type_synonym scanner = "scan_state \<times> parse_state list"

definition json_space :: "char \<Rightarrow> bool" where
  "json_space c = (c \<in> {CHR '' '', CHR 0x09, CHR 0x0D, CHR 0x0A})"

definition json_digit :: "char \<Rightarrow> bool" where
  "json_digit c = (48 \<le> (of_char c :: nat) \<and> (of_char c :: nat) \<le> 57)"

definition json_hex :: "char \<Rightarrow> bool" where
  "json_hex c = (json_digit c \<or> (let n = (of_char c :: nat) in 97 \<le> n \<and> n \<le> 102 \<or> 65 \<le> n \<and> n \<le> 70))"

lemma json_digit_bits [code]:
  "json_digit (Char b0 b1 b2 b3 b4 b5 b6 b7) \<longleftrightarrow> \<not> b7 \<and> \<not> b6 \<and> b5 \<and> b4 \<and> \<not> (b3 \<and> (b2 \<or> b1))"
  by (cases b0; cases b1; cases b2; cases b3; cases b4; cases b5; cases b6; cases b7)
    (simp_all add: json_digit_def of_char_def)

definition push_state :: "scan_state \<Rightarrow> parse_state \<Rightarrow> parse_state list \<Rightarrow> scanner option" where
  "push_state st p stack = (if length stack \<ge> 10000 then None else Some (st, p # stack))"

lemma push_state_int [code]:
  "push_state st p stack = (if int (length stack) \<ge> 10000 then None else Some (st, p # stack))"
  by (simp add: push_state_def)

fun pop_state :: "parse_state list \<Rightarrow> scanner" where
  "pop_state (p # []) = (stateEndTop, [])"
| "pop_state (p # stack) = (stateEndValue, stack)"
| "pop_state [] = (stateEndTop, [])"

fun step_EndValue :: "parse_state list \<Rightarrow> char \<Rightarrow> scanner option" where
  "step_EndValue [] c = (if json_space c then Some (stateEndTop, []) else None)"
| "step_EndValue (p # stack) c =
     (if json_space c then Some (stateEndValue, p # stack)
      else case p of
          parseObjectKey \<Rightarrow>
            if c = CHR '':'' then Some (stateBeginValue, parseObjectValue # stack) else None
        | parseObjectValue \<Rightarrow>
            if c = CHR '','' then Some (stateBeginString, parseObjectKey # stack)
            else if c = CHR ''}'' then Some (pop_state (p # stack)) else None
        | parseArrayValue \<Rightarrow>
            if c = CHR '','' then Some (stateBeginValue, p # stack)
            else if c = CHR '']'' then Some (pop_state (p # stack)) else None)"

definition step_BeginValue :: "parse_state list \<Rightarrow> char \<Rightarrow> scanner option" where
  "step_BeginValue stack c =
     (if json_space c then Some (stateBeginValue, stack)
      else if c = CHR ''{'' then push_state stateBeginStringOrEmpty parseObjectKey stack
      else if c = CHR ''['' then push_state stateBeginValueOrEmpty parseArrayValue stack
      else if c = CHR 0x22 then Some (stateInString, stack)
      else if c = CHR ''-'' then Some (stateNeg, stack)
      else if c = CHR ''0'' then Some (state0, stack)
      else if c = CHR ''t'' then Some (stateLiteral ''rue'', stack)
      else if c = CHR ''f'' then Some (stateLiteral ''alse'', stack)
      else if c = CHR ''n'' then Some (stateLiteral ''ull'', stack)
      else if json_digit c then Some (state1, stack)
      else None)"

definition step_BeginString :: "parse_state list \<Rightarrow> char \<Rightarrow> scanner option" where
  "step_BeginString stack c =
     (if json_space c then Some (stateBeginString, stack)
      else if c = CHR 0x22 then Some (stateInString, stack) else None)"

definition step_Num0 :: "parse_state list \<Rightarrow> char \<Rightarrow> scanner option" where
  "step_Num0 stack c =
     (if c = CHR ''.'' then Some (stateDot, stack)
      else if c = CHR ''e'' \<or> c = CHR ''E'' then Some (stateE, stack)
      else step_EndValue stack c)"

fun json_step :: "scan_state \<Rightarrow> parse_state list \<Rightarrow> char \<Rightarrow> scanner option" where
  "json_step stateBeginValueOrEmpty stack c =
     (if json_space c then Some (stateBeginValueOrEmpty, stack)
      else if c = CHR '']'' then step_EndValue stack c else step_BeginValue stack c)"
| "json_step stateBeginValue stack c = step_BeginValue stack c"
| "json_step stateBeginStringOrEmpty stack c =
     (if json_space c then Some (stateBeginStringOrEmpty, stack)
      else if c = CHR ''}'' then step_EndValue (parseObjectValue # tl stack) c
      else step_BeginString stack c)"
| "json_step stateBeginString stack c = step_BeginString stack c"
| "json_step stateEndValue stack c = step_EndValue stack c"
| "json_step stateEndTop stack c = (if json_space c then Some (stateEndTop, stack) else None)"
| "json_step stateInString stack c =
     (if c = CHR 0x22 then Some (stateEndValue, stack)
      else if c = CHR 0x5C then Some (stateInStringEsc, stack)
      else if (of_char c :: nat) < 32 then None else Some (stateInString, stack))"
| "json_step stateInStringEsc stack c =
     (if c \<in> set [CHR ''b'', CHR ''f'', CHR ''n'', CHR ''r'', CHR ''t'', CHR 0x5C, CHR ''/'', CHR 0x22]
      then Some (stateInString, stack)
      else if c = CHR ''u'' then Some (stateInStringEscU 3, stack) else None)"
| "json_step (stateInStringEscU k) stack c =
     (if json_hex c then (case k of 0 \<Rightarrow> Some (stateInString, stack) | Suc j \<Rightarrow> Some (stateInStringEscU j, stack))
      else None)"
| "json_step stateNeg stack c =
     (if c = CHR ''0'' then Some (state0, stack)
      else if json_digit c then Some (state1, stack) else None)"
| "json_step state1 stack c = (if json_digit c then Some (state1, stack) else step_Num0 stack c)"
| "json_step state0 stack c = step_Num0 stack c"
| "json_step stateDot stack c = (if json_digit c then Some (stateDot0, stack) else None)"
| "json_step stateDot0 stack c =
     (if json_digit c then Some (stateDot0, stack)
      else if c = CHR ''e'' \<or> c = CHR ''E'' then Some (stateE, stack) else step_EndValue stack c)"
| "json_step stateE stack c =
     (if c = CHR ''+'' \<or> c = CHR ''-'' then Some (stateESign, stack)
      else if json_digit c then Some (stateE0, stack) else None)"
| "json_step stateESign stack c = (if json_digit c then Some (stateE0, stack) else None)"
| "json_step stateE0 stack c = (if json_digit c then Some (stateE0, stack) else step_EndValue stack c)"
| "json_step (stateLiteral []) stack c = step_EndValue stack c"
| "json_step (stateLiteral (d # ds)) stack c =
     (if c = d then Some (if ds = [] then stateEndValue else stateLiteral ds, stack) else None)"

fun json_scan :: "scan_state \<Rightarrow> parse_state list \<Rightarrow> string \<Rightarrow> bool" where
  "json_scan st stack [] =
     (st = stateEndTop \<or>
      (case json_step st stack (CHR '' '') of Some (st', _) \<Rightarrow> st' = stateEndTop | None \<Rightarrow> False))"
| "json_scan st stack (c # cs) =
     (case json_step st stack c of Some (st', stack') \<Rightarrow> json_scan st' stack' cs | None \<Rightarrow> False)"

definition json_Valid :: "string \<Rightarrow> bool" where
  "json_Valid s = json_scan stateBeginValue [] s"

text \<open>JSON text of an object: valid, and the first byte after white space opens an object.\<close>

definition json_object :: "string \<Rightarrow> bool" where
  "json_object s = (json_Valid s \<and> TrimSpace s \<noteq> [] \<and> hd (TrimSpace s) = CHR ''{'')"

lemma json_object_empty: "json_object ''{}''"
  by code_simp

end
