(* ===== verification/Database.thy ===== *)
theory Database
  imports Balance Go_Json
begin

text \<open>
  The PostgreSQL schema the repositories work on. The state \<open>'d db\<close> has one list of rows per
  table; a statement of \<^verbatim>\<open>internal/postgres\<close> is an operation on it. The constraints are those
  of \<^verbatim>\<open>migrations/\<close>: the row checks, unique keys and foreign keys are tested by the statement
  that writes the row (checks first, then unique keys, then foreign keys) and reported with
  their SQLSTATE; the deferred constraint triggers are tested when the transaction commits
  (\<open>pg_tx\<close>), on the rows the transaction inserted, updated or deleted, which are the rows in
  which the two states differ. An error restores the state at the start of the transaction.

  The columns of type \<^verbatim>\<open>NUMERIC\<close> hold decimals and SQL arithmetic on them is the exact
  arithmetic of the decimal package; columns of type \<^verbatim>\<open>DATE\<close> hold midnight UTC.
  A statement does not fail for reasons outside the schema (lost connections).
\<close>

section \<open>Tables\<close>

record 'd db =
  db_accounts :: "Account list"
  db_categories :: "Category list"
  db_transactions :: "'d Transaction list"
  db_transfers :: "'d Transfer list"
  db_rules :: "InterestRule list"
  db_accruals :: "'d InterestAccrual list"
  db_audit :: "AuditEvent list"
  db_users :: "User list"
  db_tokens :: "RefreshToken list"
  db_auth_audit :: "AuthAuditEvent list"
  db_idempotency :: "IdempotencyRecord list"
  db_goals :: "'d FinancialGoal list"
  db_limits :: "'d CategoryLimit list"
  db_passkeys :: "PasskeyCredential list"
  db_challenges :: "WebAuthnChallenge list"

type_synonym ('d, 'a) dbstm = "('d db, err, 'a) stm"

abbreviation "unique_violation \<equiv> ''23505''"
abbreviation "check_violation \<equiv> ''23514''"
abbreviation "foreign_key_violation \<equiv> ''23503''"
abbreviation "exclusion_violation \<equiv> ''23P01''"

text \<open>A row is written if it passes its checks, no unique key is taken and its foreign keys
  are there.\<close>

definition row_guard :: "bool \<Rightarrow> bool \<Rightarrow> bool \<Rightarrow> err + unit" where
  "row_guard checks unique fks =
     echeck (\<not> checks) (PgError check_violation)
     (echeck (\<not> unique) (PgError unique_violation)
     (echeck (\<not> fks) (PgError foreign_key_violation) (Inr ())))"

lemma row_guard_ok_iff [simp]: "row_guard c u f = Inr () \<longleftrightarrow> c \<and> u \<and> f"
  by (auto simp: row_guard_def)

definition QueryRow :: "('a \<Rightarrow> bool) \<Rightarrow> 'a list \<Rightarrow> err + 'a" where
  "QueryRow P rows = (case find P rows of Some r \<Rightarrow> Inr r | None \<Rightarrow> Inl ErrNoRows)"

lemma QueryRow_ok_iff: "QueryRow P rows = Inr r \<longleftrightarrow> find P rows = Some r"
  by (simp add: QueryRow_def split: option.splits)

lemma QueryRow_D: "QueryRow P rows = Inr r \<Longrightarrow> r \<in> set rows \<and> P r"
  by (auto simp: QueryRow_ok_iff find_Some_iff)

definition mapNotFound :: "err \<Rightarrow> err" where
  "mapNotFound e = (if errorsIs e ErrNoRows then ErrNotFound else e)"

definition isUniqueViolation :: "err \<Rightarrow> bool" where
  "isUniqueViolation e = errorsIs e (PgError unique_violation)"

section \<open>Row checks\<close>

definition transaction_checks :: "'d decimal_ops \<Rightarrow> 'd Transaction \<Rightarrow> bool" where
  "transaction_checks D t =
     (t_Type t \<in> {''initial_balance'', ''income'', ''expense'', ''transfer_in'', ''transfer_out'',
        ''interest_income'', ''adjustment''} \<and>
      (t_Type t = ''adjustment'' \<and> \<not> d_IsZero D (t_Amount t) \<or>
       t_Type t \<noteq> ''adjustment'' \<and> d_IsPositive D (t_Amount t)) \<and>
      \<not> d_LessThan D (t_Amount t) (d_NewFromInt D (-1000000000000)) \<and>
      \<not> d_GreaterThan D (t_Amount t) (d_NewFromInt D 1000000000000) \<and>
      (t_Type t \<in> {''transfer_in'', ''transfer_out''} \<longleftrightarrow> t_TransferID t \<noteq> None) \<and>
      t_SourceType t \<in> {''manual'', ''csv_import'', ''transfer'', ''deposit_interest'',
        ''savings_allocation'', ''subscription'', ''reconciliation_adjustment'',
        ''automation_rule'', ''llm_draft'', ''system''} \<and>
      json_object (t_SourceMetadata t) \<and>
      t_Status t \<in> {''pending'', ''confirmed'', ''cancelled'', ''reversed'', ''soft_deleted''})"

lemma transaction_checksD:
  assumes "transaction_checks D t"
  shows "ValidType (t_Type t)" "TransactionSource_IsValid (t_SourceType t)"
    "TransactionStatus_IsValid (t_Status t)" "json_object (t_SourceMetadata t)"
  using assms
  unfolding transaction_checks_def ValidType_def TransactionSource_IsValid_def TransactionStatus_IsValid_def
  by blast+

lemma transaction_checksI:
  assumes "ValidType (t_Type t)"
    "if t_Type t = TransactionTypeAdjustment then \<not> d_IsZero D (t_Amount t) else d_IsPositive D (t_Amount t)"
    "\<not> d_LessThan D (t_Amount t) (d_NewFromInt D (-1000000000000))"
    "\<not> d_GreaterThan D (t_Amount t) (d_NewFromInt D 1000000000000)"
    "IsTransferType (t_Type t) \<longleftrightarrow> t_TransferID t \<noteq> None"
    "TransactionSource_IsValid (t_SourceType t)" "json_object (t_SourceMetadata t)"
    "TransactionStatus_IsValid (t_Status t)"
  shows "transaction_checks D t"
proof -
  have "t_Type t = ''adjustment'' \<and> \<not> d_IsZero D (t_Amount t) \<or>
      t_Type t \<noteq> ''adjustment'' \<and> d_IsPositive D (t_Amount t)"
    using assms(2) by (simp split: if_splits)
  moreover have "t_Type t \<in> {''transfer_in'', ''transfer_out''} \<longleftrightarrow> t_TransferID t \<noteq> None"
    using assms(5) by (simp add: IsTransferType_def)
  ultimately show ?thesis
    using assms(1,3,4,6-)
    unfolding transaction_checks_def ValidType_def TransactionSource_IsValid_def TransactionStatus_IsValid_def
    by (intro conjI)
qed

definition transfer_checks :: "'d decimal_ops \<Rightarrow> 'd Transfer \<Rightarrow> bool" where
  "transfer_checks D tr =
     (d_IsPositive D (x_FromAmount tr) \<and> d_IsPositive D (x_ToAmount tr) \<and>
      (case d_NewFromString D (x_ExchangeRate tr) of
         Some rate \<Rightarrow> d_IsPositive D (d_Round D rate 18) | None \<Rightarrow> False) \<and>
      x_FromAccountID tr \<noteq> x_ToAccountID tr \<and> x_FromTransactionID tr \<noteq> x_ToTransactionID tr \<and>
      \<not> d_IsNegative D (x_FeeAmount tr) \<and> x_Status tr = ''completed'' \<and>
      (d_IsZero D (x_FeeAmount tr) \<and> x_FeeCurrency tr = None \<and> x_FeeTransactionID tr = None \<or>
       d_IsPositive D (x_FeeAmount tr) \<and> x_FeeCurrency tr = Some (x_FromCurrency tr) \<and>
       x_FeeTransactionID tr \<noteq> None))"

definition account_checks :: "Account \<Rightarrow> bool" where
  "account_checks a =
     (a_Type a \<in> {''cash'', ''card'', ''savings'', ''term_deposit'', ''broker'', ''other''} \<and>
      (case a_Currency a of
         [] \<Rightarrow> False
       | c # cs \<Rightarrow>
           (let n = (of_char c :: nat) in 65 \<le> n \<and> n \<le> 90) \<and>
           list_all (\<lambda>d. let n = (of_char d :: nat) in 65 \<le> n \<and> n \<le> 90 \<or> 48 \<le> n \<and> n \<le> 57) cs \<and>
           1 \<le> length cs \<and> length cs \<le> 11))"

definition rule_checks :: "InterestRule \<Rightarrow> bool" where
  "rule_checks r =
     (r_AnnualRateBps r > 0 \<and>
      (case r_PromoRateBps r of None \<Rightarrow> True | Some p \<Rightarrow> p > 0) \<and>
      r_AccrualFrequency r \<in> {''daily'', ''monthly'', ''end_of_term''} \<and>
      r_CapitalizationFrequency r \<in> {''daily'', ''monthly'', ''end_of_term'', ''none''} \<and>
      r_DayCountConvention r \<in> {''actual_365'', ''actual_366'', ''actual_actual''} \<and>
      (r_PromoRateBps r = None \<longleftrightarrow> r_PromoEndDate r = None) \<and>
      (case r_EndDate r of None \<Rightarrow> True | Some e \<Rightarrow> \<not> Before e (r_StartDate r)) \<and>
      (case r_PromoEndDate r of None \<Rightarrow> True | Some e \<Rightarrow> \<not> Before e (r_StartDate r)) \<and>
      r_Version r \<ge> 0)"

text \<open>\<^verbatim>\<open>daterange(start_date, end_date, '[]') &&\<close>: the periods of two rules share a day.\<close>

definition rule_periods_overlap :: "InterestRule \<Rightarrow> InterestRule \<Rightarrow> bool" where
  "rule_periods_overlap r q =
     ((case r_EndDate r of None \<Rightarrow> True | Some e \<Rightarrow> \<not> Before e (r_StartDate q)) \<and>
      (case r_EndDate q of None \<Rightarrow> True | Some e \<Rightarrow> \<not> Before e (r_StartDate r)))"

definition accrual_checks :: "'d decimal_ops \<Rightarrow> 'd InterestAccrual \<Rightarrow> bool" where
  "accrual_checks D a =
     (d_IsPositive D (i_Amount a) \<and> d_IsPositive D (i_Balance a) \<and> i_AnnualRateBps a > 0)"

section \<open>Deferred constraints\<close>

text \<open>\<^verbatim>\<open>validate_transfer_integrity\<close>: a transfer has exactly two transactions, its two legs
  mirror its accounts and amounts, and a fee is an expense of the source account.\<close>

definition fee_integrity :: "'d decimal_ops \<Rightarrow> 'd Transaction list \<Rightarrow> 'd Transfer \<Rightarrow> bool" where
  "fee_integrity D txs tr =
     (d_IsZero D (x_FeeAmount tr) \<and> x_FeeTransactionID tr = None \<or>
      d_IsPositive D (x_FeeAmount tr) \<and> x_FeeCurrency tr = Some (x_FromCurrency tr) \<and>
      list_ex (\<lambda>fee_tx. x_FeeTransactionID tr = Some (t_ID fee_tx) \<and> t_TransferID fee_tx = None \<and>
        t_Type fee_tx = ''expense'' \<and> t_AccountID fee_tx = x_FromAccountID tr \<and>
        d_Equal D (t_Amount fee_tx) (x_FeeAmount tr)) txs)"

definition transfer_integrity :: "'d decimal_ops \<Rightarrow> 'd Transaction list \<Rightarrow> 'd Transfer \<Rightarrow> bool" where
  "transfer_integrity D txs tr =
     (length (filter (\<lambda>tx. t_TransferID tx = Some (x_ID tr)) txs) = 2 \<and>
      list_ex (\<lambda>out_tx. t_ID out_tx = x_FromTransactionID tr \<and>
        t_TransferID out_tx = Some (x_ID tr) \<and> t_Type out_tx = ''transfer_out'' \<and>
        t_AccountID out_tx = x_FromAccountID tr \<and>
        t_RelatedAccountID out_tx = Some (x_ToAccountID tr) \<and>
        d_Equal D (t_Amount out_tx) (x_FromAmount tr)) txs \<and>
      list_ex (\<lambda>in_tx. t_ID in_tx = x_ToTransactionID tr \<and>
        t_TransferID in_tx = Some (x_ID tr) \<and> t_Type in_tx = ''transfer_in'' \<and>
        t_AccountID in_tx = x_ToAccountID tr \<and>
        t_RelatedAccountID in_tx = Some (x_FromAccountID tr) \<and>
        d_Equal D (t_Amount in_tx) (x_ToAmount tr)) txs \<and>
      fee_integrity D txs tr)"

definition validate_transfer :: "'d decimal_ops \<Rightarrow> 'd db \<Rightarrow> ('d Transfer \<Rightarrow> bool) \<Rightarrow> bool" where
  "validate_transfer D s P = list_all (\<lambda>tr. P tr \<longrightarrow> transfer_integrity D (db_transactions s) tr) (db_transfers s)"

text \<open>\<^verbatim>\<open>validate_related_account_owner\<close>, \<^verbatim>\<open>validate_interest_transaction\<close> and
  \<^verbatim>\<open>validate_interest_accrual\<close>.\<close>

definition account_owner :: "'d db \<Rightarrow> string \<Rightarrow> string option" where
  "account_owner s i = (case find (\<lambda>a. a_ID a = i) (db_accounts s) of Some a \<Rightarrow> a_OwnerUserID a | None \<Rightarrow> None)"

definition related_owner_ok :: "'d db \<Rightarrow> 'd Transaction \<Rightarrow> bool" where
  "related_owner_ok s t =
     (case t_RelatedAccountID t of None \<Rightarrow> True
      | Some r \<Rightarrow> account_owner s (t_AccountID t) = account_owner s r)"

definition interest_pair_ok :: "'d Transaction \<Rightarrow> 'd InterestAccrual \<Rightarrow> bool" where
  "interest_pair_ok t a =
     (t_Type t = ''interest_income'' \<and> t_SourceType t = ''deposit_interest'' \<and>
      t_SourceRefID t = Some (i_ID a))"

definition interest_transaction_ok :: "'d db \<Rightarrow> 'd Transaction \<Rightarrow> bool" where
  "interest_transaction_ok s t =
     list_all (\<lambda>a. i_TransactionID a = t_ID t \<longrightarrow> interest_pair_ok t a) (db_accruals s)"

definition interest_accrual_ok :: "'d db \<Rightarrow> 'd InterestAccrual \<Rightarrow> bool" where
  "interest_accrual_ok s a =
     list_all (\<lambda>t. t_ID t = i_TransactionID a \<longrightarrow> interest_pair_ok t a) (db_transactions s)"

text \<open>The deferred foreign keys between transfers and transactions.\<close>

definition transfer_fks :: "'d db \<Rightarrow> 'd Transfer \<Rightarrow> bool" where
  "transfer_fks s tr =
     (let ids = map t_ID (db_transactions s)
      in x_FromTransactionID tr \<in> set ids \<and> x_ToTransactionID tr \<in> set ids \<and>
         (case x_FeeTransactionID tr of None \<Rightarrow> True | Some f \<Rightarrow> f \<in> set ids))"

definition transaction_fk :: "'d db \<Rightarrow> 'd Transaction \<Rightarrow> bool" where
  "transaction_fk s t =
     (case t_TransferID t of None \<Rightarrow> True | Some i \<Rightarrow> i \<in> set (map x_ID (db_transfers s)))"

definition rows_changed :: "'a list \<Rightarrow> 'a list \<Rightarrow> 'a list" where
  "rows_changed old new = filter (\<lambda>r. r \<notin> set old) new"

definition deferred_ok :: "'d decimal_ops \<Rightarrow> 'd db \<Rightarrow> 'd db \<Rightarrow> bool" where
  "deferred_ok D s s' =
     (let new = rows_changed (db_transactions s) (db_transactions s');
          old = rows_changed (db_transactions s') (db_transactions s);
          transfers = rows_changed (db_transfers s) (db_transfers s')
      in list_all (\<lambda>t.
           validate_transfer D s' (\<lambda>tr. t_TransferID t = Some (x_ID tr)) \<and>
           validate_transfer D s' (\<lambda>tr. x_FeeTransactionID tr = Some (t_ID t))) (new @ old) \<and>
         list_all (\<lambda>t. related_owner_ok s' t \<and> interest_transaction_ok s' t \<and> transaction_fk s' t) new \<and>
         list_all (\<lambda>tr. validate_transfer D s' (\<lambda>q. x_ID q = x_ID tr) \<and> transfer_fks s' tr) transfers \<and>
         list_all (interest_accrual_ok s') (rows_changed (db_accruals s) (db_accruals s')))"

text \<open>\<^verbatim>\<open>Begin ... Commit\<close> with the message of a failed commit.\<close>

definition pg_tx :: "'d decimal_ops \<Rightarrow> string \<Rightarrow> ('d, 'a) dbstm \<Rightarrow> ('d, 'a) dbstm" where
  "pg_tx D msg m s =
     (case m s of
        (Inl e, _) \<Rightarrow> (Inl e, s)
      | (Inr x, s') \<Rightarrow>
          if deferred_ok D s s' then (Inr x, s')
          else (Inl (Wrapped msg (PgError check_violation)), s))"

lemma pg_tx_Inr_iff [tx_simps]:
  "pg_tx D msg m s = (Inr x, s') \<longleftrightarrow> m s = (Inr x, s') \<and> deferred_ok D s s'"
  by (auto simp: pg_tx_def split: prod.splits sum.splits)

lemma pg_tx_Inl: "pg_tx D msg m s = (Inl e, s') \<Longrightarrow> s' = s"
  by (auto simp: pg_tx_def split: prod.splits sum.splits if_splits)

lemma keeps_pg_tx: "keeps P m \<Longrightarrow> keeps P (pg_tx D msg m)"
  by (auto simp: keeps_def pg_tx_def split: prod.splits sum.splits)

section \<open>The invariant of the schema\<close>

text \<open>Ids are keys, rows pass their checks and their accounts exist; and every transfer is
  whole. Statements keep the first part, transactions both.\<close>

definition rows_ok :: "'d decimal_ops \<Rightarrow> 'd db \<Rightarrow> bool" where
  "rows_ok D s =
     (distinct (map a_ID (db_accounts s)) \<and> distinct (map t_ID (db_transactions s)) \<and>
      distinct (map x_ID (db_transfers s)) \<and>
      list_all (transaction_checks D) (db_transactions s) \<and>
      list_all (transfer_checks D) (db_transfers s) \<and>
      list_all (\<lambda>t. t_AccountID t \<in> set (map a_ID (db_accounts s))) (db_transactions s))"

definition ledger_ok :: "'d decimal_ops \<Rightarrow> 'd db \<Rightarrow> bool" where
  "ledger_ok D s =
     (rows_ok D s \<and> list_all (transfer_integrity D (db_transactions s)) (db_transfers s))"

lemma filter_same_set_length:
  assumes "distinct xs" "distinct ys" "\<And>x. P x \<Longrightarrow> x \<in> set xs \<longleftrightarrow> x \<in> set ys"
  shows "length (filter P xs) = length (filter P ys)"
proof -
  have "length (filter P xs) = card (set (filter P xs))"
    using assms(1) by (simp only: distinct_card distinct_filter)
  also have "set (filter P xs) = set (filter P ys)" using assms(3) by auto
  also have "card (set (filter P ys)) = length (filter P ys)"
    using assms(2) by (simp only: distinct_card distinct_filter)
  finally show ?thesis .
qed

lemma validate_transferD:
  "validate_transfer D s P \<Longrightarrow> tr \<in> set (db_transfers s) \<Longrightarrow> P tr \<Longrightarrow>
     transfer_integrity D (db_transactions s) tr"
  by (auto simp: validate_transfer_def list_all_iff)

text \<open>A transfer none of whose transactions is touched stays whole.\<close>

lemma transfer_integrity_untouched:
  assumes "distinct (map t_ID xs)" "distinct (map t_ID ys)" "transfer_integrity D xs tr"
    and "\<And>t. t_TransferID t = Some (x_ID tr) \<or> x_FeeTransactionID tr = Some (t_ID t) \<Longrightarrow>
      t \<in> set xs \<longleftrightarrow> t \<in> set ys"
  shows "transfer_integrity D ys tr"
proof -
  have "distinct xs" "distinct ys" using assms(1,2) by (simp_all add: distinct_map)
  then have len: "length (filter (\<lambda>tx. t_TransferID tx = Some (x_ID tr)) xs) =
      length (filter (\<lambda>tx. t_TransferID tx = Some (x_ID tr)) ys)"
    by (rule filter_same_set_length) (simp add: assms(4))
  have fee: "fee_integrity D ys tr" if "fee_integrity D xs tr"
    using that assms(4) by (auto simp: fee_integrity_def list_ex_iff)
  show ?thesis
    using assms(3,4) len fee unfolding transfer_integrity_def list_ex_iff by metis
qed

text \<open>The deferred triggers keep every transfer whole across a commit, whatever the
  transaction did to the tables.\<close>

lemma deferred_ok_transfer_integrity:
  assumes "deferred_ok D s s'"
    and old: "list_all (transfer_integrity D (db_transactions s)) (db_transfers s)"
    and "distinct (map t_ID (db_transactions s))" "distinct (map t_ID (db_transactions s'))"
  shows "list_all (transfer_integrity D (db_transactions s')) (db_transfers s')"
proof -
  have "transfer_integrity D (db_transactions s') tr" if tr: "tr \<in> set (db_transfers s')" for tr
  proof (cases "tr \<in> set (db_transfers s)")
    case False
    with tr have "tr \<in> set (rows_changed (db_transfers s) (db_transfers s'))"
      by (simp add: rows_changed_def)
    with assms(1) have "validate_transfer D s' (\<lambda>q. x_ID q = x_ID tr)"
      by (auto simp: deferred_ok_def Let_def list_all_iff)
    then show ?thesis using tr by (rule validate_transferD) simp
  next
    case True
    show ?thesis
    proof (cases "\<exists>t. (t \<in> set (db_transactions s) \<longleftrightarrow> t \<notin> set (db_transactions s')) \<and>
        (t_TransferID t = Some (x_ID tr) \<or> x_FeeTransactionID tr = Some (t_ID t))")
      case True
      then obtain t where t: "t \<in> set (db_transactions s) \<longleftrightarrow> t \<notin> set (db_transactions s')"
        and hit: "t_TransferID t = Some (x_ID tr) \<or> x_FeeTransactionID tr = Some (t_ID t)" by blast
      from t have "t \<in> set (rows_changed (db_transactions s) (db_transactions s') @
          rows_changed (db_transactions s') (db_transactions s))"
        by (auto simp: rows_changed_def)
      with assms(1) have "validate_transfer D s' (\<lambda>tr. t_TransferID t = Some (x_ID tr))"
        "validate_transfer D s' (\<lambda>tr. x_FeeTransactionID tr = Some (t_ID t))"
        by (auto simp: deferred_ok_def Let_def list_all_iff)
      with hit tr show ?thesis by (auto dest: validate_transferD)
    next
      case False
      have "transfer_integrity D (db_transactions s) tr" using old True by (simp add: list_all_iff)
      with assms(3,4) show ?thesis
        by (rule transfer_integrity_untouched) (use False in blast)
    qed
  qed
  then show ?thesis by (simp add: list_all_iff)
qed

text \<open>The contract every operation on the ledger meets: an error leaves the database as it was,
  and the invariant survives.\<close>

locale ledger_operation =
  fixes D :: "'d decimal_ops" and operation :: "('d, 'a) dbstm"
  assumes atomic: "operation s = (Inl e, s') \<Longrightarrow> s' = s"
    and keeps_ledger: "keeps (ledger_ok D) operation"
begin

lemma ledger_ok_step: "ledger_ok D s \<Longrightarrow> ledger_ok D (snd (operation s))"
  using keeps_ledger by (simp add: keeps_def)

lemma changed_only_on_success: "snd (operation s) \<noteq> s \<Longrightarrow> \<exists>x. fst (operation s) = Inr x"
  using atomic [of s] by (cases "operation s"; cases "fst (operation s)") auto

lemma wrapped: "ledger_operation D (swrap m operation)"
proof
  show "s' = s" if "swrap m operation s = (Inl e, s')" for s e s'
  proof (cases "operation s")
    case (Pair r t)
    with that atomic [of s] show ?thesis by (cases r) (auto simp: swrap_def)
  qed
  show "keeps (ledger_ok D) (swrap m operation)" by (intro keeps_intros keeps_ledger)
qed

end

lemma pg_tx_operation:
  assumes "keeps (rows_ok D) m"
  shows "ledger_operation D (pg_tx D msg m)"
proof
  show "s' = s" if "pg_tx D msg m s = (Inl e, s')" for s e s' using that by (rule pg_tx_Inl)
  show "keeps (ledger_ok D) (pg_tx D msg m)"
  proof (rule keepsI)
    fix s r s' assume ok: "ledger_ok D s" and run: "pg_tx D msg m s = (r, s')"
    show "ledger_ok D s'"
    proof (cases r)
      case (Inl e)
      with run ok show ?thesis by (metis pg_tx_Inl)
    next
      case (Inr x)
      with run have m: "m s = (Inr x, s')" and d: "deferred_ok D s s'" by (simp_all add: tx_simps)
      have "rows_ok D s'" using keepsD [OF assms _ m] ok by (simp add: ledger_ok_def)
      moreover have "list_all (transfer_integrity D (db_transactions s')) (db_transfers s')"
        using ok \<open>rows_ok D s'\<close>
        by (intro deferred_ok_transfer_integrity [OF d]) (simp_all add: ledger_ok_def rows_ok_def)
      ultimately show ?thesis by (simp add: ledger_ok_def)
    qed
  qed
qed

lemma in_tx_operation:
  assumes "keeps (ledger_ok D) m"
  shows "ledger_operation D (in_tx m)"
  using in_tx_Inl assms by unfold_locales (auto intro: keeps_intros)

text \<open>Services meet the contract when they read, check and then run one operation.\<close>

named_theorems operation_intros

lemma operation_after_read [operation_intros]:
  assumes "\<And>P. keeps P m" "\<And>x. ledger_operation D (f x)"
  shows "ledger_operation D (sbind m f)"
proof
  have pure: "s' = s" if "m s = (r, s')" for s r s'
    using keepsD [OF assms(1) [of "\<lambda>y. y = s"] _ that] by simp
  show "s' = s" if "sbind m f s = (Inl e, s')" for s e s'
    using that pure ledger_operation.atomic [OF assms(2)]
    by (auto simp: sbind_Inl_iff) blast
  show "keeps (ledger_ok D) (sbind m f)"
    using assms by (intro keeps_sbind) (auto simp: ledger_operation_def)
qed

lemma operation_then_return [operation_intros]:
  assumes "ledger_operation D m"
  shows "ledger_operation D (sbind m (\<lambda>x. sret (g x)))"
proof
  show "s' = s" if "sbind m (\<lambda>x. sret (g x)) s = (Inl e, s')" for s e s'
    using that ledger_operation.atomic [OF assms] by (auto simp: sbind_Inl_iff)
  show "keeps (ledger_ok D) (sbind m (\<lambda>x. sret (g x)))"
    using assms by (intro keeps_intros) (simp add: ledger_operation_def)
qed

lemma operation_pure [operation_intros]:
  "ledger_operation D (sret x)" "ledger_operation D (sfail e)" "ledger_operation D (slift r)"
  by unfold_locales (auto intro: keeps_intros)

lemma operation_cases [operation_intros]:
  "(b \<Longrightarrow> ledger_operation D m) \<Longrightarrow> (\<not> b \<Longrightarrow> ledger_operation D m') \<Longrightarrow> ledger_operation D (if b then m else m')"
  "(x = None \<Longrightarrow> ledger_operation D n) \<Longrightarrow> (\<And>y. x = Some y \<Longrightarrow> ledger_operation D (h y)) \<Longrightarrow>
     ledger_operation D (case x of None \<Rightarrow> n | Some y \<Rightarrow> h y)"
  "(\<And>a b. w = (a, b) \<Longrightarrow> ledger_operation D (k a b)) \<Longrightarrow> ledger_operation D (case w of (a, b) \<Rightarrow> k a b)"
  "(\<And>e. z = Inl e \<Longrightarrow> ledger_operation D (l e)) \<Longrightarrow> (\<And>y. z = Inr y \<Longrightarrow> ledger_operation D (q y)) \<Longrightarrow>
     ledger_operation D (case z of Inl e \<Rightarrow> l e | Inr y \<Rightarrow> q y)"
  by (simp_all split: option.split prod.split sum.split)

lemma operation_let [operation_intros]:
  "(\<And>x. x = v \<Longrightarrow> ledger_operation D (f x)) \<Longrightarrow> ledger_operation D (let x = v in f x)"
  by (simp add: Let_def)

lemmas operation_wrapped [operation_intros] = ledger_operation.wrapped

text \<open>A change of the transactions and of the audit trail alone.\<close>

definition ledger_change :: "'d db \<Rightarrow> 'd Transaction list \<Rightarrow> 'd db \<Rightarrow> bool" where
  "ledger_change s txs s' \<longleftrightarrow> (\<exists>es. s' = s\<lparr>db_transactions := txs, db_audit := es\<rparr>)"

lemma ledger_change_fields:
  assumes "ledger_change s txs s'"
  shows "db_transactions s' = txs" "db_accounts s' = db_accounts s" "db_transfers s' = db_transfers s"
    "db_rules s' = db_rules s" "db_accruals s' = db_accruals s" "db_categories s' = db_categories s"
    "db_users s' = db_users s"
  using assms by (auto simp: ledger_change_def)

lemma ledger_changeI: "s\<lparr>db_transactions := txs, db_audit := es\<rparr> = s' \<Longrightarrow> ledger_change s txs s'"
  by (auto simp: ledger_change_def)

section \<open>Audit events\<close>

text \<open>\<^verbatim>\<open>internal/postgres/audit_events.go\<close>. The id and the clock reading are given; a summary
  is kept before its encoding as JSON.\<close>

definition newAuditEventWithSummaries ::
  "string \<Rightarrow> time \<Rightarrow> string option \<Rightarrow> string \<Rightarrow> string \<Rightarrow> string \<Rightarrow> summary option \<Rightarrow> summary option \<Rightarrow>
     AuditEvent" where
  "newAuditEventWithSummaries eid now actorUserID eventType entityType entityID before after =
     \<lparr>e_ID = eid, e_ActorUserID = actorUserID, e_EventType = eventType, e_EntityType = entityType,
      e_EntityID = entityID, e_BeforeSummary = before, e_AfterSummary = after,
      e_IPAddress = None, e_UserAgent = '''', e_CreatedAt = UTC now\<rparr>"

definition newAuditEvent ::
  "string \<Rightarrow> time \<Rightarrow> string option \<Rightarrow> string \<Rightarrow> string \<Rightarrow> string \<Rightarrow> summary option \<Rightarrow> AuditEvent" where
  "newAuditEvent eid now actorUserID eventType entityType entityID after =
     newAuditEventWithSummaries eid now actorUserID eventType entityType entityID None after"

text \<open>\<^verbatim>\<open>btrim(x) <> ''\<close>: some character is not a space.\<close>

definition btrim_nonempty :: "string \<Rightarrow> bool" where
  "btrim_nonempty x = list_ex (\<lambda>c. c \<noteq> CHR '' '') x"

definition insertAuditEvent :: "AuditEvent \<Rightarrow> ('d, unit) dbstm" where
  "insertAuditEvent event =
     sbind (sread (\<lambda>s. ewrap ''insert audit event''
       (row_guard
         (btrim_nonempty (e_EventType event) \<and> btrim_nonempty (e_EntityType event) \<and>
          btrim_nonempty (e_EntityID event))
         (e_ID event \<notin> set (map e_ID (db_audit s))) True))) (\<lambda>_.
     swrite (\<lambda>s. s\<lparr>db_audit := db_audit s @ [event]\<rparr>))"

lemma insertAuditEvent_Inr_iff [tx_simps]:
  "insertAuditEvent event s = (Inr u, s') \<longleftrightarrow>
     btrim_nonempty (e_EventType event) \<and> btrim_nonempty (e_EntityType event) \<and>
     btrim_nonempty (e_EntityID event) \<and> e_ID event \<notin> set (map e_ID (db_audit s)) \<and>
     s' = s\<lparr>db_audit := db_audit s @ [event]\<rparr>"
  by (auto simp: insertAuditEvent_def tx_simps)

lemma keeps_insertAuditEvent [keeps_intros]:
  "keeps (rows_ok D) (insertAuditEvent event)" "keeps (ledger_ok D) (insertAuditEvent event)"
  unfolding insertAuditEvent_def
  by (intro keeps_intros keeps_swrite; simp add: rows_ok_def ledger_ok_def)+

end
