(* ===== verification/Accounts.thy ===== *)
theory Accounts
  imports Database "HOL-Library.List_Lexorder" "HOL-Library.Char_ord"
begin

text \<open>
  Accounts: the repository of \<^verbatim>\<open>internal/postgres/accounts.go\<close> and the service of
  \<^verbatim>\<open>internal/services/account_service.go\<close>. Ids of audit events and of new accounts
  (\<^verbatim>\<open>uuid.NewString()\<close>) and the reading of the clock are arguments. Text is ordered by its
  bytes. The lemmas show that a failed operation changes nothing, that an update or an
  archive touches the one row of its owner, and that the enforced update does not change the
  currency of an account with transactions (theory \<open>Currency\<close> shows it for the whole program).
\<close>

section \<open>Repository\<close>

definition accountAuditSummary :: "Account \<Rightarrow> summary" where
  "accountAuditSummary account =
     [(''name'', JString (a_Name account)), (''bank'', JString (a_Bank account)),
      (''type'', JString (a_Type account)), (''currency'', JString (a_Currency account)),
      (''is_active'', JBool (a_IsActive account)), (''opened_at'', JTime (a_OpenedAt account)),
      (''updated_at'', JTime (a_UpdatedAt account))]"

definition has_owner :: "string \<Rightarrow> string \<Rightarrow> Account \<Rightarrow> bool" where
  "has_owner accountID userID a = (a_ID a = accountID \<and> a_OwnerUserID a = Some userID)"

text \<open>\<^verbatim>\<open>COALESCE($3, (SELECT id FROM users WHERE (SELECT count(*) FROM users) = 1))\<close>\<close>

definition sole_user :: "'d db \<Rightarrow> string option" where
  "sole_user s = (case db_users s of [u] \<Rightarrow> Some (u_ID u) | _ \<Rightarrow> None)"

definition insertAccount :: "Account \<Rightarrow> ('d, unit) dbstm" where
  "insertAccount account s =
     (let owner = (case a_OwnerUserID account of Some u \<Rightarrow> Some u | None \<Rightarrow> sole_user s);
          row = account\<lparr>a_OwnerUserID := owner\<rparr>
      in sbind (slift (ewrap ''insert account''
           (row_guard (account_checks row)
             (a_ID row \<notin> set (map a_ID (db_accounts s)) \<and>
              (a_LegacyID row = None \<or> a_LegacyID row \<notin> set (map a_LegacyID (db_accounts s))))
             (case owner of None \<Rightarrow> True | Some u \<Rightarrow> u \<in> set (map u_ID (db_users s)))))) (\<lambda>_.
         swrite (\<lambda>s. s\<lparr>db_accounts := db_accounts s @ [row]\<rparr>)) s)"

definition AccountRepository_Create ::
  "'d decimal_ops \<Rightarrow> string \<Rightarrow> time \<Rightarrow> Account \<Rightarrow> ('d, unit) dbstm" where
  "AccountRepository_Create D eid now account =
     pg_tx D ''commit create account''
     (sbind (swrap ''create account'' (insertAccount account)) (\<lambda>_.
      swrap ''create account audit event''
       (insertAuditEvent (newAuditEvent eid now (a_OwnerUserID account) ''account.created''
         ''account'' (a_ID account) (Some (accountAuditSummary account))))))"

definition getAccount :: "(Account \<Rightarrow> bool) \<Rightarrow> ('d, Account) dbstm" where
  "getAccount P =
     sread (\<lambda>s. case QueryRow P (db_accounts s) of
        Inr a \<Rightarrow> Inr a
      | Inl e \<Rightarrow> Inl (Wrapped ''get account'' (mapNotFound (Wrapped ''scan account'' (mapNotFound e)))))"

definition AccountRepository_GetByID :: "string \<Rightarrow> ('d, Account) dbstm" where
  "AccountRepository_GetByID accountID = getAccount (\<lambda>a. a_ID a = accountID)"

definition AccountRepository_GetByIDForUser :: "string \<Rightarrow> string \<Rightarrow> ('d, Account) dbstm" where
  "AccountRepository_GetByIDForUser accountID userID = getAccount (has_owner accountID userID)"

definition AccountRepository_GetByLegacyID :: "string \<Rightarrow> ('d, Account) dbstm" where
  "AccountRepository_GetByLegacyID legacyID = getAccount (\<lambda>a. a_LegacyID a = Some legacyID)"

text \<open>\<^verbatim>\<open>ORDER BY created_at, name\<close>\<close>

definition order_accounts :: "Account list \<Rightarrow> Account list" where
  "order_accounts accounts = sort_key (\<lambda>a. t_ns (a_CreatedAt a)) (sort_key a_Name accounts)"

definition AccountRepository_List :: "('d, Account list) dbstm" where
  "AccountRepository_List = sread (\<lambda>s. Inr (order_accounts (db_accounts s)))"

definition AccountRepository_ListByUser :: "string \<Rightarrow> ('d, Account list) dbstm" where
  "AccountRepository_ListByUser userID =
     sread (\<lambda>s. Inr (order_accounts (filter (\<lambda>a. a_OwnerUserID a = Some userID) (db_accounts s))))"

text \<open>\<^verbatim>\<open>UPDATE accounts SET ... WHERE P\<close>: every new row is checked, the number of rows is returned.\<close>

definition update_accounts :: "(Account \<Rightarrow> bool) \<Rightarrow> (Account \<Rightarrow> Account) \<Rightarrow> ('d, nat) dbstm" where
  "update_accounts P f =
     sbind (sread (\<lambda>s. row_guard (list_all (\<lambda>a. account_checks (f a)) (filter P (db_accounts s))) True True)) (\<lambda>_.
     sbind (sread (\<lambda>s. Inr (length (filter P (db_accounts s))))) (\<lambda>n.
     sbind (swrite (\<lambda>s. s\<lparr>db_accounts := map (\<lambda>a. if P a then f a else a) (db_accounts s)\<rparr>)) (\<lambda>_.
     sret n)))"

definition set_account :: "Account \<Rightarrow> Account \<Rightarrow> Account" where
  "set_account account a =
     a\<lparr>a_Name := a_Name account, a_Bank := a_Bank account, a_Type := a_Type account,
       a_Currency := a_Currency account, a_IsActive := a_IsActive account,
       a_OpenedAt := a_OpenedAt account, a_UpdatedAt := a_UpdatedAt account\<rparr>"

definition AccountRepository_Update :: "Account \<Rightarrow> ('d, unit) dbstm" where
  "AccountRepository_Update account =
     in_tx (sbind (swrap ''update account''
       (update_accounts (\<lambda>a. a_ID a = a_ID account) (set_account account))) (\<lambda>n.
     scheck (n = 0) (Wrapped ''update account'' ErrNotFound)))"

definition AccountRepository_UpdateForUser ::
  "Account \<Rightarrow> string \<Rightarrow> ('d, unit) dbstm" where
  "AccountRepository_UpdateForUser account userID =
     in_tx (sbind (swrap ''update account''
       (update_accounts (has_owner (a_ID account) userID) (set_account account))) (\<lambda>n.
     scheck (n = 0) (Wrapped ''update account'' ErrNotFound)))"

definition lockAccount :: "string \<Rightarrow> string \<Rightarrow> ('d, Account) dbstm" where
  "lockAccount accountID userID =
     sread (\<lambda>s. case QueryRow (has_owner accountID userID) (db_accounts s) of
        Inr a \<Rightarrow> Inr a | Inl e \<Rightarrow> Inl (Wrapped ''scan account'' (mapNotFound e)))"

definition UpdateForUserEnforcingCurrencyInvariant ::
  "'d decimal_ops \<Rightarrow> string \<Rightarrow> time \<Rightarrow> Account \<Rightarrow> string \<Rightarrow> ('d, unit) dbstm" where
  "UpdateForUserEnforcingCurrencyInvariant D eid now account userID =
     pg_tx D ''commit update account enforcing currency invariant''
     (sbind (swrap ''lock account enforcing currency invariant''
        (lockAccount (a_ID account) userID)) (\<lambda>before.
      sbind (sread (\<lambda>s.
        if a_Currency before \<noteq> a_Currency account \<and>
           list_ex (\<lambda>t. t_AccountID t = a_ID account) (db_transactions s)
        then Inl (Wrapped ''update account enforcing currency invariant'' ErrAccountCurrencyInvariant)
        else Inr ())) (\<lambda>_.
      sbind (swrap ''update account enforcing currency invariant''
        (update_accounts (has_owner (a_ID account) userID) (set_account account))) (\<lambda>n.
      sbind (scheck (n = 0) (Wrapped ''update account enforcing currency invariant'' ErrNotFound)) (\<lambda>_.
      swrap ''create account update audit event''
        (insertAuditEvent (newAuditEventWithSummaries eid now (Some userID) ''account.updated''
          ''account'' (a_ID account) (Some (accountAuditSummary before))
          (Some (accountAuditSummary account)))))))))"

definition AccountRepository_Archive :: "time \<Rightarrow> string \<Rightarrow> ('d, unit) dbstm" where
  "AccountRepository_Archive now accountID =
     in_tx (sbind (swrap ''archive account''
       (update_accounts (\<lambda>a. a_ID a = accountID) (\<lambda>a. a\<lparr>a_IsActive := False, a_UpdatedAt := now\<rparr>))) (\<lambda>n.
     scheck (n = 0) (Wrapped ''archive account'' ErrNotFound)))"

definition AccountRepository_ArchiveForUser ::
  "'d decimal_ops \<Rightarrow> string \<Rightarrow> time \<Rightarrow> string \<Rightarrow> string \<Rightarrow> ('d, unit) dbstm" where
  "AccountRepository_ArchiveForUser D eid now accountID userID =
     pg_tx D ''commit archive account''
     (sbind (swrap ''lock account for archive'' (lockAccount accountID userID)) (\<lambda>before.
      let after = before\<lparr>a_IsActive := False, a_UpdatedAt := now\<rparr>
      in sbind (swrap ''archive account''
           (update_accounts (has_owner accountID userID)
             (\<lambda>a. a\<lparr>a_IsActive := False, a_UpdatedAt := now\<rparr>))) (\<lambda>n.
         sbind (scheck (n = 0) (Wrapped ''archive account'' ErrNotFound)) (\<lambda>_.
         swrap ''create account archive audit event''
           (insertAuditEvent (newAuditEventWithSummaries eid now (Some userID) ''account.archived''
             ''account'' accountID (Some (accountAuditSummary before))
             (Some (accountAuditSummary after))))))))"

definition claimUnownedAccounts :: "time \<Rightarrow> string \<Rightarrow> ('d, unit) dbstm" where
  "claimUnownedAccounts now userID =
     sbind (swrap ''claim unowned accounts''
       (sbind (sread (\<lambda>s. row_guard True True
          (\<not> list_ex (\<lambda>a. a_OwnerUserID a = None) (db_accounts s) \<or> userID \<in> set (map u_ID (db_users s))))) (\<lambda>_.
        update_accounts (\<lambda>a. a_OwnerUserID a = None)
         (\<lambda>a. a\<lparr>a_OwnerUserID := Some userID, a_UpdatedAt := now\<rparr>)))) (\<lambda>_. sret ())"

section \<open>Service\<close>

record CreateAccountRequest =
  ca_OwnerUserID :: string
  ca_Name :: string
  ca_Bank :: string
  ca_Type :: AccountType
  ca_Currency :: string
  ca_OpenedAt :: time

record UpdateAccountRequest =
  ua_ID :: string
  ua_UserID :: string
  ua_Name :: "string option"
  ua_Bank :: "string option"
  ua_Type :: "AccountType option"
  ua_Currency :: "string option"
  ua_OpenedAt :: "time option"
  ua_IsActive :: "bool option"

definition ownerUserID :: "string \<Rightarrow> string option" where
  "ownerUserID uid = (let uid = TrimSpace uid in if uid = '''' then None else Some uid)"

definition buildAccount :: "ctx \<Rightarrow> string \<Rightarrow> time \<Rightarrow> CreateAccountRequest option \<Rightarrow> err + Account" where
  "buildAccount ctx accountID now r =
     ctxCheck ctx ''create account''
     (case r of
        None \<Rightarrow> Inl (validationError ''create account request is required'')
      | Some req \<Rightarrow>
          let name = TrimSpace (ca_Name req);
              currency = TrimSpace (ca_Currency req);
              currency = (if currency = '''' then ''RUB'' else currency);
              currency = account_NormalizeCurrency currency
          in case account_ValidateCreate name (ca_Type req) currency of
               Inl e \<Rightarrow> Inl (validationError (Error e))
             | Inr _ \<Rightarrow>
                 Inr \<lparr>a_ID = accountID, a_LegacyID = None,
                   a_OwnerUserID = ownerUserID (ca_OwnerUserID req), a_Name = name,
                   a_Bank = TrimSpace (ca_Bank req), a_Type = ca_Type req, a_Currency = currency,
                   a_IsActive = True,
                   a_OpenedAt = (if IsZero (ca_OpenedAt req) then now else ca_OpenedAt req),
                   a_CreatedAt = now, a_UpdatedAt = now\<rparr>)"

definition AccountService_Create ::
  "'d decimal_ops \<Rightarrow> ctx \<Rightarrow> string \<Rightarrow> string \<Rightarrow> time \<Rightarrow> CreateAccountRequest option \<Rightarrow> ('d, Account) dbstm" where
  "AccountService_Create D ctx accountID eid now r =
     sbind (slift (buildAccount ctx accountID now r)) (\<lambda>account.
     sbind (swrap ''save account'' (AccountRepository_Create D eid now account)) (\<lambda>_.
     sret account))"

text \<open>The fields an update request sets.\<close>

definition apply_update :: "UpdateAccountRequest \<Rightarrow> Account \<Rightarrow> Account" where
  "apply_update req account =
     account\<lparr>
       a_Name := (case ua_Name req of Some n \<Rightarrow> TrimSpace n | None \<Rightarrow> a_Name account),
       a_Bank := (case ua_Bank req of Some b \<Rightarrow> TrimSpace b | None \<Rightarrow> a_Bank account),
       a_Type := (case ua_Type req of Some t \<Rightarrow> t | None \<Rightarrow> a_Type account),
       a_Currency := (case ua_Currency req of Some c \<Rightarrow> account_NormalizeCurrency c
                      | None \<Rightarrow> a_Currency account),
       a_OpenedAt := (case ua_OpenedAt req of
           Some t \<Rightarrow> (if IsZero t then a_OpenedAt account else t) | None \<Rightarrow> a_OpenedAt account),
       a_IsActive := (case ua_IsActive req of Some b \<Rightarrow> b | None \<Rightarrow> a_IsActive account)\<rparr>"

definition AccountService_UpdateForUser ::
  "'d decimal_ops \<Rightarrow> ctx \<Rightarrow> string \<Rightarrow> time \<Rightarrow> UpdateAccountRequest option \<Rightarrow> ('d, Account) dbstm" where
  "AccountService_UpdateForUser D ctx eid now r =
     sbind (slift (ctxCheck ctx ''update account''
       (case r of
          None \<Rightarrow> Inl (validationError ''update account request is required'')
        | Some req \<Rightarrow>
            echeck (TrimSpace (ua_ID req) = '''') (validationError ''account id is required'')
            (echeck (TrimSpace (ua_UserID req) = '''') (validationError ''user is required'')
            (Inr req))))) (\<lambda>req.
     let accountID = TrimSpace (ua_ID req); userID = TrimSpace (ua_UserID req)
     in sbind (swrap ''get account'' (AccountRepository_GetByIDForUser accountID userID)) (\<lambda>stored.
        let account = apply_update req stored
        in case account_ValidateCreate (a_Name account) (a_Type account) (a_Currency account) of
             Inl e \<Rightarrow> sfail (validationError (Error e))
           | Inr _ \<Rightarrow>
               let account = account\<lparr>a_UpdatedAt := now\<rparr>
               in sbind (swrap ''update account''
                    (UpdateForUserEnforcingCurrencyInvariant D eid now account userID)) (\<lambda>_.
                  sret account)))"

definition AccountService_ArchiveForUser ::
  "'d decimal_ops \<Rightarrow> ctx \<Rightarrow> string \<Rightarrow> time \<Rightarrow> string \<Rightarrow> string \<Rightarrow> ('d, unit) dbstm" where
  "AccountService_ArchiveForUser D ctx eid now accountID userID =
     sbind (slift (ctxCheck ctx ''archive account''
       (echeck (TrimSpace accountID = '''') (validationError ''account id is required'')
       (echeck (TrimSpace userID = '''') (validationError ''user is required'') (Inr ()))))) (\<lambda>_.
     swrap ''archive account''
       (AccountRepository_ArchiveForUser D eid now (TrimSpace accountID) (TrimSpace userID)))"

section \<open>Facts\<close>

lemma getAccount_Inr_iff [tx_simps]:
  "getAccount P s = (Inr a, s') \<longleftrightarrow> find P (db_accounts s) = Some a \<and> s' = s"
  by (auto simp: getAccount_def QueryRow_def split: option.splits)

lemma lockAccount_Inr_iff [tx_simps]:
  "lockAccount i u s = (Inr a, s') \<longleftrightarrow> find (has_owner i u) (db_accounts s) = Some a \<and> s' = s"
  by (auto simp: lockAccount_def QueryRow_def split: option.splits)

lemma update_accounts_Inr_iff [tx_simps]:
  "update_accounts P f s = (Inr n, s') \<longleftrightarrow>
     list_all (\<lambda>a. account_checks (f a)) (filter P (db_accounts s)) \<and>
     n = length (filter P (db_accounts s)) \<and>
     s' = s\<lparr>db_accounts := map (\<lambda>a. if P a then f a else a) (db_accounts s)\<rparr>"
  by (auto simp: update_accounts_def tx_simps)

lemma find_has_owner:
  "find (has_owner i u) xs = Some a \<Longrightarrow> a \<in> set xs \<and> a_ID a = i \<and> a_OwnerUserID a = Some u"
  by (auto simp: find_Some_iff has_owner_def)

lemma set_account_id [simp]:
  "a_ID (set_account account a) = a_ID a" "a_OwnerUserID (set_account account a) = a_OwnerUserID a"
  "a_Currency (set_account account a) = a_Currency account"
  by (simp_all add: set_account_def)

text \<open>Every operation on accounts meets the ledger's contract.\<close>

lemma keeps_insertAccount [keeps_intros]: "keeps (rows_ok D) (insertAccount account)"
proof (rule keepsI)
  fix s r s' assume ok: "rows_ok D s" and run: "insertAccount account s = (r, s')"
  define row where "row = account\<lparr>a_OwnerUserID :=
    (case a_OwnerUserID account of Some u \<Rightarrow> Some u | None \<Rightarrow> sole_user s)\<rparr>"
  have "s' = s \<or> a_ID row \<notin> set (map a_ID (db_accounts s)) \<and>
      s' = s\<lparr>db_accounts := db_accounts s @ [row]\<rparr>"
    using run by (auto simp: insertAccount_def Let_def row_def [symmetric] sbind_def row_guard_def
        ewrap_def echeck_def split: if_splits sum.splits)
  then show "rows_ok D s'" using ok by (auto simp: rows_ok_def list_all_iff)
qed

lemma keeps_update_accounts:
  assumes "\<And>a. a_ID (f a) = a_ID a"
  shows "keeps (rows_ok D) (update_accounts P f)" "keeps (ledger_ok D) (update_accounts P f)"
proof -
  have ids: "map a_ID (map (\<lambda>a. if P a then f a else a) xs) = map a_ID xs" for xs
    using assms by simp
  show "keeps (rows_ok D) (update_accounts P f)" "keeps (ledger_ok D) (update_accounts P f)"
    unfolding update_accounts_def
    by (intro keeps_intros keeps_swrite; simp add: rows_ok_def ledger_ok_def ids del: map_map)+
qed

lemmas keeps_accounts [keeps_intros] =
  keeps_update_accounts [where f = "set_account account" for account, OF set_account_id(1)]
  keeps_update_accounts [where f = "\<lambda>a. a\<lparr>a_IsActive := False, a_UpdatedAt := now\<rparr>" for now, simplified]
  keeps_update_accounts [where f = "\<lambda>a. a\<lparr>a_OwnerUserID := Some u, a_UpdatedAt := now\<rparr>" for u now,
    simplified]

lemma keeps_account_reads [keeps_intros]: "keeps P (getAccount q)" "keeps P (lockAccount i u)"
  unfolding getAccount_def lockAccount_def by (intro keeps_intros)+

interpretation account_create: ledger_operation D "AccountRepository_Create D eid now account"
  for D eid now account
  unfolding AccountRepository_Create_def by (intro pg_tx_operation keeps_intros)

interpretation account_update:
  ledger_operation D "UpdateForUserEnforcingCurrencyInvariant D eid now account userID"
  for D eid now account userID
  unfolding UpdateForUserEnforcingCurrencyInvariant_def by (intro pg_tx_operation keeps_intros)

interpretation account_archive: ledger_operation D "AccountRepository_ArchiveForUser D eid now i userID"
  for D eid now i userID
  unfolding AccountRepository_ArchiveForUser_def by (intro pg_tx_operation keeps_intros)

interpretation account_service_create: ledger_operation D "AccountService_Create D ctx i eid now r"
  for D ctx i eid now r
  unfolding AccountService_Create_def
  by (intro operation_intros keeps_intros account_create.ledger_operation_axioms)

interpretation account_service_update: ledger_operation D "AccountService_UpdateForUser D ctx eid now r"
  for D ctx eid now r
  unfolding AccountService_UpdateForUser_def AccountRepository_GetByIDForUser_def
  by (intro operation_intros keeps_intros account_update.ledger_operation_axioms)

interpretation account_service_archive: ledger_operation D "AccountService_ArchiveForUser D ctx eid now i u"
  for D ctx eid now i u
  unfolding AccountService_ArchiveForUser_def
  by (intro operation_intros keeps_intros account_archive.ledger_operation_axioms)

text \<open>The row an enforced update writes.\<close>

lemma UpdateForUserEnforcingCurrencyInvariant_Inr:
  assumes "UpdateForUserEnforcingCurrencyInvariant D eid now account userID s = (Inr (), s')"
  obtains before e where
    "find (has_owner (a_ID account) userID) (db_accounts s) = Some before"
    "a_Currency before = a_Currency account \<or>
     (\<forall>t\<in>set (db_transactions s). t_AccountID t \<noteq> a_ID account)"
    "s' = s\<lparr>db_accounts := map (\<lambda>a. if has_owner (a_ID account) userID a then set_account account a else a)
           (db_accounts s), db_audit := db_audit s @ [e]\<rparr>"
  using assms
  by (auto simp: UpdateForUserEnforcingCurrencyInvariant_def tx_simps list_ex_iff split: if_splits)

lemma UpdateForUserEnforcingCurrencyInvariant_currency:
  assumes upd: "UpdateForUserEnforcingCurrencyInvariant D eid now account userID s = (Inr (), s')"
    and dist: "distinct (map a_ID (db_accounts s))" and t: "t \<in> set (db_transactions s)"
    and a: "a \<in> set (db_accounts s)" "a_ID a = t_AccountID t"
    and a': "a' \<in> set (db_accounts s')" "a_ID a' = t_AccountID t"
  shows "a_Currency a' = a_Currency a \<and> a_OwnerUserID a' = a_OwnerUserID a"
proof -
  obtain before e where b: "find (has_owner (a_ID account) userID) (db_accounts s) = Some before"
    and cur: "a_Currency before = a_Currency account \<or>
      (\<forall>t\<in>set (db_transactions s). t_AccountID t \<noteq> a_ID account)"
    and s': "s' = s\<lparr>db_accounts := map (\<lambda>a. if has_owner (a_ID account) userID a then set_account account a else a)
           (db_accounts s), db_audit := db_audit s @ [e]\<rparr>"
    using UpdateForUserEnforcingCurrencyInvariant_Inr [OF upd] by blast
  from a' s' obtain r where r: "r \<in> set (db_accounts s)"
    "a' = (if has_owner (a_ID account) userID r then set_account account r else r)" by auto
  then have "a_ID r = a_ID a" using a'(2) a(2) by (simp split: if_splits)
  then have ra: "r = a" using dist r(1) a(1) by (meson distinct_map inj_on_def)
  show ?thesis
  proof (cases "has_owner (a_ID account) userID a")
    case True
    have bs: "before \<in> set (db_accounts s)" "a_ID before = a_ID account"
      using find_has_owner [OF b] by simp_all
    have ida: "a_ID a = a_ID account" using True by (simp add: has_owner_def)
    then have "before = a" using dist bs a(1) by (metis distinct_map inj_on_def)
    moreover have "a_Currency before = a_Currency account" using cur t ida a(2) by auto
    ultimately show ?thesis using r(2) ra True by simp
  next
    case False
    with r(2) ra show ?thesis by simp
  qed
qed

section \<open>Properties\<close>

text \<open>A successful account update changes only the row of that account and that owner, leaves
  every transaction and transfer as it was, and does not change the currency (nor the owner)
  of an account that has a transaction.\<close>

theorem account_update_keeps_currency:
  assumes "UpdateForUserEnforcingCurrencyInvariant D eid now account userID s = (Inr (), s')"
    "distinct (map a_ID (db_accounts s))"
  shows "map a_ID (db_accounts s') = map a_ID (db_accounts s) \<and>
    db_transactions s' = db_transactions s \<and> db_transfers s' = db_transfers s \<and>
    (\<forall>a\<in>set (db_accounts s). \<not> has_owner (a_ID account) userID a \<longrightarrow> a \<in> set (db_accounts s')) \<and>
    (\<forall>t\<in>set (db_transactions s). \<forall>a\<in>set (db_accounts s). \<forall>a'\<in>set (db_accounts s').
       a_ID a = t_AccountID t \<longrightarrow> a_ID a' = t_AccountID t \<longrightarrow>
       a_Currency a' = a_Currency a \<and> a_OwnerUserID a' = a_OwnerUserID a)"
proof (intro conjI ballI impI)
  obtain e where s': "s' = s\<lparr>db_accounts := map (\<lambda>a. if has_owner (a_ID account) userID a then set_account account a else a)
           (db_accounts s), db_audit := db_audit s @ [e]\<rparr>"
    by (rule UpdateForUserEnforcingCurrencyInvariant_Inr [OF assms(1)])
  show "map a_ID (db_accounts s') = map a_ID (db_accounts s)"
    "db_transactions s' = db_transactions s" "db_transfers s' = db_transfers s"
    by (simp_all add: s')
  show "a \<in> set (db_accounts s')"
    if "a \<in> set (db_accounts s)" "\<not> has_owner (a_ID account) userID a" for a
    using that by (force simp: s')
next
  fix t a a' assume "t \<in> set (db_transactions s)" "a \<in> set (db_accounts s)" "a' \<in> set (db_accounts s')"
    "a_ID a = t_AccountID t" "a_ID a' = t_AccountID t"
  from UpdateForUserEnforcingCurrencyInvariant_currency [OF assms this(1,2,4,3,5)]
  show "a_Currency a' = a_Currency a" "a_OwnerUserID a' = a_OwnerUserID a" by simp_all
qed

definition sample_account :: "string \<Rightarrow> string \<Rightarrow> string \<Rightarrow> Account" where
  "sample_account accountID owner currency =
     \<lparr>a_ID = accountID, a_LegacyID = None, a_OwnerUserID = Some owner, a_Name = ''Main'', a_Bank = '''',
      a_Type = AccountTypeCard, a_Currency = currency, a_IsActive = True,
      a_OpenedAt = day_time 737000, a_CreatedAt = day_time 737000, a_UpdatedAt = day_time 737000\<rparr>"

definition empty_db :: "'d db" where
  "empty_db =
     \<lparr>db_accounts = [], db_categories = [], db_transactions = [], db_transfers = [], db_rules = [],
      db_accruals = [], db_audit = [], db_users = [], db_tokens = [], db_auth_audit = [],
      db_idempotency = [], db_goals = [], db_limits = [], db_passkeys = [], db_challenges = []\<rparr>"

definition sample_db :: "dec db" where
  "sample_db = empty_db\<lparr>
     db_accounts := [sample_account ''A'' ''U'' ''RUB'', sample_account ''B'' ''U'' ''RUB''],
     db_transactions := [sample_transaction ''t1'' ''A'' ''income'' (Dec 100000 2)]\<rparr>"

theorem account_update_keeps_currency_witness:
  "let r = UpdateForUserEnforcingCurrencyInvariant dec_ops ''e1'' (day_time 738001)
         ((sample_account ''A'' ''U'' ''RUB'')\<lparr>a_Name := ''New''\<rparr>) ''U'' sample_db
   in fst r = Inr () \<and> db_transactions (snd r) = db_transactions sample_db \<and>
      db_accounts (snd r) \<noteq> db_accounts sample_db"
proof -
  let ?r = "UpdateForUserEnforcingCurrencyInvariant dec_ops ''e1'' (day_time 738001)
         ((sample_account ''A'' ''U'' ''RUB'')\<lparr>a_Name := ''New''\<rparr>) ''U'' sample_db"
  have ok: "fst ?r = Inr ()" and new: "db_accounts (snd ?r) \<noteq> db_accounts sample_db" by code_simp+
  from ok have "?r = (Inr (), snd ?r)" by (simp add: prod_eq_iff)
  from account_update_keeps_currency [OF this] have "db_transactions (snd ?r) = db_transactions sample_db"
    by (simp add: sample_db_def empty_db_def sample_account_def)
  with ok new show ?thesis by (simp add: Let_def)
qed

end
