(* ===== verification/Go_Bytes.thy ===== *)
theory Go_Bytes
  imports Go_Strings Decimal "HOL-Library.Word" "HOL-Library.Sublist"
begin

text \<open>
  More of Go's standard library: \<^verbatim>\<open>strings.Split\<close>, \<^verbatim>\<open>strings.Cut\<close>,
  \<^verbatim>\<open>strings.HasPrefix\<close> and \<^verbatim>\<open>strings.EqualFold\<close> (on ASCII), \<^verbatim>\<open>strconv.ParseUint\<close>
  in base 10, \<^verbatim>\<open>hex.EncodeToString\<close> and \<^verbatim>\<open>base64.RawStdEncoding\<close>. Decoding skips the line breaks Go skips,
  accepts no padding and ignores the unused low bits of a last group. The lemmas are the round
  trips: joining and splitting, printing and parsing, encoding and decoding.
\<close>

section \<open>Splitting and joining\<close>

fun Split :: "char \<Rightarrow> string \<Rightarrow> string list" where
  "Split sep [] = [[]]"
| "Split sep (c # cs) =
     (if c = sep then [] # Split sep cs
      else case Split sep cs of p # ps \<Rightarrow> (c # p) # ps | [] \<Rightarrow> [[c]])"

lemma Split_Nil [simp]: "Split sep s \<noteq> []"
  by (cases s) (auto split: list.split)

lemma Split_append: "sep \<notin> set p \<Longrightarrow> Split sep (p @ sep # s) = p # Split sep s"
  by (induction p) auto

lemma Split_last: "sep \<notin> set p \<Longrightarrow> Split sep p = [p]"
  by (induction p) auto

definition Cut :: "char \<Rightarrow> string \<Rightarrow> string \<times> string \<times> bool" where
  "Cut sep s =
     (case dropWhile (\<lambda>c. c \<noteq> sep) s of
        [] \<Rightarrow> (s, [], False)
      | _ # after \<Rightarrow> (takeWhile (\<lambda>c. c \<noteq> sep) s, after, True))"

lemma Cut_append: "sep \<notin> set p \<Longrightarrow> Cut sep (p @ sep # s) = (p, s, True)"
proof -
  assume "sep \<notin> set p"
  then have "dropWhile (\<lambda>c. c \<noteq> sep) (p @ sep # s) = sep # s \<and> takeWhile (\<lambda>c. c \<noteq> sep) (p @ sep # s) = p"
    by (induction p) auto
  then show ?thesis by (simp add: Cut_def)
qed

definition HasPrefix :: "string \<Rightarrow> string \<Rightarrow> bool" where
  "HasPrefix s p = prefix p s"

definition TrimPrefix :: "string \<Rightarrow> string \<Rightarrow> string" where
  "TrimPrefix s p = (if prefix p s then drop (length p) s else s)"

definition EqualFold :: "string \<Rightarrow> string \<Rightarrow> bool" where
  "EqualFold s t = (ToLower s = ToLower t)"

section \<open>Unsigned numbers\<close>

text \<open>\<^verbatim>\<open>strconv.ParseUint(s, 10, bits)\<close>\<close>

definition ParseUint :: "nat \<Rightarrow> string \<Rightarrow> nat option" where
  "ParseUint bits s =
     (if s = [] \<or> \<not> list_all is_digit s then None
      else let n = int_of_digits s in if n < 2 ^ bits then Some (nat n) else None)"

lemma ParseUint_digits_of: "n < 2 ^ bits \<Longrightarrow> ParseUint bits (digits_of n) = Some n"
  by (simp add: ParseUint_def is_digit_digits_of int_of_digits_digits_of)

lemma digits_of_no_sep: "\<not> is_digit sep \<Longrightarrow> sep \<notin> set (digits_of n)"
  using is_digit_digits_of [of n] by (auto simp: list_all_iff)

section \<open>Hexadecimal\<close>

definition hex_digit :: "nat \<Rightarrow> char" where
  "hex_digit n = ''0123456789abcdef'' ! n"

definition hex_EncodeToString :: "string \<Rightarrow> string" where
  "hex_EncodeToString bytes = concat (map (\<lambda>c. [hex_digit (of_char c div 16), hex_digit (of_char c mod 16)]) bytes)"

section \<open>Base 64\<close>

definition base64_alphabet :: string where
  "base64_alphabet = ''ABCDEFGHIJKLMNOPQRSTUVWXYZabcdefghijklmnopqrstuvwxyz0123456789+/''"

definition base64_char :: "nat \<Rightarrow> char" where
  "base64_char k = base64_alphabet ! k"

definition base64_value :: "char \<Rightarrow> nat option" where
  "base64_value c = (case dropWhile (\<lambda>(d, _). d \<noteq> c) (zip base64_alphabet [0..<64]) of
     [] \<Rightarrow> None | (_, k) # _ \<Rightarrow> Some k)"

fun base64_encode :: "nat list \<Rightarrow> string" where
  "base64_encode [] = []"
| "base64_encode [a] = [base64_char (a div 4), base64_char (a mod 4 * 16)]"
| "base64_encode [a, b] =
     [base64_char (a div 4), base64_char (a mod 4 * 16 + b div 16), base64_char (b mod 16 * 4)]"
| "base64_encode (a # b # c # s) =
     base64_char (a div 4) # base64_char (a mod 4 * 16 + b div 16) #
     base64_char (b mod 16 * 4 + c div 64) # base64_char (c mod 64) # base64_encode s"

fun base64_groups :: "nat list \<Rightarrow> nat list option" where
  "base64_groups [] = Some []"
| "base64_groups [w] = None"
| "base64_groups [w, x] = Some [w * 4 + x div 16]"
| "base64_groups [w, x, y] = Some [w * 4 + x div 16, x mod 16 * 16 + y div 4]"
| "base64_groups (w # x # y # z # s) =
     (case base64_groups s of None \<Rightarrow> None
      | Some r \<Rightarrow> Some ([w * 4 + x div 16, x mod 16 * 16 + y div 4, y mod 4 * 64 + z] @ r))"

fun sequence :: "'a option list \<Rightarrow> 'a list option" where
  "sequence [] = Some []"
| "sequence (x # xs) = (case x of None \<Rightarrow> None | Some y \<Rightarrow>
     (case sequence xs of None \<Rightarrow> None | Some ys \<Rightarrow> Some (y # ys)))"

definition base64_EncodeToString :: "string \<Rightarrow> string" where
  "base64_EncodeToString src = base64_encode (map of_char src)"

definition base64_DecodeString :: "string \<Rightarrow> string option" where
  "base64_DecodeString s =
     (case sequence (map base64_value (filter (\<lambda>c. c \<noteq> CHR 0x0A \<and> c \<noteq> CHR 0x0D) s)) of
        None \<Rightarrow> None
      | Some ks \<Rightarrow> map_option (map char_of) (base64_groups ks))"

lemma base64_alphabet_chars:
  "list_all (\<lambda>k. base64_value (base64_char k) = Some k \<and>
     base64_char k \<notin> {CHR 0x0A, CHR 0x0D, CHR ''$''}) [0..<64]"
  by code_simp

lemma base64_char_facts:
  assumes "k < 64"
  shows "base64_value (base64_char k) = Some k" "base64_char k \<noteq> CHR 0x0A"
    "base64_char k \<noteq> CHR 0x0D" "base64_char k \<noteq> CHR ''$''"
  using base64_alphabet_chars assms by (auto simp: list_all_iff)

lemma base64_encode_sextets:
  assumes "list_all (\<lambda>a. a < 256) s"
  shows "\<exists>ks. base64_encode s = map base64_char ks \<and> list_all (\<lambda>k. k < 64) ks \<and> base64_groups ks = Some s"
  using assms
proof (induction s rule: base64_encode.induct)
  case (2 a)
  then show ?case
    by (intro exI [of _ "[a div 4, a mod 4 * 16]"]) (auto; presburger)
next
  case (3 a b)
  then show ?case
    by (intro exI [of _ "[a div 4, a mod 4 * 16 + b div 16, b mod 16 * 4]"]) (auto; presburger)
next
  case (4 a b c s)
  then obtain ks where ks: "base64_encode s = map base64_char ks" "list_all (\<lambda>k. k < 64) ks"
    "base64_groups ks = Some s" by auto
  let ?g = "[a div 4, a mod 4 * 16 + b div 16, b mod 16 * 4 + c div 64, c mod 64]"
  have "base64_encode (a # b # c # s) = map base64_char (?g @ ks)" using ks(1) by simp
  moreover have "list_all (\<lambda>k. k < 64) (?g @ ks)"
  proof -
    have "a div 4 < 64" "a mod 4 * 16 + b div 16 < 64" "b mod 16 * 4 + c div 64 < 64"
      using "4.prems" by (auto; presburger)+
    with ks(2) show ?thesis by simp
  qed
  moreover have "base64_groups (?g @ ks) = Some (a # b # c # s)"
  proof -
    have "a div 4 * 4 + (a mod 4 * 16 + b div 16) div 16 = a"
      "(a mod 4 * 16 + b div 16) mod 16 * 16 + (b mod 16 * 4 + c div 64) div 4 = b"
      "(b mod 16 * 4 + c div 64) mod 4 * 64 + c mod 64 = c"
      using "4.prems" by (auto; presburger)+
    with ks(3) show ?thesis by simp
  qed
  ultimately show ?case by blast
qed simp

lemma sequence_values: "list_all (\<lambda>k. k < 64) ks \<Longrightarrow> sequence (map base64_value (map base64_char ks)) = Some ks"
  by (induction ks) (simp_all add: base64_char_facts)

text \<open>Decoding undoes encoding, and the encoding never contains the separator of password
  hashes.\<close>

lemma of_char_bounds: "list_all (\<lambda>a. a < 256) (map (of_char :: char \<Rightarrow> nat) s)"
  by (auto simp: list_all_iff of_char_def nat_of_char_less_256)

lemma base64_DecodeString_EncodeToString: "base64_DecodeString (base64_EncodeToString s) = Some s"
proof -
  obtain ks where ks: "base64_EncodeToString s = map base64_char ks" "list_all (\<lambda>k. k < 64) ks"
    "base64_groups ks = Some (map of_char s)"
    using base64_encode_sextets [OF of_char_bounds [of s]] by (auto simp: base64_EncodeToString_def)
  have "filter (\<lambda>c. c \<noteq> CHR 0x0A \<and> c \<noteq> CHR 0x0D) (map base64_char ks) = map base64_char ks"
    using ks(2) base64_char_facts by (auto simp: filter_id_conv list_all_iff)
  then show ?thesis
    using ks sequence_values [OF ks(2)] by (simp add: base64_DecodeString_def comp_def)
qed

lemma base64_no_dollar: "CHR ''$'' \<notin> set (base64_EncodeToString s)"
proof -
  obtain ks where "base64_EncodeToString s = map base64_char ks" "list_all (\<lambda>k. k < 64) ks"
    using base64_encode_sextets [OF of_char_bounds [of s]] by (auto simp: base64_EncodeToString_def)
  then show ?thesis using base64_char_facts(4) by (fastforce simp: list_all_iff)
qed

end
