(* ===== verification/Passwords.thy ===== *)
theory Passwords
  imports Go_Bytes Models
begin

text \<open>
  Password hashes, \<^verbatim>\<open>pkg/security/password.go\<close>: the parameters of Argon2id, the encoded hash
  \<^verbatim>\<open>$argon2id$v=19$m=..,t=..,p=..$salt$key\<close>, its decoding and the verification of a password.
  \<^verbatim>\<open>argon2.IDKey\<close> of \<^verbatim>\<open>golang.org/x/crypto\<close> is the parameter \<open>IDKey\<close>; the panic it raises for
  zero iterations or zero threads is an error of it. \<^verbatim>\<open>crypto/rand\<close> is the parameter \<open>randRead\<close>,
  which fills a buffer of the given length.

  The main lemma is the round trip: decoding a hash returns the parameters, the salt and the key
  it was made of, so that exactly the passwords with the same key verify.
\<close>

record PasswordParams =
  pp_Memory :: "32 word"
  pp_Iterations :: "32 word"
  pp_Parallelism :: "8 word"
  pp_SaltLength :: "32 word"
  pp_KeyLength :: "32 word"

definition DefaultPasswordParams :: PasswordParams where
  "DefaultPasswordParams =
     \<lparr>pp_Memory = 64 * 1024, pp_Iterations = 3, pp_Parallelism = 2, pp_SaltLength = 16, pp_KeyLength = 32\<rparr>"

type_synonym argon2 = "string \<Rightarrow> string \<Rightarrow> 32 word \<Rightarrow> 32 word \<Rightarrow> 8 word \<Rightarrow> 32 word \<Rightarrow> err + string"

definition word_digits :: "'a :: len word \<Rightarrow> string" where
  "word_digits w = digits_of (unat w)"

lemma word_digits_int [code]: "word_digits w = int_digits (uint w)"
  by (simp add: word_digits_def int_digits_of)

definition encoded_params :: "PasswordParams \<Rightarrow> string" where
  "encoded_params params =
     ''m='' @ word_digits (pp_Memory params) @ '',t='' @ word_digits (pp_Iterations params) @
     '',p='' @ word_digits (pp_Parallelism params)"

definition HashPassword ::
  "argon2 \<Rightarrow> (nat \<Rightarrow> err + string) \<Rightarrow> string \<Rightarrow> PasswordParams \<Rightarrow> err + string" where
  "HashPassword IDKey randRead password params =
     echeck (password = '''') (Errorf ''password is empty'')
     (ebind (ewrap ''generate salt'' (randRead (unat (pp_SaltLength params)))) (\<lambda>salt.
      ebind (IDKey password salt (pp_Iterations params) (pp_Memory params) (pp_Parallelism params)
               (pp_KeyLength params)) (\<lambda>hash.
      Inr (''$argon2id$v=19$'' @ encoded_params params @ ''$'' @ base64_EncodeToString salt @ ''$'' @
           base64_EncodeToString hash))))"

section \<open>Decoding\<close>

definition intToUint32 :: "int \<Rightarrow> err + 32 word" where
  "intToUint32 value =
     (if value < 0 \<or> value > 2 ^ 32 - 1 then Inl (Errorf ''value does not fit uint32'')
      else Inr (word_of_int value))"

definition set_param :: "string \<Rightarrow> nat \<Rightarrow> PasswordParams \<Rightarrow> err + PasswordParams" where
  "set_param key parsed params =
     (if key = ''m'' then Inr (params\<lparr>pp_Memory := of_nat parsed\<rparr>)
      else if key = ''t'' then Inr (params\<lparr>pp_Iterations := of_nat parsed\<rparr>)
      else if key = ''p'' then
        (if parsed > 255 then Inl (Errorf ''argon2 parallelism is too large'')
         else Inr (params\<lparr>pp_Parallelism := of_nat parsed\<rparr>))
      else Inl (Errorf ''unknown argon2 parameter''))"

fun decode_params :: "string list \<Rightarrow> PasswordParams \<Rightarrow> err + PasswordParams" where
  "decode_params [] params = Inr params"
| "decode_params (item # items) params =
     (case Cut CHR ''='' item of (key, val, ok) \<Rightarrow>
        if \<not> ok then Inl (Errorf ''invalid argon2 parameters'')
        else case ParseUint 32 val of
          None \<Rightarrow> Inl (Errorf ''invalid argon2 parameter'')
        | Some parsed \<Rightarrow> ebind (set_param key parsed params) (decode_params items))"

definition decodeBase64 :: "string \<Rightarrow> string \<Rightarrow> err + string" where
  "decodeBase64 msg s = (case base64_DecodeString s of None \<Rightarrow> Inl (Errorf msg) | Some b \<Rightarrow> Inr b)"

definition decodePasswordHash :: "string \<Rightarrow> err + PasswordParams \<times> string \<times> string" where
  "decodePasswordHash encodedHash =
     (let parts = Split CHR ''$'' encodedHash
      in if length parts \<noteq> 6 \<or> parts ! 1 \<noteq> ''argon2id'' then Inl (Errorf ''invalid password hash format'')
         else if parts ! 2 \<noteq> ''v=19'' then Inl (Errorf ''unsupported argon2 version'')
         else
           ebind (decode_params (Split CHR '','' (parts ! 3))
             \<lparr>pp_Memory = 0, pp_Iterations = 0, pp_Parallelism = 0, pp_SaltLength = 0, pp_KeyLength = 0\<rparr>) (\<lambda>params.
           ebind (decodeBase64 ''decode salt'' (parts ! 4)) (\<lambda>salt.
           ebind (decodeBase64 ''decode hash'' (parts ! 5)) (\<lambda>hash.
           ebind (intToUint32 (int (length salt))) (\<lambda>saltLength.
           ebind (intToUint32 (int (length hash))) (\<lambda>keyLength.
           Inr (params\<lparr>pp_SaltLength := saltLength, pp_KeyLength := keyLength\<rparr>, salt, hash)))))))"

definition VerifyPassword :: "argon2 \<Rightarrow> string \<Rightarrow> string \<Rightarrow> err + bool" where
  "VerifyPassword IDKey password encodedHash =
     ebind (decodePasswordHash encodedHash) (\<lambda>(params, salt, hash).
     ebind (intToUint32 (int (length hash))) (\<lambda>keyLength.
     ebind (IDKey password salt (pp_Iterations params) (pp_Memory params) (pp_Parallelism params) keyLength)
       (\<lambda>otherHash. Inr (hash = otherHash))))"

section \<open>Round trip\<close>

lemma intToUint32_length: "int (length s) = uint w \<Longrightarrow> intToUint32 (int (length s)) = Inr (w :: 32 word)"
  using uint_bounded [of w] by (simp add: intToUint32_def)

lemma word_digits_no_sep: "\<not> is_digit c \<Longrightarrow> c \<notin> set (word_digits w)"
  by (simp add: word_digits_def digits_of_no_sep)

lemma not_digits: "\<not> is_digit CHR ''$''" "\<not> is_digit CHR '',''"
  by (simp_all add: is_digit_def)

lemma encoded_params_no_dollar: "CHR ''$'' \<notin> set (encoded_params params)"
  by (simp add: encoded_params_def word_digits_no_sep not_digits)

lemma Split_hash:
  "Split CHR ''$'' (''$argon2id$v=19$'' @ encoded_params params @ ''$'' @ base64_EncodeToString salt @ ''$'' @
     base64_EncodeToString hash) =
   [[], ''argon2id'', ''v=19'', encoded_params params, base64_EncodeToString salt, base64_EncodeToString hash]"
  using encoded_params_no_dollar base64_no_dollar
  by (simp add: Split_append [of "CHR ''$''" "encoded_params params"] Split_append [of "CHR ''$''" "base64_EncodeToString salt"]
      Split_last)

lemma ParseUint_word_digits: "LENGTH('a) \<le> 32 \<Longrightarrow> ParseUint 32 (word_digits (w :: 'a :: len word)) = Some (unat w)"
  unfolding word_digits_def
  by (rule ParseUint_digits_of) (meson less_le_trans one_le_numeral power_increasing unsigned_less)

lemma decode_encoded_params:
  "decode_params (Split CHR '','' (encoded_params params)) q =
     Inr (q\<lparr>pp_Memory := pp_Memory params, pp_Iterations := pp_Iterations params,
       pp_Parallelism := pp_Parallelism params\<rparr>)"
proof -
  let ?m = "word_digits (pp_Memory params)" and ?t = "word_digits (pp_Iterations params)"
    and ?p = "word_digits (pp_Parallelism params)"
  have "Split CHR '','' (encoded_params params) = [''m='' @ ?m, ''t='' @ ?t, ''p='' @ ?p]"
    unfolding encoded_params_def
    by (simp add: word_digits_no_sep not_digits Split_append [of "CHR '',''" ?m] Split_append [of "CHR '',''" ?t] Split_last)
  moreover have cut: "Cut CHR ''='' (k # CHR ''='' # s) = ([k], s, True)" if "k \<noteq> CHR ''=''" for k s
    using Cut_append [of "CHR ''=''" "[k]" s] that by simp
  moreover have "unat (pp_Parallelism params) \<le> 255"
    using unsigned_less [of "pp_Parallelism params", where 'a = nat] by simp
  ultimately show ?thesis by (simp add: set_param_def ParseUint_word_digits)
qed

text \<open>\<^verbatim>\<open>argon2.IDKey\<close> returns a key of the length asked for, and a filled buffer has its length.\<close>

definition key_length_law :: "argon2 \<Rightarrow> bool" where
  "key_length_law IDKey \<longleftrightarrow>
     (\<forall>password salt iterations memory threads keyLen key.
        IDKey password salt iterations memory threads keyLen = Inr key \<longrightarrow> length key = unat keyLen)"

definition fills_buffer :: "(nat \<Rightarrow> err + string) \<Rightarrow> bool" where
  "fills_buffer randRead \<longleftrightarrow> (\<forall>n bytes. randRead n = Inr bytes \<longrightarrow> length bytes = n)"

lemma HashPassword_decodes:
  assumes "key_length_law IDKey" "fills_buffer randRead"
    and hash: "HashPassword IDKey randRead password params = Inr h"
  obtains salt key where "randRead (unat (pp_SaltLength params)) = Inr salt"
    "IDKey password salt (pp_Iterations params) (pp_Memory params) (pp_Parallelism params) (pp_KeyLength params) = Inr key"
    "decodePasswordHash h = Inr (params, salt, key)" "intToUint32 (int (length key)) = Inr (pp_KeyLength params)"
proof -
  from hash obtain salt key where salt: "randRead (unat (pp_SaltLength params)) = Inr salt"
    and key: "IDKey password salt (pp_Iterations params) (pp_Memory params) (pp_Parallelism params)
      (pp_KeyLength params) = Inr key"
    and h: "h = ''$argon2id$v=19$'' @ encoded_params params @ ''$'' @ base64_EncodeToString salt @ ''$'' @ base64_EncodeToString key"
    by (auto simp: HashPassword_def)
  have len: "intToUint32 (int (length salt)) = Inr (pp_SaltLength params)"
    "intToUint32 (int (length key)) = Inr (pp_KeyLength params)"
    using assms(1,2) salt key
    by (intro intToUint32_length; simp add: key_length_law_def fills_buffer_def; metis uint_nat)+
  have "decodePasswordHash h = Inr (params, salt, key)"
    unfolding decodePasswordHash_def h Split_hash
    by (simp add: Let_def decode_encoded_params decodeBase64_def base64_DecodeString_EncodeToString len)
  from that [OF salt key this len(2)] show ?thesis .
qed

lemma HashPassword_verifies:
  assumes "key_length_law IDKey" "fills_buffer randRead" "HashPassword IDKey randRead password params = Inr h"
  shows "VerifyPassword IDKey password h = Inr True"
  by (rule HashPassword_decodes [OF assms]) (simp add: VerifyPassword_def)

text \<open>C32. The encoded hash keeps everything verification needs. When \<open>HashPassword\<close> returns a
  hash, decoding it gives back the parameters, the salt and the key, and \<open>VerifyPassword\<close> of any
  candidate recomputes the key with exactly those parameters and compares: the password itself
  verifies, and a candidate verifies only if Argon2 maps it to the same key.\<close>

theorem password_hash_roundtrip:
  assumes "key_length_law IDKey" "fills_buffer randRead"
    and hash: "HashPassword IDKey randRead password params = Inr h"
  shows "VerifyPassword IDKey password h = Inr True \<and>
    (\<exists>salt key. randRead (unat (pp_SaltLength params)) = Inr salt \<and>
      decodePasswordHash h = Inr (params, salt, key) \<and>
      (\<forall>candidate. VerifyPassword IDKey candidate h =
        ebind (IDKey candidate salt (pp_Iterations params) (pp_Memory params) (pp_Parallelism params)
          (pp_KeyLength params)) (\<lambda>k. Inr (key = k))))"
proof -
  obtain salt key where salt: "randRead (unat (pp_SaltLength params)) = Inr salt"
    and decode: "decodePasswordHash h = Inr (params, salt, key)" "intToUint32 (int (length key)) = Inr (pp_KeyLength params)"
    by (rule HashPassword_decodes [OF assms])
  then show ?thesis using HashPassword_verifies [OF assms] by (auto simp: VerifyPassword_def)
qed

text \<open>A toy key function and random source for which the laws hold.\<close>

definition sample_argon2 :: argon2 where
  "sample_argon2 password salt iterations memory threads keyLen =
     (if iterations = 0 \<or> threads = 0 then Inl (Errorf ''panic'')
      else Inr (take (unat keyLen) (password @ salt @ replicate (unat keyLen) CHR ''x'')))"

definition sample_rand :: "nat \<Rightarrow> err + string" where
  "sample_rand n = Inr (replicate n CHR ''s'')"

definition sample_params :: PasswordParams where
  "sample_params =
     \<lparr>pp_Memory = 8, pp_Iterations = 1, pp_Parallelism = 1, pp_SaltLength = 2, pp_KeyLength = 4\<rparr>"

lemma sample_laws: "key_length_law sample_argon2" "fills_buffer sample_rand"
  by (auto simp: key_length_law_def sample_argon2_def fills_buffer_def sample_rand_def split: if_splits)

lemma sample_hash:
  "HashPassword sample_argon2 sample_rand ''pw'' sample_params = Inr ''$argon2id$v=19$m=8,t=1,p=1$c3M$cHdzcw''"
  by code_simp

theorem password_hash_roundtrip_witness:
  "VerifyPassword sample_argon2 ''pw'' ''$argon2id$v=19$m=8,t=1,p=1$c3M$cHdzcw'' = Inr True \<and>
   VerifyPassword sample_argon2 ''px'' ''$argon2id$v=19$m=8,t=1,p=1$c3M$cHdzcw'' = Inr False"
proof -
  have "VerifyPassword sample_argon2 ''px'' ''$argon2id$v=19$m=8,t=1,p=1$c3M$cHdzcw'' = Inr False"
    by code_simp
  with password_hash_roundtrip [OF sample_laws sample_hash] show ?thesis by simp
qed

end
