(* ===== verification/Tokens.thy ===== *)
theory Tokens
  imports Passwords
begin

text \<open>
  Access and refresh tokens, \<^verbatim>\<open>internal/auth/tokens.go\<close>. The package \<^verbatim>\<open>golang-jwt\<close> is the
  parameter \<open>jwt_lib\<close>: the rounding of its dates, signing with HS256, and parsing, which is
  given the key function, the expected issuer and the time. \<^verbatim>\<open>crypto/sha256\<close>,
  \<^verbatim>\<open>crypto/rand\<close> and \<^verbatim>\<open>uuid.NewString()\<close> are arguments. The lemmas show that an issued
  access token validates until it expires and names the session of its refresh token.
\<close>

record TokenService =
  ts_secret :: string
  ts_issuer :: string
  ts_accessTTL :: duration
  ts_refreshTTL :: duration

record Claims =
  cl_UserID :: string
  cl_Email :: string
  cl_SessionID :: string
  cl_TokenType :: string
  cl_Issuer :: string
  cl_Subject :: string
  cl_ExpiresAt :: time
  cl_IssuedAt :: time
  cl_ID :: string

record TokenPair =
  tp_AccessToken :: string
  tp_AccessExpiresAt :: time
  tp_RefreshToken :: string
  tp_RefreshTokenID :: string
  tp_RefreshTokenHash :: string
  tp_RefreshExpiresAt :: time

record jwt_lib =
  jwt_NewNumericDate :: "time \<Rightarrow> time"
  jwt_SignedString :: "string \<Rightarrow> Claims \<Rightarrow> err + string"
  jwt_ParseWithClaims :: "string \<Rightarrow> (string \<Rightarrow> err + string) \<Rightarrow> string \<Rightarrow> time \<Rightarrow> err + (Claims \<times> bool)"

abbreviation "TokenTypeAccess \<equiv> ''access''"

definition NewTokenService :: "string \<Rightarrow> string \<Rightarrow> duration \<Rightarrow> duration \<Rightarrow> err + TokenService" where
  "NewTokenService secret issuer accessTTL refreshTTL =
     echeck (length secret < 32) (Errorf ''JWT secret must be at least 32 bytes'')
     (echeck (issuer = '''') (Errorf ''issuer is required'')
     (echeck (accessTTL \<le> 0 \<or> refreshTTL \<le> 0) (Errorf ''token TTLs must be positive'')
     (Inr \<lparr>ts_secret = secret, ts_issuer = issuer, ts_accessTTL = accessTTL, ts_refreshTTL = refreshTTL\<rparr>)))"

definition HashRefreshToken :: "(string \<Rightarrow> string) \<Rightarrow> string \<Rightarrow> string" where
  "HashRefreshToken sha256 token = hex_EncodeToString (sha256 token)"

text \<open>\<^verbatim>\<open>randomToken\<close>: \<open>n\<close> random bytes in \<^verbatim>\<open>base64.RawURLEncoding\<close>.\<close>

definition RawURLEncoding :: "string \<Rightarrow> string" where
  "RawURLEncoding s =
     map (\<lambda>c. if c = CHR ''+'' then CHR ''-'' else if c = CHR ''/'' then CHR ''_'' else c) (base64_EncodeToString s)"

definition randomToken :: "(nat \<Rightarrow> err + string) \<Rightarrow> nat \<Rightarrow> err + string" where
  "randomToken randRead n =
     ebind (ewrap ''generate token'' (randRead n)) (\<lambda>payload. Inr (RawURLEncoding payload))"

definition accessClaims ::
  "TokenService \<Rightarrow> jwt_lib \<Rightarrow> string \<Rightarrow> string \<Rightarrow> string \<Rightarrow> string \<Rightarrow> time \<Rightarrow> Claims" where
  "accessClaims ts J refreshTokenID jti userID email now =
     \<lparr>cl_UserID = userID, cl_Email = email, cl_SessionID = refreshTokenID, cl_TokenType = TokenTypeAccess,
      cl_Issuer = ts_issuer ts, cl_Subject = userID,
      cl_ExpiresAt = jwt_NewNumericDate J (TimeAdd now (ts_accessTTL ts)),
      cl_IssuedAt = jwt_NewNumericDate J now, cl_ID = jti\<rparr>"

definition IssuePair ::
  "TokenService \<Rightarrow> jwt_lib \<Rightarrow> (string \<Rightarrow> string) \<Rightarrow> (nat \<Rightarrow> err + string) \<Rightarrow> string \<Rightarrow> string \<Rightarrow>
     string \<Rightarrow> string \<Rightarrow> time \<Rightarrow> err + TokenPair" where
  "IssuePair ts J sha256 randRead refreshTokenID jti userID email now =
     ebind (ewrap ''sign access token''
       (jwt_SignedString J (ts_secret ts) (accessClaims ts J refreshTokenID jti userID email now))) (\<lambda>accessToken.
     ebind (randomToken randRead 32) (\<lambda>refreshToken.
     Inr \<lparr>tp_AccessToken = accessToken, tp_AccessExpiresAt = TimeAdd now (ts_accessTTL ts),
          tp_RefreshToken = refreshToken, tp_RefreshTokenID = refreshTokenID,
          tp_RefreshTokenHash = HashRefreshToken sha256 refreshToken,
          tp_RefreshExpiresAt = TimeAdd now (ts_refreshTTL ts)\<rparr>))"

definition keyFunc :: "TokenService \<Rightarrow> string \<Rightarrow> err + string" where
  "keyFunc ts method = (if method \<noteq> ''HS256'' then Inl (Errorf ''unexpected signing method'') else Inr (ts_secret ts))"

definition ValidateAccess :: "TokenService \<Rightarrow> jwt_lib \<Rightarrow> string \<Rightarrow> time \<Rightarrow> err + Claims" where
  "ValidateAccess ts J tokenString now =
     ebind (ewrap ''parse access token''
       (jwt_ParseWithClaims J tokenString (keyFunc ts) (ts_issuer ts) now)) (\<lambda>(claims, valid).
     echeck (\<not> valid) (Errorf ''invalid token'')
     (echeck (cl_TokenType claims \<noteq> TokenTypeAccess) (Errorf ''invalid token type'')
     (echeck (cl_SessionID claims = '''') (Errorf ''missing session id'')
     (Inr claims))))"

text \<open>The documented behaviour of the library that the program relies on: a token signed with
  HS256 and a key parses under that key, with its own issuer and before its expiry, and gives
  back the names that were signed; the token itself is printable ASCII. It is asked for claims
  in ASCII with a rounded expiry.\<close>

definition ascii :: "string \<Rightarrow> bool" where
  "ascii s = list_all (\<lambda>c. (of_char c :: nat) < 128) s"

definition same_identity :: "Claims \<Rightarrow> Claims \<Rightarrow> bool" where
  "same_identity c d \<longleftrightarrow> cl_UserID c = cl_UserID d \<and> cl_Email c = cl_Email d \<and>
     cl_SessionID c = cl_SessionID d \<and> cl_TokenType c = cl_TokenType d"

definition jwt_law :: "jwt_lib \<Rightarrow> bool" where
  "jwt_law J \<longleftrightarrow>
     (\<forall>secret claims token keys now t. jwt_SignedString J secret claims = Inr token \<longrightarrow>
        list_all ascii [cl_UserID claims, cl_Email claims, cl_SessionID claims, cl_TokenType claims,
          cl_Issuer claims, cl_Subject claims, cl_ID claims] \<longrightarrow>
        cl_ExpiresAt claims = jwt_NewNumericDate J t \<longrightarrow>
        keys ''HS256'' = Inr secret \<longrightarrow> Before now (cl_ExpiresAt claims) \<longrightarrow>
        token \<noteq> '''' \<and> list_all printable token \<and>
        (\<exists>claims'. jwt_ParseWithClaims J token keys (cl_Issuer claims) now = Inr (claims', True) \<and>
           same_identity claims' claims))"

lemma jwt_lawD:
  assumes "jwt_law J" "jwt_SignedString J secret claims = Inr token"
    "list_all ascii [cl_UserID claims, cl_Email claims, cl_SessionID claims, cl_TokenType claims,
       cl_Issuer claims, cl_Subject claims, cl_ID claims]"
    "cl_ExpiresAt claims = jwt_NewNumericDate J t" "keys ''HS256'' = Inr secret" "Before now (cl_ExpiresAt claims)"
  obtains claims' where "jwt_ParseWithClaims J token keys (cl_Issuer claims) now = Inr (claims', True)"
    "same_identity claims' claims" "token \<noteq> ''''" "list_all printable token"
  using assms unfolding jwt_law_def by blast

lemma IssuePair_Inr:
  assumes "IssuePair ts J sha256 randRead rid jti userID email now = Inr pair"
  shows "jwt_SignedString J (ts_secret ts) (accessClaims ts J rid jti userID email now) = Inr (tp_AccessToken pair)"
    "tp_RefreshTokenID pair = rid" "tp_RefreshExpiresAt pair = TimeAdd now (ts_refreshTTL ts)"
    "tp_RefreshTokenHash pair = HashRefreshToken sha256 (tp_RefreshToken pair)"
    "tp_AccessExpiresAt pair = TimeAdd now (ts_accessTTL ts)"
    "randomToken randRead 32 = Inr (tp_RefreshToken pair)"
  using assms by (auto simp: IssuePair_def)

lemma accessClaims_fields [simp]:
  "cl_UserID (accessClaims ts J rid jti userID email now) = userID"
  "cl_SessionID (accessClaims ts J rid jti userID email now) = rid"
  "cl_TokenType (accessClaims ts J rid jti userID email now) = TokenTypeAccess"
  "cl_Issuer (accessClaims ts J rid jti userID email now) = ts_issuer ts"
  "cl_ExpiresAt (accessClaims ts J rid jti userID email now) = jwt_NewNumericDate J (TimeAdd now (ts_accessTTL ts))"
  by (simp_all add: accessClaims_def)

text \<open>An issued access token validates until its rounded expiry, to its own user and session.\<close>

lemma ValidateAccess_issued:
  assumes "jwt_law J" "IssuePair ts J sha256 randRead rid jti userID email now = Inr pair" "rid \<noteq> ''''"
    and "list_all ascii [userID, email, rid, jti, ts_issuer ts]"
    and "Before later (jwt_NewNumericDate J (TimeAdd now (ts_accessTTL ts)))"
  obtains claims where "ValidateAccess ts J (tp_AccessToken pair) later = Inr claims"
    "cl_UserID claims = userID" "cl_SessionID claims = rid"
    "tp_AccessToken pair \<noteq> ''''" "list_all printable (tp_AccessToken pair)"
proof -
  let ?c = "accessClaims ts J rid jti userID email now"
  have "ascii TokenTypeAccess" by code_simp
  with assms(4) have "list_all ascii [cl_UserID ?c, cl_Email ?c, cl_SessionID ?c, cl_TokenType ?c,
      cl_Issuer ?c, cl_Subject ?c, cl_ID ?c]" by (simp add: accessClaims_def)
  then obtain c where "jwt_ParseWithClaims J (tp_AccessToken pair) (keyFunc ts) (cl_Issuer ?c) later = Inr (c, True)"
      and c: "same_identity c ?c" and plain: "tp_AccessToken pair \<noteq> ''''" "list_all printable (tp_AccessToken pair)"
    by (rule jwt_lawD [OF assms(1) IssuePair_Inr(1) [OF assms(2)],
          where keys = "keyFunc ts" and now = later and t = "TimeAdd now (ts_accessTTL ts)"])
      (use assms(5) in \<open>simp_all add: keyFunc_def\<close>)
  with assms(3) have "ValidateAccess ts J (tp_AccessToken pair) later = Inr c"
    by (simp add: ValidateAccess_def same_identity_def)
  moreover from c have "cl_UserID c = userID" "cl_SessionID c = rid" by (simp_all add: same_identity_def)
  ultimately show ?thesis using plain by (rule that)
qed

lemma ValidateAccess_claims:
  "ValidateAccess ts J token now = Inr claims \<Longrightarrow> cl_TokenType claims = TokenTypeAccess \<and> cl_SessionID claims \<noteq> ''''"
  by (auto simp: ValidateAccess_def)

end
