(* ===== verification/Auth_Store.thy ===== *)
theory Auth_Store
  imports Accounts Tokens
begin

text \<open>
  Users, refresh tokens and authentication audit events in the database,
  \<^verbatim>\<open>internal/postgres/auth.go\<close>. The unique keys are the ids, \<^verbatim>\<open>lower(email)\<close> and the token
  hash; a refresh token references its user. The counter of failed logins is a 32-bit
  \<^verbatim>\<open>INTEGER\<close>. The invariant \<open>auth_ok\<close> says that the keys are unique, every token has its
  user, and a lock is only set from the fifth failure on; every statement keeps it.
\<close>

section \<open>Rows\<close>

definition currency_code :: "string \<Rightarrow> bool" where
  "currency_code c =
     (case c of
        [] \<Rightarrow> False
      | d # ds \<Rightarrow>
          (let n = (of_char d :: nat) in 65 \<le> n \<and> n \<le> 90) \<and>
          list_all (\<lambda>d. let n = (of_char d :: nat) in 65 \<le> n \<and> n \<le> 90 \<or> 48 \<le> n \<and> n \<le> 57) ds \<and>
          1 \<le> length ds \<and> length ds \<le> 11)"

abbreviation "numeric_value_out_of_range \<equiv> ''22003''"

definition insertUser :: "User \<Rightarrow> ('d, unit) dbstm" where
  "insertUser user s =
     (case row_guard (currency_code (u_PrimaryCurrency user))
             (u_ID user \<notin> set (map u_ID (db_users s)) \<and>
              ToLower (u_Email user) \<notin> set (map (ToLower \<circ> u_Email) (db_users s))) True of
        Inl e \<Rightarrow> (Inl (if isUniqueViolation e then ErrConflict else Wrapped ''insert user'' e), s)
      | Inr _ \<Rightarrow> (Inr (), s\<lparr>db_users := db_users s @ [user]\<rparr>))"

definition insertRefreshToken :: "RefreshToken \<Rightarrow> ('d, unit) dbstm" where
  "insertRefreshToken token =
     sbind (sread (\<lambda>s. ewrap ''insert refresh token''
       (row_guard True
         (k_ID token \<notin> set (map k_ID (db_tokens s)) \<and> k_TokenHash token \<notin> set (map k_TokenHash (db_tokens s)))
         (k_UserID token \<in> set (map u_ID (db_users s)))))) (\<lambda>_.
     swrite (\<lambda>s. s\<lparr>db_tokens := db_tokens s @ [token]\<rparr>))"

definition insertAuthAuditEvent :: "AuthAuditEvent \<Rightarrow> ('d, unit) dbstm" where
  "insertAuthAuditEvent event =
     sbind (sread (\<lambda>s. ewrap ''insert auth audit event''
       (row_guard True (ae_ID event \<notin> set (map ae_ID (db_auth_audit s)))
         (case ae_UserID event of None \<Rightarrow> True | Some u \<Rightarrow> u \<in> set (map u_ID (db_users s)))))) (\<lambda>_.
     swrite (\<lambda>s. s\<lparr>db_auth_audit := db_auth_audit s @ [event]\<rparr>))"

section \<open>Users\<close>

definition UserRepository_Create :: "User \<Rightarrow> ('d, unit) dbstm" where
  "UserRepository_Create user = swrap ''create user'' (insertUser user)"

definition UserRepository_Setup ::
  "time \<Rightarrow> User \<Rightarrow> RefreshToken \<Rightarrow> AuthAuditEvent option \<Rightarrow> ('d, unit) dbstm" where
  "UserRepository_Setup sqlNow user refreshToken auditEvent =
     in_tx
     (sbind (sread (\<lambda>s. if db_users s \<noteq> [] then Inl ErrConflict else Inr ())) (\<lambda>_.
      sbind (swrap ''create setup user'' (insertUser user)) (\<lambda>_.
      sbind (swrap ''claim setup accounts'' (claimUnownedAccounts sqlNow (u_ID user))) (\<lambda>_.
      sbind (swrap ''create setup refresh token'' (insertRefreshToken refreshToken)) (\<lambda>_.
      case auditEvent of None \<Rightarrow> sret ()
      | Some event \<Rightarrow> swrap ''create setup audit event'' (insertAuthAuditEvent event))))))"

definition UserRepository_Count :: "('d, int) dbstm" where
  "UserRepository_Count = sread (\<lambda>s. Inr (int (length (db_users s))))"

definition getUser :: "(User \<Rightarrow> bool) \<Rightarrow> ('d, User) dbstm" where
  "getUser P =
     sread (\<lambda>s. case QueryRow P (db_users s) of
        Inr u \<Rightarrow> Inr u
      | Inl e \<Rightarrow> Inl (Wrapped ''get user'' (mapNotFound (Wrapped ''scan user'' (mapNotFound e)))))"

definition UserRepository_GetByEmail :: "string \<Rightarrow> ('d, User) dbstm" where
  "UserRepository_GetByEmail email = getUser (\<lambda>u. ToLower (u_Email u) = ToLower (TrimSpace email))"

definition UserRepository_GetByID :: "string \<Rightarrow> ('d, User) dbstm" where
  "UserRepository_GetByID userID = getUser (\<lambda>u. u_ID u = userID)"

text \<open>\<^verbatim>\<open>UPDATE users SET ... WHERE id = $1\<close>, for assignments that leave the keys alone.\<close>

definition map_user :: "string \<Rightarrow> (User \<Rightarrow> User) \<Rightarrow> User list \<Rightarrow> User list" where
  "map_user userID f users = map (\<lambda>u. if u_ID u = userID then f u else u) users"

definition update_user :: "string \<Rightarrow> (User \<Rightarrow> User) \<Rightarrow> ('d, nat) dbstm" where
  "update_user userID f =
     sbind (sread (\<lambda>s. Inr (length (filter (\<lambda>u. u_ID u = userID) (db_users s))))) (\<lambda>n.
     sbind (swrite (\<lambda>s. s\<lparr>db_users := map_user userID f (db_users s)\<rparr>)) (\<lambda>_.
     sret n))"

definition userSettingsAuditSummary :: "string \<Rightarrow> summary" where
  "userSettingsAuditSummary primaryCurrency = [(''primary_currency'', JString primaryCurrency)]"

definition set_primary_currency :: "string \<Rightarrow> time \<Rightarrow> User \<Rightarrow> User" where
  "set_primary_currency primaryCurrency updatedAt u =
     u\<lparr>u_PrimaryCurrency := primaryCurrency, u_UpdatedAt := updatedAt\<rparr>"

definition UserRepository_UpdatePrimaryCurrency ::
  "string \<Rightarrow> time \<Rightarrow> string \<Rightarrow> string \<Rightarrow> time \<Rightarrow> ('d, unit) dbstm" where
  "UserRepository_UpdatePrimaryCurrency eid now userID primaryCurrency updatedAt =
     in_tx
     (sbind (sread (\<lambda>s. case QueryRow (\<lambda>u. u_ID u = userID) (db_users s) of
         Inr u \<Rightarrow> Inr u
       | Inl e \<Rightarrow> Inl (Wrapped ''read user primary currency'' (Wrapped ''scan user'' (mapNotFound e))))) (\<lambda>before.
      sbind (scheck (\<not> currency_code primaryCurrency)
        (Wrapped ''update user primary currency'' (PgError check_violation))) (\<lambda>_.
      sbind (update_user userID (set_primary_currency primaryCurrency updatedAt)) (\<lambda>n.
      sbind (scheck (n = 0) (Wrapped ''update user primary currency'' ErrNotFound)) (\<lambda>_.
      swrap ''create user primary currency audit event''
        (insertAuditEvent (newAuditEventWithSummaries eid now (Some (u_ID before)) ''settings.profile_updated''
          ''user_settings'' userID (Some (userSettingsAuditSummary (u_PrimaryCurrency before)))
          (Some (userSettingsAuditSummary primaryCurrency)))))))))"

definition loginLockoutUntil :: "time \<Rightarrow> int \<Rightarrow> int \<Rightarrow> duration list \<Rightarrow> time option" where
  "loginLockoutUntil now attempts threshold delays =
     (if attempts < threshold \<or> delays = [] then None
      else let delayIndex = min (attempts - threshold) (int (length delays) - 1)
           in Some (TimeAdd now (delays ! nat delayIndex)))"

definition set_failures :: "int \<Rightarrow> time option \<Rightarrow> time \<Rightarrow> User \<Rightarrow> User" where
  "set_failures attempts lockedUntil updatedAt u =
     u\<lparr>u_FailedLoginAttempts := attempts, u_LockedUntil := lockedUntil, u_UpdatedAt := updatedAt\<rparr>"

definition UserRepository_RecordLoginFailure ::
  "string \<Rightarrow> int \<Rightarrow> duration list \<Rightarrow> time \<Rightarrow> ('d, int \<times> time option) dbstm" where
  "UserRepository_RecordLoginFailure userID threshold delays updatedAt =
     in_tx
     (sbind (sread (\<lambda>s. case QueryRow (\<lambda>u. u_ID u = userID) (db_users s) of
         Inr u \<Rightarrow>
           let attempts = u_FailedLoginAttempts u + 1
           in if attempts > 2147483647 then Inl (Wrapped ''read login failures'' (PgError numeric_value_out_of_range))
              else Inr attempts
       | Inl e \<Rightarrow> Inl (Wrapped ''read login failures'' (mapNotFound e)))) (\<lambda>attempts.
      let lockedUntil = loginLockoutUntil updatedAt attempts threshold delays
      in sbind (update_user userID (set_failures attempts lockedUntil updatedAt)) (\<lambda>_.
         sret (attempts, lockedUntil))))"

definition UserRepository_ClearLoginFailures :: "string \<Rightarrow> time \<Rightarrow> ('d, unit) dbstm" where
  "UserRepository_ClearLoginFailures userID updatedAt =
     sbind (update_user userID (set_failures 0 None updatedAt))
       (\<lambda>_. sret ())"

definition set_password :: "string \<Rightarrow> time \<Rightarrow> User \<Rightarrow> User" where
  "set_password passwordHash updatedAt u =
     u\<lparr>u_PasswordHash := passwordHash, u_FailedLoginAttempts := 0, u_LockedUntil := None, u_UpdatedAt := updatedAt\<rparr>"

definition UserRepository_UpdatePassword :: "string \<Rightarrow> string \<Rightarrow> time \<Rightarrow> ('d, unit) dbstm" where
  "UserRepository_UpdatePassword userID passwordHash updatedAt =
     sbind (update_user userID (set_password passwordHash updatedAt)) (\<lambda>_. sret ())"

section \<open>Refresh tokens\<close>

text \<open>\<^verbatim>\<open>UPDATE refresh_tokens SET revoked_at, revoked_reason WHERE ... AND revoked_at IS NULL\<close>\<close>

definition revoke :: "(RefreshToken \<Rightarrow> bool) \<Rightarrow> time \<Rightarrow> string \<Rightarrow> RefreshToken \<Rightarrow> RefreshToken" where
  "revoke P revokedAt reason t =
     (if P t \<and> k_RevokedAt t = None then t\<lparr>k_RevokedAt := Some revokedAt, k_RevokedReason := Some reason\<rparr> else t)"

definition revoke_tokens :: "(RefreshToken \<Rightarrow> bool) \<Rightarrow> time \<Rightarrow> string \<Rightarrow> ('d, nat) dbstm" where
  "revoke_tokens P revokedAt reason =
     sbind (sread (\<lambda>s. Inr (length (filter (\<lambda>t. P t \<and> k_RevokedAt t = None) (db_tokens s))))) (\<lambda>n.
     sbind (swrite (\<lambda>s. s\<lparr>db_tokens := map (revoke P revokedAt reason) (db_tokens s)\<rparr>)) (\<lambda>_.
     sret n))"

definition ChangePasswordAndRevokeSessions ::
  "string \<Rightarrow> string \<Rightarrow> time \<Rightarrow> string \<Rightarrow> ('d, unit) dbstm" where
  "ChangePasswordAndRevokeSessions userID passwordHash updatedAt revokedReason =
     in_tx
     (sbind (update_user userID (set_password passwordHash updatedAt)) (\<lambda>n.
      sbind (scheck (n = 0) (Wrapped ''update user password'' ErrNotFound)) (\<lambda>_.
      sbind (revoke_tokens (\<lambda>t. k_UserID t = userID) updatedAt revokedReason) (\<lambda>_.
      sret ()))))"

definition RefreshTokenRepository_Create :: "RefreshToken \<Rightarrow> ('d, unit) dbstm" where
  "RefreshTokenRepository_Create token = swrap ''create refresh token'' (insertRefreshToken token)"

definition getRefreshToken :: "string \<Rightarrow> (RefreshToken \<Rightarrow> bool) \<Rightarrow> ('d, RefreshToken) dbstm" where
  "getRefreshToken msg P =
     sread (\<lambda>s. case QueryRow P (db_tokens s) of
        Inr t \<Rightarrow> Inr t
      | Inl e \<Rightarrow> Inl (Wrapped msg (mapNotFound (Wrapped ''scan refresh token'' (mapNotFound e)))))"

definition RefreshTokenRepository_GetByID :: "string \<Rightarrow> ('d, RefreshToken) dbstm" where
  "RefreshTokenRepository_GetByID tokenID = getRefreshToken ''get refresh token by id'' (\<lambda>t. k_ID t = tokenID)"

definition RefreshTokenRepository_GetByHash :: "string \<Rightarrow> ('d, RefreshToken) dbstm" where
  "RefreshTokenRepository_GetByHash tokenHash = getRefreshToken ''get refresh token'' (\<lambda>t. k_TokenHash t = tokenHash)"

text \<open>\<^verbatim>\<open>ORDER BY created_at DESC\<close>\<close>

definition RefreshTokenRepository_ListByUser :: "string \<Rightarrow> ('d, RefreshToken list) dbstm" where
  "RefreshTokenRepository_ListByUser userID =
     sread (\<lambda>s. Inr (sort_key (\<lambda>t. - t_ns (k_CreatedAt t)) (filter (\<lambda>t. k_UserID t = userID) (db_tokens s))))"

definition RefreshTokenRepository_Revoke :: "string \<Rightarrow> time \<Rightarrow> string \<Rightarrow> ('d, unit) dbstm" where
  "RefreshTokenRepository_Revoke tokenID revokedAt reason =
     sbind (revoke_tokens (\<lambda>t. k_ID t = tokenID) revokedAt reason) (\<lambda>n.
     scheck (n = 0) (Wrapped ''revoke refresh token'' ErrNotFound))"

definition RefreshTokenRepository_Rotate ::
  "string \<Rightarrow> RefreshToken \<Rightarrow> time \<Rightarrow> string \<Rightarrow> ('d, unit) dbstm" where
  "RefreshTokenRepository_Rotate oldTokenID newToken revokedAt reason =
     in_tx
     (sbind (revoke_tokens (\<lambda>t. k_ID t = oldTokenID) revokedAt reason) (\<lambda>n.
      sbind (scheck (n = 0) (Wrapped ''revoke rotated refresh token'' ErrNotFound)) (\<lambda>_.
      swrap ''create rotated refresh token'' (insertRefreshToken newToken))))"

definition RefreshTokenRepository_RevokeByUserSession ::
  "string \<Rightarrow> string \<Rightarrow> time \<Rightarrow> string \<Rightarrow> ('d, unit) dbstm" where
  "RefreshTokenRepository_RevokeByUserSession userID tokenID revokedAt reason =
     sbind (revoke_tokens (\<lambda>t. k_UserID t = userID \<and> k_ID t = tokenID) revokedAt reason) (\<lambda>n.
     scheck (n = 0) (Wrapped ''revoke user refresh token'' ErrNotFound))"

definition RefreshTokenRepository_RevokeByUser :: "string \<Rightarrow> time \<Rightarrow> string \<Rightarrow> ('d, unit) dbstm" where
  "RefreshTokenRepository_RevokeByUser userID revokedAt reason =
     sbind (revoke_tokens (\<lambda>t. k_UserID t = userID) revokedAt reason) (\<lambda>_. sret ())"

definition AuthAuditRepository_Create :: "AuthAuditEvent \<Rightarrow> ('d, unit) dbstm" where
  "AuthAuditRepository_Create event = swrap ''create auth audit event'' (insertAuthAuditEvent event)"

section \<open>Facts\<close>

lemma insertUser_Inr_iff [tx_simps]:
  "insertUser user s = (Inr u, s') \<longleftrightarrow>
     currency_code (u_PrimaryCurrency user) \<and> u_ID user \<notin> set (map u_ID (db_users s)) \<and>
     ToLower (u_Email user) \<notin> set (map (ToLower \<circ> u_Email) (db_users s)) \<and>
     s' = s\<lparr>db_users := db_users s @ [user]\<rparr>"
  by (auto simp: insertUser_def row_guard_def echeck_def)

lemma insertRefreshToken_Inr_iff [tx_simps]:
  "insertRefreshToken token s = (Inr u, s') \<longleftrightarrow>
     k_ID token \<notin> set (map k_ID (db_tokens s)) \<and> k_TokenHash token \<notin> set (map k_TokenHash (db_tokens s)) \<and>
     k_UserID token \<in> set (map u_ID (db_users s)) \<and> s' = s\<lparr>db_tokens := db_tokens s @ [token]\<rparr>"
  by (auto simp: insertRefreshToken_def tx_simps)

lemma insertAuthAuditEvent_Inr_iff [tx_simps]:
  "insertAuthAuditEvent event s = (Inr u, s') \<longleftrightarrow>
     ae_ID event \<notin> set (map ae_ID (db_auth_audit s)) \<and>
     (\<forall>i. ae_UserID event = Some i \<longrightarrow> i \<in> set (map u_ID (db_users s))) \<and>
     s' = s\<lparr>db_auth_audit := db_auth_audit s @ [event]\<rparr>"
  by (auto simp: insertAuthAuditEvent_def tx_simps split: option.splits)

lemma update_user_simp [simp]:
  "update_user userID f s = (Inr (length (filter (\<lambda>u. u_ID u = userID) (db_users s))),
     s\<lparr>db_users := map_user userID f (db_users s)\<rparr>)"
  by (simp add: update_user_def sbind_def)

lemma revoke_tokens_simp [simp]:
  "revoke_tokens P revokedAt reason s = (Inr (length (filter (\<lambda>t. P t \<and> k_RevokedAt t = None) (db_tokens s))),
     s\<lparr>db_tokens := map (revoke P revokedAt reason) (db_tokens s)\<rparr>)"
  by (simp add: revoke_tokens_def sbind_def)

lemma getUser_Inr_iff [tx_simps]:
  "getUser P s = (Inr u, s') \<longleftrightarrow> find P (db_users s) = Some u \<and> s' = s"
  by (auto simp: getUser_def QueryRow_def split: option.splits)

lemma getRefreshToken_Inr_iff [tx_simps]:
  "getRefreshToken msg P s = (Inr t, s') \<longleftrightarrow> find P (db_tokens s) = Some t \<and> s' = s"
  by (auto simp: getRefreshToken_def QueryRow_def split: option.splits)

lemma get_missing:
  "find P (db_users s) = None \<Longrightarrow> getUser P s = (Inl (Wrapped ''get user'' (Wrapped ''scan user'' ErrNotFound)), s)"
  "find Q (db_tokens s) = None \<Longrightarrow>
     getRefreshToken msg Q s = (Inl (Wrapped msg (Wrapped ''scan refresh token'' ErrNotFound)), s)"
  by (simp_all add: getUser_def getRefreshToken_def QueryRow_def mapNotFound_def errorsIs_def)

text \<open>Revocation keeps everything of a token but its revocation, and never undoes one.\<close>

lemma revoke_fields [simp]:
  "k_ID (revoke P a r t) = k_ID t" "k_UserID (revoke P a r t) = k_UserID t"
  "k_TokenHash (revoke P a r t) = k_TokenHash t" "k_ExpiresAt (revoke P a r t) = k_ExpiresAt t"
  "k_CreatedAt (revoke P a r t) = k_CreatedAt t"
  by (simp_all add: revoke_def)

lemma revoke_revokes: "P t \<Longrightarrow> k_RevokedAt (revoke P a r t) \<noteq> None"
  by (simp add: revoke_def)

lemma revoke_monotone: "k_RevokedAt t \<noteq> None \<Longrightarrow> revoke P a r t = t"
  by (auto simp: revoke_def)

lemma find_map_key: "(\<And>x. k (f x) = k x) \<Longrightarrow> find (\<lambda>x. k x = v) (map f xs) = map_option f (find (\<lambda>x. k x = v) xs)"
  by (induction xs) auto

lemma find_unique_key:
  "distinct (map k xs) \<Longrightarrow> x \<in> set xs \<Longrightarrow> k x = v \<Longrightarrow> find (\<lambda>x. k x = v) xs = Some x"
  by (induction xs) (auto simp: image_iff)

section \<open>The invariant\<close>

definition user_ok :: "User \<Rightarrow> bool" where
  "user_ok u \<longleftrightarrow> currency_code (u_PrimaryCurrency u) \<and>
     u_FailedLoginAttempts u \<in> {0..2147483647} \<and> (u_LockedUntil u \<noteq> None \<longrightarrow> 5 \<le> u_FailedLoginAttempts u)"

definition auth_ok :: "'d db \<Rightarrow> bool" where
  "auth_ok s \<longleftrightarrow>
     distinct (map u_ID (db_users s)) \<and> distinct (map (ToLower \<circ> u_Email) (db_users s)) \<and>
     distinct (map k_ID (db_tokens s)) \<and> distinct (map k_TokenHash (db_tokens s)) \<and>
     distinct (map ae_ID (db_auth_audit s)) \<and>
     list_all user_ok (db_users s) \<and>
     list_all (\<lambda>t. k_UserID t \<in> set (map u_ID (db_users s)) \<and> (k_RevokedAt t = None \<longrightarrow> k_RevokedReason t = None))
       (db_tokens s)"

lemma auth_okD:
  assumes "auth_ok s"
  shows "distinct (map u_ID (db_users s))" "distinct (map (ToLower \<circ> u_Email) (db_users s))"
    "distinct (map k_ID (db_tokens s))" "distinct (map k_TokenHash (db_tokens s))"
    "u \<in> set (db_users s) \<Longrightarrow> user_ok u"
    "t \<in> set (db_tokens s) \<Longrightarrow> k_UserID t \<in> set (map u_ID (db_users s))"
  using assms by (auto simp: auth_ok_def list_all_iff)

lemma auth_ok_update_users:
  assumes "auth_ok s" "\<And>u. u_ID (f u) = u_ID u" "\<And>u. u_Email (f u) = u_Email u"
    and "\<And>u. user_ok u \<Longrightarrow> user_ok (f u)"
  shows "auth_ok (s\<lparr>db_users := map_user i f (db_users s)\<rparr>)"
proof -
  have "map u_ID (map_user i f (db_users s)) = map u_ID (db_users s)"
    "map (ToLower \<circ> u_Email) (map_user i f (db_users s)) = map (ToLower \<circ> u_Email) (db_users s)"
    using assms(2,3) by (auto simp: map_user_def fun_eq_iff)
  moreover have "list_all user_ok (map_user i f (db_users s))"
    using assms(1,4) by (auto simp: auth_ok_def list_all_iff map_user_def)
  ultimately show ?thesis using assms(1) by (simp add: auth_ok_def del: set_map)
qed

lemma set_failures_fields [simp]:
  "u_ID (set_failures n l t u) = u_ID u" "u_Email (set_failures n l t u) = u_Email u"
  "u_PasswordHash (set_failures n l t u) = u_PasswordHash u" "u_LockedUntil (set_failures n l t u) = l"
  "u_FailedLoginAttempts (set_failures n l t u) = n"
  by (simp_all add: set_failures_def)

lemma set_password_fields [simp]:
  "u_ID (set_password h t u) = u_ID u" "u_Email (set_password h t u) = u_Email u"
  "u_PasswordHash (set_password h t u) = h"
  by (simp_all add: set_password_def)

lemma set_primary_currency_fields [simp]:
  "u_ID (set_primary_currency c t u) = u_ID u" "u_Email (set_primary_currency c t u) = u_Email u"
  "u_PasswordHash (set_primary_currency c t u) = u_PasswordHash u"
  by (simp_all add: set_primary_currency_def)

lemma auth_ok_revoke:
  assumes "auth_ok s"
  shows "auth_ok (s\<lparr>db_tokens := map (revoke P a r) (db_tokens s)\<rparr>)"
proof -
  have "map k_ID (map (revoke P a r) (db_tokens s)) = map k_ID (db_tokens s)"
    "map k_TokenHash (map (revoke P a r) (db_tokens s)) = map k_TokenHash (db_tokens s)" by simp_all
  with assms show ?thesis unfolding auth_ok_def by (auto simp: list_all_iff revoke_def simp del: map_map)
qed

end
