(* ===== verification/Auth.thy ===== *)
theory Auth
  imports Auth_Store
begin

text \<open>
  Authentication: \<^verbatim>\<open>internal/domain/auth\<close>, the policy of
  \<^verbatim>\<open>internal/services/authentication_policy.go\<close> (lockout, sessions, audit) and the service of
  \<^verbatim>\<open>internal/services/auth_service.go\<close>.

  \<open>auth_service\<close> holds what the service is built from: the token service, the JWT library, the
  hash of refresh tokens, \<^verbatim>\<open>passwordFunc\<close> and \<^verbatim>\<open>verifyFunc\<close>, \<^verbatim>\<open>mail.ParseAddress\<close> and the
  password score of \<^verbatim>\<open>zxcvbn\<close>. The users, tokens and accounts are those of the database; the
  flags say whether there is an audit repository and an account repository, and whether the
  repositories offer the atomic \<^verbatim>\<open>Setup\<close> and \<^verbatim>\<open>Rotate\<close> (those of \<^verbatim>\<open>internal/postgres\<close> do).
  \<open>auth_env\<close> gives one operation its clock readings, ids and random bytes, by position.
\<close>

section \<open>Email and password rules\<close>

record auth_service =
  as_tokens :: "TokenService option"
  as_jwt :: jwt_lib
  as_sha256 :: "string \<Rightarrow> string"
  as_passwordFunc :: "string \<Rightarrow> PasswordParams \<Rightarrow> err + string"
  as_verifyFunc :: "string \<Rightarrow> string \<Rightarrow> err + bool"
  as_ParseAddress :: "string \<Rightarrow> bool"
  as_PasswordStrength :: "string \<Rightarrow> string list \<Rightarrow> int"
  as_audit :: bool
  as_accounts :: bool
  as_setupRepo :: bool
  as_rotator :: bool

record auth_env =
  en_clock :: "nat \<Rightarrow> time"
  en_uuid :: "nat \<Rightarrow> string"
  en_rand :: "nat \<Rightarrow> err + string"
  en_sqlNow :: time

definition NormalizeEmail :: "auth_service \<Rightarrow> string \<Rightarrow> err + string" where
  "NormalizeEmail A email =
     (let email = ToLower (TrimSpace email)
      in echeck (email = '''') (Errorf ''email is required'')
         (echeck (\<not> as_ParseAddress A email) (Errorf ''invalid email'') (Inr email)))"

definition passwordUserInputs :: "string \<Rightarrow> string list" where
  "passwordUserInputs email =
     (case Cut CHR ''@'' email of (local, domain, found) \<Rightarrow> email # (if found then [local, domain] else []))"

definition ValidatePassword :: "auth_service \<Rightarrow> string \<Rightarrow> string \<Rightarrow> err + unit" where
  "ValidatePassword A password email =
     echeck (length password < 12) (Errorf ''password must be at least 12 characters'')
     (echeck (as_PasswordStrength A password (passwordUserInputs email) < 3) (Errorf ''password is too weak'')
     (Inr ()))"

definition normalizeEmail :: "auth_service \<Rightarrow> string \<Rightarrow> err + string" where
  "normalizeEmail A email = emap (\<lambda>e. validationError (Error e)) (NormalizeEmail A email)"

definition normalizePrimaryCurrency :: "string \<Rightarrow> string" where
  "normalizePrimaryCurrency currency =
     (let currency = account_NormalizeCurrency currency in if currency = '''' then ''RUB'' else currency)"

definition validateCurrency :: "string \<Rightarrow> err + unit" where
  "validateCurrency currency =
     echeck (\<not> ValidCurrency currency) (validationError (''invalid currency: '' @ currency)) (Inr ())"

definition validatePasswordPolicy :: "auth_service \<Rightarrow> string \<Rightarrow> string \<Rightarrow> err + unit" where
  "validatePasswordPolicy A password email =
     emap (\<lambda>e. validationError (Error e)) (ValidatePassword A password email)"

section \<open>The authentication policy\<close>

definition loginLockoutThreshold :: int where
  "loginLockoutThreshold = 5"

definition loginLockoutDelays :: "duration list" where
  "loginLockoutDelays =
     [5 * 60 * ns_per_second, 15 * 60 * ns_per_second, 3600 * ns_per_second, 6 * 3600 * ns_per_second,
      24 * 3600 * ns_per_second]"

abbreviation "refreshRevokedReasonLogout \<equiv> ''logout''"
abbreviation "refreshRevokedReasonManual \<equiv> ''manual''"
abbreviation "refreshRevokedReasonPasswordChange \<equiv> ''password_change''"
abbreviation "refreshRevokedReasonReuseDetected \<equiv> ''reuse_detected''"
abbreviation "refreshRevokedReasonRotated \<equiv> ''rotated''"

record AuthSession =
  se_User :: User
  se_AccessToken :: string
  se_AccessExpiresAt :: time
  se_RefreshToken :: string
  se_RefreshExpiresAt :: time

record PasswordConfirmationResult =
  pc_OK :: bool
  pc_Locked :: bool

text \<open>An operation writes one audit event with the id \<open>en_uuid E 0\<close> at \<open>en_clock E 3\<close>; a failure
  to write it is logged only.\<close>

definition NewAuditEvent ::
  "string \<Rightarrow> time \<Rightarrow> string \<Rightarrow> string \<Rightarrow> string option \<Rightarrow> bool \<Rightarrow> string \<Rightarrow> AuthAuditEvent" where
  "NewAuditEvent eid now eventType email userID success reason =
     \<lparr>ae_ID = eid, ae_UserID = userID, ae_EventType = eventType, ae_Email = ToLower (TrimSpace email),
      ae_Success = success, ae_Reason = reason, ae_CreatedAt = now\<rparr>"

definition Audit ::
  "auth_service \<Rightarrow> auth_env \<Rightarrow> string \<Rightarrow> string \<Rightarrow> string option \<Rightarrow> bool \<Rightarrow> string \<Rightarrow> ('d, unit) dbstm" where
  "Audit A E eventType email userID success reason =
     (if \<not> as_audit A then sret ()
      else stry (AuthAuditRepository_Create
             (NewAuditEvent (en_uuid E 0) (en_clock E 3) eventType email userID success reason))
             (\<lambda>_. sret ()) sret)"

definition auditFail ::
  "auth_service \<Rightarrow> auth_env \<Rightarrow> string \<Rightarrow> string \<Rightarrow> string option \<Rightarrow> string \<Rightarrow> err \<Rightarrow> ('d, 'a) dbstm" where
  "auditFail A E eventType email userID reason e =
     sbind (Audit A E eventType email userID False reason) (\<lambda>_. sfail e)"

definition UserLocked :: "time \<Rightarrow> User \<Rightarrow> bool" where
  "UserLocked now user = (case u_LockedUntil user of None \<Rightarrow> False | Some until \<Rightarrow> Before now until)"

definition clearLoginFailures :: "User \<Rightarrow> time \<Rightarrow> ('d, User) dbstm" where
  "clearLoginFailures user now =
     (if u_FailedLoginAttempts user = 0 \<and> u_LockedUntil user = None then sret user
      else sbind (swrap ''clear login failures'' (UserRepository_ClearLoginFailures (u_ID user) now)) (\<lambda>_.
           sret (set_failures 0 None now user)))"

text \<open>\<^verbatim>\<open>ConfirmPassword\<close> also updates the user it is given.\<close>

definition ConfirmPassword ::
  "auth_service \<Rightarrow> auth_env \<Rightarrow> ctx \<Rightarrow> User \<Rightarrow> string \<Rightarrow> ('d, User \<times> PasswordConfirmationResult) dbstm" where
  "ConfirmPassword A E ctx user password =
     sbind (slift (ctxCheck ctx ''verify password confirmation'' (Inr ()))) (\<lambda>_.
     let now = en_clock E 0
     in if UserLocked (en_clock E 1) user then sret (user, \<lparr>pc_OK = False, pc_Locked = True\<rparr>)
        else sbind (slift (ewrap ''verify password'' (as_verifyFunc A password (u_PasswordHash user)))) (\<lambda>ok.
          if \<not> ok then
            sbind (swrap ''record login failure''
              (UserRepository_RecordLoginFailure (u_ID user) loginLockoutThreshold loginLockoutDelays now))
              (\<lambda>(_, lockedUntil). sret (user, \<lparr>pc_OK = False, pc_Locked = lockedUntil \<noteq> None\<rparr>))
          else
            sbind (clearLoginFailures user now) (\<lambda>user.
            sret (user, \<lparr>pc_OK = True, pc_Locked = False\<rparr>))))"

definition buildSession :: "auth_service \<Rightarrow> auth_env \<Rightarrow> User \<Rightarrow> err + (AuthSession \<times> RefreshToken)" where
  "buildSession A E user =
     (case as_tokens A of
        None \<Rightarrow> Inl (Errorf ''authentication policy is not configured'')
      | Some ts \<Rightarrow>
          let now = en_clock E 2
          in ebind (ewrap ''issue tokens''
               (IssuePair ts (as_jwt A) (as_sha256 A) (en_rand E) (en_uuid E 3) (en_uuid E 4) (u_ID user) (u_Email user) now))
               (\<lambda>pair. Inr
                 (\<lparr>se_User = user, se_AccessToken = tp_AccessToken pair, se_AccessExpiresAt = tp_AccessExpiresAt pair,
                   se_RefreshToken = tp_RefreshToken pair, se_RefreshExpiresAt = tp_RefreshExpiresAt pair\<rparr>,
                  \<lparr>k_ID = tp_RefreshTokenID pair, k_UserID = u_ID user, k_TokenHash = tp_RefreshTokenHash pair,
                   k_ExpiresAt = tp_RefreshExpiresAt pair, k_RevokedAt = None, k_RevokedReason = None,
                   k_CreatedAt = now\<rparr>)))"

definition issueSession :: "auth_service \<Rightarrow> auth_env \<Rightarrow> User \<Rightarrow> ('d, AuthSession) dbstm" where
  "issueSession A E user =
     sbind (slift (buildSession A E user)) (\<lambda>(session, refreshToken).
     sbind (swrap ''save refresh token'' (RefreshTokenRepository_Create refreshToken)) (\<lambda>_.
     sret session))"

definition IssueSessionForUser :: "auth_service \<Rightarrow> auth_env \<Rightarrow> ctx \<Rightarrow> string \<Rightarrow> ('d, AuthSession) dbstm" where
  "IssueSessionForUser A E ctx userID =
     sbind (slift (ctxCheck ctx ''issue session for user''
       (echeck (as_tokens A = None) (Errorf ''authentication policy is not configured'') (Inr ())))) (\<lambda>_.
     sbind (swrap ''get user'' (UserRepository_GetByID (TrimSpace userID))) (\<lambda>user.
     sbind (scheck (UserLocked (en_clock E 1) user) (validationError ''invalid email or password'')) (\<lambda>_.
     sbind (clearLoginFailures user (en_clock E 0)) (\<lambda>user.
     issueSession A E user))))"

section \<open>The service\<close>

record AuthRequest =
  aq_Email :: string
  aq_Password :: string
  aq_PrimaryCurrency :: string

record ChangePasswordRequest =
  cp_UserID :: string
  cp_CurrentPassword :: string
  cp_NewPassword :: string

record SessionInfo =
  si_ID :: string
  si_ExpiresAt :: time
  si_RevokedAt :: "time option"
  si_CreatedAt :: time
  si_Active :: bool
  si_Current :: bool

definition notConfigured :: err where
  "notConfigured = Errorf ''auth service is not configured''"

definition dummyPasswordHash :: string where
  "dummyPasswordHash =
     ''$argon2id$v=19$m=65536,t=3,p=2$AAAAAAAAAAAAAAAAAAAAAA$AAAAAAAAAAAAAAAAAAAAAAAAAAAAAAAAAAAAAAAAAAA''"

definition buildUser :: "auth_service \<Rightarrow> auth_env \<Rightarrow> AuthRequest \<Rightarrow> err + User" where
  "buildUser A E req =
     ebind (normalizeEmail A (aq_Email req)) (\<lambda>email.
     ebind (validatePasswordPolicy A (aq_Password req) email) (\<lambda>_.
     let primaryCurrency = normalizePrimaryCurrency (aq_PrimaryCurrency req)
     in ebind (validateCurrency primaryCurrency) (\<lambda>_.
        ebind (ewrap ''hash password'' (as_passwordFunc A (aq_Password req) DefaultPasswordParams)) (\<lambda>hash.
        let now = en_clock E 4
        in Inr \<lparr>u_ID = en_uuid E 2, u_Email = email, u_PasswordHash = hash, u_PrimaryCurrency = primaryCurrency,
             u_EmailVerifiedAt = None, u_EmailVerificationTokenHash = None, u_EmailVerificationSentAt = None,
             u_FailedLoginAttempts = 0, u_LockedUntil = None, u_CreatedAt = now, u_UpdatedAt = now\<rparr>))))"

text \<open>The two ways \<^verbatim>\<open>Setup\<close> saves the first user: in one transaction, or step by step.\<close>

definition setupAtomic :: "auth_service \<Rightarrow> auth_env \<Rightarrow> AuthRequest \<Rightarrow> User \<Rightarrow> ('d, AuthSession) dbstm" where
  "setupAtomic A E req user =
     (case buildSession A E user of
        Inl e \<Rightarrow> auditFail A E ''setup_failed'' (aq_Email req) (Some (u_ID user)) ''issue_session_failed'' e
      | Inr (session, refreshToken) \<Rightarrow>
          let auditEvent = (if as_audit A
                then Some (NewAuditEvent (en_uuid E 1) (en_clock E 5) ''setup_success'' (u_Email user) (Some (u_ID user)) True '''')
                else None)
          in stry (UserRepository_Setup (en_sqlNow E) user refreshToken auditEvent)
               (\<lambda>e. if errorsIs e ErrConflict
                    then auditFail A E ''setup_failed'' (aq_Email req) None ''setup_complete''
                           (validationError ''setup is already complete'')
                    else auditFail A E ''setup_failed'' (aq_Email req) (Some (u_ID user)) ''setup_transaction_failed''
                           (Wrapped ''setup auth transaction'' e))
               (\<lambda>_. sret session))"

definition setupSteps :: "auth_service \<Rightarrow> auth_env \<Rightarrow> AuthRequest \<Rightarrow> User \<Rightarrow> ('d, AuthSession) dbstm" where
  "setupSteps A E req user =
     stry (UserRepository_Create user)
       (\<lambda>e. if errorsIs e ErrConflict
            then auditFail A E ''setup_failed'' (aq_Email req) None ''setup_complete''
                   (validationError ''setup is already complete'')
            else auditFail A E ''setup_failed'' (aq_Email req) None ''save_failed'' (Wrapped ''save user'' e))
       (\<lambda>_. stry (if as_accounts A then claimUnownedAccounts (en_sqlNow E) (u_ID user) else sret ())
          (\<lambda>e. auditFail A E ''setup_failed'' (aq_Email req) (Some (u_ID user)) ''claim_unowned_accounts_failed''
                 (Wrapped ''claim unowned accounts'' e))
          (\<lambda>_. stry (issueSession A E user)
             (\<lambda>e. auditFail A E ''setup_failed'' (aq_Email req) (Some (u_ID user)) ''issue_session_failed'' e)
             (\<lambda>session. sbind (Audit A E ''setup_success'' (u_Email user) (Some (u_ID user)) True '''') (\<lambda>_.
                sret session))))"

definition Setup :: "auth_service \<Rightarrow> auth_env \<Rightarrow> ctx \<Rightarrow> AuthRequest \<Rightarrow> ('d, AuthSession) dbstm" where
  "Setup A E ctx req =
     sbind (slift (ctxCheck ctx ''setup auth'' (echeck (as_tokens A = None) notConfigured (Inr ())))) (\<lambda>_.
     sbind (swrap ''count users'' UserRepository_Count) (\<lambda>n.
     if n > 0 then
       auditFail A E ''setup_failed'' (aq_Email req) None ''setup_complete'' (validationError ''setup is already complete'')
     else case buildUser A E req of
         Inl e \<Rightarrow> auditFail A E ''setup_failed'' (aq_Email req) None ''validation_error'' e
       | Inr user \<Rightarrow> if as_setupRepo A then setupAtomic A E req user else setupSteps A E req user))"

definition Login :: "auth_service \<Rightarrow> auth_env \<Rightarrow> ctx \<Rightarrow> AuthRequest \<Rightarrow> ('d, AuthSession) dbstm" where
  "Login A E ctx req =
     sbind (slift (ctxCheck ctx ''login'' (echeck (as_tokens A = None) notConfigured (Inr ())))) (\<lambda>_.
     case normalizeEmail A (aq_Email req) of
       Inl e \<Rightarrow> auditFail A E ''login_failed'' (aq_Email req) None ''validation_error'' e
     | Inr email \<Rightarrow>
         if TrimSpace (aq_Password req) = '''' then
           auditFail A E ''login_failed'' email None ''invalid_credentials'' (validationError ''invalid email or password'')
         else stry (UserRepository_GetByEmail email)
           (\<lambda>e. if errorsIs e ErrNotFound then
                  sbind (slift (ewrap ''verify dummy password'' (as_verifyFunc A (aq_Password req) dummyPasswordHash))) (\<lambda>_.
                  auditFail A E ''login_failed'' email None ''invalid_credentials''
                    (validationError ''invalid email or password''))
                else sfail (Wrapped ''get user'' e))
           (\<lambda>user. sbind (ConfirmPassword A E ctx user (aq_Password req)) (\<lambda>(user, confirmation).
              if \<not> pc_OK confirmation then
                auditFail A E ''login_failed'' email (Some (u_ID user))
                  (if pc_Locked confirmation then ''account_locked'' else ''invalid_credentials'')
                  (validationError ''invalid email or password'')
              else stry (issueSession A E user)
                (\<lambda>e. auditFail A E ''login_failed'' email (Some (u_ID user)) ''issue_session_failed'' e)
                (\<lambda>session. sbind (Audit A E ''login_success'' email (Some (u_ID user)) True '''') (\<lambda>_.
                   sret session)))))"

definition isRefreshTokenReuseCandidate :: "RefreshToken \<Rightarrow> bool" where
  "isRefreshTokenReuseCandidate token =
     (if k_RevokedAt token = None then False
      else case k_RevokedReason token of None \<Rightarrow> True | Some reason \<Rightarrow> reason = refreshRevokedReasonRotated)"

text \<open>Replacing the refresh token: in one transaction, or by a revocation and a new session.\<close>

definition rotateSession :: "auth_service \<Rightarrow> auth_env \<Rightarrow> User \<Rightarrow> string \<Rightarrow> time \<Rightarrow> ('d, AuthSession) dbstm" where
  "rotateSession A E user tokenID now =
     (if as_rotator A then
        sbind (slift (buildSession A E user)) (\<lambda>(session, refreshToken).
        sbind (RefreshTokenRepository_Rotate tokenID refreshToken now refreshRevokedReasonRotated) (\<lambda>_.
        sret session))
      else
        sbind (RefreshTokenRepository_Revoke tokenID now refreshRevokedReasonRotated) (\<lambda>_.
        issueSession A E user))"

definition Refresh :: "auth_service \<Rightarrow> auth_env \<Rightarrow> ctx \<Rightarrow> string \<Rightarrow> ('d, AuthSession) dbstm" where
  "Refresh A E ctx raw =
     sbind (slift (ctxCheck ctx ''refresh session'' (echeck (as_tokens A = None) notConfigured (Inr ())))) (\<lambda>_.
     let rawRefreshToken = TrimSpace raw
     in if rawRefreshToken = '''' then
          auditFail A E ''refresh_failed'' '''' None ''missing_refresh_token'' (validationError ''refresh token is required'')
        else let now = en_clock E 0
        in stry (RefreshTokenRepository_GetByHash (HashRefreshToken (as_sha256 A) rawRefreshToken))
          (\<lambda>e. if errorsIs e ErrNotFound
               then auditFail A E ''refresh_failed'' '''' None ''invalid_refresh_token'' (validationError ''invalid refresh token'')
               else sfail (Wrapped ''get refresh token'' e))
          (\<lambda>token.
             if \<not> RefreshToken_IsActive token now then
               (if isRefreshTokenReuseCandidate token then
                  sbind (swrap ''revoke refresh token family''
                    (RefreshTokenRepository_RevokeByUser (k_UserID token) now refreshRevokedReasonReuseDetected)) (\<lambda>_.
                  auditFail A E ''refresh_reuse_detected'' '''' (Some (k_UserID token)) ''revoked_refresh_token_reused''
                    (validationError ''invalid refresh token''))
                else auditFail A E ''refresh_failed'' '''' (Some (k_UserID token)) ''inactive_refresh_token''
                       (validationError ''invalid refresh token''))
             else sbind (swrap ''get user'' (UserRepository_GetByID (k_UserID token))) (\<lambda>user.
               stry (rotateSession A E user (k_ID token) now)
                 (\<lambda>e. if errorsIs e ErrNotFound
                      then auditFail A E ''refresh_failed'' '''' (Some (k_UserID token)) ''refresh_token_already_rotated''
                             (validationError ''invalid refresh token'')
                      else auditFail A E ''refresh_failed'' (u_Email user) (Some (u_ID user)) ''issue_session_failed''
                             (Wrapped ''rotate refresh token'' e))
                 (\<lambda>session. sbind (Audit A E ''refresh_success'' (u_Email user) (Some (u_ID user)) True '''') (\<lambda>_.
                    sret session)))))"

definition Logout :: "auth_service \<Rightarrow> auth_env \<Rightarrow> ctx \<Rightarrow> string \<Rightarrow> ('d, unit) dbstm" where
  "Logout A E ctx raw =
     sbind (slift (ctxCheck ctx ''logout'' (Inr ()))) (\<lambda>_.
     let rawRefreshToken = TrimSpace raw
     in if rawRefreshToken = '''' then Audit A E ''logout'' '''' None True ''missing_refresh_token''
        else stry (RefreshTokenRepository_GetByHash (HashRefreshToken (as_sha256 A) rawRefreshToken))
          (\<lambda>e. if errorsIs e ErrNotFound then Audit A E ''logout'' '''' None True ''unknown_refresh_token''
               else sfail (Wrapped ''get refresh token'' e))
          (\<lambda>token. sbind (swrap ''revoke refresh token''
               (RefreshTokenRepository_Revoke (k_ID token) (en_clock E 0) refreshRevokedReasonLogout)) (\<lambda>_.
             Audit A E ''logout'' '''' (Some (k_UserID token)) True '''')))"

definition ChangePassword :: "auth_service \<Rightarrow> auth_env \<Rightarrow> ctx \<Rightarrow> ChangePasswordRequest \<Rightarrow> ('d, unit) dbstm" where
  "ChangePassword A E ctx req =
     sbind (slift (ctxCheck ctx ''change password'' (Inr ()))) (\<lambda>_.
     let userID = TrimSpace (cp_UserID req)
     in if userID = '''' then sfail (validationError ''user is required'')
        else if TrimSpace (cp_CurrentPassword req) = '''' then
          auditFail A E ''change_password_failed'' '''' (Some userID) ''invalid_current_password''
            (validationError ''current password is required'')
        else if TrimSpace (cp_NewPassword req) = '''' then
          auditFail A E ''change_password_failed'' '''' (Some userID) ''validation_error''
            (validationError ''new password is required'')
        else sbind (swrap ''get user'' (UserRepository_GetByID userID)) (\<lambda>user.
          let fail = (\<lambda>reason. auditFail A E ''change_password_failed'' (u_Email user) (Some (u_ID user)) reason)
          in sbind (slift (ewrap ''verify password'' (as_verifyFunc A (cp_CurrentPassword req) (u_PasswordHash user)))) (\<lambda>ok.
             if \<not> ok then fail ''invalid_current_password'' (validationError ''invalid current password'')
             else if cp_CurrentPassword req = cp_NewPassword req then
               fail ''password_reuse'' (validationError ''new password must be different'')
             else case validatePasswordPolicy A (cp_NewPassword req) (u_Email user) of
                 Inl e \<Rightarrow> fail ''validation_error'' e
               | Inr _ \<Rightarrow>
                   sbind (slift (ewrap ''hash password'' (as_passwordFunc A (cp_NewPassword req) DefaultPasswordParams))) (\<lambda>hash.
                   stry (ChangePasswordAndRevokeSessions (u_ID user) hash (en_clock E 0) refreshRevokedReasonPasswordChange)
                     (\<lambda>e. fail ''save_failed'' (Wrapped ''change password and revoke sessions'' e))
                     (\<lambda>_. Audit A E ''change_password_success'' (u_Email user) (Some (u_ID user)) True '''')))))"

definition sessionInfo :: "time \<Rightarrow> string \<Rightarrow> RefreshToken \<Rightarrow> SessionInfo" where
  "sessionInfo now currentRefreshTokenID token =
     \<lparr>si_ID = k_ID token, si_ExpiresAt = k_ExpiresAt token, si_RevokedAt = k_RevokedAt token,
      si_CreatedAt = k_CreatedAt token, si_Active = RefreshToken_IsActive token now,
      si_Current = (k_ID token = currentRefreshTokenID)\<rparr>"

definition ListSessions :: "auth_service \<Rightarrow> auth_env \<Rightarrow> ctx \<Rightarrow> string \<Rightarrow> string \<Rightarrow> ('d, SessionInfo list) dbstm" where
  "ListSessions A E ctx uid currentRefreshTokenID =
     sbind (slift (ctxCheck ctx ''list sessions'' (Inr ()))) (\<lambda>_.
     let userID = TrimSpace uid
     in if userID = '''' then sfail (validationError ''user is required'')
        else stry (RefreshTokenRepository_ListByUser userID)
          (\<lambda>e. auditFail A E ''sessions_list_failed'' '''' (Some userID) ''list_failed'' (Wrapped ''list refresh tokens'' e))
          (\<lambda>tokens. let sessions = map (sessionInfo (en_clock E 0) currentRefreshTokenID) tokens
             in sbind (Audit A E ''sessions_listed'' '''' (Some userID) True '''') (\<lambda>_. sret sessions)))"

definition SetupRequired :: "('d, bool) dbstm" where
  "SetupRequired = sbind (swrap ''count users'' UserRepository_Count) (\<lambda>n. sret (n = 0))"

definition ValidateSession :: "string \<Rightarrow> string \<Rightarrow> time \<Rightarrow> ('d, bool) dbstm" where
  "ValidateSession userID sessionID now =
     stry (RefreshTokenRepository_GetByID (TrimSpace sessionID))
       (\<lambda>e. if errorsIs e ErrNotFound then sret False else sfail (Wrapped ''get session'' e))
       (\<lambda>session. sret (k_UserID session = TrimSpace userID \<and> RefreshToken_IsActive session now))"

definition RevokeSession :: "auth_service \<Rightarrow> auth_env \<Rightarrow> ctx \<Rightarrow> string \<Rightarrow> string \<Rightarrow> ('d, unit) dbstm" where
  "RevokeSession A E ctx uid sid =
     sbind (slift (ctxCheck ctx ''revoke session'' (Inr ()))) (\<lambda>_.
     let userID = TrimSpace uid; sessionID = TrimSpace sid
     in if userID = '''' then sfail (validationError ''user is required'')
        else if sessionID = '''' then
          auditFail A E ''session_revoke_failed'' '''' (Some userID) ''validation_error'' (validationError ''session is required'')
        else stry (RefreshTokenRepository_RevokeByUserSession userID sessionID (en_clock E 0) refreshRevokedReasonManual)
          (\<lambda>e. auditFail A E ''session_revoke_failed'' '''' (Some userID)
                 (if errorsIs e ErrNotFound then ''session_not_found'' else ''revoke_failed'') (Wrapped ''revoke session'' e))
          (\<lambda>_. Audit A E ''session_revoked'' '''' (Some userID) True ''''))"

end
