(* ===== verification/Auth_Correct.thy ===== *)
theory Auth_Correct
  imports Auth
begin

text \<open>
  What authentication promises. \<open>auth_statements\<close> is the interface between the repositories and
  the service: a property of the database that the statements on users, tokens and audit events
  keep; every operation of the service keeps it (\<open>session_statements\<close>: every one but \<open>Setup\<close>, which
  alone creates users). \<open>auth_property\<close> adds the frame (a property of these tables only), so that
  the step relation \<open>auth_step\<close> keeps it too, in which the operations run one after another in any
  order, with any requests, clocks and random bytes, between steps of the rest of the program that
  leave these tables alone. It holds of the invariant \<open>auth_ok\<close> and of \<open>auth_extends s\<close>: users
  stay, tokens keep their identity and a revoked token stays as it is.
\<close>

section \<open>Properties the service keeps\<close>

lemma buildSession_token:
  "buildSession A E user = Inr (session, token) \<Longrightarrow>
     k_RevokedAt token = None \<and> k_RevokedReason token = None \<and> k_UserID token = u_ID user"
  by (auto simp: buildSession_def Let_def split: option.splits)

lemma buildUser_fresh:
  "buildUser A E req = Inr user \<Longrightarrow> u_LockedUntil user = None \<and> u_FailedLoginAttempts user = 0 \<and> u_ID user = en_uuid E 2"
  by (auto simp: buildUser_def Let_def)

text \<open>A claim of accounts keeps what does not look at accounts.\<close>

lemma keeps_claim_framed:
  assumes "\<And>s s'. P s \<Longrightarrow> db_users s' = db_users s \<Longrightarrow> db_tokens s' = db_tokens s \<Longrightarrow>
      db_auth_audit s' = db_auth_audit s \<Longrightarrow> P s'"
  shows "keeps P (claimUnownedAccounts sqlNow userID)"
proof (rule keepsI)
  fix s r s' assume "P s" and run: "claimUnownedAccounts sqlNow userID s = (r, s')"
  from run have "db_users s' = db_users s" "db_tokens s' = db_tokens s" "db_auth_audit s' = db_auth_audit s"
    by (auto simp: claimUnownedAccounts_def swrap_def sbind_def update_accounts_def split: prod.splits sum.splits)
  with \<open>P s\<close> show "P s'" by (rule assms)
qed

locale session_statements =
  fixes P :: "'d db \<Rightarrow> bool"
  assumes insert_token: "k_RevokedAt token = None \<Longrightarrow> k_RevokedReason token = None \<Longrightarrow> keeps P (insertRefreshToken token)"
    and insert_audit: "keeps P (insertAuthAuditEvent event)"
    and revoke_any: "keeps P (revoke_tokens Q revokedAt reason)"
    and clear_failures: "keeps P (update_user userID (set_failures 0 None updatedAt))"
    and record_failure: "keeps P (UserRepository_RecordLoginFailure userID loginLockoutThreshold loginLockoutDelays updatedAt)"
    and new_password: "keeps P (update_user userID (set_password passwordHash updatedAt))"
    and primary_currency: "keeps P (UserRepository_UpdatePrimaryCurrency eid now userID primaryCurrency updatedAt)"
begin

lemma keeps_reads:
  "keeps P (getUser Q)" "keeps P (getRefreshToken msg R)" "keeps P UserRepository_Count"
  "keeps P (UserRepository_GetByEmail email)" "keeps P (UserRepository_GetByID userID)"
  "keeps P (RefreshTokenRepository_GetByHash hash)" "keeps P (RefreshTokenRepository_GetByID tokenID)"
  "keeps P (RefreshTokenRepository_ListByUser userID)"
  by (simp_all add: getUser_def getRefreshToken_def UserRepository_Count_def UserRepository_GetByEmail_def
      UserRepository_GetByID_def RefreshTokenRepository_GetByHash_def RefreshTokenRepository_GetByID_def
      RefreshTokenRepository_ListByUser_def keeps_pure)

lemma keeps_audit: "keeps P (Audit A E ev email uid success reason)" "keeps P (auditFail A E ev email uid reason e)"
  unfolding auditFail_def Audit_def AuthAuditRepository_Create_def
  by (intro keeps_intros insert_audit)+

lemma keeps_revocations:
  "keeps P (RefreshTokenRepository_Revoke tokenID revokedAt reason)"
  "keeps P (RefreshTokenRepository_RevokeByUser userID revokedAt reason)"
  "keeps P (RefreshTokenRepository_RevokeByUserSession userID tokenID revokedAt reason)"
  "keeps P (ChangePasswordAndRevokeSessions userID passwordHash revokedAt reason)"
  unfolding RefreshTokenRepository_Revoke_def RefreshTokenRepository_RevokeByUser_def
    RefreshTokenRepository_RevokeByUserSession_def ChangePasswordAndRevokeSessions_def
  by (intro keeps_intros revoke_any new_password)+

lemma keeps_clear: "keeps P (clearLoginFailures user now)"
  unfolding clearLoginFailures_def UserRepository_ClearLoginFailures_def
  by (intro keeps_intros clear_failures)

lemma keeps_built: "(\<And>session token. buildSession A E user = Inr (session, token) \<Longrightarrow> keeps P (f (session, token))) \<Longrightarrow>
    keeps P (sbind (slift (buildSession A E user)) f)"
  by (auto simp: keeps_def sbind_def split: sum.splits)

lemma keeps_issueSession: "keeps P (issueSession A E user)"
  unfolding issueSession_def RefreshTokenRepository_Create_def
  by (rule keeps_built) (auto intro!: keeps_intros insert_token dest: buildSession_token)

lemma keeps_IssueSessionForUser: "keeps P (IssueSessionForUser A E ctx userID)"
  unfolding IssueSessionForUser_def by (intro keeps_intros keeps_reads keeps_clear keeps_issueSession)

lemma keeps_ConfirmPassword: "keeps P (ConfirmPassword A E ctx user password)"
  unfolding ConfirmPassword_def by (intro keeps_intros record_failure keeps_clear)

lemma keeps_Login: "keeps P (Login A E ctx req)"
  unfolding Login_def by (intro keeps_intros keeps_reads keeps_audit keeps_issueSession keeps_ConfirmPassword)

lemma keeps_rotateSession: "keeps P (rotateSession A E user tokenID now)"
  unfolding rotateSession_def RefreshTokenRepository_Rotate_def
  by (intro keeps_intros keeps_issueSession keeps_revocations keeps_built revoke_any insert_token)
    (auto dest: buildSession_token)

lemma keeps_Refresh: "keeps P (Refresh A E ctx raw)"
  unfolding Refresh_def by (intro keeps_intros keeps_reads keeps_audit keeps_revocations keeps_rotateSession)

lemma keeps_Logout: "keeps P (Logout A E ctx raw)"
  unfolding Logout_def by (intro keeps_intros keeps_reads keeps_audit keeps_revocations)

lemma keeps_ChangePassword: "keeps P (ChangePassword A E ctx cpr)"
  unfolding ChangePassword_def Let_def by (intro keeps_intros keeps_reads keeps_audit keeps_revocations)

lemma keeps_ListSessions: "keeps P (ListSessions A E ctx uid cur)"
  unfolding ListSessions_def by (intro keeps_intros keeps_reads keeps_audit)

lemma keeps_RevokeSession: "keeps P (RevokeSession A E ctx uid sid)"
  unfolding RevokeSession_def by (intro keeps_intros keeps_audit keeps_revocations)

lemma keeps_ValidateSession: "keeps P (ValidateSession uid sid now)"
  unfolding ValidateSession_def by (intro keeps_intros keeps_reads)

lemmas keeps_session_service =
  keeps_Login keeps_Refresh keeps_Logout keeps_ChangePassword keeps_ListSessions
  keeps_RevokeSession keeps_IssueSessionForUser keeps_ConfirmPassword primary_currency

end

text \<open>The first user is created by \<open>Setup\<close> alone.\<close>

locale auth_statements = session_statements P for P :: "'d db \<Rightarrow> bool" +
  assumes keeps_claim: "keeps P (claimUnownedAccounts sqlNow userID)"
    and insert_user: "u_LockedUntil user = None \<Longrightarrow> u_FailedLoginAttempts user = 0 \<Longrightarrow> keeps P (insertUser user)"
begin

lemma keeps_Setup: "keeps P (Setup A E ctx req)"
proof -
  have atomic: "keeps P (UserRepository_Setup sqlNow user token event)"
    if "buildUser A E req = Inr user" "buildSession A E user = Inr (session, token)" for sqlNow user token event session
    unfolding UserRepository_Setup_def
    using buildUser_fresh [OF that(1)] buildSession_token [OF that(2)]
    by (intro keeps_intros insert_user insert_token insert_audit keeps_claim) auto
  show ?thesis
    unfolding Setup_def setupAtomic_def setupSteps_def UserRepository_Create_def
    by (intro keeps_intros keeps_reads keeps_audit keeps_issueSession keeps_claim insert_user)
      (auto dest: buildUser_fresh intro: atomic)
qed

lemmas keeps_service = keeps_Setup keeps_session_service

end

text \<open>Properties of users, tokens and audit events alone are kept by the rest of the program too.\<close>

locale auth_property = auth_statements P for P :: "'d db \<Rightarrow> bool" +
  assumes frame: "P s \<Longrightarrow> db_users s' = db_users s \<Longrightarrow> db_tokens s' = db_tokens s \<Longrightarrow>
      db_auth_audit s' = db_auth_audit s \<Longrightarrow> P s'"

section \<open>The invariant and the growth of the tables\<close>

lemma lockout_facts: "5 \<le> loginLockoutThreshold" "loginLockoutDelays \<noteq> []"
  by (simp_all add: loginLockoutThreshold_def loginLockoutDelays_def)

lemma loginLockoutUntil_Some: "loginLockoutUntil now n threshold ds = Some t \<Longrightarrow> threshold \<le> n"
  by (auto simp: loginLockoutUntil_def split: if_splits)

lemma RecordLoginFailure_Inr_iff [tx_simps]:
  "UserRepository_RecordLoginFailure userID threshold ds updatedAt s = (Inr (n, lockedUntil), s') \<longleftrightarrow>
     (\<exists>u. find (\<lambda>u. u_ID u = userID) (db_users s) = Some u \<and> n = u_FailedLoginAttempts u + 1 \<and> n \<le> 2147483647 \<and>
        lockedUntil = loginLockoutUntil updatedAt n threshold ds \<and>
        s' = s\<lparr>db_users := map_user userID (set_failures n lockedUntil updatedAt) (db_users s)\<rparr>)"
  by (auto simp: UserRepository_RecordLoginFailure_def tx_simps QueryRow_def Let_def split: option.splits if_splits)

lemma RecordLoginFailure_Inl:
  "UserRepository_RecordLoginFailure userID threshold ds updatedAt s = (Inl e, s') \<Longrightarrow> s' = s"
  unfolding UserRepository_RecordLoginFailure_def by (rule in_tx_Inl)

lemma UpdatePrimaryCurrency_changes:
  assumes "UserRepository_UpdatePrimaryCurrency eid now userID c updatedAt s = (r, s')"
  obtains "s' = s" | es where "currency_code c" "s' = s\<lparr>db_users := map_user userID (set_primary_currency c updatedAt) (db_users s), db_audit := es\<rparr>"
proof (cases r)
  case (Inl e)
  with assms have "s' = s" unfolding UserRepository_UpdatePrimaryCurrency_def by (auto dest: in_tx_Inl)
  then show ?thesis by (rule that(1))
next
  case (Inr u)
  with assms have "UserRepository_UpdatePrimaryCurrency eid now userID c updatedAt s = (Inr u, s')" by simp
  then have "currency_code c \<and> (\<exists>es. s' = s\<lparr>db_users := map_user userID (set_primary_currency c updatedAt) (db_users s), db_audit := es\<rparr>)"
    unfolding UserRepository_UpdatePrimaryCurrency_def in_tx_Inr_iff sbind_Inr_iff
    by (elim exE conjE)
      (simp only: scheck_Inr_iff swrap_Inr_iff update_user_simp sread_simp prod.inject sum.inject
        insertAuditEvent_Inr_iff, elim conjE, hypsubst, simp, rule exI, simp)
  with that(2) show ?thesis by blast
qed

lemma insertRefreshToken_Inl: "insertRefreshToken token s = (Inl e, s') \<Longrightarrow> s' = s"
  by (auto simp: insertRefreshToken_def sbind_def split: sum.splits)

lemma insertAuthAuditEvent_Inl: "insertAuthAuditEvent event s = (Inl e, s') \<Longrightarrow> s' = s"
  by (auto simp: insertAuthAuditEvent_def sbind_def split: sum.splits)

lemma insertUser_Inl: "insertUser user s = (Inl e, s') \<Longrightarrow> s' = s"
  by (auto simp: insertUser_def split: sum.splits)

lemma find_member: "find Q xs = Some x \<Longrightarrow> x \<in> set xs \<and> Q x"
  by (auto simp: find_Some_iff)

text \<open>A statement that leaves the state alone when it fails keeps what its success keeps.\<close>

lemma keeps_on_success:
  assumes "\<And>s e s'. m s = (Inl e, s') \<Longrightarrow> s' = s" "\<And>s x s'. P s \<Longrightarrow> m s = (Inr x, s') \<Longrightarrow> P s'"
  shows "keeps P m"
proof (rule keepsI)
  show "P s'" if "P s" "m s = (r, s')" for s r s' using that assms by (cases r) auto
qed

interpretation schema: auth_property "auth_ok :: 'd db \<Rightarrow> bool"
proof
  show "auth_ok s'" if "auth_ok s" "db_users s' = db_users s" "db_tokens s' = db_tokens s"
    "db_auth_audit s' = db_auth_audit s" for s s' :: "'d db"
    using that by (simp add: auth_ok_def)
  then show "keeps (auth_ok :: 'd db \<Rightarrow> bool) (claimUnownedAccounts sqlNow userID)" for sqlNow userID
    by (rule keeps_claim_framed)
  show "keeps (auth_ok :: 'd db \<Rightarrow> bool) (insertUser user)" if "u_LockedUntil user = None" "u_FailedLoginAttempts user = 0" for user
    by (rule keeps_on_success) (use that in \<open>auto simp: tx_simps auth_ok_def user_ok_def list_all_iff dest: insertUser_Inl\<close>)
  show "keeps (auth_ok :: 'd db \<Rightarrow> bool) (insertRefreshToken token)" if "k_RevokedAt token = None" "k_RevokedReason token = None" for token
    by (rule keeps_on_success) (use that in \<open>auto simp: tx_simps auth_ok_def dest: insertRefreshToken_Inl\<close>)
  show "keeps (auth_ok :: 'd db \<Rightarrow> bool) (insertAuthAuditEvent event)" for event
    by (rule keeps_on_success) (auto simp: tx_simps auth_ok_def dest: insertAuthAuditEvent_Inl)
  show "keeps (auth_ok :: 'd db \<Rightarrow> bool) (revoke_tokens Q a r)" for Q a r
    by (simp add: keeps_def auth_ok_revoke)
  show "keeps (auth_ok :: 'd db \<Rightarrow> bool) (update_user i (set_failures 0 None t))" for i t
    unfolding keeps_def update_user_simp snd_conv
    by (intro allI impI auth_ok_update_users) (simp_all add: user_ok_def set_failures_def)
  show "keeps (auth_ok :: 'd db \<Rightarrow> bool) (update_user i (set_password h t))" for i h t
    unfolding keeps_def update_user_simp snd_conv
    by (intro allI impI auth_ok_update_users) (simp_all add: user_ok_def set_password_def)
  show "keeps (auth_ok :: 'd db \<Rightarrow> bool) (UserRepository_RecordLoginFailure i loginLockoutThreshold loginLockoutDelays t)" for i t
  proof (rule keeps_on_success)
    fix s s' :: "'d db" and x assume ok: "auth_ok s"
      and "UserRepository_RecordLoginFailure i loginLockoutThreshold loginLockoutDelays t s = (Inr x, s')"
    then obtain u where u: "u \<in> set (db_users s)" "u_ID u = i" and n: "u_FailedLoginAttempts u + 1 \<le> 2147483647"
      and s': "s' = s\<lparr>db_users := map_user i (set_failures (u_FailedLoginAttempts u + 1)
          (loginLockoutUntil t (u_FailedLoginAttempts u + 1) loginLockoutThreshold loginLockoutDelays) t) (db_users s)\<rparr>"
      by (cases x) (auto simp: tx_simps dest: find_member)
    have "0 \<le> u_FailedLoginAttempts u" using auth_okD(5) [OF ok u(1)] by (simp add: user_ok_def)
    then show "auth_ok s'" unfolding s'
      using ok n lockout_facts(1)
      by (intro auth_ok_update_users) (auto simp: user_ok_def set_failures_def dest: loginLockoutUntil_Some)
  qed (rule RecordLoginFailure_Inl)
  show "keeps (auth_ok :: 'd db \<Rightarrow> bool) (UserRepository_UpdatePrimaryCurrency eid now i c t)" for eid now i c t
  proof (rule keepsI)
    fix s s' :: "'d db" and r assume ok: "auth_ok s" and run: "UserRepository_UpdatePrimaryCurrency eid now i c t s = (r, s')"
    from run show "auth_ok s'"
    proof (cases rule: UpdatePrimaryCurrency_changes)
      case (2 es)
      let ?t = "s\<lparr>db_users := map_user i (set_primary_currency c t) (db_users s)\<rparr>"
      have "auth_ok ?t" using ok 2(1) by (intro auth_ok_update_users) (simp_all add: user_ok_def set_primary_currency_def)
      then show ?thesis unfolding 2(2) by (simp add: auth_ok_def)
    qed (use ok in simp)
  qed
qed

section \<open>Tables only grow\<close>

definition token_keeps :: "(RefreshToken \<Rightarrow> RefreshToken) \<Rightarrow> bool" where
  "token_keeps f \<longleftrightarrow> (\<forall>t. k_ID (f t) = k_ID t \<and> k_UserID (f t) = k_UserID t \<and> k_TokenHash (f t) = k_TokenHash t \<and>
     k_ExpiresAt (f t) = k_ExpiresAt t \<and> (k_RevokedAt t \<noteq> None \<longrightarrow> f t = t))"

definition auth_extends :: "'d db \<Rightarrow> 'd db \<Rightarrow> bool" where
  "auth_extends s s' \<longleftrightarrow>
     (\<exists>f new. token_keeps f \<and> db_tokens s' = map f (db_tokens s) @ new) \<and>
     (\<exists>new. map u_ID (db_users s') = map u_ID (db_users s) @ new)"

lemma token_keeps_intros: "token_keeps (\<lambda>t. t)" "token_keeps (revoke Q a r)"
  "token_keeps f \<Longrightarrow> token_keeps g \<Longrightarrow> token_keeps (g \<circ> f)"
  by (auto simp: token_keeps_def revoke_def)

lemma auth_extends_refl: "auth_extends s s"
  unfolding auth_extends_def by (metis append_Nil2 list.map_ident token_keeps_intros(1))

lemma auth_extends_trans: "auth_extends s t \<Longrightarrow> auth_extends t u \<Longrightarrow> auth_extends s u"
proof -
  assume "auth_extends s t" "auth_extends t u"
  then obtain f new g more us vs where "token_keeps f" "db_tokens t = map f (db_tokens s) @ new"
    "token_keeps g" "db_tokens u = map g (db_tokens t) @ more"
    "map u_ID (db_users t) = map u_ID (db_users s) @ us" "map u_ID (db_users u) = map u_ID (db_users t) @ vs"
    unfolding auth_extends_def by blast
  then have "token_keeps (g \<circ> f)" "db_tokens u = map (g \<circ> f) (db_tokens s) @ (map g new @ more)"
    "map u_ID (db_users u) = map u_ID (db_users s) @ (us @ vs)" by (simp_all add: token_keeps_intros)
  then show ?thesis unfolding auth_extends_def by blast
qed

lemma auth_extends_tokens: "token_keeps f \<Longrightarrow> auth_extends s (s\<lparr>db_tokens := map f (db_tokens s) @ new\<rparr>)"
  unfolding auth_extends_def by fastforce

lemma auth_extends_users:
  "map u_ID us = map u_ID (db_users s) @ new \<Longrightarrow> auth_extends s (s\<lparr>db_users := us\<rparr>)"
  unfolding auth_extends_def
  by (intro conjI exI [of _ "\<lambda>t. t"] exI [of _ "[]"] exI [of _ new]) (simp_all add: token_keeps_intros)

lemma auth_extends_map_user: "(\<And>u. u_ID (f u) = u_ID u) \<Longrightarrow> auth_extends s (s\<lparr>db_users := map_user i f (db_users s)\<rparr>)"
  by (rule auth_extends_users [where new = "[]"]) (auto simp: map_user_def)

lemma auth_extends_frame:
  "auth_extends s t \<Longrightarrow> db_users t' = db_users t \<Longrightarrow> db_tokens t' = db_tokens t \<Longrightarrow> auth_extends s t'"
  by (simp add: auth_extends_def)

text \<open>What a later state still knows of a token.\<close>

lemma auth_extends_token:
  assumes "auth_extends s s'" "t \<in> set (db_tokens s)"
  obtains t' where "t' \<in> set (db_tokens s')" "k_ID t' = k_ID t" "k_UserID t' = k_UserID t"
    "k_TokenHash t' = k_TokenHash t" "k_ExpiresAt t' = k_ExpiresAt t" "k_RevokedAt t \<noteq> None \<Longrightarrow> t' = t"
proof -
  from assms(1) obtain f new where "token_keeps f" "db_tokens s' = map f (db_tokens s) @ new"
    unfolding auth_extends_def by blast
  with assms(2) show ?thesis by (intro that [of "f t"]) (auto simp: token_keeps_def)
qed

interpretation growth: auth_property "auth_extends s0 :: 'd db \<Rightarrow> bool" for s0
proof
  have step: "keeps (auth_extends s0) m" if "\<And>s r s'. m s = (r, s') \<Longrightarrow> auth_extends s s'"
    for m :: "('d, 'a) dbstm"
    using that by (intro keepsI) (blast intro: auth_extends_trans)
  have success: "keeps (auth_extends s0) m"
    if "\<And>s e s'. m s = (Inl e, s') \<Longrightarrow> s' = s" "\<And>s x s'. m s = (Inr x, s') \<Longrightarrow> auth_extends s s'"
    for m :: "('d, 'a) dbstm"
    using that by (intro keeps_on_success) (blast intro: auth_extends_trans)+
  show "auth_extends s0 s'" if "auth_extends s0 s" "db_users s' = db_users s" "db_tokens s' = db_tokens s" for s s' :: "'d db"
    using that by (rule auth_extends_frame)
  then show "keeps (auth_extends s0) (claimUnownedAccounts sqlNow userID :: ('d, unit) dbstm)" for sqlNow userID
    by (intro keeps_claim_framed) blast
  show "keeps (auth_extends s0) (insertUser user :: ('d, unit) dbstm)" for user
    by (rule success) (auto simp: tx_simps dest: insertUser_Inl intro: auth_extends_users)
  show "keeps (auth_extends s0) (insertRefreshToken token :: ('d, unit) dbstm)" for token
    using auth_extends_tokens [OF token_keeps_intros(1)]
    by (intro success) (auto simp: tx_simps dest: insertRefreshToken_Inl)
  show "keeps (auth_extends s0) (insertAuthAuditEvent event :: ('d, unit) dbstm)" for event
    by (rule success) (auto simp: tx_simps dest: insertAuthAuditEvent_Inl intro: auth_extends_frame [OF auth_extends_refl])
  show "keeps (auth_extends s0) (revoke_tokens Q a r :: ('d, nat) dbstm)" for Q a r
    using auth_extends_tokens [OF token_keeps_intros(2), where new = "[]"] by (intro step) auto
  show "keeps (auth_extends s0) (update_user i (set_failures 0 None t) :: ('d, nat) dbstm)"
    "keeps (auth_extends s0) (update_user i (set_password h t) :: ('d, nat) dbstm)" for i t h
    by (intro step; auto intro: auth_extends_map_user)+
  show "keeps (auth_extends s0) (UserRepository_RecordLoginFailure i loginLockoutThreshold loginLockoutDelays t :: ('d, int \<times> time option) dbstm)" for i t
    by (rule success) (auto simp: tx_simps dest: RecordLoginFailure_Inl intro!: auth_extends_map_user)
  show "keeps (auth_extends s0) (UserRepository_UpdatePrimaryCurrency eid now i c t :: ('d, unit) dbstm)" for eid now i c t
  proof (rule step)
    fix s s' :: "'d db" and r
    assume "UserRepository_UpdatePrimaryCurrency eid now i c t s = (r, s')"
    then show "auth_extends s s'"
    proof (cases rule: UpdatePrimaryCurrency_changes)
      case (2 es)
      show ?thesis unfolding 2(2)
        by (rule auth_extends_frame [OF auth_extends_map_user [where i = i and f = "set_primary_currency c t"]]) simp_all
    qed (simp add: auth_extends_refl)
  qed
qed

section \<open>Operations in sequence\<close>

text \<open>The operations of the service, by their effect on the database.\<close>

inductive auth_step :: "auth_service \<Rightarrow> 'd db \<Rightarrow> 'd db \<Rightarrow> bool" for A where
  step_Setup: "auth_step A s (snd (Setup A E ctx req s))"
| step_Login: "auth_step A s (snd (Login A E ctx req s))"
| step_Refresh: "auth_step A s (snd (Refresh A E ctx raw s))"
| step_Logout: "auth_step A s (snd (Logout A E ctx raw s))"
| step_ChangePassword: "auth_step A s (snd (ChangePassword A E ctx cpr s))"
| step_ListSessions: "auth_step A s (snd (ListSessions A E ctx uid cur s))"
| step_RevokeSession: "auth_step A s (snd (RevokeSession A E ctx uid sid s))"
| step_IssueSession: "auth_step A s (snd (IssueSessionForUser A E ctx uid s))"
| step_ConfirmPassword: "auth_step A s (snd (ConfirmPassword A E ctx user password s))"
| step_PrimaryCurrency: "auth_step A s (snd (UserRepository_UpdatePrimaryCurrency eid now uid c updatedAt s))"
| step_other: "db_users s' = db_users s \<Longrightarrow> db_tokens s' = db_tokens s \<Longrightarrow> db_auth_audit s' = db_auth_audit s \<Longrightarrow>
    auth_step A s s'"

abbreviation auth_steps :: "auth_service \<Rightarrow> 'd db \<Rightarrow> 'd db \<Rightarrow> bool" where
  "auth_steps A \<equiv> (auth_step A)\<^sup>*\<^sup>*"

context auth_property
begin

lemma step_keeps: "auth_step A s s' \<Longrightarrow> P s \<Longrightarrow> P s'"
  by (induction rule: auth_step.induct) (auto simp: keeps_def intro: frame dest: keeps_service [unfolded keeps_def, rule_format])

lemma steps_keep: "auth_steps A s s' \<Longrightarrow> P s \<Longrightarrow> P s'"
  by (induction rule: rtranclp_induct) (auto dest: step_keeps)

end

lemma auth_steps_extend: "auth_steps A s s' \<Longrightarrow> auth_extends s s'"
  by (rule growth.steps_keep [OF _ auth_extends_refl])

section \<open>Shape of the operations\<close>

lemma stry_Inr_iff [tx_simps]:
  "stry m h f s = (Inr y, s') \<longleftrightarrow>
     (\<exists>e t. m s = (Inl e, t) \<and> h e t = (Inr y, s')) \<or> (\<exists>x t. m s = (Inr x, t) \<and> f x t = (Inr y, s'))"
  by (auto simp: stry_def split: prod.splits sum.splits)

lemma stry_eval:
  "m s = (Inr x, t) \<Longrightarrow> stry m h f s = f x t" "m s = (Inl e, t) \<Longrightarrow> stry m h f s = h e t"
  by (simp_all add: stry_def)

text \<open>Auditing never fails and writes the audit table only.\<close>

lemma Audit_writes: "\<exists>es. Audit A E ev email uid success reason s = (Inr (), s\<lparr>db_auth_audit := es\<rparr>)"
proof (cases "as_audit A")
  case True
  obtain r t where run: "AuthAuditRepository_Create
      (NewAuditEvent (en_uuid E 0) (en_clock E 3) ev email uid success reason) s = (r, t)" by (metis surj_pair)
  then have "\<exists>es. t = s\<lparr>db_auth_audit := es\<rparr>"
    by (auto simp: AuthAuditRepository_Create_def swrap_def insertAuthAuditEvent_def sbind_def
        split: prod.splits sum.splits intro: exI [of _ "db_auth_audit s"])
  with run True show ?thesis by (cases r) (auto simp: Audit_def stry_def)
next
  case False
  then show ?thesis by (auto simp: Audit_def intro: exI [of _ "db_auth_audit s"])
qed

lemma Audit_Inr_iff:
  "Audit A E ev email uid success reason s = (r, s') \<Longrightarrow> r = Inr () \<and> (\<exists>es. s' = s\<lparr>db_auth_audit := es\<rparr>)"
  using Audit_writes [of A E ev email uid success reason s] by auto

lemma auditFail_writes: "\<exists>es. auditFail A E ev email uid reason e s = (Inl e, s\<lparr>db_auth_audit := es\<rparr>)"
  using Audit_writes [of A E ev email uid False reason s] by (auto simp: auditFail_def sbind_def)

lemma auditFail_never [simp]: "auditFail A E ev email uid reason e s = (Inr y, s') \<longleftrightarrow> False"
  by (simp add: auditFail_def tx_simps)

lemma audited_Inr_iff:
  "sbind (Audit A E ev email uid success reason) (\<lambda>_. sret x) s = (Inr y, s') \<Longrightarrow>
     y = x \<and> (\<exists>es. s' = s\<lparr>db_auth_audit := es\<rparr>)"
  by (auto simp: tx_simps dest: Audit_Inr_iff)

section \<open>Refreshing a session\<close>

lemma buildSession_Inr:
  assumes "buildSession A E user = Inr (session, token)"
  obtains ts pair where "as_tokens A = Some ts"
    "IssuePair ts (as_jwt A) (as_sha256 A) (en_rand E) (en_uuid E 3) (en_uuid E 4) (u_ID user) (u_Email user) (en_clock E 2) = Inr pair"
    "session = \<lparr>se_User = user, se_AccessToken = tp_AccessToken pair, se_AccessExpiresAt = tp_AccessExpiresAt pair,
       se_RefreshToken = tp_RefreshToken pair, se_RefreshExpiresAt = tp_RefreshExpiresAt pair\<rparr>"
    "token = \<lparr>k_ID = en_uuid E 3, k_UserID = u_ID user, k_TokenHash = HashRefreshToken (as_sha256 A) (se_RefreshToken session),
       k_ExpiresAt = TimeAdd (en_clock E 2) (ts_refreshTTL ts), k_RevokedAt = None, k_RevokedReason = None,
       k_CreatedAt = en_clock E 2\<rparr>"
  using assms by (auto simp: buildSession_def Let_def IssuePair_Inr split: option.splits)

lemma issueSession_Inr:
  assumes "issueSession A E user s = (Inr session, s')"
  obtains token where "buildSession A E user = Inr (session, token)" "k_UserID token \<in> set (map u_ID (db_users s))"
    "k_ID token \<notin> set (map k_ID (db_tokens s))" "s' = s\<lparr>db_tokens := db_tokens s @ [token]\<rparr>"
  using assms by (auto simp: issueSession_def RefreshTokenRepository_Create_def tx_simps)

lemma rotateSession_Inr:
  assumes "rotateSession A E user tokenID now s = (Inr session, s')"
  obtains token where "buildSession A E user = Inr (session, token)"
    "s' = s\<lparr>db_tokens := map (revoke (\<lambda>t. k_ID t = tokenID) now refreshRevokedReasonRotated) (db_tokens s) @ [token]\<rparr>"
proof (cases "as_rotator A")
  case True
  with assms show ?thesis
    by (auto simp: rotateSession_def RefreshTokenRepository_Rotate_def tx_simps intro: that)
next
  case False
  with assms show ?thesis
    by (auto simp: rotateSession_def RefreshTokenRepository_Revoke_def tx_simps elim!: issueSession_Inr intro: that)
qed

lemma Refresh_Inr:
  assumes "Refresh A E ctx raw s = (Inr session, s')"
  obtains token user new es where "as_tokens A \<noteq> None"
    "find (\<lambda>t. k_TokenHash t = HashRefreshToken (as_sha256 A) (TrimSpace raw)) (db_tokens s) = Some token"
    "TrimSpace raw \<noteq> ''''" "RefreshToken_IsActive token (en_clock E 0)"
    "find (\<lambda>u. u_ID u = k_UserID token) (db_users s) = Some user"
    "buildSession A E user = Inr (session, new)"
    "s' = s\<lparr>db_tokens := map (revoke (\<lambda>t. k_ID t = k_ID token) (en_clock E 0) refreshRevokedReasonRotated) (db_tokens s) @ [new],
       db_auth_audit := es\<rparr>"
proof -
  from assms have raw: "TrimSpace raw \<noteq> ''''" and conf: "as_tokens A \<noteq> None"
    by (auto simp: Refresh_def tx_simps Let_def split: if_splits)
  from assms obtain token user t
    where tok: "find (\<lambda>t. k_TokenHash t = HashRefreshToken (as_sha256 A) (TrimSpace raw)) (db_tokens s) = Some token"
      and act: "RefreshToken_IsActive token (en_clock E 0)"
      and user: "find (\<lambda>u. u_ID u = k_UserID token) (db_users s) = Some user"
      and rot: "rotateSession A E user (k_ID token) (en_clock E 0) s = (Inr session, t)"
      and audit: "\<exists>es. s' = t\<lparr>db_auth_audit := es\<rparr>"
    by (auto simp: Refresh_def tx_simps Let_def RefreshTokenRepository_GetByHash_def UserRepository_GetByID_def
        split: if_splits dest!: Audit_Inr_iff)
  from rot obtain new where new: "buildSession A E user = Inr (session, new)"
    and t: "t = s\<lparr>db_tokens := map (revoke (\<lambda>t. k_ID t = k_ID token) (en_clock E 0) refreshRevokedReasonRotated) (db_tokens s) @ [new]\<rparr>"
    by (rule rotateSession_Inr)
  from audit obtain es where "s' = t\<lparr>db_auth_audit := es\<rparr>" ..
  then show ?thesis using t by (intro that [OF conf tok raw act user new, of es]) simp
qed

text \<open>Presenting a token that was replaced revokes every token of its user.\<close>

lemma Refresh_reused:
  assumes "as_tokens A \<noteq> None" "TrimSpace raw \<noteq> ''''"
    and tok: "find (\<lambda>t. k_TokenHash t = HashRefreshToken (as_sha256 A) (TrimSpace raw)) (db_tokens s) = Some token"
    and "k_RevokedAt token \<noteq> None" "k_RevokedReason token = Some refreshRevokedReasonRotated"
  shows "\<exists>es. Refresh A E None raw s = (Inl (validationError ''invalid refresh token''),
    s\<lparr>db_tokens := map (revoke (\<lambda>t. k_UserID t = k_UserID token) (en_clock E 0) refreshRevokedReasonReuseDetected) (db_tokens s),
      db_auth_audit := es\<rparr>)"
proof -
  let ?t = "s\<lparr>db_tokens := map (revoke (\<lambda>t. k_UserID t = k_UserID token) (en_clock E 0) refreshRevokedReasonReuseDetected) (db_tokens s)\<rparr>"
  have get: "RefreshTokenRepository_GetByHash (HashRefreshToken (as_sha256 A) (TrimSpace raw)) s = (Inr token, s)"
    using tok by (simp add: RefreshTokenRepository_GetByHash_def tx_simps)
  have cand: "\<not> RefreshToken_IsActive token (en_clock E 0)" "isRefreshTokenReuseCandidate token"
    using assms(4,5) by (simp_all add: RefreshToken_IsActive_def isRefreshTokenReuseCandidate_def)
  have rev: "swrap ''revoke refresh token family''
      (RefreshTokenRepository_RevokeByUser (k_UserID token) (en_clock E 0) refreshRevokedReasonReuseDetected) s = (Inr (), ?t)"
    by (simp add: RefreshTokenRepository_RevokeByUser_def swrap_def sbind_def)
  obtain es where "auditFail A E ''refresh_reuse_detected'' '''' (Some (k_UserID token)) ''revoked_refresh_token_reused''
      (validationError ''invalid refresh token'') ?t =
      (Inl (validationError ''invalid refresh token'') :: err + AuthSession, ?t\<lparr>db_auth_audit := es\<rparr>)"
    using auditFail_writes by blast
  moreover obtain ts where "as_tokens A = Some ts" using assms(1) by blast
  ultimately show ?thesis using assms(2) cand rev
    by (intro exI [of _ es]) (simp add: Refresh_def Let_def stry_def get sbind_def)
qed

text \<open>The row of a replaced token in every later state.\<close>

lemma rotated_token_later:
  assumes "auth_ok s2" "auth_steps A s1 s2" and s1: "db_tokens s1 = map (revoke (\<lambda>t. k_ID t = k_ID token) at' why) (db_tokens s) @ rest"
    and "token \<in> set (db_tokens s)" "k_RevokedAt token = None"
  obtains t where "find (\<lambda>t. k_TokenHash t = k_TokenHash token) (db_tokens s2) = Some t"
    "k_UserID t = k_UserID token" "k_RevokedAt t = Some at'" "k_RevokedReason t = Some why"
proof -
  let ?t = "revoke (\<lambda>t. k_ID t = k_ID token) at' why token"
  have "?t \<in> set (db_tokens s1)" using s1 assms(4) by simp
  then obtain t where "t \<in> set (db_tokens s2)" "k_RevokedAt ?t \<noteq> None \<Longrightarrow> t = ?t"
    using auth_extends_token [OF auth_steps_extend [OF assms(2)]] by metis
  then have "?t \<in> set (db_tokens s2)" by (simp add: revoke_revokes)
  moreover have "distinct (map k_TokenHash (db_tokens s2))" using assms(1) by (rule auth_okD)
  ultimately have "find (\<lambda>t. k_TokenHash t = k_TokenHash token) (db_tokens s2) = Some ?t"
    by (intro find_unique_key) simp_all
  then show ?thesis by (rule that) (use assms(5) in \<open>simp_all add: revoke_def\<close>)
qed

text \<open>C26. A refresh token works once. A successful \<open>Refresh\<close> was given an active token, revokes
  it, gives its user one new active token and leaves every other token alone. From then on,
  after any further operations, presenting the old token again is refused, and it revokes every
  token its user holds at that time.\<close>

theorem refresh_token_single_use:
  assumes "auth_ok s" "Refresh A E ctx raw s = (Inr session, s1)"
  shows "\<exists>token new.
    token \<in> set (db_tokens s) \<and> k_TokenHash token = HashRefreshToken (as_sha256 A) (TrimSpace raw) \<and>
    RefreshToken_IsActive token (en_clock E 0) \<and>
    db_tokens s1 = map (\<lambda>t. if t = token then t\<lparr>k_RevokedAt := Some (en_clock E 0), k_RevokedReason := Some ''rotated''\<rparr> else t)
      (db_tokens s) @ [new] \<and>
    k_UserID new = k_UserID token \<and> k_RevokedAt new = None \<and>
    k_TokenHash new = HashRefreshToken (as_sha256 A) (se_RefreshToken session) \<and>
    (\<forall>s2 E'. auth_steps A s1 s2 \<longrightarrow>
      (\<exists>s3. Refresh A E' None raw s2 = (Inl (validationError ''invalid refresh token''), s3) \<and>
         (\<forall>t \<in> set (db_tokens s3). k_UserID t = k_UserID token \<longrightarrow> k_RevokedAt t \<noteq> None)))"
proof -
  let ?h = "HashRefreshToken (as_sha256 A) (TrimSpace raw)"
  from assms(2) obtain token user new es where conf: "as_tokens A \<noteq> None"
    and tok: "find (\<lambda>t. k_TokenHash t = ?h) (db_tokens s) = Some token" and raw: "TrimSpace raw \<noteq> ''''"
    and act: "RefreshToken_IsActive token (en_clock E 0)"
    and user: "find (\<lambda>u. u_ID u = k_UserID token) (db_users s) = Some user"
    and new: "buildSession A E user = Inr (session, new)"
    and s1: "s1 = s\<lparr>db_tokens := map (revoke (\<lambda>t. k_ID t = k_ID token) (en_clock E 0) refreshRevokedReasonRotated) (db_tokens s) @ [new],
       db_auth_audit := es\<rparr>"
    by (rule Refresh_Inr)
  have mem: "token \<in> set (db_tokens s)" "k_TokenHash token = ?h" using find_member [OF tok] by auto
  have live: "k_RevokedAt token = None" using act by (simp add: RefreshToken_IsActive_def)
  have ok: "auth_ok s1" using keepsD [OF schema.keeps_Refresh assms(1,2)] .
  have "revoke (\<lambda>t. k_ID t = k_ID token) (en_clock E 0) refreshRevokedReasonRotated t =
      (if t = token then t\<lparr>k_RevokedAt := Some (en_clock E 0), k_RevokedReason := Some ''rotated''\<rparr> else t)"
    if "t \<in> set (db_tokens s)" for t
    using that mem(1) live auth_okD(3) [OF assms(1)] by (auto simp: revoke_def distinct_map dest: inj_onD)
  then have tokens: "db_tokens s1 = map (\<lambda>t. if t = token
      then t\<lparr>k_RevokedAt := Some (en_clock E 0), k_RevokedReason := Some ''rotated''\<rparr> else t) (db_tokens s) @ [new]"
    unfolding s1 by simp
  have later: "\<exists>s3. Refresh A E' None raw s2 = (Inl (validationError ''invalid refresh token''), s3) \<and>
      (\<forall>t \<in> set (db_tokens s3). k_UserID t = k_UserID token \<longrightarrow> k_RevokedAt t \<noteq> None)"
    if "auth_steps A s1 s2" for s2 E'
  proof -
    have "db_tokens s1 = map (revoke (\<lambda>t. k_ID t = k_ID token) (en_clock E 0) refreshRevokedReasonRotated) (db_tokens s) @ [new]"
      by (simp add: s1)
    from rotated_token_later [OF schema.steps_keep [OF that ok] that this mem(1) live]
    obtain t where "find (\<lambda>t. k_TokenHash t = ?h) (db_tokens s2) = Some t" "k_UserID t = k_UserID token"
      "k_RevokedAt t \<noteq> None" "k_RevokedReason t = Some refreshRevokedReasonRotated" unfolding mem(2) by force
    with Refresh_reused [OF conf raw, of s2 t E'] show ?thesis by (auto simp: revoke_def)
  qed
  have "k_UserID new = k_UserID token \<and> k_RevokedAt new = None \<and>
      k_TokenHash new = HashRefreshToken (as_sha256 A) (se_RefreshToken session)"
    using new find_member [OF user] by (elim buildSession_Inr) auto
  with mem act tokens later show ?thesis by blast
qed

section \<open>First user\<close>

lemma Setup_Inr:
  assumes "Setup A E ctx req s = (Inr session, s')"
  obtains user token where "as_tokens A \<noteq> None" "db_users s = []" "buildUser A E req = Inr user"
    "buildSession A E user = Inr (session, token)"
    "db_users s' = [user]" "db_tokens s' = db_tokens s @ [token]"
    "as_setupRepo A \<or> as_accounts A \<Longrightarrow> \<forall>a \<in> set (db_accounts s'). a_OwnerUserID a \<noteq> None"
proof -
  from assms have conf: "as_tokens A \<noteq> None" and none: "db_users s = []"
    by (auto simp: Setup_def tx_simps UserRepository_Count_def split: if_splits)
  from assms obtain user where user: "buildUser A E req = Inr user"
    and run: "(if as_setupRepo A then setupAtomic A E req user else setupSteps A E req user) s = (Inr session, s')"
    by (auto simp: Setup_def tx_simps UserRepository_Count_def none split: sum.splits)
  have claim: "db_users t' = db_users t \<and> db_tokens t' = db_tokens t \<and> (\<forall>a \<in> set (db_accounts t'). a_OwnerUserID a \<noteq> None)"
    if "claimUnownedAccounts (en_sqlNow E) (u_ID user) t = (Inr x, t')" for t t' x
    using that by (auto simp: claimUnownedAccounts_def update_accounts_def tx_simps)
  have "\<exists>token. buildSession A E user = Inr (session, token) \<and> db_users s' = [user] \<and> db_tokens s' = db_tokens s @ [token] \<and>
      (as_setupRepo A \<or> as_accounts A \<longrightarrow> (\<forall>a \<in> set (db_accounts s'). a_OwnerUserID a \<noteq> None))"
  proof (cases "as_setupRepo A")
    case True
    with run show ?thesis
      by (auto simp: setupAtomic_def UserRepository_Setup_def tx_simps none Let_def
          split: sum.splits if_splits option.splits dest!: claim)
  next
    case False
    with run show ?thesis
      by (auto simp: setupSteps_def UserRepository_Create_def tx_simps none
          split: if_splits dest!: claim Audit_Inr_iff elim!: issueSession_Inr)
  qed
  with conf none user show ?thesis by (blast intro: that)
qed

lemma Setup_refused:
  assumes "db_users s \<noteq> []"
  shows "\<exists>e es. Setup A E ctx req s = (Inl e, s\<lparr>db_auth_audit := es\<rparr>)"
proof -
  obtain es where audit: "auditFail A E ''setup_failed'' (aq_Email req) None ''setup_complete''
      (validationError ''setup is already complete'') s =
      (Inl (validationError ''setup is already complete'') :: err + AuthSession, s\<lparr>db_auth_audit := es\<rparr>)"
    using auditFail_writes by blast
  have same: "s = s\<lparr>db_auth_audit := db_auth_audit s\<rparr>" by simp
  show ?thesis
  proof (cases "ctx = None \<and> as_tokens A \<noteq> None")
    case True
    with assms audit show ?thesis by (auto simp: Setup_def UserRepository_Count_def sbind_def swrap_def)
  next
    case False
    then obtain e where "ctxCheck ctx ''setup auth'' (echeck (as_tokens A = None) notConfigured (Inr ())) = Inl e"
      by (cases ctx) (auto simp: ctxCheck_def)
    then have "Setup A E ctx req s = (Inl e, s)" by (simp add: Setup_def sbind_def)
    with same show ?thesis by metis
  qed
qed

text \<open>C30. Setup happens once. A successful \<open>Setup\<close> found no user; it leaves exactly one, with the
  normalised email and the hash of the password, one active refresh token of that user, and no
  account without an owner. After any further operations every other \<open>Setup\<close>, whatever its
  arguments, is refused and changes nothing but the audit trail.\<close>

theorem setup_happens_once:
  assumes "Setup A E ctx req s = (Inr session, s1)" "as_setupRepo A \<or> as_accounts A"
  shows "db_users s = [] \<and>
    (\<exists>user token email. db_users s1 = [user] \<and> db_tokens s1 = db_tokens s @ [token] \<and>
       normalizeEmail A (aq_Email req) = Inr email \<and> u_Email user = email \<and>
       as_passwordFunc A (aq_Password req) DefaultPasswordParams = Inr (u_PasswordHash user) \<and>
       12 \<le> length (aq_Password req) \<and> ValidCurrency (u_PrimaryCurrency user) \<and>
       k_UserID token = u_ID user \<and> k_RevokedAt token = None \<and>
       k_TokenHash token = HashRefreshToken (as_sha256 A) (se_RefreshToken session)) \<and>
    (\<forall>a \<in> set (db_accounts s1). a_OwnerUserID a \<noteq> None) \<and>
    (\<forall>s2 E' ctx' req'. auth_steps A s1 s2 \<longrightarrow>
       (\<exists>e es. Setup A E' ctx' req' s2 = (Inl e, s2\<lparr>db_auth_audit := es\<rparr>)))"
proof -
  from assms(1) obtain user token where none: "db_users s = []" and user: "buildUser A E req = Inr user"
    and token: "buildSession A E user = Inr (session, token)"
    and s1: "db_users s1 = [user]" "db_tokens s1 = db_tokens s @ [token]"
    and owners: "\<forall>a \<in> set (db_accounts s1). a_OwnerUserID a \<noteq> None"
    by (rule Setup_Inr) (use assms(2) in blast)
  have once: "\<exists>e es. Setup A E' ctx' req' s2 = (Inl e, s2\<lparr>db_auth_audit := es\<rparr>)" if "auth_steps A s1 s2" for s2 E' ctx' req'
  proof (rule Setup_refused)
    show "db_users s2 \<noteq> []" using auth_steps_extend [OF that] s1(1) by (auto simp: auth_extends_def)
  qed
  have "\<exists>email. normalizeEmail A (aq_Email req) = Inr email \<and> u_Email user = email \<and>
       as_passwordFunc A (aq_Password req) DefaultPasswordParams = Inr (u_PasswordHash user) \<and>
       12 \<le> length (aq_Password req) \<and> ValidCurrency (u_PrimaryCurrency user)"
    using user by (auto simp: buildUser_def Let_def validatePasswordPolicy_def ValidatePassword_def validateCurrency_def)
  moreover have "k_UserID token = u_ID user \<and> k_RevokedAt token = None \<and>
       k_TokenHash token = HashRefreshToken (as_sha256 A) (se_RefreshToken session)"
    using token by (elim buildSession_Inr) simp
  ultimately show ?thesis using none s1 owners once by blast
qed

section \<open>Changing the password\<close>

lemma find_user_update:
  "(\<And>u. u_ID (f u) = u_ID u) \<Longrightarrow> find (\<lambda>u. u_ID u = i) us = Some u \<Longrightarrow> find (\<lambda>u. u_ID u = i) (map_user i f us) = Some (f u)"
  by (induction us) (auto simp: map_user_def)

lemma ChangePassword_Inr:
  assumes "ChangePassword A E ctx req s = (Inr (), s')"
  obtains user hash es where "find (\<lambda>u. u_ID u = TrimSpace (cp_UserID req)) (db_users s) = Some user"
    "as_verifyFunc A (cp_CurrentPassword req) (u_PasswordHash user) = Inr True"
    "cp_NewPassword req \<noteq> cp_CurrentPassword req" "12 \<le> length (cp_NewPassword req)"
    "as_passwordFunc A (cp_NewPassword req) DefaultPasswordParams = Inr hash"
    "s' = s\<lparr>db_users := map_user (TrimSpace (cp_UserID req)) (set_password hash (en_clock E 0)) (db_users s),
       db_tokens := map (revoke (\<lambda>t. k_UserID t = TrimSpace (cp_UserID req)) (en_clock E 0) refreshRevokedReasonPasswordChange)
         (db_tokens s), db_auth_audit := es\<rparr>"
proof -
  let ?id = "TrimSpace (cp_UserID req)"
  from assms obtain user hash t where user: "find (\<lambda>u. u_ID u = ?id) (db_users s) = Some user"
    and ver: "as_verifyFunc A (cp_CurrentPassword req) (u_PasswordHash user) = Inr True"
    and new: "cp_NewPassword req \<noteq> cp_CurrentPassword req" and pol: "validatePasswordPolicy A (cp_NewPassword req) (u_Email user) = Inr ()"
    and hash: "as_passwordFunc A (cp_NewPassword req) DefaultPasswordParams = Inr hash"
    and save: "ChangePasswordAndRevokeSessions (u_ID user) hash (en_clock E 0) refreshRevokedReasonPasswordChange s = (Inr (), t)"
    and audit: "\<exists>es. s' = t\<lparr>db_auth_audit := es\<rparr>"
    by (auto simp: ChangePassword_def tx_simps Let_def UserRepository_GetByID_def
        split: if_splits sum.splits dest!: Audit_Inr_iff)
  have "u_ID user = ?id" using find_member [OF user] by simp
  with save have "t = s\<lparr>db_users := map_user ?id (set_password hash (en_clock E 0)) (db_users s),
      db_tokens := map (revoke (\<lambda>t. k_UserID t = ?id) (en_clock E 0) refreshRevokedReasonPasswordChange) (db_tokens s)\<rparr>"
    by (simp add: ChangePasswordAndRevokeSessions_def tx_simps)
  with audit obtain es where "s' = s\<lparr>db_users := map_user ?id (set_password hash (en_clock E 0)) (db_users s),
      db_tokens := map (revoke (\<lambda>t. k_UserID t = ?id) (en_clock E 0) refreshRevokedReasonPasswordChange) (db_tokens s),
      db_auth_audit := es\<rparr>" by auto
  moreover have "12 \<le> length (cp_NewPassword req)" using pol by (auto simp: validatePasswordPolicy_def ValidatePassword_def)
  ultimately show ?thesis using that [OF user ver new _ hash] by simp
qed

text \<open>A revoked session stays invalid.\<close>

lemma revoked_session_invalid:
  assumes "auth_ok s2" "auth_steps A s1 s2" "t \<in> set (db_tokens s1)" "k_RevokedAt t \<noteq> None" "k_ID t = TrimSpace sid"
  shows "ValidateSession uid sid now s2 = (Inr False, s2)"
proof -
  have "t \<in> set (db_tokens s2)"
    by (rule auth_extends_token [OF auth_steps_extend [OF assms(2)] assms(3)]) (use assms(4) in blast)
  then have "find (\<lambda>t. k_ID t = TrimSpace sid) (db_tokens s2) = Some t"
    using auth_okD(3) [OF assms(1)] assms(5) by (intro find_unique_key)
  then have "RefreshTokenRepository_GetByID (TrimSpace sid) s2 = (Inr t, s2)"
    by (simp add: RefreshTokenRepository_GetByID_def tx_simps)
  with assms(4) show ?thesis by (simp add: ValidateSession_def stry_def RefreshToken_IsActive_def)
qed

section \<open>Guessing passwords\<close>

lemma Login_found:
  assumes "as_tokens A \<noteq> None" "normalizeEmail A (aq_Email req) = Inr email" "TrimSpace (aq_Password req) \<noteq> ''''"
    and "find (\<lambda>u. ToLower (u_Email u) = ToLower (TrimSpace email)) (db_users s) = Some u"
  shows "Login A E None req s =
    sbind (ConfirmPassword A E None u (aq_Password req)) (\<lambda>(user, confirmation).
       if \<not> pc_OK confirmation then
         auditFail A E ''login_failed'' email (Some (u_ID user))
           (if pc_Locked confirmation then ''account_locked'' else ''invalid_credentials'')
           (validationError ''invalid email or password'')
       else stry (issueSession A E user)
         (\<lambda>e. auditFail A E ''login_failed'' email (Some (u_ID user)) ''issue_session_failed'' e)
         (\<lambda>session. sbind (Audit A E ''login_success'' email (Some (u_ID user)) True '''') (\<lambda>_. sret session))) s"
proof -
  have get: "UserRepository_GetByEmail email s = (Inr u, s)"
    using assms(4) by (simp add: UserRepository_GetByEmail_def tx_simps)
  obtain ts where "as_tokens A = Some ts" using assms(1) by blast
  with assms(2,3) show ?thesis by (simp add: Login_def sbind_eval(1) [where m = "slift (Inr ())"] stry_def get)
qed

lemma Login_locked:
  assumes "as_tokens A \<noteq> None" "normalizeEmail A (aq_Email req) = Inr email" "TrimSpace (aq_Password req) \<noteq> ''''"
    and "find (\<lambda>u. ToLower (u_Email u) = ToLower (TrimSpace email)) (db_users s) = Some u"
    and "UserLocked (en_clock E 1) u"
  shows "\<exists>es. Login A E None req s = (Inl (validationError ''invalid email or password''), s\<lparr>db_auth_audit := es\<rparr>)"
proof -
  have "ConfirmPassword A E None u (aq_Password req) s = (Inr (u, \<lparr>pc_OK = False, pc_Locked = True\<rparr>), s)"
    using assms(5) by (simp add: ConfirmPassword_def sbind_def Let_def)
  then show ?thesis
    using auditFail_writes [of A E "''login_failed''" email "Some (u_ID u)" "''account_locked''"]
    by (simp add: Login_found [OF assms(1-4)] sbind_def)
qed

lemma Login_wrong:
  assumes "as_tokens A \<noteq> None" "normalizeEmail A (aq_Email req) = Inr email" "TrimSpace (aq_Password req) \<noteq> ''''"
    and user: "find (\<lambda>u. ToLower (u_Email u) = ToLower (TrimSpace email)) (db_users s) = Some u"
    and "\<not> UserLocked (en_clock E 1) u" "as_verifyFunc A (aq_Password req) (u_PasswordHash u) = Inr False"
    and "auth_ok s" "u_FailedLoginAttempts u + 1 \<le> 2147483647"
  shows "\<exists>es. Login A E None req s = (Inl (validationError ''invalid email or password''),
    s\<lparr>db_users := map_user (u_ID u) (set_failures (u_FailedLoginAttempts u + 1)
        (loginLockoutUntil (en_clock E 0) (u_FailedLoginAttempts u + 1) loginLockoutThreshold loginLockoutDelays) (en_clock E 0))
        (db_users s), db_auth_audit := es\<rparr>)"
proof -
  let ?lock = "loginLockoutUntil (en_clock E 0) (u_FailedLoginAttempts u + 1) loginLockoutThreshold loginLockoutDelays"
  let ?s = "s\<lparr>db_users := map_user (u_ID u) (set_failures (u_FailedLoginAttempts u + 1) ?lock (en_clock E 0)) (db_users s)\<rparr>"
  have "find (\<lambda>v. u_ID v = u_ID u) (db_users s) = Some u"
    using auth_okD(1) [OF assms(7)] find_member [OF user] by (intro find_unique_key) simp_all
  then have "UserRepository_RecordLoginFailure (u_ID u) loginLockoutThreshold loginLockoutDelays (en_clock E 0) s =
      (Inr (u_FailedLoginAttempts u + 1, ?lock), ?s)" using assms(8) by (simp add: RecordLoginFailure_Inr_iff)
  then have "ConfirmPassword A E None u (aq_Password req) s = (Inr (u, \<lparr>pc_OK = False, pc_Locked = ?lock \<noteq> None\<rparr>), ?s)"
    using assms(5,6) by (simp add: ConfirmPassword_def sbind_def swrap_def Let_def)
  moreover obtain es where "auditFail A E ''login_failed'' email (Some (u_ID u))
      (if ?lock \<noteq> None then ''account_locked'' else ''invalid_credentials'') (validationError ''invalid email or password'') ?s =
      (Inl (validationError ''invalid email or password'') :: err + AuthSession, ?s\<lparr>db_auth_audit := es\<rparr>)"
    using auditFail_writes by blast
  ultimately show ?thesis
    by (intro exI [of _ es]) (simp add: Login_found [OF assms(1-4)] sbind_def)
qed

text \<open>A run of logins, and how many of them compare a password with the hash of the account.\<close>

definition tests_password :: "auth_env \<Rightarrow> string \<Rightarrow> 'd db \<Rightarrow> bool" where
  "tests_password E email s =
     (case find (\<lambda>u. ToLower (u_Email u) = ToLower (TrimSpace email)) (db_users s) of
        None \<Rightarrow> False | Some u \<Rightarrow> \<not> UserLocked (en_clock E 1) u)"

fun guesses_tested :: "auth_service \<Rightarrow> string \<Rightarrow> (auth_env \<times> AuthRequest) list \<Rightarrow> 'd db \<Rightarrow> int" where
  "guesses_tested A email [] s = 0"
| "guesses_tested A email ((E, req) # attempts) s =
     (if tests_password E email s then 1 else 0) + guesses_tested A email attempts (snd (Login A E None req s))"

definition login_day :: int where
  "login_day = 24 * 3600 * ns_per_second"

lemma lockout_after_nine:
  assumes "9 \<le> n"
  shows "loginLockoutUntil now n loginLockoutThreshold loginLockoutDelays = Some (TimeAdd now login_day)"
proof -
  have "nat (min (n - 5) 4) = 4" using assms by simp
  then show ?thesis
    using assms by (simp add: loginLockoutUntil_def loginLockoutThreshold_def loginLockoutDelays_def login_day_def Let_def)
qed

text \<open>The number of comparisons left between \<open>t0\<close> and \<open>t1\<close>, given the counter of failures and
  the end of the lock.\<close>

definition guess_bound :: "int \<Rightarrow> time option \<Rightarrow> int \<Rightarrow> int \<Rightarrow> int" where
  "guess_bound n lock t0 t1 =
     (if n < 9 then 9 - n + (t1 - t0) div login_day
      else let m = (case lock of None \<Rightarrow> t0 | Some l \<Rightarrow> max t0 (t_ns l))
           in if t1 < m then 0 else (t1 - m) div login_day + 1)"

lemma login_day_pos: "0 < login_day"
  by (simp add: login_day_def ns_per_second_def)

lemma guess_bound_mono:
  assumes "t0 \<le> t0'" "t0' \<le> t1"
  shows "guess_bound n lock t0' t1 \<le> guess_bound n lock t0 t1"
proof -
  have "(t1 - x) div login_day \<le> (t1 - y) div login_day" if "y \<le> x" for x y
    using that login_day_pos by (intro zdiv_mono1) auto
  moreover have "0 \<le> (t1 - x) div login_day" if "x \<le> t1" for x
    using that login_day_pos by (simp add: pos_imp_zdiv_nonneg_iff)
  ultimately show ?thesis using assms
    by (auto simp: guess_bound_def Let_def max_def add_increasing split: option.splits)
qed

lemma guess_bound_step:
  assumes "0 \<le> n" "\<not> UserLocked now u" "u_LockedUntil u = lock" "t0 \<le> t_ns now" "t_ns now \<le> t1"
  shows "1 + guess_bound (n + 1) (loginLockoutUntil now (n + 1) loginLockoutThreshold loginLockoutDelays) (t_ns now) t1
    \<le> guess_bound n lock t0 t1"
proof -
  have le: "(t1 - t_ns now) div login_day \<le> (t1 - x) div login_day" if "x \<le> t_ns now" for x
    using that login_day_pos by (intro zdiv_mono1) auto
  have next_day: "guess_bound m (Some (TimeAdd now login_day)) (t_ns now) t1 = (t1 - t_ns now) div login_day"
    if "9 \<le> m" for m
  proof (cases "t1 < t_ns now + login_day")
    case True
    then have "(t1 - t_ns now) div login_day = 0" using assms(5) by (simp add: div_pos_pos_trivial)
    with True that show ?thesis using login_day_pos by (simp add: guess_bound_def TimeAdd_def Let_def max_def)
  next
    case False
    have "t1 - (t_ns now + login_day) = (t1 - t_ns now) + (-1) * login_day" by simp
    then have "(t1 - (t_ns now + login_day)) div login_day = (t1 - t_ns now) div login_day - 1"
      using login_day_pos by (simp only: div_mult_self1)
    with False that show ?thesis using login_day_pos by (simp add: guess_bound_def TimeAdd_def Let_def max_def)
  qed
  show ?thesis
  proof (cases "n < 9")
    case True
    with le [OF assms(4)] next_day [of "n + 1"] lockout_after_nine [of "n + 1" now] show ?thesis
      by (cases "n + 1 < 9") (auto simp: guess_bound_def)
  next
    case False
    let ?m = "case lock of None \<Rightarrow> t0 | Some l \<Rightarrow> max t0 (t_ns l)"
    have m: "?m \<le> t_ns now"
      using assms(2-4) by (auto simp: UserLocked_def Before_def split: option.splits)
    then have "guess_bound n lock t0 t1 = (t1 - ?m) div login_day + 1"
      using False assms(5) by (auto simp: guess_bound_def Let_def)
    with le [OF m] False next_day [of "n + 1"] lockout_after_nine [of "n + 1" now] show ?thesis by simp
  qed
qed

text \<open>What one login of the run does to the row of the account.\<close>

lemma find_email_update:
  assumes "distinct (map u_ID us)" "find (\<lambda>u. ToLower (u_Email u) = e) us = Some u" "\<And>u. u_Email (f u) = u_Email u"
  shows "find (\<lambda>u. ToLower (u_Email u) = e) (map_user (u_ID u) f us) = Some (f u)"
  using assms(1,2)
proof (induction us)
  case (Cons v us)
  show ?case
  proof (cases "ToLower (u_Email v) = e")
    case True
    with Cons.prems assms(3) show ?thesis by (simp add: map_user_def)
  next
    case False
    with Cons.prems have "find (\<lambda>u. ToLower (u_Email u) = e) us = Some u" by simp
    with Cons False assms(3) show ?thesis by (auto simp: map_user_def dest: find_member)
  qed
qed simp

lemma guesses_tested_bound:
  assumes "auth_ok s" "as_tokens A \<noteq> None"
    and "find (\<lambda>u. ToLower (u_Email u) = ToLower (TrimSpace email)) (db_users s) = Some u"
    and "\<And>E req. (E, req) \<in> set attempts \<Longrightarrow> (\<forall>i. en_clock E i = en_clock E 0) \<and>
      normalizeEmail A (aq_Email req) = Inr email \<and> TrimSpace (aq_Password req) \<noteq> '''' \<and>
      as_verifyFunc A (aq_Password req) (u_PasswordHash u) = Inr False \<and> t_ns (en_clock E 0) \<le> t1"
    and "sorted (t0 # map (\<lambda>(E, req). t_ns (en_clock E 0)) attempts)" "t0 \<le> t1"
    and "u_FailedLoginAttempts u + int (length attempts) \<le> 2147483647"
  shows "guesses_tested A email attempts s \<le> guess_bound (u_FailedLoginAttempts u) (u_LockedUntil u) t0 t1"
  using assms
proof (induction attempts arbitrary: s u t0)
  case Nil
  then show ?case
    using login_day_pos by (auto simp: guess_bound_def Let_def pos_imp_zdiv_nonneg_iff add_increasing)
next
  case (Cons a attempts)
  obtain E req where a: "a = (E, req)" by (cases a)
  note ok = Cons.prems(1) and conf = Cons.prems(2) and user = Cons.prems(3)
  have req: "normalizeEmail A (aq_Email req) = Inr email" "TrimSpace (aq_Password req) \<noteq> ''''"
    "as_verifyFunc A (aq_Password req) (u_PasswordHash u) = Inr False" "t_ns (en_clock E 0) \<le> t1"
    and still: "en_clock E 1 = en_clock E 0" using Cons.prems(4) [of E req] a by auto
  have sorted: "sorted (t_ns (en_clock E 0) # map (\<lambda>(E, req). t_ns (en_clock E 0)) attempts)" "t0 \<le> t_ns (en_clock E 0)"
    using Cons.prems(5) by (simp_all add: a)
  have n0: "0 \<le> u_FailedLoginAttempts u" using auth_okD(5) [OF ok] find_member [OF user] by (simp add: user_ok_def)
  let ?s = "snd (Login A E None req s)"
  have ok': "auth_ok ?s" using keepsD [OF schema.keeps_Login ok, of A E None req] by (metis prod.collapse)
  show ?case
  proof (cases "UserLocked (en_clock E 1) u")
    case True
    from Login_locked [OF conf req(1,2) user True] have "db_users ?s = db_users s" by auto
    then have "find (\<lambda>u. ToLower (u_Email u) = ToLower (TrimSpace email)) (db_users ?s) = Some u" using user by simp
    from Cons.IH [OF ok' conf this _ sorted(1) req(4)] Cons.prems(4,7)
    have "guesses_tested A email attempts ?s \<le> guess_bound (u_FailedLoginAttempts u) (u_LockedUntil u) (t_ns (en_clock E 0)) t1"
      by auto
    also have "\<dots> \<le> guess_bound (u_FailedLoginAttempts u) (u_LockedUntil u) t0 t1"
      using sorted(2) req(4) by (rule guess_bound_mono)
    finally show ?thesis using True user by (simp add: a tests_password_def)
  next
    case False
    let ?n = "u_FailedLoginAttempts u + 1"
    let ?lock = "loginLockoutUntil (en_clock E 0) ?n loginLockoutThreshold loginLockoutDelays"
    let ?u = "set_failures ?n ?lock (en_clock E 0) u"
    have "db_users ?s = map_user (u_ID u) (set_failures ?n ?lock (en_clock E 0)) (db_users s)"
      using Login_wrong [OF conf req(1,2) user False req(3) ok] Cons.prems(7) by auto
    then have "find (\<lambda>u. ToLower (u_Email u) = ToLower (TrimSpace email)) (db_users ?s) = Some ?u"
      using find_email_update [OF auth_okD(1) [OF ok] user] by simp
    from Cons.IH [OF ok' conf this _ sorted(1) req(4)] Cons.prems(4,7)
    have "guesses_tested A email attempts ?s \<le> guess_bound ?n ?lock (t_ns (en_clock E 0)) t1" by auto
    moreover have "1 + guess_bound ?n ?lock (t_ns (en_clock E 0)) t1 \<le> guess_bound (u_FailedLoginAttempts u) (u_LockedUntil u) t0 t1"
      using False still sorted(2) req(4) n0 by (intro guess_bound_step) simp_all
    ultimately show ?thesis using False user by (simp add: a tests_password_def)
  qed
qed

text \<open>C29. The lockout bounds guessing. In a run of logins to one account with wrong passwords,
  between the times \<open>t0\<close> and \<open>t1\<close>, at most nine passwords plus one for every whole day are compared
  with the hash of the account; every other attempt is refused before the comparison. (The clock
  stands still during one login, and the 32-bit counter does not reach its end.)\<close>

theorem lockout_bounds_guessing:
  assumes "auth_ok s" "as_tokens A \<noteq> None"
    and "find (\<lambda>u. ToLower (u_Email u) = ToLower (TrimSpace email)) (db_users s) = Some u"
    and "\<And>E req. (E, req) \<in> set attempts \<Longrightarrow> (\<forall>i. en_clock E i = en_clock E 0) \<and>
      normalizeEmail A (aq_Email req) = Inr email \<and> TrimSpace (aq_Password req) \<noteq> '''' \<and>
      as_verifyFunc A (aq_Password req) (u_PasswordHash u) = Inr False \<and> t_ns (en_clock E 0) \<le> t1"
    and "sorted (t0 # map (\<lambda>(E, req). t_ns (en_clock E 0)) attempts)" "t0 \<le> t1"
    and "u_FailedLoginAttempts u + int (length attempts) \<le> 2147483647"
  shows "guesses_tested A email attempts s \<le> 9 + (t1 - t0) div (24 * 3600 * ns_per_second)"
proof -
  have n0: "0 \<le> u_FailedLoginAttempts u"
    using auth_okD(5) [OF assms(1)] find_member [OF assms(3)] by (simp add: user_ok_def)
  have "guess_bound (u_FailedLoginAttempts u) (u_LockedUntil u) t0 t1 \<le> 9 + (t1 - t0) div login_day"
  proof -
    let ?m = "case u_LockedUntil u of None \<Rightarrow> t0 | Some l \<Rightarrow> max t0 (t_ns l)"
    have "(t1 - ?m) div login_day \<le> (t1 - t0) div login_day"
      using login_day_pos by (intro zdiv_mono1) (simp_all split: option.split)
    moreover have "0 \<le> (t1 - t0) div login_day"
      using assms(6) login_day_pos by (simp add: pos_imp_zdiv_nonneg_iff)
    ultimately show ?thesis using n0 by (simp add: guess_bound_def Let_def)
  qed
  with guesses_tested_bound [OF assms] show ?thesis by (simp add: login_day_def)
qed

section \<open>Witnesses\<close>

definition sample_tokens :: TokenService where
  "sample_tokens = \<lparr>ts_secret = ''k'', ts_issuer = ''cf'', ts_accessTTL = 900, ts_refreshTTL = 9000\<rparr>"

definition sample_claims :: Claims where
  "sample_claims = \<lparr>cl_UserID = ''u1'', cl_Email = ''a@b'', cl_SessionID = ''id3'', cl_TokenType = ''access'',
     cl_Issuer = ''cf'', cl_Subject = ''u1'', cl_ExpiresAt = \<lparr>t_ns = 1900, t_off = 0\<rparr>,
     cl_IssuedAt = \<lparr>t_ns = 1000, t_off = 0\<rparr>, cl_ID = ''id4''\<rparr>"

text \<open>A JWT library that knows the tokens of two claims.\<close>

definition sample_signed :: "(string \<times> Claims) list" where
  "sample_signed = [(''tok'', sample_claims),
     (''tok2'', sample_claims\<lparr>cl_UserID := ''id2'', cl_Email := ''new@b'', cl_Subject := ''id2''\<rparr>)]"

definition sample_jwt :: jwt_lib where
  "sample_jwt = \<lparr>jwt_NewNumericDate = (\<lambda>t. t),
     jwt_SignedString = (\<lambda>secret claims. case find (\<lambda>(token, c). secret = ''k'' \<and> c = claims) sample_signed of
       Some (token, _) \<Rightarrow> Inr token | None \<Rightarrow> Inl (Errorf ''cannot sign'')),
     jwt_ParseWithClaims = (\<lambda>token keys issuer now. case map_of sample_signed token of
       Some c \<Rightarrow> (if keys ''HS256'' = Inr ''k'' \<and> issuer = cl_Issuer c \<and> Before now (cl_ExpiresAt c)
         then Inr (c, True) else Inl (Errorf ''token is invalid''))
     | None \<Rightarrow> Inl (Errorf ''token is malformed''))\<rparr>"

definition sample_auth :: auth_service where
  "sample_auth = \<lparr>as_tokens = Some sample_tokens, as_jwt = sample_jwt, as_sha256 = (\<lambda>s. s),
     as_passwordFunc = HashPassword sample_argon2 sample_rand, as_verifyFunc = VerifyPassword sample_argon2,
     as_ParseAddress = (\<lambda>e. CHR ''@'' \<in> set e), as_PasswordStrength = (\<lambda>p _. int (length p)),
     as_audit = True, as_accounts = True, as_setupRepo = True, as_rotator = True\<rparr>"

definition sample_now :: time where
  "sample_now = \<lparr>t_ns = 1000, t_off = 0\<rparr>"

definition sample_env :: auth_env where
  "sample_env = \<lparr>en_clock = (\<lambda>_. sample_now), en_uuid = (\<lambda>n. ''id'' @ [''0123456789'' ! n]), en_rand = sample_rand,
     en_sqlNow = sample_now\<rparr>"

definition sample_user :: User where
  "sample_user = \<lparr>u_ID = ''u1'', u_Email = ''a@b'', u_PasswordHash = ''$argon2id$v=19$m=8,t=1,p=1$c3M$cHdzcw'',
     u_PrimaryCurrency = ''RUB'', u_EmailVerifiedAt = None, u_EmailVerificationTokenHash = None,
     u_EmailVerificationSentAt = None, u_FailedLoginAttempts = 0, u_LockedUntil = None, u_CreatedAt = sample_now,
     u_UpdatedAt = sample_now\<rparr>"

definition sample_token :: RefreshToken where
  "sample_token = \<lparr>k_ID = ''k1'', k_UserID = ''u1'', k_TokenHash = HashRefreshToken (\<lambda>s. s) ''r0'',
     k_ExpiresAt = \<lparr>t_ns = 5000, t_off = 0\<rparr>, k_RevokedAt = None, k_RevokedReason = None, k_CreatedAt = sample_now\<rparr>"

definition sample_auth_db :: "dec db" where
  "sample_auth_db = empty_db\<lparr>db_users := [sample_user], db_tokens := [sample_token]\<rparr>"

lemma sample_auth_ok: "auth_ok sample_auth_db"
proof -
  have "currency_code ''RUB''" by code_simp
  then show ?thesis
    by (simp add: auth_ok_def sample_auth_db_def empty_db_def sample_user_def sample_token_def user_ok_def)
qed

lemma sample_refresh: "\<exists>session s1. Refresh sample_auth sample_env None ''r0'' sample_auth_db = (Inr session, s1)"
  by (rule result_cases) code_simp

theorem refresh_token_single_use_witness:
  "\<exists>session s1 s3. Refresh sample_auth sample_env None ''r0'' sample_auth_db = (Inr session, s1) \<and>
     Refresh sample_auth sample_env None ''r0'' s1 = (Inl (validationError ''invalid refresh token''), s3)"
proof -
  obtain session s1 where run: "Refresh sample_auth sample_env None ''r0'' sample_auth_db = (Inr session, s1)"
    using sample_refresh by blast
  from refresh_token_single_use [OF sample_auth_ok run] run show ?thesis by blast
qed

lemma sample_setup:
  "\<exists>session s1. Setup sample_auth sample_env None \<lparr>aq_Email = '' New@B '', aq_Password = ''correct horse battery'',
     aq_PrimaryCurrency = ''''\<rparr> (empty_db :: dec db) = (Inr session, s1)"
  by (rule result_cases) code_simp

theorem setup_happens_once_witness:
  "\<exists>session s1 e es. Setup sample_auth sample_env None \<lparr>aq_Email = '' New@B '', aq_Password = ''correct horse battery'',
     aq_PrimaryCurrency = ''''\<rparr> (empty_db :: dec db) = (Inr session, s1) \<and> length (db_users s1) = 1 \<and>
   Setup sample_auth sample_env None \<lparr>aq_Email = ''x@y'', aq_Password = ''another long password'', aq_PrimaryCurrency = ''RUB''\<rparr> s1 =
     (Inl e, s1\<lparr>db_auth_audit := es\<rparr>)"
proof -
  obtain session s1 where run: "Setup sample_auth sample_env None \<lparr>aq_Email = '' New@B '',
      aq_Password = ''correct horse battery'', aq_PrimaryCurrency = ''''\<rparr> (empty_db :: dec db) = (Inr session, s1)"
    using sample_setup by blast
  have "as_setupRepo sample_auth \<or> as_accounts sample_auth" by (simp add: sample_auth_def)
  from setup_happens_once [OF run this] have "length (db_users s1) = 1"
    "\<exists>e es. Setup sample_auth sample_env None \<lparr>aq_Email = ''x@y'', aq_Password = ''another long password'',
       aq_PrimaryCurrency = ''RUB''\<rparr> s1 = (Inl e, s1\<lparr>db_auth_audit := es\<rparr>)" by auto
  with run show ?thesis by blast
qed

definition sample_guess :: AuthRequest where
  "sample_guess = \<lparr>aq_Email = ''A@b'', aq_Password = ''px'', aq_PrimaryCurrency = ''''\<rparr>"

lemma sample_guess_facts:
  "normalizeEmail sample_auth (aq_Email sample_guess) = Inr ''a@b''" "TrimSpace (aq_Password sample_guess) \<noteq> ''''"
  "as_verifyFunc sample_auth (aq_Password sample_guess) (u_PasswordHash sample_user) = Inr False"
  "find (\<lambda>u. ToLower (u_Email u) = ToLower (TrimSpace ''a@b'')) (db_users sample_auth_db) = Some sample_user"
  by code_simp+

text \<open>Seven wrong guesses at one time: the theorem bounds the comparisons by nine, and five are made.\<close>

theorem lockout_bounds_guessing_witness:
  "guesses_tested sample_auth ''a@b'' (replicate 7 (sample_env, sample_guess)) sample_auth_db \<le> 9 \<and>
   guesses_tested sample_auth ''a@b'' (replicate 7 (sample_env, sample_guess)) sample_auth_db = 5"
proof
  have "guesses_tested sample_auth ''a@b'' (replicate 7 (sample_env, sample_guess)) sample_auth_db
    \<le> 9 + (1000 - 1000) div (24 * 3600 * ns_per_second)"
  proof (rule lockout_bounds_guessing [OF sample_auth_ok _ sample_guess_facts(4)])
    show "as_tokens sample_auth \<noteq> None" by (simp add: sample_auth_def)
    show "(\<forall>i. en_clock E i = en_clock E 0) \<and> normalizeEmail sample_auth (aq_Email req) = Inr ''a@b'' \<and>
        TrimSpace (aq_Password req) \<noteq> '''' \<and>
        as_verifyFunc sample_auth (aq_Password req) (u_PasswordHash sample_user) = Inr False \<and> t_ns (en_clock E 0) \<le> 1000"
      if "(E, req) \<in> set (replicate 7 (sample_env, sample_guess))" for E req
      using that sample_guess_facts by (auto simp: sample_env_def sample_now_def)
    show "sorted (1000 # map (\<lambda>(E, req). t_ns (en_clock E 0)) (replicate 7 (sample_env, sample_guess)))"
      by (simp add: sample_env_def sample_now_def sorted_iff_nth_mono nth_Cons')
    show "u_FailedLoginAttempts sample_user + int (length (replicate 7 (sample_env, sample_guess))) \<le> 2147483647"
      by (simp add: sample_user_def)
  qed simp
  then show "guesses_tested sample_auth ''a@b'' (replicate 7 (sample_env, sample_guess)) sample_auth_db \<le> 9" by simp
  show "guesses_tested sample_auth ''a@b'' (replicate 7 (sample_env, sample_guess)) sample_auth_db = 5" by code_simp
qed

end
