(* ===== verification/Http.thy ===== *)
theory Http
  imports Models "HOL-Library.AList"
begin

text \<open>
  What the middleware of \<^verbatim>\<open>internal/http/middleware\<close> uses of \<^verbatim>\<open>net/http\<close>: requests, headers,
  response writers and handlers, and the error answers of \<^verbatim>\<open>errors.go\<close>.

  A header is an association list from canonical names to values. A handler reads a request
  and the header of the response so far, acts on the state, and leaves its header and the calls
  it made on the response writer. An answer is what the client receives; an error answer keeps
  its code and message before their encoding as JSON.
\<close>

section \<open>Headers\<close>

type_synonym header = "(string \<times> string list) list"

definition header_Get :: "string \<Rightarrow> header \<Rightarrow> string" where
  "header_Get k h = (case map_of h k of Some (v # _) \<Rightarrow> v | _ \<Rightarrow> '''')"

definition header_Set :: "string \<Rightarrow> string \<Rightarrow> header \<Rightarrow> header" where
  "header_Set k v h = AList.update k [v] h"

definition header_Del :: "string \<Rightarrow> header \<Rightarrow> header" where
  "header_Del k h = AList.delete k h"

definition header_Add :: "string \<Rightarrow> string \<Rightarrow> header \<Rightarrow> header" where
  "header_Add k v h = AList.update k ((case map_of h k of Some vs \<Rightarrow> vs | None \<Rightarrow> []) @ [v]) h"

definition copyHeaders :: "header \<Rightarrow> header \<Rightarrow> header" where
  "copyHeaders dst src =
     foldl (\<lambda>d (key, values). foldl (\<lambda>d value. header_Add key value d) (header_Del key d) values) dst src"

section \<open>Requests, answers and handlers\<close>

datatype body_read = BodyRead string | BodyTooLarge | BodyError

text \<open>\<open>hq_Claims\<close> is the user id of the claims the authentication middleware put into the context
  of the request, if any.\<close>

record http_request =
  hq_Method :: string
  hq_Path :: string
  hq_Header :: header
  hq_Body :: body_read
  hq_Claims :: "string option"
  hq_RemoteAddr :: string

datatype http_response =
    JSONError int string string
  | Response header int string

datatype writer_call = CallWriteHeader int | CallWrite string

type_synonym 's handler = "http_request \<Rightarrow> header \<Rightarrow> 's \<Rightarrow> (header \<times> writer_call list) \<times> 's"

text \<open>A middleware in front of a handler: what the client receives and the new state.\<close>

type_synonym 's served = "http_request \<Rightarrow> header \<Rightarrow> 's \<Rightarrow> http_response \<times> 's"

section \<open>The capturing response writer\<close>

record captureResponseWriter =
  cw_status :: int
  cw_header :: header
  cw_body :: string

definition newCaptureResponseWriter :: "header \<Rightarrow> captureResponseWriter" where
  "newCaptureResponseWriter h = \<lparr>cw_status = 0, cw_header = h, cw_body = []\<rparr>"

definition capture_WriteHeader :: "int \<Rightarrow> captureResponseWriter \<Rightarrow> captureResponseWriter" where
  "capture_WriteHeader status w = (if cw_status w \<noteq> 0 then w else w\<lparr>cw_status := status\<rparr>)"

definition capture_Write :: "string \<Rightarrow> captureResponseWriter \<Rightarrow> captureResponseWriter" where
  "capture_Write body w =
     (let w = (if cw_status w = 0 then w\<lparr>cw_status := 200\<rparr> else w) in w\<lparr>cw_body := cw_body w @ body\<rparr>)"

definition capture_statusCode :: "captureResponseWriter \<Rightarrow> int" where
  "capture_statusCode w = (if cw_status w = 0 then 200 else cw_status w)"

definition capture_flushTo :: "captureResponseWriter \<Rightarrow> header \<Rightarrow> http_response" where
  "capture_flushTo w dst = Response (copyHeaders dst (cw_header w)) (capture_statusCode w) (cw_body w)"

primrec capture_call :: "writer_call \<Rightarrow> captureResponseWriter \<Rightarrow> captureResponseWriter" where
  "capture_call (CallWriteHeader status) w = capture_WriteHeader status w"
| "capture_call (CallWrite body) w = capture_Write body w"

text \<open>\<^verbatim>\<open>next.ServeHTTP(rec, r)\<close>.\<close>

definition captured :: "'s handler \<Rightarrow> http_request \<Rightarrow> header \<Rightarrow> 's \<Rightarrow> captureResponseWriter \<times> 's" where
  "captured next r h s =
     (case next r h s of ((h', calls), s') \<Rightarrow>
        (fold capture_call calls ((newCaptureResponseWriter h)\<lparr>cw_header := h'\<rparr>), s'))"

text \<open>\<^verbatim>\<open>next.ServeHTTP(w, r)\<close> on the writer of the server, which keeps the first status as well.\<close>

definition served :: "'s handler \<Rightarrow> 's served" where
  "served next r h s =
     (case captured next r h s of (w, s') \<Rightarrow> (Response (cw_header w) (capture_statusCode w) (cw_body w), s'))"

lemma capture_call_header [simp]: "cw_header (capture_call c w) = cw_header w"
  by (cases c) (simp_all add: capture_WriteHeader_def capture_Write_def Let_def)

lemma capture_keeps_header [simp]: "cw_header (fold capture_call calls w) = cw_header w"
  by (induction calls arbitrary: w) simp_all

text \<open>The client sees the header of the handler: its values replace those the answer had.\<close>

lemma header_adds_lookup:
  "map_of (foldl (\<lambda>d value. header_Add key value d) d vs) k =
     (if k = key \<and> vs \<noteq> [] then Some ((case map_of d key of Some us \<Rightarrow> us | None \<Rightarrow> []) @ vs) else map_of d k)"
  by (induction vs arbitrary: d) (auto simp: header_Add_def update_conv split: option.splits)

lemma copyHeaders_lookup:
  assumes "distinct (map fst src)"
  shows "map_of (copyHeaders dst src) k =
    (case map_of src k of None \<Rightarrow> map_of dst k | Some vs \<Rightarrow> if vs = [] then None else Some vs)"
  using assms
proof (induction src arbitrary: dst)
  case Nil
  then show ?case by (simp add: copyHeaders_def)
next
  case (Cons p src)
  obtain key vs where p: "p = (key, vs)" by (cases p)
  let ?d = "foldl (\<lambda>d value. header_Add key value d) (header_Del key dst) vs"
  have "copyHeaders dst (p # src) = copyHeaders ?d src" by (simp add: copyHeaders_def p)
  moreover have "map_of ?d k = (if k = key then if vs = [] then None else Some vs else map_of dst k)"
    by (simp add: header_adds_lookup header_Del_def delete_conv)
  moreover have "k = key \<Longrightarrow> map_of src k = None" using Cons.prems by (auto simp: p map_of_eq_None_iff)
  ultimately show ?case using Cons by (auto simp: p split: option.split)
qed

end
