(* ===== verification/Auth_Http.thy ===== *)
theory Auth_Http
  imports Auth_Correct Http
begin

text \<open>
  The authentication middleware of \<^verbatim>\<open>internal/http/middleware/auth.go\<close> in front of the API. It
  reads the bearer token, validates it as an access token and asks the session validator, which is
  \<open>ValidateSession\<close> of the authentication service; the claims of an accepted token are put into
  the context of the request. The properties join it to the service: a login opens the API until
  its session ends, and a password change shuts every earlier session out.
\<close>

section \<open>Middleware\<close>

definition ValidateAuthSecret :: "string \<Rightarrow> string \<Rightarrow> err + unit" where
  "ValidateAuthSecret name val =
     (if length (TrimSpace val) < 32 then Inl (Errorf (name @ '' must be at least 32 characters'')) else Inr ())"

definition bearerToken :: "http_request \<Rightarrow> string option" where
  "bearerToken r =
     (let authHeader = TrimSpace (header_Get ''Authorization'' (hq_Header r))
      in if \<not> HasPrefix authHeader ''Bearer '' then None
         else let token = TrimSpace (TrimPrefix authHeader ''Bearer '')
              in if token \<noteq> '''' then Some token else None)"

definition unauthorized :: http_response where
  "unauthorized = JSONError 401 ''unauthorized'' ''Unauthorized''"

definition authNotConfigured :: http_response where
  "authNotConfigured = JSONError 503 ''authentication_not_configured'' ''Authentication is not configured''"

definition BearerTokenAuth :: "string \<Rightarrow> 's served \<Rightarrow> 's served" where
  "BearerTokenAuth expectedToken next r h s =
     (case ValidateAuthSecret ''API_AUTH_TOKEN'' expectedToken of
        Inl _ \<Rightarrow> (authNotConfigured, s)
      | Inr _ \<Rightarrow>
          let authHeader = TrimSpace (header_Get ''Authorization'' (hq_Header r))
          in if \<not> HasPrefix authHeader ''Bearer '' then (unauthorized, s)
             else let token = TrimSpace (TrimPrefix authHeader ''Bearer '')
                  in if token \<noteq> expectedToken then (unauthorized, s) else next r h s)"

definition JWTAuth ::
  "TokenService option \<Rightarrow> jwt_lib \<Rightarrow> (string \<Rightarrow> string \<Rightarrow> time \<Rightarrow> ('s, err, bool) stm) option \<Rightarrow> time \<Rightarrow> time \<Rightarrow>
     's served \<Rightarrow> 's served" where
  "JWTAuth tokens J sessions now now' next r h s =
     (case (tokens, sessions) of
        (Some ts, Some validate) \<Rightarrow>
          (case bearerToken r of
             None \<Rightarrow> (unauthorized, s)
           | Some token \<Rightarrow>
               (case ValidateAccess ts J token now of
                  Inl _ \<Rightarrow> (unauthorized, s)
                | Inr claims \<Rightarrow>
                    (case validate (cl_UserID claims) (cl_SessionID claims) now' s of
                       (Inl _, s') \<Rightarrow> (authNotConfigured, s')
                     | (Inr active, s') \<Rightarrow>
                         if \<not> active then (unauthorized, s')
                         else next (r\<lparr>hq_Claims := Some (cl_UserID claims)\<rparr>) h s')))
      | _ \<Rightarrow> (authNotConfigured, s))"

definition UserIDFromContext :: "http_request \<Rightarrow> string option" where
  "UserIDFromContext r = (case hq_Claims r of None \<Rightarrow> None | Some u \<Rightarrow> if u = '''' then None else Some u)"

section \<open>Facts\<close>

lemma bearer_header:
  assumes "token \<noteq> ''''" "list_all printable token" "header_Get ''Authorization'' (hq_Header r) = ''Bearer '' @ token"
  shows "bearerToken r = Some token"
proof -
  have ends: "printable (hd token)" "printable (last token)" using assms(1,2) by (auto simp: list_all_iff)
  have "printable (hd (''Bearer '' @ token))" by (simp add: printable_def)
  then have "TrimSpace (''Bearer '' @ token) = ''Bearer '' @ token"
    using ends(2) assms(1) by (intro TrimSpace_printable) simp_all
  moreover have "TrimSpace token = token" using assms(1) ends by (rule TrimSpace_printable)
  ultimately show ?thesis using assms by (simp add: bearerToken_def Let_def HasPrefix_def TrimPrefix_def)
qed

lemma JWTAuth_refuses:
  assumes "bearerToken r = Some token" "ValidateAccess ts J token now = Inr claims"
    and "validate (cl_UserID claims) (cl_SessionID claims) now' s = (Inr False, s)"
  shows "JWTAuth (Some ts) J (Some validate) now now' next r h s = (unauthorized, s)"
  using assms by (simp add: JWTAuth_def)

lemma JWTAuth_accepts:
  assumes "bearerToken r = Some token" "ValidateAccess ts J token now = Inr claims"
    and "validate (cl_UserID claims) (cl_SessionID claims) now' s = (Inr True, s)"
  shows "JWTAuth (Some ts) J (Some validate) now now' next r h s = next (r\<lparr>hq_Claims := Some (cl_UserID claims)\<rparr>) h s"
  using assms by (simp add: JWTAuth_def)

lemma Login_Inr:
  assumes "Login A E ctx req s = (Inr session, s')" "auth_ok s"
  obtains email u user token where "normalizeEmail A (aq_Email req) = Inr email"
    "find (\<lambda>u. ToLower (u_Email u) = ToLower (TrimSpace email)) (db_users s) = Some u"
    "as_verifyFunc A (aq_Password req) (u_PasswordHash u) = Inr True" "\<not> UserLocked (en_clock E 1) u"
    "u_ID user = u_ID u" "u_Email user = u_Email u" "buildSession A E user = Inr (session, token)"
    "k_ID token \<notin> set (map k_ID (db_tokens s))" "db_tokens s' = db_tokens s @ [token]" "auth_ok s'"
proof -
  from assms(1) obtain email where email: "normalizeEmail A (aq_Email req) = Inr email"
    and pw: "TrimSpace (aq_Password req) \<noteq> ''''" and conf: "as_tokens A \<noteq> None" and ctx: "ctx = None"
    by (auto simp: Login_def tx_simps split: sum.splits if_splits)
  have "find (\<lambda>u. ToLower (u_Email u) = ToLower (TrimSpace email)) (db_users s) \<noteq> None"
  proof
    assume none: "find (\<lambda>u. ToLower (u_Email u) = ToLower (TrimSpace email)) (db_users s) = None"
    show False using assms(1) email pw ctx
      by (auto simp: Login_def tx_simps stry_def UserRepository_GetByEmail_def get_missing(1) [OF none] errorsIs_def)
  qed
  then obtain u where user: "find (\<lambda>u. ToLower (u_Email u) = ToLower (TrimSpace email)) (db_users s) = Some u" by auto
  obtain user confirmation t where confirm: "ConfirmPassword A E None u (aq_Password req) s = (Inr (user, confirmation), t)"
    and okc: "pc_OK confirmation" and issue: "\<exists>t'. issueSession A E user t = (Inr session, t') \<and> db_tokens s' = db_tokens t'"
    using assms(1) unfolding ctx Login_found [OF conf email pw user]
    by (auto simp: tx_simps split: if_splits dest!: Audit_Inr_iff)
  from confirm okc have ver: "as_verifyFunc A (aq_Password req) (u_PasswordHash u) = Inr True"
    and unl: "\<not> UserLocked (en_clock E 1) u"
    and same: "u_ID user = u_ID u" "u_Email user = u_Email u" and t: "db_tokens t = db_tokens s"
    by (auto simp: ConfirmPassword_def tx_simps Let_def clearLoginFailures_def UserRepository_ClearLoginFailures_def
        split: if_splits)
  from issue obtain token where "buildSession A E user = Inr (session, token)" "k_ID token \<notin> set (map k_ID (db_tokens s))"
    "db_tokens s' = db_tokens s @ [token]" using t by (auto elim!: issueSession_Inr)
  then show ?thesis using email user ver unl same keepsD [OF schema.keeps_Login assms(2,1)] by (rule_tac that)
qed

section \<open>Properties\<close>

text \<open>A service whose passwords are hashed and verified by \<^verbatim>\<open>pkg/security\<close>.\<close>

definition argon2_service :: "argon2 \<Rightarrow> (nat \<Rightarrow> err + string) \<Rightarrow> auth_service \<Rightarrow> bool" where
  "argon2_service IDKey randRead A \<longleftrightarrow>
     key_length_law IDKey \<and> fills_buffer randRead \<and>
     as_passwordFunc A = HashPassword IDKey randRead \<and> as_verifyFunc A = VerifyPassword IDKey"

text \<open>C28. A login opens the API for its user. After a successful \<open>Login\<close> with the password of an
  unlocked account, a request that carries the access token is handed to the handler with the
  user id of that account, as long as the access token has not expired (its session then has not
  either).\<close>

theorem login_grants_access:
  assumes "auth_ok s" "Login A E ctx req s = (Inr session, s1)" "as_tokens A = Some ts" "jwt_law (as_jwt A)"
    and "list_all ascii [u_ID (se_User session), u_Email (se_User session), en_uuid E 3, en_uuid E 4, ts_issuer ts]"
    and "en_uuid E 3 \<noteq> ''''" "TrimSpace (en_uuid E 3) = en_uuid E 3" "TrimSpace (u_ID (se_User session)) = u_ID (se_User session)"
    and "Before now (jwt_NewNumericDate (as_jwt A) (TimeAdd (en_clock E 2) (ts_accessTTL ts)))"
    and "Before now' (TimeAdd (en_clock E 2) (ts_refreshTTL ts))"
    and "header_Get ''Authorization'' (hq_Header r) = ''Bearer '' @ se_AccessToken session"
  shows "JWTAuth (Some ts) (as_jwt A) (Some ValidateSession) now now' next r h s1 =
      next (r\<lparr>hq_Claims := Some (u_ID (se_User session))\<rparr>) h s1 \<and>
    (\<exists>u email. u \<in> set (db_users s) \<and> u_ID u = u_ID (se_User session) \<and>
       normalizeEmail A (aq_Email req) = Inr email \<and> ToLower (u_Email u) = ToLower (TrimSpace email) \<and>
       as_verifyFunc A (aq_Password req) (u_PasswordHash u) = Inr True)"
proof -
  obtain email u user token where email: "normalizeEmail A (aq_Email req) = Inr email"
    and u: "find (\<lambda>u. ToLower (u_Email u) = ToLower (TrimSpace email)) (db_users s) = Some u"
    and ver: "as_verifyFunc A (aq_Password req) (u_PasswordHash u) = Inr True" and same: "u_ID user = u_ID u"
    and built: "buildSession A E user = Inr (session, token)"
    and s1: "db_tokens s1 = db_tokens s @ [token]" and ok: "auth_ok s1"
    by (rule Login_Inr [OF assms(2,1)]) (rule that)
  from built assms(3) obtain pair where pair: "IssuePair ts (as_jwt A) (as_sha256 A) (en_rand E) (en_uuid E 3) (en_uuid E 4)
      (u_ID user) (u_Email user) (en_clock E 2) = Inr pair"
    and session: "se_User session = user" "se_AccessToken session = tp_AccessToken pair"
    and token: "k_ID token = en_uuid E 3" "k_UserID token = u_ID user" "k_RevokedAt token = None"
      "k_ExpiresAt token = TimeAdd (en_clock E 2) (ts_refreshTTL ts)"
    by (elim buildSession_Inr) auto
  from ValidateAccess_issued [OF assms(4) pair assms(6) _ assms(9)] assms(5) obtain claims
    where claims: "ValidateAccess ts (as_jwt A) (tp_AccessToken pair) now = Inr claims"
      "cl_UserID claims = u_ID user" "cl_SessionID claims = en_uuid E 3"
      and plain: "tp_AccessToken pair \<noteq> ''''" "list_all printable (tp_AccessToken pair)" unfolding session by metis
  have bearer: "bearerToken r = Some (tp_AccessToken pair)"
    using plain assms(11) unfolding session by (rule bearer_header)
  have "find (\<lambda>t. k_ID t = en_uuid E 3) (db_tokens s1) = Some token"
    using s1 token(1) auth_okD(3) [OF ok] by (intro find_unique_key) simp_all
  then have "RefreshTokenRepository_GetByID (TrimSpace (en_uuid E 3)) s1 = (Inr token, s1)"
    by (simp add: RefreshTokenRepository_GetByID_def tx_simps assms(7))
  then have "ValidateSession (u_ID user) (en_uuid E 3) now' s1 = (Inr True, s1)"
    using token assms(8,10) unfolding session by (simp add: ValidateSession_def stry_def RefreshToken_IsActive_def)
  then have "JWTAuth (Some ts) (as_jwt A) (Some ValidateSession) now now' next r h s1 =
      next (r\<lparr>hq_Claims := Some (u_ID user)\<rparr>) h s1"
    using JWTAuth_accepts [OF bearer claims(1), where validate = ValidateSession and now' = now'] claims(2,3) by simp
  with email u ver same session(1) find_member [OF u] show ?thesis by auto
qed

text \<open>C27. Changing the password shuts the earlier sessions out. A successful \<open>ChangePassword\<close> was
  given the current password and a different one of at least twelve bytes; the account then
  verifies the new password and its failure counter is cleared. From then on, after any further
  operations, a request whose access token belongs to a session the user had before is answered
  with 401 and never reaches the handler.\<close>

theorem password_change_ends_access:
  assumes "auth_ok s" "argon2_service IDKey randRead A" "ChangePassword A E ctx req s = (Inr (), s1)"
  shows "(\<exists>u u'. u \<in> set (db_users s) \<and> u_ID u = TrimSpace (cp_UserID req) \<and>
      as_verifyFunc A (cp_CurrentPassword req) (u_PasswordHash u) = Inr True \<and>
      cp_NewPassword req \<noteq> cp_CurrentPassword req \<and> 12 \<le> length (cp_NewPassword req) \<and>
      u' \<in> set (db_users s1) \<and> u_ID u' = u_ID u \<and> u_FailedLoginAttempts u' = 0 \<and> u_LockedUntil u' = None \<and>
      as_verifyFunc A (cp_NewPassword req) (u_PasswordHash u') = Inr True) \<and>
    (\<forall>s2 ts J now now' next r h token claims t. auth_steps A s1 s2 \<longrightarrow>
      bearerToken r = Some token \<longrightarrow> ValidateAccess ts J token now = Inr claims \<longrightarrow>
      t \<in> set (db_tokens s) \<longrightarrow> k_UserID t = TrimSpace (cp_UserID req) \<longrightarrow> k_ID t = TrimSpace (cl_SessionID claims) \<longrightarrow>
      JWTAuth (Some ts) J (Some ValidateSession) now now' next r h s2 = (JSONError 401 ''unauthorized'' ''Unauthorized'', s2))"
proof -
  let ?id = "TrimSpace (cp_UserID req)"
  from assms(3) obtain user hash es where user: "find (\<lambda>u. u_ID u = ?id) (db_users s) = Some user"
    and ver: "as_verifyFunc A (cp_CurrentPassword req) (u_PasswordHash user) = Inr True"
    and new: "cp_NewPassword req \<noteq> cp_CurrentPassword req" "12 \<le> length (cp_NewPassword req)"
    and hash: "as_passwordFunc A (cp_NewPassword req) DefaultPasswordParams = Inr hash"
    and s1: "s1 = s\<lparr>db_users := map_user ?id (set_password hash (en_clock E 0)) (db_users s),
       db_tokens := map (revoke (\<lambda>t. k_UserID t = ?id) (en_clock E 0) refreshRevokedReasonPasswordChange)
         (db_tokens s), db_auth_audit := es\<rparr>"
    by (rule ChangePassword_Inr)
  let ?u = "set_password hash (en_clock E 0) user"
  have "find (\<lambda>u. u_ID u = ?id) (db_users s1) = Some ?u" using find_user_update [OF _ user] by (simp add: s1)
  from find_member [OF this] have u': "?u \<in> set (db_users s1)" by simp
  have verifies: "as_verifyFunc A (cp_NewPassword req) hash = Inr True"
    using assms(2) hash by (auto simp: argon2_service_def dest: HashPassword_verifies)
  have "\<exists>u u'. u \<in> set (db_users s) \<and> u_ID u = ?id \<and>
      as_verifyFunc A (cp_CurrentPassword req) (u_PasswordHash u) = Inr True \<and>
      cp_NewPassword req \<noteq> cp_CurrentPassword req \<and> 12 \<le> length (cp_NewPassword req) \<and>
      u' \<in> set (db_users s1) \<and> u_ID u' = u_ID u \<and> u_FailedLoginAttempts u' = 0 \<and> u_LockedUntil u' = None \<and>
      as_verifyFunc A (cp_NewPassword req) (u_PasswordHash u') = Inr True"
    using find_member [OF user] ver new verifies u'
    by (intro exI [of _ user] exI [of _ ?u]) (simp add: set_password_def)
  moreover have "JWTAuth (Some ts) J (Some ValidateSession) now now' next r h s2 = (JSONError 401 ''unauthorized'' ''Unauthorized'', s2)"
    if later: "auth_steps A s1 s2" and bearer: "bearerToken r = Some token" and claims: "ValidateAccess ts J token now = Inr claims"
      and t: "t \<in> set (db_tokens s)" "k_UserID t = ?id" "k_ID t = TrimSpace (cl_SessionID claims)"
    for s2 ts J now now' "next" r h token claims t
  proof -
    have ok: "auth_ok s2" using later keepsD [OF schema.keeps_ChangePassword assms(1,3)] by (rule schema.steps_keep)
    let ?t = "revoke (\<lambda>t. k_UserID t = ?id) (en_clock E 0) refreshRevokedReasonPasswordChange t"
    have "ValidateSession (cl_UserID claims) (cl_SessionID claims) now' s2 = (Inr False, s2)"
      using t by (intro revoked_session_invalid [OF ok later, of ?t]) (simp_all add: s1 revoke_revokes)
    from JWTAuth_refuses [where validate = ValidateSession, OF bearer claims this] show ?thesis by (simp add: unauthorized_def)
  qed
  ultimately show ?thesis by blast
qed

text \<open>C31. The tables of the authentication stay well-formed and only grow. After any sequence of
  operations, with any requests and clocks and between any other work of the program: ids, emails
  and token hashes are unique, every token belongs to a user, a lock is set only from the fifth
  failure on; no user disappears, and a token keeps its user, hash and expiry, and stays revoked once
  it is.\<close>

theorem auth_tables_invariant:
  assumes "auth_ok s" "auth_steps A s s'"
  shows "auth_ok s' \<and> set (map u_ID (db_users s)) \<subseteq> set (map u_ID (db_users s')) \<and>
    (\<forall>t \<in> set (db_tokens s). \<exists>t' \<in> set (db_tokens s'). k_ID t' = k_ID t \<and> k_UserID t' = k_UserID t \<and>
       k_TokenHash t' = k_TokenHash t \<and> k_ExpiresAt t' = k_ExpiresAt t \<and> (k_RevokedAt t \<noteq> None \<longrightarrow> t' = t))"
proof (intro conjI ballI)
  show "auth_ok s'" using assms(2,1) by (rule schema.steps_keep)
  have ext: "auth_extends s s'" using assms(2) by (rule auth_steps_extend)
  then show "set (map u_ID (db_users s)) \<subseteq> set (map u_ID (db_users s'))" unfolding auth_extends_def by (metis set_append sup_ge1)
  show "\<exists>t' \<in> set (db_tokens s'). k_ID t' = k_ID t \<and> k_UserID t' = k_UserID t \<and> k_TokenHash t' = k_TokenHash t \<and>
      k_ExpiresAt t' = k_ExpiresAt t \<and> (k_RevokedAt t \<noteq> None \<longrightarrow> t' = t)" if "t \<in> set (db_tokens s)" for t
    using auth_extends_token [OF ext that] by metis
qed

section \<open>Witnesses\<close>

lemma sample_jwt_law: "jwt_law sample_jwt"
proof -
  have "list_all printable ''tok''" "list_all printable ''tok2''" by code_simp+
  then show ?thesis
    unfolding jwt_law_def
    by (auto simp: same_identity_def sample_jwt_def sample_signed_def split: if_splits)
qed

lemma sample_login: "\<exists>session s1. Login sample_auth sample_env None \<lparr>aq_Email = ''A@b'', aq_Password = ''pw'',
    aq_PrimaryCurrency = ''''\<rparr> sample_auth_db = (Inr session, s1) \<and>
    se_AccessToken session = ''tok'' \<and> u_ID (se_User session) = ''u1'' \<and> u_Email (se_User session) = ''a@b''"
proof -
  let ?run = "Login sample_auth sample_env None \<lparr>aq_Email = ''A@b'', aq_Password = ''pw'',
      aq_PrimaryCurrency = ''''\<rparr> sample_auth_db"
  have "case fst ?run of Inl _ \<Rightarrow> False
    | Inr se \<Rightarrow> se_AccessToken se = ''tok'' \<and> u_ID (se_User se) = ''u1'' \<and> u_Email (se_User se) = ''a@b''"
    by code_simp
  then show ?thesis by (cases "fst ?run"; cases ?run) auto
qed

definition sample_api_request :: http_request where
  "sample_api_request = \<lparr>hq_Method = ''GET'', hq_Path = ''/api/v1/accounts'', hq_Header = [(''Authorization'', [''Bearer tok''])],
     hq_Body = BodyRead '''', hq_Claims = None, hq_RemoteAddr = ''''\<rparr>"

definition sample_next :: "dec db served" where
  "sample_next r h s = (Response h 200 (case hq_Claims r of Some u \<Rightarrow> u | None \<Rightarrow> ''''), s)"

theorem login_grants_access_witness:
  "\<exists>session s1. Login sample_auth sample_env None \<lparr>aq_Email = ''A@b'', aq_Password = ''pw'', aq_PrimaryCurrency = ''''\<rparr>
      sample_auth_db = (Inr session, s1) \<and>
    JWTAuth (Some sample_tokens) sample_jwt (Some ValidateSession) sample_now sample_now sample_next sample_api_request [] s1 =
      (Response [] 200 ''u1'', s1)"
proof -
  obtain session s1 where run: "Login sample_auth sample_env None \<lparr>aq_Email = ''A@b'', aq_Password = ''pw'',
      aq_PrimaryCurrency = ''''\<rparr> sample_auth_db = (Inr session, s1)"
    and se: "se_AccessToken session = ''tok''" "u_ID (se_User session) = ''u1''" "u_Email (se_User session) = ''a@b''"
    using sample_login by blast
  have A: "as_tokens sample_auth = Some sample_tokens" "as_jwt sample_auth = sample_jwt" by (simp_all add: sample_auth_def)
  have plain: "list_all ascii [''u1'', ''a@b'', en_uuid sample_env 3, en_uuid sample_env 4, ts_issuer sample_tokens]"
    "en_uuid sample_env 3 \<noteq> ''''" "TrimSpace (en_uuid sample_env 3) = en_uuid sample_env 3" "TrimSpace ''u1'' = ''u1''"
    by code_simp+
  have before: "Before sample_now (jwt_NewNumericDate sample_jwt (TimeAdd (en_clock sample_env 2) (ts_accessTTL sample_tokens)))"
    "Before sample_now (TimeAdd (en_clock sample_env 2) (ts_refreshTTL sample_tokens))"
    "header_Get ''Authorization'' (hq_Header sample_api_request) = ''Bearer '' @ ''tok''"
    by code_simp+
  have "JWTAuth (Some sample_tokens) sample_jwt (Some ValidateSession) sample_now sample_now sample_next sample_api_request [] s1 =
      sample_next (sample_api_request\<lparr>hq_Claims := Some ''u1''\<rparr>) [] s1"
    using login_grants_access [OF sample_auth_ok run A(1), unfolded A(2) se, OF sample_jwt_law plain before] by blast
  with run show ?thesis by (auto simp: sample_next_def)
qed

definition sample_change :: ChangePasswordRequest where
  "sample_change = \<lparr>cp_UserID = ''u1'', cp_CurrentPassword = ''pw'', cp_NewPassword = ''correct horse battery''\<rparr>"

lemma sample_change_password: "\<exists>u s1. ChangePassword sample_auth sample_env None sample_change sample_auth_db = (Inr u, s1)"
  by (rule result_cases) code_simp

text \<open>The access token of the session \<open>k1\<close> the user had before the change.\<close>

definition sample_old_jwt :: jwt_lib where
  "sample_old_jwt = sample_jwt\<lparr>jwt_ParseWithClaims := (\<lambda>_ _ _ _. Inr (sample_claims\<lparr>cl_SessionID := ''k1''\<rparr>, True))\<rparr>"

theorem password_change_ends_access_witness:
  "\<exists>s1. ChangePassword sample_auth sample_env None sample_change sample_auth_db = (Inr (), s1) \<and>
     JWTAuth (Some sample_tokens) sample_old_jwt (Some ValidateSession) sample_now sample_now sample_next sample_api_request []
       sample_auth_db = (Response [] 200 ''u1'', sample_auth_db) \<and>
     JWTAuth (Some sample_tokens) sample_old_jwt (Some ValidateSession) sample_now sample_now sample_next sample_api_request [] s1 =
       (JSONError 401 ''unauthorized'' ''Unauthorized'', s1)"
proof -
  obtain s1 where run: "ChangePassword sample_auth sample_env None sample_change sample_auth_db = (Inr (), s1)"
    using sample_change_password by auto
  have svc: "argon2_service sample_argon2 sample_rand sample_auth"
    using sample_laws by (simp add: argon2_service_def sample_auth_def)
  let ?claims = "sample_claims\<lparr>cl_SessionID := ''k1''\<rparr>"
  have bearer: "bearerToken sample_api_request = Some ''tok''"
    "ValidateAccess sample_tokens sample_old_jwt ''tok'' sample_now = Inr ?claims" by code_simp+
  have t: "sample_token \<in> set (db_tokens sample_auth_db)" by (simp add: sample_auth_db_def)
  have ids: "k_UserID sample_token = TrimSpace (cp_UserID sample_change)" "k_ID sample_token = TrimSpace (cl_SessionID ?claims)"
    by code_simp+
  have "JWTAuth (Some sample_tokens) sample_old_jwt (Some ValidateSession) sample_now sample_now sample_next sample_api_request []
       sample_auth_db = (Response [] 200 ''u1'', sample_auth_db)" by code_simp
  moreover have "JWTAuth (Some sample_tokens) sample_old_jwt (Some ValidateSession) sample_now sample_now sample_next
      sample_api_request [] s1 = (JSONError 401 ''unauthorized'' ''Unauthorized'', s1)"
    using password_change_ends_access [OF sample_auth_ok svc run, THEN conjunct2] bearer t ids by blast
  ultimately show ?thesis using run by blast
qed

theorem auth_tables_invariant_witness:
  "auth_ok (snd (Login sample_auth sample_env None sample_guess sample_auth_db))"
proof -
  have "auth_steps sample_auth sample_auth_db (snd (Login sample_auth sample_env None sample_guess sample_auth_db))"
    by (rule r_into_rtranclp) (rule step_Login)
  from auth_tables_invariant [OF sample_auth_ok this] show ?thesis by blast
qed

end
