(* ===== verification/Rate_Limit.thy ===== *)
theory Rate_Limit
  imports Http Go_Bytes
begin

text \<open>
  The rate limit by client address, \<^verbatim>\<open>internal/http/middleware/ratelimit.go\<close>. The buckets are an
  association list from keys to the start of the current window and its count; where the code
  iterates over the Go map, the order is an argument. The whole update of the buckets runs under
  the mutex, so it is one step; the clock is read before the mutex is taken, so two requests that
  overlap may enter in the other order of their readings, by less than their overlap, which the
  bounds below leave out: they take the readings in the order of the steps. The functions of \<^verbatim>\<open>net\<close> and \<^verbatim>\<open>net/netip\<close> that parse addresses
  are the parameter \<open>netip_lib\<close>. The lemmas follow one key through a run of requests of many
  keys and bound how many of its requests pass, and how many buckets are kept.
\<close>

section \<open>Client addresses\<close>

record ('a, 'p) netip_lib =
  nl_SplitHostPort :: "string \<Rightarrow> string option"
  nl_ParseAddr :: "string \<Rightarrow> 'a option"
  nl_ParsePrefix :: "string \<Rightarrow> 'p option"
  nl_FullPrefix :: "'a \<Rightarrow> 'p"
  nl_Contains :: "'p \<Rightarrow> 'a \<Rightarrow> bool"
  nl_String :: "'a \<Rightarrow> string"

type_synonym 'p trustedProxySet = "'p list"

definition parseTrustedProxies :: "('a, 'p) netip_lib \<Rightarrow> string list \<Rightarrow> 'p trustedProxySet" where
  "parseTrustedProxies N values =
     concat (map (\<lambda>val.
       let val = TrimSpace val
       in if val = '''' then []
          else case nl_ParsePrefix N val of
              Some p \<Rightarrow> [p]
            | None \<Rightarrow> (case nl_ParseAddr N val of Some addr \<Rightarrow> [nl_FullPrefix N addr] | None \<Rightarrow> [])) values)"

definition trusted_contains :: "('a, 'p) netip_lib \<Rightarrow> 'p trustedProxySet \<Rightarrow> 'a \<Rightarrow> bool" where
  "trusted_contains N trusted addr = list_ex (\<lambda>p. nl_Contains N p addr) trusted"

fun lastUntrusted :: "('a, 'p) netip_lib \<Rightarrow> 'p trustedProxySet \<Rightarrow> string list \<Rightarrow> string option" where
  "lastUntrusted N trusted [] = None"
| "lastUntrusted N trusted (part # parts) =
     (case nl_ParseAddr N (TrimSpace part) of
        Some addr \<Rightarrow> if \<not> trusted_contains N trusted addr then Some (nl_String N addr) else lastUntrusted N trusted parts
      | None \<Rightarrow> lastUntrusted N trusted parts)"

definition forwardedClientIP :: "('a, 'p) netip_lib \<Rightarrow> http_request \<Rightarrow> 'p trustedProxySet \<Rightarrow> string" where
  "forwardedClientIP N r trusted =
     (case lastUntrusted N trusted (rev (Split CHR '','' (header_Get ''X-Forwarded-For'' (hq_Header r)))) of
        Some ip \<Rightarrow> ip
      | None \<Rightarrow>
          (case nl_ParseAddr N (TrimSpace (header_Get ''X-Real-Ip'' (hq_Header r))) of
             Some addr \<Rightarrow> nl_String N addr | None \<Rightarrow> ''''))"

definition clientIP :: "('a, 'p) netip_lib \<Rightarrow> http_request \<Rightarrow> 'p trustedProxySet \<Rightarrow> string" where
  "clientIP N r trusted =
     (case nl_SplitHostPort N (hq_RemoteAddr r) of
        None \<Rightarrow> hq_RemoteAddr r
      | Some host \<Rightarrow>
          if host = '''' then hq_RemoteAddr r
          else case nl_ParseAddr N host of
              None \<Rightarrow> host
            | Some addr \<Rightarrow>
                if trusted_contains N trusted addr then
                  (let forwarded = forwardedClientIP N r trusted in if forwarded \<noteq> '''' then forwarded else host)
                else host)"

section \<open>Buckets\<close>

record rateLimitBucket =
  rb_windowStart :: time
  rb_count :: int

type_synonym buckets = "(string \<times> rateLimitBucket) list"

definition rateLimitBucketCapacity :: "int \<Rightarrow> int" where
  "rateLimitBucketCapacity limit =
     (if limit \<le> 0 then 1024 else if limit > 65536 div 8 then 65536 else min (max (limit * 8) 1024) 65536)"

definition removeExpiredRateLimitBuckets :: "time \<Rightarrow> duration \<Rightarrow> buckets \<Rightarrow> buckets" where
  "removeExpiredRateLimitBuckets current window bs =
     filter (\<lambda>(key, bucket). \<not> TimeSub current (rb_windowStart bucket) \<ge> window) bs"

definition oldestStep :: "string \<times> time \<Rightarrow> string \<times> rateLimitBucket \<Rightarrow> string \<times> time" where
  "oldestStep acc kb =
     (case (acc, kb) of ((oldestKey, oldest), (key, bucket)) \<Rightarrow>
        if oldestKey = '''' \<or> Before (rb_windowStart bucket) oldest then (key, rb_windowStart bucket)
        else (oldestKey, oldest))"

definition removeOldestRateLimitBucket :: "(buckets \<Rightarrow> buckets) \<Rightarrow> buckets \<Rightarrow> buckets" where
  "removeOldestRateLimitBucket mapOrder bs =
     AList.delete (fst (foldl oldestStep ('''', zero_time) (mapOrder bs))) bs"

text \<open>The critical section: room for a new key, then the count of the key.\<close>

definition makeRoom :: "int \<Rightarrow> duration \<Rightarrow> (buckets \<Rightarrow> buckets) \<Rightarrow> string \<Rightarrow> time \<Rightarrow> buckets \<Rightarrow> buckets" where
  "makeRoom limit window mapOrder key current bs =
     (let capacity = rateLimitBucketCapacity limit
      in if map_of bs key = None \<and> int (length bs) \<ge> capacity then
           let bs = removeExpiredRateLimitBuckets current window bs
           in if int (length bs) \<ge> capacity then removeOldestRateLimitBucket mapOrder bs else bs
         else bs)"

definition countRequest :: "duration \<Rightarrow> time \<Rightarrow> rateLimitBucket option \<Rightarrow> rateLimitBucket" where
  "countRequest window current found =
     (let bucket = (case found of Some b \<Rightarrow> b | None \<Rightarrow> \<lparr>rb_windowStart = zero_time, rb_count = 0\<rparr>);
          bucket = (if IsZero (rb_windowStart bucket) \<or> TimeSub current (rb_windowStart bucket) \<ge> window
                    then \<lparr>rb_windowStart = current, rb_count = 0\<rparr> else bucket)
      in bucket\<lparr>rb_count := rb_count bucket + 1\<rparr>)"

definition admit ::
  "int \<Rightarrow> duration \<Rightarrow> (buckets \<Rightarrow> buckets) \<Rightarrow> string \<Rightarrow> time \<Rightarrow> buckets \<Rightarrow> bool \<times> buckets" where
  "admit limit window mapOrder key current bs =
     (let bs = makeRoom limit window mapOrder key current bs;
          bucket = countRequest window current (map_of bs key)
      in (rb_count bucket \<le> limit, AList.update key bucket bs))"

definition rateLimitError :: http_response where
  "rateLimitError = JSONError 429 ''rate_limited'' ''Rate limit exceeded''"

text \<open>An error answer is the JSON error after its headers were set; the \<^verbatim>\<open>Retry-After\<close> header is
  given with it.\<close>

definition rateLimitByIP ::
  "('a, 'p) netip_lib \<Rightarrow> int \<Rightarrow> duration \<Rightarrow> time \<Rightarrow> (buckets \<Rightarrow> buckets) \<Rightarrow> 'p trustedProxySet \<Rightarrow> 's served \<Rightarrow>
     http_request \<Rightarrow> header \<Rightarrow> buckets \<times> 's \<Rightarrow> (http_response \<times> header) \<times> buckets \<times> 's" where
  "rateLimitByIP N limit window now mapOrder trusted next r h st =
     (case st of (bs, s) \<Rightarrow>
        if limit \<le> 0 \<or> window \<le> 0 then
          (case next r h s of (resp, s') \<Rightarrow> ((resp, h), bs, s'))
        else
          case admit limit window mapOrder (clientIP N r trusted) now bs of (allowed, bs') \<Rightarrow>
            if \<not> allowed then
              ((rateLimitError, header_Set ''Retry-After'' (int_digits (max 1 (window div ns_per_second))) h), bs', s)
            else (case next r h s of (resp, s') \<Rightarrow> ((resp, h), bs', s')))"

section \<open>The number of buckets\<close>

lemma oldestKey_member:
  "xs \<noteq> [] \<Longrightarrow> fst (foldl oldestStep acc xs) \<in> fst ` set xs \<or> fst (foldl oldestStep acc xs) = fst acc \<and> fst acc \<noteq> ''''"
proof (induction xs arbitrary: acc)
  case (Cons x xs)
  obtain k t where step: "oldestStep acc x = (k, t)" by (metis surj_pair)
  then have k: "k = fst x \<or> k = fst acc \<and> fst acc \<noteq> ''''" by (auto simp: oldestStep_def split: prod.splits if_splits)
  show ?case
  proof (cases "xs = []")
    case True
    with step k show ?thesis by auto
  next
    case False
    with Cons.IH [of "(k, t)"] step k show ?thesis by auto
  qed
qed simp

lemma length_delete_member:
  "distinct (map fst bs) \<Longrightarrow> k \<in> fst ` set bs \<Longrightarrow> length (AList.delete k bs) = length bs - 1"
proof (induction bs)
  case (Cons b bs)
  show ?case
  proof (cases "fst b = k")
    case True
    with Cons.prems have "k \<notin> fst ` set bs" by auto
    then have "AList.delete k bs = bs" by (simp add: AList.delete_id)
    with True show ?thesis by (cases b) (simp add: AList.delete_eq)
  next
    case False
    with Cons have "length (AList.delete k bs) = length bs - 1" "bs \<noteq> []" by auto
    with False show ?thesis by (cases b) (auto simp: AList.delete_eq)
  qed
qed simp

lemma length_update_key: "length (AList.update k v bs) = (if k \<in> fst ` set bs then length bs else length bs + 1)"
  by (induction bs) auto

definition buckets_ok :: "int \<Rightarrow> buckets \<Rightarrow> bool" where
  "buckets_ok limit bs \<longleftrightarrow> distinct (map fst bs) \<and> int (length bs) \<le> rateLimitBucketCapacity limit"

lemma capacity_bounds: "1024 \<le> rateLimitBucketCapacity limit" "rateLimitBucketCapacity limit \<le> 65536"
  by (auto simp: rateLimitBucketCapacity_def)

lemma admit_buckets_ok:
  assumes "buckets_ok limit bs" "\<And>bs. mset (mapOrder bs) = mset bs"
  shows "buckets_ok limit (snd (admit limit window mapOrder key current bs))"
proof -
  let ?cap = "rateLimitBucketCapacity limit" and ?exp = "removeExpiredRateLimitBuckets current window bs"
  let ?bs = "makeRoom limit window mapOrder key current bs"
  have dist: "distinct (map fst bs)" "distinct (map fst ?exp)" and len: "length ?exp \<le> length bs" "int (length bs) \<le> ?cap"
    using assms(1) by (auto simp: buckets_ok_def removeExpiredRateLimitBuckets_def distinct_map_filter)
  have old: "int (length (removeOldestRateLimitBucket mapOrder ?exp)) < ?cap" if "int (length ?exp) \<ge> ?cap"
  proof -
    have ne: "?exp \<noteq> []" using that capacity_bounds [of limit] by auto
    have "set (mapOrder ?exp) = set ?exp" using assms(2) by (metis set_mset_mset)
    moreover have "mapOrder ?exp \<noteq> []" using ne assms(2) by (metis mset_zero_iff)
    ultimately have "fst (foldl oldestStep ('''', zero_time) (mapOrder ?exp)) \<in> fst ` set ?exp"
      using oldestKey_member [of "mapOrder ?exp" "('''', zero_time)"] by auto
    from length_delete_member [OF dist(2) this] ne len show ?thesis
      by (simp add: removeOldestRateLimitBucket_def) (cases "length ?exp", auto)
  qed
  have "distinct (map fst ?bs)"
    using dist by (auto simp: makeRoom_def Let_def removeOldestRateLimitBucket_def AList.distinct_delete)
  moreover have "int (length ?bs) \<le> ?cap \<and> (key \<notin> fst ` set ?bs \<longrightarrow> int (length ?bs) < ?cap)"
    using old len by (auto simp: makeRoom_def Let_def map_of_eq_None_iff)
  moreover obtain b where "snd (admit limit window mapOrder key current bs) = AList.update key b ?bs"
    by (simp add: admit_def Let_def)
  ultimately show ?thesis by (auto simp: buckets_ok_def AList.distinct_update length_update_key)
qed

section \<open>Requests that pass\<close>

text \<open>A run of requests: their keys, times and the map order each of them meets. \<open>passes\<close> counts the
  requests of one key that pass in the time from \<open>a\<close> to \<open>a + window\<close>.\<close>

type_synonym rl_request = "string \<times> time \<times> (buckets \<Rightarrow> buckets)"

fun rl_run :: "int \<Rightarrow> duration \<Rightarrow> rl_request list \<Rightarrow> buckets \<Rightarrow> buckets" where
  "rl_run limit window [] bs = bs"
| "rl_run limit window ((key, t, mapOrder) # reqs) bs =
     rl_run limit window reqs (snd (admit limit window mapOrder key t bs))"

fun passes :: "int \<Rightarrow> duration \<Rightarrow> string \<Rightarrow> int \<Rightarrow> rl_request list \<Rightarrow> buckets \<Rightarrow> int" where
  "passes limit window k a [] bs = 0"
| "passes limit window k a ((key, t, mapOrder) # reqs) bs =
     (case admit limit window mapOrder key t bs of (allowed, bs') \<Rightarrow>
        (if allowed \<and> key = k \<and> a \<le> t_ns t \<and> t_ns t < a + window then 1 else 0) + passes limit window k a reqs bs')"

lemma TimeSub_ge: "0 < w \<Longrightarrow> w < 2 ^ 63 \<Longrightarrow> w \<le> TimeSub t u \<longleftrightarrow> w \<le> t_ns t - t_ns u"
  by (auto simp: TimeSub_def)

text \<open>As long as all keys fit, no bucket is removed: a request changes the bucket of its key only.\<close>

definition keys_fit :: "int \<Rightarrow> string set \<Rightarrow> buckets \<Rightarrow> bool" where
  "keys_fit limit K bs \<longleftrightarrow> finite K \<and> int (card K) \<le> rateLimitBucketCapacity limit \<and> distinct (map fst bs) \<and>
     fst ` set bs \<subseteq> K \<and> (\<forall>b \<in> snd ` set bs. 0 < t_ns (rb_windowStart b) \<and> 0 \<le> rb_count b)"

lemma makeRoom_fits: "keys_fit limit K bs \<Longrightarrow> key \<in> K \<Longrightarrow> makeRoom limit window mapOrder key t bs = bs"
proof -
  assume fit: "keys_fit limit K bs" and key: "key \<in> K"
  have "int (length bs) < rateLimitBucketCapacity limit" if "map_of bs key = None"
  proof -
    from that key fit have "fst ` set bs \<subset> K" by (auto simp: keys_fit_def map_of_eq_None_iff)
    then have "card (fst ` set bs) < card K" using fit by (intro psubset_card_mono) (auto simp: keys_fit_def)
    moreover have "card (fst ` set bs) = length bs"
      using fit by (metis distinct_card keys_fit_def length_map list.set_map)
    ultimately show ?thesis using fit by (simp add: keys_fit_def)
  qed
  then show ?thesis by (auto simp: makeRoom_def Let_def)
qed

lemma admit_fits:
  assumes "keys_fit limit K bs" "key \<in> K" "0 < t_ns t"
  shows "admit limit window mapOrder key t bs =
      (rb_count (countRequest window t (map_of bs key)) \<le> limit, AList.update key (countRequest window t (map_of bs key)) bs)"
    and "keys_fit limit K (AList.update key (countRequest window t (map_of bs key)) bs)"
proof -
  let ?b = "countRequest window t (map_of bs key)"
  show "admit limit window mapOrder key t bs = (rb_count ?b \<le> limit, AList.update key ?b bs)"
    by (simp add: admit_def makeRoom_fits [OF assms(1,2)] Let_def)
  have old: "0 < t_ns (rb_windowStart b)" "0 \<le> rb_count b" if "map_of bs key = Some b" for b
    using assms(1) map_of_SomeD [OF that] by (force simp: keys_fit_def)+
  then have new: "0 < t_ns (rb_windowStart ?b) \<and> 0 \<le> rb_count ?b"
    using assms(3) by (auto simp: countRequest_def Let_def IsZero_def zero_time_def split: option.splits)
  have sub: "snd ` set (AList.update key v bs) \<subseteq> insert v (snd ` set bs)"
    and dom: "fst ` set (AList.update key v bs) = insert key (fst ` set bs)" for v by (induction bs) auto
  have "0 < t_ns (rb_windowStart b) \<and> 0 \<le> rb_count b" if "b \<in> snd ` set (AList.update key ?b bs)" for b
    using subsetD [OF sub that] new assms(1) unfolding keys_fit_def by blast
  then show "keys_fit limit K (AList.update key ?b bs)"
    using assms(1,2) dom [of ?b] unfolding keys_fit_def by (simp add: AList.distinct_update)
qed

text \<open>How many requests of the key still pass from the time \<open>a\<close> on, by its bucket.\<close>

definition pass_bound :: "int \<Rightarrow> int \<Rightarrow> rateLimitBucket option \<Rightarrow> int" where
  "pass_bound limit a found =
     (case found of None \<Rightarrow> limit
      | Some b \<Rightarrow> max 0 (limit - rb_count b) + (if a \<le> t_ns (rb_windowStart b) then 0 else limit))"

lemma pass_bound_step:
  assumes "0 < limit" "0 < window" "window < 2 ^ 63" "a \<le> t_ns t" "t_ns t < a + window" "0 < t_ns t"
    and "\<And>b. found = Some b \<Longrightarrow> 0 < t_ns (rb_windowStart b) \<and> 0 \<le> rb_count b"
  shows "(if rb_count (countRequest window t found) \<le> limit then 1 else 0) + pass_bound limit a (Some (countRequest window t found))
    \<le> pass_bound limit a found"
proof (cases found)
  case None
  then show ?thesis using assms by (simp add: countRequest_def pass_bound_def Let_def IsZero_def zero_time_def)
next
  case (Some b)
  then have b: "0 < t_ns (rb_windowStart b)" "0 \<le> rb_count b" using assms(7) by auto
  show ?thesis
  proof (cases "window \<le> t_ns t - t_ns (rb_windowStart b)")
    case True
    then have "\<not> a \<le> t_ns (rb_windowStart b)" using assms(5) by simp
    with True Some b assms(1-6) show ?thesis
      by (simp add: countRequest_def pass_bound_def Let_def TimeSub_ge)
  next
    case False
    with Some b assms(1-3) show ?thesis
      by (auto simp: countRequest_def pass_bound_def Let_def TimeSub_ge IsZero_def)
  qed
qed

lemma pass_bound_nonneg: "0 < limit \<Longrightarrow> 0 \<le> pass_bound limit a found"
  by (simp add: pass_bound_def split: option.split)

lemma passes_after: "\<forall>(key, t, mapOrder) \<in> set reqs. a + window \<le> t_ns t \<Longrightarrow> passes limit window k a reqs bs = 0"
  by (induction reqs arbitrary: bs) (auto split: prod.split)

lemma passes_from_start:
  assumes "0 < limit" "0 < window" "window < 2 ^ 63" "keys_fit limit K bs"
    and "\<forall>(key, t, mapOrder) \<in> set reqs. key \<in> K \<and> 0 < t_ns t \<and> a \<le> t_ns t"
    and "sorted (map (\<lambda>(key, t, mapOrder). t_ns t) reqs)"
  shows "passes limit window k a reqs bs \<le> pass_bound limit a (map_of bs k)"
  using assms(4-6)
proof (induction reqs arbitrary: bs)
  case Nil
  then show ?case using pass_bound_nonneg [OF assms(1)] by simp
next
  case (Cons q reqs)
  obtain key t mapOrder where q: "q = (key, t, mapOrder)" by (cases q)
  from Cons.prems q have here: "key \<in> K" "0 < t_ns t" "a \<le> t_ns t" by auto
  let ?b = "countRequest window t (map_of bs key)"
  note admit = admit_fits [OF Cons.prems(1) here(1,2)]
  have sorted: "\<forall>(key, t', mapOrder) \<in> set reqs. t_ns t \<le> t_ns t'" using Cons.prems(3) by (auto simp: q)
  show ?case
  proof (cases "t_ns t < a + window")
    case False
    then have "\<forall>(key, t, mapOrder) \<in> set (q # reqs). a + window \<le> t_ns t" using sorted by (fastforce simp: q)
    then have "passes limit window k a (q # reqs) bs = 0" by (rule passes_after)
    then show ?thesis using pass_bound_nonneg [OF assms(1)] by simp
  next
    case True
    have rest: "passes limit window k a reqs (AList.update key ?b bs) \<le> pass_bound limit a (map_of (AList.update key ?b bs) k)"
      by (rule Cons.IH [OF admit(2)]) (use Cons.prems in auto)
    show ?thesis
    proof (cases "key = k")
      case False
      with rest show ?thesis by (simp add: q admit(1) update_conv)
    next
      case key: True
      have "\<And>b. map_of bs k = Some b \<Longrightarrow> 0 < t_ns (rb_windowStart b) \<and> 0 \<le> rb_count b"
        using Cons.prems(1) by (force simp: keys_fit_def dest: map_of_SomeD)
      from pass_bound_step [OF assms(1-3) here(3) True here(2) this, of "map_of bs k"] rest show ?thesis
        by (simp add: q admit(1) [unfolded key] update_conv key True here)
    qed
  qed
qed

lemma passes_bound:
  assumes "0 < limit" "0 < window" "window < 2 ^ 63" "keys_fit limit K bs"
    and "\<forall>(key, t, mapOrder) \<in> set reqs. key \<in> K \<and> 0 < t_ns t"
    and "sorted (map (\<lambda>(key, t, mapOrder). t_ns t) reqs)"
  shows "passes limit window k a reqs bs \<le> 2 * limit"
  using assms(4-6)
proof (induction reqs arbitrary: bs)
  case Nil
  then show ?case using assms(1) by simp
next
  case (Cons q reqs)
  obtain key t mapOrder where q: "q = (key, t, mapOrder)" by (cases q)
  show ?case
  proof (cases "a \<le> t_ns t")
    case True
    have "\<forall>(key, t, mapOrder) \<in> set (q # reqs). key \<in> K \<and> 0 < t_ns t \<and> a \<le> t_ns t"
      using Cons.prems(2,3) True by (fastforce simp: q)
    from passes_from_start [OF assms(1-3) Cons.prems(1) this Cons.prems(3)]
    have "passes limit window k a (q # reqs) bs \<le> pass_bound limit a (map_of bs k)" .
    moreover have "pass_bound limit a (map_of bs k) \<le> 2 * limit"
    proof (cases "map_of bs k")
      case (Some b)
      then have "0 \<le> rb_count b" using Cons.prems(1) by (force simp: keys_fit_def dest: map_of_SomeD)
      with Some assms(1) show ?thesis by (simp add: pass_bound_def)
    qed (use assms(1) in \<open>simp add: pass_bound_def\<close>)
    ultimately show ?thesis by simp
  next
    case False
    from Cons.prems q have here: "key \<in> K" "0 < t_ns t" by auto
    note admit = admit_fits [OF Cons.prems(1) here]
    have "passes limit window k a reqs (AList.update key (countRequest window t (map_of bs key)) bs) \<le> 2 * limit"
      by (rule Cons.IH [OF admit(2)]) (use Cons.prems in auto)
    with False show ?thesis by (simp add: q admit(1))
  qed
qed

lemma rl_run_ok:
  assumes "buckets_ok limit bs" "\<forall>(key, t, mapOrder) \<in> set reqs. \<forall>bs. mset (mapOrder bs) = mset bs"
  shows "buckets_ok limit (rl_run limit window reqs bs)"
  using assms by (induction limit window reqs bs rule: rl_run.induct) (auto intro: admit_buckets_ok)

text \<open>C33. The rate limit holds and its memory is bounded. Whatever requests arrive from whatever
  addresses, at most 65536 buckets are kept. While the addresses seen fit into the capacity (at
  least 1024 of them), no address gets more than twice the limit through in any stretch of time as
  long as the window, and not more than the limit in a window counted from a fresh bucket. The
  requests come in the order of their clock readings.\<close>

theorem rate_limit_bounds:
  assumes "0 < limit" "0 < window" "window < 2 ^ 63" "\<forall>(key, t, mapOrder) \<in> set reqs. \<forall>bs. mset (mapOrder bs) = mset bs"
    and "\<forall>(key, t, mapOrder) \<in> set reqs. 0 < t_ns t" "sorted (map (\<lambda>(key, t, mapOrder). t_ns t) reqs)"
  shows "int (length (rl_run limit window reqs [])) \<le> 65536 \<and>
    (int (card (fst ` set reqs)) \<le> rateLimitBucketCapacity limit \<longrightarrow>
       passes limit window k a reqs [] \<le> 2 * limit \<and>
       ((\<forall>(key, t, mapOrder) \<in> set reqs. a \<le> t_ns t) \<longrightarrow> passes limit window k a reqs [] \<le> limit))"
proof (intro conjI impI)
  have "buckets_ok limit []" using capacity_bounds [of limit] by (simp add: buckets_ok_def)
  from rl_run_ok [OF this assms(4), of window] show "int (length (rl_run limit window reqs [])) \<le> 65536"
    using capacity_bounds(2) [of limit] by (simp add: buckets_ok_def)
  assume "int (card (fst ` set reqs)) \<le> rateLimitBucketCapacity limit"
  then have fit: "keys_fit limit (fst ` set reqs) []" by (simp add: keys_fit_def)
  show "passes limit window k a reqs [] \<le> 2 * limit"
    by (rule passes_bound [OF assms(1-3) fit _ assms(6)]) (use assms(5) in force)
  assume "\<forall>(key, t, mapOrder) \<in> set reqs. a \<le> t_ns t"
  then have "\<forall>(key, t, mapOrder) \<in> set reqs. key \<in> fst ` set reqs \<and> 0 < t_ns t \<and> a \<le> t_ns t" using assms(5) by force
  from passes_from_start [OF assms(1-3) fit this assms(6), of k] show "passes limit window k a reqs [] \<le> limit"
    by (simp add: pass_bound_def)
qed

text \<open>An address that is no trusted proxy cannot choose its key: its headers are not read.\<close>

lemma clientIP_untrusted:
  assumes "nl_SplitHostPort N (hq_RemoteAddr r) = Some host" "host \<noteq> ''''"
    and "\<forall>addr. nl_ParseAddr N host = Some addr \<longrightarrow> \<not> trusted_contains N trusted addr"
  shows "clientIP N (r\<lparr>hq_Header := h\<rparr>) trusted = host"
  using assms by (auto simp: clientIP_def split: option.splits)

definition sample_requests :: "rl_request list" where
  "sample_requests =
     [(''a'', \<lparr>t_ns = 10, t_off = 0\<rparr>, \<lambda>bs. bs), (''a'', \<lparr>t_ns = 20, t_off = 0\<rparr>, \<lambda>bs. bs),
      (''b'', \<lparr>t_ns = 25, t_off = 0\<rparr>, \<lambda>bs. bs), (''a'', \<lparr>t_ns = 30, t_off = 0\<rparr>, \<lambda>bs. bs),
      (''a'', \<lparr>t_ns = 150, t_off = 0\<rparr>, \<lambda>bs. bs)]"

theorem rate_limit_bounds_witness:
  "passes 2 100 ''a'' 10 sample_requests [] \<le> 2 \<and> int (length (rl_run 2 100 sample_requests [])) \<le> 65536"
proof -
  have "\<forall>(key, t, mapOrder) \<in> set sample_requests. \<forall>bs. mset (mapOrder bs) = mset bs"
    "\<forall>(key, t, mapOrder) \<in> set sample_requests. 0 < t_ns t" "sorted (map (\<lambda>(key, t, mapOrder). t_ns t) sample_requests)"
    "\<forall>(key, t, mapOrder) \<in> set sample_requests. 10 \<le> t_ns t"
    by (simp_all add: sample_requests_def)
  moreover have "int (card (fst ` set sample_requests)) \<le> rateLimitBucketCapacity 2"
    by (simp add: sample_requests_def rateLimitBucketCapacity_def card_insert_if)
  ultimately show ?thesis using rate_limit_bounds [of 2 100 sample_requests "''a''" 10] by simp
qed

end
