(* ===== verification/Transactions.thy ===== *)
theory Transactions
  imports Accounts
begin

text \<open>
  Transactions: the repository of \<^verbatim>\<open>internal/postgres/transactions.go\<close> (creation, the
  lifecycle of manual transactions, balances; transfers are in the next theory) and the
  service of \<^verbatim>\<open>internal/services/transaction_service.go\<close> with the adjustment service on top
  of it. \<^verbatim>\<open>uuid.Parse\<close> is the parameter \<open>uuidParse\<close>.
\<close>

section \<open>Rows\<close>

text \<open>The defaults \<^verbatim>\<open>insertTransaction\<close> fills in, in the caller's struct too.\<close>

definition normalizeTransaction :: "'d Transaction \<Rightarrow> 'd Transaction" where
  "normalizeTransaction t =
     t\<lparr>t_SourceType := (if t_SourceType t = '''' then TransactionSourceManual else t_SourceType t),
       t_SourceMetadata := (if t_SourceMetadata t = '''' then ''{}'' else t_SourceMetadata t),
       t_Status := (if t_Status t = '''' then TransactionStatusConfirmed else t_Status t)\<rparr>"

definition transaction_refs :: "'d db \<Rightarrow> 'd Transaction \<Rightarrow> bool" where
  "transaction_refs s t =
     (t_AccountID t \<in> set (map a_ID (db_accounts s)) \<and>
      (case t_RelatedAccountID t of None \<Rightarrow> True | Some r \<Rightarrow> r \<in> set (map a_ID (db_accounts s))) \<and>
      (case t_CategoryID t of None \<Rightarrow> True | Some c \<Rightarrow> c \<in> set (map c_ID (db_categories s))))"

definition insertTransaction :: "'d decimal_ops \<Rightarrow> 'd Transaction \<Rightarrow> ('d, 'd Transaction) dbstm" where
  "insertTransaction D transaction =
     (let t = normalizeTransaction transaction
      in sbind (sread (\<lambda>s. ewrap ''insert transaction''
           (row_guard (transaction_checks D t) (t_ID t \<notin> set (map t_ID (db_transactions s)))
             (transaction_refs s t)))) (\<lambda>_.
         sbind (swrite (\<lambda>s. s\<lparr>db_transactions := db_transactions s @ [t]\<rparr>)) (\<lambda>_.
         sret t)))"

definition transactionAuditSummary :: "'d decimal_ops \<Rightarrow> 'd Transaction \<Rightarrow> summary" where
  "transactionAuditSummary D t =
     [(''account_id'', JString (t_AccountID t)), (''type'', JString (t_Type t)),
      (''status'', JString (t_Status t)), (''amount'', JString (d_String D (t_Amount t))),
      (''source_type'', JString (t_SourceType t)), (''occurred_at'', JTime (t_OccurredAt t))]"

section \<open>Creation\<close>

definition TransactionRepository_Create ::
  "'d decimal_ops \<Rightarrow> 'd Transaction \<Rightarrow> ('d, 'd Transaction) dbstm" where
  "TransactionRepository_Create D transaction =
     swrap ''create transaction'' (pg_tx D ''insert transaction'' (insertTransaction D transaction))"

definition lockTransactionAccountsForUser :: "string \<Rightarrow> string list \<Rightarrow> time \<Rightarrow> ('d, unit) dbstm" where
  "lockTransactionAccountsForUser userID accountIDs occurredAt =
     (let ids = remdups_adj (sort accountIDs)
      in if ids = [] then sfail ErrNotFound
         else sread (\<lambda>s.
           let queried = (if length ids = 2 then ids else [hd ids]);
               rows = filter (\<lambda>a. a_ID a \<in> set queried \<and> a_OwnerUserID a = Some userID) (db_accounts s)
           in echeck (length rows \<noteq> length ids) ErrNotFound
              (echeck (list_ex (\<lambda>a. \<not> a_IsActive a) rows) ErrInactiveAccount
              (echeck (list_ex (\<lambda>a. \<not> IsZero occurredAt \<and>
                    Before (dateOnly occurredAt) (dateOnly (a_OpenedAt a))) rows)
                 ErrTransactionBeforeOpen
              (Inr ())))))"

definition TransactionRepository_CreateForUser ::
  "'d decimal_ops \<Rightarrow> string \<Rightarrow> time \<Rightarrow> string \<Rightarrow> 'd Transaction \<Rightarrow> ('d, 'd Transaction) dbstm" where
  "TransactionRepository_CreateForUser D eid now userID transaction =
     pg_tx D ''commit create user transaction''
     (sbind (swrap ''lock transaction accounts''
        (lockTransactionAccountsForUser userID
          (t_AccountID transaction #
             (case t_RelatedAccountID transaction of None \<Rightarrow> [] | Some r \<Rightarrow> [r]))
          (t_OccurredAt transaction))) (\<lambda>_.
      sbind (swrap ''create user transaction'' (insertTransaction D transaction)) (\<lambda>t.
      sbind (swrap ''create transaction audit event''
        (insertAuditEvent (newAuditEvent eid now (Some userID) ''transaction.created'' ''transaction''
          (t_ID t) (Some (transactionAuditSummary D t))))) (\<lambda>_.
      sret t))))"

definition TransactionRepository_CreateMany ::
  "'d decimal_ops \<Rightarrow> 'd Transaction list \<Rightarrow> ('d, unit) dbstm" where
  "TransactionRepository_CreateMany D transactions =
     pg_tx D ''commit create transactions''
     (sfor (\<lambda>t. sbind (swrap (''create transaction '' @ t_ID t) (insertTransaction D t)) (\<lambda>_. sret ()))
       transactions)"

section \<open>Reading\<close>

definition owned_by :: "'d db \<Rightarrow> string \<Rightarrow> 'd Transaction \<Rightarrow> bool" where
  "owned_by s userID t = list_ex (has_owner (t_AccountID t) userID) (db_accounts s)"

definition scanTransaction :: "('d db \<Rightarrow> 'd Transaction \<Rightarrow> bool) \<Rightarrow> ('d, 'd Transaction) dbstm" where
  "scanTransaction P =
     sread (\<lambda>s. case QueryRow (P s) (db_transactions s) of
        Inr t \<Rightarrow> Inr t | Inl e \<Rightarrow> Inl (Wrapped ''scan transaction'' (mapNotFound e)))"

definition notFound :: "('d, 'a) dbstm \<Rightarrow> ('d, 'a) dbstm" where
  "notFound m s = (case m s of (Inl e, s') \<Rightarrow> (Inl (mapNotFound e), s') | r \<Rightarrow> r)"

definition TransactionRepository_GetByID :: "string \<Rightarrow> ('d, 'd Transaction) dbstm" where
  "TransactionRepository_GetByID tid =
     swrap ''get transaction'' (notFound (scanTransaction (\<lambda>s t. t_ID t = tid)))"

definition TransactionRepository_GetByIDForUser :: "string \<Rightarrow> string \<Rightarrow> ('d, 'd Transaction) dbstm" where
  "TransactionRepository_GetByIDForUser tid userID =
     swrap ''get transaction'' (notFound (scanTransaction (\<lambda>s t. t_ID t = tid \<and> owned_by s userID t)))"

text \<open>\<^verbatim>\<open>ORDER BY t.occurred_at DESC, t.created_at DESC, t.id DESC\<close>\<close>

definition order_transactions :: "'d Transaction list \<Rightarrow> 'd Transaction list" where
  "order_transactions ts =
     sort_key (\<lambda>t. - t_ns (t_OccurredAt t)) (sort_key (\<lambda>t. - t_ns (t_CreatedAt t)) (rev (sort_key t_ID ts)))"

lemma set_order_transactions [simp]: "set (order_transactions ts) = set ts"
  by (simp add: order_transactions_def)

definition TransactionRepository_List :: "('d, 'd Transaction list) dbstm" where
  "TransactionRepository_List = sread (\<lambda>s. Inr (order_transactions (db_transactions s)))"

definition TransactionRepository_ListByUser :: "string \<Rightarrow> ('d, 'd Transaction list) dbstm" where
  "TransactionRepository_ListByUser userID =
     sread (\<lambda>s. Inr (order_transactions (filter (owned_by s userID) (db_transactions s))))"

definition TransactionRepository_ListByAccount :: "string \<Rightarrow> ('d, 'd Transaction list) dbstm" where
  "TransactionRepository_ListByAccount accountID =
     sread (\<lambda>s. Inr (order_transactions (filter (\<lambda>t. t_AccountID t = accountID) (db_transactions s))))"

definition TransactionRepository_ListByAccountForUser ::
  "string \<Rightarrow> string \<Rightarrow> ('d, 'd Transaction list) dbstm" where
  "TransactionRepository_ListByAccountForUser accountID userID =
     sread (\<lambda>s. Inr (order_transactions
       (filter (\<lambda>t. t_AccountID t = accountID \<and> owned_by s userID t) (db_transactions s))))"

text \<open>The signed amount and the sum the balance queries compute.\<close>

definition sql_signed :: "'d decimal_ops \<Rightarrow> 'd Transaction \<Rightarrow> 'd" where
  "sql_signed D t =
     (if t_Type t \<in> {''initial_balance'', ''income'', ''transfer_in'', ''interest_income'', ''adjustment''}
      then t_Amount t
      else if t_Type t \<in> {''expense'', ''transfer_out''} then d_Neg D (t_Amount t) else d_Zero D)"

definition sql_sum :: "'d decimal_ops \<Rightarrow> 'd Transaction list \<Rightarrow> 'd" where
  "sql_sum D ts = foldl (\<lambda>acc t. d_Add D acc (sql_signed D t)) (d_Zero D) ts"

definition sql_counted :: "string \<Rightarrow> 'd Transaction \<Rightarrow> bool" where
  "sql_counted accountID t = (t_AccountID t = accountID \<and> t_Status t \<in> {''confirmed'', ''reversed''})"

definition transferSourceBalance :: "'d decimal_ops \<Rightarrow> string \<Rightarrow> ('d, 'd) dbstm" where
  "transferSourceBalance D accountID =
     sread (\<lambda>s. Inr (sql_sum D (filter (sql_counted accountID) (db_transactions s))))"

definition GetBalanceByAccountForUser ::
  "'d decimal_ops \<Rightarrow> string \<Rightarrow> string \<Rightarrow> ('d, 'd \<times> int) dbstm" where
  "GetBalanceByAccountForUser D accountID userID =
     sread (\<lambda>s.
       let rows = filter (\<lambda>t. sql_counted accountID t \<and> owned_by s userID t) (db_transactions s)
       in Inr (sql_sum D rows, int (length rows)))"

record 'd AccountBalance =
  ab_AccountID :: string
  ab_Balance :: 'd
  ab_TransactionCount :: int

definition AccountService_BalanceForUser ::
  "'d decimal_ops \<Rightarrow> string \<Rightarrow> string \<Rightarrow> ('d, 'd AccountBalance) dbstm" where
  "AccountService_BalanceForUser D accountID userID =
     (let accountID = TrimSpace accountID; userID = TrimSpace userID
      in sbind (swrap ''get account'' (AccountRepository_GetByIDForUser accountID userID)) (\<lambda>_.
         sbind (swrap ''get account balance'' (GetBalanceByAccountForUser D accountID userID))
           (\<lambda>(balance, cnt).
         sret \<lparr>ab_AccountID = accountID, ab_Balance = balance, ab_TransactionCount = cnt\<rparr>)))"

section \<open>Lifecycle of manual transactions\<close>

definition lockManualLifecycleTransactionForUser ::
  "string \<Rightarrow> string \<Rightarrow> ('d, 'd Transaction) dbstm" where
  "lockManualLifecycleTransactionForUser tid userID =
     sbind (notFound (scanTransaction (\<lambda>s t. t_ID t = tid \<and> owned_by s userID t))) (\<lambda>t.
     sbind (scheck (t_SourceType t \<noteq> '''' \<and> t_SourceType t \<noteq> TransactionSourceManual) ErrConflict) (\<lambda>_.
     sbind (scheck (t_TransferID t \<noteq> None) ErrConflict) (\<lambda>_.
     sret t)))"

text \<open>\<^verbatim>\<open>UPDATE transactions SET status = $1 WHERE id = $2\<close>\<close>

definition set_status :: "'d decimal_ops \<Rightarrow> TransactionStatus \<Rightarrow> string \<Rightarrow> ('d, unit) dbstm" where
  "set_status D status tid =
     sbind (sread (\<lambda>s. row_guard
       (list_all (\<lambda>t. t_ID t = tid \<longrightarrow> transaction_checks D (t\<lparr>t_Status := status\<rparr>)) (db_transactions s))
       True True)) (\<lambda>_.
     swrite (\<lambda>s. s\<lparr>db_transactions :=
       map (\<lambda>t. if t_ID t = tid then t\<lparr>t_Status := status\<rparr> else t) (db_transactions s)\<rparr>))"

definition updateManualTransactionStatusForUser ::
  "'d decimal_ops \<Rightarrow> string \<Rightarrow> time \<Rightarrow> string \<Rightarrow> string \<Rightarrow> TransactionStatus \<Rightarrow> string \<Rightarrow>
     ('d, 'd Transaction) dbstm" where
  "updateManualTransactionStatusForUser D eid now tid userID status eventType =
     pg_tx D ''commit transaction status update''
     (sbind (swrap ''lock transaction'' (lockManualLifecycleTransactionForUser tid userID)) (\<lambda>before.
      sbind (scheck (t_Status before \<noteq> TransactionStatusConfirmed)
        (Wrapped ''update transaction status'' ErrConflict)) (\<lambda>_.
      let after = before\<lparr>t_Status := status\<rparr>
      in sbind (swrap ''update transaction status'' (set_status D status tid)) (\<lambda>_.
         sbind (swrap ''create transaction status audit event''
           (insertAuditEvent (newAuditEventWithSummaries eid now (Some userID) eventType
             ''transaction'' tid (Some (transactionAuditSummary D before))
             (Some (transactionAuditSummary D after))))) (\<lambda>_.
         sret after)))))"

definition TransactionRepository_CancelForUser ::
  "'d decimal_ops \<Rightarrow> string \<Rightarrow> time \<Rightarrow> string \<Rightarrow> string \<Rightarrow> ('d, 'd Transaction) dbstm" where
  "TransactionRepository_CancelForUser D eid now tid userID =
     swrap ''cancel transaction''
       (updateManualTransactionStatusForUser D eid now tid userID TransactionStatusCancelled
         ''transaction.cancelled'')"

definition TransactionRepository_SoftDeleteForUser ::
  "'d decimal_ops \<Rightarrow> string \<Rightarrow> time \<Rightarrow> string \<Rightarrow> string \<Rightarrow> ('d, 'd Transaction) dbstm" where
  "TransactionRepository_SoftDeleteForUser D eid now tid userID =
     swrap ''soft-delete transaction''
       (updateManualTransactionStatusForUser D eid now tid userID TransactionStatusSoftDeleted
         ''transaction.soft_deleted'')"

definition TransactionRepository_ReverseForUser ::
  "'d decimal_ops \<Rightarrow> string \<Rightarrow> string \<Rightarrow> time \<Rightarrow> string \<Rightarrow> string \<Rightarrow> 'd Transaction \<Rightarrow>
     ('d, 'd Transaction \<times> 'd Transaction) dbstm" where
  "TransactionRepository_ReverseForUser D eid1 eid2 now tid userID reversal =
     pg_tx D ''commit reverse transaction''
     (sbind (swrap ''lock transaction'' (lockManualLifecycleTransactionForUser tid userID)) (\<lambda>before.
      sbind (scheck (t_Status before \<noteq> TransactionStatusConfirmed)
        (Wrapped ''reverse transaction'' ErrConflict)) (\<lambda>_.
      let after = before\<lparr>t_Status := TransactionStatusReversed\<rparr>;
          reversal = reversal\<lparr>t_AccountID := t_AccountID before,
            t_RelatedAccountID := t_RelatedAccountID before, t_CategoryID := t_CategoryID before,
            t_Status := TransactionStatusConfirmed,
            t_SourceType := TransactionSourceReconciliationAdjustment,
            t_SourceRefID := Some (t_ID before)\<rparr>
      in sbind (swrap ''mark transaction reversed'' (set_status D TransactionStatusReversed tid)) (\<lambda>_.
         sbind (swrap ''create reversal transaction'' (insertTransaction D reversal)) (\<lambda>created.
         sbind (swrap ''create transaction status audit event''
           (insertAuditEvent (newAuditEventWithSummaries eid1 now (Some userID) ''transaction.reversed''
             ''transaction'' (t_ID before) (Some (transactionAuditSummary D before))
             (Some (transactionAuditSummary D after))))) (\<lambda>_.
         sbind (swrap ''create reversal transaction audit event''
           (insertAuditEvent (newAuditEvent eid2 now (Some userID) ''transaction.created''
             ''transaction'' (t_ID created) (Some (transactionAuditSummary D created))))) (\<lambda>_.
         sret (after, created)))))))) "

section \<open>The service\<close>

record 'd CreateTransactionRequest =
  ct_AccountID :: string
  ct_RelatedAccountID :: "string option"
  ct_Type :: TransactionType
  ct_Amount :: 'd
  ct_Currency :: string
  ct_CategoryID :: "string option"
  ct_SourceType :: TransactionSource
  ct_SourceRefID :: "string option"
  ct_SourceMetadata :: string
  ct_Description :: string
  ct_OccurredAt :: time
  ct_AccountOpenedAt :: time
  ct_AllowFutureDate :: bool

definition CategoryRepository_GetByID :: "string \<Rightarrow> ('d, Category) dbstm" where
  "CategoryRepository_GetByID categoryID =
     sread (\<lambda>s. ewrap ''get category''
       (case QueryRow (\<lambda>c. c_ID c = categoryID) (db_categories s) of
          Inr c \<Rightarrow> Inr c | Inl e \<Rightarrow> Inl (mapNotFound (Wrapped ''scan category'' (mapNotFound e)))))"

definition lookupAccount :: "string \<Rightarrow> string \<Rightarrow> ('d, Account) dbstm" where
  "lookupAccount userID accountID =
     (if userID = '''' then AccountRepository_GetByID accountID
      else AccountRepository_GetByIDForUser accountID userID)"

definition resolveCreateRequest ::
  "string \<Rightarrow> 'd CreateTransactionRequest option \<Rightarrow> ('d, 'd CreateTransactionRequest) dbstm" where
  "resolveCreateRequest userID r =
     (case r of
        None \<Rightarrow> sfail (Errorf ''create transaction request is required'')
      | Some req \<Rightarrow>
          sbind (let accountID = TrimSpace (ct_AccountID req); resolved = req\<lparr>ct_AccountID := accountID\<rparr>
            in if accountID = '''' then sret resolved
               else sbind (swrap ''get transaction account'' (lookupAccount userID accountID)) (\<lambda>account.
                    sret (resolved\<lparr>ct_Currency := a_Currency account,
                      ct_AccountOpenedAt := a_OpenedAt account\<rparr>))) (\<lambda>resolved.
          sbind (case ct_RelatedAccountID resolved of
              None \<Rightarrow> sret resolved
            | Some related \<Rightarrow>
                let related = TrimSpace related
                in if related = '''' then sret (resolved\<lparr>ct_RelatedAccountID := None\<rparr>)
                   else sbind (swrap ''get related transaction account'' (lookupAccount userID related)) (\<lambda>_.
                        sret (resolved\<lparr>ct_RelatedAccountID := Some related\<rparr>))) (\<lambda>resolved.
          (case ct_CategoryID resolved of
              None \<Rightarrow> sret resolved
            | Some category \<Rightarrow>
                let category = TrimSpace category
                in if category = '''' then sret (resolved\<lparr>ct_CategoryID := None\<rparr>)
                   else sbind (swrap ''get transaction category'' (CategoryRepository_GetByID category)) (\<lambda>_.
                        sret (resolved\<lparr>ct_CategoryID := Some category\<rparr>))))))"

definition buildTransaction ::
  "'d decimal_ops \<Rightarrow> (string \<Rightarrow> bool) \<Rightarrow> ctx \<Rightarrow> string \<Rightarrow> time \<Rightarrow> 'd CreateTransactionRequest option \<Rightarrow>
     bool \<Rightarrow> err + 'd Transaction" where
  "buildTransaction D uuidParse ctx tid now r allowTransfer =
     ctxCheck ctx ''create transaction''
     (case r of
        None \<Rightarrow> Inl (Errorf ''create transaction request is required'')
      | Some req \<Rightarrow>
          let occurredAt = (if IsZero (ct_OccurredAt req) then now else ct_OccurredAt req)
          in case transaction_ValidateCreate D now (Some
                 \<lparr>tv_AccountID = ct_AccountID req, tv_Type = ct_Type req, tv_Amount = ct_Amount req,
                  tv_Currency = ct_Currency req, tv_OccurredAt = occurredAt,
                  tv_AccountOpened = ct_AccountOpenedAt req, tv_Now = zero_time,
                  tv_AllowFuture = ct_AllowFutureDate req, tv_AllowTransfer = allowTransfer\<rparr>) of
               Inl e \<Rightarrow> Inl (validationError (Error e))
             | Inr _ \<Rightarrow>
                 let sourceType = (if ct_SourceType req = '''' then TransactionSourceManual
                       else ct_SourceType req)
                 in echeck (\<not> TransactionSource_IsValid sourceType)
                      (validationError ''invalid transaction source type'')
                    (ebind (case ct_SourceRefID req of
                        None \<Rightarrow> Inr None
                      | Some ref \<Rightarrow>
                          echeck (\<not> uuidParse (TrimSpace ref))
                            (validationError ''transaction source reference must be a UUID'')
                            (Inr (Some (TrimSpace ref)))) (\<lambda>sourceRefID.
                    let metadata = TrimSpace (ct_SourceMetadata req)
                    in echeck (ct_SourceMetadata req \<noteq> '''' \<and>
                           (\<not> json_Valid metadata \<or> metadata = '''' \<or> hd metadata \<noteq> CHR ''{''))
                         (validationError ''transaction source metadata must be a JSON object'')
                       (Inr \<lparr>t_ID = tid, t_AccountID = TrimSpace (ct_AccountID req),
                          t_RelatedAccountID = ct_RelatedAccountID req, t_TransferID = None,
                          t_SourceType = sourceType, t_SourceRefID = sourceRefID,
                          t_SourceMetadata =
                            (if ct_SourceMetadata req = '''' then ''{}'' else ct_SourceMetadata req),
                          t_Type = ct_Type req, t_Status = TransactionStatusConfirmed,
                          t_Amount = ct_Amount req, t_CategoryID = ct_CategoryID req,
                          t_Description = TrimSpace (ct_Description req),
                          t_OccurredAt = occurredAt, t_CreatedAt = now\<rparr>))))"

definition TransactionService_Create ::
  "'d decimal_ops \<Rightarrow> (string \<Rightarrow> bool) \<Rightarrow> ctx \<Rightarrow> string \<Rightarrow> time \<Rightarrow> 'd CreateTransactionRequest option \<Rightarrow>
     ('d, 'd Transaction) dbstm" where
  "TransactionService_Create D uuidParse ctx tid now r =
     sbind (resolveCreateRequest '''' r) (\<lambda>req.
     sbind (slift (buildTransaction D uuidParse ctx tid now (Some req) False)) (\<lambda>transaction.
     swrap ''save transaction'' (TransactionRepository_Create D transaction)))"

definition TransactionService_CreateForUser ::
  "'d decimal_ops \<Rightarrow> (string \<Rightarrow> bool) \<Rightarrow> ctx \<Rightarrow> string \<Rightarrow> string \<Rightarrow> time \<Rightarrow> string \<Rightarrow>
     'd CreateTransactionRequest option \<Rightarrow> ('d, 'd Transaction) dbstm" where
  "TransactionService_CreateForUser D uuidParse ctx tid eid now userID r =
     (let userID = TrimSpace userID
      in sbind (resolveCreateRequest userID r) (\<lambda>req.
         sbind (slift (buildTransaction D uuidParse ctx tid now (Some req) False)) (\<lambda>transaction.
         swrap ''save transaction''
           (TransactionRepository_CreateForUser D eid now userID transaction))))"

text \<open>\<^verbatim>\<open>CreateMany\<close>: every request, with the id of its transaction, is resolved and built before
  the first row is written.\<close>

fun buildMany ::
  "'d decimal_ops \<Rightarrow> (string \<Rightarrow> bool) \<Rightarrow> ctx \<Rightarrow> time \<Rightarrow> (string \<times> 'd CreateTransactionRequest option) list \<Rightarrow>
     ('d, 'd Transaction list) dbstm" where
  "buildMany D uuidParse ctx now [] = sret []"
| "buildMany D uuidParse ctx now ((tid, r) # rs) =
     sbind (resolveCreateRequest '''' r) (\<lambda>req.
     sbind (slift (buildTransaction D uuidParse ctx tid now (Some req) False)) (\<lambda>t.
     sbind (buildMany D uuidParse ctx now rs) (\<lambda>ts. sret (t # ts))))"

definition TransactionService_CreateMany ::
  "'d decimal_ops \<Rightarrow> (string \<Rightarrow> bool) \<Rightarrow> ctx \<Rightarrow> time \<Rightarrow> (string \<times> 'd CreateTransactionRequest option) list \<Rightarrow>
     ('d, 'd Transaction list) dbstm" where
  "TransactionService_CreateMany D uuidParse ctx now reqs =
     sbind (buildMany D uuidParse ctx now reqs) (\<lambda>transactions.
     sbind (swrap ''save transactions'' (TransactionRepository_CreateMany D transactions)) (\<lambda>_.
     sret transactions))"

definition TransactionService_CancelForUser ::
  "'d decimal_ops \<Rightarrow> string \<Rightarrow> time \<Rightarrow> string \<Rightarrow> string \<Rightarrow> ('d, 'd Transaction) dbstm" where
  "TransactionService_CancelForUser D eid now userID transactionID =
     swrap ''cancel transaction''
       (TransactionRepository_CancelForUser D eid now (TrimSpace transactionID) (TrimSpace userID))"

definition TransactionService_SoftDeleteForUser ::
  "'d decimal_ops \<Rightarrow> string \<Rightarrow> time \<Rightarrow> string \<Rightarrow> string \<Rightarrow> ('d, 'd Transaction) dbstm" where
  "TransactionService_SoftDeleteForUser D eid now userID transactionID =
     swrap ''soft-delete transaction''
       (TransactionRepository_SoftDeleteForUser D eid now (TrimSpace transactionID) (TrimSpace userID))"

definition reversalOf :: "'d decimal_ops \<Rightarrow> string \<Rightarrow> time \<Rightarrow> 'd Transaction \<Rightarrow> 'd Transaction" where
  "reversalOf D rid now original =
     \<lparr>t_ID = rid, t_AccountID = t_AccountID original, t_RelatedAccountID = None, t_TransferID = None,
      t_SourceType = TransactionSourceReconciliationAdjustment, t_SourceRefID = Some (t_ID original),
      t_SourceMetadata = ''{}'', t_Type = TransactionTypeAdjustment,
      t_Status = TransactionStatusConfirmed,
      t_Amount = d_Neg D (transactionDeltaForReversal D original), t_CategoryID = None,
      t_Description = ''Reversal of transaction '' @ t_ID original,
      t_OccurredAt = now, t_CreatedAt = now\<rparr>"

definition TransactionService_ReverseForUser ::
  "'d decimal_ops \<Rightarrow> string \<Rightarrow> string \<Rightarrow> string \<Rightarrow> time \<Rightarrow> string \<Rightarrow> string \<Rightarrow>
     ('d, 'd Transaction \<times> 'd Transaction) dbstm" where
  "TransactionService_ReverseForUser D rid eid1 eid2 now userID transactionID =
     sbind (swrap ''get transaction for reversal''
       (TransactionRepository_GetByIDForUser (TrimSpace transactionID) (TrimSpace userID))) (\<lambda>original.
     sbind (scheck (t_Status original \<noteq> '''' \<and> t_Status original \<noteq> TransactionStatusConfirmed)
       (validationError ''only confirmed transactions can be reversed'')) (\<lambda>_.
     sbind (scheck (t_SourceType original \<noteq> '''' \<and> t_SourceType original \<noteq> TransactionSourceManual)
       (validationError ''only manual transactions can be reversed'')) (\<lambda>_.
     sbind (scheck (t_TransferID original \<noteq> None)
       (validationError ''transfer transactions cannot be reversed through this endpoint'')) (\<lambda>_.
     swrap ''reverse transaction''
       (TransactionRepository_ReverseForUser D eid1 eid2 now (TrimSpace transactionID) (TrimSpace userID)
         (reversalOf D rid now original))))))"

section \<open>Adjustments\<close>

record 'd CreateAdjustmentRequest =
  cj_AccountID :: string
  cj_Amount :: 'd
  cj_Currency :: string
  cj_Description :: string
  cj_OccurredAt :: time

definition AdjustmentService_Create ::
  "'d decimal_ops \<Rightarrow> (string \<Rightarrow> bool) \<Rightarrow> ctx \<Rightarrow> string \<Rightarrow> time \<Rightarrow> 'd CreateAdjustmentRequest option \<Rightarrow>
     ('d, 'd Transaction) dbstm" where
  "AdjustmentService_Create D uuidParse ctx tid now r =
     (case r of
        None \<Rightarrow> sfail (validationError ''adjustment request is required'')
      | Some req \<Rightarrow>
          let accountID = TrimSpace (cj_AccountID req); currency = TrimSpace (cj_Currency req)
          in sbind (scheck (accountID = '''') (Errorf ''account id is required'')) (\<lambda>_.
             sbind (scheck (currency = '''') (Errorf ''currency is required'')) (\<lambda>_.
             sbind (scheck (d_IsZero D (cj_Amount req)) (Errorf ''adjustment amount must be non-zero'')) (\<lambda>_.
             swrap ''create adjustment transaction''
               (TransactionService_Create D uuidParse ctx tid now (Some
                 \<lparr>ct_AccountID = accountID, ct_RelatedAccountID = None,
                  ct_Type = TransactionTypeAdjustment, ct_Amount = cj_Amount req,
                  ct_Currency = currency, ct_CategoryID = None, ct_SourceType = '''',
                  ct_SourceRefID = None, ct_SourceMetadata = '''',
                  ct_Description = cj_Description req, ct_OccurredAt = cj_OccurredAt req,
                  ct_AccountOpenedAt = zero_time, ct_AllowFutureDate = False\<rparr>))))))"

section \<open>Facts about the statements\<close>

lemma normalizeTransaction_id [simp]:
  "t_ID (normalizeTransaction t) = t_ID t" "t_AccountID (normalizeTransaction t) = t_AccountID t"
  "t_Type (normalizeTransaction t) = t_Type t" "t_Amount (normalizeTransaction t) = t_Amount t"
  "t_TransferID (normalizeTransaction t) = t_TransferID t"
  "t_RelatedAccountID (normalizeTransaction t) = t_RelatedAccountID t"
  "t_OccurredAt (normalizeTransaction t) = t_OccurredAt t"
  by (simp_all add: normalizeTransaction_def)

lemma normalizeTransaction_checked: "transaction_checks D t \<Longrightarrow> normalizeTransaction t = t"
proof -
  assume c: "transaction_checks D t"
  have "t_SourceMetadata t \<noteq> []" using transaction_checksD(4) [OF c] by (auto simp: json_object_def)
  moreover have "t_SourceType t \<noteq> []" "t_Status t \<noteq> []"
    using transaction_checksD(2,3) [OF c]
    by (auto simp: TransactionSource_IsValid_def TransactionStatus_IsValid_def)
  ultimately show ?thesis by (simp add: normalizeTransaction_def)
qed

lemma insertTransaction_Inr_iff [tx_simps]:
  "insertTransaction D t0 s = (Inr t, s') \<longleftrightarrow>
     t = normalizeTransaction t0 \<and> transaction_checks D t \<and>
     t_ID t \<notin> set (map t_ID (db_transactions s)) \<and> transaction_refs s t \<and>
     s' = s\<lparr>db_transactions := db_transactions s @ [t]\<rparr>"
  by (auto simp: insertTransaction_def Let_def tx_simps)

lemma keeps_insertTransaction [keeps_intros]: "keeps (rows_ok D) (insertTransaction D t)"
proof (rule keepsI)
  fix s r s' assume ok: "rows_ok D s" and run: "insertTransaction D t s = (r, s')"
  show "rows_ok D s'"
  proof (cases r)
    case (Inl e)
    with run have "s' = s"
      by (auto simp: insertTransaction_def Let_def sbind_def split: sum.splits)
    with ok show ?thesis by simp
  next
    case (Inr x)
    with run ok show ?thesis
      by (auto simp: tx_simps rows_ok_def transaction_refs_def list_all_iff)
  qed
qed

lemma set_status_Inr_iff [tx_simps]:
  "set_status D status tid s = (Inr u, s') \<longleftrightarrow>
     (\<forall>t\<in>set (db_transactions s). t_ID t = tid \<longrightarrow> transaction_checks D (t\<lparr>t_Status := status\<rparr>)) \<and>
     s' = s\<lparr>db_transactions :=
       map (\<lambda>t. if t_ID t = tid then t\<lparr>t_Status := status\<rparr> else t) (db_transactions s)\<rparr>"
  by (auto simp: set_status_def tx_simps list_all_iff)

lemma keeps_set_status [keeps_intros]: "keeps (rows_ok D) (set_status D status tid)"
proof (rule keepsI)
  fix s r s' assume ok: "rows_ok D s" and run: "set_status D status tid s = (r, s')"
  show "rows_ok D s'"
  proof (cases r)
    case (Inl e)
    with run have "s' = s" by (auto simp: set_status_def sbind_def split: sum.splits)
    with ok show ?thesis by simp
  next
    case (Inr x)
    have ids: "map t_ID (map (\<lambda>t. if t_ID t = tid then t\<lparr>t_Status := status\<rparr> else t) ts) = map t_ID ts"
      for ts :: "'a Transaction list" by simp
    from Inr run ok show ?thesis
      by (auto simp: tx_simps rows_ok_def list_all_iff ids simp del: map_map)
  qed
qed

lemma notFound_Inr_iff [tx_simps]: "notFound m s = (Inr x, s') \<longleftrightarrow> m s = (Inr x, s')"
  by (auto simp: notFound_def split: prod.splits sum.splits)

lemma scanTransaction_Inr_iff [tx_simps]:
  "scanTransaction P s = (Inr t, s') \<longleftrightarrow> find (P s) (db_transactions s) = Some t \<and> s' = s"
  by (auto simp: scanTransaction_def QueryRow_def split: option.splits)

lemma keeps_transaction_reads [keeps_intros]:
  "keeps P (scanTransaction q)"
  "keeps P (lockTransactionAccountsForUser u ids tm)" "keeps P (CategoryRepository_GetByID c)"
  "keeps P (lookupAccount u i)" "keeps P (transferSourceBalance D a)"
  unfolding lockTransactionAccountsForUser_def CategoryRepository_GetByID_def lookupAccount_def
    AccountRepository_GetByID_def AccountRepository_GetByIDForUser_def scanTransaction_def
    transferSourceBalance_def
  by (intro keeps_intros)+

lemma keeps_notFound [keeps_intros]: "keeps P m \<Longrightarrow> keeps P (notFound m)"
  by (auto simp: keeps_def notFound_def split: prod.splits sum.splits)

lemma keeps_resolve [keeps_intros]: "keeps P (resolveCreateRequest u r)"
  unfolding resolveCreateRequest_def by (intro keeps_intros)

lemma lockManual_Inr [tx_simps]:
  "lockManualLifecycleTransactionForUser tid userID s = (Inr t, s') \<longleftrightarrow>
     find (\<lambda>t. t_ID t = tid \<and> owned_by s userID t) (db_transactions s) = Some t \<and>
     (t_SourceType t = [] \<or> t_SourceType t = TransactionSourceManual) \<and> t_TransferID t = None \<and> s' = s"
  by (auto simp: lockManualLifecycleTransactionForUser_def tx_simps)

lemma keeps_lockManual [keeps_intros]: "keeps P (lockManualLifecycleTransactionForUser tid u)"
  unfolding lockManualLifecycleTransactionForUser_def by (intro keeps_intros)

section \<open>The operations meet the ledger's contract\<close>

interpretation transaction_create:
  ledger_operation D "TransactionRepository_CreateForUser D eid now userID t" for D eid now userID t
  unfolding TransactionRepository_CreateForUser_def by (intro pg_tx_operation keeps_intros)

interpretation transaction_create_many:
  ledger_operation D "TransactionRepository_CreateMany D ts" for D ts
  unfolding TransactionRepository_CreateMany_def by (intro pg_tx_operation keeps_intros)

interpretation transaction_status:
  ledger_operation D "updateManualTransactionStatusForUser D eid now tid userID status ev"
  for D eid now tid userID status ev
  unfolding updateManualTransactionStatusForUser_def by (intro pg_tx_operation keeps_intros)

interpretation transaction_reverse:
  ledger_operation D "TransactionRepository_ReverseForUser D eid1 eid2 now tid userID t"
  for D eid1 eid2 now tid userID t
  unfolding TransactionRepository_ReverseForUser_def by (intro pg_tx_operation keeps_intros)

interpretation transaction_insert: ledger_operation D "TransactionRepository_Create D t" for D t
  unfolding TransactionRepository_Create_def by (intro operation_intros pg_tx_operation keeps_intros)

lemma keeps_buildMany [keeps_intros]: "keeps P (buildMany D uuidParse ctx now rs)"
proof (induction rs)
  case Nil
  show ?case unfolding buildMany.simps by (intro keeps_intros)
next
  case (Cons q rs)
  then show ?case by (cases q) (simp only: buildMany.simps, intro keeps_intros)
qed

interpretation service_create: ledger_operation D "TransactionService_Create D uuidParse ctx tid now r"
  for D uuidParse ctx tid now r
  unfolding TransactionService_Create_def
  by (intro operation_intros keeps_intros transaction_insert.ledger_operation_axioms)

interpretation service_create_for_user:
  ledger_operation D "TransactionService_CreateForUser D uuidParse ctx tid eid now u r"
  for D uuidParse ctx tid eid now u r
  unfolding TransactionService_CreateForUser_def
  by (intro operation_intros keeps_intros transaction_create.ledger_operation_axioms)

interpretation service_create_many: ledger_operation D "TransactionService_CreateMany D uuidParse ctx now rs"
  for D uuidParse ctx now rs
  unfolding TransactionService_CreateMany_def
  by (intro operation_intros keeps_intros transaction_create_many.ledger_operation_axioms)

interpretation service_cancel: ledger_operation D "TransactionService_CancelForUser D eid now u tid"
  for D eid now u tid
  unfolding TransactionService_CancelForUser_def TransactionRepository_CancelForUser_def
  by (intro operation_intros transaction_status.ledger_operation_axioms)

interpretation service_soft_delete: ledger_operation D "TransactionService_SoftDeleteForUser D eid now u tid"
  for D eid now u tid
  unfolding TransactionService_SoftDeleteForUser_def TransactionRepository_SoftDeleteForUser_def
  by (intro operation_intros transaction_status.ledger_operation_axioms)

interpretation service_reverse: ledger_operation D "TransactionService_ReverseForUser D rid eid1 eid2 now u tid"
  for D rid eid1 eid2 now u tid
  unfolding TransactionService_ReverseForUser_def TransactionRepository_GetByIDForUser_def
  by (intro operation_intros keeps_intros transaction_reverse.ledger_operation_axioms)

interpretation service_adjust: ledger_operation D "AdjustmentService_Create D uuidParse ctx tid now r"
  for D uuidParse ctx tid now r
  unfolding AdjustmentService_Create_def
  by (intro operation_intros keeps_intros service_create.ledger_operation_axioms)

section \<open>Balances\<close>

lemma sql_counted_counts:
  "transaction_checks D t \<Longrightarrow> sql_counted a t \<longleftrightarrow> counts a t"
  using transaction_checksD(3) [of D t]
  by (auto simp: sql_counted_def counts_def AffectsBalance_def TransactionStatus_IsValid_def)

lemma filter_sql_counted:
  "rows_ok D s \<Longrightarrow> filter (sql_counted a) (db_transactions s) = filter (counts a) (db_transactions s)"
  by (rule filter_cong) (auto simp: rows_ok_def list_all_iff sql_counted_counts)

context decimal_pkg
begin

lemma val_sql_sum: "val (sql_sum D ts) = sum_list (map (signed val) ts)"
proof -
  have "val (sql_signed D t) = signed val t" for t by (simp add: sql_signed_def signed_def)
  then show ?thesis by (simp add: sql_sum_def val_foldl_Add)
qed

lemma transferSourceBalance_ledger:
  assumes "rows_ok D s"
  shows "\<exists>b. transferSourceBalance D a s = (Inr b, s) \<and> val b = ledger val a (db_transactions s)"
  using filter_sql_counted [OF assms] by (simp add: transferSourceBalance_def val_sql_sum ledger_def)

lemma BalanceForUser_ledger:
  assumes ok: "rows_ok D s"
    and run: "AccountService_BalanceForUser D accountID userID s = (Inr b, s')"
  shows "s' = s \<and> val (ab_Balance b) = ledger val (TrimSpace accountID) (db_transactions s) \<and>
    ab_TransactionCount b = int (length (filter (counts (TrimSpace accountID)) (db_transactions s)))"
proof -
  let ?a = "TrimSpace accountID" and ?u = "TrimSpace userID"
  let ?rows = "filter (\<lambda>t. sql_counted ?a t \<and> owned_by s ?u t) (db_transactions s)"
  have "(\<exists>acc. find (has_owner ?a ?u) (db_accounts s) = Some acc) \<and> s' = s \<and>
      ab_Balance b = sql_sum D ?rows \<and> ab_TransactionCount b = int (length ?rows)"
    using run
    by (simp add: AccountService_BalanceForUser_def Let_def tx_simps
        AccountRepository_GetByIDForUser_def GetBalanceByAccountForUser_def) clarsimp
  then obtain acc where acc: "find (has_owner ?a ?u) (db_accounts s) = Some acc"
    and s': "s' = s" and b: "ab_Balance b = sql_sum D ?rows" "ab_TransactionCount b = int (length ?rows)"
    by blast
  have own: "sql_counted ?a t \<Longrightarrow> owned_by s ?u t" for t
    using find_has_owner [OF acc] by (auto simp: sql_counted_def owned_by_def list_ex_iff has_owner_def)
  then have "?rows = filter (sql_counted ?a) (db_transactions s)" by (intro filter_cong) auto
  with b s' filter_sql_counted [OF ok, of ?a] show ?thesis by (simp add: val_sql_sum ledger_def)
qed

end

section \<open>The lifecycle of a manual transaction\<close>

text \<open>What a cancelled, deleted or reversed transaction was before.\<close>

definition lifecycle_source :: "'d db \<Rightarrow> string \<Rightarrow> string \<Rightarrow> 'd Transaction \<Rightarrow> bool" where
  "lifecycle_source s tid userID t \<longleftrightarrow>
     t \<in> set (db_transactions s) \<and> t_ID t = tid \<and> owned_by s userID t \<and>
     t_Status t = TransactionStatusConfirmed \<and> t_TransferID t = None \<and>
     (t_SourceType t = [] \<or> t_SourceType t = TransactionSourceManual)"

lemma find_lifecycle:
  assumes "find (\<lambda>t. t_ID t = tid \<and> owned_by s userID t) (db_transactions s) = Some t"
    "t_SourceType t = [] \<or> t_SourceType t = TransactionSourceManual" "t_TransferID t = None"
    "t_Status t = TransactionStatusConfirmed"
  shows "lifecycle_source s tid userID t"
proof -
  have "t \<in> set (db_transactions s) \<and> t_ID t = tid \<and> owned_by s userID t"
    using assms(1) by (auto simp: find_Some_iff)
  with assms(2-) show ?thesis by (simp add: lifecycle_source_def)
qed

lemma status_update_Inr:
  assumes "updateManualTransactionStatusForUser D eid now tid userID status ev s = (Inr t', s')"
  obtains t where "lifecycle_source s tid userID t" "t' = t\<lparr>t_Status := status\<rparr>"
    "ledger_change s
       (map (\<lambda>u. if t_ID u = tid then u\<lparr>t_Status := status\<rparr> else u) (db_transactions s)) s'"
  using assms
  by (simp add: updateManualTransactionStatusForUser_def tx_simps Let_def, elim exE conjE)
    (rule that [OF find_lifecycle]; (assumption | erule sym | (hypsubst, rule ledger_changeI, rule refl) | simp))

lemma reverse_Inr:
  assumes "TransactionRepository_ReverseForUser D eid1 eid2 now tid userID reversal s = (Inr (t', c), s')"
  obtains t where "lifecycle_source s tid userID t"
    "t' = t\<lparr>t_Status := TransactionStatusReversed\<rparr>"
    "c = normalizeTransaction (reversal\<lparr>t_AccountID := t_AccountID t,
            t_RelatedAccountID := t_RelatedAccountID t, t_CategoryID := t_CategoryID t,
            t_Status := TransactionStatusConfirmed,
            t_SourceType := TransactionSourceReconciliationAdjustment,
            t_SourceRefID := Some (t_ID t)\<rparr>)"
    "ledger_change s
       (map (\<lambda>u. if t_ID u = tid then u\<lparr>t_Status := TransactionStatusReversed\<rparr> else u)
         (db_transactions s) @ [c]) s'"
  using assms
  by (simp add: TransactionRepository_ReverseForUser_def tx_simps Let_def, elim exE conjE)
    (rule that [OF find_lifecycle]; (assumption | erule sym | (hypsubst, rule ledger_changeI, rule refl) | simp))

lemma ledger_status_update:
  assumes "distinct (map t_ID txs)" "t \<in> set txs" "AffectsBalance (t_Status t)"
  shows "ledger val a (map (\<lambda>u. if t_ID u = t_ID t then u\<lparr>t_Status := status\<rparr> else u) txs) =
    ledger val a txs - (if t_AccountID t = a \<and> \<not> AffectsBalance status then signed val t else 0)"
proof -
  have "signed val (t\<lparr>t_Status := status\<rparr>) = signed val t" by (simp add: signed_def)
  then show ?thesis
    using ledger_update [where f = "\<lambda>u. u\<lparr>t_Status := status\<rparr>", OF assms(1,2)] assms(3)
    by (simp add: counts_def)
qed

lemma ReverseForUser_Inr:
  assumes "TransactionService_ReverseForUser D rid eid1 eid2 now userID transactionID s = (Inr r, s')"
  shows "\<exists>original.
    find (\<lambda>t. t_ID t = TrimSpace transactionID \<and> owned_by s (TrimSpace userID) t) (db_transactions s) = Some original \<and>
    TransactionRepository_ReverseForUser D eid1 eid2 now (TrimSpace transactionID) (TrimSpace userID)
      (reversalOf D rid now original) s = (Inr r, s')"
  using assms
  by (simp add: TransactionService_ReverseForUser_def TransactionRepository_GetByIDForUser_def tx_simps)
    blast

lemma signed_adjustment: "t_Type t = TransactionTypeAdjustment \<Longrightarrow> signed val t = val (t_Amount t)"
  by (simp add: signed_def)

section \<open>Creation\<close>

lemma distinct_remdups_adj_sorted: "sorted xs \<Longrightarrow> distinct (remdups_adj xs)"
proof (induction xs rule: remdups_adj.induct)
  case (3 x y xs)
  then show ?case by (auto simp: dual_order.antisym)
qed simp_all

text \<open>A lock that succeeds: every account is there, owned by the user, active, and opened by
  the day of the transaction.\<close>

lemma lockTransactionAccountsForUser_Inr:
  assumes lock: "lockTransactionAccountsForUser userID accountIDs tm s = (Inr (), s')"
    and dist: "distinct (map a_ID (db_accounts s))" and two: "length accountIDs \<le> 2"
    and i: "i \<in> set accountIDs"
  obtains a where "a \<in> set (db_accounts s)" "has_owner i userID a" "a_IsActive a"
    "IsZero tm \<or> date_day (a_OpenedAt a) \<le> date_day tm"
proof -
  define ids where "ids = remdups_adj (sort accountIDs)"
  have ids: "distinct ids" "set ids = set accountIDs"
    by (simp_all add: ids_def distinct_remdups_adj_sorted)
  have "length ids \<le> length accountIDs" unfolding ids_def by (metis length_sort remdups_adj_length)
  with two have "length ids \<le> 2" by simp
  moreover have "ids \<noteq> []" using i ids(2) by force
  ultimately have q: "(if length ids = 2 then ids else [hd ids]) = ids"
    by (cases ids; cases "tl ids") auto
  define rows where "rows = filter (\<lambda>a. a_ID a \<in> set ids \<and> a_OwnerUserID a = Some userID) (db_accounts s)"
  have len: "length rows = length ids" and act: "\<forall>a\<in>set rows. a_IsActive a"
    and opn: "\<forall>a\<in>set rows. IsZero tm \<or> \<not> Before (dateOnly tm) (dateOnly (a_OpenedAt a))"
    using lock \<open>ids \<noteq> []\<close> q
    by (auto simp: lockTransactionAccountsForUser_def ids_def [symmetric] Let_def rows_def list_ex_iff)
  have "distinct (map a_ID rows)" using dist by (simp add: rows_def distinct_map_filter)
  moreover have "set (map a_ID rows) \<subseteq> set ids" by (auto simp: rows_def)
  ultimately have "set (map a_ID rows) = set ids"
    using len ids(1) by (metis card_subset_eq distinct_card length_map List.finite_set)
  with i ids(2) obtain a where a: "a \<in> set rows" "a_ID a = i" by force
  with act opn show thesis
    by (intro that [of a]) (auto simp: rows_def has_owner_def dateOnly_day_time not_less)
qed

lemma create_Inr:
  assumes "TransactionRepository_CreateForUser D eid now userID t0 s = (Inr t, s')"
  shows "t = normalizeTransaction t0 \<and> transaction_checks D t \<and>
    lockTransactionAccountsForUser userID
      (t_AccountID t0 # (case t_RelatedAccountID t0 of None \<Rightarrow> [] | Some r \<Rightarrow> [r])) (t_OccurredAt t0) s =
      (Inr (), s) \<and>
    ledger_change s (db_transactions s @ [t]) s'"
proof -
  have pure: "lockTransactionAccountsForUser u ids tm s = (r, x) \<Longrightarrow> x = s" for u ids tm r x
    by (auto simp: lockTransactionAccountsForUser_def Let_def split: if_splits)
  show ?thesis
    using assms
    by (simp add: TransactionRepository_CreateForUser_def tx_simps, elim exE conjE)
      (frule pure, hypsubst, simp add: ledger_changeI)
qed

lemma buildTransaction_Inr:
  assumes "buildTransaction D uuidParse ctx tid now (Some req) allowTransfer = Inr t"
  shows "t_ID t = tid \<and> t_TransferID t = None \<and> t_Status t = TransactionStatusConfirmed \<and>
    t_Type t = ct_Type req \<and> t_Amount t = ct_Amount req \<and> t_AccountID t = TrimSpace (ct_AccountID req) \<and>
    t_RelatedAccountID t = ct_RelatedAccountID req \<and> t_CategoryID t = ct_CategoryID req \<and>
    TransactionSource_IsValid (t_SourceType t) \<and> t_SourceMetadata t \<noteq> [] \<and>
    (ct_SourceMetadata req = TrimSpace (ct_SourceMetadata req) \<longrightarrow> json_object (t_SourceMetadata t)) \<and>
    t_OccurredAt t = (if IsZero (ct_OccurredAt req) then now else ct_OccurredAt req) \<and>
    transaction_ValidateCreate D now (Some
       \<lparr>tv_AccountID = ct_AccountID req, tv_Type = t_Type t, tv_Amount = t_Amount t,
        tv_Currency = ct_Currency req, tv_OccurredAt = t_OccurredAt t,
        tv_AccountOpened = ct_AccountOpenedAt req, tv_Now = zero_time,
        tv_AllowFuture = ct_AllowFutureDate req, tv_AllowTransfer = allowTransfer\<rparr>) = Inr ()"
proof (cases "transaction_ValidateCreate D now (Some
       \<lparr>tv_AccountID = ct_AccountID req, tv_Type = ct_Type req, tv_Amount = ct_Amount req,
        tv_Currency = ct_Currency req,
        tv_OccurredAt = (if IsZero (ct_OccurredAt req) then now else ct_OccurredAt req),
        tv_AccountOpened = ct_AccountOpenedAt req, tv_Now = zero_time,
        tv_AllowFuture = ct_AllowFutureDate req, tv_AllowTransfer = allowTransfer\<rparr>)")
  case (Inl e)
  with assms show ?thesis by (simp add: buildTransaction_def Let_def)
next
  case (Inr u)
  have m: "m = TrimSpace m \<Longrightarrow> json_Valid (TrimSpace m) \<Longrightarrow> m \<noteq> [] \<Longrightarrow> hd (TrimSpace m) = CHR ''{'' \<Longrightarrow>
      json_object m" for m by (metis json_object_def)
  have src: "TransactionSource_IsValid TransactionSourceManual" by (simp add: TransactionSource_IsValid_def)
  from assms Inr show ?thesis
    by (auto simp: buildTransaction_def Let_def src intro: m json_object_empty split: if_splits option.splits)
qed

lemma CreateForUser_Inr:
  assumes "TransactionService_CreateForUser D uuidParse ctx tid eid now userID r s = (Inr t, s')"
  shows "\<exists>req t0. buildTransaction D uuidParse ctx tid now (Some req) False = Inr t0 \<and>
    TransactionRepository_CreateForUser D eid now (TrimSpace userID) t0 s = (Inr t, s')"
proof -
  have pure: "x = s" if "resolveCreateRequest u r s = (Inr q, x)" for u q x
    using that keepsD [where P = "\<lambda>y. y = s", OF keeps_resolve] by blast
  show ?thesis
    using assms
    by (simp add: TransactionService_CreateForUser_def Let_def tx_simps, elim exE conjE)
      (frule pure, blast)
qed

context decimal_pkg
begin

text \<open>What the service builds, the table accepts.\<close>

lemma buildTransaction_checks:
  assumes "buildTransaction D uuidParse ctx tid now (Some req) False = Inr t"
    "ct_SourceMetadata req = TrimSpace (ct_SourceMetadata req)"
  shows "transaction_checks D t"
proof -
  note b = buildTransaction_Inr [OF assms(1)]
  then obtain w where w: "transaction_ValidateCreate D now (Some w) = Inr ()" "tv_Type w = t_Type t"
      "tv_Amount w = t_Amount t" "\<not> tv_AllowTransfer w"
    by (elim conjE) (rule that, assumption, simp_all)
  then have v: "val (t_Amount t) \<noteq> 0" "\<bar>val (t_Amount t)\<bar> \<le> 1000000000000" "ValidType (t_Type t)"
    "\<not> IsTransferType (t_Type t)" "t_Type t \<noteq> TransactionTypeAdjustment \<longrightarrow> 0 < val (t_Amount t)"
    unfolding transaction_ValidateCreate_ok_iff by simp_all
  from v have "- 1000000000000 \<le> val (t_Amount t)" "val (t_Amount t) \<le> 1000000000000" by linarith+
  with v b assms(2) show ?thesis
    by (intro transaction_checksI) (simp_all add: TransactionStatus_IsValid_def not_less)
qed

end

section \<open>Properties\<close>

text \<open>What \<^verbatim>\<open>buildTransaction\<close> accepts, outside the transfer flow, satisfies every check
  constraint of the transactions table, has at most six decimal places and at most
  \<open>10 ^ 12\<close> in absolute value, is confirmed, belongs to no transfer, and (unless a future
  date is allowed) does not lie in the future.\<close>

theorem buildTransaction_row_valid:
  assumes "decimal_pkg D val"
    "buildTransaction D uuidParse ctx tid now (Some req) False = Inr t"
    "ct_SourceMetadata req = TrimSpace (ct_SourceMetadata req)"
  shows "transaction_checks D t \<and> has_scale 6 (val (t_Amount t)) \<and> \<bar>val (t_Amount t)\<bar> \<le> 10 ^ 12 \<and>
    t_Status t = TransactionStatusConfirmed \<and> t_TransferID t = None \<and>
    (\<not> ct_AllowFutureDate req \<longrightarrow> t_ns (t_OccurredAt t) \<le> t_ns now) \<and>
    (IsZero (ct_AccountOpenedAt req) \<or> date_day (ct_AccountOpenedAt req) \<le> date_day (t_OccurredAt t))"
proof -
  note b = buildTransaction_Inr [OF assms(2)]
  then have v: "transaction_ValidateCreate D now (Some
       \<lparr>tv_AccountID = ct_AccountID req, tv_Type = t_Type t, tv_Amount = t_Amount t,
        tv_Currency = ct_Currency req, tv_OccurredAt = t_OccurredAt t,
        tv_AccountOpened = ct_AccountOpenedAt req, tv_Now = zero_time,
        tv_AllowFuture = ct_AllowFutureDate req, tv_AllowTransfer = False\<rparr>) = Inr ()" by blast
  have z: "IsZero zero_time" by (simp add: zero_time_def IsZero_def)
  have "t_Status t = TransactionStatusConfirmed" "t_TransferID t = None" using b by blast+
  then show ?thesis
    using decimal_pkg.buildTransaction_checks [OF assms] decimal_pkg.valid_amount_storage [OF assms(1) v]
      v [unfolded decimal_pkg.transaction_ValidateCreate_ok_iff [OF assms(1)]] z
    by simp
qed

lemma TrimSpace_t1: "TrimSpace ''t1'' = ''t1''" "TrimSpace ''U'' = ''U''"
  by code_simp+

definition sample_request :: "dec CreateTransactionRequest" where
  "sample_request =
     \<lparr>ct_AccountID = ''A'', ct_RelatedAccountID = None, ct_Type = TransactionTypeIncome,
      ct_Amount = Dec 2550 2, ct_Currency = ''RUB'', ct_CategoryID = None, ct_SourceType = '''',
      ct_SourceRefID = None, ct_SourceMetadata = '''', ct_Description = ''salary'',
      ct_OccurredAt = day_time 738000, ct_AccountOpenedAt = day_time 737000,
      ct_AllowFutureDate = False\<rparr>"

theorem buildTransaction_row_valid_witness:
  "\<exists>t. buildTransaction dec_ops (\<lambda>_. True) None ''n'' (day_time 738001) (Some sample_request) False = Inr t \<and>
     transaction_checks dec_ops t"
proof -
  let ?b = "buildTransaction dec_ops (\<lambda>_. True) None ''n'' (day_time 738001) (Some sample_request) False"
  have "isOk ?b" by code_simp
  then obtain t where t: "?b = Inr t" by (auto simp: isOk_iff)
  from buildTransaction_row_valid [OF decimal_pkg_dec t] have "transaction_checks dec_ops t"
    by (simp add: sample_request_def)
  with t show ?thesis by blast
qed

text \<open>C7. Creating a transaction for a user appends exactly that transaction, confirmed and outside
  any transfer, to an active account the user owns and that was opened by then; the balance of
  that account moves by the signed amount and no other balance changes, and the database
  invariant holds afterwards.\<close>

theorem CreateForUser_effect:
  assumes "decimal_pkg D val" "ledger_ok D s"
    "TransactionService_CreateForUser D uuidParse ctx tid eid now userID r s = (Inr t, s')"
  shows "t_ID t = tid \<and> t_Status t = TransactionStatusConfirmed \<and> \<not> IsTransferType (t_Type t) \<and>
    db_transactions s' = db_transactions s @ [t] \<and> db_accounts s' = db_accounts s \<and>
    db_transfers s' = db_transfers s \<and> ledger_ok D s' \<and>
    (\<exists>a\<in>set (db_accounts s). has_owner (t_AccountID t) (TrimSpace userID) a \<and> a_IsActive a \<and>
       (IsZero (t_OccurredAt t) \<or> date_day (a_OpenedAt a) \<le> date_day (t_OccurredAt t))) \<and>
    (\<forall>a. ledger val a (db_transactions s') =
       ledger val a (db_transactions s) + (if t_AccountID t = a then signed val t else 0))"
proof -
  obtain req t0 where b: "buildTransaction D uuidParse ctx tid now (Some req) False = Inr t0"
    and c: "TransactionRepository_CreateForUser D eid now (TrimSpace userID) t0 s = (Inr t, s')"
    using CreateForUser_Inr [OF assms(3)] by blast
  note c' = create_Inr [OF c]
  have t: "t_Status t = TransactionStatusConfirmed" "t_ID t = tid" "t_TransferID t = None"
    "transaction_checks D t"
    using c' buildTransaction_Inr [OF b] by (auto simp: normalizeTransaction_def)
  have "ledger_ok D s'" using keepsD [OF transaction_create.keeps_ledger assms(2) c] .
  moreover have "\<not> IsTransferType (t_Type t)"
    using t(3,4) by (auto simp: transaction_checks_def IsTransferType_def)
  moreover obtain a where "a \<in> set (db_accounts s)" "has_owner (t_AccountID t0) (TrimSpace userID) a"
    "a_IsActive a" "IsZero (t_OccurredAt t0) \<or> date_day (a_OpenedAt a) \<le> date_day (t_OccurredAt t0)"
    using c' assms(2)
    by (elim conjE lockTransactionAccountsForUser_Inr) (auto simp: ledger_ok_def rows_ok_def split: option.split)
  ultimately show ?thesis
    using c' t ledger_change_fields [of s "db_transactions s @ [t]" s']
    by (auto simp: ledger_Cons counts_def AffectsBalance_def)
qed

definition sample_built :: "dec Transaction" where
  "sample_built = (sample_transaction ''n'' ''A'' ''income'' (Dec 2550 2))\<lparr>t_Description := ''salary'',
     t_CreatedAt := day_time 738001\<rparr>"

theorem CreateForUser_effect_witness:
  "let r = TransactionService_CreateForUser dec_ops (\<lambda>_. True) None ''n'' ''e1'' (day_time 738001) ''U''
         (Some sample_request) sample_db
   in isOk (fst r) \<and> ledger dval ''A'' (db_transactions (snd r)) = 2051 / 2"
proof -
  let ?r = "TransactionService_CreateForUser dec_ops (\<lambda>_. True) None ''n'' ''e1'' (day_time 738001) ''U''
         (Some sample_request) sample_db"
  let ?c = "TransactionRepository_CreateForUser dec_ops ''e1'' (day_time 738001) ''U'' sample_built sample_db"
  have res: "resolveCreateRequest ''U'' (Some sample_request) sample_db = (Inr sample_request, sample_db)"
    by code_simp
  have bld: "buildTransaction dec_ops (\<lambda>_. True) None ''n'' (day_time 738001) (Some sample_request) False =
      Inr sample_built" by code_simp
  have "fst ?c = Inr sample_built" and inv: "ledger_ok dec_ops sample_db" by code_simp+
  then have "?c = (Inr sample_built, snd ?c)" by (metis prod.collapse)
  then have "?r = (Inr sample_built, snd ?c)"
    by (simp add: TransactionService_CreateForUser_def Let_def TrimSpace_t1 sbind_def res bld swrap_eval(1))
  then have r: "?r = (Inr sample_built, snd ?r)" by (metis snd_conv)
  have "ledger dval ''A'' (db_transactions (snd ?r)) = ledger dval ''A'' (db_transactions sample_db) +
      (if t_AccountID sample_built = ''A'' then signed dval sample_built else 0)"
    using CreateForUser_effect [OF decimal_pkg_dec inv r] by blast
  also have "\<dots> = 2051 / 2" by code_simp
  finally have "ledger dval ''A'' (db_transactions (snd ?r)) = 2051 / 2" .
  moreover have "isOk (fst ?r)" using r by (metis fst_conv isOk_simps(2))
  ultimately show ?thesis by (simp only: Let_def simp_thms)
qed

text \<open>C25. Cancelling or deleting succeeds only for a confirmed manual transaction outside any
  transfer, in an account of the user; it changes the status of that transaction and nothing
  else in the ledger, and takes its contribution, and only that, out of the balances.\<close>

theorem status_update_effect:
  assumes "decimal_pkg D val" "ledger_ok D s"
    "status = TransactionStatusCancelled \<or> status = TransactionStatusSoftDeleted"
    "updateManualTransactionStatusForUser D eid now tid userID status ev s = (Inr t', s')"
  shows "\<exists>t. lifecycle_source s tid userID t \<and> t' = t\<lparr>t_Status := status\<rparr> \<and>
    ledger_change s (map (\<lambda>u. if t_ID u = tid then u\<lparr>t_Status := status\<rparr> else u) (db_transactions s)) s' \<and>
    ledger_ok D s' \<and>
    (\<forall>a. ledger val a (db_transactions s') =
       ledger val a (db_transactions s) - (if t_AccountID t = a then signed val t else 0))"
proof -
  obtain t where t: "lifecycle_source s tid userID t" "t' = t\<lparr>t_Status := status\<rparr>"
    and s': "ledger_change s (map (\<lambda>u. if t_ID u = tid then u\<lparr>t_Status := status\<rparr> else u) (db_transactions s)) s'"
    using assms(4) by (rule status_update_Inr)
  have "\<not> AffectsBalance status" using assms(3) by (auto simp: AffectsBalance_def)
  moreover have "distinct (map t_ID (db_transactions s))" using assms(2) by (simp add: ledger_ok_def rows_ok_def)
  moreover have "t \<in> set (db_transactions s)" "t_ID t = tid" "AffectsBalance (t_Status t)"
    using t(1) by (simp_all add: lifecycle_source_def AffectsBalance_def)
  ultimately have "ledger val a (db_transactions s') =
      ledger val a (db_transactions s) - (if t_AccountID t = a then signed val t else 0)" for a
    using ledger_status_update [of "db_transactions s" t val a status] ledger_change_fields(1) [OF s'] by simp
  moreover have "ledger_ok D s'" using keepsD [OF transaction_status.keeps_ledger assms(2,4)] .
  ultimately show ?thesis using t s' by blast
qed

theorem status_update_effect_witness:
  "let r = updateManualTransactionStatusForUser dec_ops ''e1'' (day_time 738002) ''t1'' ''U''
         TransactionStatusCancelled ''transaction.cancelled'' sample_db
   in isOk (fst r) \<and> (\<exists>t. lifecycle_source sample_db ''t1'' ''U'' t) \<and> ledger_ok dec_ops (snd r)"
proof -
  let ?r = "updateManualTransactionStatusForUser dec_ops ''e1'' (day_time 738002) ''t1'' ''U''
         TransactionStatusCancelled ''transaction.cancelled'' sample_db"
  have ok: "isOk (fst ?r)" and inv: "ledger_ok dec_ops sample_db" by code_simp+
  then obtain t where "?r = (Inr t, snd ?r)" by (metis isOk_iff prod.collapse)
  from status_update_effect [OF decimal_pkg_dec inv _ this] ok show ?thesis by (auto simp: Let_def)
qed

text \<open>C6. A reversal succeeds only for a confirmed manual transaction outside any transfer, in an
  account of the user. It keeps the original, marked reversed, and appends one adjustment that
  refers to it, so that the balance of the account loses exactly the contribution of the
  original and no other balance changes.\<close>

theorem ReverseForUser_effect:
  assumes "decimal_pkg D val" "ledger_ok D s"
    "TransactionService_ReverseForUser D rid eid1 eid2 now userID transactionID s = (Inr (t', c), s')"
  shows "\<exists>t. lifecycle_source s (TrimSpace transactionID) (TrimSpace userID) t \<and>
    t' = t\<lparr>t_Status := TransactionStatusReversed\<rparr> \<and>
    t_ID c = rid \<and> t_AccountID c = t_AccountID t \<and> t_Type c = TransactionTypeAdjustment \<and>
    t_SourceRefID c = Some (t_ID t) \<and> val (t_Amount c) = - signed val t \<and>
    ledger_change s
      (map (\<lambda>u. if t_ID u = t_ID t then u\<lparr>t_Status := TransactionStatusReversed\<rparr> else u)
        (db_transactions s) @ [c]) s' \<and>
    ledger_ok D s' \<and>
    (\<forall>a. ledger val a (db_transactions s') =
       ledger val a (db_transactions s) - (if t_AccountID t = a then signed val t else 0))"
proof -
  let ?tid = "TrimSpace transactionID" and ?u = "TrimSpace userID"
  obtain q where q: "find (\<lambda>t. t_ID t = ?tid \<and> owned_by s ?u t) (db_transactions s) = Some q"
    and rep: "TransactionRepository_ReverseForUser D eid1 eid2 now ?tid ?u (reversalOf D rid now q) s = (Inr (t', c), s')"
    using ReverseForUser_Inr [OF assms(3)] by blast
  obtain t where t: "lifecycle_source s ?tid ?u t" "t' = t\<lparr>t_Status := TransactionStatusReversed\<rparr>"
    and c: "c = normalizeTransaction ((reversalOf D rid now q)\<lparr>t_AccountID := t_AccountID t,
            t_RelatedAccountID := t_RelatedAccountID t, t_CategoryID := t_CategoryID t,
            t_Status := TransactionStatusConfirmed,
            t_SourceType := TransactionSourceReconciliationAdjustment,
            t_SourceRefID := Some (t_ID t)\<rparr>)"
    and s': "ledger_change s
      (map (\<lambda>u. if t_ID u = ?tid then u\<lparr>t_Status := TransactionStatusReversed\<rparr> else u)
        (db_transactions s) @ [c]) s'"
    using rep by (rule reverse_Inr)
  have dist: "distinct (map t_ID (db_transactions s))" using assms(2) by (simp add: ledger_ok_def rows_ok_def)
  have mem: "t \<in> set (db_transactions s)" "t_ID t = ?tid" "AffectsBalance (t_Status t)"
    using t(1) by (simp_all add: lifecycle_source_def AffectsBalance_def)
  have "q \<in> set (db_transactions s)" "t_ID q = ?tid" using q by (auto simp: find_Some_iff)
  with dist mem have "q = t" by (metis distinct_map inj_on_def)
  then have f: "t_ID c = rid" "t_AccountID c = t_AccountID t" "t_Type c = TransactionTypeAdjustment"
    "t_SourceRefID c = Some (t_ID t)" "t_Status c = TransactionStatusConfirmed"
    "val (t_Amount c) = - signed val t"
    by (simp_all add: c normalizeTransaction_def reversalOf_def decimal_pkg.val_Neg [OF assms(1)]
        decimal_pkg.transactionDeltaForReversal_signed [OF assms(1)])
  have "ledger val a (db_transactions s') =
      ledger val a (db_transactions s) - (if t_AccountID t = a then signed val t else 0)" for a
    using ledger_status_update [OF dist mem(1,3), of val a TransactionStatusReversed]
      ledger_change_fields(1) [OF s'] f mem(2)
    by (simp add: ledger_Cons counts_def AffectsBalance_def signed_adjustment)
  moreover have "ledger_ok D s'" using keepsD [OF transaction_reverse.keeps_ledger assms(2) rep] .
  ultimately show ?thesis using t s' f mem(2) by auto
qed

theorem ReverseForUser_effect_witness:
  "let r = TransactionService_ReverseForUser dec_ops ''n'' ''e1'' ''e2'' (day_time 738002) ''U'' ''t1'' sample_db
   in isOk (fst r) \<and> ledger_ok dec_ops (snd r) \<and> ledger dval ''A'' (db_transactions (snd r)) = 0"
proof -
  let ?r = "TransactionService_ReverseForUser dec_ops ''n'' ''e1'' ''e2'' (day_time 738002) ''U'' ''t1'' sample_db"
  have ok: "isOk (fst ?r)" and inv: "ledger_ok dec_ops sample_db" by code_simp+
  then obtain t c where "?r = (Inr (t, c), snd ?r)" by (metis isOk_iff prod.collapse)
  from ReverseForUser_effect [OF decimal_pkg_dec inv this] obtain u where
    u: "lifecycle_source sample_db ''t1'' ''U'' u" "ledger_ok dec_ops (snd ?r)"
    "ledger dval ''A'' (db_transactions (snd ?r)) =
       ledger dval ''A'' (db_transactions sample_db) - (if t_AccountID u = ''A'' then signed dval u else 0)"
    using TrimSpace_t1 by auto
  have "u = sample_transaction ''t1'' ''A'' ''income'' (Dec 100000 2)"
    using u(1) by (simp add: lifecycle_source_def sample_db_def empty_db_def)
  with u(2,3) ok show ?thesis
    by (simp add: Let_def sample_db_def empty_db_def sample_transaction_def ledger_def counts_def
        AffectsBalance_def signed_def dval_def)
qed

text \<open>C8. The three computations of a balance agree: the SQL balance of a source account, the SQL
  balance of an account of a user and \<^verbatim>\<open>BalanceService.Calculate\<close> on the stored transactions all
  give the ledger's balance.\<close>

theorem balances_agree:
  assumes "decimal_pkg D val" "rows_ok D s" "accountID \<noteq> ''''"
  shows "\<exists>b c. transferSourceBalance D accountID s = (Inr b, s) \<and>
    Calculate D None accountID (db_transactions s) =
      Inr \<lparr>cb_AccountID = accountID, cb_Balance = c,
        cb_Count = int (length (filter (counts accountID) (db_transactions s)))\<rparr> \<and>
    val b = ledger val accountID (db_transactions s) \<and> val c = ledger val accountID (db_transactions s) \<and>
    (\<forall>userID r s'. AccountService_BalanceForUser D accountID userID s = (Inr r, s') \<longrightarrow>
       TrimSpace accountID = accountID \<longrightarrow>
       val (ab_Balance r) = val c \<and>
       ab_TransactionCount r = int (length (filter (counts accountID) (db_transactions s))))"
proof -
  have "\<forall>t\<in>set (db_transactions s). counts accountID t \<longrightarrow> ValidType (t_Type t)"
    using assms(2) by (auto simp: rows_ok_def list_all_iff intro: transaction_checksD)
  from decimal_pkg.Calculate_ledger [OF assms(1,3) this]
    decimal_pkg.transferSourceBalance_ledger [OF assms(1,2), of accountID]
    decimal_pkg.BalanceForUser_ledger [OF assms(1,2), of accountID]
  show ?thesis by fastforce
qed

theorem balances_agree_witness:
  "\<exists>b. transferSourceBalance dec_ops ''A'' sample_db = (Inr b, sample_db) \<and> dval b = 1000"
proof -
  have inv: "rows_ok dec_ops sample_db" by code_simp
  have "ledger dval ''A'' (db_transactions sample_db) = 1000" by code_simp
  with balances_agree [OF decimal_pkg_dec inv, of "''A''"] show ?thesis by auto
qed

end
