(* ===== verification/Transaction_Query.thy ===== *)
theory Transaction_Query
  imports Transactions
begin

text \<open>
  Listing transactions by filter, search and page: \<^verbatim>\<open>internal/services/transaction_query.go\<close> and
  \<^verbatim>\<open>ListByUserFiltered\<close> of \<^verbatim>\<open>internal/postgres/transactions.go\<close>. \<open>like\<close> is the \<^verbatim>\<open>LIKE\<close> of PostgreSQL
  with the escape character of the query; a bare underscore, which stands for one character, does
  not occur in the patterns the code builds. \<^verbatim>\<open>lower\<close> maps the ASCII letters, as \<open>ToLower\<close> does.

  The lemmas show that the escaped pattern finds exactly the texts that contain the search, that
  the pages of a list are its consecutive pieces, and that a filtered list holds transactions of
  the user only.
\<close>

section \<open>Patterns\<close>

function like :: "string \<Rightarrow> string \<Rightarrow> bool" where
  "like [] s = (s = [])"
| "like (p # ps) s =
     (if p = CHR ''%'' then like ps s \<or> (if s = [] then False else like (p # ps) (tl s))
      else if p = CHR ''_'' then (if s = [] then False else like ps (tl s))
      else if p = CHR 0x5C then (if ps = [] \<or> s = [] \<or> hd s \<noteq> hd ps then False else like (tl ps) (tl s))
      else if s = [] \<or> hd s \<noteq> p then False else like ps (tl s))"
  by pat_completeness auto
termination
  by (relation "measures [\<lambda>(p, s). length p + length s]") (auto simp: neq_Nil_conv)

declare like.simps [simp del]

text \<open>\<^verbatim>\<open>strings.NewReplacer\<close> with the three escapes.\<close>

definition escape_char :: "char \<Rightarrow> string" where
  "escape_char c = (if c \<in> {CHR 0x5C, CHR ''%'', CHR ''_''} then [CHR 0x5C, c] else [c])"

definition escapeSearch :: "string \<Rightarrow> string" where
  "escapeSearch s = concat (map escape_char s)"

text \<open>\<^verbatim>\<open>lower(x) LIKE '%' || $n || '%' ESCAPE '\'\<close> and \<^verbatim>\<open>strpos(lower(x), $n) > 0\<close>\<close>

definition lower_like :: "string \<Rightarrow> string \<Rightarrow> bool" where
  "lower_like placeholder x = like (CHR ''%'' # placeholder @ [CHR ''%'']) (ToLower x)"

definition lower_strpos :: "string \<Rightarrow> string \<Rightarrow> bool" where
  "lower_strpos placeholder x = sublist placeholder (ToLower x)"

section \<open>The query\<close>

record TransactionListFilter =
  tf_AccountID :: string
  tf_CategoryID :: string
  tf_Type :: TransactionType
  tf_Types :: "TransactionType list"
  tf_CategorizedOnly :: bool
  tf_FromDate :: time
  tf_ToDate :: time
  tf_Search :: string
  tf_Limit :: int
  tf_Page :: int
  tf_Offset :: int

definition no_filter :: TransactionListFilter where
  "no_filter = \<lparr>tf_AccountID = '''', tf_CategoryID = '''', tf_Type = '''', tf_Types = [], tf_CategorizedOnly = False,
     tf_FromDate = zero_time, tf_ToDate = zero_time, tf_Search = '''', tf_Limit = 0, tf_Page = 0, tf_Offset = 0\<rparr>"

definition transactionFilterDate :: "time \<Rightarrow> time" where
  "transactionFilterDate date = Date (Year date) (Month date) (Day date) 0 0"

text \<open>The condition on the search; the text of an amount has the eighteen decimals of its column.\<close>

definition search_matches :: "'d decimal_ops \<Rightarrow> 'd db \<Rightarrow> string \<Rightarrow> 'd Transaction \<Rightarrow> bool" where
  "search_matches D s search t =
     (lower_like search (t_Description t) \<or> lower_strpos search (t_Type t) \<or>
      lower_strpos search (d_StringFixed D (t_Amount t) 18) \<or> lower_strpos search (t_ID t) \<or>
      lower_strpos search (case t_TransferID t of Some x \<Rightarrow> x | None \<Rightarrow> '''') \<or>
      list_ex (\<lambda>a. a_ID a = t_AccountID t \<and>
        (lower_like search (a_Name a) \<or> lower_like search (a_Bank a) \<or> lower_strpos search (a_Currency a))) (db_accounts s) \<or>
      list_ex (\<lambda>c. Some (c_ID c) = t_CategoryID t \<and> (lower_like search (c_Name c) \<or> lower_like search (c_Slug c)))
        (db_categories s))"

definition filter_matches :: "'d decimal_ops \<Rightarrow> 'd db \<Rightarrow> string \<Rightarrow> TransactionListFilter \<Rightarrow> 'd Transaction \<Rightarrow> bool" where
  "filter_matches D s userID f t =
     (owned_by s userID t \<and>
      (TrimSpace (tf_AccountID f) \<noteq> '''' \<longrightarrow> t_AccountID t = TrimSpace (tf_AccountID f)) \<and>
      (TrimSpace (tf_CategoryID f) \<noteq> '''' \<longrightarrow> t_CategoryID t = Some (TrimSpace (tf_CategoryID f))) \<and>
      (if tf_Types f \<noteq> [] then t_Type t \<in> set (tf_Types f) else tf_Type f \<noteq> '''' \<longrightarrow> t_Type t = tf_Type f) \<and>
      (tf_CategorizedOnly f \<longrightarrow> t_CategoryID t \<noteq> None) \<and>
      (\<not> IsZero (tf_FromDate f) \<longrightarrow> \<not> Before (t_OccurredAt t) (transactionFilterDate (tf_FromDate f))) \<and>
      (\<not> IsZero (tf_ToDate f) \<longrightarrow> Before (t_OccurredAt t) (AddDate (transactionFilterDate (tf_ToDate f)) 0 0 1)) \<and>
      (TrimSpace (tf_Search f) \<noteq> '''' \<longrightarrow>
         search_matches D s (escapeSearch (ToLower (TrimSpace (tf_Search f)))) t))"

definition filter_limit :: "TransactionListFilter \<Rightarrow> int" where
  "filter_limit f = (let limit = (if tf_Limit f \<le> 0 then 50 else tf_Limit f) in if limit > 500 then 500 else limit)"

definition filter_offset :: "TransactionListFilter \<Rightarrow> int" where
  "filter_offset f =
     (if tf_Offset f > 0 \<or> tf_Page f > 1 then
        if tf_Offset f = 0 then ((if tf_Page f \<le> 0 then 1 else tf_Page f) - 1) * filter_limit f else tf_Offset f
      else 0)"

text \<open>PostgreSQL refuses a negative \<^verbatim>\<open>OFFSET\<close>.\<close>

definition ListByUserFiltered ::
  "'d decimal_ops \<Rightarrow> string \<Rightarrow> TransactionListFilter option \<Rightarrow> ('d, 'd Transaction list) dbstm" where
  "ListByUserFiltered D userID flt =
     (let f = (case flt of None \<Rightarrow> no_filter | Some f \<Rightarrow> f)
      in sread (\<lambda>s. if filter_offset f < 0 then Inl (PgError ''2201X'')
           else Inr (take (nat (filter_limit f)) (drop (nat (filter_offset f))
             (order_transactions (filter (filter_matches D s userID f) (db_transactions s)))))))"

abbreviation "defaultTransactionListLimit \<equiv> 50 :: int"
abbreviation "maxTransactionListLimit \<equiv> 500 :: int"
abbreviation "maxTransactionListOffset \<equiv> 100000 :: int"

definition normalizeFilter :: "TransactionListFilter \<Rightarrow> err + TransactionListFilter" where
  "normalizeFilter f =
     (let f = (if tf_Type f \<noteq> '''' \<and> tf_Types f = [] then f\<lparr>tf_Types := [tf_Type f]\<rparr> else f)
      in case find (\<lambda>ty. \<not> ValidType ty) (tf_Types f) of
           Some ty \<Rightarrow> Inl (validationError (''invalid type: '' @ ty))
         | None \<Rightarrow>
             echeck (\<not> IsZero (tf_FromDate f) \<and> \<not> IsZero (tf_ToDate f) \<and> Before (tf_ToDate f) (tf_FromDate f))
               (validationError ''to_date must be on or after from_date'')
             (echeck (tf_Limit f < 0 \<or> tf_Page f < 0) (validationError ''pagination values must be positive'')
             (let f = (if tf_Limit f = 0 then f\<lparr>tf_Limit := defaultTransactionListLimit\<rparr> else f)
              in echeck (tf_Limit f > maxTransactionListLimit) (validationError ''limit must not exceed 500'')
                 (let f = (if tf_Page f = 0 then f\<lparr>tf_Page := 1\<rparr> else f)
                  in echeck (tf_Offset f > maxTransactionListOffset \<or> tf_Page f > maxTransactionListOffset div tf_Limit f + 1)
                       (validationError ''pagination offset must not exceed 100000'')
                       (Inr f)))))"

definition TransactionQuery_ListByUser ::
  "'d decimal_ops \<Rightarrow> string \<Rightarrow> TransactionListFilter option \<Rightarrow> ('d, 'd Transaction list) dbstm" where
  "TransactionQuery_ListByUser D userID flt =
     sbind (slift (normalizeFilter (case flt of None \<Rightarrow> no_filter | Some f \<Rightarrow> f))) (\<lambda>f.
     swrap ''list filtered transactions'' (ListByUserFiltered D (TrimSpace userID) (Some f)))"

definition TransactionService_GetByIDForUser :: "string \<Rightarrow> string \<Rightarrow> ('d, 'd Transaction) dbstm" where
  "TransactionService_GetByIDForUser transactionID userID =
     swrap ''get transaction'' (TransactionRepository_GetByIDForUser (TrimSpace transactionID) (TrimSpace userID))"

section \<open>Search\<close>

text \<open>An escaped pattern between two percent signs finds the texts that contain what was escaped.\<close>

lemma like_escape_char: "like (escape_char c @ ps) s \<longleftrightarrow> s \<noteq> [] \<and> hd s = c \<and> like ps (tl s)"
proof -
  have one: "like (d # qs) s \<longleftrightarrow> s \<noteq> [] \<and> hd s = d \<and> like qs (tl s)" if "d \<notin> {CHR 0x5C, CHR ''%'', CHR ''_''}" for d qs
    by (subst like.simps) (use that in auto)
  have "like (CHR 0x5C # d # qs) s \<longleftrightarrow> s \<noteq> [] \<and> hd s = d \<and> like qs (tl s)" for d qs
    by (subst like.simps) auto
  with one show ?thesis by (simp add: escape_char_def)
qed

lemma like_any: "like [CHR ''%''] s"
proof (induction s)
  case Nil
  then show ?case by (subst like.simps) (simp add: like.simps(1))
next
  case (Cons c s)
  then show ?case by (subst like.simps) simp
qed

lemma like_escaped_prefix: "like (escapeSearch x @ [CHR ''%'']) s \<longleftrightarrow> prefix x s"
proof (induction x arbitrary: s)
  case Nil
  then show ?case by (simp add: escapeSearch_def like_any)
next
  case (Cons c x)
  have "like (escapeSearch (c # x) @ [CHR ''%'']) s \<longleftrightarrow> s \<noteq> [] \<and> hd s = c \<and> like (escapeSearch x @ [CHR ''%'']) (tl s)"
    by (simp add: escapeSearch_def like_escape_char)
  with Cons show ?case by (cases s) auto
qed

lemma like_percent: "like (CHR ''%'' # ps) s \<longleftrightarrow> (\<exists>t. suffix t s \<and> like ps t)"
proof (induction s)
  case Nil
  then show ?case by (subst like.simps) auto
next
  case (Cons c s)
  then show ?case by (subst like.simps) (auto simp: suffix_Cons)
qed

lemma lower_like_escaped: "lower_like (escapeSearch x) y \<longleftrightarrow> sublist x (ToLower y)"
  unfolding lower_like_def like_percent like_escaped_prefix sublist_altdef'
  by (auto simp: prefix_def suffix_def)

text \<open>The same escaped text is compared literally with types, ids and currencies: a search for the
  name of a type that holds an underscore does not find it there.\<close>

lemma escapeSearch_underscore: "CHR ''_'' \<in> set x \<Longrightarrow> CHR 0x5C \<in> set (escapeSearch x)"
  by (force simp: escapeSearch_def escape_char_def)

lemma search_misses_type:
  assumes "CHR ''_'' \<in> set x" "CHR 0x5C \<notin> set (ToLower y)"
  shows "\<not> lower_strpos (escapeSearch x) y"
  using escapeSearch_underscore [OF assms(1)] assms(2) set_mono_sublist [of "escapeSearch x" "ToLower y"]
  by (auto simp: lower_strpos_def)

section \<open>Pages\<close>

lemma concat_pages: "concat (map (\<lambda>i. take l (drop (i * l) xs)) [0..<n]) = take (n * l) xs"
proof (induction n)
  case 0
  then show ?case by simp
next
  case (Suc n)
  have "take (n * l + l) xs = take (n * l) xs @ take l (drop (n * l) xs)" by (rule take_add)
  with Suc show ?case by (simp add: add.commute)
qed

lemma normalizeFilter_Inr:
  assumes "normalizeFilter f = Inr g"
  shows "0 < tf_Limit g" "tf_Limit g \<le> 500" "1 \<le> tf_Page g" "tf_Page g \<le> 100000 div tf_Limit g + 1" "tf_Offset g = tf_Offset f"
    "filter_limit g = tf_Limit g"
  using assms by (auto simp: normalizeFilter_def filter_limit_def Let_def split: option.splits if_splits)

text \<open>The page is checked last, so a valid filter stays valid for every page within the bound.\<close>

lemma normalizeFilter_page:
  assumes "normalizeFilter f = Inr g" "1 \<le> p" "p \<le> 100000 div tf_Limit g + 1"
  shows "normalizeFilter (f\<lparr>tf_Page := p\<rparr>) = Inr (g\<lparr>tf_Page := p\<rparr>)"
  using assms by (auto simp: normalizeFilter_def Let_def split: option.splits if_splits)

lemma filter_matches_page [simp]: "filter_matches D s userID (f\<lparr>tf_Page := p\<rparr>) = filter_matches D s userID f"
  by (rule ext) (simp add: filter_matches_def)

lemma filter_limit_page [simp]: "filter_limit (f\<lparr>tf_Page := p\<rparr>) = filter_limit f"
  by (simp add: filter_limit_def)

lemma filter_offset_page: "tf_Offset f = 0 \<Longrightarrow> 1 \<le> p \<Longrightarrow> filter_offset (f\<lparr>tf_Page := p\<rparr>) = (p - 1) * filter_limit f"
  by (simp add: filter_offset_def)

lemma query_page:
  assumes "normalizeFilter f = Inr g" "tf_Offset f = 0" "1 \<le> p" "p \<le> 100000 div tf_Limit g + 1"
  shows "TransactionQuery_ListByUser D userID (Some (f\<lparr>tf_Page := p\<rparr>)) s =
    (Inr (take (nat (tf_Limit g)) (drop (nat (p - 1) * nat (tf_Limit g))
       (order_transactions (filter (filter_matches D s (TrimSpace userID) g) (db_transactions s))))), s)"
proof -
  note n = normalizeFilter_Inr [OF assms(1)]
  have "filter_offset (g\<lparr>tf_Page := p\<rparr>) = (p - 1) * tf_Limit g" using filter_offset_page [of g p] n assms by simp
  moreover have "\<not> (p - 1) * tf_Limit g < 0" using n(1) assms(3) by (simp add: not_less)
  ultimately show ?thesis
    using n assms(3)
    by (simp add: TransactionQuery_ListByUser_def normalizeFilter_page [OF assms(1,3,4)] sbind_def swrap_def ewrap_def emap_def
        ListByUserFiltered_def Let_def nat_mult_distrib)
qed

text \<open>C38. The pages of a listing are its consecutive pieces. For every filter the service accepts, each
  page up to the bound on the offset is returned, has at most the limit of rows (at most 500), and the
  pages put together are the beginning of the whole list: the transactions of the user that match, the
  latest first, without repetition or omission. A search finds a transaction if its text occurs in the
  description.\<close>

theorem listing_pages:
  assumes "normalizeFilter f = Inr g" "tf_Offset f = 0" "int n \<le> 100000 div tf_Limit g + 1"
    "pages = map (\<lambda>i. TransactionQuery_ListByUser D userID (Some (f\<lparr>tf_Page := int i + 1\<rparr>)) s) [0..<n]"
    "rows = order_transactions (filter (filter_matches D s (TrimSpace userID) g) (db_transactions s))"
  shows "(\<forall>page\<in>set pages. \<exists>ts. page = (Inr ts, s) \<and> int (length ts) \<le> tf_Limit g \<and> tf_Limit g \<le> 500) \<and>
    concat (map (\<lambda>page. case fst page of Inr ts \<Rightarrow> ts | Inl _ \<Rightarrow> []) pages) = take (n * nat (tf_Limit g)) rows \<and>
    (\<forall>t\<in>set rows. owned_by s (TrimSpace userID) t \<and> t \<in> set (db_transactions s)) \<and>
    (sublist (ToLower (TrimSpace (tf_Search g))) (ToLower (t_Description t)) \<longrightarrow>
       search_matches D s (escapeSearch (ToLower (TrimSpace (tf_Search g)))) t)"
proof -
  have page: "TransactionQuery_ListByUser D userID (Some (f\<lparr>tf_Page := int i + 1\<rparr>)) s =
      (Inr (take (nat (tf_Limit g)) (drop (i * nat (tf_Limit g)) rows)), s)" if "i \<in> set [0..<n]" for i
    using query_page [OF assms(1,2), of "int i + 1" D userID s] that assms(3,5) by simp
  have pages: "pages = map (\<lambda>i. (Inr (take (nat (tf_Limit g)) (drop (i * nat (tf_Limit g)) rows)), s)) [0..<n]"
    unfolding assms(4) by (rule map_cong [OF refl page])
  have "int (length (take (nat (tf_Limit g)) xs)) \<le> tf_Limit g" for xs :: "'a Transaction list"
    using normalizeFilter_Inr(1) [OF assms(1)] by simp
  then have "\<forall>page\<in>set pages. \<exists>ts. page = (Inr ts, s) \<and> int (length ts) \<le> tf_Limit g \<and> tf_Limit g \<le> 500"
    using normalizeFilter_Inr(2) [OF assms(1)] unfolding pages by fastforce
  moreover have "concat (map (\<lambda>page. case fst page of Inr ts \<Rightarrow> ts | Inl _ \<Rightarrow> []) pages) = take (n * nat (tf_Limit g)) rows"
    by (simp add: pages comp_def concat_pages)
  moreover have "\<forall>t\<in>set rows. owned_by s (TrimSpace userID) t \<and> t \<in> set (db_transactions s)"
    by (auto simp: assms(5) filter_matches_def)
  ultimately show ?thesis by (simp add: search_matches_def lower_like_escaped)
qed

theorem listing_pages_witness:
  "\<exists>ts. TransactionQuery_ListByUser dec_ops ''U'' (Some (no_filter\<lparr>tf_Page := 1\<rparr>)) sample_db = (Inr ts, sample_db) \<and>
     ts = take 50 (order_transactions (filter (filter_matches dec_ops sample_db ''U'' (no_filter\<lparr>tf_Limit := 50, tf_Page := 1\<rparr>))
       (db_transactions sample_db)))"
proof -
  have norm: "normalizeFilter no_filter = Inr (no_filter\<lparr>tf_Limit := 50, tf_Page := 1\<rparr>)" "TrimSpace ''U'' = ''U''" by code_simp+
  have bound: "int 1 \<le> 100000 div tf_Limit (no_filter\<lparr>tf_Limit := 50, tf_Page := 1\<rparr>) + 1" "tf_Offset no_filter = 0"
    by (simp_all add: no_filter_def)
  note pages = listing_pages [OF norm(1) bound(2,1) refl refl, of dec_ops "''U''" sample_db]
  have "\<exists>ts. TransactionQuery_ListByUser dec_ops ''U'' (Some (no_filter\<lparr>tf_Page := 1\<rparr>)) sample_db = (Inr ts, sample_db)"
    using conjunct1 [OF pages] by auto
  then show ?thesis using pages [THEN conjunct2, THEN conjunct1] by (auto simp: norm(2))
qed

end
