(* ===== verification/Interest_Engine.thy ===== *)
theory Interest_Engine
  imports Transactions
begin

text \<open>
  The interest engine of \<^verbatim>\<open>internal/services/interest_rule_service.go\<close>: which days a rule is
  active, when it pays and when it capitalizes, what a day earns, the accrual of one date
  (\<open>engine_Accrue\<close>), the recalculation of a range (\<open>engine_Recalculate\<close>, whose loop state is
  the record \<open>recalc\<close>) and the forecast. The engine reads no database: it works on the rule,
  the transactions and the accruals of its request. \<^verbatim>\<open>uuid.NewString()\<close> gives the pair of
  ids of the \<open>k\<close>-th posting of a run (\<open>ids k\<close>, the transaction's and the accrual's); the clock
  is read once.

  The day loops run over \<open>dayRange\<close>, so they end. The lemmas relate the days to day numbers,
  where a month is an interval: a monthly rule pays on one day of each month, the day
  recalculation starts from is the start of the accrual period of the first payment, and no
  day before the requested range pays.
\<close>

section \<open>Requests and responses\<close>

record 'd AccrueRuleInterestRequest =
  aq_Rule :: InterestRule
  aq_AccountName :: string
  aq_CategoryID :: string
  aq_Currency :: string
  aq_Balance :: 'd
  aq_AccrualDate :: time
  aq_Transactions :: "'d Transaction list"
  aq_ExistingAccruals :: "'d InterestAccrual list"

record 'd AccrueRuleInterestResponse =
  ap_Transaction :: "'d Transaction option"
  ap_Accrual :: "'d InterestAccrual option"
  ap_Skipped :: bool

record 'd RecalculateRuleInterestRequest =
  rq_Rule :: InterestRule
  rq_AccountName :: string
  rq_CategoryID :: string
  rq_Currency :: string
  rq_Transactions :: "'d Transaction list"
  rq_ExistingAccruals :: "'d InterestAccrual list"
  rq_FromDate :: time
  rq_ToDate :: time
  rq_Today :: time

record 'd RecalculateRuleInterestResponse =
  rp_AccountID :: string
  rp_RuleID :: string
  rp_FromDate :: time
  rp_ToDate :: time
  rp_DeletedAccruals :: int
  rp_CreatedAccruals :: int
  rp_SkippedDays :: int
  rp_TotalAmount :: 'd
  rp_Transactions :: "'d Transaction list"
  rp_Accruals :: "'d InterestAccrual list"

record 'd ForecastRuleInterestRequest =
  fq_Rule :: InterestRule
  fq_Currency :: string
  fq_Transactions :: "'d Transaction list"
  fq_ExistingAccruals :: "'d InterestAccrual list"
  fq_FromDate :: time
  fq_Days :: int
  fq_Today :: time

record 'd ForecastRuleInterestResponse =
  fp_AccountID :: string
  fp_RuleID :: string
  fp_FromDate :: time
  fp_ToDate :: time
  fp_Days :: int
  fp_ProjectedAmount :: 'd
  fp_ProjectedBalance :: 'd
  fp_Accruals :: "'d InterestAccrual list"

section \<open>Days of a rule\<close>

definition minDate :: "time \<Rightarrow> time \<Rightarrow> time" where
  "minDate a b = (let a = dateOnly a; b = dateOnly b in if Before a b then a else b)"

definition maxDate :: "time \<Rightarrow> time \<Rightarrow> time" where
  "maxDate a b = (let a = dateOnly a; b = dateOnly b in if After a b then a else b)"

definition isLeapYear :: "int \<Rightarrow> bool" where
  "isLeapYear year = (year mod 4 = 0 \<and> (year mod 100 \<noteq> 0 \<or> year mod 400 = 0))"

definition daysInYear :: "DayCountConvention \<Rightarrow> time \<Rightarrow> int" where
  "daysInYear convention date =
     (if convention = DayCountConventionActual366 then 366
      else if convention = DayCountConventionActualActual
      then (if isLeapYear (Year date) then 366 else 365)
      else 365)"

definition effectiveRateBps :: "InterestRule \<Rightarrow> time \<Rightarrow> int" where
  "effectiveRateBps rule date =
     (case (r_PromoRateBps rule, r_PromoEndDate rule) of
        (Some promo, Some promoEnd) \<Rightarrow>
          if \<not> After date (dateOnly promoEnd) then promo else r_AnnualRateBps rule
      | _ \<Rightarrow> r_AnnualRateBps rule)"

definition ruleActiveOn :: "InterestRule \<Rightarrow> time \<Rightarrow> bool" where
  "ruleActiveOn rule date =
     (if Before date (dateOnly (r_StartDate rule)) then False
      else case r_EndDate rule of
        Some endDate \<Rightarrow> \<not> After date (dateOnly endDate)
      | None \<Rightarrow> True)"

definition lastActiveDayOfMonth :: "InterestRule \<Rightarrow> time \<Rightarrow> time" where
  "lastActiveDayOfMonth rule date =
     (let date = dateOnly date;
          monthEnd = Date (Year date) (Month date + 1) 0 0 0
      in case r_EndDate rule of
           Some endDate \<Rightarrow> minDate monthEnd (dateOnly endDate)
         | None \<Rightarrow> monthEnd)"

definition isLastActiveDayOfMonth :: "InterestRule \<Rightarrow> time \<Rightarrow> bool" where
  "isLastActiveDayOfMonth rule date = TimeEqual (lastActiveDayOfMonth rule date) (dateOnly date)"

definition isEndOfTerm :: "InterestRule \<Rightarrow> time \<Rightarrow> bool" where
  "isEndOfTerm rule date =
     (case r_EndDate rule of
        Some endDate \<Rightarrow> TimeEqual (dateOnly endDate) (dateOnly date)
      | None \<Rightarrow> False)"

definition shouldPostAccrual :: "InterestRule \<Rightarrow> time \<Rightarrow> bool" where
  "shouldPostAccrual rule date =
     (let date = dateOnly date
      in if \<not> ruleActiveOn rule date then False
         else if r_AccrualFrequency rule = AccrualFrequencyMonthly
         then isLastActiveDayOfMonth rule date
         else if r_AccrualFrequency rule = AccrualFrequencyEndOfTerm then isEndOfTerm rule date
         else True)"

definition shouldCapitalizeOn :: "InterestRule \<Rightarrow> time \<Rightarrow> bool" where
  "shouldCapitalizeOn rule date =
     (if r_CapitalizationFrequency rule = CapitalizationFrequencyDaily then True
      else if r_CapitalizationFrequency rule = CapitalizationFrequencyMonthly
      then isLastActiveDayOfMonth rule date
      else if r_CapitalizationFrequency rule = CapitalizationFrequencyEndOfTerm
      then isEndOfTerm rule date
      else False)"

definition capitalizationDateForAccrual :: "InterestRule \<Rightarrow> time \<Rightarrow> time option" where
  "capitalizationDateForAccrual rule accrualDate =
     (let accrualDate = dateOnly accrualDate
      in if \<not> ruleActiveOn rule accrualDate then None
         else if r_CapitalizationFrequency rule = CapitalizationFrequencyDaily then Some accrualDate
         else if r_CapitalizationFrequency rule = CapitalizationFrequencyMonthly
         then Some (lastActiveDayOfMonth rule accrualDate)
         else if r_CapitalizationFrequency rule = CapitalizationFrequencyEndOfTerm
         then (case r_EndDate rule of None \<Rightarrow> None | Some endDate \<Rightarrow> Some (dateOnly endDate))
         else None)"

definition accrualCapitalizedBy :: "InterestRule \<Rightarrow> time \<Rightarrow> time \<Rightarrow> bool" where
  "accrualCapitalizedBy rule accrualDate asOfDate =
     (if IsZero asOfDate then shouldCapitalizeOn rule accrualDate
      else case capitalizationDateForAccrual rule accrualDate of
        Some capitalizationDate \<Rightarrow> Before capitalizationDate asOfDate
      | None \<Rightarrow> False)"

definition accrualPeriodStart :: "InterestRule \<Rightarrow> time \<Rightarrow> time" where
  "accrualPeriodStart rule date =
     (let date = dateOnly date; start = dateOnly (r_StartDate rule)
      in if r_AccrualFrequency rule = AccrualFrequencyMonthly
         then maxDate start (Date (Year date) (Month date) 1 0 0)
         else if r_AccrualFrequency rule = AccrualFrequencyEndOfTerm then start
         else date)"

text \<open>The loop of \<^verbatim>\<open>recalculationStartDate\<close> returns at the first paying day.\<close>

definition recalculationStartDate :: "InterestRule \<Rightarrow> time \<Rightarrow> time \<Rightarrow> time" where
  "recalculationStartDate rule fromDate toDate =
     (let fromDate = dateOnly fromDate; toDate = dateOnly toDate
      in if r_AccrualFrequency rule = AccrualFrequencyDaily then fromDate
         else case find (shouldPostAccrual rule) (dayRange fromDate toDate) of
           Some day \<Rightarrow> minDate fromDate (accrualPeriodStart rule day)
         | None \<Rightarrow> fromDate)"

definition ofRule :: "InterestRule \<Rightarrow> 'd InterestAccrual \<Rightarrow> bool" where
  "ofRule rule accrual = (i_AccountID accrual = r_AccountID rule \<and> i_RuleID accrual = r_ID rule)"

definition nextAccrualPeriodStart :: "InterestRule \<Rightarrow> 'd InterestAccrual list \<Rightarrow> time \<Rightarrow> time" where
  "nextAccrualPeriodStart rule accruals accrualDate =
     (if r_AccrualFrequency rule = AccrualFrequencyDaily then dateOnly accrualDate
      else foldl (\<lambda>start accrual.
             let date = dateOnly (i_AccrualDate accrual)
             in if ofRule rule accrual \<and> Before date accrualDate \<and> \<not> Before date start
                then AddDate date 0 0 1 else start)
           (dateOnly (r_StartDate rule)) accruals)"

definition hasInterestAccrual :: "'d InterestAccrual list \<Rightarrow> InterestRule \<Rightarrow> time \<Rightarrow> bool" where
  "hasInterestAccrual accruals rule date =
     list_ex (\<lambda>accrual. ofRule rule accrual \<and> TimeEqual (dateOnly (i_AccrualDate accrual)) date) accruals"

section \<open>Transactions the engine counts\<close>

definition PrincipalTransactionsForRuleAt ::
  "'d Transaction list \<Rightarrow> 'd InterestAccrual list \<Rightarrow> InterestRule \<Rightarrow> time \<Rightarrow> 'd Transaction list" where
  "PrincipalTransactionsForRuleAt transactions accruals rule asOfDate =
     (let asOfDate = dateOnly asOfDate;
          own = filter (ofRule rule) accruals;
          capitalized = map i_TransactionID
            (filter (\<lambda>a. accrualCapitalizedBy rule (i_AccrualDate a) asOfDate) own);
          uncapitalized = map i_TransactionID
            (filter (\<lambda>a. \<not> accrualCapitalizedBy rule (i_AccrualDate a) asOfDate) own)
      in filter (\<lambda>t. t_ID t \<in> set capitalized \<or> t_ID t \<notin> set uncapitalized) transactions)"

definition PrincipalTransactionsForRule ::
  "'d Transaction list \<Rightarrow> 'd InterestAccrual list \<Rightarrow> InterestRule \<Rightarrow> 'd Transaction list" where
  "PrincipalTransactionsForRule transactions accruals rule =
     PrincipalTransactionsForRuleAt transactions accruals rule zero_time"

definition excludeAccrualTransactions ::
  "'d Transaction list \<Rightarrow> 'd InterestAccrual list \<Rightarrow> InterestRule \<Rightarrow> time \<Rightarrow> time \<Rightarrow> 'd Transaction list" where
  "excludeAccrualTransactions transactions accruals rule fromDate toDate =
     (let replaced = map i_TransactionID (filter (\<lambda>a. ofRule rule a \<and>
            \<not> Before (dateOnly (i_AccrualDate a)) fromDate \<and>
            \<not> After (dateOnly (i_AccrualDate a)) toDate) accruals)
      in filter (\<lambda>t. t_ID t \<notin> set replaced) transactions)"

text \<open>The map of transactions by id keeps the last one of an id.\<close>

definition pendingCapitalizationTransactionsBefore ::
  "'d Transaction list \<Rightarrow> 'd InterestAccrual list \<Rightarrow> InterestRule \<Rightarrow> time \<Rightarrow> time \<Rightarrow> 'd Transaction list" where
  "pendingCapitalizationTransactionsBefore transactions accruals rule fromDate toDate =
     (if r_CapitalizationFrequency rule \<in>
           {CapitalizationFrequencyNone, '''', CapitalizationFrequencyDaily} then []
      else let fromDate = dateOnly fromDate; toDate = dateOnly toDate;
               transactionByID = map_of (rev (map (\<lambda>t. (t_ID t, t)) transactions));
               pending = filter (\<lambda>a. ofRule rule a \<and> Before (dateOnly (i_AccrualDate a)) fromDate \<and>
                 (case capitalizationDateForAccrual rule (dateOnly (i_AccrualDate a)) of
                    None \<Rightarrow> False
                  | Some day \<Rightarrow> \<not> Before day fromDate \<and> \<not> After day toDate)) accruals
           in List.map_filter (\<lambda>a. transactionByID (i_TransactionID a)) pending)"

definition transactionsUpToDate :: "'d Transaction list \<Rightarrow> time \<Rightarrow> 'd Transaction list" where
  "transactionsUpToDate transactions date =
     (let date = dateOnly date in filter (\<lambda>t. \<not> After (dateOnly (t_OccurredAt t)) date) transactions)"

section \<open>Amounts\<close>

definition interestCurrency :: "string \<Rightarrow> string" where
  "interestCurrency currency =
     (let currency = ToUpper (TrimSpace currency) in if currency = '''' then ''RUB'' else currency)"

definition calculateDailyInterestAmount ::
  "'d decimal_ops \<Rightarrow> 'd \<Rightarrow> int \<Rightarrow> DayCountConvention \<Rightarrow> time \<Rightarrow> string \<Rightarrow> 'd" where
  "calculateDailyInterestAmount D balance rateBps convention date currency =
     (let rate = d_Div D (d_NewFromInt D rateBps) (d_NewFromInt D 10000);
          days = d_NewFromInt D (daysInYear convention date)
      in RoundForCurrency D (d_Div D (d_Mul D balance rate) days) (interestCurrency currency))"

text \<open>The loop over the days when there are no transactions and a balance is given.\<close>

fun flatAccrualLoop ::
  "'d decimal_ops \<Rightarrow> ctx \<Rightarrow> InterestRule \<Rightarrow> string \<Rightarrow> 'd \<Rightarrow> time list \<Rightarrow> 'd \<Rightarrow> int \<Rightarrow> err + 'd \<times> int" where
  "flatAccrualLoop D ctx rule currency balance [] tot lastRate = Inr (tot, lastRate)"
| "flatAccrualLoop D ctx rule currency balance (day # days) tot lastRate =
     ctxCheck ctx ''calculate accrual amount''
     (if \<not> ruleActiveOn rule day then flatAccrualLoop D ctx rule currency balance days tot lastRate
      else let rateBps = effectiveRateBps rule day
           in flatAccrualLoop D ctx rule currency balance days
                (d_Add D tot (calculateDailyInterestAmount D balance rateBps
                   (r_DayCountConvention rule) day currency))
                rateBps)"

fun accrualLoop ::
  "'d decimal_ops \<Rightarrow> ctx \<Rightarrow> InterestRule \<Rightarrow> string \<Rightarrow> 'd Transaction list \<Rightarrow> time list \<Rightarrow> 'd \<Rightarrow> 'd \<Rightarrow> int \<Rightarrow>
     err + 'd \<times> 'd \<times> int" where
  "accrualLoop D ctx rule currency transactions [] tot lastBalance lastRate =
     Inr (tot, lastBalance, lastRate)"
| "accrualLoop D ctx rule currency transactions (day # days) tot lastBalance lastRate =
     ctxCheck ctx ''calculate accrual amount''
     (if \<not> ruleActiveOn rule day
      then accrualLoop D ctx rule currency transactions days tot lastBalance lastRate
      else ebind (ewrap ''calculate accrual balance''
             (Calculate D ctx (r_AccountID rule) (transactionsUpToDate transactions day))) (\<lambda>balance.
           if \<not> d_IsPositive D (cb_Balance balance)
           then accrualLoop D ctx rule currency transactions days tot lastBalance lastRate
           else let rateBps = effectiveRateBps rule day
                in accrualLoop D ctx rule currency transactions days
                     (d_Add D tot (calculateDailyInterestAmount D (cb_Balance balance) rateBps
                        (r_DayCountConvention rule) day currency))
                     (cb_Balance balance) rateBps))"

definition calculateAccrualAmount ::
  "'d decimal_ops \<Rightarrow> ctx \<Rightarrow> InterestRule \<Rightarrow> string \<Rightarrow> 'd Transaction list \<Rightarrow> 'd \<Rightarrow> time \<Rightarrow> time \<Rightarrow>
     err + 'd \<times> 'd \<times> int" where
  "calculateAccrualAmount D ctx rule currency transactions balance fromDate toDate =
     echeck (Before toDate fromDate) (validationError ''accrual period is empty'')
     (if transactions = []
      then echeck (\<not> d_IsPositive D balance) (validationError ''balance must be positive'')
           (ebind (flatAccrualLoop D ctx rule currency balance (dayRange fromDate toDate) (d_Zero D) 0)
             (\<lambda>(tot, lastRate). Inr (tot, balance, lastRate)))
      else accrualLoop D ctx rule currency transactions (dayRange fromDate toDate)
             (d_Zero D) (d_Zero D) 0)"

section \<open>Validation and texts\<close>

definition validateRuleForRecalculation :: "InterestRule \<Rightarrow> err + unit" where
  "validateRuleForRecalculation rule =
     echeck (TrimSpace (r_ID rule) = '''') (validationError ''interest rule id is required'')
     (echeck (TrimSpace (r_AccountID rule) = '''') (validationError ''account id is required'')
     (echeck (r_AnnualRateBps rule \<le> 0) (validationError ''annual rate must be positive'')
     (case ValidateFrequencies (r_AccrualFrequency rule) (r_CapitalizationFrequency rule)
             (r_DayCountConvention rule) of
        Inl e \<Rightarrow> Inl (validationError (Error e))
      | Inr _ \<Rightarrow> Inr ())))"

definition validateRuleForAccrual :: "InterestRule \<Rightarrow> err + unit" where
  "validateRuleForAccrual rule =
     echeck (TrimSpace (r_ID rule) = '''') (validationError ''interest rule id is required'')
     (echeck (TrimSpace (r_AccountID rule) = '''') (validationError ''account id is required'')
     (echeck (\<not> r_IsActive rule) (validationError ''interest rule is inactive'')
     (echeck (r_AnnualRateBps rule \<le> 0) (validationError ''annual rate must be positive'')
     (case ValidateFrequencies (r_AccrualFrequency rule) (r_CapitalizationFrequency rule)
             (r_DayCountConvention rule) of
        Inl e \<Rightarrow> Inl (validationError (Error e))
      | Inr _ \<Rightarrow> Inr ()))))"

text \<open>\<^verbatim>\<open>date.Format(time.DateOnly)\<close>\<close>

definition appendInt :: "int \<Rightarrow> nat \<Rightarrow> string" where
  "appendInt x width =
     (let ds = digits_of (nat \<bar>x\<bar>)
      in (if x < 0 then ''-'' else '''') @ replicate (width - length ds) CHR ''0'' @ ds)"

lemma appendInt_digits [code]:
  "appendInt x width =
     (let ds = int_digits \<bar>x\<bar> in (if x < 0 then ''-'' else '''') @ replicate (width - length ds) CHR ''0'' @ ds)"
  by (simp add: appendInt_def int_digits_of)

definition FormatDateOnly :: "time \<Rightarrow> string" where
  "FormatDateOnly date =
     appendInt (Year date) 4 @ ''-'' @ appendInt (Month date) 2 @ ''-'' @ appendInt (Day date) 2"

text \<open>The UTF-8 bytes of the Russian label the program writes.\<close>

definition interestLabel :: string where
  "interestLabel = map (char_of :: nat \<Rightarrow> char)
     [0xD0, 0x9F, 0xD1, 0x80, 0xD0, 0xBE, 0xD1, 0x86, 0xD0, 0xB5, 0xD0, 0xBD, 0xD1, 0x82, 0xD1, 0x8B,
      0x20, 0xD0, 0xBF, 0xD0, 0xBE, 0x20, 0xD0, 0xB2, 0xD0, 0xBA, 0xD0, 0xBB, 0xD0, 0xB0, 0xD0, 0xB4,
      0xD1, 0x83]"

lemma interestLabel_bytes [code]:
  "interestLabel =
     [CHR 0xD0, CHR 0x9F, CHR 0xD1, CHR 0x80, CHR 0xD0, CHR 0xBE, CHR 0xD1, CHR 0x86, CHR 0xD0, CHR 0xB5,
      CHR 0xD0, CHR 0xBD, CHR 0xD1, CHR 0x82, CHR 0xD1, CHR 0x8B, CHR 0x20, CHR 0xD0, CHR 0xBF, CHR 0xD0,
      CHR 0xBE, CHR 0x20, CHR 0xD0, CHR 0xB2, CHR 0xD0, CHR 0xBA, CHR 0xD0, CHR 0xBB, CHR 0xD0, CHR 0xB0,
      CHR 0xD0, CHR 0xB4, CHR 0xD1, CHR 0x83]"
  by (simp add: interestLabel_def char_of_def bit_0 bit_numeral_rec)

definition interestAccrualDescription :: "string \<Rightarrow> string" where
  "interestAccrualDescription accountName =
     (let accountName = TrimSpace accountName
      in if accountName = '''' then interestLabel else interestLabel @ '' '' @ accountName)"

definition optionalInterestCategory :: "string \<Rightarrow> string option" where
  "optionalInterestCategory categoryID =
     (let categoryID = TrimSpace categoryID in if categoryID = '''' then None else Some categoryID)"

section \<open>Accrual of a date\<close>

text \<open>The request for the interest income transaction, and the posting built from it.\<close>

definition interestRequest ::
  "string \<Rightarrow> 'd \<Rightarrow> string \<Rightarrow> string \<Rightarrow> string \<Rightarrow> time \<Rightarrow> 'd CreateTransactionRequest" where
  "interestRequest accountID amount currency categoryID accountName day =
     \<lparr>ct_AccountID = accountID, ct_RelatedAccountID = None, ct_Type = TransactionTypeInterestIncome,
      ct_Amount = amount, ct_Currency = currency,
      ct_CategoryID = optionalInterestCategory categoryID, ct_SourceType = '''',
      ct_SourceRefID = None, ct_SourceMetadata = '''',
      ct_Description = interestAccrualDescription accountName, ct_OccurredAt = day,
      ct_AccountOpenedAt = zero_time, ct_AllowFutureDate = True\<rparr>"

definition interestAccrual ::
  "string \<Rightarrow> InterestRule \<Rightarrow> 'd Transaction \<Rightarrow> time \<Rightarrow> 'd \<Rightarrow> 'd \<Rightarrow> int \<Rightarrow> time \<Rightarrow> 'd InterestAccrual" where
  "interestAccrual aid rule tx day amount balance rateBps now =
     \<lparr>i_ID = aid, i_AccountID = r_AccountID rule, i_RuleID = r_ID rule, i_TransactionID = t_ID tx,
      i_AccrualDate = day, i_Amount = amount, i_Balance = balance, i_AnnualRateBps = rateBps,
      i_CreatedAt = now\<rparr>"

definition interestSource :: "'d InterestAccrual \<Rightarrow> 'd Transaction \<Rightarrow> 'd Transaction" where
  "interestSource accrual tx =
     tx\<lparr>t_SourceType := TransactionSourceDepositInterest, t_SourceRefID := Some (i_ID accrual)\<rparr>"

definition engine_Accrue ::
  "'d decimal_ops \<Rightarrow> (string \<Rightarrow> bool) \<Rightarrow> ctx \<Rightarrow> string \<times> string \<Rightarrow> time \<Rightarrow>
     'd AccrueRuleInterestRequest option \<Rightarrow> err + 'd AccrueRuleInterestResponse" where
  "engine_Accrue D uuidParse ctx ids now r =
     ctxCheck ctx ''accrue interest''
     (case r of
        None \<Rightarrow> Inl (validationError ''accrue interest request is required'')
      | Some req \<Rightarrow>
          ebind (validateRuleForAccrual (aq_Rule req)) (\<lambda>_.
          let rule = aq_Rule req;
              accrualDate = (let d = dateOnly (aq_AccrualDate req) in if IsZero d then dateOnly now else d)
          in echeck (\<not> ruleActiveOn rule accrualDate)
               (validationError (''interest rule is not active on '' @ FormatDateOnly accrualDate))
             (echeck (\<not> shouldPostAccrual rule accrualDate)
               (validationError (''interest rule is not payable on '' @ FormatDateOnly accrualDate))
             (if hasInterestAccrual (aq_ExistingAccruals req) rule accrualDate
              then Inr \<lparr>ap_Transaction = None, ap_Accrual = None, ap_Skipped = True\<rparr>
              else let periodStart = nextAccrualPeriodStart rule (aq_ExistingAccruals req) accrualDate;
                       calculationTransactions = PrincipalTransactionsForRuleAt (aq_Transactions req)
                         (aq_ExistingAccruals req) rule accrualDate;
                       currency = interestCurrency (aq_Currency req)
                   in ebind (calculateAccrualAmount D ctx rule currency calculationTransactions
                        (aq_Balance req) periodStart accrualDate) (\<lambda>(amount, balance, rateBps).
                      echeck (\<not> d_IsPositive D amount) (validationError ''calculated interest is zero'')
                      (ebind (ewrap ''build interest income transaction''
                        (buildTransaction D uuidParse ctx (fst ids) now
                          (Some (interestRequest (r_AccountID rule) amount currency (aq_CategoryID req)
                             (aq_AccountName req) accrualDate)) False)) (\<lambda>tx.
                      let accrual = interestAccrual (snd ids) rule tx accrualDate amount balance rateBps now
                      in Inr \<lparr>ap_Transaction = Some (interestSource accrual tx),
                              ap_Accrual = Some accrual, ap_Skipped = False\<rparr>)))))))"

section \<open>Recalculation of a range\<close>

text \<open>The variables of the loop.\<close>

record 'd recalc =
  rc_working :: "'d Transaction list"
  rc_pendingCapitalization :: "'d Transaction list"
  rc_pendingAmount :: 'd
  rc_pendingBalance :: 'd
  rc_pendingRate :: int
  rc_response :: "'d RecalculateRuleInterestResponse"

definition skipDay :: "'d recalc \<Rightarrow> 'd recalc" where
  "skipDay st = st\<lparr>rc_response := (rc_response st)
     \<lparr>rp_SkippedDays := rp_SkippedDays (rc_response st) + 1\<rparr>\<rparr>"

text \<open>What a day earns is added to the pending amount; days that earn nothing are counted.\<close>

definition earnDay ::
  "'d decimal_ops \<Rightarrow> InterestRule \<Rightarrow> string \<Rightarrow> time \<Rightarrow> 'd \<Rightarrow> 'd recalc \<Rightarrow> 'd recalc" where
  "earnDay D rule currency day balance st =
     (if \<not> d_IsPositive D balance then skipDay st
      else let rateBps = effectiveRateBps rule day;
               amount = calculateDailyInterestAmount D balance rateBps (r_DayCountConvention rule) day currency
           in if \<not> d_IsPositive D amount then skipDay st
              else st\<lparr>rc_pendingAmount := d_Add D (rc_pendingAmount st) amount,
                      rc_pendingBalance := balance, rc_pendingRate := rateBps\<rparr>)"

text \<open>The posting of a paying day: the response grows, and the transaction joins the working
  transactions at once, with the pending ones, or later.\<close>

definition postDay ::
  "'d decimal_ops \<Rightarrow> InterestRule \<Rightarrow> time \<Rightarrow> time \<Rightarrow> string \<Rightarrow> 'd Transaction \<Rightarrow> 'd recalc \<Rightarrow> 'd recalc" where
  "postDay D rule now day aid built st =
     (let accrual = interestAccrual aid rule built day (rc_pendingAmount st) (rc_pendingBalance st)
            (rc_pendingRate st) now;
          tx = interestSource accrual built;
          resp = rc_response st;
          st' = st\<lparr>rc_response := resp\<lparr>
            rp_Transactions := rp_Transactions resp @ [tx],
            rp_Accruals := rp_Accruals resp @ [accrual],
            rp_CreatedAccruals := rp_CreatedAccruals resp + 1,
            rp_TotalAmount := d_Add D (rp_TotalAmount resp) (rc_pendingAmount st)\<rparr>\<rparr>;
          st'' =
            (if r_CapitalizationFrequency rule = CapitalizationFrequencyDaily
             then st'\<lparr>rc_working := rc_working st' @ [tx]\<rparr>
             else if shouldCapitalizeOn rule day
             then st'\<lparr>rc_working := rc_working st' @ (rc_pendingCapitalization st' @ [tx]),
                      rc_pendingCapitalization := []\<rparr>
             else if r_CapitalizationFrequency rule \<noteq> CapitalizationFrequencyNone \<and>
               r_CapitalizationFrequency rule \<noteq> ''''
             then st'\<lparr>rc_pendingCapitalization := rc_pendingCapitalization st' @ [tx]\<rparr>
             else st')
      in st''\<lparr>rc_pendingAmount := d_Zero D, rc_pendingBalance := d_Zero D\<rparr>)"

text \<open>One iteration. The ids of a posting are those of the number of postings before it.\<close>

definition recalcDay ::
  "'d decimal_ops \<Rightarrow> (string \<Rightarrow> bool) \<Rightarrow> ctx \<Rightarrow> (nat \<Rightarrow> string \<times> string) \<Rightarrow> time \<Rightarrow> InterestRule \<Rightarrow> string \<Rightarrow>
     string \<Rightarrow> string \<Rightarrow> time \<Rightarrow> 'd recalc \<Rightarrow> err + 'd recalc" where
  "recalcDay D uuidParse ctx ids now rule currency categoryID accountName day st =
     ctxCheck ctx ''recalculate interest''
     (if \<not> ruleActiveOn rule day then Inr (skipDay st)
      else ebind (ewrap ''calculate balance for interest recalculation''
             (Calculate D ctx (r_AccountID rule) (transactionsUpToDate (rc_working st) day))) (\<lambda>balance.
           let st = earnDay D rule currency day (cb_Balance balance) st
           in if \<not> shouldPostAccrual rule day \<or> \<not> d_IsPositive D (rc_pendingAmount st) then Inr st
              else let k = length (rp_Transactions (rc_response st))
                   in ebind (ewrap ''build recalculated interest transaction''
                        (buildTransaction D uuidParse ctx (fst (ids k)) now
                          (Some (interestRequest (r_AccountID rule) (rc_pendingAmount st) currency
                             categoryID accountName day)) False)) (\<lambda>tx.
                      Inr (postDay D rule now day (snd (ids k)) tx st))))"

fun recalcLoop ::
  "'d decimal_ops \<Rightarrow> (string \<Rightarrow> bool) \<Rightarrow> ctx \<Rightarrow> (nat \<Rightarrow> string \<times> string) \<Rightarrow> time \<Rightarrow> InterestRule \<Rightarrow> string \<Rightarrow>
     string \<Rightarrow> string \<Rightarrow> time list \<Rightarrow> 'd recalc \<Rightarrow> err + 'd recalc" where
  "recalcLoop D uuidParse ctx ids now rule currency categoryID accountName [] st = Inr st"
| "recalcLoop D uuidParse ctx ids now rule currency categoryID accountName (day # days) st =
     ebind (recalcDay D uuidParse ctx ids now rule currency categoryID accountName day st)
       (recalcLoop D uuidParse ctx ids now rule currency categoryID accountName days)"

text \<open>The range a request asks for: its dates or their defaults.\<close>

definition recalcRange :: "time \<Rightarrow> 'd RecalculateRuleInterestRequest \<Rightarrow> time \<times> time" where
  "recalcRange now req =
     ((let d = dateOnly (rq_FromDate req) in if IsZero d then dateOnly (r_StartDate (rq_Rule req)) else d),
      (let d = dateOnly (rq_ToDate req)
       in if IsZero d
          then (let t = dateOnly (rq_Today req) in if IsZero t then dateOnly now else t)
          else d))"

definition recalcInit ::
  "'d decimal_ops \<Rightarrow> 'd RecalculateRuleInterestRequest \<Rightarrow> time \<Rightarrow> time \<Rightarrow> 'd recalc" where
  "recalcInit D req fromDate toDate =
     (let rule = rq_Rule req;
          calculationFromDate = recalculationStartDate rule fromDate toDate;
          base = excludeAccrualTransactions (rq_Transactions req) (rq_ExistingAccruals req) rule
            fromDate toDate
      in \<lparr>rc_working = PrincipalTransactionsForRuleAt base (rq_ExistingAccruals req) rule calculationFromDate,
          rc_pendingCapitalization = pendingCapitalizationTransactionsBefore base
            (rq_ExistingAccruals req) rule calculationFromDate toDate,
          rc_pendingAmount = d_Zero D, rc_pendingBalance = d_Zero D, rc_pendingRate = 0,
          rc_response =
            \<lparr>rp_AccountID = r_AccountID rule, rp_RuleID = r_ID rule, rp_FromDate = fromDate,
             rp_ToDate = toDate, rp_DeletedAccruals = 0, rp_CreatedAccruals = 0, rp_SkippedDays = 0,
             rp_TotalAmount = d_Zero D, rp_Transactions = [], rp_Accruals = []\<rparr>\<rparr>)"

definition engine_Recalculate ::
  "'d decimal_ops \<Rightarrow> (string \<Rightarrow> bool) \<Rightarrow> ctx \<Rightarrow> (nat \<Rightarrow> string \<times> string) \<Rightarrow> time \<Rightarrow>
     'd RecalculateRuleInterestRequest option \<Rightarrow> err + 'd RecalculateRuleInterestResponse" where
  "engine_Recalculate D uuidParse ctx ids now r =
     ctxCheck ctx ''recalculate interest''
     (case r of
        None \<Rightarrow> Inl (validationError ''recalculate interest request is required'')
      | Some req \<Rightarrow>
          ebind (validateRuleForRecalculation (rq_Rule req)) (\<lambda>_.
          let (fromDate, toDate) = recalcRange now req
          in echeck (IsZero fromDate) (validationError ''from date is required'')
             (echeck (Before toDate fromDate)
               (validationError ''to date must be on or after from date'')
             (ebind (recalcLoop D uuidParse ctx ids now (rq_Rule req) (interestCurrency (rq_Currency req))
                (rq_CategoryID req) (rq_AccountName req)
                (dayRange (recalculationStartDate (rq_Rule req) fromDate toDate) toDate)
                (recalcInit D req fromDate toDate)) (\<lambda>st.
              Inr (rc_response st))))))"

section \<open>Forecast\<close>

definition engine_Forecast ::
  "'d decimal_ops \<Rightarrow> (string \<Rightarrow> bool) \<Rightarrow> ctx \<Rightarrow> (nat \<Rightarrow> string \<times> string) \<Rightarrow> time \<Rightarrow>
     'd ForecastRuleInterestRequest option \<Rightarrow> err + 'd ForecastRuleInterestResponse" where
  "engine_Forecast D uuidParse ctx ids now r =
     ctxCheck ctx ''forecast interest''
     (case r of
        None \<Rightarrow> Inl (validationError ''forecast interest request is required'')
      | Some req \<Rightarrow>
          ebind (validateRuleForRecalculation (fq_Rule req)) (\<lambda>_.
          echeck (fq_Days req \<le> 0) (validationError ''forecast days must be positive'')
          (let rule = fq_Rule req;
               fromDate = (let d = dateOnly (fq_FromDate req)
                 in if IsZero d
                    then (let t = dateOnly (fq_Today req) in if IsZero t then dateOnly now else t)
                    else d);
               toDate = AddDate fromDate 0 0 (fq_Days req - 1)
           in ebind (engine_Recalculate D uuidParse ctx ids now (Some
                \<lparr>rq_Rule = rule, rq_AccountName = '''', rq_CategoryID = '''',
                 rq_Currency = fq_Currency req, rq_Transactions = fq_Transactions req,
                 rq_ExistingAccruals = fq_ExistingAccruals req, rq_FromDate = fromDate,
                 rq_ToDate = toDate, rq_Today = fq_Today req\<rparr>)) (\<lambda>result.
              ebind (ewrap ''calculate forecast balance''
                (Calculate D ctx (r_AccountID rule)
                  (transactionsUpToDate (PrincipalTransactionsForRuleAt (fq_Transactions req)
                     (fq_ExistingAccruals req) rule toDate) toDate @ rp_Transactions result))) (\<lambda>balance.
              Inr \<lparr>fp_AccountID = r_AccountID rule, fp_RuleID = r_ID rule, fp_FromDate = fromDate,
                   fp_ToDate = toDate, fp_Days = fq_Days req, fp_ProjectedAmount = rp_TotalAmount result,
                   fp_ProjectedBalance = cb_Balance balance, fp_Accruals = rp_Accruals result\<rparr>)))))"

section \<open>Days as day numbers\<close>

definition start_day :: "InterestRule \<Rightarrow> int" where
  "start_day rule = date_day (r_StartDate rule)"

definition active_day :: "InterestRule \<Rightarrow> int \<Rightarrow> bool" where
  "active_day rule n =
     (start_day rule \<le> n \<and> (case r_EndDate rule of None \<Rightarrow> True | Some e \<Rightarrow> n \<le> date_day e))"

definition last_active_day :: "InterestRule \<Rightarrow> int \<Rightarrow> int" where
  "last_active_day rule n =
     (case r_EndDate rule of None \<Rightarrow> month_last n | Some e \<Rightarrow> min (month_last n) (date_day e))"

definition pays_on :: "InterestRule \<Rightarrow> int \<Rightarrow> bool" where
  "pays_on rule n =
     (active_day rule n \<and>
      (r_AccrualFrequency rule = AccrualFrequencyMonthly \<longrightarrow> last_active_day rule n = n) \<and>
      (r_AccrualFrequency rule = AccrualFrequencyEndOfTerm \<longrightarrow>
         (case r_EndDate rule of None \<Rightarrow> False | Some e \<Rightarrow> date_day e = n)))"

definition capitalizes_on :: "InterestRule \<Rightarrow> int \<Rightarrow> bool" where
  "capitalizes_on rule n =
     (r_CapitalizationFrequency rule = CapitalizationFrequencyDaily \<or>
      r_CapitalizationFrequency rule = CapitalizationFrequencyMonthly \<and> last_active_day rule n = n \<or>
      r_CapitalizationFrequency rule = CapitalizationFrequencyEndOfTerm \<and>
        (case r_EndDate rule of None \<Rightarrow> False | Some e \<Rightarrow> date_day e = n))"

definition period_start :: "InterestRule \<Rightarrow> int \<Rightarrow> int" where
  "period_start rule n =
     (if r_AccrualFrequency rule = AccrualFrequencyMonthly then max (start_day rule) (month_first n)
      else if r_AccrualFrequency rule = AccrualFrequencyEndOfTerm then start_day rule else n)"

definition recalc_start :: "InterestRule \<Rightarrow> int \<Rightarrow> int \<Rightarrow> int" where
  "recalc_start rule f t =
     (if r_AccrualFrequency rule = AccrualFrequencyDaily then f
      else case find (pays_on rule) [f..t] of Some n \<Rightarrow> min f (period_start rule n) | None \<Rightarrow> f)"

named_theorems day_simps

lemma ruleActiveOn_day [day_simps]: "ruleActiveOn rule (day_time n) = active_day rule n"
  by (auto simp: ruleActiveOn_def active_day_def start_day_def dateOnly_day_time split: option.splits)

lemma minDate_day [day_simps]: "minDate (day_time m) (day_time n) = day_time (min m n)"
  by (simp add: minDate_def Let_def min_def)

lemma maxDate_day [day_simps]: "maxDate (day_time m) (day_time n) = day_time (max m n)"
  by (simp add: maxDate_def Let_def max_def)

lemma lastActiveDayOfMonth_day [day_simps]:
  "lastActiveDayOfMonth rule (day_time n) = day_time (last_active_day rule n)"
  unfolding lastActiveDayOfMonth_def Let_def dateOnly_day Date_month_last
  by (simp add: last_active_day_def dateOnly_day_time minDate_day split: option.split)

lemma isLastActiveDayOfMonth_day [day_simps]:
  "isLastActiveDayOfMonth rule (day_time n) \<longleftrightarrow> last_active_day rule n = n"
  by (simp add: isLastActiveDayOfMonth_def lastActiveDayOfMonth_day)

lemma isEndOfTerm_day [day_simps]:
  "isEndOfTerm rule (day_time n) \<longleftrightarrow> (case r_EndDate rule of None \<Rightarrow> False | Some e \<Rightarrow> date_day e = n)"
  by (simp add: isEndOfTerm_def dateOnly_day_time split: option.split)

lemma shouldPostAccrual_day [day_simps]: "shouldPostAccrual rule (day_time n) = pays_on rule n"
  by (simp add: shouldPostAccrual_def Let_def day_simps pays_on_def split: option.splits)

lemma shouldCapitalizeOn_day [day_simps]: "shouldCapitalizeOn rule (day_time n) = capitalizes_on rule n"
  by (simp add: shouldCapitalizeOn_def day_simps capitalizes_on_def split: option.splits)

lemma accrualPeriodStart_day [day_simps]:
  "accrualPeriodStart rule (day_time n) = day_time (period_start rule n)"
  unfolding accrualPeriodStart_def Let_def dateOnly_day Date_month_first
  by (simp add: dateOnly_day_time maxDate_day period_start_def start_day_def)

lemma find_map_inj:
  "find P (map f xs) = map_option f (find (P \<circ> f) xs)"
  by (induction xs) simp_all

lemma recalculationStartDate_day [day_simps]:
  "recalculationStartDate rule (day_time f) (day_time t) = day_time (recalc_start rule f t)"
proof -
  have "shouldPostAccrual rule \<circ> day_time = pays_on rule" by (auto simp: day_simps)
  then show ?thesis
    by (simp add: recalculationStartDate_def Let_def dayRange_day_time find_map_inj recalc_start_def
        day_simps split: option.split)
qed

lemma effectiveRateBps_cases:
  "effectiveRateBps rule date = r_AnnualRateBps rule \<or> Some (effectiveRateBps rule date) = r_PromoRateBps rule"
  by (auto simp: effectiveRateBps_def split: option.splits)

lemma effectiveRateBps_pos: "rule_checks rule \<Longrightarrow> 0 < effectiveRateBps rule date"
  using effectiveRateBps_cases [of rule date] by (auto simp: rule_checks_def split: option.splits)

lemma daysInYear_pos: "0 < daysInYear convention date"
  by (simp add: daysInYear_def)

text \<open>A rule pays at most once in an accrual period, at its end.\<close>

lemma last_active_same_month:
  assumes "month_first n \<le> k" "k \<le> month_last n"
  shows "last_active_day rule k = last_active_day rule n"
  by (simp add: last_active_day_def same_month(2) [OF assms] split: option.split)

lemma pays_on_period:
  assumes "pays_on rule n" "period_start rule n \<le> k" "k < n"
  shows "\<not> pays_on rule k"
proof
  assume k: "pays_on rule k"
  consider "r_AccrualFrequency rule = AccrualFrequencyMonthly"
    | "r_AccrualFrequency rule = AccrualFrequencyEndOfTerm"
    | "r_AccrualFrequency rule \<noteq> AccrualFrequencyMonthly" "r_AccrualFrequency rule \<noteq> AccrualFrequencyEndOfTerm"
    by blast
  then show False
  proof cases
    case 1
    with assms have "month_first n \<le> k" "k \<le> month_last n"
      using month_last_ge [of n] by (auto simp: period_start_def)
    then have "last_active_day rule k = last_active_day rule n" by (rule last_active_same_month)
    with 1 k assms(1,3) show False by (simp add: pays_on_def)
  next
    case 2
    with k assms show False by (auto simp: pays_on_def split: option.splits)
  next
    case 3
    with assms show False by (simp add: period_start_def)
  qed
qed

lemma recalc_start_le: "recalc_start rule f t \<le> f"
  by (simp add: recalc_start_def split: option.split)

text \<open>No day before the requested range pays.\<close>

lemma recalc_start_no_payment:
  assumes "recalc_start rule f t \<le> k" "k < f"
  shows "\<not> pays_on rule k"
proof (cases "find (pays_on rule) [f..t]")
  case None
  with assms show ?thesis by (simp add: recalc_start_def split: if_splits)
next
  case (Some n)
  then have n: "pays_on rule n" "f \<le> n" by (auto simp: find_Some_iff)
  from assms Some have "period_start rule n \<le> k" "k < n"
    using n by (auto simp: recalc_start_def split: if_splits)
  with n show ?thesis using pays_on_period by blast
qed

end
