(* ===== verification/Interest_Correct.thy ===== *)
theory Interest_Correct
  imports Interest_Engine
begin

text \<open>
  Correctness of the interest engine. The specification is arithmetic on day numbers and
  rational balances: what a day earns (\<open>daily_interest\<close>), and compound interest as a
  recurrence over the days (\<open>compound\<close>), with the balance that bears interest, the balance
  that waits for capitalization and the interest not yet paid. The loop of the engine is
  related to it by the simulation \<open>simulates\<close>, one day at a time; the decimals, transaction
  lists and calendar of the code disappear in that step. The accrual of one date is shown to
  pay the sum of the days of its period.
\<close>

section \<open>The specification: compound interest day by day\<close>

definition daily_interest :: "InterestRule \<Rightarrow> string \<Rightarrow> int \<Rightarrow> rat \<Rightarrow> rat" where
  "daily_interest rule currency n b =
     (if 0 < b
      then round_away (currency_digits currency)
        (round_away 16 (b * (of_int (effectiveRateBps rule (day_time n)) / 10000) /
           of_int (daysInYear (r_DayCountConvention rule) (day_time n))))
      else 0)"

text \<open>The state: the balance that bears interest and the balance that waits for
  capitalization, by day, and the interest earned and not yet paid.\<close>

type_synonym compound_state = "(int \<Rightarrow> rat) \<times> (int \<Rightarrow> rat) \<times> rat"

fun compound_day :: "InterestRule \<Rightarrow> string \<Rightarrow> int \<Rightarrow> compound_state \<Rightarrow> (int \<times> rat) list \<times> compound_state" where
  "compound_day rule currency n (b, p, u) =
     (if \<not> active_day rule n then ([], (b, p, u))
      else let earned = u + daily_interest rule currency n (b n)
           in if pays_on rule n \<and> 0 < earned
              then ([(n, earned)],
                if r_CapitalizationFrequency rule = CapitalizationFrequencyDaily
                then (\<lambda>k. b k + earned, p, 0)
                else if capitalizes_on rule n then (\<lambda>k. b k + p k + earned, \<lambda>_. 0, 0)
                else if r_CapitalizationFrequency rule \<in> {CapitalizationFrequencyNone, ''''} then (b, p, 0)
                else (b, \<lambda>k. p k + earned, 0))
              else ([], (b, p, earned)))"

fun compound :: "InterestRule \<Rightarrow> string \<Rightarrow> int list \<Rightarrow> compound_state \<Rightarrow> (int \<times> rat) list" where
  "compound rule currency [] s = []"
| "compound rule currency (n # ns) s =
     (case compound_day rule currency n s of (paid, s') \<Rightarrow> paid @ compound rule currency ns s')"

definition balance_by_day :: "('d \<Rightarrow> rat) \<Rightarrow> string \<Rightarrow> 'd Transaction list \<Rightarrow> int \<Rightarrow> rat" where
  "balance_by_day val account txs n =
     ledger val account (filter (\<lambda>t. date_day (t_OccurredAt t) \<le> n) txs)"

definition typed :: "string \<Rightarrow> 'd Transaction list \<Rightarrow> bool" where
  "typed account txs = (\<forall>t\<in>set txs. counts account t \<longrightarrow> ValidType (t_Type t))"

text \<open>What the engine posts: an interest income transaction and its accrual, which name each
  other, satisfy the checks of their tables and lie on a paying day.\<close>

definition posting_ok :: "'d decimal_ops \<Rightarrow> InterestRule \<Rightarrow> 'd Transaction \<Rightarrow> 'd InterestAccrual \<Rightarrow> bool" where
  "posting_ok D rule t a \<longleftrightarrow>
     interest_pair_ok t a \<and> transaction_checks D t \<and> accrual_checks D a \<and>
     i_TransactionID a = t_ID t \<and> i_AccountID a = r_AccountID rule \<and> i_RuleID a = r_ID rule \<and>
     t_AccountID t = r_AccountID rule \<and> t_Amount t = i_Amount a \<and> t_OccurredAt t = i_AccrualDate a \<and>
     t_Status t = TransactionStatusConfirmed \<and> t_TransferID t = None \<and> t_RelatedAccountID t = None \<and>
     i_AccrualDate a = day_time (date_day (i_AccrualDate a)) \<and> pays_on rule (date_day (i_AccrualDate a))"

definition postings :: "('d \<Rightarrow> rat) \<Rightarrow> 'd RecalculateRuleInterestResponse \<Rightarrow> (int \<times> rat) list" where
  "postings val resp = map (\<lambda>a. (date_day (i_AccrualDate a), val (i_Amount a))) (rp_Accruals resp)"

definition response_ok ::
  "'d decimal_ops \<Rightarrow> ('d \<Rightarrow> rat) \<Rightarrow> (nat \<Rightarrow> string \<times> string) \<Rightarrow> InterestRule \<Rightarrow>
     'd RecalculateRuleInterestResponse \<Rightarrow> bool" where
  "response_ok D val ids rule resp \<longleftrightarrow>
     list_all2 (posting_ok D rule) (rp_Transactions resp) (rp_Accruals resp) \<and>
     rp_CreatedAccruals resp = int (length (rp_Accruals resp)) \<and>
     val (rp_TotalAmount resp) = sum_list (map (\<lambda>a. val (i_Amount a)) (rp_Accruals resp)) \<and>
     map t_ID (rp_Transactions resp) = map (\<lambda>k. fst (ids k)) [0..<length (rp_Transactions resp)] \<and>
     map i_ID (rp_Accruals resp) = map (\<lambda>k. snd (ids k)) [0..<length (rp_Accruals resp)]"

text \<open>The state of the loop before day \<open>n\<close> stands for a state of the specification.\<close>

fun simulates ::
  "('d \<Rightarrow> rat) \<Rightarrow> InterestRule \<Rightarrow> string \<Rightarrow> int \<Rightarrow> compound_state \<Rightarrow> 'd recalc \<Rightarrow> bool" where
  "simulates val rule currency n (b, p, u) st \<longleftrightarrow>
     (\<forall>k\<ge>n. balance_by_day val (r_AccountID rule) (rc_working st) k = b k) \<and>
     (\<forall>k\<ge>n. balance_by_day val (r_AccountID rule) (rc_pendingCapitalization st) k = p k) \<and>
     typed (r_AccountID rule) (rc_working st) \<and> typed (r_AccountID rule) (rc_pendingCapitalization st) \<and>
     val (rc_pendingAmount st) = u \<and> 0 \<le> u \<and> has_scale (currency_digits currency) u \<and>
     (0 < u \<longrightarrow> 0 < val (rc_pendingBalance st) \<and> 0 < rc_pendingRate st)"

lemma compound_in: "(n, u) \<in> set (compound rule currency ns s) \<Longrightarrow> n \<in> set ns \<and> pays_on rule n \<and> 0 < u"
proof (induction ns arbitrary: s)
  case Nil
  then show ?case by simp
next
  case (Cons m ns)
  then show ?case by (cases s) (auto simp: Let_def split: if_splits prod.splits)
qed

lemma compound_sorted: "sorted_wrt (<) ns \<Longrightarrow> sorted_wrt (<) (map fst (compound rule currency ns s))"
proof (induction ns arbitrary: s)
  case Nil
  then show ?case by simp
next
  case (Cons m ns)
  obtain paid s' where d: "compound_day rule currency m s = (paid, s')" by (cases "compound_day rule currency m s")
  then have "paid = [] \<or> (\<exists>u. paid = [(m, u)])" by (cases s) (auto simp: Let_def split: if_splits)
  moreover have "m < k" if "(k, u) \<in> set (compound rule currency ns s')" for k u
    using compound_in [OF that] Cons.prems by simp
  ultimately show ?case using Cons d by (auto simp: sorted_wrt_append)
qed

section \<open>Lemmas\<close>

lemma interestCurrency_idem [simp]: "interestCurrency (interestCurrency c) = interestCurrency c"
proof -
  have "TrimSpace ''RUB'' = ''RUB''" "ToUpper ''RUB'' = ''RUB''" by code_simp+
  then show ?thesis by (simp add: interestCurrency_def Let_def TrimSpace_ToUpper)
qed

lemma money_NormalizeCurrency_interest: "money_NormalizeCurrency c = interestCurrency c"
  by (simp add: money_NormalizeCurrency_def interestCurrency_def)

lemma transactionsUpToDate_day [day_simps]:
  "transactionsUpToDate txs (day_time n) = filter (\<lambda>t. date_day (t_OccurredAt t) \<le> n) txs"
  by (auto simp: transactionsUpToDate_def Let_def dateOnly_day_time intro!: filter_cong)

lemma balance_by_day_append [simp]:
  "balance_by_day val a (xs @ ys) n = balance_by_day val a xs n + balance_by_day val a ys n"
  by (simp add: balance_by_day_def)

lemma balance_by_day_Nil [simp]: "balance_by_day val a [] n = 0"
  by (simp add: balance_by_day_def)

lemma typed_simps [simp]:
  "typed a []" "typed a (xs @ ys) \<longleftrightarrow> typed a xs \<and> typed a ys"
  by (auto simp: typed_def)

lemma daily_interest_nonneg:
  assumes "0 < effectiveRateBps rule (day_time n)"
  shows "0 \<le> daily_interest rule currency n b"
  using assms daysInYear_pos by (auto simp: daily_interest_def intro!: round_away_nonneg divide_nonneg_nonneg mult_nonneg_nonneg simp: less_imp_le)

lemma has_scale_daily_interest: "has_scale (currency_digits currency) (daily_interest rule currency n b)"
  using round_away_eq_iff [of "currency_digits currency" 0] by (simp add: daily_interest_def)

context decimal_pkg
begin

lemma val_daily:
  "val (calculateDailyInterestAmount D b rate conv date currency) =
     round_away (currency_digits (interestCurrency currency))
       (round_away 16 (val b * (of_int rate / 10000) / of_int (daysInYear conv date)))"
proof -
  have "has_scale 4 (of_int rate / 10000 :: rat)" by (rule has_scaleI [of _ _ rate]) simp
  then have "has_scale 16 (of_int rate / 10000 :: rat)" by (rule has_scale_mono) simp
  then have r: "round_away 16 (of_int rate / 10000 :: rat) = of_int rate / 10000"
    by (rule round_away_id)
  have "of_int (daysInYear conv date) \<noteq> (0::rat)" using daysInYear_pos [of conv date] by simp
  then show ?thesis
    by (simp add: calculateDailyInterestAmount_def Let_def val_RoundForCurrency val_Div r
        del: times_divide_eq_right)
qed

lemma val_daily_interest:
  assumes "0 < val b"
  shows "val (calculateDailyInterestAmount D b (effectiveRateBps rule (day_time n))
      (r_DayCountConvention rule) (day_time n) (interestCurrency currency)) =
    daily_interest rule (interestCurrency currency) n (val b)"
  using assms by (simp add: val_daily daily_interest_def)

lemma Calculate_by_day:
  assumes "a \<noteq> []" "typed a txs"
  shows "\<exists>bal. Calculate D None a (transactionsUpToDate txs (day_time n)) = Inr bal \<and>
    val (cb_Balance bal) = balance_by_day val a txs n"
  using Calculate_ledger [OF assms(1), of "filter (\<lambda>t. date_day (t_OccurredAt t) \<le> n) txs"] assms(2)
  by (force simp: day_simps balance_by_day_def typed_def)

text \<open>The transaction of a posting is built exactly when its amount is within bounds.\<close>

lemma build_interest:
  assumes "TrimSpace account \<noteq> []" "0 < val amount"
    "has_scale (currency_digits (interestCurrency currency)) (val amount)" "\<not> IsZero day"
  shows "if val amount \<le> 1000000000000
    then \<exists>tx. buildTransaction D uuidParse None tid now
        (Some (interestRequest account amount (interestCurrency currency) categoryID accountName day)) False = Inr tx \<and>
      t_ID tx = tid \<and> t_AccountID tx = TrimSpace account \<and> t_Amount tx = amount \<and>
      t_Type tx = TransactionTypeInterestIncome \<and> t_Status tx = TransactionStatusConfirmed \<and>
      t_TransferID tx = None \<and> t_RelatedAccountID tx = None \<and> t_OccurredAt tx = day \<and>
      t_SourceMetadata tx = ''{}''
    else \<exists>e. buildTransaction D uuidParse None tid now
        (Some (interestRequest account amount (interestCurrency currency) categoryID accountName day)) False = Inl e"
proof -
  let ?v = "\<lparr>tv_AccountID = account, tv_Type = TransactionTypeInterestIncome, tv_Amount = amount,
      tv_Currency = interestCurrency currency, tv_OccurredAt = day, tv_AccountOpened = zero_time,
      tv_Now = zero_time, tv_AllowFuture = True, tv_AllowTransfer = False\<rparr>"
  have z: "IsZero zero_time" by (simp add: zero_time_def IsZero_def)
  have ok: "transaction_ValidateCreate D now (Some ?v) = Inr () \<longleftrightarrow> val amount \<le> 1000000000000"
    using assms z
    by (simp add: transaction_ValidateCreate_ok_iff ValidType_def IsTransferType_def
        money_NormalizeCurrency_interest)
  show ?thesis
  proof (cases "transaction_ValidateCreate D now (Some ?v)")
    case (Inl e)
    with ok have "\<not> val amount \<le> 1000000000000" by auto
    with Inl assms show ?thesis
      by (simp add: buildTransaction_def interestRequest_def)
  next
    case (Inr u)
    with ok have "val amount \<le> 1000000000000" by simp
    with Inr assms show ?thesis
      by (simp add: buildTransaction_def interestRequest_def TransactionSource_IsValid_def)
  qed
qed

end

text \<open>Nothing but the count of skipped days changes.\<close>

definition only_skips :: "'d RecalculateRuleInterestResponse \<Rightarrow> 'd RecalculateRuleInterestResponse \<Rightarrow> bool" where
  "only_skips r r' \<longleftrightarrow> (\<exists>k. r' = r\<lparr>rp_SkippedDays := k\<rparr>)"

lemma only_skips_self [simp]: "only_skips r r" "only_skips r (r\<lparr>rp_SkippedDays := k\<rparr>)"
  by (auto simp: only_skips_def intro: exI [of _ "rp_SkippedDays r"])

lemma only_skips_fields:
  assumes "only_skips r r'"
  shows "rp_Transactions r' = rp_Transactions r" "rp_Accruals r' = rp_Accruals r"
    "postings val r' = postings val r" "response_ok D val ids rule r' = response_ok D val ids rule r"
  using assms by (auto simp: only_skips_def postings_def response_ok_def)

lemma skipDay_fields [simp]:
  "rc_working (skipDay st) = rc_working st" "rc_pendingAmount (skipDay st) = rc_pendingAmount st"
  "rc_pendingCapitalization (skipDay st) = rc_pendingCapitalization st"
  "rc_pendingBalance (skipDay st) = rc_pendingBalance st" "rc_pendingRate (skipDay st) = rc_pendingRate st"
  "only_skips (rc_response st) (rc_response (skipDay st))"
  by (simp_all add: skipDay_def)

lemma simulates_skip [simp]: "simulates val rule currency n s (skipDay st) = simulates val rule currency n s st"
  by (cases s) simp

lemma simulates_later: "simulates val rule currency n s st \<Longrightarrow> n \<le> m \<Longrightarrow> simulates val rule currency m s st"
  by (cases s) auto

lemma balance_by_day_posting:
  assumes "t_AccountID t = a" "t_Status t = TransactionStatusConfirmed"
    "t_Type t = TransactionTypeInterestIncome" "t_OccurredAt t = day_time n" "n \<le> k"
  shows "balance_by_day val a [t] k = val (t_Amount t)"
  using assms by (simp add: balance_by_day_def ledger_def counts_def AffectsBalance_def signed_def)

context decimal_pkg
begin

lemma earnDay_simulates:
  assumes "simulates val rule (interestCurrency currency) n (b, p, u) st" "val bal = b n"
    "0 < effectiveRateBps rule (day_time n)"
  shows "simulates val rule (interestCurrency currency) n
      (b, p, u + daily_interest rule (interestCurrency currency) n (b n))
      (earnDay D rule (interestCurrency currency) (day_time n) bal st)"
    "only_skips (rc_response st)
       (rc_response (earnDay D rule (interestCurrency currency) (day_time n) bal st))"
proof -
  let ?e = "daily_interest rule (interestCurrency currency) n (b n)"
  have e0: "0 \<le> ?e" by (rule daily_interest_nonneg [OF assms(3)])
  have sc: "has_scale (currency_digits (interestCurrency currency)) ?e" by (rule has_scale_daily_interest)
  have amt: "0 < b n \<Longrightarrow> val (calculateDailyInterestAmount D bal (effectiveRateBps rule (day_time n))
      (r_DayCountConvention rule) (day_time n) (interestCurrency currency)) = ?e"
    using val_daily_interest [of bal rule n currency] assms(2) by simp
  have none: "\<not> 0 < b n \<Longrightarrow> ?e = 0" by (simp add: daily_interest_def)
  show "simulates val rule (interestCurrency currency) n (b, p, u + ?e)
      (earnDay D rule (interestCurrency currency) (day_time n) bal st)"
  proof (cases "0 < b n \<and> 0 < ?e")
    case True
    with assms amt sc e0 show ?thesis by (simp add: earnDay_def Let_def has_scale_add)
  next
    case False
    with e0 none have "?e = 0" by force
    with assms amt False show ?thesis by (simp add: earnDay_def Let_def)
  qed
  show "only_skips (rc_response st)
      (rc_response (earnDay D rule (interestCurrency currency) (day_time n) bal st))"
    by (simp add: earnDay_def Let_def skipDay_def)
qed

text \<open>The interest transaction with its source passes the checks of the table.\<close>

lemma posting_checks:
  assumes "t_Type tx = TransactionTypeInterestIncome" "t_Status tx = TransactionStatusConfirmed"
    "t_TransferID tx = None" "t_SourceMetadata tx = ''{}''" "0 < val (t_Amount tx)"
    "val (t_Amount tx) \<le> 1000000000000"
  shows "transaction_checks D (interestSource accrual tx)"
proof -
  have "json_object ''{}''" by code_simp
  with assms show ?thesis
    by (intro transaction_checksI)
      (simp_all add: interestSource_def ValidType_def IsTransferType_def TransactionSource_IsValid_def
        TransactionStatus_IsValid_def not_less)
qed

end

context decimal_pkg
begin

lemma postDay_simulates:
  assumes sim: "simulates val rule currency n (b, p, u) st" and "0 < u" "u \<le> 1000000000000"
    and pays: "pays_on rule n" and resp: "response_ok D val ids rule (rc_response st)"
    and tx: "t_ID tx = fst (ids (length (rp_Transactions (rc_response st))))"
      "t_AccountID tx = r_AccountID rule" "t_Amount tx = rc_pendingAmount st"
      "t_Type tx = TransactionTypeInterestIncome" "t_Status tx = TransactionStatusConfirmed"
      "t_TransferID tx = None" "t_RelatedAccountID tx = None" "t_OccurredAt tx = day_time n"
      "t_SourceMetadata tx = ''{}''"
    and aid: "aid = snd (ids (length (rp_Transactions (rc_response st))))"
  shows "simulates val rule currency (n + 1)
      (if r_CapitalizationFrequency rule = CapitalizationFrequencyDaily then (\<lambda>k. b k + u, p, 0)
       else if capitalizes_on rule n then (\<lambda>k. b k + p k + u, \<lambda>_. 0, 0)
       else if r_CapitalizationFrequency rule \<noteq> CapitalizationFrequencyNone \<and>
          r_CapitalizationFrequency rule \<noteq> '''' then (b, \<lambda>k. p k + u, 0)
       else (b, p, 0))
      (postDay D rule now (day_time n) aid tx st)" (is ?sim)
    "postings val (rc_response (postDay D rule now (day_time n) aid tx st)) =
       postings val (rc_response st) @ [(n, u)]" (is ?post)
    "response_ok D val ids rule (rc_response (postDay D rule now (day_time n) aid tx st))" (is ?resp)
proof -
  define accrual where "accrual = interestAccrual aid rule tx (day_time n) (rc_pendingAmount st)
    (rc_pendingBalance st) (rc_pendingRate st) now"
  define t where "t = interestSource accrual tx"
  have amount: "val (rc_pendingAmount st) = u" using sim by simp
  have fields: "t_AccountID t = r_AccountID rule" "t_Status t = TransactionStatusConfirmed"
    "t_Type t = TransactionTypeInterestIncome" "t_OccurredAt t = day_time n" "val (t_Amount t) = u"
    using tx amount by (simp_all add: t_def interestSource_def)
  have bal: "balance_by_day val (r_AccountID rule) [t] k = u" if "n + 1 \<le> k" for k
    using balance_by_day_posting [OF fields(1-4), of k val] fields(5) that by simp
  have typed: "typed (r_AccountID rule) [t]" using fields by (simp add: typed_def ValidType_def)
  have zero: "has_scale d (0::rat)" for d using round_away_eq_iff [of d 0] by simp
  show ?sim
    using sim bal typed zero
    unfolding postDay_def Let_def accrual_def [symmetric] t_def [symmetric]
    by (simp add: shouldCapitalizeOn_day)
  have posted: "rp_Accruals (rc_response (postDay D rule now (day_time n) aid tx st)) =
      rp_Accruals (rc_response st) @ [accrual]"
    "rp_Transactions (rc_response (postDay D rule now (day_time n) aid tx st)) =
      rp_Transactions (rc_response st) @ [t]"
    "rp_CreatedAccruals (rc_response (postDay D rule now (day_time n) aid tx st)) =
      rp_CreatedAccruals (rc_response st) + 1"
    "rp_TotalAmount (rc_response (postDay D rule now (day_time n) aid tx st)) =
      d_Add D (rp_TotalAmount (rc_response st)) (rc_pendingAmount st)"
    by (simp_all add: postDay_def Let_def t_def accrual_def)
  show ?post by (simp add: postings_def posted accrual_def interestAccrual_def amount)
  have checks: "transaction_checks D t"
    unfolding t_def using tx amount assms(2,3) by (intro posting_checks) simp_all
  have "posting_ok D rule t accrual"
    using sim assms(2) pays checks tx fields
    by (simp add: posting_ok_def t_def accrual_def interestAccrual_def interestSource_def
        interest_pair_ok_def accrual_checks_def)
  moreover have "length (rp_Transactions (rc_response st)) = length (rp_Accruals (rc_response st))"
    using resp by (auto simp: response_ok_def dest: list_all2_lengthD)
  moreover have "t_ID t = fst (ids (length (rp_Transactions (rc_response st))))" using tx(1)
    by (simp add: t_def interestSource_def)
  moreover have "i_ID accrual = snd (ids (length (rp_Transactions (rc_response st))))"
    "i_Amount accrual = rc_pendingAmount st"
    by (simp_all add: accrual_def interestAccrual_def aid)
  ultimately show ?resp
    using resp unfolding response_ok_def posted by (simp add: list_all2_appendI)
qed

lemma recalcDay_refines:
  assumes sim: "simulates val rule (interestCurrency currency) n s st"
    and resp: "response_ok D val ids rule (rc_response st)"
    and account: "TrimSpace (r_AccountID rule) = r_AccountID rule" "r_AccountID rule \<noteq> []"
    and rate: "0 < effectiveRateBps rule (day_time n)" and day: "pays_on rule n \<Longrightarrow> n \<noteq> 0"
    and step: "compound_day rule (interestCurrency currency) n s = (paid, s')"
  shows "if \<forall>(n, u)\<in>set paid. u \<le> 1000000000000
    then \<exists>st'. recalcDay D uuidParse None ids now rule (interestCurrency currency) categoryID accountName
        (day_time n) st = Inr st' \<and>
      simulates val rule (interestCurrency currency) (n + 1) s' st' \<and>
      response_ok D val ids rule (rc_response st') \<and>
      postings val (rc_response st') = postings val (rc_response st) @ paid
    else \<exists>e. recalcDay D uuidParse None ids now rule (interestCurrency currency) categoryID accountName
        (day_time n) st = Inl e"
proof -
  obtain b p u where s: "s = (b, p, u)" by (cases s)
  show ?thesis
  proof (cases "active_day rule n")
    case False
    with step s have "paid = []" "s' = s" by simp_all
    with False sim resp show ?thesis
      by (simp add: recalcDay_def day_simps simulates_later only_skips_fields(3,4) [OF skipDay_fields(6)])
  next
    case True
    obtain bal where bal: "Calculate D None (r_AccountID rule)
        (transactionsUpToDate (rc_working st) (day_time n)) = Inr bal" "val (cb_Balance bal) = b n"
      using Calculate_by_day [OF account(2), of "rc_working st" n] sim s by auto
    define st1 where "st1 = earnDay D rule (interestCurrency currency) (day_time n) (cb_Balance bal) st"
    define u1 where "u1 = u + daily_interest rule (interestCurrency currency) n (b n)"
    have sim1: "simulates val rule (interestCurrency currency) n (b, p, u1) st1"
      and only: "only_skips (rc_response st) (rc_response st1)"
      unfolding st1_def u1_def by (rule earnDay_simulates [OF sim [unfolded s] bal(2) rate])+
    note resp1 = only_skips_fields [OF only]
    have amt: "val (rc_pendingAmount st1) = u1" using sim1 by simp
    show ?thesis
    proof (cases "pays_on rule n \<and> 0 < u1")
      case False
      with step s True have "paid = []" "s' = (b, p, u1)" by (auto simp: u1_def Let_def)
      with False True bal(1) amt resp resp1 sim1 show ?thesis
        by (simp add: recalcDay_def day_simps st1_def [symmetric] Let_def
            simulates_later [of _ _ _ n _ _ "n + 1"] del: simulates.simps)
    next
      case True
      let ?k = "length (rp_Transactions (rc_response st1))"
      let ?build = "buildTransaction D uuidParse None (fst (ids ?k)) now (Some (interestRequest
        (r_AccountID rule) (rc_pendingAmount st1) (interestCurrency currency) categoryID accountName (day_time n))) False"
      have run: "recalcDay D uuidParse None ids now rule (interestCurrency currency) categoryID accountName
          (day_time n) st = ebind (ewrap ''build recalculated interest transaction'' ?build) (\<lambda>tx.
            Inr (postDay D rule now (day_time n) (snd (ids ?k)) tx st1))"
        using bal(1) True \<open>active_day rule n\<close> amt
        by (simp add: recalcDay_def day_simps st1_def [symmetric] Let_def)
      have paid: "paid = [(n, u1)]" using step s True \<open>active_day rule n\<close> by (auto simp: u1_def Let_def)
      have s': "s' = (if r_CapitalizationFrequency rule = CapitalizationFrequencyDaily then (\<lambda>k. b k + u1, p, 0)
         else if capitalizes_on rule n then (\<lambda>k. b k + p k + u1, \<lambda>_. 0, 0)
         else if r_CapitalizationFrequency rule \<noteq> CapitalizationFrequencyNone \<and>
            r_CapitalizationFrequency rule \<noteq> '''' then (b, \<lambda>k. p k + u1, 0)
         else (b, p, 0))"
        using step s True \<open>active_day rule n\<close> by (auto simp: u1_def Let_def)
      have nz: "\<not> IsZero (day_time n)" using True day by simp
      note build = build_interest [OF _ _ _ nz, of "r_AccountID rule" "rc_pendingAmount st1" currency
          uuidParse "fst (ids ?k)" now categoryID accountName]
      show ?thesis
      proof (cases "u1 \<le> 1000000000000")
        case False
        with build account amt True sim1 have "\<exists>e. ?build = Inl e" by auto
        with False paid run show ?thesis by auto
      next
        case le: True
        with build account amt True sim1 obtain tx where tx: "?build = Inr tx"
          and f: "t_ID tx = fst (ids ?k)" "t_AccountID tx = r_AccountID rule" "t_Amount tx = rc_pendingAmount st1"
            "t_Type tx = TransactionTypeInterestIncome" "t_Status tx = TransactionStatusConfirmed"
            "t_TransferID tx = None" "t_RelatedAccountID tx = None" "t_OccurredAt tx = day_time n"
            "t_SourceMetadata tx = ''{}''" by auto
        have u1: "0 < u1" "pays_on rule n" using True by simp_all
        have resp': "response_ok D val ids rule (rc_response st1)" using resp resp1 by simp
        note post = postDay_simulates [where ids = ids and now = now, OF sim1 u1(1) le u1(2) resp' f refl]
        show ?thesis
          using run tx le paid True resp resp1 post s' by simp
      qed
    qed
  qed
qed

end

context decimal_pkg
begin

lemma recalcLoop_refines:
  assumes "simulates val rule (interestCurrency currency) m s st"
    and "response_ok D val ids rule (rc_response st)"
    and account: "TrimSpace (r_AccountID rule) = r_AccountID rule" "r_AccountID rule \<noteq> []"
    and rate: "\<And>date. 0 < effectiveRateBps rule date"
    and day: "\<And>n. m \<le> n \<Longrightarrow> pays_on rule n \<Longrightarrow> n \<noteq> 0"
  shows "if \<forall>(n, u)\<in>set (compound rule (interestCurrency currency) [m..t] s). u \<le> 1000000000000
    then \<exists>st'. recalcLoop D uuidParse None ids now rule (interestCurrency currency) categoryID accountName
        (map day_time [m..t]) st = Inr st' \<and>
      response_ok D val ids rule (rc_response st') \<and>
      postings val (rc_response st') =
        postings val (rc_response st) @ compound rule (interestCurrency currency) [m..t] s
    else \<exists>e. recalcLoop D uuidParse None ids now rule (interestCurrency currency) categoryID accountName
        (map day_time [m..t]) st = Inl e"
  using assms(1,2) day
proof (induction "nat (t - m + 1)" arbitrary: m s st)
  case 0
  then show ?case by simp
next
  case (Suc k)
  then have le: "m \<le> t" and k: "k = nat (t - (m + 1) + 1)" by linarith+
  obtain paid s' where step: "compound_day rule (interestCurrency currency) m s = (paid, s')"
    by (cases "compound_day rule (interestCurrency currency) m s")
  have d: "pays_on rule m \<Longrightarrow> m \<noteq> 0" using Suc.prems(3) by simp
  note one = recalcDay_refines [OF Suc.prems(1,2) account rate d step, of uuidParse now categoryID accountName]
  have list: "[m..t] = m # [m + 1..t]" using le by (rule upto_rec1)
  show ?case
  proof (cases "\<forall>(n, u)\<in>set paid. u \<le> 1000000000000")
    case False
    with one obtain e where "recalcDay D uuidParse None ids now rule (interestCurrency currency)
        categoryID accountName (day_time m) st = Inl e" by auto
    with False step show ?thesis by (auto simp: list)
  next
    case True
    with one obtain st' where st': "recalcDay D uuidParse None ids now rule
        (interestCurrency currency) categoryID accountName (day_time m) st = Inr st'"
      "simulates val rule (interestCurrency currency) (m + 1) s' st'"
      "response_ok D val ids rule (rc_response st')"
      "postings val (rc_response st') = postings val (rc_response st) @ paid" by auto
    from Suc.hyps(1) [OF k st'(2,3)] Suc.prems(3) True st' step show ?thesis
      by (simp add: list ball_Un split: if_split_asm) blast
  qed
qed

end

lemma recalcRange_days:
  "recalcRange now req = (day_time (date_day (fst (recalcRange now req))), day_time (date_day (snd (recalcRange now req))))"
  by (simp add: recalcRange_def Let_def dateOnly_day_time)

text \<open>The state of the specification a request starts from.\<close>

definition initial_compound ::
  "('d \<Rightarrow> rat) \<Rightarrow> 'd RecalculateRuleInterestRequest \<Rightarrow> 'd decimal_ops \<Rightarrow> int \<Rightarrow> int \<Rightarrow> compound_state" where
  "initial_compound val req D f t =
     (let st = recalcInit D req (day_time f) (day_time t); account = r_AccountID (rq_Rule req)
      in (balance_by_day val account (rc_working st),
          balance_by_day val account (rc_pendingCapitalization st), 0))"

lemma typed_subset: "typed a txs \<Longrightarrow> set ys \<subseteq> set txs \<Longrightarrow> typed a ys"
  by (auto simp: typed_def)

lemma map_filter_subset: "(\<And>x y. f x = Some y \<Longrightarrow> y \<in> A) \<Longrightarrow> set (List.map_filter f xs) \<subseteq> A"
  by (induction xs) (auto simp: map_filter_simps split: option.splits)

lemma recalcInit_subset:
  "set (rc_working (recalcInit D req f t)) \<subseteq> set (rq_Transactions req)"
  "set (rc_pendingCapitalization (recalcInit D req f t)) \<subseteq> set (rq_Transactions req)"
proof -
  have ex: "set (excludeAccrualTransactions txs accs rule f t) \<subseteq> set txs" for txs :: "'a Transaction list" and accs rule
    by (auto simp: excludeAccrualTransactions_def Let_def)
  show "set (rc_working (recalcInit D req f t)) \<subseteq> set (rq_Transactions req)"
    using ex by (fastforce simp: recalcInit_def Let_def PrincipalTransactionsForRuleAt_def)
  have mo: "map_of (rev (map (\<lambda>t. (t_ID t, t)) txs)) i = Some t \<Longrightarrow> t \<in> set txs" for txs :: "'a Transaction list" and i t
    by (auto dest!: map_of_SomeD)
  have mf: "set (List.map_filter (\<lambda>a. map_of (rev (map (\<lambda>t. (t_ID t, t)) txs)) (i_TransactionID a)) accs) \<subseteq> set txs"
    for txs :: "'a Transaction list" and accs :: "'a InterestAccrual list"
    by (rule map_filter_subset) (rule mo)
  have "set (pendingCapitalizationTransactionsBefore txs accs rule g h) \<subseteq> set txs"
    for txs :: "'a Transaction list" and accs rule g h
    unfolding pendingCapitalizationTransactionsBefore_def Let_def
    by (rule if_split [THEN iffD2]) (use mf in simp_all)
  with ex show "set (rc_pendingCapitalization (recalcInit D req f t)) \<subseteq> set (rq_Transactions req)"
    by (fastforce simp: recalcInit_def Let_def)
qed

definition recalculable :: "InterestRule \<Rightarrow> bool" where
  "recalculable rule \<longleftrightarrow>
     validateRuleForRecalculation rule = Inr () \<and> TrimSpace (r_AccountID rule) = r_AccountID rule \<and>
     (case r_PromoRateBps rule of None \<Rightarrow> True | Some p \<Rightarrow> 0 < p)"

lemma recalculableD:
  assumes "recalculable rule"
  shows "validateRuleForRecalculation rule = Inr ()" "TrimSpace (r_AccountID rule) = r_AccountID rule"
    "r_AccountID rule \<noteq> []" "0 < effectiveRateBps rule date"
    "ValidCapitalizationFrequency (r_CapitalizationFrequency rule)"
proof -
  show v: "validateRuleForRecalculation rule = Inr ()" and t: "TrimSpace (r_AccountID rule) = r_AccountID rule"
    using assms by (simp_all add: recalculable_def)
  from v t show "r_AccountID rule \<noteq> []" by (auto simp: validateRuleForRecalculation_def)
  from v have "0 < r_AnnualRateBps rule" by (auto simp: validateRuleForRecalculation_def)
  with assms effectiveRateBps_cases [of rule date] show "0 < effectiveRateBps rule date"
    by (auto simp: recalculable_def split: option.splits)
  from v show "ValidCapitalizationFrequency (r_CapitalizationFrequency rule)"
    by (auto simp: validateRuleForRecalculation_def ValidateFrequencies_def echeck_def split: if_splits)
qed

context decimal_pkg
begin

lemma Recalculate_compound:
  assumes rule: "recalculable (rq_Rule req)" and txs: "typed (r_AccountID (rq_Rule req)) (rq_Transactions req)"
    and range: "recalcRange now req = (day_time f, day_time t)" "0 < f" "f \<le> t"
  defines "paid \<equiv> compound (rq_Rule req) (interestCurrency (rq_Currency req))
      [recalc_start (rq_Rule req) f t..t] (initial_compound val req D f t)"
  shows "if \<forall>(n, u)\<in>set paid. u \<le> 1000000000000
    then \<exists>resp. engine_Recalculate D uuidParse None ids now (Some req) = Inr resp \<and>
      response_ok D val ids (rq_Rule req) resp \<and> postings val resp = paid
    else \<exists>e. engine_Recalculate D uuidParse None ids now (Some req) = Inl e"
proof -
  let ?rule = "rq_Rule req" and ?m = "recalc_start (rq_Rule req) f t"
  let ?st = "recalcInit D req (day_time f) (day_time t)"
  have zero: "has_scale d (0::rat)" for d using round_away_eq_iff [of d 0] by simp
  have sim: "simulates val ?rule (interestCurrency (rq_Currency req)) ?m (initial_compound val req D f t) ?st"
    using typed_subset [OF txs recalcInit_subset(1)] typed_subset [OF txs recalcInit_subset(2)] zero
    by (simp add: initial_compound_def Let_def recalcInit_def)
  have resp: "response_ok D val ids ?rule (rc_response ?st)" "postings val (rc_response ?st) = []"
    by (simp_all add: recalcInit_def Let_def response_ok_def postings_def)
  have day: "n \<noteq> 0" if "?m \<le> n" "pays_on ?rule n" for n
    using recalc_start_no_payment [of ?rule f t n] that range(2) by force
  note loop = recalcLoop_refines [OF sim resp(1) recalculableD(2,3) [OF rule] recalculableD(4) [OF rule] day,
      where t = t and uuidParse = uuidParse and now = now
      and categoryID = "rq_CategoryID req" and accountName = "rq_AccountName req"]
  have run: "engine_Recalculate D uuidParse None ids now (Some req) =
      ebind (recalcLoop D uuidParse None ids now ?rule (interestCurrency (rq_Currency req))
        (rq_CategoryID req) (rq_AccountName req) (map day_time [?m..t]) ?st) (\<lambda>st. Inr (rc_response st))"
    using recalculableD(1) [OF rule] range
    by (simp add: engine_Recalculate_def day_simps dayRange_day_time)
  show ?thesis
    using loop resp(2) unfolding run paid_def [symmetric] by (auto split: if_splits)
qed

end

section \<open>Simple interest\<close>

definition earned_on :: "InterestRule \<Rightarrow> string \<Rightarrow> (int \<Rightarrow> rat) \<Rightarrow> int \<Rightarrow> rat" where
  "earned_on rule currency b n = (if active_day rule n then daily_interest rule currency n (b n) else 0)"

lemma earned_on_simps:
  "active_day rule n \<Longrightarrow> earned_on rule currency b n = daily_interest rule currency n (b n)"
  "\<not> active_day rule n \<Longrightarrow> earned_on rule currency b n = 0"
  by (simp_all add: earned_on_def)

text \<open>Without capitalization every day's interest is paid, up to the last paying day.\<close>

lemma compound_simple:
  assumes "r_CapitalizationFrequency rule \<in> {CapitalizationFrequencyNone, ''''}" "pays_on rule t"
    and rate: "\<And>date. 0 < effectiveRateBps rule date" and "0 \<le> u"
  shows "sum_list (map snd (compound rule currency (ns @ [t]) (b, p, u))) =
    u + sum_list (map (earned_on rule currency b) (ns @ [t]))"
  using assms(4)
proof (induction ns arbitrary: u)
  case Nil
  have cap: "\<not> capitalizes_on rule t" using assms(1) by (auto simp: capitalizes_on_def)
  have "0 \<le> daily_interest rule currency t (b t)" by (rule daily_interest_nonneg [OF rate])
  with Nil assms(1,2) cap show ?case
    by (auto simp: earned_on_def Let_def pays_on_def)
next
  case (Cons n ns)
  have cap: "\<not> capitalizes_on rule n" using assms(1) by (auto simp: capitalizes_on_def)
  have "0 \<le> daily_interest rule currency n (b n)" by (rule daily_interest_nonneg [OF rate])
  with Cons assms(1) cap show ?case
    by (auto simp: earned_on_def Let_def)
qed

section \<open>The accrual of one date\<close>

lemma nextAccrualPeriodStart_day:
  "nextAccrualPeriodStart rule accruals (day_time d) =
     day_time (date_day (nextAccrualPeriodStart rule accruals (day_time d)))"
proof -
  define step where "step = (\<lambda>start (accrual :: 'a InterestAccrual). let date = dateOnly (i_AccrualDate accrual)
      in if ofRule rule accrual \<and> Before date (day_time d) \<and> \<not> Before date start
         then AddDate date 0 0 1 else start)"
  have "foldl step (day_time m) accruals = day_time (date_day (foldl step (day_time m) accruals))" for m
    by (induction accruals arbitrary: m) (simp_all add: step_def Let_def dateOnly_day_time)
  then show ?thesis
    unfolding nextAccrualPeriodStart_def step_def [symmetric] by (simp add: dateOnly_day_time)
qed

context decimal_pkg
begin

lemma flatAccrualLoop_days:
  assumes "0 < val balance" and rate: "\<And>date. 0 < effectiveRateBps rule date"
    and "0 \<le> val tot" "0 < val tot \<longrightarrow> 0 < lastRate"
  shows "\<exists>tot' rate'. flatAccrualLoop D None rule (interestCurrency currency) balance (map day_time ns) tot lastRate =
      Inr (tot', rate') \<and>
    val tot' = val tot + sum_list (map (earned_on rule (interestCurrency currency) (\<lambda>_. val balance)) ns) \<and>
    0 \<le> val tot' \<and> has_scale (currency_digits (interestCurrency currency)) (val tot' - val tot) \<and>
    (0 < val tot' \<longrightarrow> 0 < rate')"
  using assms(3,4)
proof (induction ns arbitrary: tot lastRate)
  case Nil
  have "has_scale d (0::rat)" for d using round_away_eq_iff [of d 0] by simp
  with Nil show ?case by simp
next
  case (Cons n ns)
  let ?e = "daily_interest rule (interestCurrency currency) n (val balance)"
  let ?a = "calculateDailyInterestAmount D balance (effectiveRateBps rule (day_time n))
      (r_DayCountConvention rule) (day_time n) (interestCurrency currency)"
  have a: "val ?a = ?e" by (rule val_daily_interest [OF assms(1)])
  have e: "0 \<le> ?e" "has_scale (currency_digits (interestCurrency currency)) ?e"
    by (rule daily_interest_nonneg [OF rate], rule has_scale_daily_interest)
  show ?case
  proof (cases "active_day rule n")
    case False
    with Cons show ?thesis by (simp add: day_simps earned_on_simps)
  next
    case True
    have "0 \<le> val (d_Add D tot ?a)" "0 < val (d_Add D tot ?a) \<longrightarrow> 0 < effectiveRateBps rule (day_time n)"
      using Cons.prems e a rate by simp_all
    from Cons.IH [OF this] obtain tot' rate' where
      ih: "flatAccrualLoop D None rule (interestCurrency currency) balance (map day_time ns) (d_Add D tot ?a)
          (effectiveRateBps rule (day_time n)) = Inr (tot', rate')"
        "val tot' = val tot + ?e + sum_list (map (earned_on rule (interestCurrency currency) (\<lambda>_. val balance)) ns)"
        "0 \<le> val tot'" "has_scale (currency_digits (interestCurrency currency)) (val tot' - (val tot + ?e))"
        "0 < val tot' \<longrightarrow> 0 < rate'"
      using a by auto
    from has_scale_add [OF ih(4) e(2)] have "has_scale (currency_digits (interestCurrency currency)) (val tot' - val tot)"
      by simp
    with ih True show ?thesis by (simp add: day_simps Let_def earned_on_simps)
  qed
qed

lemma accrualLoop_days:
  assumes "typed (r_AccountID rule) txs" "r_AccountID rule \<noteq> []"
    and rate: "\<And>date. 0 < effectiveRateBps rule date"
    and "0 \<le> val tot" "0 < val tot \<longrightarrow> 0 < val lastBalance \<and> 0 < lastRate"
  shows "\<exists>tot' bal' rate'. accrualLoop D None rule (interestCurrency currency) txs (map day_time ns) tot lastBalance lastRate =
      Inr (tot', bal', rate') \<and>
    val tot' = val tot + sum_list (map (earned_on rule (interestCurrency currency)
      (balance_by_day val (r_AccountID rule) txs)) ns) \<and>
    0 \<le> val tot' \<and> has_scale (currency_digits (interestCurrency currency)) (val tot' - val tot) \<and>
    (0 < val tot' \<longrightarrow> 0 < val bal' \<and> 0 < rate')"
  using assms(4,5)
proof (induction ns arbitrary: tot lastBalance lastRate)
  case Nil
  have "has_scale d (0::rat)" for d using round_away_eq_iff [of d 0] by simp
  with Nil show ?case by simp
next
  case (Cons n ns)
  let ?b = "balance_by_day val (r_AccountID rule) txs n"
  let ?e = "daily_interest rule (interestCurrency currency) n ?b"
  obtain bal where bal: "Calculate D None (r_AccountID rule) (transactionsUpToDate txs (day_time n)) = Inr bal"
    "val (cb_Balance bal) = ?b" using Calculate_by_day [OF assms(2,1)] by blast
  have e: "0 \<le> ?e" "has_scale (currency_digits (interestCurrency currency)) ?e"
    by (rule daily_interest_nonneg [OF rate], rule has_scale_daily_interest)
  show ?case
  proof (cases "active_day rule n \<and> 0 < ?b")
    case False
    then have "earned_on rule (interestCurrency currency) (balance_by_day val (r_AccountID rule) txs) n = 0"
      by (auto simp: earned_on_def daily_interest_def)
    with False Cons bal show ?thesis by (auto simp: day_simps)
  next
    case True
    let ?a = "calculateDailyInterestAmount D (cb_Balance bal) (effectiveRateBps rule (day_time n))
        (r_DayCountConvention rule) (day_time n) (interestCurrency currency)"
    have a: "val ?a = ?e" using val_daily_interest [of "cb_Balance bal" rule n currency] bal(2) True by simp
    have "0 \<le> val (d_Add D tot ?a)"
      "0 < val (d_Add D tot ?a) \<longrightarrow> 0 < val (cb_Balance bal) \<and> 0 < effectiveRateBps rule (day_time n)"
      using Cons.prems e a rate bal(2) True by simp_all
    from Cons.IH [OF this] obtain tot' bal' rate' where
      ih: "accrualLoop D None rule (interestCurrency currency) txs (map day_time ns) (d_Add D tot ?a)
          (cb_Balance bal) (effectiveRateBps rule (day_time n)) = Inr (tot', bal', rate')"
        "val tot' = val tot + ?e + sum_list (map (earned_on rule (interestCurrency currency)
          (balance_by_day val (r_AccountID rule) txs)) ns)"
        "0 \<le> val tot'" "has_scale (currency_digits (interestCurrency currency)) (val tot' - (val tot + ?e))"
        "0 < val tot' \<longrightarrow> 0 < val bal' \<and> 0 < rate'"
      using a by auto
    from has_scale_add [OF ih(4) e(2)] have "has_scale (currency_digits (interestCurrency currency)) (val tot' - val tot)"
      by simp
    with ih True bal show ?thesis by (simp add: day_simps Let_def earned_on_simps)
  qed
qed

end

text \<open>The balance an accrual is computed on: the given one when there are no transactions.\<close>

definition accrual_balance ::
  "('d \<Rightarrow> rat) \<Rightarrow> 'd AccrueRuleInterestRequest \<Rightarrow> int \<Rightarrow> int \<Rightarrow> rat" where
  "accrual_balance val req d =
     (let txs = PrincipalTransactionsForRuleAt (aq_Transactions req) (aq_ExistingAccruals req) (aq_Rule req)
            (day_time d)
      in if txs = [] then (\<lambda>_. val (aq_Balance req)) else balance_by_day val (r_AccountID (aq_Rule req)) txs)"

lemma validateRuleForAccrual_recalculation:
  "validateRuleForAccrual rule = Inr () \<Longrightarrow> validateRuleForRecalculation rule = Inr ()"
  by (simp add: validateRuleForAccrual_def validateRuleForRecalculation_def)

context decimal_pkg
begin

lemma calculateAccrualAmount_days:
  assumes "typed (r_AccountID rule) txs" "r_AccountID rule \<noteq> []"
    and rate: "\<And>date. 0 < effectiveRateBps rule date"
    and run: "calculateAccrualAmount D None rule (interestCurrency currency) txs balance (day_time m) (day_time d) =
      Inr (amount, bal, rateBps)" and pos: "0 < val amount"
  shows "m \<le> d \<and> 0 < val bal \<and> 0 < rateBps \<and>
    has_scale (currency_digits (interestCurrency currency)) (val amount) \<and>
    val amount = sum_list (map (earned_on rule (interestCurrency currency)
      (if txs = [] then (\<lambda>_. val balance) else balance_by_day val (r_AccountID rule) txs)) [m..d])"
proof (cases "txs = []")
  case True
  with run have "m \<le> d" "0 < val balance" and loop: "\<exists>r. flatAccrualLoop D None rule
      (interestCurrency currency) balance (map day_time [m..d]) (d_Zero D) 0 = Inr (amount, r) \<and> bal = balance \<and> r = rateBps"
    by (auto simp: calculateAccrualAmount_def dayRange_day_time)
  with flatAccrualLoop_days [OF \<open>0 < val balance\<close> rate, of "d_Zero D" 0 currency "[m..d]"] pos True
  show ?thesis by auto
next
  case False
  with run have "m \<le> d" and "accrualLoop D None rule (interestCurrency currency) txs (map day_time [m..d])
      (d_Zero D) (d_Zero D) 0 = Inr (amount, bal, rateBps)"
    by (auto simp: calculateAccrualAmount_def dayRange_day_time)
  with accrualLoop_days [OF assms(1,2) rate, of "d_Zero D" "d_Zero D" 0 currency "[m..d]"] pos False
  show ?thesis by auto
qed

lemma Accrue_posting:
  assumes rule: "recalculable (aq_Rule req)" and txs: "typed (r_AccountID (aq_Rule req)) (aq_Transactions req)"
    and date: "dateOnly (aq_AccrualDate req) = day_time d" "d \<noteq> 0"
    and run: "engine_Accrue D uuidParse None ids now (Some req) = Inr resp" "\<not> ap_Skipped resp"
  obtains t a where "ap_Transaction resp = Some t" "ap_Accrual resp = Some a" "posting_ok D (aq_Rule req) t a"
    "t_ID t = fst ids" "i_ID a = snd ids" "i_AccrualDate a = day_time d"
    "\<not> hasInterestAccrual (aq_ExistingAccruals req) (aq_Rule req) (day_time d)"
    "date_day (nextAccrualPeriodStart (aq_Rule req) (aq_ExistingAccruals req) (day_time d)) \<le> d"
    "val (i_Amount a) = sum_list (map (earned_on (aq_Rule req) (interestCurrency (aq_Currency req))
      (accrual_balance val req d))
      [date_day (nextAccrualPeriodStart (aq_Rule req) (aq_ExistingAccruals req) (day_time d))..d])"
proof -
  let ?rule = "aq_Rule req" and ?cur = "interestCurrency (aq_Currency req)"
  let ?p = "PrincipalTransactionsForRuleAt (aq_Transactions req) (aq_ExistingAccruals req) ?rule (day_time d)"
  define m where "m = date_day (nextAccrualPeriodStart ?rule (aq_ExistingAccruals req) (day_time d))"
  have m: "nextAccrualPeriodStart ?rule (aq_ExistingAccruals req) (day_time d) = day_time m"
    unfolding m_def by (rule nextAccrualPeriodStart_day)
  have typed: "typed (r_AccountID ?rule) ?p"
    by (rule typed_subset [OF txs]) (auto simp: PrincipalTransactionsForRuleAt_def Let_def)
  have pays: "pays_on ?rule d" and fresh: "\<not> hasInterestAccrual (aq_ExistingAccruals req) ?rule (day_time d)"
    using run date by (auto simp: engine_Accrue_def Let_def day_simps split: if_splits)
  obtain amount bal rateBps tx where calc: "calculateAccrualAmount D None ?rule ?cur ?p (aq_Balance req)
        (day_time m) (day_time d) = Inr (amount, bal, rateBps)" and pos: "0 < val amount"
    and build: "buildTransaction D uuidParse None (fst ids) now (Some (interestRequest (r_AccountID ?rule)
        amount ?cur (aq_CategoryID req) (aq_AccountName req) (day_time d))) False = Inr tx"
    and resp: "resp = \<lparr>ap_Transaction = Some (interestSource (interestAccrual (snd ids) ?rule tx (day_time d) amount bal rateBps now) tx),
        ap_Accrual = Some (interestAccrual (snd ids) ?rule tx (day_time d) amount bal rateBps now), ap_Skipped = False\<rparr>"
    using run date fresh by (auto simp: engine_Accrue_def Let_def m split: if_splits prod.splits)
  note amt = calculateAccrualAmount_days [OF typed recalculableD(3) [OF rule] recalculableD(4) [OF rule] calc pos]
  have nz: "\<not> IsZero (day_time d)" using date(2) by simp
  have sc: "has_scale (currency_digits ?cur) (val amount)" using amt by blast
  have "TrimSpace (r_AccountID ?rule) \<noteq> []" using recalculableD(2,3) [OF rule] by simp
  from build_interest [OF this pos sc nz, of uuidParse "fst ids" now "aq_CategoryID req" "aq_AccountName req"] build
  have f: "val amount \<le> 1000000000000" "t_ID tx = fst ids" "t_AccountID tx = r_AccountID ?rule" "t_Amount tx = amount"
    "t_Type tx = TransactionTypeInterestIncome" "t_Status tx = TransactionStatusConfirmed"
    "t_TransferID tx = None" "t_RelatedAccountID tx = None" "t_OccurredAt tx = day_time d" "t_SourceMetadata tx = ''{}''"
    using recalculableD(2) [OF rule] by (auto split: if_splits)
  let ?a = "interestAccrual (snd ids) ?rule tx (day_time d) amount bal rateBps now"
  have "transaction_checks D (interestSource ?a tx)" using f pos by (intro posting_checks) simp_all
  then have ok: "posting_ok D ?rule (interestSource ?a tx) ?a"
    using amt pos pays f
    by (simp add: posting_ok_def interestAccrual_def interestSource_def interest_pair_ok_def accrual_checks_def)
  show ?thesis
    by (rule that [OF _ _ ok]) (use resp amt fresh f in \<open>auto simp: interestAccrual_def interestSource_def
        m_def [symmetric] accrual_balance_def Let_def\<close>)
qed

end

section \<open>What a recalculation returns\<close>

text \<open>The header of a response, which the loop does not touch.\<close>

definition response_header ::
  "'d RecalculateRuleInterestResponse \<Rightarrow> string \<times> string \<times> time \<times> time" where
  "response_header r = (rp_AccountID r, rp_RuleID r, rp_FromDate r, rp_ToDate r)"

lemma day_header:
  "response_header (rc_response (skipDay st)) = response_header (rc_response st)"
  "response_header (rc_response (earnDay D rule currency day balance st)) = response_header (rc_response st)"
  "response_header (rc_response (postDay D rule now day aid tx st)) = response_header (rc_response st)"
  by (simp_all add: response_header_def skipDay_def earnDay_def postDay_def Let_def)

lemma recalcDay_header:
  assumes "recalcDay D uuidParse ctx ids now rule currency categoryID accountName day st = Inr st'"
  shows "response_header (rc_response st') = response_header (rc_response st)"
proof (cases "ruleActiveOn rule day")
  case False
  with assms show ?thesis by (auto simp: recalcDay_def day_header)
next
  case True
  with assms obtain b where "st' = earnDay D rule currency day b st \<or>
      (\<exists>aid tx. st' = postDay D rule now day aid tx (earnDay D rule currency day b st))"
    by (auto simp: recalcDay_def Let_def split: if_split_asm)
  then show ?thesis by (auto simp: day_header)
qed

lemma recalcLoop_header:
  "recalcLoop D uuidParse ctx ids now rule currency categoryID accountName days st = Inr st' \<Longrightarrow>
     response_header (rc_response st') = response_header (rc_response st)"
  by (induction days arbitrary: st) (auto dest: recalcDay_header)

lemma engine_Recalculate_frame:
  assumes "engine_Recalculate D uuidParse ctx ids now (Some req) = Inr resp"
  shows "rp_AccountID resp = r_AccountID (rq_Rule req)" "rp_RuleID resp = r_ID (rq_Rule req)"
    "recalcRange now req = (rp_FromDate resp, rp_ToDate resp)"
    "validateRuleForRecalculation (rq_Rule req) = Inr ()" "\<not> Before (rp_ToDate resp) (rp_FromDate resp)"
proof -
  obtain f t where r: "recalcRange now req = (f, t)" by (cases "recalcRange now req")
  with assms obtain st where st: "resp = rc_response st" "\<not> Before t f"
    "recalcLoop D uuidParse ctx ids now (rq_Rule req) (interestCurrency (rq_Currency req)) (rq_CategoryID req)
      (rq_AccountName req) (dayRange (recalculationStartDate (rq_Rule req) f t) t) (recalcInit D req f t) = Inr st"
    by (auto simp: engine_Recalculate_def)
  from recalcLoop_header [OF st(3)] st(1,2) r
  show "rp_AccountID resp = r_AccountID (rq_Rule req)" "rp_RuleID resp = r_ID (rq_Rule req)"
    "recalcRange now req = (rp_FromDate resp, rp_ToDate resp)" "\<not> Before (rp_ToDate resp) (rp_FromDate resp)"
    by (simp_all add: recalcInit_def Let_def response_header_def)
  show "validateRuleForRecalculation (rq_Rule req) = Inr ()" using assms by (auto simp: engine_Recalculate_def)
qed

context decimal_pkg
begin

lemma Recalculate_posts:
  assumes "recalculable (rq_Rule req)" "typed (r_AccountID (rq_Rule req)) (rq_Transactions req)"
    "recalcRange now req = (day_time f, day_time t)" "0 < f"
    "engine_Recalculate D uuidParse None ids now (Some req) = Inr resp"
  shows "response_ok D val ids (rq_Rule req) resp"
    "sorted_wrt (<) (map (\<lambda>a. date_day (i_AccrualDate a)) (rp_Accruals resp))"
    "a \<in> set (rp_Accruals resp) \<Longrightarrow> f \<le> date_day (i_AccrualDate a) \<and> date_day (i_AccrualDate a) \<le> t \<and>
       i_AccrualDate a = day_time (date_day (i_AccrualDate a)) \<and>
       shouldPostAccrual (rq_Rule req) (i_AccrualDate a) \<and> 0 < val (i_Amount a)"
proof -
  let ?rule = "rq_Rule req" and ?m = "recalc_start (rq_Rule req) f t"
  let ?paid = "compound ?rule (interestCurrency (rq_Currency req)) [?m..t] (initial_compound val req D f t)"
  have "f \<le> t" using assms(3,5) by (auto simp: engine_Recalculate_def)
  from Recalculate_compound [OF assms(1-4) this, of uuidParse ids] assms(5)
  have ok: "response_ok D val ids ?rule resp" and paid: "postings val resp = ?paid" by (auto split: if_splits)
  show "response_ok D val ids ?rule resp" by (rule ok)
  have "map (\<lambda>a. date_day (i_AccrualDate a)) (rp_Accruals resp) = map fst ?paid"
    unfolding paid [symmetric] by (simp add: postings_def)
  moreover have "sorted_wrt (<) (map fst ?paid)"
    by (rule compound_sorted) (simp add: strict_sorted_iff sorted_upto distinct_upto)
  ultimately show "sorted_wrt (<) (map (\<lambda>a. date_day (i_AccrualDate a)) (rp_Accruals resp))" by simp
  assume a: "a \<in> set (rp_Accruals resp)"
  have "(date_day (i_AccrualDate a), val (i_Amount a)) \<in> set ?paid"
    unfolding paid [symmetric] using a by (auto simp: postings_def)
  from compound_in [OF this] have p: "?m \<le> date_day (i_AccrualDate a)" "date_day (i_AccrualDate a) \<le> t"
    "pays_on ?rule (date_day (i_AccrualDate a))" "0 < val (i_Amount a)" by auto
  have "\<not> date_day (i_AccrualDate a) < f" using recalc_start_no_payment p(1,3) by blast
  moreover have "i_AccrualDate a = day_time (date_day (i_AccrualDate a))"
    using ok a by (auto simp: response_ok_def list_all2_conv_all_nth in_set_conv_nth posting_ok_def)
  ultimately show "f \<le> date_day (i_AccrualDate a) \<and> date_day (i_AccrualDate a) \<le> t \<and>
      i_AccrualDate a = day_time (date_day (i_AccrualDate a)) \<and>
      shouldPostAccrual ?rule (i_AccrualDate a) \<and> 0 < val (i_Amount a)"
    using p by (metis not_less shouldPostAccrual_day)
qed

end

section \<open>Properties\<close>

text \<open>C10. The recalculation of a range refines the day by day specification of compound interest: if
  the specification pays no amount above \<open>10 ^ 12\<close>, the engine returns, and it posts exactly
  the days and amounts the specification pays, as pairs of a transaction and an accrual that
  satisfy their tables; otherwise it returns an error.\<close>

theorem Recalculate_refines_compound:
  assumes "decimal_pkg D val" "recalculable (rq_Rule req)"
    "typed (r_AccountID (rq_Rule req)) (rq_Transactions req)"
    "recalcRange now req = (day_time f, day_time t)" "0 < f" "f \<le> t"
    "paid = compound (rq_Rule req) (interestCurrency (rq_Currency req))
      [recalc_start (rq_Rule req) f t..t] (initial_compound val req D f t)"
  shows "if \<forall>(n, u)\<in>set paid. u \<le> 10 ^ 12
    then \<exists>resp. engine_Recalculate D uuidParse None ids now (Some req) = Inr resp \<and>
      response_ok D val ids (rq_Rule req) resp \<and> postings val resp = paid
    else \<exists>e. engine_Recalculate D uuidParse None ids now (Some req) = Inl e"
  using decimal_pkg.Recalculate_compound [OF assms(1-6), of uuidParse ids] unfolding assms(7) by simp

definition sample_rule :: "string \<Rightarrow> string \<Rightarrow> InterestRule" where
  "sample_rule accrual capitalization =
     \<lparr>r_ID = ''r1'', r_AccountID = ''A'', r_AnnualRateBps = 3650, r_PromoRateBps = None,
      r_PromoEndDate = None, r_AccrualFrequency = accrual, r_CapitalizationFrequency = capitalization,
      r_DayCountConvention = DayCountConventionActual365, r_IsActive = True,
      r_StartDate = day_time 738000, r_EndDate = Some (day_time 738002), r_Version = 0\<rparr>"

definition sample_deposit :: "dec Transaction list" where
  "sample_deposit = [sample_transaction ''1'' ''A'' ''income'' (Dec 1000000 0)]"

definition posting_ids :: "nat \<Rightarrow> string \<times> string" where
  "posting_ids k = (if k = 0 then (''t1'', ''i1'') else (''t2'', ''i2''))"

definition sample_recalculation :: "string \<Rightarrow> string \<Rightarrow> dec RecalculateRuleInterestRequest" where
  "sample_recalculation accrual capitalization =
     \<lparr>rq_Rule = sample_rule accrual capitalization, rq_AccountName = ''Deposit'', rq_CategoryID = '''',
      rq_Currency = ''RUB'', rq_Transactions = sample_deposit, rq_ExistingAccruals = [],
      rq_FromDate = day_time 738001, rq_ToDate = day_time 738002, rq_Today = zero_time\<rparr>"

lemma sample_recalculation_facts:
  "recalculable (rq_Rule (sample_recalculation ''daily'' ''daily''))"
  "recalculable (rq_Rule (sample_recalculation ''end_of_term'' ''none''))"
  "typed ''A'' sample_deposit"
  "recalcRange (day_time 738010) (sample_recalculation a c) = (day_time 738001, day_time 738002)"
  by (code_simp, code_simp, code_simp, simp add: recalcRange_def sample_recalculation_def)

theorem Recalculate_refines_compound_witness:
  "\<exists>resp. engine_Recalculate dec_ops (\<lambda>_. True) None posting_ids (day_time 738010)
      (Some (sample_recalculation ''daily'' ''daily'')) = Inr resp \<and>
    postings dval resp = [(738001, 1000), (738002, 1001)]"
proof -
  let ?req = "sample_recalculation ''daily'' ''daily''"
  have paid: "[(738001, 1000), (738002, 1001)] = compound (rq_Rule ?req) (interestCurrency (rq_Currency ?req))
      [recalc_start (rq_Rule ?req) 738001 738002..738002] (initial_compound dval ?req dec_ops 738001 738002)"
    by code_simp
  have "typed (r_AccountID (rq_Rule ?req)) (rq_Transactions ?req)"
    using sample_recalculation_facts(3) by (simp add: sample_recalculation_def sample_rule_def)
  from Recalculate_refines_compound [OF decimal_pkg_dec sample_recalculation_facts(1) this
      sample_recalculation_facts(4) _ _ paid, of "\<lambda>_. True" posting_ids]
  show ?thesis by auto
qed

text \<open>C12. The accruals a recalculation returns lie on strictly increasing paying days inside the
  requested range (the range whose old accruals are replaced, although the calculation may
  start earlier), pair up with its transactions, have positive amounts, and add up to its
  total.\<close>

theorem Recalculate_dates_and_total:
  assumes "decimal_pkg D val" "recalculable (rq_Rule req)"
    "typed (r_AccountID (rq_Rule req)) (rq_Transactions req)"
    "recalcRange now req = (day_time f, day_time t)" "0 < f"
    "engine_Recalculate D uuidParse None ids now (Some req) = Inr resp"
  shows "sorted_wrt (<) (map (\<lambda>a. date_day (i_AccrualDate a)) (rp_Accruals resp)) \<and>
    (\<forall>a\<in>set (rp_Accruals resp). f \<le> date_day (i_AccrualDate a) \<and> date_day (i_AccrualDate a) \<le> t \<and>
       shouldPostAccrual (rq_Rule req) (i_AccrualDate a) \<and> 0 < val (i_Amount a)) \<and>
    list_all2 (posting_ok D (rq_Rule req)) (rp_Transactions resp) (rp_Accruals resp) \<and>
    rp_CreatedAccruals resp = int (length (rp_Accruals resp)) \<and>
    val (rp_TotalAmount resp) = sum_list (map (\<lambda>a. val (i_Amount a)) (rp_Accruals resp))"
  using decimal_pkg.Recalculate_posts [OF assms] by (auto simp: response_ok_def)

theorem Recalculate_dates_and_total_witness:
  "\<exists>resp. engine_Recalculate dec_ops (\<lambda>_. True) None posting_ids (day_time 738010)
      (Some (sample_recalculation ''end_of_term'' ''none'')) = Inr resp \<and>
    (\<forall>a\<in>set (rp_Accruals resp). date_day (i_AccrualDate a) \<le> 738002)"
proof -
  let ?req = "sample_recalculation ''end_of_term'' ''none''"
  let ?run = "engine_Recalculate dec_ops (\<lambda>_. True) None posting_ids (day_time 738010) (Some ?req)"
  have typed: "typed (r_AccountID (rq_Rule ?req)) (rq_Transactions ?req)"
    using sample_recalculation_facts(3) by (simp add: sample_recalculation_def sample_rule_def)
  have "isOk ?run" by code_simp
  then obtain resp where run: "?run = Inr resp" by (auto simp: isOk_iff)
  have "0 < (738001::int)" by simp
  from Recalculate_dates_and_total [OF decimal_pkg_dec sample_recalculation_facts(2) typed
      sample_recalculation_facts(4) this run]
  show ?thesis using run by blast
qed

text \<open>Without capitalization, over a range that ends on a paying day, the total is simple
  interest: the sum over the active days of the balance of the day times the rate of the day,
  divided by the days of the year and rounded to the currency.\<close>

theorem Recalculate_simple_interest:
  assumes "decimal_pkg D val" "recalculable (rq_Rule req)"
    "typed (r_AccountID (rq_Rule req)) (rq_Transactions req)"
    "recalcRange now req = (day_time f, day_time t)" "0 < f"
    "r_CapitalizationFrequency (rq_Rule req) = CapitalizationFrequencyNone" "shouldPostAccrual (rq_Rule req) (day_time t)"
    "engine_Recalculate D uuidParse None ids now (Some req) = Inr resp"
  shows "val (rp_TotalAmount resp) = sum_list (map (earned_on (rq_Rule req) (interestCurrency (rq_Currency req))
      (balance_by_day val (r_AccountID (rq_Rule req)) (rc_working (recalcInit D req (day_time f) (day_time t)))))
    [recalc_start (rq_Rule req) f t..t])"
proof -
  let ?rule = "rq_Rule req" and ?m = "recalc_start (rq_Rule req) f t"
  let ?paid = "compound ?rule (interestCurrency (rq_Currency req)) [?m..t] (initial_compound val req D f t)"
  have le: "f \<le> t" using assms(4,8) by (auto simp: engine_Recalculate_def)
  from decimal_pkg.Recalculate_compound [OF assms(1-5) this, of uuidParse ids] assms(8)
  have ok: "response_ok D val ids ?rule resp" and paid: "postings val resp = ?paid" by (auto split: if_splits)
  have "?m \<le> t" using recalc_start_le [of ?rule f t] le by linarith
  then have days: "[?m..t] = [?m..t - 1] @ [t]" by (rule upto_rec2)
  have pays: "pays_on ?rule t" using assms(7) by (simp add: day_simps)
  have "val (rp_TotalAmount resp) = sum_list (map snd ?paid)"
    unfolding paid [symmetric] using ok by (simp add: postings_def response_ok_def comp_def)
  also have "\<dots> = sum_list (map (earned_on ?rule (interestCurrency (rq_Currency req))
      (balance_by_day val (r_AccountID ?rule) (rc_working (recalcInit D req (day_time f) (day_time t))))) [?m..t])"
    using assms(6) compound_simple [OF _ pays recalculableD(4) [OF assms(2)], of 0]
    unfolding days initial_compound_def Let_def by simp
  finally show ?thesis .
qed

theorem Recalculate_simple_interest_witness:
  "\<exists>resp. engine_Recalculate dec_ops (\<lambda>_. True) None posting_ids (day_time 738010)
      (Some (sample_recalculation ''end_of_term'' ''none'')) = Inr resp \<and> dval (rp_TotalAmount resp) = 3000"
proof -
  let ?req = "sample_recalculation ''end_of_term'' ''none''"
  let ?run = "engine_Recalculate dec_ops (\<lambda>_. True) None posting_ids (day_time 738010) (Some ?req)"
  have typed: "typed (r_AccountID (rq_Rule ?req)) (rq_Transactions ?req)"
    using sample_recalculation_facts(3) by (simp add: sample_recalculation_def sample_rule_def)
  have "isOk ?run" by code_simp
  then obtain resp where run: "?run = Inr resp" by (auto simp: isOk_iff)
  have h: "0 < (738001::int)" "r_CapitalizationFrequency (rq_Rule ?req) = CapitalizationFrequencyNone"
    "shouldPostAccrual (rq_Rule ?req) (day_time 738002)" by code_simp+
  have "sum_list (map (earned_on (rq_Rule ?req) (interestCurrency (rq_Currency ?req))
      (balance_by_day dval (r_AccountID (rq_Rule ?req))
        (rc_working (recalcInit dec_ops ?req (day_time 738001) (day_time 738002)))))
    [recalc_start (rq_Rule ?req) 738001 738002..738002]) = 3000" by code_simp
  with Recalculate_simple_interest [OF decimal_pkg_dec sample_recalculation_facts(2) typed
      sample_recalculation_facts(4) h run] run
  show ?thesis by auto
qed

text \<open>The days an accrual of day \<open>d\<close> has to pay: a rule that accrues daily pays the day itself, any other
  rule every day since its start that lies after all its accruals before \<open>d\<close>.\<close>

definition unpaid_days :: "InterestRule \<Rightarrow> 'd InterestAccrual list \<Rightarrow> int \<Rightarrow> int list" where
  "unpaid_days rule accruals d =
     (if r_AccrualFrequency rule = AccrualFrequencyDaily then [d]
      else filter (\<lambda>n. \<forall>a\<in>set accruals. i_AccountID a = r_AccountID rule \<and> i_RuleID a = r_ID rule \<and>
             date_day (i_AccrualDate a) < d \<longrightarrow> date_day (i_AccrualDate a) < n)
           [date_day (r_StartDate rule)..d])"

text \<open>The running start of the code is the first of these days.\<close>

lemma nextAccrualPeriodStart_le:
  assumes "r_AccrualFrequency rule \<noteq> AccrualFrequencyDaily"
  shows "date_day (nextAccrualPeriodStart rule accruals (day_time d)) \<le> n \<longleftrightarrow>
    date_day (r_StartDate rule) \<le> n \<and>
    (\<forall>a\<in>set accruals. i_AccountID a = r_AccountID rule \<and> i_RuleID a = r_ID rule \<and>
       date_day (i_AccrualDate a) < d \<longrightarrow> date_day (i_AccrualDate a) < n)"
proof -
  define step where "step = (\<lambda>start (accrual :: 'a InterestAccrual). let date = dateOnly (i_AccrualDate accrual)
      in if ofRule rule accrual \<and> Before date (day_time d) \<and> \<not> Before date start
         then AddDate date 0 0 1 else start)"
  have step: "step (day_time m) a = day_time (if ofRule rule a \<and> date_day (i_AccrualDate a) < d \<and> m \<le> date_day (i_AccrualDate a)
      then date_day (i_AccrualDate a) + 1 else m)" for m a
    by (simp add: step_def Let_def dateOnly_day_time not_less)
  have "date_day (foldl step (day_time m) accruals) \<le> n \<longleftrightarrow> m \<le> n \<and>
      (\<forall>a\<in>set accruals. ofRule rule a \<and> date_day (i_AccrualDate a) < d \<longrightarrow> date_day (i_AccrualDate a) < n)" for m
    by (induction accruals arbitrary: m) (simp, simp only: foldl_Cons step, auto)
  then show ?thesis
    using assms unfolding nextAccrualPeriodStart_def step_def [symmetric] by (simp add: dateOnly_day_time ofRule_def)
qed

lemma filter_upto_from: "k \<le> m \<Longrightarrow> m \<le> d \<Longrightarrow> filter (\<lambda>n. m \<le> n) [k..d] = [m..d]" for k m d :: int
  using upto_split1 [of k m d] by (simp add: filter_empty_conv filter_id_conv)

lemma unpaid_days_period:
  assumes "date_day (nextAccrualPeriodStart rule accruals (day_time d)) \<le> d"
  shows "unpaid_days rule accruals d = [date_day (nextAccrualPeriodStart rule accruals (day_time d))..d]"
proof (cases "r_AccrualFrequency rule = AccrualFrequencyDaily")
  case False
  let ?m = "date_day (nextAccrualPeriodStart rule accruals (day_time d))"
  note le = nextAccrualPeriodStart_le [OF False, of accruals d]
  have "unpaid_days rule accruals d = filter (\<lambda>n. ?m \<le> n) [date_day (r_StartDate rule)..d]"
    using False by (auto simp: unpaid_days_def le intro!: filter_cong)
  also have "\<dots> = [?m..d]" using assms le [of ?m] by (intro filter_upto_from) simp_all
  finally show ?thesis .
qed (simp add: unpaid_days_def nextAccrualPeriodStart_def dateOnly_day_time)

text \<open>C13. The accrual of a date pays what the days since the last accrual of the rule earned: unless
  it is skipped, the date has no accrual of the rule yet, and the posting is a valid pair on
  that date whose amount is the sum of the interest of every day that no earlier accrual paid: the
  day itself for a rule that accrues daily, otherwise all days since the start of the rule that
  come after its last accrual before the date, the date included, none left out and none twice.\<close>

theorem Accrue_pays_the_period:
  assumes "decimal_pkg D val" "recalculable (aq_Rule req)"
    "typed (r_AccountID (aq_Rule req)) (aq_Transactions req)"
    "dateOnly (aq_AccrualDate req) = day_time d" "d \<noteq> 0"
    "engine_Accrue D uuidParse None ids now (Some req) = Inr resp" "\<not> ap_Skipped resp"
  shows "\<exists>t a. ap_Transaction resp = Some t \<and> ap_Accrual resp = Some a \<and> posting_ok D (aq_Rule req) t a \<and>
    i_AccrualDate a = day_time d \<and> d \<in> set (unpaid_days (aq_Rule req) (aq_ExistingAccruals req) d) \<and>
    (\<forall>e\<in>set (aq_ExistingAccruals req). i_AccountID e = r_AccountID (aq_Rule req) \<and> i_RuleID e = r_ID (aq_Rule req) \<longrightarrow>
       date_day (i_AccrualDate e) \<noteq> d) \<and>
    val (i_Amount a) = sum_list (map (earned_on (aq_Rule req) (interestCurrency (aq_Currency req))
      (accrual_balance val req d)) (unpaid_days (aq_Rule req) (aq_ExistingAccruals req) d))"
proof -
  obtain t a where posting: "ap_Transaction resp = Some t" "ap_Accrual resp = Some a" "posting_ok D (aq_Rule req) t a"
      "i_AccrualDate a = day_time d"
    and fresh: "\<not> hasInterestAccrual (aq_ExistingAccruals req) (aq_Rule req) (day_time d)"
    and le: "date_day (nextAccrualPeriodStart (aq_Rule req) (aq_ExistingAccruals req) (day_time d)) \<le> d"
    and amount: "val (i_Amount a) = sum_list (map (earned_on (aq_Rule req) (interestCurrency (aq_Currency req))
      (accrual_balance val req d)) [date_day (nextAccrualPeriodStart (aq_Rule req) (aq_ExistingAccruals req) (day_time d))..d])"
    by (rule decimal_pkg.Accrue_posting [OF assms]) blast
  note days = unpaid_days_period [OF le]
  have "\<forall>e\<in>set (aq_ExistingAccruals req). i_AccountID e = r_AccountID (aq_Rule req) \<and> i_RuleID e = r_ID (aq_Rule req) \<longrightarrow>
      date_day (i_AccrualDate e) \<noteq> d"
    using fresh by (auto simp: hasInterestAccrual_def list_ex_iff ofRule_def dateOnly_day_time)
  with posting le amount show ?thesis unfolding days by auto
qed

text \<open>A rule that pays at the end of its term and has paid the first of three days.\<close>

definition sample_accrual_request :: "dec AccrueRuleInterestRequest" where
  "sample_accrual_request =
     \<lparr>aq_Rule = sample_rule ''end_of_term'' ''none'', aq_AccountName = ''Deposit'', aq_CategoryID = '''',
      aq_Currency = ''RUB'', aq_Balance = Dec 1000000 0, aq_AccrualDate = day_time 738002,
      aq_Transactions = sample_deposit @ [sample_transaction ''t0'' ''A'' ''interest_income'' (Dec 1000 0)],
      aq_ExistingAccruals = [interestAccrual ''i0'' (sample_rule ''end_of_term'' ''none'') 
        (sample_transaction ''t0'' ''A'' ''interest_income'' (Dec 1000 0)) (day_time 738000) (Dec 1000 0) (Dec 1000000 0) 3650 (day_time 738000)]\<rparr>"

theorem Accrue_pays_the_period_witness:
  "\<exists>resp a. engine_Accrue dec_ops (\<lambda>_. True) None (''t1'', ''i1'') (day_time 738010) (Some sample_accrual_request) =
      Inr resp \<and> ap_Accrual resp = Some a \<and> dval (i_Amount a) = 2000 \<and>
      unpaid_days (aq_Rule sample_accrual_request) (aq_ExistingAccruals sample_accrual_request) 738002 = [738001, 738002]"
proof -
  let ?req = sample_accrual_request
  let ?run = "engine_Accrue dec_ops (\<lambda>_. True) None (''t1'', ''i1'') (day_time 738010) (Some ?req)"
  let ?days = "unpaid_days (aq_Rule ?req) (aq_ExistingAccruals ?req) 738002"
  have "(case ?run of Inl _ \<Rightarrow> False | Inr r \<Rightarrow> \<not> ap_Skipped r)" by code_simp
  then obtain resp where run: "?run = Inr resp" "\<not> ap_Skipped resp" by (auto split: sum.splits)
  have h: "recalculable (aq_Rule ?req)" "typed (r_AccountID (aq_Rule ?req)) (aq_Transactions ?req)"
    "dateOnly (aq_AccrualDate ?req) = day_time 738002" "(738002::int) \<noteq> 0" by code_simp+
  have days: "?days = [738001, 738002]" by code_simp
  have "sum_list (map (earned_on (aq_Rule ?req) (interestCurrency (aq_Currency ?req))
      (accrual_balance dval ?req 738002)) ?days) = 2000" by code_simp
  with Accrue_pays_the_period [OF decimal_pkg_dec h run] run(1) days show ?thesis by auto
qed

end
