(* ===== verification/Interest_Rules.thy ===== *)
theory Interest_Rules
  imports Interest_Correct
begin

text \<open>
  Interest rules: the repository of \<^verbatim>\<open>internal/postgres/interest_rules.go\<close> and the service of
  \<^verbatim>\<open>internal/services/interest_rule_service.go\<close> (creation) and
  \<^verbatim>\<open>internal/services/interest_rule_management.go\<close> (listing and update). The table keeps rules in
  the order of their creation, so \<^verbatim>\<open>ORDER BY start_date, created_at\<close> is a stable sort by the start
  date. The exclusion constraint of the table keeps the periods of the active rules of an
  account apart; an update names the version it read.

  The lemmas show that creation and update keep the invariant of the table (\<open>rules_ok\<close>), that
  an update with a stale version is refused, and that at most one rule of an account is
  active on a day.
\<close>

section \<open>Repository\<close>

text \<open>\<^verbatim>\<open>mapConflict\<close> of \<^verbatim>\<open>internal/postgres/passkeys.go\<close>.\<close>

definition mapConflict :: "err \<Rightarrow> err" where
  "mapConflict e =
     (if errorsIs e (PgError unique_violation) \<or> errorsIs e (PgError exclusion_violation)
      then ErrConflict else e)"

text \<open>What the \<^verbatim>\<open>DATE\<close> columns keep of a rule.\<close>

definition ruleRow :: "InterestRule \<Rightarrow> InterestRule" where
  "ruleRow rule =
     rule\<lparr>r_PromoEndDate := map_option dateOnly (r_PromoEndDate rule),
          r_StartDate := dateOnly (r_StartDate rule), r_EndDate := map_option dateOnly (r_EndDate rule)\<rparr>"

text \<open>The exclusion constraint: another active rule of the account shares a day.\<close>

definition rule_excluded :: "InterestRule list \<Rightarrow> InterestRule \<Rightarrow> bool" where
  "rule_excluded rules row =
     (r_IsActive row \<and>
      list_ex (\<lambda>q. r_ID q \<noteq> r_ID row \<and> r_IsActive q \<and> r_AccountID q = r_AccountID row \<and>
        rule_periods_overlap row q) rules)"

definition insertInterestRule :: "InterestRule \<Rightarrow> ('d, unit) dbstm" where
  "insertInterestRule rule =
     (let row = ruleRow rule
      in sbind (sread (\<lambda>s. emap (\<lambda>e. Wrapped ''insert interest rule'' (mapConflict e))
           (echeck (\<not> rule_checks row) (PgError check_violation)
           (echeck (r_ID row \<in> set (map r_ID (db_rules s))) (PgError unique_violation)
           (echeck (rule_excluded (db_rules s) row) (PgError exclusion_violation)
           (echeck (r_AccountID row \<notin> set (map a_ID (db_accounts s))) (PgError foreign_key_violation)
           (Inr ()))))))) (\<lambda>_.
         swrite (\<lambda>s. s\<lparr>db_rules := db_rules s @ [row]\<rparr>)))"

definition interestRuleActor :: "string \<Rightarrow> ('d, string option) dbstm" where
  "interestRuleActor accountID =
     sread (\<lambda>s. case QueryRow (\<lambda>a. a_ID a = accountID) (db_accounts s) of
        Inr a \<Rightarrow> Inr (a_OwnerUserID a) | Inl e \<Rightarrow> Inl (mapNotFound e))"

definition jopt :: "('a \<Rightarrow> jval) \<Rightarrow> 'a option \<Rightarrow> jval" where
  "jopt f x = (case x of None \<Rightarrow> JNull | Some y \<Rightarrow> f y)"

definition interestRuleAuditSummary :: "InterestRule \<Rightarrow> summary" where
  "interestRuleAuditSummary rule =
     [(''account_id'', JString (r_AccountID rule)), (''annual_rate_bps'', JInt (r_AnnualRateBps rule)),
      (''promo_rate_bps'', jopt JInt (r_PromoRateBps rule)),
      (''promo_end_date'', jopt JTime (r_PromoEndDate rule)),
      (''accrual_frequency'', JString (r_AccrualFrequency rule)),
      (''capitalization_frequency'', JString (r_CapitalizationFrequency rule)),
      (''day_count_convention'', JString (r_DayCountConvention rule)),
      (''is_active'', JBool (r_IsActive rule)), (''start_date'', JTime (r_StartDate rule)),
      (''end_date'', jopt JTime (r_EndDate rule))]"

definition InterestRuleRepository_Create ::
  "'d decimal_ops \<Rightarrow> string \<Rightarrow> time \<Rightarrow> InterestRule \<Rightarrow> ('d, unit) dbstm" where
  "InterestRuleRepository_Create D eid now rule =
     pg_tx D ''commit create interest rule''
     (sbind (swrap ''get interest rule actor'' (interestRuleActor (r_AccountID rule))) (\<lambda>actorUserID.
      sbind (swrap ''create interest rule'' (insertInterestRule rule)) (\<lambda>_.
      swrap ''create interest rule audit event''
        (insertAuditEvent (newAuditEvent eid now actorUserID ''interest_rule.created'' ''interest_rule''
          (r_ID rule) (Some (interestRuleAuditSummary rule)))))))"

definition scanInterestRule :: "(InterestRule \<Rightarrow> bool) \<Rightarrow> ('d, InterestRule) dbstm" where
  "scanInterestRule P =
     sread (\<lambda>s. case QueryRow P (db_rules s) of
        Inr r \<Rightarrow> Inr r | Inl e \<Rightarrow> Inl (Wrapped ''scan interest rule'' (mapNotFound e)))"

definition InterestRuleRepository_GetByID :: "string \<Rightarrow> ('d, InterestRule) dbstm" where
  "InterestRuleRepository_GetByID ruleID =
     swrap ''get interest rule'' (notFound (scanInterestRule (\<lambda>r. r_ID r = ruleID)))"

definition order_rules :: "InterestRule list \<Rightarrow> InterestRule list" where
  "order_rules rules = sort_key (\<lambda>r. t_ns (r_StartDate r)) rules"

definition InterestRuleRepository_ListByAccount :: "string \<Rightarrow> ('d, InterestRule list) dbstm" where
  "InterestRuleRepository_ListByAccount accountID =
     sread (\<lambda>s. Inr (order_rules (filter (\<lambda>r. r_AccountID r = accountID) (db_rules s))))"

definition InterestRuleRepository_ListByUser :: "string \<Rightarrow> ('d, InterestRule list) dbstm" where
  "InterestRuleRepository_ListByUser userID =
     sread (\<lambda>s. Inr (sort_key r_AccountID (order_rules
       (filter (\<lambda>r. list_ex (has_owner (r_AccountID r) userID) (db_accounts s)) (db_rules s)))))"

record InterestRuleJobTarget =
  jt_Rule :: InterestRule
  jt_OwnerUserID :: string
  jt_AccountCurrency :: string

definition job_target :: "Account list \<Rightarrow> InterestRule \<Rightarrow> InterestRuleJobTarget option" where
  "job_target accounts r =
     (case find (\<lambda>a. a_ID a = r_AccountID r) accounts of
        None \<Rightarrow> None
      | Some a \<Rightarrow>
          (case a_OwnerUserID a of
             None \<Rightarrow> None
           | Some u \<Rightarrow> if a_IsActive a
               then Some \<lparr>jt_Rule = r, jt_OwnerUserID = u, jt_AccountCurrency = a_Currency a\<rparr> else None))"

definition ListActiveForAccrual ::
  "AccrualFrequency \<Rightarrow> time \<Rightarrow> ('d, InterestRuleJobTarget list) dbstm" where
  "ListActiveForAccrual frequency accrualDate =
     sread (\<lambda>s. let day = dateOnly accrualDate;
         rules = filter (\<lambda>r. r_IsActive r \<and> r_AccrualFrequency r = frequency \<and>
           \<not> After (r_StartDate r) day \<and>
           (case r_EndDate r of None \<Rightarrow> True | Some e \<Rightarrow> \<not> Before e day)) (db_rules s)
       in Inr (List.map_filter (job_target (db_accounts s))
            (sort_key r_AccountID (sort_key (\<lambda>r. t_ns (r_StartDate r)) (sort_key r_ID rules)))))"

text \<open>\<^verbatim>\<open>UPDATE interest_rules SET ... version = version + 1 WHERE id = $1 AND version = $11\<close>: the
  new row of the table.\<close>

definition updatedRow :: "InterestRule \<Rightarrow> InterestRule \<Rightarrow> InterestRule" where
  "updatedRow rule old =
     (ruleRow rule)\<lparr>r_ID := r_ID old, r_AccountID := r_AccountID old, r_Version := r_Version old + 1\<rparr>"

definition updateInterestRule :: "InterestRule \<Rightarrow> ('d, InterestRule) dbstm" where
  "updateInterestRule rule =
     sbind (sread (\<lambda>s. emap mapConflict
       (ebind (QueryRow (\<lambda>q. r_ID q = r_ID rule \<and> r_Version q = r_Version rule) (db_rules s)) (\<lambda>old.
        let row = updatedRow rule old
        in echeck (\<not> rule_checks row) (PgError check_violation)
           (echeck (rule_excluded (db_rules s) row) (PgError exclusion_violation) (Inr row))))))  (\<lambda>row.
     sbind (swrite (\<lambda>s. s\<lparr>db_rules := map (\<lambda>q. if r_ID q = r_ID rule then row else q) (db_rules s)\<rparr>)) (\<lambda>_.
     sret (rule\<lparr>r_Version := r_Version row\<rparr>)))"

definition InterestRuleRepository_Update ::
  "'d decimal_ops \<Rightarrow> string \<Rightarrow> time \<Rightarrow> InterestRule \<Rightarrow> ('d, InterestRule) dbstm" where
  "InterestRuleRepository_Update D eid now rule =
     pg_tx D ''commit update interest rule''
     (sbind (swrap ''lock interest rule'' (scanInterestRule (\<lambda>q. r_ID q = r_ID rule))) (\<lambda>before.
      sbind (scheck (r_Version before \<noteq> r_Version rule) (Wrapped ''update interest rule'' ErrConflict)) (\<lambda>_.
      sbind (swrap ''get interest rule actor'' (interestRuleActor (r_AccountID before))) (\<lambda>actorUserID.
      sbind (swrap ''update interest rule'' (updateInterestRule rule)) (\<lambda>updated.
      let eventType = (if r_IsActive before \<and> \<not> r_IsActive updated then ''interest_rule.deactivated''
            else ''interest_rule.updated'')
      in sbind (swrap ''create interest rule update audit event''
           (insertAuditEvent (newAuditEventWithSummaries eid now actorUserID eventType ''interest_rule''
             (r_ID updated) (Some (interestRuleAuditSummary before)) (Some (interestRuleAuditSummary updated))))) (\<lambda>_.
         sret updated))))))"

section \<open>The service\<close>

record CreateInterestRuleRequest =
  cr_UserID :: string
  cr_AccountID :: string
  cr_AnnualRateBps :: int
  cr_PromoRateBps :: "int option"
  cr_PromoEndDate :: "time option"
  cr_AccrualFrequency :: AccrualFrequency
  cr_CapitalizationFrequency :: CapitalizationFrequency
  cr_DayCountConvention :: DayCountConvention
  cr_StartDate :: time
  cr_EndDate :: "time option"

definition orDefault :: "string \<Rightarrow> string \<Rightarrow> string" where
  "orDefault d x = (if x = '''' then d else x)"

text \<open>The rule a request describes, after the account was found.\<close>

definition buildInterestRule :: "string \<Rightarrow> time \<Rightarrow> CreateInterestRuleRequest \<Rightarrow> err + InterestRule" where
  "buildInterestRule rid now req =
     echeck (cr_AnnualRateBps req \<le> 0) (validationError ''annual rate must be positive'')
     (echeck (case cr_PromoRateBps req of Some p \<Rightarrow> p \<le> 0 | None \<Rightarrow> False)
        (validationError ''promo rate must be positive'')
     (echeck (cr_PromoRateBps req \<noteq> None \<and> cr_PromoEndDate req = None)
        (validationError ''promo end date is required when promo rate is set'')
     (echeck (cr_PromoRateBps req = None \<and> cr_PromoEndDate req \<noteq> None)
        (validationError ''promo rate is required when promo end date is set'')
     (let accrualFrequency = orDefault AccrualFrequencyDaily (cr_AccrualFrequency req);
          capitalizationFrequency = orDefault CapitalizationFrequencyNone (cr_CapitalizationFrequency req);
          dayCountConvention = orDefault DayCountConventionActual365 (cr_DayCountConvention req);
          startDate = (let d = dateOnly (cr_StartDate req) in if IsZero d then dateOnly now else d)
      in echeck (\<not> ValidAccrualFrequency accrualFrequency)
           (validationError (''invalid accrual frequency: '' @ accrualFrequency))
         (echeck (\<not> ValidCapitalizationFrequency capitalizationFrequency)
           (validationError (''invalid capitalization frequency: '' @ capitalizationFrequency))
         (echeck (\<not> ValidDayCountConvention dayCountConvention)
           (validationError (''invalid day count convention: '' @ dayCountConvention))
         (echeck (case cr_EndDate req of Some e \<Rightarrow> Before (dateOnly e) startDate | None \<Rightarrow> False)
           (validationError ''end date must be on or after start date'')
         (echeck (case cr_PromoEndDate req of Some e \<Rightarrow> Before (dateOnly e) startDate | None \<Rightarrow> False)
           (validationError ''promo end date must be on or after start date'')
         (Inr \<lparr>r_ID = rid, r_AccountID = TrimSpace (cr_AccountID req),
               r_AnnualRateBps = cr_AnnualRateBps req, r_PromoRateBps = cr_PromoRateBps req,
               r_PromoEndDate = map_option dateOnly (cr_PromoEndDate req),
               r_AccrualFrequency = accrualFrequency,
               r_CapitalizationFrequency = capitalizationFrequency,
               r_DayCountConvention = dayCountConvention, r_IsActive = True,
               r_StartDate = startDate, r_EndDate = map_option dateOnly (cr_EndDate req),
               r_Version = 0\<rparr>)))))))))"

definition InterestRuleService_Create ::
  "'d decimal_ops \<Rightarrow> ctx \<Rightarrow> string \<Rightarrow> string \<Rightarrow> time \<Rightarrow> CreateInterestRuleRequest option \<Rightarrow> ('d, InterestRule) dbstm" where
  "InterestRuleService_Create D ctx rid eid now r =
     sbind (slift (ctxCheck ctx ''create interest rule''
       (case r of None \<Rightarrow> Inl (validationError ''create interest rule request is required'')
        | Some req \<Rightarrow> Inr req))) (\<lambda>req.
     let accountID = TrimSpace (cr_AccountID req); userID = TrimSpace (cr_UserID req)
     in sbind (scheck (accountID = '''') (validationError ''account id is required'')) (\<lambda>_.
        sbind (if userID \<noteq> ''''
          then sbind (swrap ''get interest rule account'' (AccountRepository_GetByIDForUser accountID userID))
            (\<lambda>_. sret ())
          else sret ()) (\<lambda>_.
        sbind (slift (buildInterestRule rid now req)) (\<lambda>rule.
        sbind (swrap ''save interest rule'' (InterestRuleRepository_Create D eid now rule)) (\<lambda>_.
        sret rule)))))"

definition InterestRuleService_ListByAccountForUser :: "string \<Rightarrow> string \<Rightarrow> ('d, InterestRule list) dbstm" where
  "InterestRuleService_ListByAccountForUser accountID userID =
     (let accountID = TrimSpace accountID
      in sbind (swrap ''get interest rule account''
           (AccountRepository_GetByIDForUser accountID (TrimSpace userID))) (\<lambda>_.
         swrap ''list interest rules'' (InterestRuleRepository_ListByAccount accountID)))"

definition InterestRuleService_ListByUser :: "string \<Rightarrow> ('d, InterestRule list) dbstm" where
  "InterestRuleService_ListByUser userID =
     swrap ''list user interest rules'' (InterestRuleRepository_ListByUser (TrimSpace userID))"

text \<open>A \<^verbatim>\<open>Set\<close> flag says whether the optional field beside it is to be changed.\<close>

record UpdateInterestRuleRequest =
  ur_ID :: string
  ur_UserID :: string
  ur_AnnualRateBps :: "int option"
  ur_PromoRateSet :: bool
  ur_PromoRateBps :: "int option"
  ur_PromoEndDateSet :: bool
  ur_PromoEndDate :: "time option"
  ur_AccrualFrequency :: "AccrualFrequency option"
  ur_CapitalizationFrequency :: "CapitalizationFrequency option"
  ur_DayCountConvention :: "DayCountConvention option"
  ur_IsActive :: "bool option"
  ur_StartDate :: "time option"
  ur_EndDateSet :: bool
  ur_EndDate :: "time option"

definition set_opt :: "'a option \<Rightarrow> 'a \<Rightarrow> 'a" where
  "set_opt new old = (case new of Some x \<Rightarrow> x | None \<Rightarrow> old)"

definition applyRuleUpdate :: "UpdateInterestRuleRequest \<Rightarrow> InterestRule \<Rightarrow> InterestRule" where
  "applyRuleUpdate req rule =
     (let rule = rule\<lparr>r_AnnualRateBps := set_opt (ur_AnnualRateBps req) (r_AnnualRateBps rule)\<rparr>;
          rule = (if ur_PromoRateSet req
            then rule\<lparr>r_PromoRateBps := ur_PromoRateBps req,
              r_PromoEndDate := (if ur_PromoRateBps req = None then None else r_PromoEndDate rule)\<rparr>
            else rule);
          rule = (if ur_PromoEndDateSet req
            then rule\<lparr>r_PromoEndDate := ur_PromoEndDate req,
              r_PromoRateBps := (if ur_PromoEndDate req = None then None else r_PromoRateBps rule)\<rparr>
            else rule);
          rule = rule\<lparr>r_AccrualFrequency := set_opt (ur_AccrualFrequency req) (r_AccrualFrequency rule),
            r_CapitalizationFrequency :=
              set_opt (ur_CapitalizationFrequency req) (r_CapitalizationFrequency rule),
            r_DayCountConvention := set_opt (ur_DayCountConvention req) (r_DayCountConvention rule),
            r_IsActive := set_opt (ur_IsActive req) (r_IsActive rule),
            r_StartDate := set_opt (map_option dateOnly (ur_StartDate req)) (r_StartDate rule)\<rparr>
      in if ur_EndDateSet req then rule\<lparr>r_EndDate := ur_EndDate req\<rparr> else rule)"

text \<open>The validation also fills the defaults in.\<close>

definition validateInterestRuleConfiguration :: "InterestRule \<Rightarrow> err + InterestRule" where
  "validateInterestRuleConfiguration rule =
     echeck (r_AnnualRateBps rule \<le> 0) (validationError ''annual rate must be positive'')
     (echeck (case r_PromoRateBps rule of Some p \<Rightarrow> p \<le> 0 | None \<Rightarrow> False)
        (validationError ''promo rate must be positive'')
     (echeck ((r_PromoRateBps rule = None) \<noteq> (r_PromoEndDate rule = None))
        (validationError ''promo rate and promo end date must be set together'')
     (let rule = rule\<lparr>r_AccrualFrequency := orDefault AccrualFrequencyDaily (r_AccrualFrequency rule),
            r_CapitalizationFrequency :=
              orDefault CapitalizationFrequencyNone (r_CapitalizationFrequency rule),
            r_DayCountConvention := orDefault DayCountConventionActual365 (r_DayCountConvention rule)\<rparr>;
          startDate = dateOnly (r_StartDate rule)
      in case ValidateFrequencies (r_AccrualFrequency rule) (r_CapitalizationFrequency rule)
               (r_DayCountConvention rule) of
           Inl e \<Rightarrow> Inl (validationError (Error e))
         | Inr _ \<Rightarrow>
             echeck (IsZero startDate) (validationError ''start date is required'')
             (echeck (case r_EndDate rule of Some e \<Rightarrow> Before (dateOnly e) startDate | None \<Rightarrow> False)
               (validationError ''end date must be on or after start date'')
             (echeck (case r_PromoEndDate rule of Some e \<Rightarrow> Before (dateOnly e) startDate | None \<Rightarrow> False)
               (validationError ''promo end date must be on or after start date'')
             (Inr rule))))))"

definition InterestRuleService_UpdateForUser ::
  "'d decimal_ops \<Rightarrow> string \<Rightarrow> time \<Rightarrow> UpdateInterestRuleRequest option \<Rightarrow> ('d, InterestRule) dbstm" where
  "InterestRuleService_UpdateForUser D eid now r =
     (case r of
        None \<Rightarrow> sfail (validationError ''update interest rule request is required'')
      | Some req \<Rightarrow>
          sbind (swrap ''get interest rule'' (InterestRuleRepository_GetByID (TrimSpace (ur_ID req)))) (\<lambda>rule.
          sbind (swrap ''get interest rule account''
            (AccountRepository_GetByIDForUser (r_AccountID rule) (TrimSpace (ur_UserID req)))) (\<lambda>_.
          sbind (slift (validateInterestRuleConfiguration (applyRuleUpdate req rule))) (\<lambda>rule.
          swrap ''update interest rule'' (InterestRuleRepository_Update D eid now rule)))))"

section \<open>The invariant of the table\<close>

definition rules_ok :: "InterestRule list \<Rightarrow> bool" where
  "rules_ok rules \<longleftrightarrow>
     distinct (map r_ID rules) \<and>
     (\<forall>r\<in>set rules. rule_checks r \<and> ruleRow r = r \<and>
        (\<forall>q\<in>set rules. r_ID q \<noteq> r_ID r \<and> r_IsActive r \<and> r_IsActive q \<and> r_AccountID q = r_AccountID r \<longrightarrow>
           \<not> rule_periods_overlap r q))"

lemma rule_periods_overlap_sym: "rule_periods_overlap r q = rule_periods_overlap q r"
  by (auto simp: rule_periods_overlap_def split: option.splits)

lemma ruleRow_idem [simp]: "ruleRow (ruleRow r) = ruleRow r"
  by (simp add: ruleRow_def option.map_comp comp_def)

lemma ruleRow_updatedRow [simp]: "ruleRow (updatedRow r q) = updatedRow r q"
  by (simp add: ruleRow_def updatedRow_def option.map_comp comp_def)

lemma ruleRow_ID [simp]: "r_ID (ruleRow r) = r_ID r" "r_AccountID (ruleRow r) = r_AccountID r"
  by (simp_all add: ruleRow_def)

lemma updatedRow_ID [simp]:
  "r_ID (updatedRow r q) = r_ID q" "r_AccountID (updatedRow r q) = r_AccountID q"
  "r_Version (updatedRow r q) = r_Version q + 1"
  by (simp_all add: updatedRow_def)

lemma ruleRow_fields:
  assumes "ruleRow r = r"
  shows "r_StartDate r = dateOnly (r_StartDate r)" "r_EndDate r = map_option dateOnly (r_EndDate r)"
  using assms by (cases r; simp add: ruleRow_def)+

text \<open>Two rules active on a day overlap.\<close>

lemma active_day_overlap:
  assumes "ruleRow r = r" "ruleRow q = q" "active_day r n" "active_day q n"
  shows "rule_periods_overlap r q"
proof -
  have "\<not> Before e (r_StartDate p)"
    if "ruleRow p = p" "ruleRow p' = p'" "active_day p n" "active_day p' n" "r_EndDate p' = Some e" for p p' e
  proof -
    have "e = dateOnly e" using ruleRow_fields(2) [OF that(2)] that(5) by simp
    moreover have "start_day p \<le> n" "n \<le> date_day e" using that(3-5) by (auto simp: active_day_def)
    ultimately show ?thesis
      using ruleRow_fields(1) [OF that(1)] by (metis day_time_cmp(1) dateOnly_day_time not_less order_trans start_day_def)
  qed
  with assms show ?thesis by (auto simp: rule_periods_overlap_def split: option.split)
qed

lemma rules_ok_unique:
  assumes "rules_ok rules" "r \<in> set rules" "q \<in> set rules" "r_IsActive r" "r_IsActive q"
    "r_AccountID r = r_AccountID q" "active_day r n" "active_day q n"
  shows "r = q"
proof -
  have "rule_periods_overlap r q" using assms by (intro active_day_overlap) (auto simp: rules_ok_def)
  then have "r_ID r = r_ID q"
    using assms unfolding rules_ok_def by (metis rule_periods_overlap_sym)
  then show ?thesis using assms(1-3) by (auto simp: rules_ok_def distinct_map dest: inj_onD)
qed

section \<open>The operations\<close>

lemma mapConflict_cause [simp]: "mapConflict (Wrapped m e) = (if mapConflict e = ErrConflict \<and> e \<noteq> ErrConflict then ErrConflict else Wrapped m e)"
  by (cases e) (auto simp: mapConflict_def errorsIs_def)

lemma insertInterestRule_Inr_iff [tx_simps]:
  "insertInterestRule rule s = (Inr u, s') \<longleftrightarrow>
     rule_checks (ruleRow rule) \<and> r_ID rule \<notin> set (map r_ID (db_rules s)) \<and>
     \<not> rule_excluded (db_rules s) (ruleRow rule) \<and> r_AccountID rule \<in> set (map a_ID (db_accounts s)) \<and>
     s' = s\<lparr>db_rules := db_rules s @ [ruleRow rule]\<rparr>"
  by (auto simp: insertInterestRule_def Let_def tx_simps)

lemma updateInterestRule_Inr_iff [tx_simps]:
  "updateInterestRule rule s = (Inr r, s') \<longleftrightarrow>
     (\<exists>old. find (\<lambda>q. r_ID q = r_ID rule \<and> r_Version q = r_Version rule) (db_rules s) = Some old \<and>
        rule_checks (updatedRow rule old) \<and> \<not> rule_excluded (db_rules s) (updatedRow rule old) \<and>
        r = rule\<lparr>r_Version := r_Version old + 1\<rparr> \<and>
        s' = s\<lparr>db_rules := map (\<lambda>q. if r_ID q = r_ID rule then updatedRow rule old else q) (db_rules s)\<rparr>)"
  by (auto simp: updateInterestRule_def Let_def tx_simps QueryRow_ok_iff)

lemma scanInterestRule_Inr_iff [tx_simps]:
  "scanInterestRule P s = (Inr r, s') \<longleftrightarrow> find P (db_rules s) = Some r \<and> s' = s"
  by (auto simp: scanInterestRule_def QueryRow_def split: option.splits)

lemma interestRuleActor_Inr_iff [tx_simps]:
  "interestRuleActor a s = (Inr u, s') \<longleftrightarrow>
     (\<exists>acc. find (\<lambda>b. a_ID b = a) (db_accounts s) = Some acc \<and> u = a_OwnerUserID acc) \<and> s' = s"
  by (auto simp: interestRuleActor_def QueryRow_def split: option.splits)

lemma keeps_rule_parts [keeps_intros]:
  "keeps (rows_ok D) (insertInterestRule rule)" "keeps (rows_ok D) (updateInterestRule rule)"
  "keeps P (interestRuleActor a)" "keeps P (scanInterestRule Q)"
  unfolding insertInterestRule_def updateInterestRule_def interestRuleActor_def scanInterestRule_def
  by (intro keeps_intros keeps_swrite; simp add: rows_ok_def)+

interpretation rule_create: ledger_operation D "InterestRuleRepository_Create D eid now rule" for D eid now rule
  unfolding InterestRuleRepository_Create_def by (intro pg_tx_operation keeps_intros)

interpretation rule_update: ledger_operation D "InterestRuleRepository_Update D eid now rule" for D eid now rule
  unfolding InterestRuleRepository_Update_def by (intro pg_tx_operation keeps_intros)

interpretation service_rule_create: ledger_operation D "InterestRuleService_Create D ctx rid eid now r"
  for D ctx rid eid now r
  unfolding InterestRuleService_Create_def AccountRepository_GetByIDForUser_def
  by (intro operation_intros keeps_intros rule_create.ledger_operation_axioms)

interpretation service_rule_update: ledger_operation D "InterestRuleService_UpdateForUser D eid now r"
  for D eid now r
  unfolding InterestRuleService_UpdateForUser_def InterestRuleRepository_GetByID_def AccountRepository_GetByIDForUser_def
  by (intro operation_intros keeps_intros rule_update.ledger_operation_axioms)

text \<open>An insertion and an update keep the invariant.\<close>

lemma rules_ok_with:
  assumes ok: "rules_ok rules" and row: "rule_checks row" "ruleRow row = row" "\<not> rule_excluded rules row"
    and new: "distinct (map r_ID new)" "\<And>q. q \<in> set new \<Longrightarrow> q = row \<or> q \<in> set rules \<and> r_ID q \<noteq> r_ID row"
  shows "rules_ok new"
proof -
  have apart: "\<not> rule_periods_overlap row q"
    if "q \<in> set rules" "r_ID q \<noteq> r_ID row" "r_IsActive row" "r_IsActive q" "r_AccountID q = r_AccountID row" for q
    using row(3) that by (auto simp: rule_excluded_def list_ex_iff)
  have "\<not> rule_periods_overlap r q"
    if "r \<in> set new" "q \<in> set new" "r_ID q \<noteq> r_ID r" "r_IsActive r" "r_IsActive q" "r_AccountID q = r_AccountID r" for r q
    using new(2) [OF that(1)] new(2) [OF that(2)] that(3-) apart [of q] apart [of r] ok
    by (metis rule_periods_overlap_sym rules_ok_def)
  moreover have "rule_checks q \<and> ruleRow q = q" if "q \<in> set new" for q
    using new(2) [OF that] ok row by (auto simp: rules_ok_def)
  ultimately show ?thesis unfolding rules_ok_def using new(1) by blast
qed

lemma rules_ok_insert:
  assumes "rules_ok rules" "rule_checks row" "ruleRow row = row" "\<not> rule_excluded rules row"
    "r_ID row \<notin> set (map r_ID rules)"
  shows "rules_ok (rules @ [row])"
proof (rule rules_ok_with [OF assms(1-4)])
  show "distinct (map r_ID (rules @ [row]))" using assms(1,5) by (simp add: rules_ok_def)
  show "q = row \<or> q \<in> set rules \<and> r_ID q \<noteq> r_ID row" if "q \<in> set (rules @ [row])" for q
    using that assms(5) by (metis Un_iff empty_iff image_eqI insert_iff list.set(1,2) set_append set_map)
qed

lemma rules_ok_update:
  assumes "rules_ok rules" "rule_checks row" "ruleRow row = row" "\<not> rule_excluded rules row"
  shows "rules_ok (map (\<lambda>q. if r_ID q = r_ID row then row else q) rules)" (is "rules_ok ?new")
proof (rule rules_ok_with [OF assms])
  have "map r_ID ?new = map r_ID rules" by simp
  then show "distinct (map r_ID ?new)" using assms(1) by (simp only: rules_ok_def)
qed (auto split: if_splits)

lemma InterestRuleRepository_Create_effect:
  assumes "InterestRuleRepository_Create D eid now rule s = (Inr u, s')"
  shows "rule_checks (ruleRow rule) \<and> r_ID rule \<notin> set (map r_ID (db_rules s)) \<and>
    \<not> rule_excluded (db_rules s) (ruleRow rule) \<and> db_rules s' = db_rules s @ [ruleRow rule]"
  using assms by (auto simp: InterestRuleRepository_Create_def tx_simps)

lemma InterestRuleRepository_Update_effect:
  assumes "InterestRuleRepository_Update D eid now rule s = (Inr r, s')"
  obtains old where "old \<in> set (db_rules s)" "r_ID old = r_ID rule" "r_Version old = r_Version rule"
    "rule_checks (updatedRow rule old)" "\<not> rule_excluded (db_rules s) (updatedRow rule old)"
    "r = rule\<lparr>r_Version := r_Version old + 1\<rparr>"
    "db_rules s' = map (\<lambda>q. if r_ID q = r_ID rule then updatedRow rule old else q) (db_rules s)"
  using assms
  by (simp add: InterestRuleRepository_Update_def tx_simps Let_def, elim exE conjE)
    (rule that, auto simp: find_Some_iff)

lemma InterestRuleRepository_Create_rules_ok:
  "rules_ok (db_rules s) \<Longrightarrow> InterestRuleRepository_Create D eid now rule s = (Inr u, s') \<Longrightarrow> rules_ok (db_rules s')"
  using InterestRuleRepository_Create_effect [of D eid now rule s u s'] rules_ok_insert [of "db_rules s" "ruleRow rule"]
  by simp

lemma InterestRuleRepository_Update_rules_ok:
  assumes "rules_ok (db_rules s)" "InterestRuleRepository_Update D eid now rule s = (Inr r, s')"
  shows "rules_ok (db_rules s')"
proof (rule InterestRuleRepository_Update_effect [OF assms(2)])
  fix old
  assume "r_ID old = r_ID rule" "rule_checks (updatedRow rule old)" "\<not> rule_excluded (db_rules s) (updatedRow rule old)"
    "db_rules s' = map (\<lambda>q. if r_ID q = r_ID rule then updatedRow rule old else q) (db_rules s)"
  with rules_ok_update [OF assms(1), of "updatedRow rule old"] show ?thesis by simp
qed

context ledger_operation
begin

lemma kept_on_success:
  assumes "P s" "\<And>x s'. operation s = (Inr x, s') \<Longrightarrow> P s'"
  shows "P (snd (operation s))"
proof (cases "operation s")
  case (Pair r t)
  then show ?thesis using assms atomic by (cases r) auto
qed

end

lemma service_rule_create_rules_ok:
  assumes "rules_ok (db_rules s)"
  shows "rules_ok (db_rules (snd (InterestRuleService_Create D ctx rid eid now r s)))"
proof (rule service_rule_create.kept_on_success [where P = "\<lambda>s. rules_ok (db_rules s)"])
  fix x s' assume "InterestRuleService_Create D ctx rid eid now r s = (Inr x, s')"
  then obtain rule u where "InterestRuleRepository_Create D eid now rule s = (Inr u, s')"
    by (auto simp: InterestRuleService_Create_def AccountRepository_GetByIDForUser_def getAccount_def tx_simps Let_def
        split: if_splits)
  with assms show "rules_ok (db_rules s')" by (rule InterestRuleRepository_Create_rules_ok)
qed (rule assms)

lemma InterestRuleService_UpdateForUser_inv:
  assumes "InterestRuleService_UpdateForUser D eid now (Some req) s = (Inr r, s')"
  obtains old rule where "find (\<lambda>q. r_ID q = TrimSpace (ur_ID req)) (db_rules s) = Some old"
    "validateInterestRuleConfiguration (applyRuleUpdate req old) = Inr rule"
    "InterestRuleRepository_Update D eid now rule s = (Inr r, s')"
    "list_ex (has_owner (r_AccountID old) (TrimSpace (ur_UserID req))) (db_accounts s)"
  using assms
  by (simp add: InterestRuleService_UpdateForUser_def InterestRuleRepository_GetByID_def
      AccountRepository_GetByIDForUser_def tx_simps, elim exE conjE)
    (rule that, auto simp: list_ex_iff find_Some_iff has_owner_def)

lemma service_rule_update_rules_ok:
  assumes "rules_ok (db_rules s)"
  shows "rules_ok (db_rules (snd (InterestRuleService_UpdateForUser D eid now r s)))"
proof (rule service_rule_update.kept_on_success [where P = "\<lambda>s. rules_ok (db_rules s)"])
  fix x s' assume run: "InterestRuleService_UpdateForUser D eid now r s = (Inr x, s')"
  then obtain req where "r = Some req" by (cases r) (auto simp: InterestRuleService_UpdateForUser_def)
  with run obtain rule where "InterestRuleRepository_Update D eid now rule s = (Inr x, s')"
    by (blast elim: InterestRuleService_UpdateForUser_inv)
  with assms show "rules_ok (db_rules s')" by (rule InterestRuleRepository_Update_rules_ok)
qed (rule assms)

text \<open>What the services accept satisfies the checks of the table.\<close>

lemma rule_checks_iff:
  "rule_checks r \<longleftrightarrow>
     r_AnnualRateBps r > 0 \<and> (case r_PromoRateBps r of None \<Rightarrow> True | Some p \<Rightarrow> p > 0) \<and>
     ValidAccrualFrequency (r_AccrualFrequency r) \<and>
     ValidCapitalizationFrequency (r_CapitalizationFrequency r) \<and> r_CapitalizationFrequency r \<noteq> '''' \<and>
     ValidDayCountConvention (r_DayCountConvention r) \<and> (r_PromoRateBps r = None \<longleftrightarrow> r_PromoEndDate r = None) \<and>
     (case r_EndDate r of None \<Rightarrow> True | Some e \<Rightarrow> \<not> Before e (r_StartDate r)) \<and>
     (case r_PromoEndDate r of None \<Rightarrow> True | Some e \<Rightarrow> \<not> Before e (r_StartDate r)) \<and> r_Version r \<ge> 0"
proof -
  have "ValidCapitalizationFrequency c \<and> c \<noteq> '''' \<longleftrightarrow> c \<in> {''daily'', ''monthly'', ''end_of_term'', ''none''}" for c
    by (auto simp: ValidCapitalizationFrequency_def)
  then show ?thesis
    unfolding rule_checks_def ValidAccrualFrequency_def ValidDayCountConvention_def by (simp only: conj_assoc [symmetric])
qed

lemma orDefault_nonempty: "d \<noteq> '''' \<Longrightarrow> orDefault d x \<noteq> ''''"
  by (simp add: orDefault_def)

lemma buildInterestRule_checks:
  assumes "buildInterestRule rid now req = Inr rule"
  shows "rule_checks (ruleRow rule)" "r_ID rule = rid" "r_Version rule = 0" "r_IsActive rule"
    "r_AccountID rule = TrimSpace (cr_AccountID req)"
proof -
  have d: "dateOnly (if b then dateOnly x else dateOnly y) = (if b then dateOnly x else dateOnly y)" for b x y
    by simp
  show "rule_checks (ruleRow rule)"
    using assms orDefault_nonempty [of CapitalizationFrequencyNone "cr_CapitalizationFrequency req"]
    unfolding buildInterestRule_def Let_def echeck_eq_Inr_iff rule_checks_iff
    by (auto simp: ruleRow_def not_le d split: option.splits)
qed (use assms in \<open>auto simp: buildInterestRule_def Let_def\<close>)

lemma validateInterestRuleConfiguration_checks:
  assumes "validateInterestRuleConfiguration rule = Inr rule'" "0 \<le> r_Version rule"
  shows "rule_checks (ruleRow rule')"
proof -
  have "ValidateFrequencies a c d = Inr u \<longleftrightarrow> ValidAccrualFrequency a \<and> ValidCapitalizationFrequency c \<and>
      ValidDayCountConvention d" for a c d u
    by (simp add: ValidateFrequencies_def)
  with assms orDefault_nonempty [of CapitalizationFrequencyNone "r_CapitalizationFrequency rule"] show ?thesis
    unfolding validateInterestRuleConfiguration_def Let_def echeck_eq_Inr_iff rule_checks_iff
    by (auto simp: ruleRow_def not_le split: option.splits sum.splits)
qed

section \<open>Properties\<close>

text \<open>C16. Creating and updating interest rules keeps the table consistent (ids are keys, every row
  satisfies its checks) and the periods of an account's active rules apart: on any day at
  most one rule of an account is active.\<close>

theorem active_rules_never_overlap:
  assumes "rules_ok (db_rules s)"
    "s' = snd (InterestRuleService_Create D ctx rid eid now r s) \<or>
     s' = snd (InterestRuleService_UpdateForUser D eid now r' s)"
  shows "rules_ok (db_rules s') \<and>
    (\<forall>p\<in>set (db_rules s'). \<forall>q\<in>set (db_rules s'). r_IsActive p \<and> r_IsActive q \<and> r_AccountID p = r_AccountID q \<and>
       ruleActiveOn p (day_time n) \<and> ruleActiveOn q (day_time n) \<longrightarrow> p = q)"
proof -
  have "rules_ok (db_rules s')"
    using assms(2) service_rule_create_rules_ok [OF assms(1)] service_rule_update_rules_ok [OF assms(1)] by auto
  then show ?thesis by (auto simp: day_simps intro: rules_ok_unique)
qed

definition rule_db :: "dec db" where
  "rule_db = sample_db\<lparr>db_rules := [sample_rule ''daily'' ''none'']\<rparr>"

definition sample_rule_update :: "int \<Rightarrow> UpdateInterestRuleRequest" where
  "sample_rule_update rate =
     \<lparr>ur_ID = ''r1'', ur_UserID = ''U'', ur_AnnualRateBps = Some rate, ur_PromoRateSet = False,
      ur_PromoRateBps = None, ur_PromoEndDateSet = False, ur_PromoEndDate = None,
      ur_AccrualFrequency = None, ur_CapitalizationFrequency = None, ur_DayCountConvention = None,
      ur_IsActive = None, ur_StartDate = None, ur_EndDateSet = False, ur_EndDate = None\<rparr>"

theorem active_rules_never_overlap_witness:
  "rules_ok (db_rules (snd (InterestRuleService_UpdateForUser dec_ops ''e1'' (day_time 738001)
     (Some (sample_rule_update 500)) rule_db)))"
proof -
  have "rules_ok (db_rules rule_db)" by code_simp
  from active_rules_never_overlap [OF this disjI2 [OF refl], of dec_ops "''e1''" "day_time 738001"
      "Some (sample_rule_update 500)"] show ?thesis by blast
qed

text \<open>C17. No update of a rule is lost: once an update has succeeded, every other update that was
  based on the same version of the rule fails with a conflict and changes nothing.\<close>

theorem stale_rule_update_conflicts:
  assumes "rules_ok (db_rules s)" "InterestRuleRepository_Update D eid now rule s = (Inr r, s')"
    "r_ID stale = r_ID rule" "r_Version stale = r_Version rule"
  shows "\<exists>e. InterestRuleRepository_Update D eid' now' stale s' = (Inl e, s') \<and> errorsIs e ErrConflict \<and>
    r_Version r = r_Version rule + 1"
proof (rule InterestRuleRepository_Update_effect [OF assms(2)])
  fix old
  assume old: "old \<in> set (db_rules s)" "r_ID old = r_ID rule" "r_Version old = r_Version rule"
    "r = rule\<lparr>r_Version := r_Version old + 1\<rparr>"
    "db_rules s' = map (\<lambda>q. if r_ID q = r_ID rule then updatedRow rule old else q) (db_rules s)"
  have "find (\<lambda>q. r_ID q = r_ID stale) (db_rules s') \<noteq> None"
    using old assms(3) by (auto simp: find_None_iff)
  then obtain q where q: "find (\<lambda>q. r_ID q = r_ID stale) (db_rules s') = Some q" by blast
  then have "q \<in> set (db_rules s')" "r_ID q = r_ID stale" by (auto simp: find_Some_iff)
  with old assms(3) have "r_Version q = r_Version rule + 1" by (auto split: if_splits)
  with q old assms(4) show ?thesis
    by (simp add: InterestRuleRepository_Update_def pg_tx_def sbind_def swrap_def scanInterestRule_def QueryRow_def
        errorsIs_def)
qed

theorem stale_rule_update_conflicts_witness:
  "\<exists>r s e. InterestRuleRepository_Update dec_ops ''e1'' (day_time 738001) (sample_rule ''daily'' ''none'') rule_db =
      (Inr r, s) \<and>
    InterestRuleRepository_Update dec_ops ''e2'' (day_time 738001) (sample_rule ''daily'' ''daily'') s = (Inl e, s) \<and>
    errorsIs e ErrConflict"
proof -
  let ?run = "InterestRuleRepository_Update dec_ops ''e1'' (day_time 738001) (sample_rule ''daily'' ''none'') rule_db"
  have "isOk (fst ?run)" by code_simp
  then obtain r s where run: "?run = (Inr r, s)" by (metis isOk_iff prod.collapse)
  have "rules_ok (db_rules rule_db)" by code_simp
  from stale_rule_update_conflicts [OF this run, of "sample_rule ''daily'' ''daily''" "''e2''" "day_time 738001"] run
  show ?thesis by (auto simp: sample_rule_def)
qed

text \<open>What the rule service validates, on creation and on update, the table accepts: every check
  constraint of the rules table holds of the rule it hands to the repository.\<close>

theorem validated_rules_pass_checks:
  assumes "buildInterestRule rid now req = Inr rule"
    "validateInterestRuleConfiguration (applyRuleUpdate upd old) = Inr rule'" "0 \<le> r_Version old"
  shows "rule_checks (ruleRow rule) \<and> rule_checks (ruleRow rule')"
proof -
  have "r_Version (applyRuleUpdate upd old) = r_Version old" by (simp add: applyRuleUpdate_def Let_def)
  with assms show ?thesis
    using buildInterestRule_checks(1) validateInterestRuleConfiguration_checks by simp
qed

definition sample_rule_request :: CreateInterestRuleRequest where
  "sample_rule_request =
     \<lparr>cr_UserID = ''U'', cr_AccountID = ''A'', cr_AnnualRateBps = 800, cr_PromoRateBps = None,
      cr_PromoEndDate = None, cr_AccrualFrequency = '''', cr_CapitalizationFrequency = ''monthly'',
      cr_DayCountConvention = '''', cr_StartDate = day_time 738100, cr_EndDate = None\<rparr>"

theorem validated_rules_pass_checks_witness:
  "\<exists>rule. buildInterestRule ''r2'' (day_time 738001) sample_rule_request = Inr rule \<and> rule_checks (ruleRow rule)"
proof -
  have "isOk (buildInterestRule ''r2'' (day_time 738001) sample_rule_request)"
    "isOk (validateInterestRuleConfiguration (applyRuleUpdate (sample_rule_update 500) (sample_rule ''daily'' ''none'')))"
    "0 \<le> r_Version (sample_rule ''daily'' ''none'')"
    by code_simp+
  then show ?thesis using validated_rules_pass_checks [of "''r2''" "day_time 738001" sample_rule_request _
      "sample_rule_update 500" "sample_rule ''daily'' ''none''"] unfolding isOk_iff by blast
qed

end
