(* ===== verification/Planning.thy ===== *)
theory Planning
  imports Interest_Rules Auth
begin

text \<open>
  Categories, category limits, financial goals and the profile of the user: the services of
  \<^verbatim>\<open>internal/services/category_service.go\<close>, \<^verbatim>\<open>category_limit_service.go\<close>,
  \<^verbatim>\<open>financial_goal_service.go\<close> and \<^verbatim>\<open>profile_service.go\<close> with their repositories. The tables
  have their checks, keys and column widths; \<^verbatim>\<open>VARCHAR(3)\<close> and \<^verbatim>\<open>NUMERIC(38, 18)\<close> are tested
  before the checks.

  Goals and limits are updated optimistically: \<open>versioned_store\<close> is the contract of such an
  update, and no update is lost under it. Other lemmas show that what the services accept the
  tables accept, but for goals on accounts whose currency code is longer than three letters.
\<close>

section \<open>Text\<close>

text \<open>The length of the first rune of a UTF-8 string: \<^verbatim>\<open>utf8.DecodeRune\<close> takes one byte of an
  encoding that is not valid.\<close>

definition in_bytes :: "nat \<Rightarrow> nat \<Rightarrow> char \<Rightarrow> bool" where
  "in_bytes lo hi c = (lo \<le> of_char c \<and> of_char c \<le> hi)"

fun rune_len :: "string \<Rightarrow> nat" where
  "rune_len [] = 0"
| "rune_len (a # s) =
     (let cont = in_bytes 0x80 0xBF
      in if in_bytes 0xC2 0xDF a \<and> 1 \<le> length s \<and> cont (s ! 0) then 2
         else if 2 \<le> length s \<and> cont (s ! 1) \<and>
           (in_bytes 0xE0 0xE0 a \<and> in_bytes 0xA0 0xBF (s ! 0) \<or>
            (in_bytes 0xE1 0xEC a \<or> in_bytes 0xEE 0xEF a) \<and> cont (s ! 0) \<or>
            in_bytes 0xED 0xED a \<and> in_bytes 0x80 0x9F (s ! 0)) then 3
         else if 3 \<le> length s \<and> cont (s ! 1) \<and> cont (s ! 2) \<and>
           (in_bytes 0xF0 0xF0 a \<and> in_bytes 0x90 0xBF (s ! 0) \<or>
            in_bytes 0xF1 0xF3 a \<and> cont (s ! 0) \<or>
            in_bytes 0xF4 0xF4 a \<and> in_bytes 0x80 0x8F (s ! 0)) then 4
         else 1)"

lemma rune_len_pos: "s \<noteq> [] \<Longrightarrow> 0 < rune_len s"
  by (cases s) (simp_all add: Let_def)

text \<open>\<^verbatim>\<open>len([]rune(s))\<close>\<close>

function rune_count :: "string \<Rightarrow> nat" where
  "rune_count s = (if s = [] then 0 else Suc (rune_count (drop (rune_len s) s)))"
  by pat_completeness auto
termination
  by (relation "measure length") (auto intro!: diff_less rune_len_pos)

declare rune_count.simps [simp del]

lemma rune_count_0_iff [simp]: "rune_count s = 0 \<longleftrightarrow> s = []"
  by (subst rune_count.simps) simp

definition upper_letter :: "char \<Rightarrow> bool" where
  "upper_letter c = in_bytes 65 90 c"

definition slug_char :: "char \<Rightarrow> bool" where
  "slug_char c = (in_bytes 97 122 c \<or> in_bytes 48 57 c)"

text \<open>\<^verbatim>\<open>^[a-z0-9]+(?:[-_][a-z0-9]+)*$\<close>: the flag says that the last byte was a letter or digit.\<close>

fun slug_scan :: "bool \<Rightarrow> string \<Rightarrow> bool" where
  "slug_scan ok [] = ok"
| "slug_scan ok (c # s) =
     (if slug_char c then slug_scan True s
      else if (c = CHR ''-'' \<or> c = CHR ''_'') \<and> ok then slug_scan False s else False)"

definition categorySlugPattern :: "string \<Rightarrow> bool" where
  "categorySlugPattern s = slug_scan False s"

definition currencyCodePattern :: "string \<Rightarrow> bool" where
  "currencyCodePattern s = (length s = 3 \<and> list_all upper_letter s)"

section \<open>Tables\<close>

abbreviation "string_data_right_truncation \<equiv> ''22001''"

text \<open>The widths of the columns \<^verbatim>\<open>currency VARCHAR(3)\<close> and \<^verbatim>\<open>NUMERIC(38, 18)\<close>, then the constraints.\<close>

definition planning_guard :: "'d decimal_ops \<Rightarrow> string \<Rightarrow> 'd \<Rightarrow> bool \<Rightarrow> bool \<Rightarrow> bool \<Rightarrow> err + unit" where
  "planning_guard D currency amount checks unique fks =
     echeck (length currency > 3) (PgError string_data_right_truncation)
     (echeck (\<not> d_LessThan D (d_Abs D amount) (d_NewFromInt D (10 ^ 20))) (PgError numeric_value_out_of_range)
     (row_guard checks unique fks))"

definition goal_checks :: "'d decimal_ops \<Rightarrow> 'd FinancialGoal \<Rightarrow> bool" where
  "goal_checks D g =
     (1 \<le> rune_count (g_Name g) \<and> rune_count (g_Name g) \<le> 100 \<and> d_IsPositive D (g_TargetAmount g) \<and>
      g_Currency g = ToUpper (g_Currency g) \<and> g_Status g \<in> {''active'', ''completed'', ''archived''} \<and> 0 \<le> g_Version g)"

definition goal_fks :: "'d db \<Rightarrow> 'd FinancialGoal \<Rightarrow> bool" where
  "goal_fks s g =
     (g_OwnerUserID g \<in> set (map u_ID (db_users s)) \<and>
      (case g_AccountID g of None \<Rightarrow> True | Some a \<Rightarrow> list_ex (has_owner a (g_OwnerUserID g)) (db_accounts s)))"

definition limit_checks :: "'d decimal_ops \<Rightarrow> 'd CategoryLimit \<Rightarrow> bool" where
  "limit_checks D l = (d_IsPositive D (l_Amount l) \<and> currencyCodePattern (l_Currency l) \<and> 0 \<le> l_Version l)"

definition limit_fks :: "'d db \<Rightarrow> 'd CategoryLimit \<Rightarrow> bool" where
  "limit_fks s l = (l_OwnerUserID l \<in> set (map u_ID (db_users s)) \<and> l_CategoryID l \<in> set (map c_ID (db_categories s)))"

definition limit_key :: "'d CategoryLimit \<Rightarrow> string \<times> string \<times> string" where
  "limit_key l = (l_OwnerUserID l, l_CategoryID l, l_Currency l)"

section \<open>Financial goals\<close>

definition goalRow :: "'d FinancialGoal \<Rightarrow> 'd FinancialGoal" where
  "goalRow goal = goal\<lparr>g_TargetDate := map_option dateOnly (g_TargetDate goal)\<rparr>"

definition FinancialGoalRepository_Create :: "'d decimal_ops \<Rightarrow> 'd FinancialGoal \<Rightarrow> ('d, unit) dbstm" where
  "FinancialGoalRepository_Create D goal =
     sbind (sread (\<lambda>s. ewrap ''create financial goal''
       (planning_guard D (g_Currency goal) (g_TargetAmount goal) (goal_checks D goal)
         (g_ID goal \<notin> set (map g_ID (db_goals s))) (goal_fks s goal)))) (\<lambda>_.
     swrite (\<lambda>s. s\<lparr>db_goals := db_goals s @ [goalRow goal]\<rparr>))"

definition FinancialGoalRepository_GetByIDForUser :: "string \<Rightarrow> string \<Rightarrow> ('d, 'd FinancialGoal) dbstm" where
  "FinancialGoalRepository_GetByIDForUser goalID userID =
     sread (\<lambda>s. case QueryRow (\<lambda>g. g_ID g = goalID \<and> g_OwnerUserID g = userID) (db_goals s) of
        Inr g \<Rightarrow> Inr g
      | Inl e \<Rightarrow> Inl (Wrapped ''get financial goal'' (mapNotFound (Wrapped ''scan financial goal row'' e))))"

text \<open>\<^verbatim>\<open>ORDER BY created_at DESC\<close>\<close>

definition FinancialGoalRepository_ListByUser :: "string \<Rightarrow> ('d, 'd FinancialGoal list) dbstm" where
  "FinancialGoalRepository_ListByUser userID =
     sread (\<lambda>s. Inr (sort_key (\<lambda>g. - t_ns (g_CreatedAt g)) (filter (\<lambda>g. g_OwnerUserID g = userID) (db_goals s))))"

definition updatedGoal :: "'d FinancialGoal \<Rightarrow> 'd FinancialGoal \<Rightarrow> 'd FinancialGoal" where
  "updatedGoal goal old =
     old\<lparr>g_AccountID := g_AccountID goal, g_Name := g_Name goal, g_TargetAmount := g_TargetAmount goal,
       g_Currency := g_Currency goal, g_TargetDate := map_option dateOnly (g_TargetDate goal),
       g_Status := g_Status goal, g_UpdatedAt := g_UpdatedAt goal, g_Version := g_Version old + 1\<rparr>"

definition goal_matches :: "'d FinancialGoal \<Rightarrow> string \<Rightarrow> 'd FinancialGoal \<Rightarrow> bool" where
  "goal_matches goal userID g = (g_ID g = g_ID goal \<and> g_OwnerUserID g = userID \<and> g_Version g = g_Version goal)"

text \<open>\<^verbatim>\<open>UPDATE ... RETURNING version\<close>: the goal is returned with its new version.\<close>

definition FinancialGoalRepository_UpdateForUser ::
  "'d decimal_ops \<Rightarrow> string \<Rightarrow> 'd FinancialGoal \<Rightarrow> ('d, 'd FinancialGoal) dbstm" where
  "FinancialGoalRepository_UpdateForUser D userID goal =
     sbind (sread (\<lambda>s. case QueryRow (goal_matches goal userID) (db_goals s) of
        Inl e \<Rightarrow> Inl (Wrapped ''update financial goal'' (if errorsIs (mapNotFound e) ErrNotFound then ErrConflict else e))
      | Inr old \<Rightarrow> ewrap ''update financial goal''
          (ebind (planning_guard D (g_Currency goal) (g_TargetAmount goal) (goal_checks D (updatedGoal goal old)) True
            (goal_fks s (updatedGoal goal old))) (\<lambda>_. Inr old)))) (\<lambda>old.
     sbind (swrite (\<lambda>s. s\<lparr>db_goals := map (\<lambda>g. if goal_matches goal userID g then updatedGoal goal g else g) (db_goals s)\<rparr>)) (\<lambda>_.
     sret (goal\<lparr>g_Version := g_Version old + 1\<rparr>)))"

record 'd CreateFinancialGoalRequest =
  cg_UserID :: string
  cg_AccountID :: string
  cg_Name :: string
  cg_TargetAmount :: 'd
  cg_TargetDate :: "time option"

record 'd UpdateFinancialGoalRequest =
  ug_ID :: string
  ug_UserID :: string
  ug_AccountID :: "string option"
  ug_Name :: "string option"
  ug_TargetAmount :: "'d option"
  ug_TargetDateSet :: bool
  ug_TargetDate :: "time option"
  ug_Status :: "FinancialGoalStatus option"

definition validFinancialGoalStatus :: "FinancialGoalStatus \<Rightarrow> bool" where
  "validFinancialGoalStatus status = (status \<in> {FinancialGoalActive, FinancialGoalCompleted, FinancialGoalArchived})"

definition FinancialGoalService_ListByUser :: "string \<Rightarrow> ('d, 'd FinancialGoal list) dbstm" where
  "FinancialGoalService_ListByUser userID =
     swrap ''list financial goals'' (FinancialGoalRepository_ListByUser (TrimSpace userID))"

definition buildGoal ::
  "'d decimal_ops \<Rightarrow> string \<Rightarrow> time \<Rightarrow> 'd CreateFinancialGoalRequest \<Rightarrow> Account \<Rightarrow> err + 'd FinancialGoal" where
  "buildGoal D newID now req account =
     (let name = TrimSpace (cg_Name req)
      in echeck (name = '''' \<or> rune_count name > 100 \<or> \<not> d_IsPositive D (cg_TargetAmount req))
           (validationError ''name and a positive target amount are required'')
         (ebind (emap (\<lambda>e. validationError (Error e)) (ValidateCurrencyScale D (cg_TargetAmount req) (a_Currency account))) (\<lambda>_.
          Inr \<lparr>g_ID = newID, g_OwnerUserID = TrimSpace (cg_UserID req), g_AccountID = Some (TrimSpace (cg_AccountID req)),
            g_Name = name, g_TargetAmount = cg_TargetAmount req, g_Currency = a_Currency account,
            g_TargetDate = cg_TargetDate req, g_Status = FinancialGoalActive, g_CreatedAt = UTC now,
            g_UpdatedAt = UTC now, g_Version = 0\<rparr>)))"

definition FinancialGoalService_Create ::
  "'d decimal_ops \<Rightarrow> string \<Rightarrow> time \<Rightarrow> 'd CreateFinancialGoalRequest option \<Rightarrow> ('d, 'd FinancialGoal) dbstm" where
  "FinancialGoalService_Create D newID now r =
     (case r of
        None \<Rightarrow> sfail (validationError ''create financial goal request is required'')
      | Some req \<Rightarrow>
          sbind (swrap ''get financial goal account''
            (AccountRepository_GetByIDForUser (TrimSpace (cg_AccountID req)) (TrimSpace (cg_UserID req)))) (\<lambda>account.
          sbind (slift (buildGoal D newID now req account)) (\<lambda>goal.
          sbind (swrap ''create financial goal'' (FinancialGoalRepository_Create D goal)) (\<lambda>_.
          sret goal))))"

text \<open>The changes of an update after the account was read.\<close>

definition applyGoalUpdate ::
  "'d decimal_ops \<Rightarrow> time \<Rightarrow> 'd UpdateFinancialGoalRequest \<Rightarrow> Account option \<Rightarrow> 'd FinancialGoal \<Rightarrow> err + 'd FinancialGoal" where
  "applyGoalUpdate D now req account goal =
     (let goal = (case account of None \<Rightarrow> goal
            | Some a \<Rightarrow> goal\<lparr>g_AccountID := map_option TrimSpace (ug_AccountID req), g_Currency := a_Currency a\<rparr>)
      in ebind (case ug_Name req of
             None \<Rightarrow> Inr goal
           | Some n \<Rightarrow> let name = TrimSpace n
               in echeck (name = '''' \<or> rune_count name > 100) (validationError ''name must contain 1 to 100 characters'')
                    (Inr (goal\<lparr>g_Name := name\<rparr>))) (\<lambda>goal.
         ebind (case ug_TargetAmount req of
             None \<Rightarrow> Inr goal
           | Some x \<Rightarrow> echeck (\<not> d_IsPositive D x) (validationError ''target amount must be positive'')
                (Inr (goal\<lparr>g_TargetAmount := x\<rparr>))) (\<lambda>goal.
         ebind (if ug_TargetAmount req \<noteq> None \<or> account \<noteq> None
            then emap (\<lambda>e. validationError (Error e)) (ValidateCurrencyScale D (g_TargetAmount goal) (g_Currency goal))
            else Inr ()) (\<lambda>_.
         let goal = (if ug_TargetDateSet req then goal\<lparr>g_TargetDate := ug_TargetDate req\<rparr> else goal)
         in ebind (case ug_Status req of
              None \<Rightarrow> Inr goal
            | Some st \<Rightarrow> echeck (\<not> validFinancialGoalStatus st) (validationError ''invalid financial goal status'')
                 (Inr (goal\<lparr>g_Status := st\<rparr>))) (\<lambda>goal.
            Inr (goal\<lparr>g_UpdatedAt := UTC now\<rparr>))))))"

definition FinancialGoalService_Update ::
  "'d decimal_ops \<Rightarrow> time \<Rightarrow> 'd UpdateFinancialGoalRequest option \<Rightarrow> ('d, 'd FinancialGoal) dbstm" where
  "FinancialGoalService_Update D now r =
     (case r of
        None \<Rightarrow> sfail (validationError ''update financial goal request is required'')
      | Some req \<Rightarrow>
          let userID = TrimSpace (ug_UserID req)
          in sbind (swrap ''get financial goal''
               (FinancialGoalRepository_GetByIDForUser (TrimSpace (ug_ID req)) userID)) (\<lambda>goal.
             sbind (case ug_AccountID req of
                 None \<Rightarrow> sret None
               | Some a \<Rightarrow> sbind (swrap ''get financial goal account''
                   (AccountRepository_GetByIDForUser (TrimSpace a) userID)) (\<lambda>account. sret (Some account))) (\<lambda>account.
             sbind (slift (applyGoalUpdate D now req account goal)) (\<lambda>goal.
             swrap ''update financial goal'' (FinancialGoalRepository_UpdateForUser D userID goal)))))"

section \<open>Category limits\<close>

definition CategoryLimitRepository_Create :: "'d decimal_ops \<Rightarrow> 'd CategoryLimit \<Rightarrow> ('d, unit) dbstm" where
  "CategoryLimitRepository_Create D limit =
     sbind (sread (\<lambda>s. ewrap ''create category limit'' (emap mapConflict
       (planning_guard D (l_Currency limit) (l_Amount limit) (limit_checks D limit)
         (l_ID limit \<notin> set (map l_ID (db_limits s)) \<and> limit_key limit \<notin> set (map limit_key (db_limits s)))
         (limit_fks s limit))))) (\<lambda>_.
     swrite (\<lambda>s. s\<lparr>db_limits := db_limits s @ [limit]\<rparr>))"

definition CategoryLimitRepository_GetByIDForUser :: "string \<Rightarrow> string \<Rightarrow> ('d, 'd CategoryLimit) dbstm" where
  "CategoryLimitRepository_GetByIDForUser limitID userID =
     sread (\<lambda>s. case QueryRow (\<lambda>l. l_ID l = limitID \<and> l_OwnerUserID l = userID) (db_limits s) of
        Inr l \<Rightarrow> Inr l
      | Inl e \<Rightarrow> Inl (Wrapped ''get category limit'' (mapNotFound (Wrapped ''scan category limit row'' e))))"

text \<open>\<^verbatim>\<open>ORDER BY updated_at DESC, id DESC\<close>\<close>

definition CategoryLimitRepository_ListByUser :: "string \<Rightarrow> ('d, 'd CategoryLimit list) dbstm" where
  "CategoryLimitRepository_ListByUser userID =
     sread (\<lambda>s. Inr (sort_key (\<lambda>l. - t_ns (l_UpdatedAt l))
       (rev (sort_key l_ID (filter (\<lambda>l. l_OwnerUserID l = userID) (db_limits s))))))"

definition updatedLimit :: "'d CategoryLimit \<Rightarrow> 'd CategoryLimit \<Rightarrow> 'd CategoryLimit" where
  "updatedLimit limit old =
     old\<lparr>l_CategoryID := l_CategoryID limit, l_Amount := l_Amount limit, l_Currency := l_Currency limit,
       l_IsActive := l_IsActive limit, l_UpdatedAt := l_UpdatedAt limit, l_Version := l_Version old + 1\<rparr>"

definition limit_matches :: "'d CategoryLimit \<Rightarrow> string \<Rightarrow> 'd CategoryLimit \<Rightarrow> bool" where
  "limit_matches limit userID l = (l_ID l = l_ID limit \<and> l_OwnerUserID l = userID \<and> l_Version l = l_Version limit)"

definition CategoryLimitRepository_UpdateForUser ::
  "'d decimal_ops \<Rightarrow> string \<Rightarrow> 'd CategoryLimit \<Rightarrow> ('d, 'd CategoryLimit) dbstm" where
  "CategoryLimitRepository_UpdateForUser D userID limit =
     sbind (sread (\<lambda>s. case QueryRow (limit_matches limit userID) (db_limits s) of
        Inl e \<Rightarrow> Inl (Wrapped ''update category limit'' (if errorsIs (mapNotFound e) ErrNotFound then ErrConflict else mapConflict e))
      | Inr old \<Rightarrow> ewrap ''update category limit'' (emap mapConflict
          (ebind (planning_guard D (l_Currency limit) (l_Amount limit) (limit_checks D (updatedLimit limit old))
            (list_all (\<lambda>l. limit_matches limit userID l \<or> limit_key l \<noteq> limit_key (updatedLimit limit old)) (db_limits s))
            (limit_fks s (updatedLimit limit old))) (\<lambda>_. Inr old))))) (\<lambda>old.
     sbind (swrite (\<lambda>s. s\<lparr>db_limits := map (\<lambda>l. if limit_matches limit userID l then updatedLimit limit l else l) (db_limits s)\<rparr>)) (\<lambda>_.
     sret (limit\<lparr>l_Version := l_Version old + 1\<rparr>)))"

record 'd CreateCategoryLimitRequest =
  cl_LimitUserID :: string
  cl_CategoryID :: string
  cl_Amount :: 'd
  cl_Currency :: string
  cl_IsActive :: "bool option"

record 'd UpdateCategoryLimitRequest =
  ul_ID :: string
  ul_UserID :: string
  ul_CategoryID :: "string option"
  ul_Amount :: "'d option"
  ul_Currency :: "string option"
  ul_IsActive :: "bool option"

definition validateCategoryLimitAmount :: "'d decimal_ops \<Rightarrow> 'd \<Rightarrow> string \<Rightarrow> err + unit" where
  "validateCategoryLimitAmount D amount currency =
     echeck (\<not> currencyCodePattern currency) (validationError ''currency must be a 3-letter code'')
     (echeck (\<not> d_IsPositive D amount) (validationError ''limit amount must be positive'')
     (emap (\<lambda>e. validationError (Error e)) (ValidateCurrencyScale D amount currency)))"

definition CategoryLimitService_ListByUser :: "string \<Rightarrow> ('d, 'd CategoryLimit list) dbstm" where
  "CategoryLimitService_ListByUser userID =
     swrap ''list category limits'' (CategoryLimitRepository_ListByUser (TrimSpace userID))"

definition CategoryLimitService_Create ::
  "'d decimal_ops \<Rightarrow> string \<Rightarrow> time \<Rightarrow> 'd CreateCategoryLimitRequest option \<Rightarrow> ('d, 'd CategoryLimit) dbstm" where
  "CategoryLimitService_Create D newID now r =
     (case r of
        None \<Rightarrow> sfail (validationError ''create category limit request is required'')
      | Some req \<Rightarrow>
          let categoryID = TrimSpace (cl_CategoryID req); currency = ToUpper (TrimSpace (cl_Currency req))
          in sbind (swrap ''get category limit category'' (CategoryRepository_GetByID categoryID)) (\<lambda>_.
             sbind (slift (validateCategoryLimitAmount D (cl_Amount req) currency)) (\<lambda>_.
             let limit = \<lparr>l_ID = newID, l_OwnerUserID = TrimSpace (cl_LimitUserID req), l_CategoryID = categoryID,
                   l_Amount = cl_Amount req, l_Currency = currency,
                   l_IsActive = (case cl_IsActive req of Some b \<Rightarrow> b | None \<Rightarrow> True),
                   l_CreatedAt = UTC now, l_UpdatedAt = UTC now, l_Version = 0\<rparr>
             in sbind (swrap ''create category limit'' (CategoryLimitRepository_Create D limit)) (\<lambda>_.
                sret limit))))"

definition applyLimitUpdate :: "'d decimal_ops \<Rightarrow> time \<Rightarrow> 'd UpdateCategoryLimitRequest \<Rightarrow> 'd CategoryLimit \<Rightarrow> err + 'd CategoryLimit" where
  "applyLimitUpdate D now req limit =
     (let limit = limit\<lparr>l_CategoryID := (case ul_CategoryID req of Some c \<Rightarrow> TrimSpace c | None \<Rightarrow> l_CategoryID limit),
            l_Currency := (case ul_Currency req of Some c \<Rightarrow> ToUpper (TrimSpace c) | None \<Rightarrow> l_Currency limit),
            l_Amount := (case ul_Amount req of Some x \<Rightarrow> x | None \<Rightarrow> l_Amount limit)\<rparr>
      in ebind (if ul_Amount req \<noteq> None \<or> ul_Currency req \<noteq> None
           then validateCategoryLimitAmount D (l_Amount limit) (l_Currency limit) else Inr ()) (\<lambda>_.
         Inr (limit\<lparr>l_IsActive := (case ul_IsActive req of Some b \<Rightarrow> b | None \<Rightarrow> l_IsActive limit), l_UpdatedAt := UTC now\<rparr>)))"

definition CategoryLimitService_Update ::
  "'d decimal_ops \<Rightarrow> time \<Rightarrow> 'd UpdateCategoryLimitRequest option \<Rightarrow> ('d, 'd CategoryLimit) dbstm" where
  "CategoryLimitService_Update D now r =
     (case r of
        None \<Rightarrow> sfail (validationError ''update category limit request is required'')
      | Some req \<Rightarrow>
          let userID = TrimSpace (ul_UserID req)
          in sbind (swrap ''get category limit'' (CategoryLimitRepository_GetByIDForUser (TrimSpace (ul_ID req)) userID)) (\<lambda>limit.
             sbind (case ul_CategoryID req of
                 None \<Rightarrow> sret ()
               | Some c \<Rightarrow> sbind (swrap ''get category limit category'' (CategoryRepository_GetByID (TrimSpace c))) (\<lambda>_. sret ())) (\<lambda>_.
             sbind (slift (applyLimitUpdate D now req limit)) (\<lambda>limit.
             swrap ''update category limit'' (CategoryLimitRepository_UpdateForUser D userID limit)))))"

section \<open>Categories and the profile\<close>

definition CategoryRepository_Create :: "Category \<Rightarrow> ('d, unit) dbstm" where
  "CategoryRepository_Create category =
     sbind (sread (\<lambda>s. ewrap ''create category'' (emap mapConflict
       (row_guard True
         (c_ID category \<notin> set (map c_ID (db_categories s)) \<and> c_Slug category \<notin> set (map c_Slug (db_categories s)) \<and>
          ToLower (c_Name category) \<notin> set (map (ToLower \<circ> c_Name) (db_categories s))) True)))) (\<lambda>_.
     swrite (\<lambda>s. s\<lparr>db_categories := db_categories s @ [category]\<rparr>))"

text \<open>\<^verbatim>\<open>ORDER BY name\<close>\<close>

definition CategoryRepository_List :: "('d, Category list) dbstm" where
  "CategoryRepository_List = sread (\<lambda>s. Inr (sort_key c_Name (db_categories s)))"

record CreateCategoryRequest =
  cc_Name :: string
  cc_Slug :: string

definition CategoryService_List :: "('d, Category list) dbstm" where
  "CategoryService_List = swrap ''list categories'' CategoryRepository_List"

definition CategoryService_Create :: "string \<Rightarrow> time \<Rightarrow> CreateCategoryRequest option \<Rightarrow> ('d, Category) dbstm" where
  "CategoryService_Create newID now r =
     (case r of
        None \<Rightarrow> sfail (validationError ''create category request is required'')
      | Some req \<Rightarrow>
          let name = TrimSpace (cc_Name req); slug = ToLower (TrimSpace (cc_Slug req))
          in sbind (scheck (name = '''' \<or> rune_count name > 80)
               (validationError ''category name must contain 1 to 80 characters'')) (\<lambda>_.
             sbind (scheck (length slug > 80 \<or> \<not> categorySlugPattern slug)
               (validationError ''category slug must use lowercase Latin letters, numbers, hyphens, or underscores'')) (\<lambda>_.
             let category = \<lparr>c_ID = newID, c_Slug = slug, c_Name = name, c_CreatedAt = UTC now, c_UpdatedAt = UTC now\<rparr>
             in sbind (swrap ''create category'' (CategoryRepository_Create category)) (\<lambda>_.
                sret category))))"

definition ProfileService_Get :: "ctx \<Rightarrow> string \<Rightarrow> ('d, User) dbstm" where
  "ProfileService_Get ctx userID =
     sbind (slift (ctxCheck ctx ''get profile'' (echeck (userID = '''') (validationError ''user id is required'') (Inr ())))) (\<lambda>_.
     swrap ''get user'' (UserRepository_GetByID userID))"

record UpdateProfileRequest =
  up_UserID :: string
  up_PrimaryCurrency :: string

definition ProfileService_Update :: "ctx \<Rightarrow> string \<Rightarrow> time \<Rightarrow> time \<Rightarrow> UpdateProfileRequest \<Rightarrow> ('d, User) dbstm" where
  "ProfileService_Update ctx eid auditNow now req =
     sbind (slift (ctxCheck ctx ''update profile''
       (echeck (up_UserID req = '''') (validationError ''user id is required'') (Inr ())))) (\<lambda>_.
     let primaryCurrency = normalizePrimaryCurrency (up_PrimaryCurrency req)
     in sbind (slift (validateCurrency primaryCurrency)) (\<lambda>_.
        sbind (swrap ''update primary currency''
          (UserRepository_UpdatePrimaryCurrency eid auditNow (up_UserID req) primaryCurrency now)) (\<lambda>_.
        swrap ''get updated user'' (UserRepository_GetByID (up_UserID req)))))"

section \<open>Optimistic updates\<close>

text \<open>Ids stay unique, no row disappears and no version goes back.\<close>

definition rows_advance :: "('s \<Rightarrow> 'r list) \<Rightarrow> ('r \<Rightarrow> 'k) \<Rightarrow> ('r \<Rightarrow> int) \<Rightarrow> 's \<Rightarrow> 's \<Rightarrow> bool" where
  "rows_advance rows key version s s' \<longleftrightarrow> distinct (map key (rows s')) \<and>
     (\<forall>q\<in>set (rows s). \<exists>q'\<in>set (rows s'). key q' = key q \<and> version q \<le> version q')"

lemma rows_advance_refl: "distinct (map key (rows s)) \<Longrightarrow> rows_advance rows key version s s"
  by (auto simp: rows_advance_def)

lemma rows_advance_trans:
  "rows_advance rows key version s s' \<Longrightarrow> rows_advance rows key version s' s'' \<Longrightarrow> rows_advance rows key version s s''"
  unfolding rows_advance_def by (metis (no_types, lifting) order_trans)

lemma rows_advance_keeps:
  assumes "\<And>s x s'. distinct (map key (rows s)) \<Longrightarrow> m s = (Inr x, s') \<Longrightarrow> rows_advance rows key version s s'"
    "\<And>s e s'. m s = (Inl e, s') \<Longrightarrow> s' = s"
  shows "keeps (rows_advance rows key version s0) m"
proof (rule keepsI)
  fix s r s'
  assume p: "rows_advance rows key version s0 s" and run: "m s = (r, s')"
  then have d: "distinct (map key (rows s))" by (simp add: rows_advance_def)
  show "rows_advance rows key version s0 s'"
  proof (cases r)
    case (Inl e)
    then show ?thesis using assms(2) run p by auto
  next
    case (Inr x)
    then show ?thesis using rows_advance_trans [OF p assms(1) [OF d]] run by simp
  qed
qed

lemma rows_advance_append:
  "distinct (map key (rows s)) \<Longrightarrow> rows s' = rows s @ [r] \<Longrightarrow> key r \<notin> set (map key (rows s)) \<Longrightarrow>
     rows_advance rows key version s s'"
  by (auto simp: rows_advance_def)

lemma rows_advance_map:
  assumes "distinct (map key (rows s))" "rows s' = map f (rows s)"
    "\<And>q. q \<in> set (rows s) \<Longrightarrow> key (f q) = key q \<and> version q \<le> version (f q)"
  shows "rows_advance rows key version s s'"
proof -
  have "map key (rows s') = map key (rows s)" using assms(2,3) by simp
  then have "distinct (map key (rows s'))" using assms(1) by simp
  then show ?thesis using assms(2,3) by (auto simp: rows_advance_def)
qed

text \<open>The contract of a table whose rows carry a version: an update of a row that has another
  version by now conflicts and changes nothing, one that succeeds raises the version by one, and
  no other step on the table takes a version back or removes a row.\<close>

locale versioned_store =
  fixes rows :: "'s \<Rightarrow> 'r list"
    and key :: "'r \<Rightarrow> 'k"
    and version :: "'r \<Rightarrow> int"
    and update :: "'u \<Rightarrow> 'r \<Rightarrow> ('s, err, 'r) stm"
    and step :: "'s \<Rightarrow> 's \<Rightarrow> bool"
  assumes stale_conflicts: "distinct (map key (rows s)) \<Longrightarrow> q \<in> set (rows s) \<Longrightarrow> key q = key r \<Longrightarrow>
      version q \<noteq> version r \<Longrightarrow> \<exists>e. update u r s = (Inl e, s) \<and> errorsIs e ErrConflict"
    and update_raises: "distinct (map key (rows s)) \<Longrightarrow> update u r s = (Inr r', s') \<Longrightarrow>
      distinct (map key (rows s')) \<and> (\<exists>q\<in>set (rows s'). key q = key r \<and> version q = version r + 1)"
    and step_advances: "distinct (map key (rows s)) \<Longrightarrow> step s s' \<Longrightarrow> rows_advance rows key version s s'"
begin

lemma steps_advance:
  assumes "step\<^sup>*\<^sup>* s s'" "distinct (map key (rows s))"
  shows "rows_advance rows key version s s'"
  using assms
proof (induction rule: rtranclp_induct)
  case base
  then show ?case by (rule rows_advance_refl)
next
  case (step t t')
  then have "distinct (map key (rows t))" by (simp add: rows_advance_def)
  from step_advances [OF this step.hyps(2)] step show ?case by (metis rows_advance_trans)
qed

lemma no_lost_update:
  assumes d: "distinct (map key (rows s))" and "update u a s = (Inr r, s')" "step\<^sup>*\<^sup>* s' s''"
    and b: "key b = key a" "version b \<le> version a"
  shows "\<exists>e. update u' b s'' = (Inl e, s'') \<and> errorsIs e ErrConflict"
proof -
  obtain q where q: "distinct (map key (rows s'))" "q \<in> set (rows s')" "key q = key a" "version q = version a + 1"
    using update_raises [OF assms(1,2)] by auto
  obtain q' where "distinct (map key (rows s''))" "q' \<in> set (rows s'')" "key q' = key q" "version q \<le> version q'"
    using steps_advance [OF assms(3) q(1)] q(2) unfolding rows_advance_def by blast
  then show ?thesis using q b by (intro stale_conflicts [where q = q']) auto
qed

end

lemma planning_guard_Inr [simp]: "planning_guard D c a checks unique fks = Inr () \<longleftrightarrow>
    length c \<le> 3 \<and> d_LessThan D (d_Abs D a) (d_NewFromInt D (10 ^ 20)) \<and> checks \<and> unique \<and> fks"
  by (auto simp: planning_guard_def)

lemma mapNotFound_NoRows [simp]: "errorsIs (mapNotFound ErrNoRows) ErrNotFound"
  by (simp add: mapNotFound_def errorsIs_def)

subsection \<open>Goals\<close>

lemma FinancialGoalRepository_Create_effect:
  "FinancialGoalRepository_Create D goal s = (Inr u, s') \<Longrightarrow>
     g_ID goal \<notin> set (map g_ID (db_goals s)) \<and> db_goals s' = db_goals s @ [goalRow goal]"
  by (auto simp: FinancialGoalRepository_Create_def tx_simps)

lemma FinancialGoalRepository_UpdateForUser_effect:
  assumes "FinancialGoalRepository_UpdateForUser D userID goal s = (Inr r, s')"
  obtains old where "old \<in> set (db_goals s)" "goal_matches goal userID old" "r = goal\<lparr>g_Version := g_Version old + 1\<rparr>"
    "db_goals s' = map (\<lambda>g. if goal_matches goal userID g then updatedGoal goal g else g) (db_goals s)"
  using assms
  by (auto simp: FinancialGoalRepository_UpdateForUser_def tx_simps split: sum.splits dest!: QueryRow_D)

lemma updatedGoal_fields [simp]: "g_ID (updatedGoal goal g) = g_ID g" "g_Version (updatedGoal goal g) = g_Version g + 1"
  by (simp_all add: updatedGoal_def)

lemma goalRow_fields [simp]: "g_ID (goalRow g) = g_ID g"
  by (simp add: goalRow_def)

text \<open>What clients do with the goals between two updates.\<close>

inductive goal_step :: "'d decimal_ops \<Rightarrow> 'd db \<Rightarrow> 'd db \<Rightarrow> bool" for D where
  create: "goal_step D s (snd (FinancialGoalService_Create D newID now req s))"
| update: "goal_step D s (snd (FinancialGoalService_Update D now req s))"
| store: "goal_step D s (snd (FinancialGoalRepository_UpdateForUser D userID goal s))"

abbreviation "goals_advance \<equiv> rows_advance db_goals g_ID g_Version"

lemma FinancialGoalRepository_UpdateForUser_fails:
  "FinancialGoalRepository_UpdateForUser D userID goal s = (Inl e, s') \<Longrightarrow> s' = s"
  by (auto simp: FinancialGoalRepository_UpdateForUser_def sbind_Inl_iff)

lemma keeps_goals [keeps_intros]:
  "keeps (goals_advance s0) (FinancialGoalRepository_Create D goal)"
  "keeps (goals_advance s0) (FinancialGoalRepository_UpdateForUser D userID goal)"
proof -
  show "keeps (goals_advance s0) (FinancialGoalRepository_Create D goal)"
  proof (rule rows_advance_keeps)
    fix s x s'
    assume "distinct (map g_ID (db_goals s))" "FinancialGoalRepository_Create D goal s = (Inr x, s')"
    then show "goals_advance s s'"
      using FinancialGoalRepository_Create_effect [of D goal s x s'] by (intro rows_advance_append [where r = "goalRow goal"]) auto
  qed (auto simp: FinancialGoalRepository_Create_def sbind_Inl_iff)
  show "keeps (goals_advance s0) (FinancialGoalRepository_UpdateForUser D userID goal)"
  proof (rule rows_advance_keeps)
    fix s x s'
    assume d: "distinct (map g_ID (db_goals s))" and run: "FinancialGoalRepository_UpdateForUser D userID goal s = (Inr x, s')"
    show "goals_advance s s'"
      by (rule FinancialGoalRepository_UpdateForUser_effect [OF run], rule rows_advance_map [where rows = db_goals, OF d], assumption) simp
  qed (rule FinancialGoalRepository_UpdateForUser_fails)
qed

lemma keeps_goal_reads [keeps_intros]:
  "keeps P (FinancialGoalRepository_GetByIDForUser goalID userID)"
  "keeps P (AccountRepository_GetByIDForUser accountID userID)"
  by (auto simp: keeps_def FinancialGoalRepository_GetByIDForUser_def AccountRepository_GetByIDForUser_def getAccount_def)

lemma keeps_goal_services [keeps_intros]:
  "keeps (goals_advance s0) (FinancialGoalService_Create D newID now req)"
  "keeps (goals_advance s0) (FinancialGoalService_Update D now r)"
  unfolding FinancialGoalService_Create_def FinancialGoalService_Update_def Let_def
  by (intro keeps_intros)+

lemma goal_step_advances: "goal_step D s s' \<Longrightarrow> distinct (map g_ID (db_goals s)) \<Longrightarrow> goals_advance s s'"
  by (induction rule: goal_step.induct) (metis keeps_def keeps_goal_services keeps_goals(2) rows_advance_refl)+

text \<open>The repository of goals is a versioned store, for every user that asks.\<close>

interpretation goals: versioned_store db_goals g_ID g_Version "FinancialGoalRepository_UpdateForUser D" "goal_step D"
  for D :: "'d decimal_ops"
proof
  fix s :: "'d db" and q r :: "'d FinancialGoal" and u
  assume d: "distinct (map g_ID (db_goals s))" and q: "q \<in> set (db_goals s)" "g_ID q = g_ID r" "g_Version q \<noteq> g_Version r"
  then have "find (goal_matches r u) (db_goals s) = None"
    by (auto simp: find_None_iff goal_matches_def distinct_map) (metis inj_onD)
  then show "\<exists>e. FinancialGoalRepository_UpdateForUser D u r s = (Inl e, s) \<and> errorsIs e ErrConflict"
    by (simp add: FinancialGoalRepository_UpdateForUser_def QueryRow_def sbind_def mapNotFound_def errorsIs_def)
next
  fix s s' :: "'d db" and u r r'
  assume d: "distinct (map g_ID (db_goals s))" and run: "FinancialGoalRepository_UpdateForUser D u r s = (Inr r', s')"
  from keepsD [OF keeps_goals(2) rows_advance_refl [where rows = db_goals, OF d] run] have "distinct (map g_ID (db_goals s'))"
    by (simp add: rows_advance_def)
  moreover obtain old where old: "old \<in> set (db_goals s)" "goal_matches r u old"
    "db_goals s' = map (\<lambda>x. if goal_matches r u x then updatedGoal r x else x) (db_goals s)"
    using run by (rule FinancialGoalRepository_UpdateForUser_effect)
  moreover have "updatedGoal r old \<in> set (db_goals s')" using old by force
  moreover have "g_ID old = g_ID r" "g_Version old = g_Version r" using old(2) by (simp_all add: goal_matches_def)
  ultimately show "distinct (map g_ID (db_goals s')) \<and> (\<exists>q\<in>set (db_goals s'). g_ID q = g_ID r \<and> g_Version q = g_Version r + 1)"
    by (intro conjI bexI [where x = "updatedGoal r old"]) simp_all
qed (rule goal_step_advances)

subsection \<open>Limits\<close>

lemma CategoryLimitRepository_Create_effect:
  "CategoryLimitRepository_Create D limit s = (Inr u, s') \<Longrightarrow>
     l_ID limit \<notin> set (map l_ID (db_limits s)) \<and> limit_key limit \<notin> set (map limit_key (db_limits s)) \<and>
     db_limits s' = db_limits s @ [limit]"
  by (auto simp: CategoryLimitRepository_Create_def tx_simps)

lemma CategoryLimitRepository_UpdateForUser_effect:
  assumes "CategoryLimitRepository_UpdateForUser D userID limit s = (Inr r, s')"
  obtains old where "old \<in> set (db_limits s)" "limit_matches limit userID old" "r = limit\<lparr>l_Version := l_Version old + 1\<rparr>"
    "db_limits s' = map (\<lambda>l. if limit_matches limit userID l then updatedLimit limit l else l) (db_limits s)"
  using assms
  by (auto simp: CategoryLimitRepository_UpdateForUser_def tx_simps split: sum.splits dest!: QueryRow_D)

lemma updatedLimit_fields [simp]: "l_ID (updatedLimit limit l) = l_ID l" "l_Version (updatedLimit limit l) = l_Version l + 1"
  by (simp_all add: updatedLimit_def)

inductive limit_step :: "'d decimal_ops \<Rightarrow> 'd db \<Rightarrow> 'd db \<Rightarrow> bool" for D where
  create: "limit_step D s (snd (CategoryLimitService_Create D newID now req s))"
| update: "limit_step D s (snd (CategoryLimitService_Update D now req s))"
| store: "limit_step D s (snd (CategoryLimitRepository_UpdateForUser D userID limit s))"

abbreviation "limits_advance \<equiv> rows_advance db_limits l_ID l_Version"

lemma keeps_limits [keeps_intros]:
  "keeps (limits_advance s0) (CategoryLimitRepository_Create D limit)"
  "keeps (limits_advance s0) (CategoryLimitRepository_UpdateForUser D userID limit)"
proof -
  show "keeps (limits_advance s0) (CategoryLimitRepository_Create D limit)"
  proof (rule rows_advance_keeps)
    fix s x s'
    assume "distinct (map l_ID (db_limits s))" "CategoryLimitRepository_Create D limit s = (Inr x, s')"
    then show "limits_advance s s'"
      using CategoryLimitRepository_Create_effect [of D limit s x s'] by (intro rows_advance_append [where r = limit]) auto
  qed (auto simp: CategoryLimitRepository_Create_def sbind_Inl_iff)
  show "keeps (limits_advance s0) (CategoryLimitRepository_UpdateForUser D userID limit)"
  proof (rule rows_advance_keeps)
    fix s x s'
    assume d: "distinct (map l_ID (db_limits s))" and run: "CategoryLimitRepository_UpdateForUser D userID limit s = (Inr x, s')"
    show "limits_advance s s'"
      by (rule CategoryLimitRepository_UpdateForUser_effect [OF run], rule rows_advance_map [where rows = db_limits, OF d], assumption) simp
  qed (auto simp: CategoryLimitRepository_UpdateForUser_def sbind_Inl_iff)
qed

lemma keeps_limit_reads [keeps_intros]:
  "keeps P (CategoryLimitRepository_GetByIDForUser limitID userID)" "keeps P (CategoryRepository_GetByID categoryID)"
  by (auto simp: keeps_def CategoryLimitRepository_GetByIDForUser_def CategoryRepository_GetByID_def)

lemma keeps_limit_services [keeps_intros]:
  "keeps (limits_advance s0) (CategoryLimitService_Create D newID now req)"
  "keeps (limits_advance s0) (CategoryLimitService_Update D now r)"
  unfolding CategoryLimitService_Create_def CategoryLimitService_Update_def Let_def
  by (intro keeps_intros)+

lemma limit_step_advances: "limit_step D s s' \<Longrightarrow> distinct (map l_ID (db_limits s)) \<Longrightarrow> limits_advance s s'"
  by (induction rule: limit_step.induct) (metis keeps_def keeps_limit_services keeps_limits(2) rows_advance_refl)+

interpretation limits: versioned_store db_limits l_ID l_Version "CategoryLimitRepository_UpdateForUser D" "limit_step D"
  for D :: "'d decimal_ops"
proof
  fix s :: "'d db" and q r :: "'d CategoryLimit" and u
  assume d: "distinct (map l_ID (db_limits s))" and q: "q \<in> set (db_limits s)" "l_ID q = l_ID r" "l_Version q \<noteq> l_Version r"
  then have "find (limit_matches r u) (db_limits s) = None"
    by (auto simp: find_None_iff limit_matches_def distinct_map) (metis inj_onD)
  then show "\<exists>e. CategoryLimitRepository_UpdateForUser D u r s = (Inl e, s) \<and> errorsIs e ErrConflict"
    by (simp add: CategoryLimitRepository_UpdateForUser_def QueryRow_def sbind_def mapNotFound_def errorsIs_def)
next
  fix s s' :: "'d db" and u r r'
  assume d: "distinct (map l_ID (db_limits s))" and run: "CategoryLimitRepository_UpdateForUser D u r s = (Inr r', s')"
  from keepsD [OF keeps_limits(2) rows_advance_refl [where rows = db_limits, OF d] run] have "distinct (map l_ID (db_limits s'))"
    by (simp add: rows_advance_def)
  moreover obtain old where old: "old \<in> set (db_limits s)" "limit_matches r u old"
    "db_limits s' = map (\<lambda>x. if limit_matches r u x then updatedLimit r x else x) (db_limits s)"
    using run by (rule CategoryLimitRepository_UpdateForUser_effect)
  moreover have "updatedLimit r old \<in> set (db_limits s')" using old by force
  moreover have "l_ID old = l_ID r" "l_Version old = l_Version r" using old(2) by (simp_all add: limit_matches_def)
  ultimately show "distinct (map l_ID (db_limits s')) \<and> (\<exists>q\<in>set (db_limits s'). l_ID q = l_ID r \<and> l_Version q = l_Version r + 1)"
    by (intro conjI bexI [where x = "updatedLimit r old"]) simp_all
qed (rule limit_step_advances)

section \<open>Goals that the service accepts\<close>

lemma account_checks_upper: "account_checks a \<Longrightarrow> ToUpper (a_Currency a) = a_Currency a"
  by (auto simp: account_checks_def ToUpper_def upper_byte_def list_all_iff Let_def split: list.splits
      intro!: map_idI)

lemma buildGoal_checks:
  assumes "buildGoal D newID now req account = Inr goal" "account_checks account"
  shows "goal_checks D goal" "g_ID goal = newID" "g_OwnerUserID goal = TrimSpace (cg_UserID req)"
    "g_AccountID goal = Some (TrimSpace (cg_AccountID req))" "g_Currency goal = a_Currency account"
    "g_TargetAmount goal = cg_TargetAmount req"
proof -
  let ?name = "TrimSpace (cg_Name req)"
  have "rune_count ?name \<noteq> 0" "rune_count ?name \<le> 100" using assms(1) by (auto simp: buildGoal_def Let_def)
  then have "Suc 0 \<le> rune_count ?name" "rune_count ?name \<le> 100" by linarith+
  then show "goal_checks D goal" "g_ID goal = newID" "g_OwnerUserID goal = TrimSpace (cg_UserID req)"
    "g_AccountID goal = Some (TrimSpace (cg_AccountID req))" "g_Currency goal = a_Currency account"
    "g_TargetAmount goal = cg_TargetAmount req"
    using assms account_checks_upper [of account] by (auto simp: buildGoal_def goal_checks_def Let_def)
qed

text \<open>C35. A financial goal that passes the validation of the service is stored exactly if the currency
  code of its account has at most three letters: for an account in a longer currency, such as \<^verbatim>\<open>USDT\<close>,
  creating a goal fails with the error of PostgreSQL for a value too long for its column, and nothing is
  stored.\<close>

theorem goal_creation:
  assumes "find (has_owner (TrimSpace (cg_AccountID req)) (TrimSpace (cg_UserID req))) (db_accounts s) = Some account"
    "account_checks account" "buildGoal D newID now req account = Inr goal"
    "TrimSpace (cg_UserID req) \<in> set (map u_ID (db_users s))" "newID \<notin> set (map g_ID (db_goals s))"
    "d_LessThan D (d_Abs D (cg_TargetAmount req)) (d_NewFromInt D (10 ^ 20))"
  shows "FinancialGoalService_Create D newID now (Some req) s =
    (if length (a_Currency account) \<le> 3 then (Inr goal, s\<lparr>db_goals := db_goals s @ [goalRow goal]\<rparr>)
     else (Inl (Wrapped ''create financial goal'' (Wrapped ''create financial goal''
       (PgError string_data_right_truncation))), s))"
proof -
  have "has_owner (TrimSpace (cg_AccountID req)) (TrimSpace (cg_UserID req)) account" "account \<in> set (db_accounts s)"
    using assms(1) by (auto simp: find_Some_iff)
  then have "goal_fks s goal" using assms(4) buildGoal_checks [OF assms(3,2)] by (auto simp: goal_fks_def list_ex_iff)
  with assms buildGoal_checks [OF assms(3,2)] show ?thesis
    by (simp add: FinancialGoalService_Create_def AccountRepository_GetByIDForUser_def getAccount_def QueryRow_def
        FinancialGoalRepository_Create_def sbind_def swrap_def planning_guard_def row_guard_def)
qed

definition planning_user :: User where
  "planning_user = \<lparr>u_ID = ''U'', u_Email = ''a@b'', u_PasswordHash = ''h'', u_PrimaryCurrency = ''RUB'',
     u_EmailVerifiedAt = None, u_EmailVerificationTokenHash = None, u_EmailVerificationSentAt = None,
     u_FailedLoginAttempts = 0, u_LockedUntil = None, u_CreatedAt = day_time 737000, u_UpdatedAt = day_time 737000\<rparr>"

definition planning_db :: "dec db" where
  "planning_db = sample_db\<lparr>db_accounts := [sample_account ''A'' ''U'' ''RUB'', sample_account ''C'' ''U'' ''USDT''],
     db_users := [planning_user]\<rparr>"

definition sample_goal_request :: "string \<Rightarrow> dec CreateFinancialGoalRequest" where
  "sample_goal_request accountID =
     \<lparr>cg_UserID = ''U'', cg_AccountID = accountID, cg_Name = '' Car '', cg_TargetAmount = d_NewFromInt dec_ops 500,
      cg_TargetDate = None\<rparr>"

theorem goal_creation_witness:
  "isOk (fst (FinancialGoalService_Create dec_ops ''g1'' (day_time 738001) (Some (sample_goal_request ''A'')) planning_db)) \<and>
   FinancialGoalService_Create dec_ops ''g1'' (day_time 738001) (Some (sample_goal_request ''C'')) planning_db =
     (Inl (Wrapped ''create financial goal'' (Wrapped ''create financial goal'' (PgError ''22001''))), planning_db)"
proof -
  let ?a = "sample_account ''A'' ''U'' ''RUB''" and ?c = "sample_account ''C'' ''U'' ''USDT''"
  have build: "isOk (buildGoal dec_ops ''g1'' (day_time 738001) (sample_goal_request ''A'') ?a)"
    "isOk (buildGoal dec_ops ''g1'' (day_time 738001) (sample_goal_request ''C'') ?c)"
    by code_simp+
  have found: "find (has_owner (TrimSpace (cg_AccountID (sample_goal_request ''A''))) (TrimSpace (cg_UserID (sample_goal_request ''A''))))
      (db_accounts planning_db) = Some ?a"
    "find (has_owner (TrimSpace (cg_AccountID (sample_goal_request ''C''))) (TrimSpace (cg_UserID (sample_goal_request ''C''))))
      (db_accounts planning_db) = Some ?c"
    by code_simp+
  have checks: "account_checks ?a" "account_checks ?c" "length (a_Currency ?a) \<le> 3" "\<not> length (a_Currency ?c) \<le> 3"
    by code_simp+
  have other: "TrimSpace (cg_UserID (sample_goal_request x)) \<in> set (map u_ID (db_users planning_db))"
    "''g1'' \<notin> set (map g_ID (db_goals planning_db))"
    "d_LessThan dec_ops (d_Abs dec_ops (cg_TargetAmount (sample_goal_request x))) (d_NewFromInt dec_ops (10 ^ 20))" for x
    unfolding sample_goal_request_def by code_simp+
  from build obtain ga gc where "buildGoal dec_ops ''g1'' (day_time 738001) (sample_goal_request ''A'') ?a = Inr ga"
    "buildGoal dec_ops ''g1'' (day_time 738001) (sample_goal_request ''C'') ?c = Inr gc" unfolding isOk_iff by blast
  then show ?thesis using checks(3,4)
    by (simp add: goal_creation [OF found(1) checks(1) _ other] goal_creation [OF found(2) checks(2) _ other])
qed

text \<open>C34. No update of a goal is lost: once an update has succeeded, every update based on that version
  of the goal or an older one fails with a conflict and changes nothing, at any later time and whatever
  goals were created and updated in between.\<close>

theorem goal_updates_never_lost:
  assumes "distinct (map g_ID (db_goals s))" "FinancialGoalRepository_UpdateForUser D u a s = (Inr r, s')"
    "(goal_step D)\<^sup>*\<^sup>* s' s''" "g_ID b = g_ID a" "g_Version b \<le> g_Version a"
  shows "\<exists>e. FinancialGoalRepository_UpdateForUser D u' b s'' = (Inl e, s'') \<and> errorsIs e ErrConflict"
  using assms by (rule goals.no_lost_update)

definition sample_goal :: "dec FinancialGoal" where
  "sample_goal = \<lparr>g_ID = ''g1'', g_OwnerUserID = ''U'', g_AccountID = Some ''A'', g_Name = ''Car'',
     g_TargetAmount = d_NewFromInt dec_ops 500, g_Currency = ''RUB'', g_TargetDate = None, g_Status = ''active'',
     g_CreatedAt = day_time 738001, g_UpdatedAt = day_time 738001, g_Version = 0\<rparr>"

theorem goal_updates_never_lost_witness:
  "\<exists>r s e. FinancialGoalRepository_UpdateForUser dec_ops ''U'' (sample_goal\<lparr>g_Name := ''Bike''\<rparr>)
      (planning_db\<lparr>db_goals := [sample_goal]\<rparr>) = (Inr r, s) \<and>
     FinancialGoalRepository_UpdateForUser dec_ops ''U'' (sample_goal\<lparr>g_Name := ''Boat''\<rparr>) s = (Inl e, s) \<and>
     errorsIs e ErrConflict"
proof -
  let ?s = "planning_db\<lparr>db_goals := [sample_goal]\<rparr>"
  have "isOk (fst (FinancialGoalRepository_UpdateForUser dec_ops ''U'' (sample_goal\<lparr>g_Name := ''Bike''\<rparr>) ?s))"
    by code_simp
  then obtain r s where
    run: "FinancialGoalRepository_UpdateForUser dec_ops ''U'' (sample_goal\<lparr>g_Name := ''Bike''\<rparr>) ?s = (Inr r, s)"
    by (metis isOk_iff prod.collapse)
  have "distinct (map g_ID (db_goals ?s))" by simp
  from goal_updates_never_lost [OF this run rtranclp.rtrancl_refl, of "sample_goal\<lparr>g_Name := ''Boat''\<rparr>" "''U''"] run
  show ?thesis by auto
qed

end
