(* ===== verification/Dashboard.thy ===== *)
theory Dashboard
  imports Transaction_Query Planning "HOL-Library.AList"
begin

text \<open>
  The dashboard: the read model of \<^verbatim>\<open>internal/postgres/dashboard.go\<close> and the reports of
  \<^verbatim>\<open>internal/services/dashboard_reporting.go\<close>. Go maps from currencies to amounts are association
  lists, written by \<open>addToMap\<close>; a missing currency has the amount zero. \<open>zone\<close> puts an instant into
  the time zone of the database session, in which \<^verbatim>\<open>date_trunc\<close> takes its month.

  The lemmas show that the reported balances are those of the ledger and that cash flow, income and
  expense of a month add up.
\<close>

section \<open>The read model\<close>

record 'd DashboardAccountBalanceRow =
  dr_Account :: Account
  dr_Balance :: 'd
  dr_TransactionCount :: int

record 'd DashboardMonthlyFlow =
  mf_Period :: string
  mf_Currency :: string
  mf_Income :: 'd
  mf_Expense :: 'd
  mf_InterestIncome :: 'd
  mf_TransactionCount :: int
  mf_InterestCount :: int

record 'd DashboardCategoryExpense =
  ce_CategoryID :: string
  ce_Currency :: string
  ce_Amount :: 'd

record 'd DashboardSummarySnapshot =
  sn_AccountBalances :: "'d DashboardAccountBalanceRow list"
  sn_MonthlyFlow :: "'d DashboardMonthlyFlow list"
  sn_CategoryExpense :: "'d DashboardCategoryExpense list"
  sn_Goals :: "'d FinancialGoal list"
  sn_Limits :: "'d CategoryLimit list"
  sn_Categories :: "Category list"
  sn_Recent :: "'d Transaction list"

definition balanceRow :: "'d decimal_ops \<Rightarrow> 'd db \<Rightarrow> Account \<Rightarrow> 'd DashboardAccountBalanceRow" where
  "balanceRow D s a =
     (let rows = filter (sql_counted (a_ID a)) (db_transactions s)
      in \<lparr>dr_Account = a, dr_Balance = sql_sum D rows, dr_TransactionCount = int (length rows)\<rparr>)"

text \<open>\<^verbatim>\<open>ORDER BY a.created_at, a.name\<close>\<close>

definition DashboardRepository_AccountBalances :: "'d decimal_ops \<Rightarrow> string \<Rightarrow> ('d, 'd DashboardAccountBalanceRow list) dbstm" where
  "DashboardRepository_AccountBalances D userID =
     sread (\<lambda>s. Inr (map (balanceRow D s)
       (order_accounts (filter (\<lambda>a. a_OwnerUserID a = Some userID) (db_accounts s)))))"

definition sum_amounts :: "'d decimal_ops \<Rightarrow> 'd Transaction list \<Rightarrow> 'd" where
  "sum_amounts D ts = foldl (\<lambda>acc t. d_Add D acc (t_Amount t)) (d_Zero D) ts"

definition in_range :: "time \<Rightarrow> time \<Rightarrow> 'd Transaction \<Rightarrow> bool" where
  "in_range from to t = (\<not> Before (t_OccurredAt t) from \<and> Before (t_OccurredAt t) to)"

text \<open>The rows of the join: a transaction with its account.\<close>

definition flow_rows :: "'d db \<Rightarrow> string \<Rightarrow> time \<Rightarrow> time \<Rightarrow> ('d Transaction \<times> Account) list" where
  "flow_rows s userID from to =
     concat (map (\<lambda>t. map (Pair t) (filter (\<lambda>a. a_ID a = t_AccountID t \<and> a_OwnerUserID a = Some userID) (db_accounts s)))
       (filter (\<lambda>t. in_range from to t \<and> t_Type t \<in> {''income'', ''expense'', ''interest_income''} \<and> t_Status t = ''confirmed'')
         (db_transactions s)))"

definition month_index :: "(time \<Rightarrow> time) \<Rightarrow> time \<Rightarrow> int" where
  "month_index zone t = Year (zone t) * 12 + (Month (zone t) - 1)"

definition FormatMonth :: "time \<Rightarrow> string" where
  "FormatMonth t = appendInt (Year t) 4 @ ''-'' @ appendInt (Month t) 2"

text \<open>\<^verbatim>\<open>GROUP BY date_trunc('month', t.occurred_at), a.currency\<close>; the period is printed from a row of the group.\<close>

definition flow_keys :: "(time \<Rightarrow> time) \<Rightarrow> ('d Transaction \<times> Account) list \<Rightarrow> (int \<times> string) list" where
  "flow_keys zone rows =
     sort_key fst (sort_key snd (remdups (map (\<lambda>(t, a). (month_index zone (t_OccurredAt t), a_Currency a)) rows)))"

definition flowGroup :: "'d decimal_ops \<Rightarrow> (time \<Rightarrow> time) \<Rightarrow> ('d Transaction \<times> Account) list \<Rightarrow> int \<times> string \<Rightarrow> 'd DashboardMonthlyFlow" where
  "flowGroup D zone rows k =
     (let ts = map fst (filter (\<lambda>(t, a). (month_index zone (t_OccurredAt t), a_Currency a) = k) rows)
      in \<lparr>mf_Period = FormatMonth (zone (t_OccurredAt (hd ts))), mf_Currency = snd k,
          mf_Income = sum_amounts D (filter (\<lambda>t. t_Type t \<in> {''income'', ''interest_income''}) ts),
          mf_Expense = sum_amounts D (filter (\<lambda>t. t_Type t = ''expense'') ts),
          mf_InterestIncome = sum_amounts D (filter (\<lambda>t. t_Type t = ''interest_income'') ts),
          mf_TransactionCount = int (length ts),
          mf_InterestCount = int (length (filter (\<lambda>t. t_Type t = ''interest_income'') ts))\<rparr>)"

definition DashboardRepository_MonthlyFlow ::
  "'d decimal_ops \<Rightarrow> (time \<Rightarrow> time) \<Rightarrow> string \<Rightarrow> time \<Rightarrow> time \<Rightarrow> ('d, 'd DashboardMonthlyFlow list) dbstm" where
  "DashboardRepository_MonthlyFlow D zone userID from to =
     sread (\<lambda>s. let rows = flow_rows s userID from to in Inr (map (flowGroup D zone rows) (flow_keys zone rows)))"

definition categoryExpense :: "'d decimal_ops \<Rightarrow> string \<Rightarrow> time \<Rightarrow> time \<Rightarrow> ('d, 'd DashboardCategoryExpense list) dbstm" where
  "categoryExpense D userID from to =
     sread (\<lambda>s.
       let rows = filter (\<lambda>(t, a). t_Type t = ''expense'' \<and> t_CategoryID t \<noteq> None) (flow_rows s userID from to);
           key = (\<lambda>(t, a). (the (t_CategoryID t), a_Currency a))
       in Inr (map (\<lambda>k. \<lparr>ce_CategoryID = fst k, ce_Currency = snd k,
            ce_Amount = sum_amounts D (map fst (filter (\<lambda>r. key r = k) rows))\<rparr>) (remdups (map key rows))))"

definition DashboardRepository_Summary ::
  "'d decimal_ops \<Rightarrow> (time \<Rightarrow> time) \<Rightarrow> string \<Rightarrow> time \<Rightarrow> time \<Rightarrow> int \<Rightarrow> ('d, 'd DashboardSummarySnapshot) dbstm" where
  "DashboardRepository_Summary D zone userID from to recentLimit =
     sbind (scheck (recentLimit \<le> 0 \<or> recentLimit > 100) (Errorf ''dashboard recent limit must be between 1 and 100'')) (\<lambda>_.
     sbind (DashboardRepository_AccountBalances D userID) (\<lambda>balances.
     sbind (DashboardRepository_MonthlyFlow D zone userID from to) (\<lambda>flow.
     sbind (categoryExpense D userID from to) (\<lambda>expense.
     sbind (FinancialGoalRepository_ListByUser userID) (\<lambda>goals.
     sbind (CategoryLimitRepository_ListByUser userID) (\<lambda>limits.
     sbind CategoryRepository_List (\<lambda>categories.
     sbind (ListByUserFiltered D userID (Some (no_filter\<lparr>tf_Limit := recentLimit\<rparr>))) (\<lambda>recent.
     sret \<lparr>sn_AccountBalances = balances, sn_MonthlyFlow = flow, sn_CategoryExpense = expense, sn_Goals = goals,
       sn_Limits = limits, sn_Categories = categories, sn_Recent = recent\<rparr>))))))))"

section \<open>Reports\<close>

abbreviation "DashboardRecentTransactionsLimit \<equiv> 10 :: int"

record 'd DashboardAmount =
  am_Currency :: string
  am_Amount :: 'd

record 'd DashboardAccountBalance =
  ab_ID :: string
  ab_Name :: string
  ab_Bank :: string
  ab_Type :: AccountType
  ab_Currency :: string
  ab_IsActive :: bool
  ab_Amount :: 'd
  ab_Transactions :: int

record 'd DashboardGoalProgress =
  gp_ID :: string
  gp_AccountID :: string
  gp_Name :: string
  gp_CurrentAmount :: 'd
  gp_TargetAmount :: 'd
  gp_Currency :: string
  gp_TargetDate :: "string option"
  gp_Status :: FinancialGoalStatus

record 'd DashboardCategoryLimitProgress =
  lp_ID :: string
  lp_CategoryID :: string
  lp_CategoryName :: string
  lp_CurrentAmount :: 'd
  lp_TargetAmount :: 'd
  lp_Currency :: string

record 'd DashboardSummary =
  ds_GeneratedAt :: time
  ds_AccountsCount :: int
  ds_ActiveAccountsCount :: int
  ds_Balances :: "'d DashboardAmount list"
  ds_MonthlyIncome :: "'d DashboardAmount list"
  ds_MonthlyExpense :: "'d DashboardAmount list"
  ds_MonthlyInterestIncome :: "'d DashboardAmount list"
  ds_AccountBalances :: "'d DashboardAccountBalance list"
  ds_FinancialGoals :: "'d DashboardGoalProgress list"
  ds_CategoryLimits :: "'d DashboardCategoryLimitProgress list"
  ds_RecentTransactions :: "'d Transaction list"
  ds_RecentTransactionsLimit :: int
  ds_RecentTransactionsReturned :: int

record 'd DashboardNetWorth =
  nw_GeneratedAt :: time
  nw_Balances :: "'d DashboardAmount list"
  nw_AccountBalances :: "'d DashboardAccountBalance list"

record 'd DashboardCashflowBucket =
  cb_Period :: string
  cb_Income :: "'d DashboardAmount list"
  cb_Expense :: "'d DashboardAmount list"
  cb_NetCashflow :: "'d DashboardAmount list"
  cb_Transactions :: int

record 'd DashboardCashflow =
  cf_GeneratedAt :: time
  cf_Months :: int
  cf_Buckets :: "'d DashboardCashflowBucket list"

record 'd DashboardInterestIncomeBucket =
  ib_Period :: string
  ib_InterestIncome :: "'d DashboardAmount list"
  ib_Transactions :: int

record 'd DashboardInterestIncome =
  ii_GeneratedAt :: time
  ii_Months :: int
  ii_Total :: "'d DashboardAmount list"
  ii_Buckets :: "'d DashboardInterestIncomeBucket list"

definition monthStart :: "time \<Rightarrow> time" where
  "monthStart now = Date (Year now) (Month now) 1 0 (t_off now)"

definition validateDashboardMonths :: "int \<Rightarrow> err + unit" where
  "validateDashboardMonths months =
     echeck (months \<le> 0 \<or> months > 60) (Errorf ''dashboard months must be between 1 and 60'') (Inr ())"

definition dashboardAccountBalance :: "'d DashboardAccountBalanceRow \<Rightarrow> 'd DashboardAccountBalance" where
  "dashboardAccountBalance item =
     (let a = dr_Account item
      in \<lparr>ab_ID = a_ID a, ab_Name = a_Name a, ab_Bank = a_Bank a, ab_Type = a_Type a, ab_Currency = a_Currency a,
          ab_IsActive = a_IsActive a, ab_Amount = dr_Balance item, ab_Transactions = dr_TransactionCount item\<rparr>)"

type_synonym 'd amount_map = "(string \<times> 'd) list"

definition amountAt :: "'d decimal_ops \<Rightarrow> 'd amount_map \<Rightarrow> string \<Rightarrow> 'd" where
  "amountAt D m c = (case map_of m c of Some x \<Rightarrow> x | None \<Rightarrow> d_Zero D)"

definition addToMap :: "'d decimal_ops \<Rightarrow> string \<Rightarrow> 'd \<Rightarrow> 'd amount_map \<Rightarrow> 'd amount_map" where
  "addToMap D c x m = AList.update c (d_Add D (amountAt D m c) x) m"

definition dashboardAmountsFromMap :: "'d amount_map \<Rightarrow> 'd DashboardAmount list" where
  "dashboardAmountsFromMap amounts =
     map (\<lambda>c. \<lparr>am_Currency = c, am_Amount = the (map_of amounts c)\<rparr>) (sort (map fst amounts))"

text \<open>A fold that adds an amount of every item for which there is one.\<close>

definition addItems :: "'d decimal_ops \<Rightarrow> ('i \<Rightarrow> (string \<times> 'd) option) \<Rightarrow> 'i list \<Rightarrow> 'd amount_map" where
  "addItems D f items = foldl (\<lambda>m i. case f i of Some (c, x) \<Rightarrow> addToMap D c x m | None \<Rightarrow> m) [] items"

definition activeBalance :: "'d DashboardAccountBalanceRow \<Rightarrow> (string \<times> 'd) option" where
  "activeBalance item =
     (if a_IsActive (dr_Account item) then Some (a_Currency (dr_Account item), dr_Balance item) else None)"

definition nonZero :: "'d decimal_ops \<Rightarrow> ('d DashboardMonthlyFlow \<Rightarrow> 'd) \<Rightarrow> 'd DashboardMonthlyFlow \<Rightarrow> (string \<times> 'd) option" where
  "nonZero D f item = (if d_IsZero D (f item) then None else Some (mf_Currency item, f item))"

definition dashboardCategoryCurrencyKey :: "string \<Rightarrow> string \<Rightarrow> string" where
  "dashboardCategoryCurrencyKey categoryID currency = categoryID @ CHR 0x00 # currency"

text \<open>A Go map filled in a loop: the last value written for a key stays.\<close>

definition filled :: "(string \<times> 'v) list \<Rightarrow> string \<Rightarrow> 'v option" where
  "filled kvs = map_of (rev kvs)"

definition goalProgress :: "'d decimal_ops \<Rightarrow> 'd DashboardAccountBalanceRow list \<Rightarrow> 'd FinancialGoal \<Rightarrow> 'd DashboardGoalProgress list" where
  "goalProgress D balances goal =
     (if g_Status goal \<noteq> FinancialGoalActive then []
      else case g_AccountID goal of None \<Rightarrow> []
        | Some accountID \<Rightarrow>
            (case filled (map (\<lambda>item. (a_ID (dr_Account item), dr_Balance item)) balances) accountID of None \<Rightarrow> []
             | Some balance \<Rightarrow>
                 [\<lparr>gp_ID = g_ID goal, gp_AccountID = accountID, gp_Name = g_Name goal,
                   gp_CurrentAmount = (if d_IsNegative D balance then d_Zero D else balance),
                   gp_TargetAmount = g_TargetAmount goal, gp_Currency = g_Currency goal,
                   gp_TargetDate = map_option FormatDateOnly (g_TargetDate goal), gp_Status = g_Status goal\<rparr>]))"

definition limitProgress ::
  "'d decimal_ops \<Rightarrow> 'd DashboardCategoryExpense list \<Rightarrow> Category list \<Rightarrow> 'd CategoryLimit \<Rightarrow> 'd DashboardCategoryLimitProgress list" where
  "limitProgress D expense categories limit =
     (if \<not> l_IsActive limit then []
      else [\<lparr>lp_ID = l_ID limit, lp_CategoryID = l_CategoryID limit,
        lp_CategoryName = (case filled (map (\<lambda>c. (c_ID c, c_Name c)) categories) (l_CategoryID limit) of Some n \<Rightarrow> n | None \<Rightarrow> ''''),
        lp_CurrentAmount = (case filled (map (\<lambda>e. (dashboardCategoryCurrencyKey (ce_CategoryID e) (ce_Currency e), ce_Amount e)) expense)
            (dashboardCategoryCurrencyKey (l_CategoryID limit) (l_Currency limit)) of Some x \<Rightarrow> x | None \<Rightarrow> d_Zero D),
        lp_TargetAmount = l_Amount limit, lp_Currency = l_Currency limit\<rparr>])"

definition BuildDashboardSummary :: "'d decimal_ops \<Rightarrow> time \<Rightarrow> 'd DashboardSummarySnapshot \<Rightarrow> int \<Rightarrow> 'd DashboardSummary" where
  "BuildDashboardSummary D now snapshot recentLimit =
     (let recentLimit = (if recentLimit < 0 then 0 else recentLimit); balances = sn_AccountBalances snapshot;
          flow = sn_MonthlyFlow snapshot; recent = take (nat recentLimit) (order_transactions (sn_Recent snapshot))
      in \<lparr>ds_GeneratedAt = now, ds_AccountsCount = int (length balances),
          ds_ActiveAccountsCount = int (length (filter (\<lambda>item. a_IsActive (dr_Account item)) balances)),
          ds_Balances = dashboardAmountsFromMap (addItems D activeBalance balances),
          ds_MonthlyIncome = dashboardAmountsFromMap (addItems D (nonZero D mf_Income) flow),
          ds_MonthlyExpense = dashboardAmountsFromMap (addItems D (nonZero D mf_Expense) flow),
          ds_MonthlyInterestIncome = dashboardAmountsFromMap (addItems D (nonZero D mf_InterestIncome) flow),
          ds_AccountBalances = map dashboardAccountBalance balances,
          ds_FinancialGoals = concat (map (goalProgress D balances) (sn_Goals snapshot)),
          ds_CategoryLimits = concat (map (limitProgress D (sn_CategoryExpense snapshot) (sn_Categories snapshot)) (sn_Limits snapshot)),
          ds_RecentTransactions = recent, ds_RecentTransactionsLimit = recentLimit,
          ds_RecentTransactionsReturned = int (length recent)\<rparr>)"

definition BuildDashboardNetWorth :: "'d decimal_ops \<Rightarrow> time \<Rightarrow> 'd DashboardAccountBalanceRow list \<Rightarrow> 'd DashboardNetWorth" where
  "BuildDashboardNetWorth D now accountBalances =
     \<lparr>nw_GeneratedAt = now, nw_Balances = dashboardAmountsFromMap (addItems D activeBalance accountBalances),
      nw_AccountBalances = map dashboardAccountBalance accountBalances\<rparr>"

fun addAmount :: "'d decimal_ops \<Rightarrow> string \<Rightarrow> 'd \<Rightarrow> 'd DashboardAmount list \<Rightarrow> 'd DashboardAmount list" where
  "addAmount D c delta [] = [\<lparr>am_Currency = c, am_Amount = delta\<rparr>]"
| "addAmount D c delta (a # amounts) =
     (if am_Currency a = c then a\<lparr>am_Amount := d_Add D (am_Amount a) delta\<rparr> # amounts
      else a # addAmount D c delta amounts)"

definition addDashboardAmount :: "'d decimal_ops \<Rightarrow> 'd DashboardAmount list \<Rightarrow> string \<Rightarrow> 'd \<Rightarrow> 'd DashboardAmount list" where
  "addDashboardAmount D amounts currency delta =
     (if d_IsZero D delta then amounts else addAmount D currency delta amounts)"

definition bucketPeriods :: "time \<Rightarrow> int \<Rightarrow> string list" where
  "bucketPeriods now months =
     (let start = AddDate (monthStart now) 0 (- (months - 1)) 0
      in map (\<lambda>i. FormatMonth (AddDate start 0 (int i) 0)) [0..<nat months])"

definition dashboardCashflowMonthBuckets :: "time \<Rightarrow> int \<Rightarrow> 'd DashboardCashflowBucket list" where
  "dashboardCashflowMonthBuckets now months =
     map (\<lambda>p. \<lparr>cb_Period = p, cb_Income = [], cb_Expense = [], cb_NetCashflow = [], cb_Transactions = 0\<rparr>)
       (bucketPeriods now months)"

definition dashboardInterestMonthBuckets :: "time \<Rightarrow> int \<Rightarrow> 'd DashboardInterestIncomeBucket list" where
  "dashboardInterestMonthBuckets now months =
     map (\<lambda>p. \<lparr>ib_Period = p, ib_InterestIncome = [], ib_Transactions = 0\<rparr>) (bucketPeriods now months)"

text \<open>The periods of the buckets are distinct, so the map from periods to buckets is a comparison.\<close>

definition addFlow :: "'d decimal_ops \<Rightarrow> 'd DashboardMonthlyFlow \<Rightarrow> 'd DashboardCashflowBucket \<Rightarrow> 'd DashboardCashflowBucket" where
  "addFlow D item b =
     (if cb_Period b = mf_Period item then
        b\<lparr>cb_Income := addDashboardAmount D (cb_Income b) (mf_Currency item) (mf_Income item),
          cb_Expense := addDashboardAmount D (cb_Expense b) (mf_Currency item) (mf_Expense item),
          cb_NetCashflow := addDashboardAmount D (cb_NetCashflow b) (mf_Currency item) (d_Sub D (mf_Income item) (mf_Expense item)),
          cb_Transactions := cb_Transactions b + mf_TransactionCount item\<rparr>
      else b)"

definition sortBucket :: "'d DashboardCashflowBucket \<Rightarrow> 'd DashboardCashflowBucket" where
  "sortBucket b = b\<lparr>cb_Income := sort_key am_Currency (cb_Income b), cb_Expense := sort_key am_Currency (cb_Expense b),
     cb_NetCashflow := sort_key am_Currency (cb_NetCashflow b)\<rparr>"

definition BuildDashboardCashflow :: "'d decimal_ops \<Rightarrow> time \<Rightarrow> 'd DashboardMonthlyFlow list \<Rightarrow> int \<Rightarrow> 'd DashboardCashflow" where
  "BuildDashboardCashflow D now flow months =
     \<lparr>cf_GeneratedAt = now, cf_Months = months,
      cf_Buckets = map sortBucket (foldl (\<lambda>bs item. map (addFlow D item) bs) (dashboardCashflowMonthBuckets now months) flow)\<rparr>"

definition addInterest :: "'d decimal_ops \<Rightarrow> 'd DashboardMonthlyFlow \<Rightarrow> 'd DashboardInterestIncomeBucket \<Rightarrow> 'd DashboardInterestIncomeBucket" where
  "addInterest D item b =
     (if ib_Period b = mf_Period item \<and> \<not> d_IsZero D (mf_InterestIncome item) then
        b\<lparr>ib_InterestIncome := addDashboardAmount D (ib_InterestIncome b) (mf_Currency item) (mf_InterestIncome item),
          ib_Transactions := ib_Transactions b + mf_InterestCount item\<rparr>
      else b)"

definition BuildDashboardInterestIncome :: "'d decimal_ops \<Rightarrow> time \<Rightarrow> 'd DashboardMonthlyFlow list \<Rightarrow> int \<Rightarrow> 'd DashboardInterestIncome" where
  "BuildDashboardInterestIncome D now flow months =
     (let buckets = dashboardInterestMonthBuckets now months; periods = map ib_Period buckets
      in \<lparr>ii_GeneratedAt = now, ii_Months = months,
          ii_Total = dashboardAmountsFromMap (addItems D (\<lambda>item. if mf_Period item \<in> set periods then nonZero D mf_InterestIncome item else None) flow),
          ii_Buckets = map (\<lambda>b. b\<lparr>ib_InterestIncome := sort_key am_Currency (ib_InterestIncome b)\<rparr>)
            (foldl (\<lambda>bs item. map (addInterest D item) bs) buckets flow)\<rparr>)"

section \<open>The service\<close>

definition DashboardReporting_Summary :: "'d decimal_ops \<Rightarrow> (time \<Rightarrow> time) \<Rightarrow> time \<Rightarrow> string \<Rightarrow> ('d, 'd DashboardSummary) dbstm" where
  "DashboardReporting_Summary D zone now userID =
     (let from = monthStart now
      in sbind (swrap ''read dashboard summary''
           (DashboardRepository_Summary D zone userID from (AddDate from 0 1 0) DashboardRecentTransactionsLimit)) (\<lambda>snapshot.
         sret (BuildDashboardSummary D now snapshot DashboardRecentTransactionsLimit)))"

definition DashboardReporting_NetWorth :: "'d decimal_ops \<Rightarrow> time \<Rightarrow> string \<Rightarrow> ('d, 'd DashboardNetWorth) dbstm" where
  "DashboardReporting_NetWorth D now userID =
     sbind (swrap ''read dashboard net worth'' (DashboardRepository_AccountBalances D userID)) (\<lambda>balances.
     sret (BuildDashboardNetWorth D now balances))"

definition DashboardReporting_Cashflow :: "'d decimal_ops \<Rightarrow> (time \<Rightarrow> time) \<Rightarrow> time \<Rightarrow> string \<Rightarrow> int \<Rightarrow> ('d, 'd DashboardCashflow) dbstm" where
  "DashboardReporting_Cashflow D zone now userID months =
     sbind (slift (validateDashboardMonths months)) (\<lambda>_.
     sbind (swrap ''read dashboard cashflow'' (DashboardRepository_MonthlyFlow D zone userID
       (AddDate (monthStart now) 0 (- (months - 1)) 0) (AddDate (monthStart now) 0 1 0))) (\<lambda>flow.
     sret (BuildDashboardCashflow D now flow months)))"

definition DashboardReporting_InterestIncome :: "'d decimal_ops \<Rightarrow> (time \<Rightarrow> time) \<Rightarrow> time \<Rightarrow> string \<Rightarrow> int \<Rightarrow> ('d, 'd DashboardInterestIncome) dbstm" where
  "DashboardReporting_InterestIncome D zone now userID months =
     sbind (slift (validateDashboardMonths months)) (\<lambda>_.
     sbind (swrap ''read dashboard interest income'' (DashboardRepository_MonthlyFlow D zone userID
       (AddDate (monthStart now) 0 (- (months - 1)) 0) (AddDate (monthStart now) 0 1 0))) (\<lambda>flow.
     sret (BuildDashboardInterestIncome D now flow months)))"

section \<open>Sums\<close>

lemma sum_list_map_perm:
  fixes f :: "'a \<Rightarrow> 'b::comm_monoid_add"
  shows "mset xs = mset ys \<Longrightarrow> sum_list (map f xs) = sum_list (map f ys)"
  by (metis mset_map sum_mset_sum_list)

lemma sum_list_single:
  fixes x :: "'b::comm_monoid_add"
  shows "distinct ks \<Longrightarrow> sum_list (map (\<lambda>k. if k0 = k then x else 0) ks) = (if k0 \<in> set ks then x else 0)"
  by (induction ks) auto

text \<open>The sums of the groups are the sum of the rows.\<close>

lemma sum_list_groups:
  fixes g :: "'a \<Rightarrow> 'b::comm_monoid_add"
  assumes "distinct ks" "key ` set rows \<subseteq> set ks"
  shows "sum_list (map (\<lambda>k. sum_list (map g (filter (\<lambda>r. key r = k) rows))) ks) = sum_list (map g rows)"
  using assms(2)
proof (induction rows)
  case Nil
  then show ?case by simp
next
  case (Cons r rows)
  have "(\<lambda>k. sum_list (map g (filter (\<lambda>q. key q = k) (r # rows)))) =
      (\<lambda>k. (if key r = k then g r else 0) + sum_list (map g (filter (\<lambda>q. key q = k) rows)))"
    by (rule ext) simp
  with Cons assms(1) show ?case by (simp add: sum_list_addf sum_list_single)
qed

lemma sum_list_filtered_groups:
  fixes g :: "'a \<Rightarrow> 'b::comm_monoid_add"
  assumes "distinct ks" "key ` set rows \<subseteq> set ks"
  shows "sum_list (map (\<lambda>k. sum_list (map g (filter (\<lambda>r. key r = k) rows))) (filter P ks)) =
    sum_list (map g (filter (\<lambda>r. P (key r)) rows))"
proof -
  have "map (\<lambda>k. sum_list (map g (filter (\<lambda>r. key r = k) rows))) (filter P ks) =
      map (\<lambda>k. sum_list (map g (filter (\<lambda>r. key r = k) (filter (\<lambda>r. P (key r)) rows)))) (filter P ks)"
    by (rule map_cong [OF refl]) (auto intro!: arg_cong [where f = sum_list] arg_cong [where f = "map g"] filter_cong)
  then show ?thesis using assms by (simp only:) (rule sum_list_groups, auto)
qed

section \<open>Amounts by currency\<close>

definition amount_of :: "('d \<Rightarrow> rat) \<Rightarrow> 'd DashboardAmount list \<Rightarrow> string \<Rightarrow> rat" where
  "amount_of val amounts c = sum_list (map (val \<circ> am_Amount) (filter (\<lambda>x. am_Currency x = c) amounts))"

definition item_amount :: "('d \<Rightarrow> rat) \<Rightarrow> string \<Rightarrow> (string \<times> 'd) option \<Rightarrow> rat" where
  "item_amount val c o' = (case o' of Some (c', x) \<Rightarrow> if c' = c then val x else 0 | None \<Rightarrow> 0)"

lemma amount_of_sort [simp]: "amount_of val (sort_key k xs) c = amount_of val xs c"
  unfolding amount_of_def by (rule sum_list_map_perm) simp

lemma currencies_dashboardAmounts: "map am_Currency (dashboardAmountsFromMap m) = sort (map fst m)"
  by (simp add: dashboardAmountsFromMap_def comp_def)

context decimal_pkg
begin

lemma amountAt_addToMap: "val (amountAt D (addToMap D c x m) c') = val (amountAt D m c') + (if c = c' then val x else 0)"
  by (simp add: amountAt_def addToMap_def update_conv')

lemma addItems_val: "val (amountAt D (addItems D f items) c) = sum_list (map (item_amount val c \<circ> f) items)"
proof -
  have "val (amountAt D (foldl (\<lambda>m i. case f i of Some (c, x) \<Rightarrow> addToMap D c x m | None \<Rightarrow> m) m items) c) =
      val (amountAt D m c) + sum_list (map (item_amount val c \<circ> f) items)" for m
    by (induction items arbitrary: m) (auto simp: amountAt_addToMap item_amount_def split: option.splits)
  then show ?thesis by (simp add: addItems_def amountAt_def)
qed

lemma addItems_keys: "distinct (map fst (addItems D f items)) \<and> fst ` set (addItems D f items) = {c. \<exists>i\<in>set items. \<exists>x. f i = Some (c, x)}"
proof -
  have "distinct (map fst m) \<Longrightarrow>
      (let m' = foldl (\<lambda>m i. case f i of Some (c, x) \<Rightarrow> addToMap D c x m | None \<Rightarrow> m) m items
       in distinct (map fst m') \<and> fst ` set m' = fst ` set m \<union> {c. \<exists>i\<in>set items. \<exists>x. f i = Some (c, x)})" for m
  proof (induction items arbitrary: m)
    case Nil
    then show ?case by simp
  next
    case (Cons i items)
    show ?case
    proof (cases "f i")
      case None
      then show ?thesis using Cons by simp
    next
      case (Some cx)
      obtain c x where cx: "cx = (c, x)" by fastforce
      have "distinct (map fst (addToMap D c x m))" using Cons.prems by (simp add: addToMap_def distinct_update)
      from Cons.IH [OF this] show ?thesis by (auto simp: Some cx Let_def addToMap_def dom_update)
    qed
  qed
  from this [of "[]"] show ?thesis by (simp add: addItems_def Let_def)
qed

lemma dashboardAmounts_addItems:
  "sorted_wrt (<) (map am_Currency (dashboardAmountsFromMap (addItems D f items)))"
  "set (map am_Currency (dashboardAmountsFromMap (addItems D f items))) = {c. \<exists>i\<in>set items. \<exists>x. f i = Some (c, x)}"
  "x \<in> set (dashboardAmountsFromMap (addItems D f items)) \<Longrightarrow> val (am_Amount x) = sum_list (map (item_amount val (am_Currency x) \<circ> f) items)"
proof -
  note keys = currencies_dashboardAmounts
  show "sorted_wrt (<) (map am_Currency (dashboardAmountsFromMap (addItems D f items)))"
    unfolding keys strict_sorted_iff using addItems_keys [of f items] by simp
  show "set (map am_Currency (dashboardAmountsFromMap (addItems D f items))) = {c. \<exists>i\<in>set items. \<exists>x. f i = Some (c, x)}"
    unfolding keys using addItems_keys [of f items] by simp
  assume "x \<in> set (dashboardAmountsFromMap (addItems D f items))"
  then have "am_Amount x = amountAt D (addItems D f items) (am_Currency x)"
    by (auto simp: dashboardAmountsFromMap_def amountAt_def dest!: weak_map_of_SomeI)
  then show "val (am_Amount x) = sum_list (map (item_amount val (am_Currency x) \<circ> f) items)" by (simp add: addItems_val)
qed

lemma amount_of_addDashboardAmount:
  "amount_of val (addDashboardAmount D amounts c x) c' = amount_of val amounts c' + (if c = c' then val x else 0)"
proof -
  have "amount_of val (addAmount D c x amounts) c' = amount_of val amounts c' + (if c = c' then val x else 0)"
    by (induction amounts) (auto simp: amount_of_def)
  then show ?thesis unfolding addDashboardAmount_def by (cases "c = c'") auto
qed

lemma val_sum_amounts: "val (sum_amounts D ts) = sum_list (map (val \<circ> t_Amount) ts)"
  by (simp add: sum_amounts_def val_foldl_Add comp_def)

end

section \<open>Cash flow\<close>

lemma Month_bounds: "1 \<le> Month t" "Month t \<le> 12"
proof -
  obtain y m d where c: "civil (local_day t) = (y, m, d)" by (metis prod_cases3)
  from civil_year_month_bounds(1,2) [OF c] c show "1 \<le> Month t" "Month t \<le> 12" by (simp_all add: Month_def)
qed

lemma month_index_period: "month_index zone t = month_index zone u \<Longrightarrow> FormatMonth (zone t) = FormatMonth (zone u)"
proof -
  assume "month_index zone t = month_index zone u"
  then have "Year (zone t) * 12 + Month (zone t) = Year (zone u) * 12 + Month (zone u)" by (simp add: month_index_def)
  then have "Year (zone t) = Year (zone u)" "Month (zone t) = Month (zone u)"
    using Month_bounds [of "zone t"] Month_bounds [of "zone u"] by presburger+
  then show ?thesis by (simp add: FormatMonth_def)
qed

definition flow_key :: "(time \<Rightarrow> time) \<Rightarrow> 'd Transaction \<times> Account \<Rightarrow> int \<times> string" where
  "flow_key zone r = (month_index zone (t_OccurredAt (fst r)), a_Currency (snd r))"

text \<open>What flowed in a month and a currency, added up over the transactions.\<close>

definition flow_total ::
  "('d \<Rightarrow> rat) \<Rightarrow> (time \<Rightarrow> time) \<Rightarrow> ('d Transaction \<times> Account) list \<Rightarrow> string set \<Rightarrow> string \<Rightarrow> string \<Rightarrow> rat" where
  "flow_total val zone rows types period c =
     sum_list (map (\<lambda>(t, a). val (t_Amount t))
       (filter (\<lambda>(t, a). FormatMonth (zone (t_OccurredAt t)) = period \<and> a_Currency a = c \<and> t_Type t \<in> types) rows))"

lemma flow_keys_facts: "distinct (flow_keys zone rows)" "set (flow_keys zone rows) = flow_key zone ` set rows"
  by (auto simp: flow_keys_def flow_key_def case_prod_unfold)

lemma flowGroup_period: "r \<in> set rows \<Longrightarrow> mf_Period (flowGroup D zone rows (flow_key zone r)) = FormatMonth (zone (t_OccurredAt (fst r)))"
proof -
  assume r: "r \<in> set rows"
  let ?g = "filter (\<lambda>(t, a). (month_index zone (t_OccurredAt t), a_Currency a) = flow_key zone r) rows"
  have "r \<in> set ?g" using r by (auto simp: flow_key_def split: prod.splits)
  then obtain q where q: "q = hd ?g" "q \<in> set ?g" by (cases ?g) auto
  then have "month_index zone (t_OccurredAt (fst q)) = month_index zone (t_OccurredAt (fst r))"
    by (auto simp: flow_key_def split: prod.splits)
  then have "FormatMonth (zone (t_OccurredAt (fst q))) = FormatMonth (zone (t_OccurredAt (fst r)))" by (rule month_index_period)
  moreover have "hd (map fst ?g) = fst q" using \<open>r \<in> set ?g\<close> q(1) by (cases ?g) auto
  ultimately show ?thesis unfolding flowGroup_def Let_def by (simp only: DashboardMonthlyFlow.select_convs)
qed

context decimal_pkg
begin

lemma flowGroup_amounts:
  "val (mf_Income (flowGroup D zone rows k)) =
     sum_list (map (\<lambda>r. val (t_Amount (fst r))) (filter (\<lambda>r. flow_key zone r = k)
       (filter (\<lambda>r. t_Type (fst r) \<in> {''income'', ''interest_income''}) rows)))"
  "val (mf_Expense (flowGroup D zone rows k)) =
     sum_list (map (\<lambda>r. val (t_Amount (fst r))) (filter (\<lambda>r. flow_key zone r = k) (filter (\<lambda>r. t_Type (fst r) \<in> {''expense''}) rows)))"
  by (simp_all add: flowGroup_def Let_def val_sum_amounts filter_map comp_def flow_key_def case_prod_unfold conj_commute)

text \<open>The rows of the query for a period and a currency add up to the transactions of it.\<close>

lemma flow_sum:
  assumes "\<And>k. val (f (flowGroup D zone rows k)) =
     sum_list (map (\<lambda>r. val (t_Amount (fst r))) (filter (\<lambda>r. flow_key zone r = k) (filter (\<lambda>r. t_Type (fst r) \<in> types) rows)))"
  shows "sum_list (map (val \<circ> f) (filter (\<lambda>i. mf_Period i = p \<and> mf_Currency i = c) (map (flowGroup D zone rows) (flow_keys zone rows)))) =
    flow_total val zone rows types p c"
proof -
  let ?rows = "filter (\<lambda>r. t_Type (fst r) \<in> types) rows"
  let ?P = "\<lambda>k. mf_Period (flowGroup D zone rows k) = p \<and> snd k = c"
  have "sum_list (map (val \<circ> f) (filter (\<lambda>i. mf_Period i = p \<and> mf_Currency i = c) (map (flowGroup D zone rows) (flow_keys zone rows)))) =
      sum_list (map (\<lambda>k. sum_list (map (\<lambda>r. val (t_Amount (fst r))) (filter (\<lambda>r. flow_key zone r = k) ?rows))) (filter ?P (flow_keys zone rows)))"
    by (simp add: filter_map comp_def assms) (simp add: flowGroup_def Let_def)
  also have "\<dots> = sum_list (map (\<lambda>r. val (t_Amount (fst r))) (filter (\<lambda>r. ?P (flow_key zone r)) ?rows))"
    by (rule sum_list_filtered_groups) (auto simp: flow_keys_facts)
  also have "filter (\<lambda>r. ?P (flow_key zone r)) ?rows =
      filter (\<lambda>(t, a). FormatMonth (zone (t_OccurredAt t)) = p \<and> a_Currency a = c \<and> t_Type t \<in> types) rows"
    unfolding filter_filter by (rule filter_cong [OF refl]) (auto simp: flowGroup_period, auto simp: flow_key_def)
  finally show ?thesis by (simp add: flow_total_def case_prod_unfold comp_def)
qed

text \<open>A bucket collects the rows of its period.\<close>

lemma addFlow_fold:
  "cb_Period (foldl (\<lambda>b item. addFlow D item b) b flow) = cb_Period b \<and>
   amount_of val (cb_Income (foldl (\<lambda>b item. addFlow D item b) b flow)) c =
     amount_of val (cb_Income b) c + sum_list (map (val \<circ> mf_Income) (filter (\<lambda>i. mf_Period i = cb_Period b \<and> mf_Currency i = c) flow)) \<and>
   amount_of val (cb_Expense (foldl (\<lambda>b item. addFlow D item b) b flow)) c =
     amount_of val (cb_Expense b) c + sum_list (map (val \<circ> mf_Expense) (filter (\<lambda>i. mf_Period i = cb_Period b \<and> mf_Currency i = c) flow)) \<and>
   amount_of val (cb_NetCashflow (foldl (\<lambda>b item. addFlow D item b) b flow)) c =
     amount_of val (cb_NetCashflow b) c + sum_list (map (\<lambda>i. val (mf_Income i) - val (mf_Expense i))
       (filter (\<lambda>i. mf_Period i = cb_Period b \<and> mf_Currency i = c) flow))"
proof (induction flow arbitrary: b)
  case Nil
  then show ?case by simp
next
  case (Cons item flow)
  have "cb_Period (addFlow D item b) = cb_Period b" by (simp add: addFlow_def)
  with Cons [of "addFlow D item b"] show ?case
    by (simp add: amount_of_addDashboardAmount addFlow_def)
qed

end

lemma foldl_map_map: "foldl (\<lambda>bs i. map (f i) bs) bs is = map (\<lambda>b. foldl (\<lambda>b i. f i b) b is) bs"
  by (induction "is" arbitrary: bs) (simp_all add: comp_def)

section \<open>The reports and the ledger\<close>

definition owned_accounts :: "'d db \<Rightarrow> string \<Rightarrow> Account list" where
  "owned_accounts s userID = filter (\<lambda>a. a_OwnerUserID a = Some userID) (db_accounts s)"

context decimal_pkg
begin

lemma balanceRow_ledger: "rows_ok D s \<Longrightarrow> val (dr_Balance (balanceRow D s a)) = ledger val (a_ID a) (db_transactions s)"
  by (simp add: balanceRow_def Let_def val_sql_sum filter_sql_counted ledger_def)

lemma balanceRow_Account [simp]: "dr_Account (balanceRow D s a) = a"
  by (simp add: balanceRow_def Let_def)

lemma net_worth_amount:
  assumes "rows_ok D s"
  shows "sum_list (map (item_amount val c \<circ> activeBalance) (map (balanceRow D s) (order_accounts accounts))) =
    sum_list (map (\<lambda>a. ledger val (a_ID a) (db_transactions s)) (filter (\<lambda>a. a_IsActive a \<and> a_Currency a = c) accounts))"
proof -
  let ?f = "\<lambda>a. if a_IsActive a \<and> a_Currency a = c then ledger val (a_ID a) (db_transactions s) else 0"
  have "map (item_amount val c \<circ> activeBalance) (map (balanceRow D s) (order_accounts accounts)) = map ?f (order_accounts accounts)"
    by (simp add: activeBalance_def item_amount_def balanceRow_ledger [OF assms])
  moreover have "sum_list (map ?f (order_accounts accounts)) = sum_list (map ?f accounts)"
    by (rule sum_list_map_perm) (simp add: order_accounts_def)
  ultimately show ?thesis by (simp only: sum_list_map_filter')
qed

end



end
