(* ===== verification/Transfers.thy ===== *)
theory Transfers
  imports Transactions
begin

text \<open>
  Transfers between two accounts of a user: currency conversion
  (\<^verbatim>\<open>internal/services/currency_service.go\<close>), the transfer service
  (\<^verbatim>\<open>internal/services/transfer_service.go\<close>), and the repository's \<^verbatim>\<open>CreateTransfer\<close>. The
  exchange-rate service on the network is the parameter \<open>http\<close> of the provider; a provider
  is a function \<open>latest\<close> from a base currency to its rates. The lemmas show what a transfer
  does to the balances, that it cannot overdraw the source account, and that a failed one
  leaves no trace.
\<close>

section \<open>Currency conversion\<close>

definition normalizeCurrency :: "string \<Rightarrow> string" where
  "normalizeCurrency currency = ToUpper (TrimSpace currency)"

record 'd ExchangeRates =
  xr_Base :: string
  xr_Date :: string
  xr_Provider :: string
  xr_FetchedAt :: time
  xr_Rates :: "string \<Rightarrow> 'd option"

type_synonym 'd rate_provider = "string \<Rightarrow> err + 'd ExchangeRates"

definition maxExchangeRate :: "'d decimal_ops \<Rightarrow> 'd" where
  "maxExchangeRate D = d_RequireFromString D ''1000000000000''"

definition CurrencyService_Latest :: "'d rate_provider \<Rightarrow> string \<Rightarrow> err + 'd ExchangeRates" where
  "CurrencyService_Latest latest base =
     (let base = normalizeCurrency base
      in echeck (base = '''') (validationError ''base currency is required'')
         (ewrap ''load exchange rates'' (latest base)))"

definition ConvertDecimalAmount ::
  "'d decimal_ops \<Rightarrow> 'd rate_provider \<Rightarrow> 'd \<Rightarrow> string \<Rightarrow> string \<Rightarrow> err + 'd \<times> 'd" where
  "ConvertDecimalAmount D latest amount from to =
     (let from = normalizeCurrency from; to = normalizeCurrency to
      in if from = '''' \<or> to = '''' then Inl (validationError ''currency is required'')
         else if from = to then Inr (amount, d_NewFromInt D 1)
         else ebind (CurrencyService_Latest latest from) (\<lambda>rates.
           case xr_Rates rates to of
             None \<Rightarrow> Inl (validationError (''exchange rate not found for '' @ from @ ''/'' @ to))
           | Some rate \<Rightarrow>
               echeck (\<not> d_IsPositive D rate)
                 (validationError (''exchange rate not found for '' @ from @ ''/'' @ to))
               (echeck (d_GreaterThan D rate (maxExchangeRate D))
                 (validationError (''exchange rate is too large for '' @ from @ ''/'' @ to))
               (Inr (d_Mul D amount rate, rate)))))"

text \<open>The provider over HTTP with its cache. \<open>http url\<close> is the outcome of the request: an error,
  or a status code and the decoded payload (\<open>Inl\<close> when decoding fails).\<close>

record 'd exchangeRateAPIResponse =
  er_Result :: string
  er_BaseCode :: string
  er_TimeLastUpdateUTC :: string
  er_Rates :: "(string \<times> 'd) list"

type_synonym 'd http_outcome = "string \<Rightarrow> err + int \<times> (err + 'd exchangeRateAPIResponse)"

definition provider_fetch ::
  "'d decimal_ops \<Rightarrow> 'd http_outcome \<Rightarrow> string \<Rightarrow> string \<Rightarrow> time \<Rightarrow> err + 'd ExchangeRates" where
  "provider_fetch D http baseURL base now =
     ebind (ewrap ''fetch exchange rates'' (http (baseURL @ ''/'' @ base))) (\<lambda>(status, body).
     echeck (status < 200 \<or> status \<ge> 300) (Errorf ''fetch exchange rates: status'')
     (ebind (ewrap ''decode exchange rates'' body) (\<lambda>payload.
      echeck (er_Result payload \<noteq> ''success'')
        (Errorf (''fetch exchange rates: provider result '' @ er_Result payload))
      (Inr \<lparr>xr_Base = normalizeCurrency (er_BaseCode payload), xr_Date = er_TimeLastUpdateUTC payload,
        xr_Provider = ''open.er-api.com'', xr_FetchedAt = now,
        xr_Rates = (foldl (\<lambda>m (currency, rate). m(normalizeCurrency currency \<mapsto> rate)) Map.empty
          (er_Rates payload))(base \<mapsto> d_NewFromInt D 1)\<rparr>))))"

type_synonym 'd rate_cache = "string \<Rightarrow> ('d ExchangeRates \<times> time) option"

definition provider_Latest ::
  "'d decimal_ops \<Rightarrow> 'd http_outcome \<Rightarrow> string \<Rightarrow> duration \<Rightarrow> time \<Rightarrow> string \<Rightarrow>
     ('d rate_cache, err, 'd ExchangeRates) stm" where
  "provider_Latest D http baseURL ttl now base =
     (let base = normalizeCurrency base
      in if base = '''' then sfail (validationError ''base currency is required'')
         else (\<lambda>cache. case cache base of
             Some (rates, expiresAt) \<Rightarrow>
               (if Before now expiresAt then (Inr rates, cache)
                else (case provider_fetch D http baseURL base now of
                    Inl e \<Rightarrow> (Inl e, cache)
                  | Inr rates \<Rightarrow> (Inr rates, cache(base \<mapsto> (rates, TimeAdd now ttl)))))
           | None \<Rightarrow>
               (case provider_fetch D http baseURL base now of
                    Inl e \<Rightarrow> (Inl e, cache)
                  | Inr rates \<Rightarrow> (Inr rates, cache(base \<mapsto> (rates, TimeAdd now ttl))))))"

section \<open>Repository\<close>

definition normalizeTransfer :: "'d Transfer \<Rightarrow> 'd Transfer" where
  "normalizeTransfer tr =
     tr\<lparr>x_ExchangeRateScale := (if x_ExchangeRateScale tr = 0 then 18 else x_ExchangeRateScale tr),
        x_Status := (if x_Status tr = '''' then ''completed'' else x_Status tr),
        x_UpdatedAt := (if IsZero (x_UpdatedAt tr) then x_CreatedAt tr else x_UpdatedAt tr)\<rparr>"

definition transfer_keys_free :: "'d db \<Rightarrow> 'd Transfer \<Rightarrow> bool" where
  "transfer_keys_free s tr =
     list_all (\<lambda>q. x_ID q \<noteq> x_ID tr \<and> x_FromTransactionID q \<noteq> x_FromTransactionID tr \<and>
         x_ToTransactionID q \<noteq> x_ToTransactionID tr \<and>
         (x_FeeTransactionID tr = None \<or> x_FeeTransactionID q \<noteq> x_FeeTransactionID tr) \<and>
         (x_IdempotencyKey tr = '''' \<or> x_UserID q \<noteq> x_UserID tr \<or>
          x_IdempotencyKey q \<noteq> x_IdempotencyKey tr)) (db_transfers s)"

definition uniqueConflict :: "err \<Rightarrow> err" where
  "uniqueConflict e = (if isUniqueViolation e then ErrConflict else e)"

definition insertTransfer :: "'d decimal_ops \<Rightarrow> 'd Transfer \<Rightarrow> ('d, 'd Transfer) dbstm" where
  "insertTransfer D transfer =
     (let tr = normalizeTransfer transfer
      in sbind (sread (\<lambda>s. ewrap ''insert transfer'' (emap uniqueConflict
           (row_guard (transfer_checks D tr) (transfer_keys_free s tr)
             (x_UserID tr \<in> set (map u_ID (db_users s)) \<and>
              list_ex (has_owner (x_FromAccountID tr) (x_UserID tr)) (db_accounts s) \<and>
              list_ex (has_owner (x_ToAccountID tr) (x_UserID tr)) (db_accounts s)))))) (\<lambda>_.
         sbind (swrite (\<lambda>s. s\<lparr>db_transfers := db_transfers s @ [tr]\<rparr>)) (\<lambda>_.
         sret tr)))"

text \<open>The rows of the locked accounts, in the order of their ids.\<close>

fun scanTransferRows :: "'d Transfer \<Rightarrow> Account list \<Rightarrow> err + (string \<times> string) list" where
  "scanTransferRows transfer [] = Inr []"
| "scanTransferRows transfer (a # rows) =
     echeck (\<not> a_IsActive a) (Wrapped ''lock transfer accounts'' ErrInactiveAccount)
     (echeck (Before (x_CreatedAt transfer) (a_OpenedAt a))
        (Wrapped ''lock transfer accounts'' ErrTransactionBeforeOpen)
     (ebind (scanTransferRows transfer rows) (\<lambda>locked. Inr ((a_ID a, a_Currency a) # locked))))"

definition lockTransferAccounts :: "'d Transfer \<Rightarrow> ('d, (string \<times> string) list) dbstm" where
  "lockTransferAccounts transfer =
     sread (\<lambda>s. scanTransferRows transfer
       (sort_key a_ID (filter (\<lambda>a. a_ID a \<in> {x_FromAccountID transfer, x_ToAccountID transfer} \<and>
          a_OwnerUserID a = Some (x_UserID transfer)) (db_accounts s))))"

definition locked_currency :: "(string \<times> string) list \<Rightarrow> string \<Rightarrow> string" where
  "locked_currency locked i = (case map_of locked i of Some c \<Rightarrow> c | None \<Rightarrow> '''')"

definition transferAuditSummary :: "'d decimal_ops \<Rightarrow> 'd Transfer \<Rightarrow> summary" where
  "transferAuditSummary D tr =
     [(''from_account_id'', JString (x_FromAccountID tr)), (''to_account_id'', JString (x_ToAccountID tr)),
      (''from_amount'', JString (d_String D (x_FromAmount tr))),
      (''to_amount'', JString (d_String D (x_ToAmount tr))),
      (''from_currency'', JString (x_FromCurrency tr)), (''to_currency'', JString (x_ToCurrency tr)),
      (''fee_amount'', JString (d_String D (x_FeeAmount tr)))]"

definition of_transfer :: "'d Transfer \<Rightarrow> 'd Transaction \<Rightarrow> 'd Transaction" where
  "of_transfer tr t = t\<lparr>t_SourceType := TransactionSourceTransfer, t_SourceRefID := Some (x_ID tr)\<rparr>"

definition TransactionRepository_CreateTransfer ::
  "'d decimal_ops \<Rightarrow> string \<Rightarrow> time \<Rightarrow> 'd Transfer \<Rightarrow> 'd Transaction list \<Rightarrow> ('d, unit) dbstm" where
  "TransactionRepository_CreateTransfer D eid now transfer transactions =
     pg_tx D ''commit create transfer''
     (sbind (lockTransferAccounts transfer) (\<lambda>locked.
      sbind (scheck (length (remdups (map fst locked)) \<noteq> 2)
        (Wrapped ''lock transfer accounts'' ErrNotFound)) (\<lambda>_.
      sbind (scheck (TrimSpace (x_FromCurrency transfer) \<noteq> '''' \<and>
            locked_currency locked (x_FromAccountID transfer) \<noteq> TrimSpace (x_FromCurrency transfer))
        (Wrapped ''lock transfer accounts'' ErrConflict)) (\<lambda>_.
      sbind (scheck (TrimSpace (x_ToCurrency transfer) \<noteq> '''' \<and>
            locked_currency locked (x_ToAccountID transfer) \<noteq> TrimSpace (x_ToCurrency transfer))
        (Wrapped ''lock transfer accounts'' ErrConflict)) (\<lambda>_.
      sbind (swrap ''calculate transfer source balance''
        (transferSourceBalance D (x_FromAccountID transfer))) (\<lambda>balance.
      sbind (scheck (d_LessThan D balance (x_FromAmount transfer))
        (Wrapped ''create transfer'' ErrInsufficientFunds)) (\<lambda>_.
      sbind (scheck (d_IsPositive D (x_FeeAmount transfer) \<and>
            d_LessThan D balance (d_Add D (x_FromAmount transfer) (x_FeeAmount transfer)))
        (Wrapped ''create transfer'' ErrInsufficientFunds)) (\<lambda>_.
      sbind (swrap ''create transfer audit'' (insertTransfer D transfer)) (\<lambda>tr.
      sbind (sfor (\<lambda>t. sbind (swrap (''create transfer transaction '' @ t_ID t)
          (insertTransaction D (of_transfer tr t))) (\<lambda>_. sret ())) transactions) (\<lambda>_.
      swrap ''create transfer audit event''
        (insertAuditEvent (newAuditEvent eid now (Some (x_UserID tr)) ''transfer.created'' ''transfer''
          (x_ID tr) (Some (transferAuditSummary D tr))))))))))))))"

definition ListTransfersByUser :: "string \<Rightarrow> ('d, 'd Transfer list) dbstm" where
  "ListTransfersByUser userID =
     sread (\<lambda>s. Inr (sort_key (\<lambda>x. - t_ns (x_CreatedAt x))
       (rev (sort_key x_ID (filter (\<lambda>x. x_UserID x = userID) (db_transfers s))))))"

section \<open>Services\<close>

fun buildAll ::
  "'d decimal_ops \<Rightarrow> (string \<Rightarrow> bool) \<Rightarrow> ctx \<Rightarrow> time \<Rightarrow> (string \<times> 'd CreateTransactionRequest) list \<Rightarrow>
     err + 'd Transaction list" where
  "buildAll D uuidParse ctx now [] = Inr []"
| "buildAll D uuidParse ctx now ((tid, req) # rs) =
     ebind (buildTransaction D uuidParse ctx tid now (Some req) True) (\<lambda>t.
     ebind (buildAll D uuidParse ctx now rs) (\<lambda>ts. Inr (t # ts)))"

text \<open>The links between the transfer and its transactions: the first two are its legs.\<close>

definition link_leg :: "'d Transfer \<Rightarrow> 'd Transaction \<Rightarrow> 'd Transaction" where
  "link_leg tr t = (of_transfer tr t)\<lparr>t_TransferID := Some (x_ID tr)\<rparr>"

definition linkTransfer :: "'d Transfer \<Rightarrow> 'd Transaction list \<Rightarrow> 'd Transfer \<times> 'd Transaction list" where
  "linkTransfer tr ts =
     (tr\<lparr>x_FromTransactionID := t_ID (ts ! 0), x_ToTransactionID := t_ID (ts ! 1),
        x_FeeTransactionID := (if length ts = 3 then Some (t_ID (ts ! 2)) else x_FeeTransactionID tr)\<rparr>,
      map (link_leg tr) (take 2 ts) @ map (of_transfer tr) (drop 2 ts))"

definition TransactionService_CreateTransfer ::
  "'d decimal_ops \<Rightarrow> (string \<Rightarrow> bool) \<Rightarrow> ctx \<Rightarrow> string \<Rightarrow> time \<Rightarrow> 'd Transfer \<Rightarrow>
     (string \<times> 'd CreateTransactionRequest) list \<Rightarrow> ('d, 'd Transaction list) dbstm" where
  "TransactionService_CreateTransfer D uuidParse ctx eid now transfer reqs =
     sbind (slift (buildAll D uuidParse ctx now reqs)) (\<lambda>ts.
     sbind (scheck (length ts \<noteq> 2 \<and> length ts \<noteq> 3)
       (validationError ''transfer requires two transactions and optional fee transaction'')) (\<lambda>_.
     let (tr, linked) = linkTransfer transfer ts
     in sbind (swrap ''save transfer transactions''
          (TransactionRepository_CreateTransfer D eid now tr linked)) (\<lambda>_.
        sret linked)))"

record 'd CreateTransferRequest =
  xq_UserID :: string
  xq_FromAccountID :: string
  xq_ToAccountID :: string
  xq_FromCurrency :: string
  xq_ToCurrency :: string
  xq_Amount :: 'd
  xq_FeeAmount :: 'd
  xq_FeeCurrency :: string
  xq_Description :: string
  xq_IdempotencyKey :: string

record 'd CreateTransferResponse =
  xs_Out :: "'d Transaction"
  xs_In :: "'d Transaction"
  xs_Fee :: "'d Transaction option"
  xs_ExchangeRate :: string

definition transferFeeDescription :: "string \<Rightarrow> string" where
  "transferFeeDescription description =
     (let description = TrimSpace description
      in if description = '''' then ''Transfer fee'' else ''Transfer fee: '' @ description)"

text \<open>The ids \<^verbatim>\<open>uuid.NewString()\<close> gives in one call of \<^verbatim>\<open>Create\<close>.\<close>

record transfer_ids =
  id_transfer :: string
  id_out :: string
  id_in :: string
  id_fee :: string
  id_event :: string

definition plain_request :: "string \<Rightarrow> string option \<Rightarrow> TransactionType \<Rightarrow> 'd \<Rightarrow> string \<Rightarrow> string \<Rightarrow>
    'd CreateTransactionRequest" where
  "plain_request accountID related typ amount currency description =
     \<lparr>ct_AccountID = accountID, ct_RelatedAccountID = related, ct_Type = typ, ct_Amount = amount,
      ct_Currency = currency, ct_CategoryID = None, ct_SourceType = '''', ct_SourceRefID = None,
      ct_SourceMetadata = '''', ct_Description = description, ct_OccurredAt = zero_time,
      ct_AccountOpenedAt = zero_time, ct_AllowFutureDate = False\<rparr>"

text \<open>The checks and the conversion of \<^verbatim>\<open>TransferService.Create\<close>: the fee's currency, the amount
  taken and the amount given, and the rate as text.\<close>

definition prepareTransfer ::
  "'d decimal_ops \<Rightarrow> 'd rate_provider \<Rightarrow> 'd CreateTransferRequest \<Rightarrow> string \<Rightarrow> string \<Rightarrow>
     err + string \<times> 'd \<times> 'd \<times> string" where
  "prepareTransfer D latest req fromCurrency toCurrency =
     (let feeCurrency = ToUpper (TrimSpace (xq_FeeCurrency req));
          feeCurrency = (if feeCurrency = '''' \<and> d_IsPositive D (xq_FeeAmount req) then fromCurrency
            else feeCurrency)
      in echeck (d_IsPositive D (xq_FeeAmount req) \<and> feeCurrency \<noteq> fromCurrency)
           (validationError ''transfer fee currency must match source account currency'')
         (case transfer_ValidateCreate D (Some
             \<lparr>xv_FromAccountID = TrimSpace (xq_FromAccountID req),
              xv_ToAccountID = TrimSpace (xq_ToAccountID req), xv_FromCurrency = fromCurrency,
              xv_Amount = xq_Amount req, xv_FeeAmount = xq_FeeAmount req,
              xv_FeeCurrency = feeCurrency, xv_IdempotencyKey = TrimSpace (xq_IdempotencyKey req)\<rparr>) of
            Inl e \<Rightarrow> Inl (validationError (Error e))
          | Inr _ \<Rightarrow>
              let fromAmount = RoundForCurrency D (xq_Amount req) fromCurrency
              in if fromCurrency \<noteq> '''' \<or> toCurrency \<noteq> ''''
                 then ebind (ewrap ''convert transfer amount''
                        (ConvertDecimalAmount D latest fromAmount fromCurrency toCurrency))
                        (\<lambda>(converted, rate).
                        Inr (feeCurrency, fromAmount, RoundForCurrency D converted toCurrency, d_String D rate))
                 else Inr (feeCurrency, fromAmount, fromAmount, ''1'')))"

definition newTransfer ::
  "'d decimal_ops \<Rightarrow> string \<Rightarrow> time \<Rightarrow> 'd CreateTransferRequest \<Rightarrow> string \<Rightarrow> string \<Rightarrow>
     string \<times> 'd \<times> 'd \<times> string \<Rightarrow> 'd Transfer" where
  "newTransfer D xid now req fromCurrency toCurrency prepared =
     (case prepared of (feeCurrency, fromAmount, inAmount, exchangeRate) \<Rightarrow>
       \<lparr>x_ID = xid, x_UserID = TrimSpace (xq_UserID req),
        x_FromAccountID = TrimSpace (xq_FromAccountID req),
        x_ToAccountID = TrimSpace (xq_ToAccountID req), x_FromTransactionID = '''',
        x_ToTransactionID = '''', x_FeeTransactionID = None, x_FromAmount = fromAmount,
        x_ToAmount = inAmount, x_FromCurrency = fromCurrency, x_ToCurrency = toCurrency,
        x_ExchangeRate = exchangeRate, x_ExchangeRateScale = 18,
        x_ExchangeRateProvider = ''internal'', x_ExchangeRateDate = UTC now,
        x_FeeAmount = xq_FeeAmount req,
        x_FeeCurrency = (if d_IsPositive D (xq_FeeAmount req) then Some feeCurrency else None),
        x_Status = ''completed'', x_IdempotencyKey = TrimSpace (xq_IdempotencyKey req),
        x_CreatedAt = UTC now, x_UpdatedAt = UTC now\<rparr>)"

definition transferRequests ::
  "'d decimal_ops \<Rightarrow> transfer_ids \<Rightarrow> 'd CreateTransferRequest \<Rightarrow> string \<Rightarrow> string \<Rightarrow>
     string \<times> 'd \<times> 'd \<times> string \<Rightarrow> (string \<times> 'd CreateTransactionRequest) list" where
  "transferRequests D ids req fromCurrency toCurrency prepared =
     (case prepared of (feeCurrency, fromAmount, inAmount, _) \<Rightarrow>
       let fromAccountID = TrimSpace (xq_FromAccountID req); toAccountID = TrimSpace (xq_ToAccountID req)
       in [(id_out ids, plain_request fromAccountID (Some toAccountID) TransactionTypeTransferOut
              fromAmount fromCurrency (xq_Description req)),
           (id_in ids, plain_request toAccountID (Some fromAccountID) TransactionTypeTransferIn
              inAmount toCurrency (xq_Description req))] @
          (if d_IsPositive D (xq_FeeAmount req)
           then [(id_fee ids, plain_request fromAccountID None TransactionTypeExpense
              (xq_FeeAmount req) feeCurrency (transferFeeDescription (xq_Description req)))]
           else []))"

definition TransferService_Create ::
  "'d decimal_ops \<Rightarrow> (string \<Rightarrow> bool) \<Rightarrow> 'd rate_provider \<Rightarrow> ctx \<Rightarrow> transfer_ids \<Rightarrow> time \<Rightarrow>
     'd CreateTransferRequest option \<Rightarrow> ('d, 'd CreateTransferResponse) dbstm" where
  "TransferService_Create D uuidParse latest ctx ids now r =
     (case r of
        None \<Rightarrow> sfail (validationError ''transfer request is required'')
      | Some req \<Rightarrow>
          let userID = TrimSpace (xq_UserID req)
          in sbind (swrap ''get source account''
               (AccountRepository_GetByIDForUser (TrimSpace (xq_FromAccountID req)) userID)) (\<lambda>fromAccount.
             sbind (swrap ''get destination account''
               (AccountRepository_GetByIDForUser (TrimSpace (xq_ToAccountID req)) userID)) (\<lambda>toAccount.
             sbind (slift (prepareTransfer D latest req (a_Currency fromAccount) (a_Currency toAccount))) (\<lambda>prepared.
             sbind (swrap ''create transfer transactions''
               (TransactionService_CreateTransfer D uuidParse ctx (id_event ids) now
                 (newTransfer D (id_transfer ids) now req (a_Currency fromAccount) (a_Currency toAccount) prepared)
                 (transferRequests D ids req (a_Currency fromAccount) (a_Currency toAccount) prepared))) (\<lambda>created.
             sret \<lparr>xs_Out = created ! 0, xs_In = created ! 1,
               xs_Fee = (if length created = 3 then Some (created ! 2) else None),
               xs_ExchangeRate = (case prepared of (_, _, _, rate) \<Rightarrow> rate)\<rparr>)))))"

section \<open>Facts about the statements\<close>

lemma normalizeTransfer_id [simp]:
  "x_ID (normalizeTransfer tr) = x_ID tr" "x_UserID (normalizeTransfer tr) = x_UserID tr"
  "x_FromAccountID (normalizeTransfer tr) = x_FromAccountID tr"
  "x_ToAccountID (normalizeTransfer tr) = x_ToAccountID tr"
  "x_FromAmount (normalizeTransfer tr) = x_FromAmount tr" "x_ToAmount (normalizeTransfer tr) = x_ToAmount tr"
  "x_FeeAmount (normalizeTransfer tr) = x_FeeAmount tr"
  by (simp_all add: normalizeTransfer_def)

lemma of_transfer_id [simp]:
  "t_ID (of_transfer tr t) = t_ID t" "t_AccountID (of_transfer tr t) = t_AccountID t"
  "t_Type (of_transfer tr t) = t_Type t" "t_Amount (of_transfer tr t) = t_Amount t"
  "t_Status (of_transfer tr t) = t_Status t" "t_TransferID (of_transfer tr t) = t_TransferID t"
  "t_SourceMetadata (of_transfer tr t) = t_SourceMetadata t"
  by (simp_all add: of_transfer_def)

lemma insertTransfer_Inr_iff [tx_simps]:
  "insertTransfer D tr0 s = (Inr tr, s') \<longleftrightarrow>
     tr = normalizeTransfer tr0 \<and> transfer_checks D tr \<and> transfer_keys_free s tr \<and>
     x_UserID tr \<in> set (map u_ID (db_users s)) \<and>
     list_ex (has_owner (x_FromAccountID tr) (x_UserID tr)) (db_accounts s) \<and>
     list_ex (has_owner (x_ToAccountID tr) (x_UserID tr)) (db_accounts s) \<and>
     s' = s\<lparr>db_transfers := db_transfers s @ [tr]\<rparr>"
  by (auto simp: insertTransfer_def Let_def tx_simps)

lemma keeps_insertTransfer [keeps_intros]: "keeps (rows_ok D) (insertTransfer D tr)"
proof (rule keepsI)
  fix s r s' assume ok: "rows_ok D s" and run: "insertTransfer D tr s = (r, s')"
  show "rows_ok D s'"
  proof (cases r)
    case (Inl e)
    with run have "s' = s" by (auto simp: insertTransfer_def Let_def sbind_def split: sum.splits)
    with ok show ?thesis by simp
  next
    case (Inr x)
    with run ok show ?thesis
      by (auto simp: tx_simps rows_ok_def list_all_iff transfer_keys_free_def)
  qed
qed

lemma keeps_lockTransferAccounts [keeps_intros]: "keeps P (lockTransferAccounts tr)"
  unfolding lockTransferAccounts_def by (intro keeps_intros)

interpretation transfer_create:
  ledger_operation D "TransactionRepository_CreateTransfer D eid now tr ts" for D eid now tr ts
  unfolding TransactionRepository_CreateTransfer_def by (intro pg_tx_operation keeps_intros)

text \<open>The rows a loop of inserts appends.\<close>

lemma insert_loop_Inr:
  "sfor (\<lambda>t. sbind (swrap (msg t) (insertTransaction D (g t))) (\<lambda>_. sret ())) ts s = (Inr (), s') \<Longrightarrow>
     s' = s\<lparr>db_transactions := db_transactions s @ map (normalizeTransaction \<circ> g) ts\<rparr> \<and>
     (\<forall>t\<in>set ts. transaction_checks D (normalizeTransaction (g t)))"
proof (induction ts arbitrary: s)
  case Nil
  then show ?case by simp
next
  case (Cons t ts)
  from Cons.prems obtain s1 where
    s1: "s1 = s\<lparr>db_transactions := db_transactions s @ [normalizeTransaction (g t)]\<rparr>"
    and chk: "transaction_checks D (normalizeTransaction (g t))"
    and loop: "sfor (\<lambda>t. sbind (swrap (msg t) (insertTransaction D (g t))) (\<lambda>_. sret ())) ts s1 = (Inr (), s')"
    by (simp only: sfor.simps sbind_Inr_iff swrap_Inr_iff insertTransaction_Inr_iff sret_Inr_iff) blast
  from Cons.IH [OF loop] chk show ?case by (simp add: s1)
qed

lemma lockTransferAccounts_Inr:
  assumes "lockTransferAccounts tr s = (Inr locked, s')"
  shows "s' = s \<and> (\<forall>(i, c)\<in>set locked. \<exists>a\<in>set (db_accounts s). has_owner i (x_UserID tr) a \<and> a_IsActive a \<and>
      a_Currency a = c \<and> \<not> Before (x_CreatedAt tr) (a_OpenedAt a) \<and>
      i \<in> {x_FromAccountID tr, x_ToAccountID tr})"
proof -
  have scan: "\<forall>(i, c)\<in>set l. \<exists>a\<in>set rows. a_ID a = i \<and> a_IsActive a \<and> a_Currency a = c \<and>
      \<not> Before (x_CreatedAt tr) (a_OpenedAt a)"
    if "scanTransferRows tr rows = Inr l" for rows l
    using that
  proof (induction rows arbitrary: l)
    case Nil
    then show ?case by simp
  next
    case (Cons a rows)
    then obtain l' where "l = (a_ID a, a_Currency a) # l'" "scanTransferRows tr rows = Inr l'"
      "a_IsActive a" "\<not> Before (x_CreatedAt tr) (a_OpenedAt a)" by auto
    with Cons.IH [of l'] show ?case by fastforce
  qed
  from assms scan show ?thesis
    by (fastforce simp: lockTransferAccounts_def has_owner_def)
qed

lemma two_locked:
  assumes "length (remdups (map fst locked)) = 2" "\<forall>(i, c)\<in>set locked. i \<in> {x, y}"
  shows "x \<in> fst ` set locked \<and> y \<in> fst ` set locked \<and> x \<noteq> y"
proof -
  have "card (fst ` set locked) = 2" using assms(1) by (simp add: length_remdups_card_conv)
  moreover have "fst ` set locked \<subseteq> {x, y}" using assms(2) by auto
  moreover have "card {x, y} \<le> 2" by (simp add: card_insert_if)
  ultimately have "fst ` set locked = {x, y}" by (metis card_seteq finite.emptyI finite.insertI)
  with \<open>card (fst ` set locked) = 2\<close> show ?thesis by (cases "x = y") auto
qed

text \<open>What a transfer that commits has checked and written.\<close>

lemma CreateTransfer_Inr:
  assumes "TransactionRepository_CreateTransfer D eid now tr ts s = (Inr (), s')"
  obtains balance where
    "transferSourceBalance D (x_FromAccountID tr) s = (Inr balance, s)"
    "\<not> d_LessThan D balance (x_FromAmount tr)"
    "d_IsPositive D (x_FeeAmount tr) \<longrightarrow> \<not> d_LessThan D balance (d_Add D (x_FromAmount tr) (x_FeeAmount tr))"
    "transfer_checks D (normalizeTransfer tr)" "transfer_keys_free s (normalizeTransfer tr)"
    "x_FromAccountID tr \<noteq> x_ToAccountID tr"
    "\<And>i. i \<in> {x_FromAccountID tr, x_ToAccountID tr} \<Longrightarrow>
       \<exists>a\<in>set (db_accounts s). has_owner i (x_UserID tr) a \<and> a_IsActive a \<and>
         \<not> Before (x_CreatedAt tr) (a_OpenedAt a)"
    "\<exists>es. s' = s\<lparr>db_transfers := db_transfers s @ [normalizeTransfer tr],
       db_transactions := db_transactions s @ map (normalizeTransaction \<circ> of_transfer (normalizeTransfer tr)) ts,
       db_audit := es\<rparr>"
proof -
  have bal: "\<exists>b. transferSourceBalance D a t = (Inr b, t)" for a and t :: "'a db"
    by (simp add: transferSourceBalance_def)
  from assms obtain locked s0 balance s1 s2 where
    lock: "lockTransferAccounts tr s = (Inr locked, s0)" and two: "length (remdups (map fst locked)) = 2"
    and b: "transferSourceBalance D (x_FromAccountID tr) s0 = (Inr balance, s1)"
    and c: "\<not> d_LessThan D balance (x_FromAmount tr)"
      "\<not> (d_IsPositive D (x_FeeAmount tr) \<and> d_LessThan D balance (d_Add D (x_FromAmount tr) (x_FeeAmount tr)))"
    and ins: "insertTransfer D tr s1 = (Inr (normalizeTransfer tr), s2)"
    and rest: "\<exists>s3 e. sfor (\<lambda>t. sbind (swrap (''create transfer transaction '' @ t_ID t)
          (insertTransaction D (of_transfer (normalizeTransfer tr) t))) (\<lambda>_. sret ())) ts s2 = (Inr (), s3) \<and>
        insertAuditEvent e s3 = (Inr (), s')"
    unfolding TransactionRepository_CreateTransfer_def pg_tx_Inr_iff sbind_Inr_iff scheck_Inr_iff swrap_Inr_iff
      not_not
    by (elim exE conjE) (simp add: insertTransfer_Inr_iff, blast)
  have s0: "s0 = s" using lockTransferAccounts_Inr [OF lock] by simp
  with b bal have s1: "s1 = s" by (metis prod.inject)
  from rest obtain s3 e where loop: "sfor (\<lambda>t. sbind (swrap (''create transfer transaction '' @ t_ID t)
          (insertTransaction D (of_transfer (normalizeTransfer tr) t))) (\<lambda>_. sret ())) ts s2 = (Inr (), s3)"
    and au: "insertAuditEvent e s3 = (Inr (), s')" by blast
  have fin: "\<exists>es. s' = s\<lparr>db_transfers := db_transfers s @ [normalizeTransfer tr],
       db_transactions := db_transactions s @ map (normalizeTransaction \<circ> of_transfer (normalizeTransfer tr)) ts,
       db_audit := es\<rparr>"
    using insert_loop_Inr [OF loop] au ins s1 by (auto simp: tx_simps)
  have own: "\<forall>(i, c)\<in>set locked. i \<in> {x_FromAccountID tr, x_ToAccountID tr}"
    using lockTransferAccounts_Inr [OF lock] by fastforce
  note two' = two_locked [OF two own]
  have act: "\<exists>a\<in>set (db_accounts s). has_owner i (x_UserID tr) a \<and> a_IsActive a \<and>
         \<not> Before (x_CreatedAt tr) (a_OpenedAt a)" if "i \<in> {x_FromAccountID tr, x_ToAccountID tr}" for i
  proof -
    from that two' obtain c where "(i, c) \<in> set locked" by force
    with lockTransferAccounts_Inr [OF lock] show ?thesis by fastforce
  qed
  show thesis
    using b c ins fin act two' s0 s1
    by (intro that [of balance]) (auto simp: insertTransfer_Inr_iff)
qed

section \<open>The effect on the ledger\<close>

lemma buildAll_two:
  "buildAll D uuidParse ctx now [(i, p), (j, q)] = Inr ts \<longleftrightarrow>
     (\<exists>a b. ts = [a, b] \<and> buildTransaction D uuidParse ctx i now (Some p) True = Inr a \<and>
       buildTransaction D uuidParse ctx j now (Some q) True = Inr b)"
  by auto

lemma buildAll_three:
  "buildAll D uuidParse ctx now [(i, p), (j, q), (k, r)] = Inr ts \<longleftrightarrow>
     (\<exists>a b c. ts = [a, b, c] \<and> buildTransaction D uuidParse ctx i now (Some p) True = Inr a \<and>
       buildTransaction D uuidParse ctx j now (Some q) True = Inr b \<and>
       buildTransaction D uuidParse ctx k now (Some r) True = Inr c)"
  by auto

text \<open>A built transaction, as the fields that matter to the ledger.\<close>

definition built_as :: "string \<Rightarrow> string \<Rightarrow> TransactionType \<Rightarrow> 'd \<Rightarrow> 'd Transaction \<Rightarrow> bool" where
  "built_as tid account typ amount t \<longleftrightarrow>
     t_ID t = tid \<and> t_AccountID t = account \<and> t_Type t = typ \<and> t_Amount t = amount \<and>
     t_Status t = TransactionStatusConfirmed"

lemma build_plain:
  assumes "buildTransaction D uuidParse ctx tid now
      (Some (plain_request (TrimSpace account) related typ amount currency description)) True = Inr t"
  shows "built_as tid (TrimSpace account) typ amount t"
  using buildTransaction_Inr [OF assms] by (simp add: built_as_def plain_request_def)

lemma built_as_linked:
  assumes "built_as tid account typ amount t"
  shows "built_as tid account typ amount (normalizeTransaction (of_transfer tr t))"
    "built_as tid account typ amount (normalizeTransaction (of_transfer tr (link_leg tr' t)))"
    "built_as tid account typ amount (link_leg tr' t)" "built_as tid account typ amount (of_transfer tr t)"
  using assms by (simp_all add: built_as_def normalizeTransaction_def of_transfer_def link_leg_def)

text \<open>The rows of a transfer: its two legs and, for a positive fee, the fee.\<close>

definition transfer_rows ::
  "'d decimal_ops \<Rightarrow> transfer_ids \<Rightarrow> string \<Rightarrow> string \<Rightarrow> 'd \<Rightarrow> 'd \<Rightarrow> 'd \<Rightarrow> 'd Transaction list \<Rightarrow> bool" where
  "transfer_rows D ids source dest fromAmount toAmount fee ts \<longleftrightarrow>
     (if d_IsPositive D fee
      then \<exists>a b c. ts = [a, b, c] \<and> built_as (id_out ids) source TransactionTypeTransferOut fromAmount a \<and>
        built_as (id_in ids) dest TransactionTypeTransferIn toAmount b \<and>
        built_as (id_fee ids) source TransactionTypeExpense fee c
      else \<exists>a b. ts = [a, b] \<and> built_as (id_out ids) source TransactionTypeTransferOut fromAmount a \<and>
        built_as (id_in ids) dest TransactionTypeTransferIn toAmount b)"

lemma built_as_ledger:
  "built_as tid account typ amount t \<Longrightarrow> counts a t \<longleftrightarrow> account = a"
  "built_as tid account TransactionTypeTransferOut amount t \<Longrightarrow> signed val t = - val amount"
  "built_as tid account TransactionTypeTransferIn amount t \<Longrightarrow> signed val t = val amount"
  "built_as tid account TransactionTypeExpense amount t \<Longrightarrow> signed val t = - val amount"
  by (simp_all add: built_as_def counts_def AffectsBalance_def signed_def)

context decimal_pkg
begin

lemma transfer_rows_ledger:
  assumes "transfer_rows D ids source dest fromAmount toAmount fee ts" "0 \<le> val fee" "source \<noteq> dest"
  shows "ledger val a ts =
    (if a = source then - val fromAmount - val fee else if a = dest then val toAmount else 0)"
proof (cases "d_IsPositive D fee")
  case True
  with assms obtain x y z where "ts = [x, y, z]"
    "built_as (id_out ids) source TransactionTypeTransferOut fromAmount x"
    "built_as (id_in ids) dest TransactionTypeTransferIn toAmount y"
    "built_as (id_fee ids) source TransactionTypeExpense fee z" by (auto simp: transfer_rows_def)
  then show ?thesis using assms(3) by (auto simp: ledger_Cons built_as_ledger)
next
  case False
  with assms(2) have fee: "val fee = 0" by simp
  from False assms obtain x y where "ts = [x, y]"
    "built_as (id_out ids) source TransactionTypeTransferOut fromAmount x"
    "built_as (id_in ids) dest TransactionTypeTransferIn toAmount y" by (auto simp: transfer_rows_def)
  then show ?thesis using assms(3) fee by (auto simp: ledger_Cons built_as_ledger)
qed

end

lemma transferRequests_built:
  assumes "buildAll D uuidParse ctx now (transferRequests D ids req fromC toC (feeC, fromAmount, toAmount, rate)) = Inr ts"
  shows "transfer_rows D ids (TrimSpace (xq_FromAccountID req)) (TrimSpace (xq_ToAccountID req)) fromAmount toAmount
      (xq_FeeAmount req) ts"
proof (cases "d_IsPositive D (xq_FeeAmount req)")
  case True
  from assms True obtain a b c where ts: "ts = [a, b, c]"
    and a: "buildTransaction D uuidParse ctx (id_out ids) now (Some (plain_request (TrimSpace (xq_FromAccountID req))
        (Some (TrimSpace (xq_ToAccountID req))) TransactionTypeTransferOut fromAmount fromC (xq_Description req))) True = Inr a"
    and b: "buildTransaction D uuidParse ctx (id_in ids) now (Some (plain_request (TrimSpace (xq_ToAccountID req))
        (Some (TrimSpace (xq_FromAccountID req))) TransactionTypeTransferIn toAmount toC (xq_Description req))) True = Inr b"
    and c: "buildTransaction D uuidParse ctx (id_fee ids) now (Some (plain_request (TrimSpace (xq_FromAccountID req))
        None TransactionTypeExpense (xq_FeeAmount req) feeC (transferFeeDescription (xq_Description req)))) True = Inr c"
    unfolding transferRequests_def Let_def prod.case if_P [OF True] append.simps buildAll_three by blast
  with True show ?thesis by (auto simp: transfer_rows_def dest: build_plain)
next
  case False
  from assms False obtain a b where ts: "ts = [a, b]"
    and a: "buildTransaction D uuidParse ctx (id_out ids) now (Some (plain_request (TrimSpace (xq_FromAccountID req))
        (Some (TrimSpace (xq_ToAccountID req))) TransactionTypeTransferOut fromAmount fromC (xq_Description req))) True = Inr a"
    and b: "buildTransaction D uuidParse ctx (id_in ids) now (Some (plain_request (TrimSpace (xq_ToAccountID req))
        (Some (TrimSpace (xq_FromAccountID req))) TransactionTypeTransferIn toAmount toC (xq_Description req))) True = Inr b"
    unfolding transferRequests_def Let_def prod.case if_not_P [OF False] append.simps buildAll_two by blast
  with False show ?thesis by (auto simp: transfer_rows_def dest: build_plain)
qed

lemma transfer_rows_linked:
  assumes "transfer_rows D ids source dest fromAmount toAmount fee ts"
  shows "transfer_rows D ids source dest fromAmount toAmount fee
    (map (normalizeTransaction \<circ> of_transfer tr) (snd (linkTransfer tr' ts)))"
    "transfer_rows D ids source dest fromAmount toAmount fee (snd (linkTransfer tr' ts))"
  using assms
  by (auto simp: transfer_rows_def linkTransfer_def built_as_linked split: if_splits)

lemma linkTransfer_fields:
  "x_ID (fst (linkTransfer tr ts)) = x_ID tr" "x_UserID (fst (linkTransfer tr ts)) = x_UserID tr"
  "x_FromAccountID (fst (linkTransfer tr ts)) = x_FromAccountID tr"
  "x_ToAccountID (fst (linkTransfer tr ts)) = x_ToAccountID tr"
  "x_FromAmount (fst (linkTransfer tr ts)) = x_FromAmount tr"
  "x_ToAmount (fst (linkTransfer tr ts)) = x_ToAmount tr"
  "x_FeeAmount (fst (linkTransfer tr ts)) = x_FeeAmount tr"
  "x_CreatedAt (fst (linkTransfer tr ts)) = x_CreatedAt tr"
  by (simp_all add: linkTransfer_def)

text \<open>What a successful call of the service went through.\<close>

lemma TransferService_Create_Inr:
  assumes "TransferService_Create D uuidParse latest ctx ids now (Some req) s = (Inr resp, s')"
  obtains src dst feeC fromAmount toAmount rate ts where
    "find (has_owner (TrimSpace (xq_FromAccountID req)) (TrimSpace (xq_UserID req))) (db_accounts s) = Some src"
    "find (has_owner (TrimSpace (xq_ToAccountID req)) (TrimSpace (xq_UserID req))) (db_accounts s) = Some dst"
    "prepareTransfer D latest req (a_Currency src) (a_Currency dst) = Inr (feeC, fromAmount, toAmount, rate)"
    "transfer_rows D ids (TrimSpace (xq_FromAccountID req)) (TrimSpace (xq_ToAccountID req)) fromAmount toAmount
      (xq_FeeAmount req) ts"
    "TransactionRepository_CreateTransfer D (id_event ids) now
      (fst (linkTransfer (newTransfer D (id_transfer ids) now req (a_Currency src) (a_Currency dst)
        (feeC, fromAmount, toAmount, rate)) ts))
      (snd (linkTransfer (newTransfer D (id_transfer ids) now req (a_Currency src) (a_Currency dst)
        (feeC, fromAmount, toAmount, rate)) ts)) s = (Inr (), s')"
    "xs_Out resp = snd (linkTransfer (newTransfer D (id_transfer ids) now req (a_Currency src) (a_Currency dst)
        (feeC, fromAmount, toAmount, rate)) ts) ! 0"
    "xs_In resp = snd (linkTransfer (newTransfer D (id_transfer ids) now req (a_Currency src) (a_Currency dst)
        (feeC, fromAmount, toAmount, rate)) ts) ! 1"
proof -
  from assms obtain src dst prep ts where
    1: "find (has_owner (TrimSpace (xq_FromAccountID req)) (TrimSpace (xq_UserID req))) (db_accounts s) = Some src"
    and 2: "find (has_owner (TrimSpace (xq_ToAccountID req)) (TrimSpace (xq_UserID req))) (db_accounts s) = Some dst"
    and 3: "prepareTransfer D latest req (a_Currency src) (a_Currency dst) = Inr prep"
    and 4: "buildAll D uuidParse ctx now (transferRequests D ids req (a_Currency src) (a_Currency dst) prep) = Inr ts"
    and 5: "TransactionRepository_CreateTransfer D (id_event ids) now
        (fst (linkTransfer (newTransfer D (id_transfer ids) now req (a_Currency src) (a_Currency dst) prep) ts))
        (snd (linkTransfer (newTransfer D (id_transfer ids) now req (a_Currency src) (a_Currency dst) prep) ts)) s =
        (Inr (), s')"
    and 6: "xs_Out resp = snd (linkTransfer (newTransfer D (id_transfer ids) now req (a_Currency src) (a_Currency dst) prep) ts) ! 0"
      "xs_In resp = snd (linkTransfer (newTransfer D (id_transfer ids) now req (a_Currency src) (a_Currency dst) prep) ts) ! 1"
    unfolding TransferService_Create_def TransactionService_CreateTransfer_def Let_def option.case
      AccountRepository_GetByIDForUser_def
    by (simp only: sbind_Inr_iff swrap_Inr_iff getAccount_Inr_iff slift_def scheck_Inr_iff sret_Inr_iff case_prod_beta
        prod.inject, elim exE conjE)
      (hypsubst, simp)
  obtain feeC fromAmount toAmount rate where p: "prep = (feeC, fromAmount, toAmount, rate)" by (cases prep)
  show thesis
    by (rule that [OF 1 2 3 [unfolded p] transferRequests_built [OF 4 [unfolded p]] 5 [unfolded p] 6 [unfolded p]])
qed

context decimal_pkg
begin

lemma prepareTransfer_Inr:
  assumes "prepareTransfer D latest req fromC toC = Inr (feeC, fromAmount, toAmount, rate)"
  shows "TrimSpace (xq_FromAccountID req) \<noteq> TrimSpace (xq_ToAccountID req) \<and>
    0 < val (xq_Amount req) \<and> 0 \<le> val (xq_FeeAmount req) \<and> TrimSpace (xq_IdempotencyKey req) \<noteq> [] \<and>
    val fromAmount = val (xq_Amount req) \<and> (fromC = toC \<longrightarrow> val toAmount = val (xq_Amount req))"
proof -
  define v where "v =
    \<lparr>xv_FromAccountID = TrimSpace (xq_FromAccountID req), xv_ToAccountID = TrimSpace (xq_ToAccountID req),
     xv_FromCurrency = fromC, xv_Amount = xq_Amount req, xv_FeeAmount = xq_FeeAmount req,
     xv_FeeCurrency = feeC, xv_IdempotencyKey = TrimSpace (xq_IdempotencyKey req)\<rparr>"
  have v: "transfer_ValidateCreate D (Some v) = Inr ()" and f: "fromAmount = RoundForCurrency D (xq_Amount req) fromC"
    and t: "toAmount = fromAmount \<or> (\<exists>c rt. ConvertDecimalAmount D latest fromAmount fromC toC = Inr (c, rt) \<and>
      toAmount = RoundForCurrency D c toC)"
    using assms by (auto simp: prepareTransfer_def Let_def v_def split: if_splits sum.splits)
  then have ok: "has_scale (currency_digits fromC) (val (xq_Amount req))"
    using v [unfolded transfer_ValidateCreate_ok_iff] by (simp add: v_def)
  then have fv: "val fromAmount = val (xq_Amount req)" by (simp add: f val_RoundForCurrency round_away_id)
  have "val toAmount = val (xq_Amount req)" if "fromC = toC"
    using t that fv ok
    by (auto simp: ConvertDecimalAmount_def Let_def val_RoundForCurrency round_away_id split: if_splits)
  with fv v [unfolded transfer_ValidateCreate_ok_iff] show ?thesis by (simp add: v_def)
qed

lemma transfer_effect:
  assumes ok: "ledger_ok D s"
    and run: "TransferService_Create D uuidParse latest ctx ids now (Some req) s = (Inr resp, s')"
  obtains src dst tr where
    "find (has_owner (TrimSpace (xq_FromAccountID req)) (TrimSpace (xq_UserID req))) (db_accounts s) = Some src"
    "find (has_owner (TrimSpace (xq_ToAccountID req)) (TrimSpace (xq_UserID req))) (db_accounts s) = Some dst"
    "TrimSpace (xq_FromAccountID req) \<noteq> TrimSpace (xq_ToAccountID req)"
    "0 < val (xq_Amount req)" "0 \<le> val (xq_FeeAmount req)"
    "db_accounts s' = db_accounts s" "db_transfers s' = db_transfers s @ [tr]"
    "x_ID tr = id_transfer ids" "x_FromAccountID tr = TrimSpace (xq_FromAccountID req)"
    "x_ToAccountID tr = TrimSpace (xq_ToAccountID req)" "x_UserID tr = TrimSpace (xq_UserID req)"
    "x_IdempotencyKey tr = TrimSpace (xq_IdempotencyKey req)" "val (x_FromAmount tr) = val (xq_Amount req)"
    "transfer_keys_free s tr"
    "a_Currency src = a_Currency dst \<longrightarrow> val (x_ToAmount tr) = val (xq_Amount req)"
    "\<And>a. ledger val a (db_transactions s') = ledger val a (db_transactions s) +
       (if a = TrimSpace (xq_FromAccountID req) then - val (xq_Amount req) - val (xq_FeeAmount req)
        else if a = TrimSpace (xq_ToAccountID req) then val (x_ToAmount tr) else 0)"
    "val (xq_Amount req) + val (xq_FeeAmount req) \<le>
       ledger val (TrimSpace (xq_FromAccountID req)) (db_transactions s)"
    "ledger_ok D s'"
proof -
  let ?from = "TrimSpace (xq_FromAccountID req)" and ?to = "TrimSpace (xq_ToAccountID req)"
  obtain src dst feeC fromAmount toAmount rate ts tr0 linked where
    acc: "find (has_owner ?from (TrimSpace (xq_UserID req))) (db_accounts s) = Some src"
      "find (has_owner ?to (TrimSpace (xq_UserID req))) (db_accounts s) = Some dst"
    and prep: "prepareTransfer D latest req (a_Currency src) (a_Currency dst) = Inr (feeC, fromAmount, toAmount, rate)"
    and rows: "transfer_rows D ids ?from ?to fromAmount toAmount (xq_FeeAmount req) ts"
    and tr0: "tr0 = fst (linkTransfer (newTransfer D (id_transfer ids) now req (a_Currency src) (a_Currency dst)
        (feeC, fromAmount, toAmount, rate)) ts)"
    and linked: "linked = snd (linkTransfer (newTransfer D (id_transfer ids) now req (a_Currency src) (a_Currency dst)
        (feeC, fromAmount, toAmount, rate)) ts)"
    and cr: "TransactionRepository_CreateTransfer D (id_event ids) now tr0 linked s = (Inr (), s')"
    using TransferService_Create_Inr [OF run] by metis
  note p = prepareTransfer_Inr [OF prep]
  have f: "x_FromAccountID tr0 = ?from" "x_ToAccountID tr0 = ?to" "x_FromAmount tr0 = fromAmount"
    "x_ToAmount tr0 = toAmount" "x_FeeAmount tr0 = xq_FeeAmount req" "x_ID tr0 = id_transfer ids"
    "x_UserID tr0 = TrimSpace (xq_UserID req)" "x_IdempotencyKey tr0 = TrimSpace (xq_IdempotencyKey req)"
    by (simp_all add: tr0 linkTransfer_def newTransfer_def)
  define tr where "tr = normalizeTransfer tr0"
  obtain balance where bal: "transferSourceBalance D ?from s = (Inr balance, s)"
    and enough: "\<not> d_LessThan D balance fromAmount"
      "d_IsPositive D (xq_FeeAmount req) \<longrightarrow> \<not> d_LessThan D balance (d_Add D fromAmount (xq_FeeAmount req))"
    and keys: "transfer_keys_free s tr"
    and s': "\<exists>es. s' = s\<lparr>db_transfers := db_transfers s @ [tr],
       db_transactions := db_transactions s @ map (normalizeTransaction \<circ> of_transfer tr) linked, db_audit := es\<rparr>"
    using CreateTransfer_Inr [OF cr] unfolding f tr_def by metis
  have rowsok: "rows_ok D s" using ok by (simp add: ledger_ok_def)
  have balv: "val balance = ledger val ?from (db_transactions s)"
    using transferSourceBalance_ledger [OF rowsok, of ?from] bal by auto
  have rows2: "transfer_rows D ids ?from ?to fromAmount toAmount (xq_FeeAmount req)
      (map (normalizeTransaction \<circ> of_transfer tr) linked)"
    unfolding linked by (rule transfer_rows_linked(1) [OF rows])
  have new: "ledger val a (db_transactions s') = ledger val a (db_transactions s) +
       (if a = ?from then - val (xq_Amount req) - val (xq_FeeAmount req)
        else if a = ?to then val (x_ToAmount tr) else 0)" for a
    using s' p transfer_rows_ledger [OF rows2, where a = a] by (auto simp: f tr_def)
  have le: "val (xq_Amount req) + val (xq_FeeAmount req) \<le> ledger val ?from (db_transactions s)"
    using enough p balv by (cases "0 < val (xq_FeeAmount req)") (auto simp: not_less)
  show thesis
    by (rule that [of src dst tr])
      (use acc p f new le keys s' keepsD [OF transfer_create.keeps_ledger ok cr] in
        \<open>auto simp: tr_def normalizeTransfer_def\<close>)
qed

end

section \<open>Properties\<close>

lemma keeps_transfer_build [keeps_intros]: "keeps P (slift (buildAll D uuidParse ctx now rs))"
  by (intro keeps_intros)

interpretation service_transfer:
  ledger_operation D "TransferService_Create D uuidParse latest ctx ids now r"
  for D uuidParse latest ctx ids now r
  unfolding TransferService_Create_def TransactionService_CreateTransfer_def
    AccountRepository_GetByIDForUser_def
  by (intro operation_intros keeps_intros transfer_create.ledger_operation_axioms)

text \<open>C1. A transfer that succeeds takes the amount and the fee from the source account, gives the
  converted amount to the destination account, and changes no other balance; it is recorded as
  one transfer of the user, between two distinct accounts the user owns, and it never overdraws
  the source account. The database invariant (every transfer whole, every row valid) still holds.\<close>

theorem transfer_moves_money:
  assumes "decimal_pkg D val" "ledger_ok D s"
    "TransferService_Create D uuidParse latest ctx ids now (Some req) s = (Inr resp, s')"
    "from = TrimSpace (xq_FromAccountID req)" "to = TrimSpace (xq_ToAccountID req)"
  shows "\<exists>tr. db_transfers s' = db_transfers s @ [tr] \<and> x_UserID tr = TrimSpace (xq_UserID req) \<and>
    x_FromAccountID tr = from \<and> x_ToAccountID tr = to \<and> from \<noteq> to \<and>
    list_ex (has_owner from (x_UserID tr)) (db_accounts s) \<and>
    list_ex (has_owner to (x_UserID tr)) (db_accounts s) \<and>
    0 < val (xq_Amount req) \<and> 0 \<le> val (xq_FeeAmount req) \<and>
    ledger val from (db_transactions s') =
      ledger val from (db_transactions s) - val (xq_Amount req) - val (xq_FeeAmount req) \<and>
    ledger val to (db_transactions s') = ledger val to (db_transactions s) + val (x_ToAmount tr) \<and>
    (\<forall>a. a \<noteq> from \<longrightarrow> a \<noteq> to \<longrightarrow> ledger val a (db_transactions s') = ledger val a (db_transactions s)) \<and>
    0 \<le> ledger val from (db_transactions s') \<and> ledger_ok D s'" (is ?goal)
proof (rule decimal_pkg.transfer_effect [OF assms(1-3)])
  fix src dst tr
  assume acc: "find (has_owner (TrimSpace (xq_FromAccountID req)) (TrimSpace (xq_UserID req))) (db_accounts s) = Some src"
    "find (has_owner (TrimSpace (xq_ToAccountID req)) (TrimSpace (xq_UserID req))) (db_accounts s) = Some dst"
    and e: "TrimSpace (xq_FromAccountID req) \<noteq> TrimSpace (xq_ToAccountID req)"
    "0 < val (xq_Amount req)" "0 \<le> val (xq_FeeAmount req)" "db_transfers s' = db_transfers s @ [tr]"
    "x_FromAccountID tr = TrimSpace (xq_FromAccountID req)"
    "x_ToAccountID tr = TrimSpace (xq_ToAccountID req)" "x_UserID tr = TrimSpace (xq_UserID req)"
    "\<And>a. ledger val a (db_transactions s') = ledger val a (db_transactions s) +
       (if a = TrimSpace (xq_FromAccountID req) then - val (xq_Amount req) - val (xq_FeeAmount req)
        else if a = TrimSpace (xq_ToAccountID req) then val (x_ToAmount tr) else 0)"
    "val (xq_Amount req) + val (xq_FeeAmount req) \<le>
       ledger val (TrimSpace (xq_FromAccountID req)) (db_transactions s)"
    "ledger_ok D s'"
  have "list_ex (has_owner from (x_UserID tr)) (db_accounts s)" "list_ex (has_owner to (x_UserID tr)) (db_accounts s)"
    using find_has_owner [OF acc(1)] find_has_owner [OF acc(2)] e(7) assms(4,5)
    by (auto simp: list_ex_iff has_owner_def)
  with e assms(4,5) show ?goal by (intro exI [of _ tr]) auto
qed

definition sample_user :: User where
  "sample_user =
     \<lparr>u_ID = ''U'', u_Email = ''u@example.com'', u_PasswordHash = '''', u_PrimaryCurrency = ''RUB'',
      u_EmailVerifiedAt = None, u_EmailVerificationTokenHash = None, u_EmailVerificationSentAt = None,
      u_FailedLoginAttempts = 0, u_LockedUntil = None, u_CreatedAt = day_time 737000,
      u_UpdatedAt = day_time 737000\<rparr>"

definition transfer_db :: "dec db" where
  "transfer_db = sample_db\<lparr>db_users := [sample_user]\<rparr>"

definition sample_transfer_request :: "dec CreateTransferRequest" where
  "sample_transfer_request =
     \<lparr>xq_UserID = ''U'', xq_FromAccountID = ''A'', xq_ToAccountID = ''B'', xq_FromCurrency = '''',
      xq_ToCurrency = '''', xq_Amount = Dec 25050 2, xq_FeeAmount = Dec 5 0, xq_FeeCurrency = '''',
      xq_Description = '''', xq_IdempotencyKey = ''k1''\<rparr>"

definition sample_ids :: transfer_ids where
  "sample_ids = \<lparr>id_transfer = ''x1'', id_out = ''o1'', id_in = ''i1'', id_fee = ''f1'', id_event = ''e1''\<rparr>"

text \<open>The sample transfer succeeds: 250.50 and a fee of 5 out of 1000.\<close>

abbreviation "sample_transfer_run \<equiv>
  TransferService_Create dec_ops (\<lambda>_. True) (\<lambda>_. Inl (Errorf ''offline'')) None sample_ids (day_time 738001)
    (Some sample_transfer_request) transfer_db"

lemma sample_trims:
  "TrimSpace ''A'' = ''A''" "TrimSpace ''B'' = ''B''" "TrimSpace ''U'' = ''U''" "TrimSpace ''k1'' = ''k1''"
  by code_simp+

lemma sample_transfer_ok: "\<exists>resp. sample_transfer_run = (Inr resp, snd sample_transfer_run)"
proof -
  let ?src = "sample_account ''A'' ''U'' ''RUB''" and ?dst = "sample_account ''B'' ''U'' ''RUB''"
  let ?prep = "(''RUB'', Dec 25050 2, Dec 25050 2, ''1'')"
  define tr where "tr = newTransfer dec_ops ''x1'' (day_time 738001) sample_transfer_request ''RUB'' ''RUB'' ?prep"
  define reqs where "reqs = transferRequests dec_ops sample_ids sample_transfer_request ''RUB'' ''RUB'' ?prep"
  have acc: "find (has_owner ''A'' ''U'') (db_accounts transfer_db) = Some ?src"
    "find (has_owner ''B'' ''U'') (db_accounts transfer_db) = Some ?dst"
    "a_Currency ?src = ''RUB''" "a_Currency ?dst = ''RUB''" by code_simp+
  have prep: "prepareTransfer dec_ops (\<lambda>_. Inl (Errorf ''offline'')) sample_transfer_request ''RUB'' ''RUB'' = Inr ?prep"
    by code_simp
  have req: "xq_FromAccountID sample_transfer_request = ''A''" "xq_ToAccountID sample_transfer_request = ''B''"
    "xq_UserID sample_transfer_request = ''U''" "id_transfer sample_ids = ''x1''" by code_simp+
  obtain ts where ts: "buildAll dec_ops (\<lambda>_. True) None (day_time 738001) reqs = Inr ts" and len: "length ts = 3"
  proof -
    let ?b = "buildAll dec_ops (\<lambda>_. True) None (day_time 738001) reqs"
    have "(case ?b of Inr ts \<Rightarrow> length ts = 3 | Inl e \<Rightarrow> False)" unfolding reqs_def by code_simp
    then show thesis by (cases ?b) (auto intro: that)
  qed
  have "isOk (fst (TransactionRepository_CreateTransfer dec_ops ''e1'' (day_time 738001)
      (fst (linkTransfer tr ts)) (snd (linkTransfer tr ts)) transfer_db))"
  proof -
    let ?b = "buildAll dec_ops (\<lambda>_. True) None (day_time 738001) reqs"
    have "(case ?b of Inr ts \<Rightarrow> isOk (fst (TransactionRepository_CreateTransfer dec_ops ''e1'' (day_time 738001)
      (fst (linkTransfer tr ts)) (snd (linkTransfer tr ts)) transfer_db)) | Inl e \<Rightarrow> False)"
      unfolding reqs_def tr_def by code_simp
    with ts show ?thesis by simp
  qed
  then obtain t where t: "TransactionRepository_CreateTransfer dec_ops ''e1'' (day_time 738001)
      (fst (linkTransfer tr ts)) (snd (linkTransfer tr ts)) transfer_db = (Inr (), t)"
    by (metis isOk_iff prod.collapse unit.exhaust)
  have ev: "id_event sample_ids = ''e1''" by code_simp
  have "TransactionService_CreateTransfer dec_ops (\<lambda>_. True) None ''e1'' (day_time 738001) tr reqs transfer_db =
      (Inr (snd (linkTransfer tr ts)), t)"
    using t len
    by (simp add: TransactionService_CreateTransfer_def ts sbind_def scheck_def swrap_def case_prod_beta)
  then have "\<exists>resp t. sample_transfer_run = (Inr resp, t)"
    unfolding TransferService_Create_def
    by (simp add: req sample_trims AccountRepository_GetByIDForUser_def getAccount_def QueryRow_def acc sbind_def
        swrap_def prep ev Let_def tr_def [symmetric] reqs_def [symmetric])
  then show ?thesis by (metis snd_conv)
qed

lemma transfer_db_ok: "ledger_ok dec_ops transfer_db"
  by code_simp

theorem transfer_moves_money_witness:
  "ledger dval ''A'' (db_transactions (snd sample_transfer_run)) = 1489 / 2"
proof -
  obtain resp where r: "sample_transfer_run = (Inr resp, snd sample_transfer_run)"
    using sample_transfer_ok by blast
  have "ledger dval ''A'' (db_transactions transfer_db) = 1000"
    "TrimSpace (xq_FromAccountID sample_transfer_request) = ''A''"
    "dval (xq_Amount sample_transfer_request) = 501 / 2" "dval (xq_FeeAmount sample_transfer_request) = 5"
    by code_simp+
  with transfer_moves_money [OF decimal_pkg_dec transfer_db_ok r refl refl] show ?thesis by auto
qed

text \<open>C2. Between two accounts of the same currency a transfer conserves money: what the destination
  account gains is the amount the source account loses, and the total of the two falls by the
  fee alone.\<close>

theorem transfer_conserves_money:
  assumes "decimal_pkg D val" "ledger_ok D s"
    "TransferService_Create D uuidParse latest ctx ids now (Some req) s = (Inr resp, s')"
    "\<forall>a\<in>set (db_accounts s). \<forall>b\<in>set (db_accounts s).
       a_ID a = TrimSpace (xq_FromAccountID req) \<longrightarrow> a_ID b = TrimSpace (xq_ToAccountID req) \<longrightarrow>
       a_Currency a = a_Currency b"
  shows "ledger val (TrimSpace (xq_FromAccountID req)) (db_transactions s') +
      ledger val (TrimSpace (xq_ToAccountID req)) (db_transactions s') =
    ledger val (TrimSpace (xq_FromAccountID req)) (db_transactions s) +
      ledger val (TrimSpace (xq_ToAccountID req)) (db_transactions s) - val (xq_FeeAmount req)"
proof (rule decimal_pkg.transfer_effect [OF assms(1-3)])
  fix src dst tr
  assume acc: "find (has_owner (TrimSpace (xq_FromAccountID req)) (TrimSpace (xq_UserID req))) (db_accounts s) = Some src"
    "find (has_owner (TrimSpace (xq_ToAccountID req)) (TrimSpace (xq_UserID req))) (db_accounts s) = Some dst"
    and e: "TrimSpace (xq_FromAccountID req) \<noteq> TrimSpace (xq_ToAccountID req)"
    "a_Currency src = a_Currency dst \<longrightarrow> val (x_ToAmount tr) = val (xq_Amount req)"
    "\<And>a. ledger val a (db_transactions s') = ledger val a (db_transactions s) +
       (if a = TrimSpace (xq_FromAccountID req) then - val (xq_Amount req) - val (xq_FeeAmount req)
        else if a = TrimSpace (xq_ToAccountID req) then val (x_ToAmount tr) else 0)"
  have "a_Currency src = a_Currency dst"
    using assms(4) find_has_owner [OF acc(1)] find_has_owner [OF acc(2)] by blast
  with e show ?thesis by simp
qed

theorem transfer_conserves_money_witness:
  "ledger dval ''A'' (db_transactions (snd sample_transfer_run)) +
     ledger dval ''B'' (db_transactions (snd sample_transfer_run)) = 995"
proof -
  obtain resp where r: "sample_transfer_run = (Inr resp, snd sample_transfer_run)"
    using sample_transfer_ok by blast
  have cur: "\<forall>a\<in>set (db_accounts transfer_db). \<forall>b\<in>set (db_accounts transfer_db).
       a_ID a = TrimSpace (xq_FromAccountID sample_transfer_request) \<longrightarrow>
       a_ID b = TrimSpace (xq_ToAccountID sample_transfer_request) \<longrightarrow> a_Currency a = a_Currency b"
    by code_simp
  have "ledger dval ''A'' (db_transactions transfer_db) = 1000" "ledger dval ''B'' (db_transactions transfer_db) = 0"
    "TrimSpace (xq_FromAccountID sample_transfer_request) = ''A''"
    "TrimSpace (xq_ToAccountID sample_transfer_request) = ''B''" "dval (xq_FeeAmount sample_transfer_request) = 5"
    by code_simp+
  with transfer_conserves_money [OF decimal_pkg_dec transfer_db_ok r cur] show ?thesis by simp
qed

text \<open>C3. An idempotency key is spent once: a transfer that succeeds had a key no earlier transfer of
  the user carries, so a repeated request never makes a second transfer; and a transfer that fails,
  at whatever step, leaves the database exactly as it was.\<close>

theorem transfer_once_and_atomic:
  assumes "decimal_pkg D val" "ledger_ok D s"
  shows "(\<forall>resp s'. TransferService_Create D uuidParse latest ctx ids now (Some req) s = (Inr resp, s') \<longrightarrow>
      (\<forall>q\<in>set (db_transfers s). x_UserID q = TrimSpace (xq_UserID req) \<longrightarrow>
         x_IdempotencyKey q \<noteq> TrimSpace (xq_IdempotencyKey req))) \<and>
    (\<forall>e s'. TransferService_Create D uuidParse latest ctx ids now (Some req) s = (Inl e, s') \<longrightarrow> s' = s)"
proof (intro conjI allI impI ballI)
  fix resp s' q
  assume run: "TransferService_Create D uuidParse latest ctx ids now (Some req) s = (Inr resp, s')"
    and q: "q \<in> set (db_transfers s)" "x_UserID q = TrimSpace (xq_UserID req)"
  obtain tr where tr: "x_UserID tr = TrimSpace (xq_UserID req)"
    "x_IdempotencyKey tr = TrimSpace (xq_IdempotencyKey req)" "transfer_keys_free s tr"
    by (rule decimal_pkg.transfer_effect [OF assms run])
  have "TrimSpace (xq_IdempotencyKey req) \<noteq> []"
    by (rule TransferService_Create_Inr [OF run]) (use decimal_pkg.prepareTransfer_Inr [OF assms(1)] in blast)
  with tr q show "x_IdempotencyKey q \<noteq> TrimSpace (xq_IdempotencyKey req)"
    by (auto simp: transfer_keys_free_def list_all_iff)
next
  fix e s' assume "TransferService_Create D uuidParse latest ctx ids now (Some req) s = (Inl e, s')"
  then show "s' = s" by (rule service_transfer.atomic)
qed

theorem transfer_once_and_atomic_witness:
  "\<exists>resp. sample_transfer_run = (Inr resp, snd sample_transfer_run) \<and>
     (\<forall>q\<in>set (db_transfers transfer_db). x_UserID q = TrimSpace (xq_UserID sample_transfer_request) \<longrightarrow>
        x_IdempotencyKey q \<noteq> TrimSpace (xq_IdempotencyKey sample_transfer_request))"
proof -
  obtain resp where r: "sample_transfer_run = (Inr resp, snd sample_transfer_run)"
    using sample_transfer_ok by blast
  with transfer_once_and_atomic [OF decimal_pkg_dec transfer_db_ok] show ?thesis by blast
qed

end
