(* ===== verification/Idempotency.thy ===== *)
theory Idempotency
  imports Http Accounts Go_Bytes
begin

text \<open>
  Idempotent requests: the middleware of \<^verbatim>\<open>internal/http/middleware/idempotency.go\<close> and the store of
  \<^verbatim>\<open>internal/postgres/idempotency.go\<close>. A mutation with an \<^verbatim>\<open>Idempotency-Key\<close> first inserts a pending
  record; the request that inserts it runs the handler and completes the record with the
  answer; every other request of the same key, user, method and path is answered from the
  record.

  The middleware takes the store as an interface. The locale \<open>idempotency_store\<close> states what it
  relies on, and is interpreted on the PostgreSQL repository. The readings of clocks (of the
  program and of SQL's \<^verbatim>\<open>now()\<close>) are given by their position; \<^verbatim>\<open>crypto/sha256\<close> is the argument
  \<open>sha256\<close>.

  The second half of the theory is the concurrent system: any number of requests, each a
  process that executes the statements of the middleware one at a time, interleaved at will,
  with crashes and failing statements. The lemmas show that the handler of a key runs at most
  once until its completed record has expired, and that every request can always be answered.
\<close>

section \<open>The repository\<close>

type_synonym idem_key = "string \<times> string \<times> string \<times> string"

definition ik_key :: "IdempotencyRecord \<Rightarrow> idem_key" where
  "ik_key r = (ik_Key r, ik_UserID r, ik_Method r, ik_Path r)"

definition IdempotencyRepository_Get ::
  "time \<Rightarrow> string \<Rightarrow> string \<Rightarrow> string \<Rightarrow> string \<Rightarrow> ('d, IdempotencyRecord) dbstm" where
  "IdempotencyRepository_Get sqlNow key userID method path =
     sread (\<lambda>s. ewrap ''get idempotency key''
       (case QueryRow (\<lambda>r. ik_key r = (key, userID, method, path) \<and> After (ik_ExpiresAt r) sqlNow) (db_idempotency s) of
          Inr r \<Rightarrow> Inr r | Inl e \<Rightarrow> Inl (mapNotFound e)))"

text \<open>The record as \<^verbatim>\<open>CreatePending\<close> leaves it and inserts it: the columns of the answer are null.\<close>

definition pendingRecord :: "time \<Rightarrow> string \<Rightarrow> IdempotencyRecord \<Rightarrow> IdempotencyRecord" where
  "pendingRecord clock newID record =
     (let now = (if IsZero (ik_CreatedAt record) then UTC clock else ik_CreatedAt record)
      in record\<lparr>ik_ID := (if ik_ID record = '''' then newID else ik_ID record),
           ik_Endpoint := ik_Method record @ '' '' @ ik_Path record, ik_Status := ''pending'',
           ik_StatusCode := None, ik_ResponseBody := '''', ik_LockedUntil := Some (TimeAdd now (30 * ns_per_second)),
           ik_CreatedAt := now, ik_UpdatedAt := now\<rparr>)"

definition expiredCompleted :: "time \<Rightarrow> IdempotencyRecord \<Rightarrow> bool" where
  "expiredCompleted sqlNow r = (ik_Status r = ''completed'' \<and> \<not> After (ik_ExpiresAt r) sqlNow)"

definition deleteExpired :: "time \<Rightarrow> ('d, unit) dbstm" where
  "deleteExpired sqlNow =
     swrite (\<lambda>s. s\<lparr>db_idempotency := filter (\<lambda>r. \<not> expiredCompleted sqlNow r) (db_idempotency s)\<rparr>)"

text \<open>\<^verbatim>\<open>INSERT ... ON CONFLICT (key, user_id, method, path) DO NOTHING\<close>: whether a row was inserted.\<close>

definition insertPending :: "IdempotencyRecord \<Rightarrow> ('d, bool) dbstm" where
  "insertPending record s =
     (if ik_key record \<in> set (map ik_key (db_idempotency s)) then (Inr False, s)
      else case row_guard True (ik_ID record \<notin> set (map ik_ID (db_idempotency s)))
             (ik_UserID record \<in> set (map u_ID (db_users s))) of
             Inl e \<Rightarrow> (Inl (Wrapped ''create idempotency key'' e), s)
           | Inr _ \<Rightarrow> (Inr True, s\<lparr>db_idempotency := db_idempotency s @ [record]\<rparr>))"

definition IdempotencyRepository_CreatePending ::
  "time \<Rightarrow> time \<Rightarrow> string \<Rightarrow> IdempotencyRecord \<Rightarrow> ('d, bool) dbstm" where
  "IdempotencyRepository_CreatePending clock sqlNow newID record =
     sbind (swrap ''delete expired idempotency keys'' (deleteExpired sqlNow)) (\<lambda>_.
     insertPending (pendingRecord clock newID record))"

definition completedRecord :: "time \<Rightarrow> int \<Rightarrow> string \<Rightarrow> IdempotencyRecord \<Rightarrow> IdempotencyRecord" where
  "completedRecord sqlNow statusCode responseBody r =
     r\<lparr>ik_Status := ''completed'', ik_StatusCode := Some statusCode, ik_ResponseBody := responseBody,
       ik_LockedUntil := None, ik_UpdatedAt := sqlNow\<rparr>"

definition IdempotencyRepository_Complete ::
  "time \<Rightarrow> string \<Rightarrow> string \<Rightarrow> string \<Rightarrow> string \<Rightarrow> string \<Rightarrow> int \<Rightarrow> string \<Rightarrow> ('d, unit) dbstm" where
  "IdempotencyRepository_Complete sqlNow recordID key userID method path statusCode responseBody s =
     (let hit = (\<lambda>r. ik_ID r = recordID \<and> ik_key r = (key, userID, method, path) \<and> ik_Status r = ''pending'')
      in if \<not> list_ex hit (db_idempotency s)
         then (Inl (Wrapped ''complete idempotency key'' ErrNotFound), s)
         else (Inr (), s\<lparr>db_idempotency := map (\<lambda>r. if hit r then completedRecord sqlNow statusCode responseBody r else r)
                (db_idempotency s)\<rparr>))"

section \<open>The middleware\<close>

abbreviation "IdempotencyKeyHeader \<equiv> ''Idempotency-Key''"

definition normalizeIdempotencyKey :: "http_request \<Rightarrow> http_response + string \<times> http_request" where
  "normalizeIdempotencyKey r =
     (let key = TrimSpace (header_Get IdempotencyKeyHeader (hq_Header r))
      in if key = '''' then Inr ('''', r)
         else if length key > 255
         then Inl (JSONError 400 ''idempotency_key_too_long'' ''Idempotency key is too long'')
         else Inr (key, r\<lparr>hq_Header := header_Set IdempotencyKeyHeader key (hq_Header r)\<rparr>))"

definition RequireIdempotencyKey :: "'s served \<Rightarrow> 's served" where
  "RequireIdempotencyKey next r h s =
     (case normalizeIdempotencyKey r of
        Inl answer \<Rightarrow> (answer, s)
      | Inr (key, r) \<Rightarrow>
          if key = '''' then (JSONError 428 ''idempotency_key_required'' ''Idempotency key is required'', s)
          else next r h s)"

definition MutationOnly :: "('s served \<Rightarrow> 's served) option \<Rightarrow> 's served \<Rightarrow> 's served" where
  "MutationOnly middleware next r h s =
     (case middleware of
        None \<Rightarrow> next r h s
      | Some m \<Rightarrow> if hq_Method r \<in> {''POST'', ''PATCH'', ''DELETE''} then m next r h s else next r h s)"

definition hashRequestBody :: "(string \<Rightarrow> string) \<Rightarrow> string \<Rightarrow> string" where
  "hashRequestBody sha256 body = hex_EncodeToString (sha256 body)"

text \<open>The clock readings of one request, in the order in which the code takes them: \<^verbatim>\<open>CreatedAt\<close>, the
  base of \<^verbatim>\<open>ExpiresAt\<close>, \<^verbatim>\<open>now()\<close> of the deletion, of \<^verbatim>\<open>Get\<close>, the check of the lock, \<^verbatim>\<open>now()\<close> of the
  completion.\<close>

definition newRecord ::
  "(string \<Rightarrow> string) \<Rightarrow> (nat \<Rightarrow> time) \<Rightarrow> string \<Rightarrow> string \<Rightarrow> string \<Rightarrow> http_request \<Rightarrow> string \<Rightarrow> IdempotencyRecord" where
  "newRecord sha256 clock newID key userID r body =
     \<lparr>ik_ID = newID, ik_Key = key, ik_UserID = userID, ik_Method = hq_Method r, ik_Path = hq_Path r,
      ik_Endpoint = '''', ik_RequestHash = hashRequestBody sha256 body, ik_Status = '''', ik_StatusCode = None,
      ik_ResponseBody = '''', ik_LockedUntil = None, ik_CreatedAt = UTC (clock 0), ik_UpdatedAt = zero_time,
      ik_ExpiresAt = TimeAdd (UTC (clock 1)) (24 * 60 * 60 * ns_per_second)\<rparr>"

text \<open>The answer from an existing record.\<close>

definition replyExisting :: "time \<Rightarrow> string \<Rightarrow> header \<Rightarrow> err + IdempotencyRecord \<Rightarrow> http_response" where
  "replyExisting now requestHash h found =
     (case found of
        Inl e \<Rightarrow>
          if errorsIs e ErrNotFound then JSONError 409 ''idempotency_key_conflict'' ''Idempotency key conflict''
          else JSONError 500 ''idempotency_check_failed'' ''Idempotency check failed''
      | Inr existing \<Rightarrow>
          if ik_RequestHash existing \<noteq> requestHash
          then JSONError 409 ''idempotency_key_reused'' ''Idempotency key reused with different request''
          else case ik_StatusCode existing of
            None \<Rightarrow>
              if (case ik_LockedUntil existing of None \<Rightarrow> True | Some lockedUntil \<Rightarrow> \<not> Before (UTC now) lockedUntil)
              then JSONError 409 ''idempotency_outcome_unknown''
                ''The earlier operation did not record a final response and may have completed. Reconcile its result before retrying. Do not use a new Idempotency-Key.''
              else JSONError 409 ''idempotency_in_progress'' ''Idempotency request is still in progress''
          | Some statusCode \<Rightarrow>
              Response (header_Set ''Content-Type'' ''application/json'' h) statusCode (ik_ResponseBody existing))"

text \<open>The answer after the handler, from the result of \<^verbatim>\<open>Complete\<close>.\<close>

definition replyHandled :: "header \<Rightarrow> captureResponseWriter \<Rightarrow> err + unit \<Rightarrow> http_response" where
  "replyHandled h rec completed =
     (case completed of
        Inl _ \<Rightarrow>
          if 200 \<le> capture_statusCode rec \<and> capture_statusCode rec < 300
          then JSONError 409 ''idempotency_completion_unknown''
            ''The operation may have completed, but idempotency state could not be persisted. Retry later with the same Idempotency-Key. Do not retry with a new key.''
          else JSONError 500 ''idempotency_completion_failed'' ''Idempotency completion failed''
      | Inr _ \<Rightarrow> capture_flushTo rec h)"

text \<open>The \<^verbatim>\<open>IdempotencyStore\<close> interface, over a state \<open>'s\<close>.\<close>

record 's store =
  st_Get :: "time \<Rightarrow> string \<Rightarrow> string \<Rightarrow> string \<Rightarrow> string \<Rightarrow> ('s, err, IdempotencyRecord) stm"
  st_CreatePending :: "time \<Rightarrow> time \<Rightarrow> string \<Rightarrow> IdempotencyRecord \<Rightarrow> ('s, err, bool) stm"
  st_Complete :: "time \<Rightarrow> string \<Rightarrow> string \<Rightarrow> string \<Rightarrow> string \<Rightarrow> string \<Rightarrow> int \<Rightarrow> string \<Rightarrow> ('s, err, unit) stm"

definition handleAdmitted ::
  "'s store \<Rightarrow> time \<Rightarrow> IdempotencyRecord \<Rightarrow> 's handler \<Rightarrow> 's served" where
  "handleAdmitted repo sqlNow record next r h s =
     (case captured next r h s of (rec, s1) \<Rightarrow>
        if capture_statusCode rec \<ge> 500 then (capture_flushTo rec h, s1)
        else case st_Complete repo sqlNow (ik_ID record) (ik_Key record) (ik_UserID record) (hq_Method r) (hq_Path r)
                    (capture_statusCode rec) (cw_body rec) s1 of
             (completed, s2) \<Rightarrow> (replyHandled h rec completed, s2))"

definition Idempotency ::
  "(string \<Rightarrow> string) \<Rightarrow> (nat \<Rightarrow> time) \<Rightarrow> string \<Rightarrow> 's store option \<Rightarrow> 's handler \<Rightarrow> 's served" where
  "Idempotency sha256 clock newID store next r h s =
     (case store of
        None \<Rightarrow> served next r h s
      | Some repo \<Rightarrow>
          (case normalizeIdempotencyKey r of
             Inl answer \<Rightarrow> (answer, s)
           | Inr (key, r) \<Rightarrow>
               if key = '''' then served next r h s
               else case hq_Claims r of
                 None \<Rightarrow> served next r h s
               | Some userID \<Rightarrow>
                   if userID = '''' then served next r h s
                   else case hq_Body r of
                     BodyTooLarge \<Rightarrow> (JSONError 413 ''request_too_large'' ''Request body is too large'', s)
                   | BodyError \<Rightarrow> (JSONError 400 ''validation_error'' ''Invalid request body'', s)
                   | BodyRead body \<Rightarrow>
                       let record = newRecord sha256 clock newID key userID r body
                       in case st_CreatePending repo (clock 0) (clock 2) newID record s of
                            (Inl e, s1) \<Rightarrow> (JSONError 500 ''idempotency_check_failed'' ''Idempotency check failed'', s1)
                          | (Inr False, s1) \<Rightarrow>
                              (case st_Get repo (clock 3) key userID (hq_Method r) (hq_Path r) s1 of
                                 (found, s2) \<Rightarrow> (replyExisting (clock 4) (ik_RequestHash record) h found, s2))
                          | (Inr True, s1) \<Rightarrow> handleAdmitted repo (clock 5) record next r h s1))"

definition postgres_store :: "'d db store" where
  "postgres_store =
     \<lparr>st_Get = IdempotencyRepository_Get, st_CreatePending = IdempotencyRepository_CreatePending,
      st_Complete = IdempotencyRepository_Complete\<rparr>"

section \<open>The contract of the store\<close>

text \<open>A request the middleware guards: a key, a user and a body that was read.\<close>

definition guarded :: "http_request \<Rightarrow> string \<Rightarrow> http_request \<Rightarrow> string \<Rightarrow> string \<Rightarrow> bool" where
  "guarded r key r' userID body \<longleftrightarrow>
     normalizeIdempotencyKey r = Inr (key, r') \<and> key \<noteq> '''' \<and> hq_Claims r' = Some userID \<and> userID \<noteq> '''' \<and>
     hq_Body r' = BodyRead body"

lemma Idempotency_guarded:
  assumes "guarded r key r' userID body"
  shows "Idempotency sha256 clock newID (Some repo) next r h s =
    (let record = newRecord sha256 clock newID key userID r' body
     in case st_CreatePending repo (clock 0) (clock 2) newID record s of
          (Inl e, s1) \<Rightarrow> (JSONError 500 ''idempotency_check_failed'' ''Idempotency check failed'', s1)
        | (Inr False, s1) \<Rightarrow>
            (case st_Get repo (clock 3) key userID (hq_Method r') (hq_Path r') s1 of
               (found, s2) \<Rightarrow> (replyExisting (clock 4) (ik_RequestHash record) h found, s2))
        | (Inr True, s1) \<Rightarrow> handleAdmitted repo (clock 5) record next r' h s1)"
  using assms by (simp add: Idempotency_def guarded_def)

text \<open>What the middleware relies on: \<open>lookup\<close> is the record of a key and \<open>ok\<close> the invariant of the
  store.\<close>

locale idempotency_store =
  fixes repo :: "'s store" and lookup :: "'s \<Rightarrow> idem_key \<Rightarrow> IdempotencyRecord option" and ok :: "'s \<Rightarrow> bool"
  assumes create_existing: "ok s \<Longrightarrow> lookup s (ik_key r) = Some e \<Longrightarrow> \<not> expiredCompleted n e \<Longrightarrow>
      \<exists>s'. st_CreatePending repo c n i r s = (Inr False, s') \<and> lookup s' (ik_key r) = Some e \<and> ok s'"
    and create_new: "ok s \<Longrightarrow> st_CreatePending repo c n i r s = (Inr True, s') \<Longrightarrow>
      lookup s' (ik_key r) = Some (pendingRecord c i r) \<and> ok s'"
    and get_live: "ok s \<Longrightarrow> lookup s (k, u, m, p) = Some r \<Longrightarrow> After (ik_ExpiresAt r) n \<Longrightarrow>
      st_Get repo n k u m p s = (Inr r, s)"
    and get_expired: "ok s \<Longrightarrow> lookup s (k, u, m, p) = Some r \<Longrightarrow> \<not> After (ik_ExpiresAt r) n \<Longrightarrow>
      \<exists>e. st_Get repo n k u m p s = (Inl e, s) \<and> errorsIs e ErrNotFound"
    and complete_pending: "ok s \<Longrightarrow> lookup s (k, u, m, p) = Some r \<Longrightarrow> ik_ID r = i \<Longrightarrow> ik_Status r = ''pending'' \<Longrightarrow>
      \<exists>s'. st_Complete repo n i k u m p code b s = (Inr (), s') \<and>
        lookup s' (k, u, m, p) = Some (completedRecord n code b r) \<and> ok s'"
begin

text \<open>A request that finds a record never runs its handler: it is answered from the record.\<close>

lemma answered_from_record:
  assumes "ok s" "guarded r key r' userID body" "lookup s (key, userID, hq_Method r', hq_Path r') = Some e"
    "\<not> expiredCompleted (clock 2) e"
  shows "\<exists>s'. Idempotency sha256 clock newID (Some repo) next r h s =
      ((if After (ik_ExpiresAt e) (clock 3)
        then replyExisting (clock 4) (hashRequestBody sha256 body) h (Inr e)
        else JSONError 409 ''idempotency_key_conflict'' ''Idempotency key conflict''), s') \<and>
      lookup s' (key, userID, hq_Method r', hq_Path r') = Some e \<and> ok s'"
proof -
  let ?rec = "newRecord sha256 clock newID key userID r' body"
  have key: "ik_key ?rec = (key, userID, hq_Method r', hq_Path r')" and hash: "ik_RequestHash ?rec = hashRequestBody sha256 body"
    by (simp_all add: newRecord_def ik_key_def)
  from create_existing [of s ?rec e "clock 2" "clock 0" newID] assms key obtain s1 where
    c: "st_CreatePending repo (clock 0) (clock 2) newID ?rec s = (Inr False, s1)"
    and l: "lookup s1 (key, userID, hq_Method r', hq_Path r') = Some e" and ok: "ok s1" by auto
  show ?thesis
  proof (cases "After (ik_ExpiresAt e) (clock 3)")
    case True
    from get_live [OF ok l True] c l ok hash True show ?thesis
      by (simp add: Idempotency_guarded [OF assms(2)] Let_def)
  next
    case False
    from get_expired [OF ok l False] obtain x where
      "st_Get repo (clock 3) key userID (hq_Method r') (hq_Path r') s1 = (Inl x, s1)" "errorsIs x ErrNotFound" by blast
    with c l ok False show ?thesis
      by (simp add: Idempotency_guarded [OF assms(2)] Let_def replyExisting_def)
  qed
qed

text \<open>The request that inserts the record runs its handler, and an answer below 500 is recorded.\<close>

lemma first_request:
  assumes "ok s" "guarded r key r' userID body" "newID \<noteq> ''''"
    and created: "st_CreatePending repo (clock 0) (clock 2) newID (newRecord sha256 clock newID key userID r' body) s = (Inr True, s1)"
    and handler: "captured next r' h s1 = (rec, s2)" "capture_statusCode rec < 500"
    and untouched: "ok s2" "lookup s2 (key, userID, hq_Method r', hq_Path r') = lookup s1 (key, userID, hq_Method r', hq_Path r')"
  shows "\<exists>s3. Idempotency sha256 clock newID (Some repo) next r h s = (capture_flushTo rec h, s3) \<and> ok s3 \<and>
    lookup s3 (key, userID, hq_Method r', hq_Path r') = Some (completedRecord (clock 5) (capture_statusCode rec) (cw_body rec)
      (pendingRecord (clock 0) newID (newRecord sha256 clock newID key userID r' body)))"
proof -
  let ?rec = "newRecord sha256 clock newID key userID r' body"
  let ?row = "pendingRecord (clock 0) newID ?rec"
  have key: "ik_key ?rec = (key, userID, hq_Method r', hq_Path r')" by (simp add: newRecord_def ik_key_def)
  have row: "ik_ID ?row = newID" "ik_Status ?row = ''pending''" "ik_ID ?rec = newID"
    using assms(3) by (simp_all add: pendingRecord_def newRecord_def Let_def)
  have "lookup s2 (key, userID, hq_Method r', hq_Path r') = Some ?row"
    using create_new [OF assms(1) created] untouched(2) key by simp
  from complete_pending [OF untouched(1) this row(1,2), of "clock 5" "capture_statusCode rec" "cw_body rec"] obtain s3 where
    "st_Complete repo (clock 5) newID key userID (hq_Method r') (hq_Path r') (capture_statusCode rec) (cw_body rec) s2 = (Inr (), s3)"
    "lookup s3 (key, userID, hq_Method r', hq_Path r') =
       Some (completedRecord (clock 5) (capture_statusCode rec) (cw_body rec) ?row)" "ok s3" by blast
  with created handler row(3) show ?thesis
    by (simp add: Idempotency_guarded [OF assms(2)] Let_def handleAdmitted_def replyHandled_def newRecord_def)
qed

end

text \<open>The PostgreSQL repository meets the contract.\<close>

definition idempotency_ok :: "'d db \<Rightarrow> bool" where
  "idempotency_ok s \<longleftrightarrow>
     distinct (map ik_key (db_idempotency s)) \<and> distinct (map ik_ID (db_idempotency s)) \<and>
     list_all (\<lambda>r. ik_Status r = ''pending'' \<and> ik_StatusCode r = None \<or>
       ik_Status r = ''completed'' \<and> ik_StatusCode r \<noteq> None) (db_idempotency s)"

definition idempotency_lookup :: "'d db \<Rightarrow> idem_key \<Rightarrow> IdempotencyRecord option" where
  "idempotency_lookup s k = find (\<lambda>r. ik_key r = k) (db_idempotency s)"

lemma find_key_iff:
  assumes "distinct (map f xs)"
  shows "find (\<lambda>x. f x = k) xs = Some y \<longleftrightarrow> y \<in> set xs \<and> f y = k"
  using assms by (induction xs) (auto simp: image_iff)

lemma idempotency_lookup_iff:
  "idempotency_ok s \<Longrightarrow> idempotency_lookup s k = Some r \<longleftrightarrow> r \<in> set (db_idempotency s) \<and> ik_key r = k"
  by (simp add: idempotency_lookup_def idempotency_ok_def find_key_iff)

lemma pendingRecord_fields [simp]:
  "ik_key (pendingRecord c i r) = ik_key r" "ik_Status (pendingRecord c i r) = ''pending''"
  "ik_StatusCode (pendingRecord c i r) = None" "ik_UserID (pendingRecord c i r) = ik_UserID r"
  "ik_ExpiresAt (pendingRecord c i r) = ik_ExpiresAt r" "ik_RequestHash (pendingRecord c i r) = ik_RequestHash r"
  by (simp_all add: pendingRecord_def ik_key_def Let_def)

lemma completedRecord_fields [simp]:
  "ik_key (completedRecord n c b r) = ik_key r" "ik_ID (completedRecord n c b r) = ik_ID r"
  "ik_Status (completedRecord n c b r) = ''completed''" "ik_StatusCode (completedRecord n c b r) = Some c"
  "ik_ResponseBody (completedRecord n c b r) = b" "ik_ExpiresAt (completedRecord n c b r) = ik_ExpiresAt r"
  "ik_RequestHash (completedRecord n c b r) = ik_RequestHash r"
  by (simp_all add: completedRecord_def ik_key_def)

lemma deleteExpired_ok:
  "idempotency_ok s \<Longrightarrow> idempotency_ok (snd (deleteExpired n s))"
  by (auto simp: deleteExpired_def idempotency_ok_def list_all_iff intro: distinct_map_filter)

lemma insertPending_True_iff:
  "insertPending r s = (Inr True, s') \<longleftrightarrow>
     ik_key r \<notin> set (map ik_key (db_idempotency s)) \<and> ik_ID r \<notin> set (map ik_ID (db_idempotency s)) \<and>
     ik_UserID r \<in> set (map u_ID (db_users s)) \<and> s' = s\<lparr>db_idempotency := db_idempotency s @ [r]\<rparr>"
  by (auto simp: insertPending_def row_guard_def split: sum.splits if_splits)

lemma Complete_Inr_iff:
  "IdempotencyRepository_Complete n i k u m p c b s = (Inr v, s') \<longleftrightarrow>
     (\<exists>r\<in>set (db_idempotency s). ik_ID r = i \<and> ik_key r = (k, u, m, p) \<and> ik_Status r = ''pending'') \<and>
     s' = s\<lparr>db_idempotency := map (\<lambda>r. if ik_ID r = i \<and> ik_key r = (k, u, m, p) \<and> ik_Status r = ''pending''
       then completedRecord n c b r else r) (db_idempotency s)\<rparr>"
  by (auto simp: IdempotencyRepository_Complete_def Let_def list_ex_iff)

lemma Complete_ok:
  assumes "idempotency_ok s" "IdempotencyRepository_Complete n i k u m p c b s = (r, s')"
  shows "idempotency_ok s'"
proof (cases r)
  case (Inl e)
  with assms show ?thesis by (auto simp: IdempotencyRepository_Complete_def Let_def split: if_splits)
next
  case (Inr v)
  let ?f = "\<lambda>r. if ik_ID r = i \<and> ik_key r = (k, u, m, p) \<and> ik_Status r = ''pending'' then completedRecord n c b r else r"
  have s': "db_idempotency s' = map ?f (db_idempotency s)" using assms(2) Inr by (simp add: Complete_Inr_iff)
  have "map ik_key (db_idempotency s') = map ik_key (db_idempotency s)" "map ik_ID (db_idempotency s') = map ik_ID (db_idempotency s)"
    by (simp_all add: s')
  with assms(1) show ?thesis unfolding idempotency_ok_def by (simp only: s') (auto simp: list_all_iff)
qed

interpretation postgres_idempotency: idempotency_store postgres_store idempotency_lookup idempotency_ok
proof
  fix s :: "'a db" and r e n c i
  assume ok: "idempotency_ok s" and e: "idempotency_lookup s (ik_key r) = Some e" "\<not> expiredCompleted n e"
  let ?s = "snd (deleteExpired n s)"
  have mem: "e \<in> set (db_idempotency ?s)" "ik_key e = ik_key r"
    using e ok by (auto simp: idempotency_lookup_iff deleteExpired_def)
  then have "ik_key r \<in> set (map ik_key (db_idempotency ?s))" by (metis image_eqI list.set_map)
  moreover have "idempotency_lookup ?s (ik_key r) = Some e" "idempotency_ok ?s"
    using mem deleteExpired_ok [OF ok, of n] by (simp_all add: idempotency_lookup_iff)
  ultimately show "\<exists>s'. st_CreatePending postgres_store c n i r s = (Inr False, s') \<and>
      idempotency_lookup s' (ik_key r) = Some e \<and> idempotency_ok s'"
    by (simp add: postgres_store_def IdempotencyRepository_CreatePending_def sbind_def swrap_def deleteExpired_def insertPending_def)
next
  fix s s' :: "'a db" and c n i r
  assume ok: "idempotency_ok s" and run: "st_CreatePending postgres_store c n i r s = (Inr True, s')"
  let ?s = "snd (deleteExpired n s)"
  have ins: "insertPending (pendingRecord c i r) ?s = (Inr True, s')"
    using run by (simp add: postgres_store_def IdempotencyRepository_CreatePending_def sbind_def swrap_def deleteExpired_def)
  then have "idempotency_ok s'" using deleteExpired_ok [OF ok, of n] by (auto simp: insertPending_True_iff idempotency_ok_def)
  with ins show "idempotency_lookup s' (ik_key r) = Some (pendingRecord c i r) \<and> idempotency_ok s'"
    by (auto simp: idempotency_lookup_iff insertPending_True_iff)
next
  fix s :: "'a db" and k u m p r n
  assume ok: "idempotency_ok s" and l: "idempotency_lookup s (k, u, m, p) = Some r" and live: "After (ik_ExpiresAt r) n"
  have "find (\<lambda>r. ik_key r = (k, u, m, p) \<and> After (ik_ExpiresAt r) n) (db_idempotency s) = Some r"
    using ok l live by (auto simp: idempotency_lookup_def idempotency_ok_def find_Some_iff)
  then show "st_Get postgres_store n k u m p s = (Inr r, s)"
    by (simp add: postgres_store_def IdempotencyRepository_Get_def QueryRow_def)
next
  fix s :: "'a db" and k u m p r n
  assume ok: "idempotency_ok s" and l: "idempotency_lookup s (k, u, m, p) = Some r" and dead: "\<not> After (ik_ExpiresAt r) n"
  have "find (\<lambda>r. ik_key r = (k, u, m, p) \<and> After (ik_ExpiresAt r) n) (db_idempotency s) = None"
    unfolding find_None_iff using idempotency_lookup_iff [OF ok, of "(k, u, m, p)"] l dead by (metis option.inject)
  then show "\<exists>e. st_Get postgres_store n k u m p s = (Inl e, s) \<and> errorsIs e ErrNotFound"
    by (simp add: postgres_store_def IdempotencyRepository_Get_def QueryRow_def mapNotFound_def errorsIs_def)
next
  fix s :: "'a db" and k u m p r i n c b
  assume ok: "idempotency_ok s" and l: "idempotency_lookup s (k, u, m, p) = Some r" and r: "ik_ID r = i" "ik_Status r = ''pending''"
  have mem: "r \<in> set (db_idempotency s)" "ik_key r = (k, u, m, p)" using ok l by (simp_all add: idempotency_lookup_iff)
  then obtain s' where run: "IdempotencyRepository_Complete n i k u m p c b s = (Inr (), s')"
    using r by (auto simp: Complete_Inr_iff)
  have "completedRecord n c b r \<in> set (db_idempotency s')" using run r mem by (force simp: Complete_Inr_iff)
  with run Complete_ok [OF ok run] mem(2) show "\<exists>s'. st_Complete postgres_store n i k u m p c b s = (Inr (), s') \<and>
      idempotency_lookup s' (k, u, m, p) = Some (completedRecord n c b r) \<and> idempotency_ok s'"
    by (auto simp: postgres_store_def idempotency_lookup_iff)
qed

section \<open>Concurrent requests\<close>

text \<open>Where a request is in the middleware: before it has built its record, before the deletion
  of expired records, before the insertion of its record, refused, admitted to its handler, with its handler done, and
  answered or lost with its process.\<close>

datatype idem_pc =
    Arrived
  | Prepared IdempotencyRecord
  | Purged IdempotencyRecord
  | Refused
  | Admitted IdempotencyRecord
  | Handled IdempotencyRecord captureResponseWriter
  | Answered http_response
  | Crashed

text \<open>The system: the database, the clock, the requests, and two histories, of the keys whose
  handlers ran and of the keys whose records were deleted.\<close>

record 'd idem_system =
  sy_db :: "'d db"
  sy_now :: time
  sy_pc :: "nat \<Rightarrow> idem_pc"
  sy_runs :: "idem_key list"
  sy_purged :: "idem_key list"

text \<open>What the requests are: their normalized request, key, user, body, handler and record id.\<close>

record 'd idem_load =
  ld_request :: "nat \<Rightarrow> http_request"
  ld_key :: "nat \<Rightarrow> string"
  ld_user :: "nat \<Rightarrow> string"
  ld_body :: "nat \<Rightarrow> string"
  ld_next :: "nat \<Rightarrow> 'd db handler"
  ld_id :: "nat \<Rightarrow> string"
  ld_header :: "nat \<Rightarrow> header"

definition load_key :: "'d idem_load \<Rightarrow> nat \<Rightarrow> idem_key" where
  "load_key L i = (ld_key L i, ld_user L i, hq_Method (ld_request L i), hq_Path (ld_request L i))"

definition goto :: "nat \<Rightarrow> idem_pc \<Rightarrow> 'd idem_system \<Rightarrow> 'd idem_system" where
  "goto i pc y = y\<lparr>sy_pc := (sy_pc y)(i := pc)\<rparr>"

text \<open>The statements of the middleware, each atomic. The clock stands still within a statement: the one
  reading of the state stands for the calls of \<^verbatim>\<open>time.Now()\<close> the code makes there. The database may
  fail at every statement that uses it, so the steps of a failing statement, which ends the request with
  the answer the middleware gives, are always possible; a process may be lost at any point.\<close>

inductive idem_step :: "(string \<Rightarrow> string) \<Rightarrow> 'd idem_load \<Rightarrow> 'd idem_system \<Rightarrow> 'd idem_system \<Rightarrow> bool"
  for sha256 L where
  tick: "t_ns (sy_now y) \<le> t_ns now \<Longrightarrow> idem_step sha256 L y (y\<lparr>sy_now := now\<rparr>)"
| prepare: "sy_pc y i = Arrived \<Longrightarrow>
    record = newRecord sha256 (\<lambda>_. sy_now y) (ld_id L i) (ld_key L i) (ld_user L i) (ld_request L i) (ld_body L i) \<Longrightarrow>
    idem_step sha256 L y (goto i (Prepared record) y)"
| purge: "sy_pc y i = Prepared record \<Longrightarrow> deleteExpired (sy_now y) (sy_db y) = (Inr (), d) \<Longrightarrow>
    idem_step sha256 L y (goto i (Purged record) (y\<lparr>sy_db := d,
      sy_purged := sy_purged y @ map ik_key (filter (expiredCompleted (sy_now y)) (db_idempotency (sy_db y)))\<rparr>))"
| insert: "sy_pc y i = Purged record \<Longrightarrow>
    insertPending (pendingRecord (sy_now y) (ld_id L i) record) (sy_db y) = (Inr True, d) \<Longrightarrow>
    idem_step sha256 L y (goto i (Admitted record) (y\<lparr>sy_db := d\<rparr>))"
| refuse: "sy_pc y i = Purged record \<Longrightarrow>
    insertPending (pendingRecord (sy_now y) (ld_id L i) record) (sy_db y) = (Inr False, d) \<Longrightarrow>
    idem_step sha256 L y (goto i Refused (y\<lparr>sy_db := d\<rparr>))"
| check_failed: "sy_pc y i \<in> {Refused} \<union> range Prepared \<union> range Purged \<Longrightarrow>
    idem_step sha256 L y (goto i (Answered (JSONError 500 ''idempotency_check_failed'' ''Idempotency check failed'')) y)"
| get: "sy_pc y i = Refused \<Longrightarrow>
    IdempotencyRepository_Get (sy_now y) (ld_key L i) (ld_user L i) (hq_Method (ld_request L i)) (hq_Path (ld_request L i))
      (sy_db y) = (found, d) \<Longrightarrow>
    idem_step sha256 L y (goto i (Answered (replyExisting (sy_now y) (hashRequestBody sha256 (ld_body L i)) (ld_header L i) found))
      (y\<lparr>sy_db := d\<rparr>))"
| handle: "sy_pc y i = Admitted record \<Longrightarrow>
    captured (ld_next L i) (ld_request L i) (ld_header L i) (sy_db y) = (rec, d) \<Longrightarrow>
    idem_step sha256 L y (goto i (if capture_statusCode rec \<ge> 500 then Answered (capture_flushTo rec (ld_header L i))
        else Handled record rec) (y\<lparr>sy_db := d, sy_runs := sy_runs y @ [load_key L i]\<rparr>))"
| complete: "sy_pc y i = Handled record rec \<Longrightarrow>
    IdempotencyRepository_Complete (sy_now y) (ik_ID record) (ik_Key record) (ik_UserID record) (hq_Method (ld_request L i))
      (hq_Path (ld_request L i)) (capture_statusCode rec) (cw_body rec) (sy_db y) = (completed, d) \<Longrightarrow>
    idem_step sha256 L y (goto i (Answered (replyHandled (ld_header L i) rec completed)) (y\<lparr>sy_db := d\<rparr>))"
| complete_failed: "sy_pc y i = Handled record rec \<Longrightarrow>
    idem_step sha256 L y (goto i (Answered (replyHandled (ld_header L i) rec (Inl e))) y)"
| crash: "sy_pc y i \<notin> range Answered \<Longrightarrow> idem_step sha256 L y (goto i Crashed y)"

text \<open>The load of a system: record ids are unique, and handlers leave the table of the keys alone.\<close>

definition idem_load_ok :: "'d idem_load \<Rightarrow> bool" where
  "idem_load_ok L \<longleftrightarrow> inj (ld_id L) \<and> (\<forall>i. ld_id L i \<noteq> '''') \<and>
     (\<forall>i r h s. db_idempotency (snd (captured (ld_next L i) r h s)) = db_idempotency s)"

definition idem_init :: "'d idem_system \<Rightarrow> bool" where
  "idem_init y \<longleftrightarrow> db_idempotency (sy_db y) = [] \<and> sy_pc y = (\<lambda>_. Arrived) \<and> sy_runs y = [] \<and> sy_purged y = []"

text \<open>The invariant. A request that is inserting has a fresh record of its own; a request in or past
  its handler owns a pending row; and the handler of a key ran at most once more than its
  records were deleted, not yet for the record of an admitted request.\<close>

definition owns :: "'d idem_load \<Rightarrow> 'd idem_system \<Rightarrow> nat \<Rightarrow> IdempotencyRecord \<Rightarrow> bool" where
  "owns L y i record \<longleftrightarrow> ik_ID record = ld_id L i \<and> ik_key record = load_key L i \<and>
     (\<exists>row\<in>set (db_idempotency (sy_db y)). ik_ID row = ld_id L i \<and> ik_key row = load_key L i \<and> ik_Status row = ''pending'')"

definition pc_ok :: "'d idem_load \<Rightarrow> 'd idem_system \<Rightarrow> nat \<Rightarrow> idem_pc \<Rightarrow> bool" where
  "pc_ok L y i pc =
     (case pc of
        Arrived \<Rightarrow> ld_id L i \<notin> set (map ik_ID (db_idempotency (sy_db y)))
      | Prepared record \<Rightarrow> ld_id L i \<notin> set (map ik_ID (db_idempotency (sy_db y))) \<and>
          ik_ID record = ld_id L i \<and> ik_key record = load_key L i
      | Purged record \<Rightarrow> ld_id L i \<notin> set (map ik_ID (db_idempotency (sy_db y))) \<and>
          ik_ID record = ld_id L i \<and> ik_key record = load_key L i
      | Admitted record \<Rightarrow> owns L y i record
      | Handled record rec \<Rightarrow> owns L y i record
      | _ \<Rightarrow> True)"

definition runs_ok :: "'d idem_load \<Rightarrow> 'd idem_system \<Rightarrow> idem_key \<Rightarrow> bool" where
  "runs_ok L y k \<longleftrightarrow>
     count_list (sy_runs y) k \<le> count_list (sy_purged y) k + (if k \<in> set (map ik_key (db_idempotency (sy_db y))) then 1 else 0) \<and>
     (\<forall>i record. sy_pc y i = Admitted record \<and> load_key L i = k \<longrightarrow> count_list (sy_runs y) k \<le> count_list (sy_purged y) k)"

definition idem_inv :: "'d idem_load \<Rightarrow> 'd idem_system \<Rightarrow> bool" where
  "idem_inv L y \<longleftrightarrow> idempotency_ok (sy_db y) \<and> (\<forall>i. pc_ok L y i (sy_pc y i)) \<and> (\<forall>k. runs_ok L y k)"

lemma idem_invD:
  assumes "idem_inv L y"
  shows "idempotency_ok (sy_db y)" "pc_ok L y i (sy_pc y i)" "runs_ok L y k"
  using assms unfolding idem_inv_def by blast+

lemma goto_simps [simp]:
  "sy_pc (goto i pc y) = (sy_pc y)(i := pc)" "sy_db (goto i pc y) = sy_db y" "sy_now (goto i pc y) = sy_now y"
  "sy_runs (goto i pc y) = sy_runs y" "sy_purged (goto i pc y) = sy_purged y"
  by (simp_all add: goto_def)

text \<open>A step of one request does not disturb the others: ids are only added for its own record, and
  pending rows of the others stay.\<close>

lemma pc_ok_other:
  assumes "pc_ok L y j pc" "inj (ld_id L)" "j \<noteq> i"
    "set (map ik_ID (db_idempotency (sy_db y'))) \<subseteq> insert (ld_id L i) (set (map ik_ID (db_idempotency (sy_db y))))"
    "\<And>row. row \<in> set (db_idempotency (sy_db y)) \<Longrightarrow> ik_Status row = ''pending'' \<Longrightarrow> ik_ID row \<noteq> ld_id L i \<Longrightarrow>
       row \<in> set (db_idempotency (sy_db y'))"
  shows "pc_ok L y' j pc"
proof -
  have ne: "ld_id L j \<noteq> ld_id L i" using assms(2,3) by (meson injD)
  have fresh: "ld_id L j \<notin> set (map ik_ID (db_idempotency (sy_db y'))) "
    if "ld_id L j \<notin> set (map ik_ID (db_idempotency (sy_db y)))" using that ne assms(4) by blast
  have own: "owns L y' j q" if "owns L y j q" for q
    using that ne assms(5) unfolding owns_def by metis
  show ?thesis using assms(1) fresh own by (cases pc) (auto simp: pc_ok_def)
qed

lemma idem_inv_goto:
  assumes "idem_inv L y" "inj (ld_id L)" "idempotency_ok (sy_db y')"
    "set (map ik_ID (db_idempotency (sy_db y'))) \<subseteq> insert (ld_id L i) (set (map ik_ID (db_idempotency (sy_db y))))"
    "\<And>row. row \<in> set (db_idempotency (sy_db y)) \<Longrightarrow> ik_Status row = ''pending'' \<Longrightarrow> ik_ID row \<noteq> ld_id L i \<Longrightarrow>
       row \<in> set (db_idempotency (sy_db y'))"
    "sy_pc y' = (sy_pc y)(i := pc)" "pc_ok L y' i pc" "\<And>k. runs_ok L y' k"
  shows "idem_inv L y'"
proof -
  have "pc_ok L y' j (sy_pc y' j)" for j
  proof (cases "j = i")
    case False
    then have "pc_ok L y j (sy_pc y' j)" using assms(1,6) by (simp add: idem_inv_def)
    then show ?thesis by (rule pc_ok_other [OF _ assms(2) False assms(4,5)])
  qed (use assms(6,7) in simp)
  with assms(3,8) show ?thesis by (simp add: idem_inv_def)
qed

text \<open>A step that leaves the keys and the histories alone and admits nobody keeps the count.\<close>

lemma runs_ok_same:
  assumes "runs_ok L y k" "sy_runs y' = sy_runs y" "sy_purged y' = sy_purged y"
    "set (map ik_key (db_idempotency (sy_db y'))) = set (map ik_key (db_idempotency (sy_db y)))"
    "\<And>j record. sy_pc y' j = Admitted record \<Longrightarrow> \<exists>record'. sy_pc y j = Admitted record'"
  shows "runs_ok L y' k"
  using assms unfolding runs_ok_def by (metis (no_types, lifting))

lemma idem_inv_local:
  assumes "idem_inv L y" "inj (ld_id L)" "pc_ok L y i pc" "\<And>record. pc \<noteq> Admitted record"
  shows "idem_inv L (goto i pc y)"
proof (rule idem_inv_goto [OF assms(1,2), where i = i and pc = pc])
  show "pc_ok L (goto i pc y) i pc" using assms(3) by (cases pc) (simp_all add: pc_ok_def owns_def)
  show "runs_ok L (goto i pc y) k" for k
    by (rule runs_ok_same [OF idem_invD(3) [OF assms(1)]]) (use assms(4) in \<open>auto split: if_splits\<close>)
qed (use assms(1) in \<open>auto simp: idem_inv_def\<close>)

text \<open>Two requests in their handlers have different keys.\<close>

lemma owns_unique:
  assumes "idempotency_ok (sy_db y)" "inj (ld_id L)" "owns L y i record" "owns L y j record'" "load_key L i = load_key L j"
  shows "i = j"
proof -
  from assms(3,4) obtain row row' where "row \<in> set (db_idempotency (sy_db y))" "row' \<in> set (db_idempotency (sy_db y))"
    "ik_key row = load_key L i" "ik_key row' = load_key L j" "ik_ID row = ld_id L i" "ik_ID row' = ld_id L j"
    unfolding owns_def by blast
  moreover from this assms(1,5) have "row = row'" by (metis idempotency_ok_def distinct_map inj_onD)
  ultimately show ?thesis using assms(2) by (metis injD)
qed

lemma idem_inv_purge:
  assumes inv: "idem_inv L y" and load: "inj (ld_id L)" and pc: "sy_pc y i = Prepared record"
    and d: "deleteExpired (sy_now y) (sy_db y) = (Inr (), d)"
  shows "idem_inv L (goto i (Purged record) (y\<lparr>sy_db := d,
      sy_purged := sy_purged y @ map ik_key (filter (expiredCompleted (sy_now y)) (db_idempotency (sy_db y)))\<rparr>))"
    (is "idem_inv L ?y'")
proof (rule idem_inv_goto [OF inv load, where i = i and pc = "Purged record"])
  have ok: "idempotency_ok (sy_db y)" using inv by (simp add: idem_inv_def)
  have tbl: "db_idempotency d = filter (\<lambda>r. \<not> expiredCompleted (sy_now y) r) (db_idempotency (sy_db y))"
    using d by (auto simp: deleteExpired_def)
  show "idempotency_ok (sy_db ?y')" using deleteExpired_ok [OF ok, of "sy_now y"] d by simp
  show "pc_ok L ?y' i (Purged record)" using idem_invD(2) [OF inv, of i] pc by (auto simp: pc_ok_def tbl)
  show "runs_ok L ?y' k" for k
  proof -
    let ?gone = "map ik_key (filter (expiredCompleted (sy_now y)) (db_idempotency (sy_db y)))"
    have old: "runs_ok L y k" by (rule idem_invD(3) [OF inv])
    have "k \<in> set (map ik_key (db_idempotency (sy_db y))) \<Longrightarrow> k \<notin> set (map ik_key (db_idempotency d)) \<Longrightarrow> 0 < count_list ?gone k"
      by (auto simp: tbl count_list_0_iff)
    with old show ?thesis by (auto simp: runs_ok_def split: if_splits)
  qed
qed (use inv d in \<open>auto simp: deleteExpired_def expiredCompleted_def\<close>)

lemma idem_inv_insert:
  assumes inv: "idem_inv L y" and load: "idem_load_ok L" and pc: "sy_pc y i = Purged record"
    and d: "insertPending (pendingRecord (sy_now y) (ld_id L i) record) (sy_db y) = (Inr True, d)"
  shows "idem_inv L (goto i (Admitted record) (y\<lparr>sy_db := d\<rparr>))" (is "idem_inv L ?y'")
proof -
  let ?row = "pendingRecord (sy_now y) (ld_id L i) record"
  have inj: "inj (ld_id L)" using load by (simp add: idem_load_ok_def)
  have rec: "ik_ID record = ld_id L i" "ik_key record = load_key L i"
    using idem_invD(2) [OF inv, of i] pc by (simp_all add: pc_ok_def)
  have row: "ik_ID ?row = ld_id L i" "ik_key ?row = load_key L i"
    using rec load by (simp_all add: pendingRecord_def ik_key_def Let_def idem_load_ok_def)
  have ins: "ik_key ?row \<notin> set (map ik_key (db_idempotency (sy_db y)))"
    "ik_ID ?row \<notin> set (map ik_ID (db_idempotency (sy_db y)))" "db_idempotency d = db_idempotency (sy_db y) @ [?row]"
    using d by (auto simp: insertPending_True_iff)
  show ?thesis
  proof (rule idem_inv_goto [OF inv inj, where i = i and pc = "Admitted record"])
    show "idempotency_ok (sy_db ?y')" using inv ins by (simp add: idem_inv_def idempotency_ok_def)
    show "pc_ok L ?y' i (Admitted record)" using rec row ins(3) by (simp add: pc_ok_def owns_def)
    show "runs_ok L ?y' k" for k
    proof -
      have old: "runs_ok L y k" by (rule idem_invD(3) [OF inv])
      then have "count_list (sy_runs y) k \<le> count_list (sy_purged y) k" if "k = load_key L i"
        using that ins(1) row(2) by (simp add: runs_ok_def)
      with old ins(3) row(2) show ?thesis by (auto simp: runs_ok_def)
    qed
  qed (use ins row in auto)
qed

lemma idem_inv_handle:
  assumes inv: "idem_inv L y" and load: "idem_load_ok L" and pc: "sy_pc y i = Admitted record"
    and d: "captured (ld_next L i) (ld_request L i) (ld_header L i) (sy_db y) = (rec, d)"
    and pc': "pc' = Handled record rec \<or> (\<exists>a. pc' = Answered a)"
  shows "idem_inv L (goto i pc' (y\<lparr>sy_db := d, sy_runs := sy_runs y @ [load_key L i]\<rparr>))" (is "idem_inv L ?y'")
proof -
  have inj: "inj (ld_id L)" using load by (simp add: idem_load_ok_def)
  have tbl: "db_idempotency d = db_idempotency (sy_db y)" using load d unfolding idem_load_ok_def by (metis snd_conv)
  have own: "owns L y i record" using idem_invD(2) [OF inv, of i] pc by (simp_all add: pc_ok_def)
  show ?thesis
  proof (rule idem_inv_goto [OF inv inj, where i = i and pc = pc'])
    show "idempotency_ok (sy_db ?y')" using inv tbl by (simp add: idem_inv_def idempotency_ok_def)
    show "pc_ok L ?y' i pc'" using own pc' tbl by (auto simp: pc_ok_def owns_def)
    show "runs_ok L ?y' k" for k
    proof -
      have old: "runs_ok L y k" by (rule idem_invD(3) [OF inv])
      have here: "load_key L i \<in> set (map ik_key (db_idempotency (sy_db y)))" using own by (force simp: owns_def)
      have other: "j = i" if "sy_pc y j = Admitted q" "load_key L j = load_key L i" for j q
      proof -
        have "owns L y j q" using idem_invD(2) [OF inv, of j] that(1) by (simp add: pc_ok_def)
        then show ?thesis using owns_unique [OF idem_invD(1) [OF inv] inj _ own that(2)] by blast
      qed
      have adm: "sy_pc y j = Admitted q \<and> j \<noteq> i" if "sy_pc ?y' j = Admitted q" for j q
        using that pc' by (auto split: if_splits)
      show ?thesis
      proof (cases "k = load_key L i")
        case True
        have "count_list (sy_runs y) k \<le> count_list (sy_purged y) k" using old pc True unfolding runs_ok_def by blast
        moreover have "\<not> (sy_pc ?y' j = Admitted q \<and> load_key L j = k)" for j q using adm other True by metis
        ultimately show ?thesis using True here tbl unfolding runs_ok_def by (intro conjI allI impI) (simp, blast)
      next
        case False
        then have "runs_ok L (y\<lparr>sy_db := d, sy_runs := sy_runs y @ [load_key L i]\<rparr>) k"
          using old tbl by (simp add: runs_ok_def)
        then show ?thesis by (rule runs_ok_same) (use pc' in \<open>auto split: if_splits\<close>)
      qed
    qed
  qed (use tbl in auto)
qed

lemma idem_inv_complete:
  assumes inv: "idem_inv L y" and inj: "inj (ld_id L)" and pc: "sy_pc y i = Handled record rec"
    and d: "IdempotencyRepository_Complete n (ik_ID record) k u m p c b (sy_db y) = (completed, d)"
  shows "idem_inv L (goto i (Answered a) (y\<lparr>sy_db := d\<rparr>))" (is "idem_inv L ?y'")
proof -
  have id: "ik_ID record = ld_id L i" using idem_invD(2) [OF inv, of i] pc by (simp add: pc_ok_def owns_def)
  let ?f = "\<lambda>r. if ik_ID r = ld_id L i \<and> ik_key r = (k, u, m, p) \<and> ik_Status r = ''pending'' then completedRecord n c b r else r"
  have tbl: "db_idempotency d = db_idempotency (sy_db y) \<or> db_idempotency d = map ?f (db_idempotency (sy_db y))"
    using d id by (auto simp: IdempotencyRepository_Complete_def Let_def split: if_splits)
  have sets: "set (map ik_ID (db_idempotency d)) = set (map ik_ID (db_idempotency (sy_db y)))"
    "set (map ik_key (db_idempotency d)) = set (map ik_key (db_idempotency (sy_db y)))"
  proof -
    have "map ik_ID (map ?f rs) = map ik_ID rs" "map ik_key (map ?f rs) = map ik_key rs" for rs by simp_all
    then show "set (map ik_ID (db_idempotency d)) = set (map ik_ID (db_idempotency (sy_db y)))"
      "set (map ik_key (db_idempotency d)) = set (map ik_key (db_idempotency (sy_db y)))" using tbl by (elim disjE; simp only:)+
  qed
  show ?thesis
  proof (rule idem_inv_goto [OF inv inj, where i = i and pc = "Answered a"])
    show "idempotency_ok (sy_db ?y')" using inv Complete_ok [OF _ d] by (simp add: idem_inv_def)
    show "runs_ok L ?y' k" for k
      by (rule runs_ok_same [OF idem_invD(3) [OF inv]]) (use sets(2) in \<open>auto split: if_splits\<close>)
    show "row \<in> set (db_idempotency (sy_db ?y'))"
      if "row \<in> set (db_idempotency (sy_db y))" "ik_ID row \<noteq> ld_id L i" for row
      using that tbl by force
  qed (use sets in \<open>auto simp: pc_ok_def\<close>)
qed

lemma idem_inv_step:
  assumes "idem_step sha256 L y y'" "idem_inv L y" "idem_load_ok L"
  shows "idem_inv L y'"
proof -
  have inj: "inj (ld_id L)" using assms(3) by (simp add: idem_load_ok_def)
  note inv = assms(2)
  from assms(1) show ?thesis
  proof cases
    case (tick now)
    with inv show ?thesis by (simp add: idem_inv_def pc_ok_def owns_def runs_ok_def cong: idem_pc.case_cong)
  next
    case (prepare i q)
    then have "pc_ok L y i (Prepared q)"
      using idem_invD(2) [OF inv, of i] by (simp add: pc_ok_def newRecord_def ik_key_def load_key_def)
    with prepare show ?thesis using idem_inv_local [OF inv inj] by simp
  next
    case (purge i q d)
    then show ?thesis using idem_inv_purge [OF inv inj] by simp
  next
    case (insert i q d)
    then show ?thesis using idem_inv_insert [OF inv assms(3)] by simp
  next
    case (refuse i q d)
    then have "d = sy_db y" by (auto simp: insertPending_def split: if_splits sum.splits)
    then show ?thesis using idem_inv_local [OF inv inj, of i Refused] refuse by (simp add: pc_ok_def)
  next
    case (check_failed i)
    then show ?thesis using idem_inv_local [OF inv inj, of i "Answered _"] by (simp add: pc_ok_def)
  next
    case (get i found d)
    then have "d = sy_db y" by (simp add: IdempotencyRepository_Get_def)
    then show ?thesis using idem_inv_local [OF inv inj, of i "Answered _"] get by (simp add: pc_ok_def)
  next
    case (handle i q rec d)
    then show ?thesis using idem_inv_handle [OF inv assms(3)] by simp
  next
    case (complete i q rec completed d)
    then show ?thesis using idem_inv_complete [OF inv inj] by blast
  next
    case (complete_failed i q rec e)
    then show ?thesis using idem_inv_local [OF inv inj, of i "Answered _"] by (simp add: pc_ok_def)
  next
    case (crash i)
    then show ?thesis using idem_inv_local [OF inv inj, of i Crashed] by (simp add: pc_ok_def)
  qed
qed

lemma idem_inv_reachable:
  assumes "(idem_step sha256 L)\<^sup>*\<^sup>* y y'" "idem_init y" "idem_load_ok L"
  shows "idem_inv L y'"
  using assms(1)
proof induction
  case base
  then show ?case using assms(2) by (simp add: idem_init_def idem_inv_def pc_ok_def runs_ok_def idempotency_ok_def)
next
  case (step y' y'')
  then show ?case using assms(3) by (blast intro: idem_inv_step)
qed

text \<open>Time: for a day after the start no record has expired, so none is deleted.\<close>

definition day_ns :: int where
  "day_ns = 24 * 60 * 60 * ns_per_second"

definition expiry_ok :: "int \<Rightarrow> 'd idem_system \<Rightarrow> bool" where
  "expiry_ok start y \<longleftrightarrow> start \<le> t_ns (sy_now y) \<and>
     (\<forall>r\<in>set (db_idempotency (sy_db y)). start + day_ns \<le> t_ns (ik_ExpiresAt r)) \<and>
     (\<forall>i r. sy_pc y i \<in> {Prepared r, Purged r} \<longrightarrow> start + day_ns \<le> t_ns (ik_ExpiresAt r)) \<and>
     (t_ns (sy_now y) < start + day_ns \<longrightarrow> sy_purged y = [])"

lemma expiry_ok_step:
  assumes "idem_step sha256 L y y'" "expiry_ok start y" "idem_load_ok L"
  shows "expiry_ok start y'"
  using assms(1)
proof cases
  case (tick now)
  with assms(2) show ?thesis by (auto simp: expiry_ok_def)
next
  case (prepare i q)
  with assms(2) show ?thesis
    by (auto simp: expiry_ok_def newRecord_def TimeAdd_def UTC_def day_ns_def split: if_splits)
next
  case (purge i q d)
  have "filter (expiredCompleted (sy_now y)) (db_idempotency (sy_db y)) = []" if "t_ns (sy_now y) < start + day_ns"
    using assms(2) that by (fastforce simp: expiry_ok_def filter_empty_conv expiredCompleted_def After_def)
  with purge assms(2) show ?thesis by (auto simp: expiry_ok_def deleteExpired_def split: if_splits)
next
  case (insert i q d)
  with assms(2) show ?thesis by (auto simp: expiry_ok_def insertPending_True_iff split: if_splits)
next
  case (handle i q rec d)
  then have "db_idempotency d = db_idempotency (sy_db y)" using assms(3) unfolding idem_load_ok_def by (metis snd_conv)
  with handle assms(2) show ?thesis by (auto simp: expiry_ok_def split: if_splits)
next
  case (complete i q rec completed d)
  then have "\<forall>r\<in>set (db_idempotency d). start + day_ns \<le> t_ns (ik_ExpiresAt r)"
    using assms(2) by (auto simp: IdempotencyRepository_Complete_def Let_def expiry_ok_def split: if_splits)
  with complete assms(2) show ?thesis by (auto simp: expiry_ok_def split: if_splits)
qed (use assms(2) in \<open>auto simp: expiry_ok_def insertPending_def IdempotencyRepository_Get_def split: if_splits sum.splits\<close>)

lemma expiry_ok_reachable:
  assumes "(idem_step sha256 L)\<^sup>*\<^sup>* y y'" "idem_init y" "idem_load_ok L"
  shows "expiry_ok (t_ns (sy_now y)) y'"
  using assms(1)
proof induction
  case base
  then show ?case using assms(2) by (simp add: idem_init_def expiry_ok_def)
next
  case (step y' y'')
  then show ?case using assms(3) by (blast intro: expiry_ok_step)
qed

section \<open>Runs of one request\<close>

text \<open>The record a request owns can be completed, also after its handler, which leaves the table alone.\<close>

lemma owned_record_completes:
  assumes "idempotency_ok (sy_db y)" "owns L y i record"
    "idempotency_lookup (sy_db y) (load_key L i) = Some row" "ik_ID row = ld_id L i" "ik_Status row = ''pending''"
    "db_idempotency s = db_idempotency (sy_db y)"
  shows "\<exists>d. IdempotencyRepository_Complete now (ik_ID record) (ik_Key record) (ik_UserID record) (hq_Method (ld_request L i))
      (hq_Path (ld_request L i)) c b s = (Inr (), d) \<and>
    idempotency_lookup d (load_key L i) = Some (completedRecord now c b row)"
proof -
  have ok: "idempotency_ok s" using assms(1,6) by (simp add: idempotency_ok_def)
  have key: "(ik_Key record, ik_UserID record, hq_Method (ld_request L i), hq_Path (ld_request L i)) = load_key L i"
    "ik_ID record = ld_id L i"
    using assms(2) by (simp_all add: owns_def ik_key_def load_key_def)
  have row: "row \<in> set (db_idempotency s)" "ik_key row = load_key L i"
    using assms(1,3,6) by (simp_all add: idempotency_lookup_iff)
  then obtain d where run: "IdempotencyRepository_Complete now (ik_ID record) (ik_Key record) (ik_UserID record)
      (hq_Method (ld_request L i)) (hq_Path (ld_request L i)) c b s = (Inr (), d)"
    using assms(4,5) key by (auto simp: Complete_Inr_iff)
  have "completedRecord now c b row \<in> set (db_idempotency d)"
    using run row assms(4,5) key by (force simp: Complete_Inr_iff)
  with run Complete_ok [OF ok run] row(2) show ?thesis by (auto simp: idempotency_lookup_iff)
qed

text \<open>The middleware, run alone, is a run of the system.\<close>

definition loaded :: "'d idem_load \<Rightarrow> nat \<Rightarrow> http_request \<Rightarrow> bool" where
  "loaded L i r \<longleftrightarrow> guarded r (ld_key L i) (ld_request L i) (ld_user L i) (ld_body L i)"

text \<open>A run of the system in which one request goes on to its answer.\<close>

definition answers ::
  "(string \<Rightarrow> string) \<Rightarrow> 'd idem_load \<Rightarrow> nat \<Rightarrow> 'd idem_system \<Rightarrow> http_response \<times> 'd db \<Rightarrow> idem_key list \<Rightarrow> bool" where
  "answers sha256 L i y result runs \<longleftrightarrow>
     (\<exists>y'. (idem_step sha256 L)\<^sup>*\<^sup>* y y' \<and> sy_pc y' i = Answered (fst result) \<and> sy_db y' = snd result \<and>
        sy_now y' = sy_now y \<and> sy_runs y' = sy_runs y @ runs)"

lemma answers_step:
  assumes "idem_step sha256 L y y'" "answers sha256 L i y' result runs" "sy_now y' = sy_now y" "sy_runs y' = sy_runs y @ rs"
  shows "answers sha256 L i y result (rs @ runs)"
  using assms unfolding answers_def by (metis append.assoc converse_rtranclp_into_rtranclp)

lemma answers_now:
  assumes "idem_step sha256 L y (goto i (Answered resp) y1)" "sy_now y1 = sy_now y" "sy_runs y1 = sy_runs y @ runs"
  shows "answers sha256 L i y (resp, sy_db y1) runs"
  unfolding answers_def using assms by (intro exI [of _ "goto i (Answered resp) y1"]) auto

lemma refused_answers:
  assumes "sy_pc y i = Refused"
    "IdempotencyRepository_Get (sy_now y) (ld_key L i) (ld_user L i) (hq_Method (ld_request L i)) (hq_Path (ld_request L i))
       (sy_db y) = (found, d)"
  shows "answers sha256 L i y (replyExisting (sy_now y) (hashRequestBody sha256 (ld_body L i)) (ld_header L i) found, d) []"
  using answers_now [OF idem_step.get [OF assms]] by simp

lemma admitted_answers:
  assumes "sy_pc y i = Admitted q" "handleAdmitted postgres_store (sy_now y) q (ld_next L i) (ld_request L i) (ld_header L i) (sy_db y) = (resp, d)"
  shows "answers sha256 L i y (resp, d) [load_key L i]"
proof -
  obtain rec d1 where c: "captured (ld_next L i) (ld_request L i) (ld_header L i) (sy_db y) = (rec, d1)" by fastforce
  note s = idem_step.handle [OF assms(1) c, of sha256]
  let ?y1 = "y\<lparr>sy_db := d1, sy_runs := sy_runs y @ [load_key L i]\<rparr>"
  show ?thesis
  proof (cases "capture_statusCode rec \<ge> 500")
    case True
    with s assms(2) c answers_now [of sha256 L y i resp ?y1 "[load_key L i]"] show ?thesis by (simp add: handleAdmitted_def)
  next
    case False
    let ?y2 = "goto i (Handled q rec) ?y1"
    obtain completed where cc: "IdempotencyRepository_Complete (sy_now y) (ik_ID q) (ik_Key q) (ik_UserID q)
        (hq_Method (ld_request L i)) (hq_Path (ld_request L i)) (capture_statusCode rec) (cw_body rec) d1 = (completed, d)"
      and resp: "resp = replyHandled (ld_header L i) rec completed"
      using assms(2) c False by (auto simp: handleAdmitted_def postgres_store_def split: prod.splits)
    have "answers sha256 L i ?y2 (resp, d) []"
      unfolding resp using answers_now [OF idem_step.complete [of ?y2 i q rec L completed d sha256]] cc by simp
    with s False show ?thesis using answers_step [of sha256 L y ?y2 i "(resp, d)" "[]" "[load_key L i]"] by simp
  qed
qed

lemma middleware_answers:
  assumes "sy_pc y i = Arrived" "loaded L i r"
    and run: "Idempotency sha256 (\<lambda>_. sy_now y) (ld_id L i) (Some postgres_store) (ld_next L i) r (ld_header L i) (sy_db y) = (resp, d)"
  shows "\<exists>runs. answers sha256 L i y (resp, d) runs \<and>
    (load_key L i \<notin> set (map ik_key (db_idempotency (sy_db y))) \<and> ld_user L i \<in> set (map u_ID (db_users (sy_db y))) \<and>
     ld_id L i \<notin> set (map ik_ID (db_idempotency (sy_db y))) \<and> ld_id L i \<noteq> '''' \<longrightarrow> runs = [load_key L i])"
proof -
  let ?now = "sy_now y"
  let ?rec = "newRecord sha256 (\<lambda>_. ?now) (ld_id L i) (ld_key L i) (ld_user L i) (ld_request L i) (ld_body L i)"
  let ?row = "pendingRecord ?now (ld_id L i) ?rec" and ?d1 = "snd (deleteExpired ?now (sy_db y))"
  have row: "ik_key ?row = load_key L i" "ld_id L i \<noteq> '''' \<Longrightarrow> ik_ID ?row = ld_id L i" "ik_UserID ?row = ld_user L i"
    by (simp_all add: pendingRecord_def newRecord_def Let_def load_key_def ik_key_def)
  obtain q d2 where ins: "insertPending ?row ?d1 = (q, d2)" by fastforce
  have cp: "st_CreatePending postgres_store ?now ?now (ld_id L i) ?rec (sy_db y) = (q, d2)"
    using ins by (simp add: postgres_store_def IdempotencyRepository_CreatePending_def sbind_def swrap_def deleteExpired_def)
  let ?y1 = "goto i (Prepared ?rec) y"
  let ?y2 = "goto i (Purged ?rec) (?y1\<lparr>sy_db := ?d1,
      sy_purged := sy_purged y @ map ik_key (filter (expiredCompleted ?now) (db_idempotency (sy_db y)))\<rparr>)"
  have s1: "idem_step sha256 L y ?y1" by (rule idem_step.prepare [OF assms(1) refl])
  have s2: "idem_step sha256 L ?y1 ?y2"
    using idem_step.purge [of ?y1 i ?rec ?d1 sha256 L] by (simp add: deleteExpired_def)
  have from_y2: "answers sha256 L i y (resp, d) runs" if "answers sha256 L i ?y2 (resp, d) runs" for runs
    using answers_step [OF s1 answers_step [OF s2 that, of "[]"], of "[]"] by simp
  consider (error) e where "q = Inl e" | (refused) "q = Inr False" | (admitted) "q = Inr True" by (cases q) auto
  then show ?thesis
  proof cases
    case error
    then have resp: "resp = JSONError 500 ''idempotency_check_failed'' ''Idempotency check failed''" "d = ?d1"
      using run cp ins assms(2) by (auto simp: Idempotency_guarded loaded_def Let_def insertPending_def split: if_splits sum.splits)
    have "answers sha256 L i ?y2 (resp, sy_db ?y2) []"
      unfolding resp(1) by (intro answers_now idem_step.check_failed) auto
    then have "answers sha256 L i ?y2 (resp, d) []" using resp(2) by simp
    have "insertPending ?row ?d1 = (Inr True, ?d1\<lparr>db_idempotency := db_idempotency ?d1 @ [?row]\<rparr>)"
      if "load_key L i \<notin> set (map ik_key (db_idempotency (sy_db y)))" "ld_user L i \<in> set (map u_ID (db_users (sy_db y)))"
        "ld_id L i \<notin> set (map ik_ID (db_idempotency (sy_db y)))" "ld_id L i \<noteq> ''''"
      using that row unfolding insertPending_True_iff by (auto simp: deleteExpired_def)
    with ins error have "\<not> (load_key L i \<notin> set (map ik_key (db_idempotency (sy_db y))) \<and> ld_user L i \<in> set (map u_ID (db_users (sy_db y))) \<and>
        ld_id L i \<notin> set (map ik_ID (db_idempotency (sy_db y))) \<and> ld_id L i \<noteq> '''')"
      by auto
    then show ?thesis using from_y2 [OF \<open>answers sha256 L i ?y2 (resp, d) []\<close>] by blast
  next
    case refused
    let ?y3 = "goto i Refused (?y2\<lparr>sy_db := d2\<rparr>)"
    have s3: "idem_step sha256 L ?y2 ?y3" using ins refused by (intro idem_step.refuse [of ?y2 i ?rec]) auto
    have "load_key L i \<in> set (map ik_key (db_idempotency (sy_db y)))"
      using ins refused row(1) by (auto simp: insertPending_def deleteExpired_def split: if_splits sum.splits)
    moreover have "answers sha256 L i ?y3 (resp, d) []"
      using run cp refused assms(2) refused_answers [of ?y3 i L _ _ sha256]
      by (auto simp: Idempotency_guarded loaded_def Let_def postgres_store_def newRecord_def split: prod.splits)
    ultimately show ?thesis using from_y2 answers_step [OF s3, of i "(resp, d)" "[]" "[]"] by auto
  next
    case admitted
    let ?y3 = "goto i (Admitted ?rec) (?y2\<lparr>sy_db := d2\<rparr>)"
    have s3: "idem_step sha256 L ?y2 ?y3" using ins admitted by (intro idem_step.insert [of ?y2 i ?rec]) auto
    have "answers sha256 L i ?y3 (resp, d) [load_key L i]"
      using run cp admitted assms(2) by (intro admitted_answers) (simp_all add: Idempotency_guarded loaded_def Let_def)
    then show ?thesis using from_y2 answers_step [OF s3, of i "(resp, d)" "[load_key L i]" "[]"] by auto
  qed
qed

section \<open>Properties\<close>

text \<open>C20. However requests interleave, fail and crash: for a day after the start the handler of a key
  (of one user, method and path) has run at most once, and no two requests of the same key
  are in their handlers, or between handler and completion, at the same time. Beyond the day
  the handler runs at most once more than expired completed records were deleted.\<close>

theorem handler_runs_at_most_once:
  assumes "idem_load_ok L" "idem_init y0" "(idem_step sha256 L)\<^sup>*\<^sup>* y0 y"
  shows "count_list (sy_runs y) k \<le> count_list (sy_purged y) k + 1 \<and>
    (t_ns (sy_now y) < t_ns (sy_now y0) + 24 * 60 * 60 * ns_per_second \<longrightarrow> count_list (sy_runs y) k \<le> 1) \<and>
    (\<forall>i j p q. sy_pc y i \<in> {Admitted p, Handled p rec} \<and> sy_pc y j \<in> {Admitted q, Handled q rec'} \<and>
       load_key L i = load_key L j \<longrightarrow> i = j)"
proof -
  have inv: "idem_inv L y" by (rule idem_inv_reachable [OF assms(3,2,1)])
  have "count_list (sy_runs y) k \<le> count_list (sy_purged y) k + 1"
    using idem_invD(3) [OF inv, of k] by (auto simp: runs_ok_def split: if_splits)
  moreover have "sy_purged y = []" if "t_ns (sy_now y) < t_ns (sy_now y0) + 24 * 60 * 60 * ns_per_second"
    using expiry_ok_reachable [OF assms(3,2,1)] that by (simp add: expiry_ok_def day_ns_def)
  moreover have own: "owns L y i p" if "sy_pc y i \<in> {Admitted p, Handled p w}" for i p w
    using idem_invD(2) [OF inv, of i] that by (auto simp: pc_ok_def)
  have "i = j" if "sy_pc y i \<in> {Admitted p, Handled p rec}" "sy_pc y j \<in> {Admitted q, Handled q rec'}"
      "load_key L i = load_key L j" for i j p q
    using owns_unique [OF idem_invD(1) [OF inv] _ own [OF that(1)] own [OF that(2)] that(3)] assms(1)
    by (simp add: idem_load_ok_def)
  ultimately show ?thesis by auto
qed

text \<open>The requests of the examples: two processes with the same request; the handler answers 201 and
  empties the table of categories.\<close>

definition sample_handler :: "dec db handler" where
  "sample_handler r h s =
     ((header_Set ''Content-Type'' ''application/json'' h, [CallWriteHeader 201, CallWrite ''{}'']),
      s\<lparr>db_categories := []\<rparr>)"

definition sample_request :: http_request where
  "sample_request =
     \<lparr>hq_Method = ''POST'', hq_Path = ''/transfers'', hq_Header = [(''Idempotency-Key'', [''k''])],
      hq_Body = BodyRead ''{}'', hq_Claims = Some ''U'', hq_RemoteAddr = ''''\<rparr>"

definition sample_load :: "dec idem_load" where
  "sample_load =
     \<lparr>ld_request = (\<lambda>_. sample_request), ld_key = (\<lambda>_. ''k''), ld_user = (\<lambda>_. ''U''), ld_body = (\<lambda>_. ''{}''),
      ld_next = (\<lambda>_. sample_handler), ld_id = (\<lambda>i. replicate (i + 1) CHR ''i''), ld_header = (\<lambda>_. [])\<rparr>"

definition idem_db :: "dec db" where
  "idem_db = empty_db\<lparr>db_users := [\<lparr>u_ID = ''U'', u_Email = ''u'', u_PasswordHash = '''', u_PrimaryCurrency = ''RUB'',
     u_EmailVerifiedAt = None, u_EmailVerificationTokenHash = None, u_EmailVerificationSentAt = None,
     u_FailedLoginAttempts = 0, u_LockedUntil = None, u_CreatedAt = zero_time, u_UpdatedAt = zero_time\<rparr>]\<rparr>"

definition idem_start :: "dec idem_system" where
  "idem_start = \<lparr>sy_db = idem_db, sy_now = day_time 738000, sy_pc = (\<lambda>_. Arrived), sy_runs = [], sy_purged = []\<rparr>"

lemma sample_load_facts:
  "idem_load_ok sample_load" "idem_init idem_start" "loaded sample_load i sample_request"
  "load_key sample_load i = (''k'', ''U'', ''POST'', ''/transfers'')"
proof -
  show "idem_load_ok sample_load"
    by (auto simp: idem_load_ok_def sample_load_def inj_def captured_def sample_handler_def)
  show "idem_init idem_start" by (simp add: idem_init_def idem_start_def idem_db_def empty_db_def)
  have "normalizeIdempotencyKey sample_request = Inr (''k'', sample_request)" by code_simp
  then show "loaded sample_load i sample_request" by (simp add: loaded_def guarded_def sample_load_def sample_request_def)
  show "load_key sample_load i = (''k'', ''U'', ''POST'', ''/transfers'')"
    by (simp add: load_key_def sample_load_def sample_request_def)
qed

lemma sample_run:
  "\<exists>y. (idem_step (\<lambda>b. b) sample_load)\<^sup>*\<^sup>* idem_start y \<and> sy_now y = day_time 738000 \<and>
     sy_runs y = [(''k'', ''U'', ''POST'', ''/transfers'')]"
proof -
  obtain resp d where run: "Idempotency (\<lambda>b. b) (\<lambda>_. sy_now idem_start) (ld_id sample_load 0) (Some postgres_store)
      (ld_next sample_load 0) sample_request (ld_header sample_load 0) (sy_db idem_start) = (resp, d)" by fastforce
  have "sy_pc idem_start 0 = Arrived" by (simp add: idem_start_def)
  from middleware_answers [OF this sample_load_facts(3) run] show ?thesis
    by (auto simp: answers_def sample_load_facts(4)) (auto simp: idem_start_def idem_db_def empty_db_def sample_load_def)
qed

theorem handler_runs_at_most_once_witness:
  "\<exists>y. (idem_step (\<lambda>b. b) sample_load)\<^sup>*\<^sup>* idem_start y \<and>
     count_list (sy_runs y) (''k'', ''U'', ''POST'', ''/transfers'') = 1 \<and>
     count_list (sy_runs y) (''k'', ''U'', ''POST'', ''/transfers'') \<le> 1"
proof -
  from sample_run obtain y where y: "(idem_step (\<lambda>b. b) sample_load)\<^sup>*\<^sup>* idem_start y" "sy_now y = day_time 738000"
    "sy_runs y = [(''k'', ''U'', ''POST'', ''/transfers'')]" by blast
  have "t_ns (sy_now y) < t_ns (sy_now idem_start) + 24 * 60 * 60 * ns_per_second"
    by (simp add: y(2) idem_start_def ns_per_second_def)
  with handler_runs_at_most_once [OF sample_load_facts(1,2) y(1)] y show ?thesis by auto
qed

text \<open>C22. The middleware is a run of the concurrent system: executed alone, with the clock standing
  still, it gives the answer and the database of a sequence of the system's steps, so what is
  shown of all interleavings holds of the code.\<close>

theorem middleware_refines_system:
  assumes "sy_pc y i = Arrived" "loaded L i r"
    "Idempotency sha256 (\<lambda>_. sy_now y) (ld_id L i) (Some postgres_store) (ld_next L i) r (ld_header L i) (sy_db y) = (resp, d)"
  shows "\<exists>y'. (idem_step sha256 L)\<^sup>*\<^sup>* y y' \<and> sy_pc y' i = Answered resp \<and> sy_db y' = d"
  using middleware_answers [OF assms] by (auto simp: answers_def)

theorem middleware_refines_system_witness:
  "\<exists>y'. (idem_step (\<lambda>b. b) sample_load)\<^sup>*\<^sup>* idem_start y' \<and>
     sy_pc y' 0 = Answered (Response [(''Content-Type'', [''application/json''])] 201 ''{}'')"
proof -
  let ?run = "Idempotency (\<lambda>b. b) (\<lambda>_. sy_now idem_start) (ld_id sample_load 0) (Some postgres_store)
      (ld_next sample_load 0) sample_request (ld_header sample_load 0) (sy_db idem_start)"
  have "fst ?run = Response [(''Content-Type'', [''application/json''])] 201 ''{}''" by code_simp
  then have "?run = (Response [(''Content-Type'', [''application/json''])] 201 ''{}'', snd ?run)" by (metis prod.collapse)
  moreover have "sy_pc idem_start 0 = Arrived" by (simp add: idem_start_def)
  ultimately show ?thesis using middleware_refines_system [OF _ sample_load_facts(3)] by blast
qed

text \<open>C23. An admitted request can finish. Whatever other requests did, failed, crashed or deleted since it
  was admitted: as long as its handler runs or its answer is not yet recorded, the pending record of its
  key is still there and is its own, so the completion finds it and records the status and the body
  of the handler, and what is sent is the answer of the handler, not an error of the middleware.\<close>

theorem admitted_request_completes:
  assumes "idem_load_ok L" "idem_init y0" "(idem_step sha256 L)\<^sup>*\<^sup>* y0 y" "sy_pc y i \<in> {Admitted record, Handled record rec}"
  shows "\<exists>row d. idempotency_lookup (sy_db y) (load_key L i) = Some row \<and> ik_ID row = ld_id L i \<and> ik_Status row = ''pending'' \<and>
    IdempotencyRepository_Complete (sy_now y) (ik_ID record) (ik_Key record) (ik_UserID record) (hq_Method (ld_request L i))
      (hq_Path (ld_request L i)) (capture_statusCode rec) (cw_body rec) (sy_db y) = (Inr (), d) \<and>
    idempotency_lookup d (load_key L i) = Some (completedRecord (sy_now y) (capture_statusCode rec) (cw_body rec) row) \<and>
    (sy_pc y i = Handled record rec \<longrightarrow>
      idem_step sha256 L y (goto i (Answered (capture_flushTo rec (ld_header L i))) (y\<lparr>sy_db := d\<rparr>))) \<and>
    (sy_pc y i = Admitted record \<longrightarrow>
      fst (handleAdmitted postgres_store (sy_now y) record (ld_next L i) (ld_request L i) (ld_header L i) (sy_db y)) =
      capture_flushTo (fst (captured (ld_next L i) (ld_request L i) (ld_header L i) (sy_db y))) (ld_header L i))"
proof -
  have inv: "idem_inv L y" by (rule idem_inv_reachable [OF assms(3,2,1)])
  have own: "owns L y i record" using idem_invD(2) [OF inv, of i] assms(4) by (auto simp: pc_ok_def)
  obtain row where row: "idempotency_lookup (sy_db y) (load_key L i) = Some row" "ik_ID row = ld_id L i" "ik_Status row = ''pending''"
    using own idempotency_lookup_iff [OF idem_invD(1) [OF inv]] by (auto simp: owns_def)
  note completes = owned_record_completes [OF idem_invD(1) [OF inv] own row]
  obtain d where d: "IdempotencyRepository_Complete (sy_now y) (ik_ID record) (ik_Key record) (ik_UserID record) (hq_Method (ld_request L i))
      (hq_Path (ld_request L i)) (capture_statusCode rec) (cw_body rec) (sy_db y) = (Inr (), d)"
    "idempotency_lookup d (load_key L i) = Some (completedRecord (sy_now y) (capture_statusCode rec) (cw_body rec) row)"
    using completes [OF refl] by blast
  have "fst (handleAdmitted postgres_store (sy_now y) record (ld_next L i) (ld_request L i) (ld_header L i) (sy_db y)) =
      capture_flushTo (fst (captured (ld_next L i) (ld_request L i) (ld_header L i) (sy_db y))) (ld_header L i)"
  proof -
    obtain rc d1 where c: "captured (ld_next L i) (ld_request L i) (ld_header L i) (sy_db y) = (rc, d1)" by fastforce
    then have "db_idempotency d1 = db_idempotency (sy_db y)" using assms(1) unfolding idem_load_ok_def by (metis snd_conv)
    from completes [OF this, of "sy_now y" "capture_statusCode rc" "cw_body rc"] obtain d2
      where "IdempotencyRepository_Complete (sy_now y) (ik_ID record) (ik_Key record) (ik_UserID record) (hq_Method (ld_request L i))
        (hq_Path (ld_request L i)) (capture_statusCode rc) (cw_body rc) d1 = (Inr (), d2)" by blast
    then show ?thesis by (simp add: handleAdmitted_def c postgres_store_def replyHandled_def)
  qed
  moreover have "idem_step sha256 L y (goto i (Answered (capture_flushTo rec (ld_header L i))) (y\<lparr>sy_db := d\<rparr>))"
    if "sy_pc y i = Handled record rec"
    using idem_step.complete [OF that d(1), of sha256] by (simp add: replyHandled_def)
  ultimately show ?thesis using row d by blast
qed

text \<open>A process whose key is free gets into its handler; the first process of the example does.\<close>

lemma free_key_admits:
  assumes "sy_pc y i = Arrived"
    and new: "record = newRecord sha256 (\<lambda>_. sy_now y) (ld_id L i) (ld_key L i) (ld_user L i) (ld_request L i) (ld_body L i)"
    and purge: "deleteExpired (sy_now y) (sy_db y) = (Inr (), s)"
    and ins: "insertPending (pendingRecord (sy_now y) (ld_id L i) record) s = (Inr True, d)"
  shows "\<exists>y'. (idem_step sha256 L)\<^sup>*\<^sup>* y y' \<and> sy_pc y' i = Admitted record"
proof -
  let ?y1 = "goto i (Prepared record) y"
  let ?y2 = "goto i (Purged record) (?y1\<lparr>sy_db := s,
      sy_purged := sy_purged y @ map ik_key (filter (expiredCompleted (sy_now y)) (db_idempotency (sy_db y)))\<rparr>)"
  let ?y3 = "goto i (Admitted record) (?y2\<lparr>sy_db := d\<rparr>)"
  have "idem_step sha256 L y ?y1" by (rule idem_step.prepare [OF assms(1) new])
  moreover have "idem_step sha256 L ?y1 ?y2" using idem_step.purge [of ?y1 i "record" s sha256 L] purge by simp
  moreover have "idem_step sha256 L ?y2 ?y3" using idem_step.insert [of ?y2 i "record" L d sha256] ins by simp
  ultimately have "(idem_step sha256 L)\<^sup>*\<^sup>* y ?y3"
    by (blast intro: converse_rtranclp_into_rtranclp)
  moreover have "sy_pc ?y3 i = Admitted record" by simp
  ultimately show ?thesis by blast
qed

lemma sample_admission:
  "\<exists>y q. (idem_step (\<lambda>b. b) sample_load)\<^sup>*\<^sup>* idem_start y \<and> sy_pc y 0 = Admitted q"
proof -
  let ?q = "newRecord (\<lambda>b. b) (\<lambda>_. sy_now idem_start) (ld_id sample_load 0) (ld_key sample_load 0) (ld_user sample_load 0)
    (ld_request sample_load 0) (ld_body sample_load 0)"
  let ?row = "pendingRecord (sy_now idem_start) (ld_id sample_load 0) ?q"
  have "deleteExpired (sy_now idem_start) (sy_db idem_start) = (Inr (), idem_db)"
    by (simp add: deleteExpired_def idem_start_def idem_db_def empty_db_def)
  moreover have "insertPending ?row idem_db = (Inr True, idem_db\<lparr>db_idempotency := [?row]\<rparr>)"
    unfolding insertPending_True_iff by (simp add: idem_db_def empty_db_def newRecord_def sample_load_def)
  moreover have "sy_pc idem_start 0 = Arrived" by (simp add: idem_start_def)
  ultimately show ?thesis using free_key_admits by blast
qed

theorem admitted_request_completes_witness:
  "\<exists>y q d. (idem_step (\<lambda>b. b) sample_load)\<^sup>*\<^sup>* idem_start y \<and> sy_pc y 0 = Admitted q \<and>
     IdempotencyRepository_Complete (sy_now y) (ik_ID q) (ik_Key q) (ik_UserID q) ''POST'' ''/transfers''
       201 ''{}'' (sy_db y) = (Inr (), d) \<and> list_ex (\<lambda>r. ik_StatusCode r = Some 201) (db_idempotency d)"
proof -
  obtain y q where y: "(idem_step (\<lambda>b. b) sample_load)\<^sup>*\<^sup>* idem_start y" "sy_pc y 0 = Admitted q"
    using sample_admission by blast
  define rc where "rc = fst (captured sample_handler sample_request [] idem_db)"
  have rc: "capture_statusCode rc = 201" "cw_body rc = ''{}''" unfolding rc_def by code_simp+
  from y(2) have "sy_pc y 0 \<in> {Admitted q, Handled q rc}" by simp
  from admitted_request_completes [OF sample_load_facts(1,2) y(1) this] obtain d row
    where "IdempotencyRepository_Complete (sy_now y) (ik_ID q) (ik_Key q) (ik_UserID q) ''POST'' ''/transfers''
       201 ''{}'' (sy_db y) = (Inr (), d)" "idempotency_lookup d (load_key sample_load 0) = Some (completedRecord (sy_now y) 201 ''{}'' row)"
    by (auto simp: rc sample_load_def sample_request_def)
  moreover from this(2) have "completedRecord (sy_now y) 201 ''{}'' row \<in> set (db_idempotency d)"
    unfolding idempotency_lookup_def find_Some_iff by (metis nth_mem)
  then have "list_ex (\<lambda>r. ik_StatusCode r = Some 201) (db_idempotency d)"
    unfolding list_ex_iff by (metis completedRecord_fields(4))
  ultimately show ?thesis using y by blast
qed

text \<open>C21. A completed request is replayed: after the first request of a key has been answered below
  500, a second request with the same body, before the record expires, receives the recorded
  status and body whatever its own handler would do, and changes nothing but the deletion of
  expired keys.\<close>

theorem idempotent_replay:
  assumes "idempotency_ok s" "guarded r key r' userID body" "newID \<noteq> ''''"
    and first: "IdempotencyRepository_CreatePending (clock 0) (clock 2) newID (newRecord sha256 clock newID key userID r' body) s =
      (Inr True, s1)" "captured next r' h s1 = (rec, s2)" "capture_statusCode rec < 500" "db_idempotency s2 = db_idempotency s1"
    and second: "guarded q key q' userID body" "hq_Method q' = hq_Method r'" "hq_Path q' = hq_Path r'"
      "t_ns (clock' 2) < t_ns (clock 1) + 24 * 60 * 60 * ns_per_second"
      "t_ns (clock' 3) < t_ns (clock 1) + 24 * 60 * 60 * ns_per_second"
  shows "\<exists>s3 s4. Idempotency sha256 clock newID (Some postgres_store) next r h s = (capture_flushTo rec h, s3) \<and>
    Idempotency sha256 clock' newID' (Some postgres_store) next' q h' s3 =
      (Response (header_Set ''Content-Type'' ''application/json'' h') (capture_statusCode rec) (cw_body rec), s4) \<and>
    s4 = s3\<lparr>db_idempotency := db_idempotency s4\<rparr>"
proof -
  let ?K = "(key, userID, hq_Method r', hq_Path r')"
  let ?rec = "newRecord sha256 clock newID key userID r' body"
  let ?row = "completedRecord (clock 5) (capture_statusCode rec) (cw_body rec) (pendingRecord (clock 0) newID ?rec)"
  have created: "st_CreatePending postgres_store (clock 0) (clock 2) newID ?rec s = (Inr True, s1)"
    using first(1) by (simp add: postgres_store_def)
  have "idempotency_ok s1" using postgres_idempotency.create_new [OF assms(1) created] by simp
  then have "idempotency_ok s2" "idempotency_lookup s2 ?K = idempotency_lookup s1 ?K"
    using first(4) by (simp_all add: idempotency_ok_def idempotency_lookup_def)
  from postgres_idempotency.first_request [OF assms(1-3) created first(2,3) this] obtain s3 where
    s3: "Idempotency sha256 clock newID (Some postgres_store) next r h s = (capture_flushTo rec h, s3)" "idempotency_ok s3"
      "idempotency_lookup s3 (key, userID, hq_Method q', hq_Path q') = Some ?row" using second(2,3) by auto
  have live: "After (ik_ExpiresAt ?row) (clock' 3)" "\<not> expiredCompleted (clock' 2) ?row"
    using second(4,5) by (simp_all add: newRecord_def TimeAdd_def UTC_def After_def expiredCompleted_def)
  from postgres_idempotency.answered_from_record [where clock = clock', OF s3(2) second(1) s3(3) live(2), of sha256 newID' next' h'] live(1)
  obtain s4 where s4: "Idempotency sha256 clock' newID' (Some postgres_store) next' q h' s3 =
      (replyExisting (clock' 4) (hashRequestBody sha256 body) h' (Inr ?row), s4)" by auto
  have "replyExisting (clock' 4) (hashRequestBody sha256 body) h' (Inr ?row) =
      Response (header_Set ''Content-Type'' ''application/json'' h') (capture_statusCode rec) (cw_body rec)"
    by (simp add: replyExisting_def newRecord_def)
  moreover have "s4 = s3\<lparr>db_idempotency := db_idempotency s4\<rparr>"
  proof -
    obtain s5 where s5: "st_CreatePending postgres_store (clock' 0) (clock' 2) newID' (newRecord sha256 clock' newID' key userID q' body) s3 =
        (Inr False, s5)"
      using postgres_idempotency.create_existing [OF s3(2), of "newRecord sha256 clock' newID' key userID q' body" ?row "clock' 2"] s3(3) live(2)
      by (auto simp: newRecord_def ik_key_def)
    then have "s4 = s5" using s4 by (auto simp: Idempotency_guarded [OF second(1)] Let_def postgres_store_def
        IdempotencyRepository_Get_def)
    with s5 show ?thesis
      by (auto simp: postgres_store_def IdempotencyRepository_CreatePending_def sbind_def swrap_def deleteExpired_def
          insertPending_def split: if_splits sum.splits)
  qed
  ultimately show ?thesis using s3(1) s4 by auto
qed

theorem idempotent_replay_witness:
  "\<exists>s3 s4. Idempotency (\<lambda>b. b) (\<lambda>_. day_time 738000) ''i'' (Some postgres_store) sample_handler sample_request [] idem_db =
      (Response [(''Content-Type'', [''application/json''])] 201 ''{}'', s3) \<and>
    Idempotency (\<lambda>b. b) (\<lambda>_. TimeAdd (day_time 738000) ns_per_second) ''j'' (Some postgres_store) (\<lambda>r h s. ((h, []), idem_db))
      sample_request [] s3 = (Response [(''Content-Type'', [''application/json''])] 201 ''{}'', s4)"
proof -
  let ?clock = "\<lambda>_ :: nat. day_time 738000" and ?clock' = "\<lambda>_ :: nat. TimeAdd (day_time 738000) ns_per_second"
  let ?rec = "newRecord (\<lambda>b. b) ?clock ''i'' ''k'' ''U'' sample_request ''{}''"
  have g: "guarded sample_request ''k'' sample_request ''U'' ''{}''"
    using sample_load_facts(3) [of 0] by (simp add: loaded_def sample_load_def)
  define s1 where "s1 = idem_db\<lparr>db_idempotency := [pendingRecord (day_time 738000) ''i'' ?rec]\<rparr>"
  define rec where "rec = fst (captured sample_handler sample_request [] s1)"
  have created: "IdempotencyRepository_CreatePending (?clock 0) (?clock 2) ''i'' ?rec idem_db = (Inr True, s1)"
    by (simp add: IdempotencyRepository_CreatePending_def sbind_def swrap_def deleteExpired_def insertPending_True_iff idem_db_def
        empty_db_def s1_def newRecord_def)
  have cap: "captured sample_handler sample_request [] s1 = (rec, s1\<lparr>db_categories := []\<rparr>)"
    by (simp add: rec_def captured_def sample_handler_def)
  have rec: "rec = \<lparr>cw_status = 201, cw_header = [(''Content-Type'', [''application/json''])], cw_body = ''{}''\<rparr>"
    by (simp add: rec_def captured_def sample_handler_def newCaptureResponseWriter_def capture_WriteHeader_def capture_Write_def
        header_Set_def)
  have "idempotency_ok idem_db" by (simp add: idempotency_ok_def idem_db_def empty_db_def)
  from idempotent_replay [OF this g _ created cap _ _ g refl refl, where clock' = ?clock' and next' = "\<lambda>r h s. ((h, []), idem_db)"
      and newID' = "''j''" and h' = "[]"]
  show ?thesis by (simp add: rec capture_statusCode_def capture_flushTo_def copyHeaders_def header_Add_def header_Del_def
      header_Set_def TimeAdd_def ns_per_second_def) blast
qed

text \<open>C24. A request whose answer was not recorded (its process crashed, its handler answered 500 or
  more, or the completion failed) is never run again: every later request of its key is
  refused with a conflict. While the record is younger than its expiry the conflict says
  that the request is in progress or that its outcome is unknown; afterwards, although pending
  records are kept, it is reported as a conflict of keys.\<close>

theorem pending_request_never_rerun:
  assumes "idempotency_ok s" "guarded r key r' userID body" "e \<in> set (db_idempotency s)"
    "ik_key e = (key, userID, hq_Method r', hq_Path r')" "ik_Status e = ''pending''"
  shows "\<exists>code msg s'. Idempotency sha256 clock newID (Some postgres_store) next r h s = (JSONError 409 code msg, s') \<and>
    e \<in> set (db_idempotency s') \<and>
    code = (if \<not> After (ik_ExpiresAt e) (clock 3) then ''idempotency_key_conflict''
      else if ik_RequestHash e \<noteq> hashRequestBody sha256 body then ''idempotency_key_reused''
      else if (case ik_LockedUntil e of None \<Rightarrow> True | Some l \<Rightarrow> t_ns l \<le> t_ns (clock 4)) then ''idempotency_outcome_unknown''
      else ''idempotency_in_progress'')"
proof -
  have l: "idempotency_lookup s (key, userID, hq_Method r', hq_Path r') = Some e"
    using assms by (simp add: idempotency_lookup_iff)
  have "\<not> expiredCompleted (clock 2) e" using assms(5) by (simp add: expiredCompleted_def)
  from postgres_idempotency.answered_from_record [where clock = clock, OF assms(1,2) l this, of sha256 newID "next" h] obtain s' where
    run: "Idempotency sha256 clock newID (Some postgres_store) next r h s =
      ((if After (ik_ExpiresAt e) (clock 3) then replyExisting (clock 4) (hashRequestBody sha256 body) h (Inr e)
        else JSONError 409 ''idempotency_key_conflict'' ''Idempotency key conflict''), s')"
    and e: "idempotency_lookup s' (key, userID, hq_Method r', hq_Path r') = Some e" "idempotency_ok s'" by blast
  have "ik_StatusCode e = None" using assms(1,3,5) by (auto simp: idempotency_ok_def list_all_iff)
  moreover have "e \<in> set (db_idempotency s')" using e by (simp add: idempotency_lookup_iff)
  ultimately show ?thesis using run
    by (auto simp: replyExisting_def Before_def UTC_def not_less split: option.splits)
qed

theorem pending_request_never_rerun_witness:
  "\<exists>s e. e \<in> set (db_idempotency s) \<and> ik_Status e = ''pending'' \<and>
     (\<exists>msg s'. Idempotency (\<lambda>b. b) (\<lambda>_. day_time 738001) ''j'' (Some postgres_store) sample_handler sample_request [] s =
        (JSONError 409 ''idempotency_key_conflict'' msg, s'))"
proof -
  let ?e = "pendingRecord (day_time 738000) ''i'' (newRecord (\<lambda>b. b) (\<lambda>_. day_time 738000) ''i'' ''k'' ''U'' sample_request ''{}'')"
  let ?s = "idem_db\<lparr>db_idempotency := [?e]\<rparr>"
  have g: "guarded sample_request ''k'' sample_request ''U'' ''{}''"
    using sample_load_facts(3) [of 0] by (simp add: loaded_def sample_load_def)
  have e: "idempotency_ok ?s" "?e \<in> set (db_idempotency ?s)"
    "ik_key ?e = (''k'', ''U'', hq_Method sample_request, hq_Path sample_request)" "ik_Status ?e = ''pending''"
    by (simp_all add: idempotency_ok_def pendingRecord_def Let_def newRecord_def ik_key_def)
  have "\<not> After (ik_ExpiresAt ?e) (day_time 738001)"
    by (simp add: newRecord_def After_def TimeAdd_def UTC_def day_time_def ns_per_day_def ns_per_second_def)
  with pending_request_never_rerun [OF e(1) g e(2-4), of "\<lambda>b. b" "\<lambda>_. day_time 738001" "''j''" sample_handler "[]"] e(2,4)
  show ?thesis by (intro exI [of _ ?s] exI [of _ ?e]) auto
qed

end
