(* ===== verification/Passkeys.thy ===== *)
theory Passkeys
  imports Interest_Rules Auth_Http
begin

text \<open>
  Passkeys: the repository of \<^verbatim>\<open>internal/postgres/passkeys.go\<close> and the service of
  \<^verbatim>\<open>internal/services/passkey_service.go\<close>, which registers WebAuthn credentials and logs in with
  them. The packages \<^verbatim>\<open>webauthn\<close>, \<^verbatim>\<open>protocol\<close> and \<^verbatim>\<open>uuid\<close> are the parameter \<open>webauthn_lib\<close>:
  parsed answers, options and session data are types of their own. The state of the service is
  the database and the time of the last clean-up of challenges; \<open>sdb\<close> runs a statement of the
  database in it. Session data is text, read back as it was written.

  \<open>passkey_step\<close> runs the operations in any order. The lemmas show that a challenge is used at
  most once and that a login belongs to an active credential of its user.
\<close>

section \<open>Tables\<close>

definition credential_guard :: "'d db \<Rightarrow> PasskeyCredential \<Rightarrow> err + unit" where
  "credential_guard s c =
     row_guard True
       (pk_ID c \<notin> set (map pk_ID (db_passkeys s)) \<and> pk_CredentialID c \<notin> set (map pk_CredentialID (db_passkeys s)))
       (pk_UserID c \<in> set (map u_ID (db_users s)))"

definition challenge_guard :: "'d db \<Rightarrow> WebAuthnChallenge \<Rightarrow> err + unit" where
  "challenge_guard s c =
     row_guard (wc_Ceremony c \<in> {''registration'', ''login''})
       (wc_ID c \<notin> set (map wc_ID (db_challenges s)) \<and> wc_Challenge c \<notin> set (map wc_Challenge (db_challenges s)))
       (case wc_UserID c of None \<Rightarrow> True | Some u \<Rightarrow> u \<in> set (map u_ID (db_users s)))"

text \<open>The column of the sign count holds the values of a \<^verbatim>\<open>uint32\<close> only, so reading a row never fails.\<close>

definition scanPasskeyCredential :: "err + PasskeyCredential \<Rightarrow> err + PasskeyCredential" where
  "scanPasskeyCredential r = ewrap ''scan passkey credential'' r"

definition PasskeyRepository_CreateCredential :: "PasskeyCredential \<Rightarrow> ('d, unit) dbstm" where
  "PasskeyRepository_CreateCredential credential =
     sbind (sread (\<lambda>s. ewrap ''create passkey credential'' (emap mapConflict (credential_guard s credential)))) (\<lambda>_.
     swrite (\<lambda>s. s\<lparr>db_passkeys := db_passkeys s @ [credential]\<rparr>))"

text \<open>\<^verbatim>\<open>ORDER BY created_at DESC\<close>\<close>

definition PasskeyRepository_ListCredentialsByUser :: "string \<Rightarrow> bool \<Rightarrow> ('d, PasskeyCredential list) dbstm" where
  "PasskeyRepository_ListCredentialsByUser userID includeRevoked =
     sread (\<lambda>s. Inr (sort_key (\<lambda>c. - t_ns (pk_CreatedAt c))
       (filter (\<lambda>c. pk_UserID c = userID \<and> (includeRevoked \<or> pk_RevokedAt c = None)) (db_passkeys s))))"

definition PasskeyRepository_GetCredentialByIDForUser :: "string \<Rightarrow> string \<Rightarrow> ('d, PasskeyCredential) dbstm" where
  "PasskeyRepository_GetCredentialByIDForUser cid userID =
     sread (\<lambda>s. ewrap ''get passkey credential''
       (emap mapNotFound (scanPasskeyCredential (QueryRow (\<lambda>c. pk_ID c = cid \<and> pk_UserID c = userID) (db_passkeys s)))))"

definition PasskeyRepository_GetCredentialByCredentialID :: "string \<Rightarrow> ('d, PasskeyCredential) dbstm" where
  "PasskeyRepository_GetCredentialByCredentialID credentialID =
     sread (\<lambda>s. ewrap ''get passkey credential by credential id''
       (emap mapNotFound (scanPasskeyCredential (QueryRow (\<lambda>c. pk_CredentialID c = credentialID) (db_passkeys s)))))"

definition PasskeyRepository_CountActiveCredentialsByUser :: "string \<Rightarrow> ('d, int) dbstm" where
  "PasskeyRepository_CountActiveCredentialsByUser userID =
     sread (\<lambda>s. Inr (int (length (filter (\<lambda>c. pk_UserID c = userID \<and> pk_RevokedAt c = None) (db_passkeys s)))))"

text \<open>\<^verbatim>\<open>UPDATE passkey_credentials SET ... WHERE ... AND revoked_at IS NULL\<close>\<close>

definition update_credentials ::
  "(PasskeyCredential \<Rightarrow> bool) \<Rightarrow> (PasskeyCredential \<Rightarrow> PasskeyCredential) \<Rightarrow> ('d, unit) dbstm" where
  "update_credentials P f =
     sbind (sread (\<lambda>s. Inr (length (filter (\<lambda>c. P c \<and> pk_RevokedAt c = None) (db_passkeys s))))) (\<lambda>n.
     sbind (swrite (\<lambda>s. s\<lparr>db_passkeys := map (\<lambda>c. if P c \<and> pk_RevokedAt c = None then f c else c) (db_passkeys s)\<rparr>)) (\<lambda>_.
     scheck (n = 0) ErrNotFound))"

definition after_login :: "32 word \<Rightarrow> bool \<Rightarrow> bool \<Rightarrow> time \<Rightarrow> PasskeyCredential \<Rightarrow> PasskeyCredential" where
  "after_login signCount cloneWarning backupState lastUsedAt c =
     c\<lparr>pk_SignCount := signCount, pk_CloneWarning := cloneWarning, pk_BackupState := backupState,
       pk_LastUsedAt := Some lastUsedAt, pk_UpdatedAt := lastUsedAt\<rparr>"

definition PasskeyRepository_UpdateCredentialAfterLogin ::
  "string \<Rightarrow> 32 word \<Rightarrow> bool \<Rightarrow> bool \<Rightarrow> time \<Rightarrow> ('d, unit) dbstm" where
  "PasskeyRepository_UpdateCredentialAfterLogin credentialID signCount cloneWarning backupState lastUsedAt =
     update_credentials (\<lambda>c. pk_CredentialID c = credentialID)
       (after_login signCount cloneWarning backupState lastUsedAt)"

definition renamed :: "string \<Rightarrow> time \<Rightarrow> PasskeyCredential \<Rightarrow> PasskeyCredential" where
  "renamed name updatedAt c = c\<lparr>pk_Name := name, pk_UpdatedAt := updatedAt\<rparr>"

definition PasskeyRepository_RenameCredential :: "string \<Rightarrow> string \<Rightarrow> string \<Rightarrow> time \<Rightarrow> ('d, unit) dbstm" where
  "PasskeyRepository_RenameCredential cid userID name updatedAt =
     update_credentials (\<lambda>c. pk_ID c = cid \<and> pk_UserID c = userID) (renamed name updatedAt)"

definition revoked_credential :: "time \<Rightarrow> PasskeyCredential \<Rightarrow> PasskeyCredential" where
  "revoked_credential revokedAt c = c\<lparr>pk_RevokedAt := Some revokedAt, pk_UpdatedAt := revokedAt\<rparr>"

definition PasskeyRepository_RevokeCredential :: "string \<Rightarrow> string \<Rightarrow> time \<Rightarrow> ('d, unit) dbstm" where
  "PasskeyRepository_RevokeCredential cid userID revokedAt =
     update_credentials (\<lambda>c. pk_ID c = cid \<and> pk_UserID c = userID) (revoked_credential revokedAt)"

definition PasskeyRepository_CreateChallenge :: "WebAuthnChallenge \<Rightarrow> ('d, unit) dbstm" where
  "PasskeyRepository_CreateChallenge challenge =
     sbind (sread (\<lambda>s. ewrap ''create webauthn challenge'' (emap mapConflict (challenge_guard s challenge)))) (\<lambda>_.
     swrite (\<lambda>s. s\<lparr>db_challenges := db_challenges s @ [challenge]\<rparr>))"

definition challenge_usable :: "string \<Rightarrow> string \<Rightarrow> string option \<Rightarrow> time \<Rightarrow> WebAuthnChallenge \<Rightarrow> bool" where
  "challenge_usable ceremony challenge userID usedAt c =
     (wc_Ceremony c = ceremony \<and> wc_Challenge c = challenge \<and> wc_UsedAt c = None \<and> Before usedAt (wc_ExpiresAt c) \<and>
      wc_UserID c = userID)"

definition PasskeyRepository_ConsumeChallenge ::
  "string \<Rightarrow> string \<Rightarrow> string option \<Rightarrow> time \<Rightarrow> ('d, WebAuthnChallenge) dbstm" where
  "PasskeyRepository_ConsumeChallenge ceremony challenge userID usedAt =
     sbind (sread (\<lambda>s. ewrap ''consume webauthn challenge'' (emap mapNotFound (ewrap ''scan webauthn challenge''
       (QueryRow (challenge_usable ceremony challenge userID usedAt) (db_challenges s)))))) (\<lambda>c.
     sbind (swrite (\<lambda>s. s\<lparr>db_challenges := map (\<lambda>c. if challenge_usable ceremony challenge userID usedAt c
         then c\<lparr>wc_UsedAt := Some usedAt\<rparr> else c) (db_challenges s)\<rparr>)) (\<lambda>_.
     sret (c\<lparr>wc_UsedAt := Some usedAt\<rparr>)))"

definition PasskeyRepository_DeleteExpiredChallenges :: "time \<Rightarrow> ('d, unit) dbstm" where
  "PasskeyRepository_DeleteExpiredChallenges before =
     swrite (\<lambda>s. s\<lparr>db_challenges := filter (\<lambda>c. \<not> (Before (wc_ExpiresAt c) before \<or> wc_UsedAt c \<noteq> None)) (db_challenges s)\<rparr>)"

section \<open>The library\<close>

record webauthn_Credential =
  wa_ID :: string
  wa_PublicKey :: string
  wa_AttestationType :: string
  wa_Transport :: "string list"
  wa_BackupEligible :: bool
  wa_BackupState :: bool
  wa_AAGUID :: string
  wa_SignCount :: "32 word"
  wa_CloneWarning :: bool

record passkeyUser =
  pu_user :: User
  pu_credentials :: "PasskeyCredential list"

text \<open>The methods of the interface \<^verbatim>\<open>webauthn.User\<close>.\<close>

record webauthn_User =
  wu_ID :: string
  wu_Name :: string
  wu_DisplayName :: string
  wu_Credentials :: "webauthn_Credential list"

text \<open>\<open>'s\<close>: session data, \<open>'c\<close> and \<open>'a\<close>: parsed answers of the two ceremonies, \<open>'o\<close>: options.
  The functions that draw a challenge are given the random bytes, those that check expiry the time.\<close>

record ('s, 'c, 'a, 'o) webauthn_lib =
  wl_Challenge :: "'s \<Rightarrow> string"
  wl_Expires :: "'s \<Rightarrow> time"
  wl_Marshal :: "'s \<Rightarrow> err + string"
  wl_Unmarshal :: "string \<Rightarrow> err + 's"
  wl_parseCreation :: "string \<Rightarrow> err + 'c"
  wl_creationChallenge :: "'c \<Rightarrow> string"
  wl_parseAssertion :: "string \<Rightarrow> err + 'a"
  wl_assertionChallenge :: "'a \<Rightarrow> string"
  wl_BeginRegistration :: "(nat \<Rightarrow> err + string) \<Rightarrow> time \<Rightarrow> webauthn_User \<Rightarrow> webauthn_Credential list \<Rightarrow> err + 'o \<times> 's"
  wl_CreateCredential :: "time \<Rightarrow> webauthn_User \<Rightarrow> 's \<Rightarrow> 'c \<Rightarrow> err + webauthn_Credential"
  wl_BeginDiscoverableLogin :: "(nat \<Rightarrow> err + string) \<Rightarrow> time \<Rightarrow> err + 'o \<times> 's"
  wl_ValidatePasskeyLogin :: "time \<Rightarrow> (string \<Rightarrow> string \<Rightarrow> err + passkeyUser) \<Rightarrow> 's \<Rightarrow> 'a \<Rightarrow> err + passkeyUser \<times> webauthn_Credential"
  wl_uuidString :: "string \<Rightarrow> string option"
  wl_uuidParse :: "string \<Rightarrow> string option"

text \<open>What the service relies on: the user a login is validated for is one its handler returned, for the
  credential the authenticator presented.\<close>

definition webauthn_law :: "('s, 'c, 'a, 'o) webauthn_lib \<Rightarrow> bool" where
  "webauthn_law W \<longleftrightarrow>
     (\<forall>now handler session parsed user credential.
        wl_ValidatePasskeyLogin W now handler session parsed = Inr (user, credential) \<longrightarrow>
        (\<exists>userHandle. handler (wa_ID credential) userHandle = Inr user))"

section \<open>The service\<close>

abbreviation "passkeyCeremonyRegistration \<equiv> ''registration''"
abbreviation "passkeyCeremonyLogin \<equiv> ''login''"

definition passkeyChallengeTTL :: duration where
  "passkeyChallengeTTL = 5 * 60 * ns_per_second"

definition passkeyChallengeCleanupTTL :: duration where
  "passkeyChallengeCleanupTTL = 3600 * ns_per_second"

type_synonym ('d, 'a) pkstm = "('d db \<times> time, err, 'a) stm"

definition sdb :: "('d, 'a) dbstm \<Rightarrow> ('d, 'a) pkstm" where
  "sdb m st = (case st of (s, lastCleanup) \<Rightarrow> (case m s of (r, s') \<Rightarrow> (r, (s', lastCleanup))))"

record PasskeyRegistrationOptionsRequest =
  pr_UserID :: string
  pr_Password :: string

record PasskeyRenameRequest =
  rn_UserID :: string
  rn_ID :: string
  rn_Name :: string

record PasskeyDeleteRequest =
  pd_UserID :: string
  pd_ID :: string

subsection \<open>Credentials\<close>

definition credentialModelFromWebAuthn ::
  "('s, 'c, 'a, 'o) webauthn_lib \<Rightarrow> string \<Rightarrow> webauthn_Credential \<Rightarrow> string \<Rightarrow> string \<Rightarrow> time \<Rightarrow> PasskeyCredential" where
  "credentialModelFromWebAuthn W newID credential userID name now =
     \<lparr>pk_ID = newID, pk_UserID = userID, pk_CredentialID = wa_ID credential, pk_PublicKey = wa_PublicKey credential,
      pk_AttestationType = wa_AttestationType credential, pk_Transports = wa_Transport credential,
      pk_SignCount = wa_SignCount credential, pk_CloneWarning = wa_CloneWarning credential,
      pk_BackupEligible = wa_BackupEligible credential, pk_BackupState = wa_BackupState credential, pk_Name = name,
      pk_AAGUID = (if length (wa_AAGUID credential) = 16 then wl_uuidString W (wa_AAGUID credential) else None),
      pk_LastUsedAt = None, pk_RevokedAt = None, pk_CreatedAt = now, pk_UpdatedAt = now\<rparr>"

definition webAuthnCredentialFromModel :: "('s, 'c, 'a, 'o) webauthn_lib \<Rightarrow> PasskeyCredential \<Rightarrow> webauthn_Credential" where
  "webAuthnCredentialFromModel W credential =
     \<lparr>wa_ID = pk_CredentialID credential, wa_PublicKey = pk_PublicKey credential,
      wa_AttestationType = pk_AttestationType credential, wa_Transport = pk_Transports credential,
      wa_BackupEligible = pk_BackupEligible credential, wa_BackupState = pk_BackupState credential,
      wa_AAGUID = (case pk_AAGUID credential of None \<Rightarrow> ''''
        | Some aaguid \<Rightarrow> (case wl_uuidParse W aaguid of Some bytes \<Rightarrow> bytes | None \<Rightarrow> '''')),
      wa_SignCount = pk_SignCount credential, wa_CloneWarning = pk_CloneWarning credential\<rparr>"

definition WebAuthnID :: "passkeyUser \<Rightarrow> string" where
  "WebAuthnID u = u_ID (pu_user u)"

definition WebAuthnName :: "passkeyUser \<Rightarrow> string" where
  "WebAuthnName u = u_Email (pu_user u)"

definition WebAuthnDisplayName :: "passkeyUser \<Rightarrow> string" where
  "WebAuthnDisplayName u = u_Email (pu_user u)"

definition WebAuthnCredentials :: "('s, 'c, 'a, 'o) webauthn_lib \<Rightarrow> passkeyUser \<Rightarrow> webauthn_Credential list" where
  "WebAuthnCredentials W u = map (webAuthnCredentialFromModel W) (filter PasskeyCredential_IsActive (pu_credentials u))"

definition webAuthnUser :: "('s, 'c, 'a, 'o) webauthn_lib \<Rightarrow> passkeyUser \<Rightarrow> webauthn_User" where
  "webAuthnUser W u =
     \<lparr>wu_ID = WebAuthnID u, wu_Name = WebAuthnName u, wu_DisplayName = WebAuthnDisplayName u,
      wu_Credentials = WebAuthnCredentials W u\<rparr>"

definition normalizePasskeyName :: "string \<Rightarrow> err + string" where
  "normalizePasskeyName name =
     (let name = TrimSpace name
      in echeck (name = '''') (validationError ''passkey name is required'')
         (echeck (length name > 80) (validationError ''passkey name is too long'') (Inr name)))"

definition defaultPasskeyName :: "time \<Rightarrow> string" where
  "defaultPasskeyName now = ''Passkey '' @ FormatDateOnly now"

subsection \<open>Challenges\<close>

definition cleanupChallenges :: "auth_service \<Rightarrow> auth_env \<Rightarrow> ('d, unit) pkstm" where
  "cleanupChallenges A E st =
     (case st of (s, lastCleanup) \<Rightarrow>
        let now = en_clock E 5
        in if \<not> IsZero lastCleanup \<and> TimeSub now lastCleanup < passkeyChallengeCleanupTTL then sret () (s, lastCleanup)
           else sdb (stry (PasskeyRepository_DeleteExpiredChallenges now)
                  (\<lambda>_. Audit A E ''passkey_challenge_cleanup_failed'' '''' None False ''cleanup_failed'') sret) (s, now))"

definition challengeRecord ::
  "('s, 'c, 'a, 'o) webauthn_lib \<Rightarrow> string \<Rightarrow> time \<Rightarrow> string \<Rightarrow> string \<Rightarrow> 's \<Rightarrow> string \<Rightarrow> WebAuthnChallenge" where
  "challengeRecord W newID now userID ceremony session data =
     (let expires = TimeAdd now passkeyChallengeTTL
      in \<lparr>wc_ID = newID, wc_UserID = (if userID \<noteq> '''' then Some userID else None), wc_Ceremony = ceremony,
          wc_Challenge = wl_Challenge W session, wc_SessionData = data,
          wc_ExpiresAt = (if \<not> IsZero (wl_Expires W session) \<and> Before (wl_Expires W session) expires
            then wl_Expires W session else expires),
          wc_UsedAt = None, wc_CreatedAt = now\<rparr>)"

definition storeChallenge :: "('s, 'c, 'a, 'o) webauthn_lib \<Rightarrow> auth_env \<Rightarrow> string \<Rightarrow> string \<Rightarrow> 's \<Rightarrow> ('d, unit) dbstm" where
  "storeChallenge W E userID ceremony session =
     sbind (slift (ewrap ''marshal webauthn session'' (wl_Marshal W session))) (\<lambda>data.
     swrap ''store webauthn challenge''
       (PasskeyRepository_CreateChallenge (challengeRecord W (en_uuid E 5) (en_clock E 6) userID ceremony session data)))"

definition consumeChallenge :: "auth_env \<Rightarrow> string \<Rightarrow> string \<Rightarrow> string option \<Rightarrow> ('d, WebAuthnChallenge) dbstm" where
  "consumeChallenge E ceremony challenge userID =
     stry (PasskeyRepository_ConsumeChallenge ceremony challenge userID (en_clock E 6))
       (\<lambda>e. if errorsIs e ErrNotFound then sfail (validationError ''invalid passkey challenge'')
            else sfail (Wrapped ''consume webauthn challenge'' e))
       sret"

definition decodeSessionData :: "('s, 'c, 'a, 'o) webauthn_lib \<Rightarrow> string \<Rightarrow> err + 's" where
  "decodeSessionData W data = ewrap ''decode webauthn session'' (wl_Unmarshal W data)"

subsection \<open>Registration\<close>

definition PasskeyService_List :: "string \<Rightarrow> ('d, PasskeyCredential list) pkstm" where
  "PasskeyService_List userID =
     (let userID = TrimSpace userID
      in sbind (scheck (userID = '''') (validationError ''user is required'')) (\<lambda>_.
         sdb (swrap ''list passkeys'' (PasskeyRepository_ListCredentialsByUser userID False))))"

definition beginRegistration ::
  "('s, 'c, 'a, 'o) webauthn_lib \<Rightarrow> auth_service \<Rightarrow> auth_env \<Rightarrow> User \<Rightarrow> ('d, 'o) dbstm" where
  "beginRegistration W A E user =
     sbind (swrap ''list passkeys'' (PasskeyRepository_ListCredentialsByUser (u_ID user) False)) (\<lambda>credentials.
     let webUser = \<lparr>pu_user = user, pu_credentials = credentials\<rparr>;
         failed = auditFail A E ''passkey_registration_failed'' (u_Email user) (Some (u_ID user))
     in stry (slift (wl_BeginRegistration W (en_rand E) (en_clock E 7) (webAuthnUser W webUser)
           (WebAuthnCredentials W webUser)))
          (\<lambda>e. failed ''options_failed'' (Wrapped ''begin passkey registration'' e))
          (\<lambda>(options, session).
             stry (storeChallenge W E (u_ID user) passkeyCeremonyRegistration session)
               (\<lambda>e. failed ''challenge_store_failed'' e)
               (\<lambda>_. sbind (Audit A E ''passkey_registration_options'' (u_Email user) (Some (u_ID user)) True '''') (\<lambda>_.
                    sret options))))"

definition RegistrationOptions ::
  "('s, 'c, 'a, 'o) webauthn_lib \<Rightarrow> auth_service \<Rightarrow> auth_env \<Rightarrow> ctx \<Rightarrow> PasskeyRegistrationOptionsRequest \<Rightarrow> ('d, 'o) pkstm" where
  "RegistrationOptions W A E ctx req =
     (let userID = TrimSpace (pr_UserID req)
      in sbind (scheck (userID = '''') (validationError ''user is required'')) (\<lambda>_.
         sbind (sdb (swrap ''get user'' (UserRepository_GetByID userID))) (\<lambda>user.
         sbind (sdb (ConfirmPassword A E ctx user (pr_Password req))) (\<lambda>(user, confirmation).
         if \<not> pc_OK confirmation then
           sdb (auditFail A E ''passkey_registration_failed'' (u_Email user) (Some (u_ID user))
             (if pc_Locked confirmation then ''account_locked'' else ''fresh_session_required'')
             (validationError ''passkey registration requires recent password confirmation''))
         else
           sbind (cleanupChallenges A E) (\<lambda>_.
           sdb (beginRegistration W A E user))))))"

definition saveCredential :: "auth_service \<Rightarrow> auth_env \<Rightarrow> User \<Rightarrow> PasskeyCredential \<Rightarrow> ('d, PasskeyCredential) dbstm" where
  "saveCredential A E user credential =
     stry (PasskeyRepository_CreateCredential credential)
       (\<lambda>e. let conflict = errorsIs e ErrConflict
            in auditFail A E ''passkey_registration_failed'' (u_Email user) (Some (u_ID user))
                 (if conflict then ''credential_collision'' else ''save_failed'')
                 (if conflict then validationError ''passkey registration failed'' else Wrapped ''save passkey'' e))
       (\<lambda>_. sbind (Audit A E ''passkey_registration_success'' (u_Email user) (Some (u_ID user)) True '''') (\<lambda>_.
            sret credential))"

definition finishRegistration ::
  "('s, 'c, 'a, 'o) webauthn_lib \<Rightarrow> auth_service \<Rightarrow> auth_env \<Rightarrow> User \<Rightarrow> 'c \<Rightarrow> WebAuthnChallenge \<Rightarrow>
     ('d, PasskeyCredential) dbstm" where
  "finishRegistration W A E user parsed challenge =
     sbind (slift (decodeSessionData W (wc_SessionData challenge))) (\<lambda>session.
     sbind (swrap ''list passkeys'' (PasskeyRepository_ListCredentialsByUser (u_ID user) False)) (\<lambda>credentials.
     let webUser = \<lparr>pu_user = user, pu_credentials = credentials\<rparr>
     in stry (slift (wl_CreateCredential W (en_clock E 7) (webAuthnUser W webUser) session parsed))
          (\<lambda>_. auditFail A E ''passkey_registration_failed'' (u_Email user) (Some (u_ID user)) ''verification_failed''
             (validationError ''passkey registration failed''))
          (\<lambda>credential.
             let now = en_clock E 8
             in saveCredential A E user
                  (credentialModelFromWebAuthn W (en_uuid E 5) credential (u_ID user) (defaultPasskeyName now) now))))"

definition VerifyRegistration ::
  "('s, 'c, 'a, 'o) webauthn_lib \<Rightarrow> auth_service \<Rightarrow> auth_env \<Rightarrow> string \<Rightarrow> string \<Rightarrow> ('d, PasskeyCredential) pkstm" where
  "VerifyRegistration W A E userID body =
     (let userID = TrimSpace userID
      in sbind (scheck (userID = '''') (validationError ''user is required'')) (\<lambda>_.
         sdb (sbind (swrap ''get user'' (UserRepository_GetByID userID)) (\<lambda>user.
         let failed = (\<lambda>reason. auditFail A E ''passkey_registration_failed'' (u_Email user) (Some (u_ID user)) reason
               (validationError ''passkey registration failed''))
         in case wl_parseCreation W body of
              Inl _ \<Rightarrow> failed ''invalid_response''
            | Inr parsed \<Rightarrow>
                stry (consumeChallenge E passkeyCeremonyRegistration (wl_creationChallenge W parsed) (Some (u_ID user)))
                  (\<lambda>_. failed ''invalid_challenge'')
                  (finishRegistration W A E user parsed)))))"

subsection \<open>Login\<close>

definition LoginOptions :: "('s, 'c, 'a, 'o) webauthn_lib \<Rightarrow> auth_service \<Rightarrow> auth_env \<Rightarrow> ('d, 'o) pkstm" where
  "LoginOptions W A E =
     sbind (cleanupChallenges A E) (\<lambda>_.
     sdb (case wl_BeginDiscoverableLogin W (en_rand E) (en_clock E 7) of
         Inl e \<Rightarrow> auditFail A E ''passkey_login_failed'' '''' None ''options_failed'' (Wrapped ''begin passkey login'' e)
       | Inr (options, session) \<Rightarrow>
           stry (storeChallenge W E '''' passkeyCeremonyLogin session)
             (\<lambda>e. auditFail A E ''passkey_login_failed'' '''' None ''challenge_store_failed'' e)
             (\<lambda>_. sbind (Audit A E ''passkey_login_options'' '''' None True '''') (\<lambda>_. sret options))))"

text \<open>The handler only reads, so it is a function of the database.\<close>

definition discoverableUserHandler :: "'d db \<Rightarrow> string \<Rightarrow> string \<Rightarrow> err + passkeyUser" where
  "discoverableUserHandler s rawID userHandle =
     ebind (ewrap ''get passkey credential'' (fst (PasskeyRepository_GetCredentialByCredentialID rawID s))) (\<lambda>credential.
     echeck (\<not> PasskeyCredential_IsActive credential) ErrNotFound
     (echeck (userHandle \<noteq> pk_UserID credential) ErrNotFound
     (ebind (ewrap ''get passkey user'' (fst (UserRepository_GetByID (pk_UserID credential) s))) (\<lambda>user.
      Inr \<lparr>pu_user = user, pu_credentials = [credential]\<rparr>))))"

definition finishLogin ::
  "('s, 'c, 'a, 'o) webauthn_lib \<Rightarrow> auth_service \<Rightarrow> auth_env \<Rightarrow> ctx \<Rightarrow> passkeyUser \<Rightarrow> webauthn_Credential \<Rightarrow>
     ('d, AuthSession) dbstm" where
  "finishLogin W A E ctx webUser credential =
     (let user = pu_user webUser; failed = auditFail A E ''passkey_login_failed'' (u_Email user) (Some (u_ID user))
      in if UserLocked (en_clock E 9) user then failed ''account_locked'' (validationError ''passkey login failed'')
         else
           stry (PasskeyRepository_UpdateCredentialAfterLogin (wa_ID credential) (wa_SignCount credential)
               (wa_CloneWarning credential) (wa_BackupState credential) (en_clock E 8))
             (\<lambda>e. failed ''credential_update_failed'' (Wrapped ''update passkey login'' e))
             (\<lambda>_. stry (IssueSessionForUser A E ctx (u_ID user))
                (\<lambda>e. failed ''issue_session_failed'' e)
                (\<lambda>session. sbind (Audit A E ''passkey_login_success'' (u_Email user) (Some (u_ID user)) True '''') (\<lambda>_.
                   sret session))))"

definition verifyAssertion ::
  "('s, 'c, 'a, 'o) webauthn_lib \<Rightarrow> auth_service \<Rightarrow> auth_env \<Rightarrow> ctx \<Rightarrow> 'a \<Rightarrow> WebAuthnChallenge \<Rightarrow> ('d, AuthSession) dbstm" where
  "verifyAssertion W A E ctx parsed challenge =
     sbind (slift (decodeSessionData W (wc_SessionData challenge))) (\<lambda>session.
     stry (sread (\<lambda>s. wl_ValidatePasskeyLogin W (en_clock E 7) (discoverableUserHandler s) session parsed))
       (\<lambda>_. auditFail A E ''passkey_login_failed'' '''' None ''verification_failed'' (validationError ''passkey login failed''))
       (\<lambda>(webUser, credential). finishLogin W A E ctx webUser credential))"

definition VerifyLogin ::
  "('s, 'c, 'a, 'o) webauthn_lib \<Rightarrow> auth_service \<Rightarrow> auth_env \<Rightarrow> ctx \<Rightarrow> string \<Rightarrow> ('d, AuthSession) pkstm" where
  "VerifyLogin W A E ctx body =
     (let failed = (\<lambda>reason. auditFail A E ''passkey_login_failed'' '''' None reason (validationError ''passkey login failed''))
      in sdb (case wl_parseAssertion W body of
           Inl _ \<Rightarrow> failed ''invalid_response''
         | Inr parsed \<Rightarrow>
             stry (consumeChallenge E passkeyCeremonyLogin (wl_assertionChallenge W parsed) None)
               (\<lambda>_. failed ''invalid_challenge'')
               (verifyAssertion W A E ctx parsed)))"

subsection \<open>Management\<close>

definition PasskeyService_Rename :: "auth_service \<Rightarrow> auth_env \<Rightarrow> PasskeyRenameRequest \<Rightarrow> ('d, PasskeyCredential) pkstm" where
  "PasskeyService_Rename A E req =
     sdb (sbind (slift (normalizePasskeyName (rn_Name req))) (\<lambda>name.
     stry (PasskeyRepository_RenameCredential (TrimSpace (rn_ID req)) (TrimSpace (rn_UserID req)) name (en_clock E 8))
       (\<lambda>e. auditFail A E ''passkey_rename_failed'' '''' (Some (rn_UserID req)) ''rename_failed'' (Wrapped ''rename passkey'' e))
       (\<lambda>_. sbind (swrap ''get renamed passkey''
              (PasskeyRepository_GetCredentialByIDForUser (TrimSpace (rn_ID req)) (TrimSpace (rn_UserID req)))) (\<lambda>credential.
            sbind (Audit A E ''passkey_renamed'' '''' (Some (rn_UserID req)) True '''') (\<lambda>_.
            sret credential)))))"

definition PasskeyService_Delete :: "auth_service \<Rightarrow> auth_env \<Rightarrow> PasskeyDeleteRequest \<Rightarrow> ('d, unit) pkstm" where
  "PasskeyService_Delete A E req =
     (let userID = TrimSpace (pd_UserID req)
      in sdb (stry (PasskeyRepository_RevokeCredential (TrimSpace (pd_ID req)) userID (en_clock E 8))
           (\<lambda>e. auditFail A E ''passkey_delete_failed'' '''' (Some userID) ''delete_failed'' (Wrapped ''delete passkey'' e))
           (\<lambda>_. Audit A E ''passkey_deleted'' '''' (Some userID) True '''')))"

section \<open>Properties the operations keep\<close>

lemma sdb_Inr_iff [tx_simps]: "sdb m st = (Inr x, st') \<longleftrightarrow> (\<exists>s'. m (fst st) = (Inr x, s') \<and> st' = (s', snd st))"
  by (auto simp: sdb_def split: prod.splits)

lemma keeps_sdb: "keeps P m \<Longrightarrow> keeps (\<lambda>st. P (fst st)) (sdb m)"
  by (auto simp: keeps_def sdb_def split: prod.splits)

lemma keeps_on_state: "keeps (\<lambda>st. P (fst st)) m \<Longrightarrow> P (fst st) \<Longrightarrow> P (fst (snd (m st)))"
  unfolding keeps_def by blast

text \<open>Authentication leaves the tables of passkeys alone.\<close>

definition same_passkeys :: "'d db \<Rightarrow> 'd db \<Rightarrow> bool" where
  "same_passkeys s0 s \<longleftrightarrow> db_passkeys s = db_passkeys s0 \<and> db_challenges s = db_challenges s0"

lemma keeps_same_passkeys:
  "keeps (same_passkeys s0) (Audit A E ev email uid success reason)"
  "keeps (same_passkeys s0) (auditFail A E ev email uid reason e)"
  "keeps (same_passkeys s0) (ConfirmPassword A E ctx user password)"
  "keeps (same_passkeys s0) (IssueSessionForUser A E ctx userID)"
  unfolding Audit_def auditFail_def AuthAuditRepository_Create_def insertAuthAuditEvent_def ConfirmPassword_def
    IssueSessionForUser_def issueSession_def RefreshTokenRepository_Create_def insertRefreshToken_def
    clearLoginFailures_def UserRepository_ClearLoginFailures_def UserRepository_RecordLoginFailure_def update_user_def
    UserRepository_GetByID_def getUser_def Let_def
  by (intro keeps_intros keeps_swrite; simp add: same_passkeys_def)+

lemma keeps_passkey_framed:
  fixes P :: "'d db \<Rightarrow> bool"
  assumes "\<And>s s'. P s \<Longrightarrow> same_passkeys s s' \<Longrightarrow> P s'"
  shows "keeps P (Audit A E ev email uid success reason)" "keeps P (ConfirmPassword A E ctx user password)"
    "keeps P (IssueSessionForUser A E ctx userID)"
proof -
  have "keeps P m" if "\<And>s0. keeps (same_passkeys s0) m" for m :: "('d, 'b) dbstm"
    using that assms unfolding keeps_def by (metis same_passkeys_def)
  from this [OF keeps_same_passkeys(1)] this [OF keeps_same_passkeys(3)] this [OF keeps_same_passkeys(4)]
  show "keeps P (Audit A E ev email uid success reason)" "keeps P (ConfirmPassword A E ctx user password)"
    "keeps P (IssueSessionForUser A E ctx userID)" .
qed

text \<open>The interface between the repositories and the service: a property of the database that the
  statements on passkeys keep, when the challenges that are stored are fresh, and what the service
  uses of authentication keeps.\<close>

locale passkey_operations =
  fixes P :: "'d db \<Rightarrow> bool" and fresh :: "string \<Rightarrow> bool"
  assumes audit: "keeps P (Audit A E ev email uid success reason)"
    and confirm: "keeps P (ConfirmPassword A E ctx user password)"
    and session: "keeps P (IssueSessionForUser A E ctx uid')"
    and create_credential: "keeps P (PasskeyRepository_CreateCredential credential)"
    and update_credential: "(\<And>c. pk_ID (f c) = pk_ID c \<and> pk_CredentialID (f c) = pk_CredentialID c \<and> pk_UserID (f c) = pk_UserID c) \<Longrightarrow>
      keeps P (update_credentials Q f)"
    and create_challenge: "fresh (wc_Challenge challenge) \<Longrightarrow> keeps P (PasskeyRepository_CreateChallenge challenge)"
    and consume_challenge: "keeps P (PasskeyRepository_ConsumeChallenge ceremony c userID usedAt)"
    and delete_challenges: "keeps P (PasskeyRepository_DeleteExpiredChallenges before)"
begin

lemma keeps_auditFail: "keeps P (auditFail A E ev email uid reason e)"
  unfolding auditFail_def by (intro keeps_intros audit)

lemmas keeps_auth = audit keeps_auditFail confirm session

lemma keeps_updates:
  "keeps P (PasskeyRepository_UpdateCredentialAfterLogin credentialID n w b t)"
  "keeps P (PasskeyRepository_RenameCredential cid userID name t)"
  "keeps P (PasskeyRepository_RevokeCredential cid userID t)"
  unfolding PasskeyRepository_UpdateCredentialAfterLogin_def PasskeyRepository_RenameCredential_def
    PasskeyRepository_RevokeCredential_def
  by (rule update_credential; simp add: after_login_def renamed_def revoked_credential_def)+

lemma keeps_passkey_reads:
  "keeps P (PasskeyRepository_ListCredentialsByUser userID r)" "keeps P (PasskeyRepository_GetCredentialByIDForUser cid userID)"
  "keeps P (UserRepository_GetByID userID)"
  by (simp_all add: PasskeyRepository_ListCredentialsByUser_def PasskeyRepository_GetCredentialByIDForUser_def
      UserRepository_GetByID_def getUser_def keeps_pure)

lemma keeps_storeChallenge: "fresh (wl_Challenge W session) \<Longrightarrow> keeps P (storeChallenge W E userID ceremony session)"
  unfolding storeChallenge_def by (intro keeps_intros create_challenge) (simp add: challengeRecord_def Let_def)

lemma keeps_consumeChallenge: "keeps P (consumeChallenge E ceremony c userID)"
  unfolding consumeChallenge_def by (intro keeps_intros consume_challenge)

lemma keeps_cleanup: "keeps (\<lambda>st. P (fst st)) (cleanupChallenges A E)"
proof -
  have "keeps P (stry (PasskeyRepository_DeleteExpiredChallenges now) (\<lambda>_. Audit A E ev email uid success reason) sret)"
    for now ev email uid success reason
    by (intro keeps_intros delete_challenges keeps_auth)
  from keeps_sdb [OF this] show ?thesis
    by (auto simp: cleanupChallenges_def keeps_def Let_def split: prod.splits)
qed

lemmas keeps_parts = keeps_intros keeps_sdb keeps_auth keeps_updates keeps_passkey_reads keeps_consumeChallenge keeps_cleanup
  create_credential

lemma keeps_List: "keeps (\<lambda>st. P (fst st)) (PasskeyService_List userID)"
  unfolding PasskeyService_List_def by (intro keeps_parts)

lemma keeps_lifted_options: "(\<And>x y. r = Inr (x, y) \<Longrightarrow> keeps P (f (x, y))) \<Longrightarrow> (\<And>e. keeps P (h e)) \<Longrightarrow> keeps P (stry (slift r) h f)"
  by (auto simp: keeps_def stry_def split: sum.splits)

lemma keeps_RegistrationOptions:
  assumes "\<And>t u ex options session. wl_BeginRegistration W (en_rand E) t u ex = Inr (options, session) \<Longrightarrow> fresh (wl_Challenge W session)"
  shows "keeps (\<lambda>st. P (fst st)) (RegistrationOptions W A E ctx req)"
proof -
  have "keeps P (beginRegistration W A E user)" for user
    unfolding beginRegistration_def Let_def
    by (intro keeps_parts keeps_lifted_options, simp only: prod.case, intro keeps_parts keeps_storeChallenge, rule assms)
  then show ?thesis unfolding RegistrationOptions_def by (intro keeps_parts)
qed

lemma keeps_VerifyRegistration: "keeps (\<lambda>st. P (fst st)) (VerifyRegistration W A E userID body)"
  unfolding VerifyRegistration_def finishRegistration_def saveCredential_def Let_def by (intro keeps_parts)

lemma keeps_LoginOptions:
  assumes "\<And>t options session. wl_BeginDiscoverableLogin W (en_rand E) t = Inr (options, session) \<Longrightarrow> fresh (wl_Challenge W session)"
  shows "keeps (\<lambda>st. P (fst st)) (LoginOptions W A E)"
  unfolding LoginOptions_def by (intro keeps_parts keeps_storeChallenge) (auto intro: assms)

lemma keeps_VerifyLogin: "keeps (\<lambda>st. P (fst st)) (VerifyLogin W A E ctx body)"
  unfolding VerifyLogin_def verifyAssertion_def finishLogin_def Let_def by (intro keeps_parts)

lemma keeps_Rename: "keeps (\<lambda>st. P (fst st)) (PasskeyService_Rename A E rename)"
  unfolding PasskeyService_Rename_def by (intro keeps_parts)

lemma keeps_Delete: "keeps (\<lambda>st. P (fst st)) (PasskeyService_Delete A E delete)"
  unfolding PasskeyService_Delete_def Let_def by (intro keeps_parts)

lemmas keeps_passkey_service = keeps_RegistrationOptions keeps_VerifyRegistration keeps_LoginOptions keeps_VerifyLogin
  keeps_List keeps_Rename keeps_Delete

end

text \<open>A property of the tables of passkeys alone is kept by the rest of the program too.\<close>

locale passkey_property = passkey_operations P fresh for P :: "'d db \<Rightarrow> bool" and fresh :: "string \<Rightarrow> bool" +
  assumes frame: "P s \<Longrightarrow> same_passkeys s s' \<Longrightarrow> P s'"

section \<open>The operations one after another\<close>

text \<open>\<open>fresh\<close> says of which challenges the library does not draw again.\<close>

inductive passkey_step ::
  "(string \<Rightarrow> bool) \<Rightarrow> ('s, 'c, 'a, 'o) webauthn_lib \<Rightarrow> auth_service \<Rightarrow> 'd db \<times> time \<Rightarrow> 'd db \<times> time \<Rightarrow> bool"
  for fresh W A where
  step_RegistrationOptions:
    "(\<And>t u ex options session. wl_BeginRegistration W (en_rand E) t u ex = Inr (options, session) \<Longrightarrow>
        fresh (wl_Challenge W session)) \<Longrightarrow> passkey_step fresh W A st (snd (RegistrationOptions W A E ctx req st))"
| step_VerifyRegistration: "passkey_step fresh W A st (snd (VerifyRegistration W A E userID body st))"
| step_LoginOptions:
    "(\<And>t options session. wl_BeginDiscoverableLogin W (en_rand E) t = Inr (options, session) \<Longrightarrow>
        fresh (wl_Challenge W session)) \<Longrightarrow> passkey_step fresh W A st (snd (LoginOptions W A E st))"
| step_VerifyLogin: "passkey_step fresh W A st (snd (VerifyLogin W A E ctx body st))"
| step_List: "passkey_step fresh W A st (snd (PasskeyService_List userID st))"
| step_Rename: "passkey_step fresh W A st (snd (PasskeyService_Rename A E rename st))"
| step_Delete: "passkey_step fresh W A st (snd (PasskeyService_Delete A E delete st))"
| step_rest: "same_passkeys (fst st) s' \<Longrightarrow> passkey_step fresh W A st (s', snd st)"

abbreviation passkey_steps ::
  "(string \<Rightarrow> bool) \<Rightarrow> ('s, 'c, 'a, 'o) webauthn_lib \<Rightarrow> auth_service \<Rightarrow> 'd db \<times> time \<Rightarrow> 'd db \<times> time \<Rightarrow> bool" where
  "passkey_steps fresh W A \<equiv> (passkey_step fresh W A)\<^sup>*\<^sup>*"

context passkey_property
begin

lemma passkey_step_keeps: "passkey_step fresh W A st st' \<Longrightarrow> P (fst st) \<Longrightarrow> P (fst st')"
proof (induction rule: passkey_step.induct)
  case (step_RegistrationOptions E st ctx req)
  from keeps_on_state [OF keeps_RegistrationOptions [OF step_RegistrationOptions.hyps] step_RegistrationOptions.prems]
  show ?case .
next
  case (step_LoginOptions E st)
  from keeps_on_state [OF keeps_LoginOptions [OF step_LoginOptions.hyps] step_LoginOptions.prems] show ?case .
next
  case (step_rest st s')
  then show ?case using frame by simp
qed (blast intro: keeps_on_state keeps_VerifyRegistration keeps_VerifyLogin keeps_List keeps_Rename keeps_Delete)+

lemma passkey_steps_keep: "passkey_steps fresh W A st st' \<Longrightarrow> P (fst st) \<Longrightarrow> P (fst st')"
  by (induction rule: rtranclp_induct) (auto dest: passkey_step_keeps)

end

text \<open>The keys of the two tables.\<close>

definition passkeys_ok :: "'d db \<Rightarrow> bool" where
  "passkeys_ok s \<longleftrightarrow> distinct (map pk_ID (db_passkeys s)) \<and> distinct (map pk_CredentialID (db_passkeys s)) \<and>
     distinct (map wc_ID (db_challenges s)) \<and> distinct (map wc_Challenge (db_challenges s))"

text \<open>No row of a challenge can be consumed any more.\<close>

definition challenge_spent :: "string \<Rightarrow> 'd db \<Rightarrow> bool" where
  "challenge_spent c s \<longleftrightarrow> (\<forall>ch\<in>set (db_challenges s). wc_Challenge ch = c \<longrightarrow> wc_UsedAt ch \<noteq> None)"

text \<open>A credential is there and revoked.\<close>

definition credential_revoked :: "string \<Rightarrow> 'd db \<Rightarrow> bool" where
  "credential_revoked k s \<longleftrightarrow> k \<in> set (map pk_CredentialID (db_passkeys s)) \<and>
     (\<forall>c\<in>set (db_passkeys s). pk_CredentialID c = k \<longrightarrow> pk_RevokedAt c \<noteq> None)"

lemmas passkey_statements = PasskeyRepository_CreateCredential_def update_credentials_def PasskeyRepository_CreateChallenge_def
  PasskeyRepository_ConsumeChallenge_def PasskeyRepository_DeleteExpiredChallenges_def credential_guard_def challenge_guard_def

text \<open>A statement that reads, writes on success only and then may report an error.\<close>

lemma keeps_guarded_write:
  assumes "\<And>s x. P s \<Longrightarrow> g s = Inr x \<Longrightarrow> P (w s)" "\<And>x. keeps P (m x)"
  shows "keeps P (sbind (sread g) (\<lambda>x. sbind (swrite w) (\<lambda>_. m x)))"
  using assms by (fastforce simp: keeps_def sbind_def split: sum.splits)

lemma keeps_guarded_write':
  assumes "\<And>s x. P s \<Longrightarrow> g s = Inr x \<Longrightarrow> P (w s)"
  shows "keeps P (sbind (sread g) (\<lambda>x. swrite w))"
  using assms by (fastforce simp: keeps_def sbind_def split: sum.splits)

lemma map_if_key: "(\<And>x. k (f x) = k x) \<Longrightarrow> map k (map (\<lambda>x. if Q x then f x else x) xs) = map k xs"
  by simp

interpretation keys: passkey_property "passkeys_ok :: 'd db \<Rightarrow> bool" "\<lambda>_. True"
proof
  show frame: "passkeys_ok s \<Longrightarrow> same_passkeys s s' \<Longrightarrow> passkeys_ok s'" for s s' :: "'d db"
    by (simp add: passkeys_ok_def same_passkeys_def)
  show "keeps (passkeys_ok :: 'd db \<Rightarrow> bool) (Audit A E ev email uid success reason)" for A E ev email uid success reason
    by (rule keeps_passkey_framed(1)) (rule frame)
  show "keeps (passkeys_ok :: 'd db \<Rightarrow> bool) (ConfirmPassword A E ctx user password)" for A E ctx user password
    by (rule keeps_passkey_framed(2)) (rule frame)
  show "keeps (passkeys_ok :: 'd db \<Rightarrow> bool) (IssueSessionForUser A E ctx userID)" for A E ctx userID
    by (rule keeps_passkey_framed(3)) (rule frame)
  show "keeps passkeys_ok (PasskeyRepository_CreateCredential credential)" for credential
    unfolding passkey_statements by (rule keeps_guarded_write') (auto simp: passkeys_ok_def)
  show "keeps passkeys_ok (update_credentials Q f)"
    if "\<And>c. pk_ID (f c) = pk_ID c \<and> pk_CredentialID (f c) = pk_CredentialID c \<and> pk_UserID (f c) = pk_UserID c" for Q f
    unfolding passkey_statements
    by (intro keeps_guarded_write keeps_pure) (simp add: passkeys_ok_def that comp_def if_distrib cong: if_cong)
  show "keeps passkeys_ok (PasskeyRepository_CreateChallenge challenge)" for challenge
    unfolding passkey_statements by (rule keeps_guarded_write') (auto simp: passkeys_ok_def)
  show "keeps passkeys_ok (PasskeyRepository_ConsumeChallenge ceremony c userID usedAt)" for ceremony c userID usedAt
    unfolding passkey_statements
    by (intro keeps_guarded_write keeps_pure) (simp add: passkeys_ok_def comp_def if_distrib cong: if_cong)
  show "keeps passkeys_ok (PasskeyRepository_DeleteExpiredChallenges before)" for before
    unfolding passkey_statements by (rule keeps_swrite) (auto simp: passkeys_ok_def distinct_map_filter)
qed

interpretation spent: passkey_property "challenge_spent c :: 'd db \<Rightarrow> bool" "\<lambda>x. x \<noteq> c" for c
proof
  show frame: "challenge_spent c s \<Longrightarrow> same_passkeys s s' \<Longrightarrow> challenge_spent c s'" for s s' :: "'d db"
    by (simp add: challenge_spent_def same_passkeys_def)
  show "keeps (challenge_spent c :: 'd db \<Rightarrow> bool) (Audit A E ev email uid success reason)" for A E ev email uid success reason
    by (rule keeps_passkey_framed(1)) (rule frame)
  show "keeps (challenge_spent c :: 'd db \<Rightarrow> bool) (ConfirmPassword A E ctx user password)" for A E ctx user password
    by (rule keeps_passkey_framed(2)) (rule frame)
  show "keeps (challenge_spent c :: 'd db \<Rightarrow> bool) (IssueSessionForUser A E ctx userID)" for A E ctx userID
    by (rule keeps_passkey_framed(3)) (rule frame)
  show "keeps (challenge_spent c) (PasskeyRepository_CreateCredential credential)" for credential
    unfolding passkey_statements by (rule keeps_guarded_write') (auto simp: challenge_spent_def)
  show "keeps (challenge_spent c) (update_credentials Q f)" for Q f
    unfolding passkey_statements by (intro keeps_guarded_write keeps_pure) (simp add: challenge_spent_def)
  show "wc_Challenge challenge \<noteq> c \<Longrightarrow> keeps (challenge_spent c) (PasskeyRepository_CreateChallenge challenge)" for challenge
    unfolding passkey_statements by (rule keeps_guarded_write') (auto simp: challenge_spent_def)
  show "keeps (challenge_spent c) (PasskeyRepository_ConsumeChallenge ceremony ch userID usedAt)" for ceremony ch userID usedAt
    unfolding passkey_statements by (intro keeps_guarded_write keeps_pure) (auto simp: challenge_spent_def)
  show "keeps (challenge_spent c) (PasskeyRepository_DeleteExpiredChallenges before)" for before
    unfolding passkey_statements by (rule keeps_swrite) (auto simp: challenge_spent_def)
qed

interpretation revoked: passkey_property "credential_revoked k :: 'd db \<Rightarrow> bool" "\<lambda>_. True" for k
proof
  show frame: "credential_revoked k s \<Longrightarrow> same_passkeys s s' \<Longrightarrow> credential_revoked k s'" for s s' :: "'d db"
    by (simp add: credential_revoked_def same_passkeys_def)
  show "keeps (credential_revoked k :: 'd db \<Rightarrow> bool) (Audit A E ev email uid success reason)" for A E ev email uid success reason
    by (rule keeps_passkey_framed(1)) (rule frame)
  show "keeps (credential_revoked k :: 'd db \<Rightarrow> bool) (ConfirmPassword A E ctx user password)" for A E ctx user password
    by (rule keeps_passkey_framed(2)) (rule frame)
  show "keeps (credential_revoked k :: 'd db \<Rightarrow> bool) (IssueSessionForUser A E ctx userID)" for A E ctx userID
    by (rule keeps_passkey_framed(3)) (rule frame)
  show "keeps (credential_revoked k) (PasskeyRepository_CreateCredential credential)" for credential
    unfolding passkey_statements by (rule keeps_guarded_write') (auto simp: credential_revoked_def)
  show "keeps (credential_revoked k) (update_credentials Q f)"
    if "\<And>c. pk_ID (f c) = pk_ID c \<and> pk_CredentialID (f c) = pk_CredentialID c \<and> pk_UserID (f c) = pk_UserID c" for Q f
    unfolding passkey_statements
    by (intro keeps_guarded_write keeps_pure) (auto simp: credential_revoked_def that image_iff intro: rev_bexI)
  show "keeps (credential_revoked k) (PasskeyRepository_CreateChallenge challenge)" for challenge
    unfolding passkey_statements by (rule keeps_guarded_write') (auto simp: credential_revoked_def)
  show "keeps (credential_revoked k) (PasskeyRepository_ConsumeChallenge ceremony ch userID usedAt)" for ceremony ch userID usedAt
    unfolding passkey_statements by (intro keeps_guarded_write keeps_pure) (auto simp: credential_revoked_def)
  show "keeps (credential_revoked k) (PasskeyRepository_DeleteExpiredChallenges before)" for before
    unfolding passkey_statements by (rule keeps_swrite) (auto simp: credential_revoked_def)
qed

section \<open>Logging in with a passkey\<close>

lemma ConsumeChallenge_Inr:
  assumes "PasskeyRepository_ConsumeChallenge ceremony c userID usedAt s = (Inr ch, s')" "passkeys_ok s"
  obtains ch0 where "ch0 \<in> set (db_challenges s)" "challenge_usable ceremony c userID usedAt ch0"
    "ch = ch0\<lparr>wc_UsedAt := Some usedAt\<rparr>" "challenge_spent c s'" "\<exists>cs. s' = s\<lparr>db_challenges := cs\<rparr>"
proof -
  from assms(1) obtain ch0 where f: "find (challenge_usable ceremony c userID usedAt) (db_challenges s) = Some ch0"
    and ch: "ch = ch0\<lparr>wc_UsedAt := Some usedAt\<rparr>"
    and s': "s' = s\<lparr>db_challenges := map (\<lambda>x. if challenge_usable ceremony c userID usedAt x
         then x\<lparr>wc_UsedAt := Some usedAt\<rparr> else x) (db_challenges s)\<rparr>"
    by (auto simp: PasskeyRepository_ConsumeChallenge_def tx_simps QueryRow_ok_iff)
  from find_member [OF f] have m: "ch0 \<in> set (db_challenges s)" "challenge_usable ceremony c userID usedAt ch0" by auto
  have "challenge_spent c s'" unfolding challenge_spent_def
  proof (intro ballI impI)
    fix y assume y: "y \<in> set (db_challenges s')" "wc_Challenge y = c"
    then obtain x where x: "x \<in> set (db_challenges s)" "wc_Challenge x = c"
      "y = (if challenge_usable ceremony c userID usedAt x then x\<lparr>wc_UsedAt := Some usedAt\<rparr> else x)"
      by (auto simp: s' split: if_splits)
    have "wc_Challenge ch0 = c" using m(2) by (simp add: challenge_usable_def)
    then have "x = ch0" using x(1,2) m(1) assms(2) by (auto simp: passkeys_ok_def distinct_map dest: inj_onD)
    with x(3) m(2) show "wc_UsedAt y \<noteq> None" by simp
  qed
  with m ch s' show ?thesis by (intro that) auto
qed

lemma getUser_found_iff: "fst (getUser Q s) = Inr u \<longleftrightarrow> find Q (db_users s) = Some u"
  by (auto simp: getUser_def QueryRow_def split: option.splits)

lemma handler_Inr:
  assumes "discoverableUserHandler s rawID userHandle = Inr u"
  obtains c where "c \<in> set (db_passkeys s)" "pk_CredentialID c = rawID" "pk_RevokedAt c = None" "userHandle = pk_UserID c"
    "u_ID (pu_user u) = pk_UserID c" "pu_user u \<in> set (db_users s)"
  using assms
  by (auto simp: discoverableUserHandler_def PasskeyRepository_GetCredentialByCredentialID_def scanPasskeyCredential_def
      UserRepository_GetByID_def getUser_found_iff PasskeyCredential_IsActive_def QueryRow_ok_iff dest!: find_member)

lemma IssueSessionForUser_Inr:
  assumes "IssueSessionForUser A E ctx userID s = (Inr session, s')"
  obtains token where "db_tokens s' = db_tokens s @ [token]" "k_UserID token = TrimSpace userID" "k_RevokedAt token = None"
    "u_ID (se_User session) = TrimSpace userID" "db_passkeys s' = db_passkeys s" "db_challenges s' = db_challenges s"
proof -
  from assms obtain user user' t where get: "getUser (\<lambda>u. u_ID u = TrimSpace userID) s = (Inr user, s)"
    and clear: "clearLoginFailures user (en_clock E 0) s = (Inr user', t)" and issue: "issueSession A E user' t = (Inr session, s')"
    by (auto simp: IssueSessionForUser_def tx_simps UserRepository_GetByID_def getUser_def split: sum.splits)
  have u: "u_ID user = TrimSpace userID" using get by (auto simp: getUser_def split: sum.splits dest: QueryRow_D)
  have c: "u_ID user' = u_ID user" "db_tokens t = db_tokens s" "db_passkeys t = db_passkeys s" "db_challenges t = db_challenges s"
    using clear by (auto simp: clearLoginFailures_def UserRepository_ClearLoginFailures_def update_user_def tx_simps set_failures_def
        split: if_splits)
  from issue obtain token where "buildSession A E user' = Inr (session, token)" "s' = t\<lparr>db_tokens := db_tokens t @ [token]\<rparr>"
    by (rule issueSession_Inr)
  with c u show ?thesis by (intro that [of token]) (auto dest: buildSession_token elim!: buildSession_Inr)
qed

lemma VerifyLogin_Inr:
  assumes "VerifyLogin W A E ctx body st = (Inr session, st')" "wl_parseAssertion W body = Inr parsed"
  obtains ch t sd webUser credential t2 t3 es where
    "PasskeyRepository_ConsumeChallenge passkeyCeremonyLogin (wl_assertionChallenge W parsed) None (en_clock E 6) (fst st) = (Inr ch, t)"
    "wl_ValidatePasskeyLogin W (en_clock E 7) (discoverableUserHandler t) sd parsed = Inr (webUser, credential)"
    "\<not> UserLocked (en_clock E 9) (pu_user webUser)"
    "PasskeyRepository_UpdateCredentialAfterLogin (wa_ID credential) (wa_SignCount credential) (wa_CloneWarning credential)
       (wa_BackupState credential) (en_clock E 8) t = (Inr (), t2)"
    "IssueSessionForUser A E ctx (u_ID (pu_user webUser)) t2 = (Inr session, t3)"
    "st' = (t3\<lparr>db_auth_audit := es\<rparr>, snd st)"
  using assms
  by (auto simp: VerifyLogin_def verifyAssertion_def finishLogin_def consumeChallenge_def tx_simps Let_def
      split: if_splits prod.splits dest!: Audit_Inr_iff)

text \<open>An answer to a spent challenge is refused.\<close>

lemma VerifyLogin_spent:
  assumes "challenge_spent (wl_assertionChallenge W parsed) (fst st)" "wl_parseAssertion W body = Inr parsed"
  shows "\<exists>es. VerifyLogin W A E ctx body st = (Inl (validationError ''passkey login failed''), ((fst st)\<lparr>db_auth_audit := es\<rparr>, snd st))"
proof -
  obtain s l where st: "st = (s, l)" by fastforce
  have "find (challenge_usable passkeyCeremonyLogin (wl_assertionChallenge W parsed) None (en_clock E 6)) (db_challenges s) = None"
    using assms(1) by (auto simp: st challenge_spent_def challenge_usable_def find_None_iff)
  then have "\<exists>e. PasskeyRepository_ConsumeChallenge passkeyCeremonyLogin (wl_assertionChallenge W parsed) None (en_clock E 6) s = (Inl e, s)"
    by (simp add: PasskeyRepository_ConsumeChallenge_def sbind_def QueryRow_def ewrap_def emap_def)
  then obtain e where "PasskeyRepository_ConsumeChallenge passkeyCeremonyLogin (wl_assertionChallenge W parsed) None (en_clock E 6) s = (Inl e, s)"
    by blast
  then have "\<exists>e. consumeChallenge E passkeyCeremonyLogin (wl_assertionChallenge W parsed) None s = (Inl e, s)"
    by (cases "errorsIs e ErrNotFound") (auto simp: consumeChallenge_def stry_def)
  then obtain e where "consumeChallenge E passkeyCeremonyLogin (wl_assertionChallenge W parsed) None s = (Inl e, s)"
    by blast
  moreover obtain es where "auditFail A E ''passkey_login_failed'' '''' None ''invalid_challenge'' (validationError ''passkey login failed'') s =
      (Inl (validationError ''passkey login failed'') :: err + AuthSession, s\<lparr>db_auth_audit := es\<rparr>)"
    using auditFail_writes by blast
  ultimately show ?thesis by (auto simp: VerifyLogin_def assms(2) st sdb_def stry_def)
qed

text \<open>C36. A login with a passkey is sound and its challenge is used once. When \<^verbatim>\<open>VerifyLogin\<close> succeeds,
  the challenge that the authenticator signed was stored by the server for a login, had not been used and
  had not expired; the credential is an active one of the user of the session, who is not locked; and
  exactly one refresh token is added, for this user. Afterwards every answer to the same challenge is
  refused and opens no session, at any later time and whatever operations on passkeys run in between, as
  long as the library does not draw the same challenge again.\<close>

theorem passkey_login_sound:
  assumes "webauthn_law W" "passkeys_ok (fst st)" "wl_parseAssertion W body = Inr parsed"
    "VerifyLogin W A E ctx body st = (Inr session, st')" "c = wl_assertionChallenge W parsed"
  shows "(\<exists>ch\<in>set (db_challenges (fst st)). wc_Ceremony ch = passkeyCeremonyLogin \<and> wc_Challenge ch = c \<and>
      wc_UsedAt ch = None \<and> wc_UserID ch = None \<and> Before (en_clock E 6) (wc_ExpiresAt ch)) \<and>
    (\<exists>k\<in>set (db_passkeys (fst st)). \<exists>u\<in>set (db_users (fst st)). \<exists>token.
      pk_RevokedAt k = None \<and> u_ID u = pk_UserID k \<and> \<not> UserLocked (en_clock E 9) u \<and>
      u_ID (se_User session) = TrimSpace (pk_UserID k) \<and>
      db_tokens (fst st') = db_tokens (fst st) @ [token] \<and> k_UserID token = u_ID (se_User session) \<and> k_RevokedAt token = None) \<and>
    (passkey_steps (\<lambda>x. x \<noteq> c) W A st' st'' \<longrightarrow> wl_parseAssertion W body' = Inr parsed' \<longrightarrow> wl_assertionChallenge W parsed' = c \<longrightarrow>
      (\<exists>es. VerifyLogin W A E' ctx' body' st'' =
         (Inl (validationError ''passkey login failed''), ((fst st'')\<lparr>db_auth_audit := es\<rparr>, snd st''))))"
proof (rule VerifyLogin_Inr [OF assms(4,3)], intro conjI impI)
  fix ch t sd webUser credential t2 t3 es
  assume consume: "PasskeyRepository_ConsumeChallenge passkeyCeremonyLogin (wl_assertionChallenge W parsed) None (en_clock E 6) (fst st) = (Inr ch, t)"
    and valid: "wl_ValidatePasskeyLogin W (en_clock E 7) (discoverableUserHandler t) sd parsed = Inr (webUser, credential)"
    and unlocked: "\<not> UserLocked (en_clock E 9) (pu_user webUser)"
    and upd: "PasskeyRepository_UpdateCredentialAfterLogin (wa_ID credential) (wa_SignCount credential) (wa_CloneWarning credential)
       (wa_BackupState credential) (en_clock E 8) t = (Inr (), t2)"
    and issue: "IssueSessionForUser A E ctx (u_ID (pu_user webUser)) t2 = (Inr session, t3)"
    and st': "st' = (t3\<lparr>db_auth_audit := es\<rparr>, snd st)"
  obtain ch0 cs where ch0: "ch0 \<in> set (db_challenges (fst st))" "challenge_usable passkeyCeremonyLogin c None (en_clock E 6) ch0"
    and spent: "challenge_spent c t" and t: "t = (fst st)\<lparr>db_challenges := cs\<rparr>"
    using ConsumeChallenge_Inr [OF consume assms(2)] unfolding assms(5) by metis
  from ch0 show "\<exists>ch\<in>set (db_challenges (fst st)). wc_Ceremony ch = passkeyCeremonyLogin \<and> wc_Challenge ch = c \<and>
      wc_UsedAt ch = None \<and> wc_UserID ch = None \<and> Before (en_clock E 6) (wc_ExpiresAt ch)"
    by (auto simp: challenge_usable_def)
  from valid assms(1) obtain handle where "discoverableUserHandler t (wa_ID credential) handle = Inr webUser"
    unfolding webauthn_law_def by blast
  then obtain k where k: "k \<in> set (db_passkeys t)" "pk_RevokedAt k = None" "u_ID (pu_user webUser) = pk_UserID k"
    "pu_user webUser \<in> set (db_users t)" by (rule handler_Inr)
  have t2: "db_tokens t2 = db_tokens t"
    using upd by (auto simp: PasskeyRepository_UpdateCredentialAfterLogin_def update_credentials_def tx_simps)
  from issue obtain token where token: "db_tokens t3 = db_tokens t2 @ [token]" "k_UserID token = TrimSpace (u_ID (pu_user webUser))"
    "k_RevokedAt token = None" "u_ID (se_User session) = TrimSpace (u_ID (pu_user webUser))" by (rule IssueSessionForUser_Inr)
  show "\<exists>k\<in>set (db_passkeys (fst st)). \<exists>u\<in>set (db_users (fst st)). \<exists>token.
      pk_RevokedAt k = None \<and> u_ID u = pk_UserID k \<and> \<not> UserLocked (en_clock E 9) u \<and>
      u_ID (se_User session) = TrimSpace (pk_UserID k) \<and>
      db_tokens (fst st') = db_tokens (fst st) @ [token] \<and> k_UserID token = u_ID (se_User session) \<and> k_RevokedAt token = None"
    by (rule bexI [of _ k], rule bexI [of _ "pu_user webUser"], rule exI [of _ token]) (use k t2 token t st' unlocked in simp_all)
  assume later: "passkey_steps (\<lambda>x. x \<noteq> c) W A st' st''" "wl_parseAssertion W body' = Inr parsed'" "wl_assertionChallenge W parsed' = c"
  have "challenge_spent c t2" by (rule keepsD [OF spent.keeps_updates(1) spent upd])
  from keepsD [OF spent.keeps_auth(4) this issue] have "challenge_spent c (fst st')" by (simp add: st' challenge_spent_def)
  then have "challenge_spent c (fst st'')" by (rule spent.passkey_steps_keep [OF later(1)])
  then show "\<exists>es. VerifyLogin W A E' ctx' body' st'' =
      (Inl (validationError ''passkey login failed''), ((fst st'')\<lparr>db_auth_audit := es\<rparr>, snd st''))"
    using later(2,3) by (intro VerifyLogin_spent) auto
qed

definition sample_wa :: webauthn_Credential where
  "sample_wa = \<lparr>wa_ID = ''cred'', wa_PublicKey = ''key'', wa_AttestationType = ''none'', wa_Transport = [],
     wa_BackupEligible = False, wa_BackupState = False, wa_AAGUID = '''', wa_SignCount = 1, wa_CloneWarning = False\<rparr>"

text \<open>A library in which the session data and the answer are the challenge.\<close>

definition sample_webauthn :: "(string, string, string, unit) webauthn_lib" where
  "sample_webauthn = \<lparr>wl_Challenge = (\<lambda>s. s), wl_Expires = (\<lambda>_. zero_time), wl_Marshal = Inr, wl_Unmarshal = Inr,
     wl_parseCreation = Inr, wl_creationChallenge = (\<lambda>s. s), wl_parseAssertion = Inr, wl_assertionChallenge = (\<lambda>s. s),
     wl_BeginRegistration = (\<lambda>_ _ _ _. Inr ((), ''new'')), wl_CreateCredential = (\<lambda>_ _ _ _. Inr sample_wa),
     wl_BeginDiscoverableLogin = (\<lambda>_ _. Inr ((), ''new'')),
     wl_ValidatePasskeyLogin = (\<lambda>_ handler _ _. ebind (handler ''cred'' ''u1'') (\<lambda>u. Inr (u, sample_wa))),
     wl_uuidString = (\<lambda>_. None), wl_uuidParse = (\<lambda>_. None)\<rparr>"

lemma sample_webauthn_law: "webauthn_law sample_webauthn"
  by (auto simp: webauthn_law_def sample_webauthn_def sample_wa_def)

definition passkey_db :: "dec db" where
  "passkey_db = sample_auth_db\<lparr>
     db_passkeys := [credentialModelFromWebAuthn sample_webauthn ''p1'' sample_wa ''u1'' ''Key'' sample_now],
     db_challenges := [challengeRecord sample_webauthn ''c1'' sample_now '''' passkeyCeremonyLogin ''ch'' ''ch'']\<rparr>"

theorem passkey_login_sound_witness:
  "\<exists>session st. VerifyLogin sample_webauthn sample_auth sample_env None ''ch'' (passkey_db, sample_now) = (Inr session, st) \<and>
     (\<exists>es. VerifyLogin sample_webauthn sample_auth sample_env None ''ch'' st =
        (Inl (validationError ''passkey login failed''), ((fst st)\<lparr>db_auth_audit := es\<rparr>, snd st)))"
proof -
  have "\<exists>session st. VerifyLogin sample_webauthn sample_auth sample_env None ''ch'' (passkey_db, sample_now) = (Inr session, st)"
    by (rule result_cases) code_simp
  then obtain session st where
    run: "VerifyLogin sample_webauthn sample_auth sample_env None ''ch'' (passkey_db, sample_now) = (Inr session, st)" by blast
  have keys: "passkeys_ok (fst (passkey_db, sample_now))" by (simp add: passkeys_ok_def passkey_db_def)
  have parse: "wl_parseAssertion sample_webauthn ''ch'' = Inr ''ch''" "''ch'' = wl_assertionChallenge sample_webauthn ''ch''"
    by (simp_all add: sample_webauthn_def)
  have "passkey_steps (\<lambda>x. x \<noteq> ''ch'') sample_webauthn sample_auth st st \<longrightarrow>
      wl_parseAssertion sample_webauthn ''ch'' = Inr ''ch'' \<longrightarrow> wl_assertionChallenge sample_webauthn ''ch'' = ''ch'' \<longrightarrow>
      (\<exists>es. VerifyLogin sample_webauthn sample_auth sample_env None ''ch'' st =
        (Inl (validationError ''passkey login failed''), ((fst st)\<lparr>db_auth_audit := es\<rparr>, snd st)))"
    by (rule passkey_login_sound [OF sample_webauthn_law keys parse(1) run parse(2), THEN conjunct2, THEN conjunct2])
  with parse run show ?thesis by auto
qed

section \<open>Deleted passkeys and stored credentials\<close>

text \<open>A deleted passkey is refused for good: the handler finds no user for it at any later time.\<close>

lemma deleted_passkey_refused:
  assumes "passkeys_ok (fst st)" "PasskeyService_Delete A E req st = (Inr u, st')" "c \<in> set (db_passkeys (fst st))"
    "pk_ID c = TrimSpace (pd_ID req)" "passkey_steps (\<lambda>_. True) W A st' st''"
  shows "\<exists>e. discoverableUserHandler (fst st'') (pk_CredentialID c) userHandle = Inl e"
proof -
  from assms(2) obtain t es where rev: "PasskeyRepository_RevokeCredential (TrimSpace (pd_ID req)) (TrimSpace (pd_UserID req))
      (en_clock E 8) (fst st) = (Inr (), t)" and st': "fst st' = t\<lparr>db_auth_audit := es\<rparr>"
    by (auto simp: PasskeyService_Delete_def tx_simps Let_def dest!: Audit_Inr_iff)
  then obtain c' where c': "c' \<in> set (db_passkeys (fst st))" "pk_ID c' = TrimSpace (pd_ID req)" "pk_UserID c' = TrimSpace (pd_UserID req)"
    by (auto simp: PasskeyRepository_RevokeCredential_def update_credentials_def tx_simps filter_empty_conv)
  have "inj_on pk_ID (set (db_passkeys (fst st)))" using assms(1) by (simp add: passkeys_ok_def distinct_map)
  from inj_onD [OF this _ c'(1) assms(3)] have "c' = c" using c'(2) assms(4) by simp
  with c' rev assms(1,3) st' have "credential_revoked (pk_CredentialID c) (fst st')"
    by (auto simp: credential_revoked_def PasskeyRepository_RevokeCredential_def update_credentials_def tx_simps
        revoked_credential_def passkeys_ok_def distinct_map image_iff dest: inj_onD split: if_splits intro: rev_bexI)
  then have later: "credential_revoked (pk_CredentialID c) (fst st'')" by (rule revoked.passkey_steps_keep [OF assms(5)])
  show ?thesis
  proof (cases "discoverableUserHandler (fst st'') (pk_CredentialID c) userHandle")
    case (Inr user)
    then show ?thesis by (rule handler_Inr) (use later in \<open>auto simp: credential_revoked_def\<close>)
  qed simp
qed

text \<open>What is stored of a credential is enough to hand it back to the library, when the identifiers of
  authenticators survive their text form.\<close>

lemma credential_roundtrip:
  assumes "wa_AAGUID k = '''' \<or> length (wa_AAGUID k) = 16"
    "\<And>b. length b = 16 \<Longrightarrow> \<exists>s. wl_uuidString W b = Some s \<and> wl_uuidParse W s = Some b"
  shows "webAuthnCredentialFromModel W (credentialModelFromWebAuthn W newID k userID name now) = k"
proof (cases "length (wa_AAGUID k) = 16")
  case True
  with assms(2) obtain s where "wl_uuidString W (wa_AAGUID k) = Some s" "wl_uuidParse W s = Some (wa_AAGUID k)" by blast
  with True show ?thesis by (simp add: webAuthnCredentialFromModel_def credentialModelFromWebAuthn_def)
next
  case False
  with assms(1) show ?thesis by (simp add: webAuthnCredentialFromModel_def credentialModelFromWebAuthn_def)
qed

end
