(* ===== verification/Legacy_Import.thy ===== *)
theory Legacy_Import
  imports Transactions Interest_Rules
begin

text \<open>
  The import of the deposits of an earlier version, \<^verbatim>\<open>internal/legacyjson\<close>, over the repositories and
  \<^verbatim>\<open>CreateMigratedDeposit\<close> of \<^verbatim>\<open>internal/postgres/migration.go\<close>. A deposit becomes a savings account
  or term deposit with an interest rule and an initial balance, all in one transaction; a deposit
  whose account exists already is completed and counted as skipped. Reading the file
  (\<^verbatim>\<open>Load\<close>) is not modelled; rates are \<^verbatim>\<open>float64\<close>, of which the model takes the comparison with zero
  and the conversion to a decimal.
\<close>

section \<open>Dates as text\<close>

definition digit :: "char \<Rightarrow> bool" where
  "digit c = (48 \<le> (of_char c :: nat) \<and> (of_char c :: nat) \<le> 57)"

definition digits_value :: "string \<Rightarrow> int" where
  "digits_value s = foldl (\<lambda>n c. 10 * n + (of_char c - 48)) 0 s"

definition days_in :: "int \<Rightarrow> int \<Rightarrow> int" where
  "days_in year month = days_before_month (leap year) month - days_before_month (leap year) (month - 1)"

text \<open>\<^verbatim>\<open>time.Parse(time.DateOnly, value)\<close>: four digits, two, and two, a day of the calendar.\<close>

definition ParseDateOnly :: "string \<Rightarrow> time option" where
  "ParseDateOnly s =
     (let y = take 4 s; m = take 2 (drop 5 s); d = drop 8 s;
          year = digits_value y; month = digits_value m; day = digits_value d
      in if length s = 10 \<and> s ! 4 = CHR ''-'' \<and> s ! 7 = CHR ''-'' \<and> list_all digit (y @ m @ d) \<and>
            1 \<le> month \<and> month \<le> 12 \<and> 1 \<le> day \<and> day \<le> days_in year month
         then Some (day_time (days_of_civil year (month - 1) day)) else None)"

section \<open>Deposits\<close>

record ('f, 'd) float64_ops =
  f_NotPositive :: "'f \<Rightarrow> bool"
  f_NewFromFloat :: "'f \<Rightarrow> 'd"

record 'f Deposit =
  dp_ID :: string
  dp_Name :: string
  dp_Bank :: string
  dp_Type :: string
  dp_Amount :: int
  dp_InitialAmount :: int
  dp_InterestRate :: 'f
  dp_PromoRate :: "'f option"
  dp_PromoEndDate :: string
  dp_StartDate :: string
  dp_EndDate :: string
  dp_TermMonths :: int
  dp_Capitalization :: string
  dp_AutoRenewal :: bool
  dp_TopUpEndDate :: string
  dp_CreatedAt :: time
  dp_UpdatedAt :: time

record 'd ImportReport =
  im_TotalDeposits :: int
  im_CreatedAccounts :: int
  im_CreatedInterestRules :: int
  im_CreatedTransactions :: int
  im_SkippedExisting :: int
  im_OwnerUserID :: string
  im_SourceBalance :: 'd
  im_MigratedBalance :: 'd
  im_BalanceMatchesSource :: bool
  im_Errors :: "((string \<times> string \<times> string) \<times> err) list"

definition import_dateOnly :: "time \<Rightarrow> time" where
  "import_dateOnly date = (if IsZero date then zero_time else dateOnly date)"

definition parseRequiredDate :: "string \<Rightarrow> string \<Rightarrow> err + time" where
  "parseRequiredDate fieldName input =
     (let value = TrimSpace input
      in echeck (value = '''') (Errorf (fieldName @ '' is required''))
         (case ParseDateOnly value of
            None \<Rightarrow> Inl (Errorf (''invalid '' @ fieldName))
          | Some date \<Rightarrow> Inr (import_dateOnly date)))"

definition parseDate :: "string \<Rightarrow> time" where
  "parseDate input =
     (if TrimSpace input = '''' then zero_time
      else case ParseDateOnly input of None \<Rightarrow> zero_time | Some date \<Rightarrow> import_dateOnly date)"

definition firstNonZeroTime :: "time list \<Rightarrow> time" where
  "firstNonZeroTime values = (case find (\<lambda>t. \<not> IsZero t) values of Some t \<Rightarrow> t | None \<Rightarrow> zero_time)"

definition rateToBps :: "'d decimal_ops \<Rightarrow> ('f, 'd) float64_ops \<Rightarrow> 'f \<Rightarrow> int" where
  "rateToBps D F rate = d_IntPart D (d_Round D (d_Mul D (f_NewFromFloat F rate) (d_NewFromInt D 100)) 0)"

definition accountTypeForDeposit :: "string \<Rightarrow> err + AccountType" where
  "accountTypeForDeposit depositType =
     (if TrimSpace depositType = ''savings'' then Inr AccountTypeSavings
      else if TrimSpace depositType = ''term'' then Inr AccountTypeTermDeposit
      else Inl (Errorf ''unsupported legacy deposit type''))"

definition capitalizationForDeposit :: "string \<Rightarrow> err + CapitalizationFrequency" where
  "capitalizationForDeposit capitalization =
     (let c = TrimSpace capitalization
      in if c = '''' then Inr CapitalizationFrequencyNone
         else if c = ''daily'' then Inr CapitalizationFrequencyDaily
         else if c = ''monthly'' then Inr CapitalizationFrequencyMonthly
         else if c = ''end'' then Inr CapitalizationFrequencyEndOfTerm
         else if c = ''quarterly'' then Inl (Errorf ''unsupported legacy capitalization: quarterly'')
         else Inl (Errorf ''unsupported legacy capitalization''))"

definition optionalDate :: "string \<Rightarrow> string \<Rightarrow> err + time option" where
  "optionalDate message input =
     (if TrimSpace input = '''' then Inr None
      else let date = parseDate input in echeck (IsZero date) (Errorf (message @ '': '' @ input)) (Inr (Some date)))"

definition interestRuleForDeposit ::
  "'d decimal_ops \<Rightarrow> ('f, 'd) float64_ops \<Rightarrow> string \<Rightarrow> 'f Deposit \<Rightarrow> string \<Rightarrow> time \<Rightarrow> err + InterestRule" where
  "interestRuleForDeposit D F ruleID deposit accountID openedAt =
     echeck (f_NotPositive F (dp_InterestRate deposit)) (Errorf ''interest rate must be positive'')
     (let promoRateBps = map_option (rateToBps D F) (dp_PromoRate deposit)
      in ebind (optionalDate ''invalid promo end date'' (dp_PromoEndDate deposit)) (\<lambda>promoEndDate.
         echeck ((promoRateBps = None) \<noteq> (promoEndDate = None))
           (Errorf ''promo rate and promo end date must be set together'')
         (ebind (optionalDate ''invalid end date'' (dp_EndDate deposit)) (\<lambda>endDate.
          ebind (capitalizationForDeposit (dp_Capitalization deposit)) (\<lambda>capitalizationFrequency.
          Inr \<lparr>r_ID = ruleID, r_AccountID = accountID, r_AnnualRateBps = rateToBps D F (dp_InterestRate deposit),
            r_PromoRateBps = promoRateBps, r_PromoEndDate = promoEndDate, r_AccrualFrequency = AccrualFrequencyDaily,
            r_CapitalizationFrequency = capitalizationFrequency, r_DayCountConvention = DayCountConventionActual365,
            r_IsActive = True, r_StartDate = import_dateOnly openedAt, r_EndDate = endDate, r_Version = 0\<rparr>)))))"

definition legacyDepositAmountToDecimal :: "'d decimal_ops \<Rightarrow> int \<Rightarrow> 'd" where
  "legacyDepositAmountToDecimal D amount = d_Div D (d_NewFromInt D amount) (d_NewFromInt D 100)"

definition legacyInitialDescription :: "string \<Rightarrow> string" where
  "legacyInitialDescription legacyID = ''legacy initial balance deposit='' @ legacyID"

definition legacyInitialBalanceFromTransactions :: "'d decimal_ops \<Rightarrow> 'd Transaction list \<Rightarrow> string \<Rightarrow> 'd \<times> bool" where
  "legacyInitialBalanceFromTransactions D transactions legacyID =
     foldl (\<lambda>(balance, found) t.
         if t_Type t = TransactionTypeInitialBalance \<and> t_Description t = legacyInitialDescription legacyID
         then (d_Add D balance (t_Amount t), True) else (balance, found))
       (d_Zero D, False) transactions"

definition ownerUserIDPtr :: "string \<Rightarrow> string option" where
  "ownerUserIDPtr userID = (let u = TrimSpace userID in if u = '''' then None else Some u)"

definition initialTransaction :: "'d decimal_ops \<Rightarrow> string \<Rightarrow> string \<Rightarrow> 'f Deposit \<Rightarrow> string \<Rightarrow> time \<Rightarrow> time \<Rightarrow> 'd Transaction" where
  "initialTransaction D tid accountID deposit legacyID openedAt now =
     \<lparr>t_ID = tid, t_AccountID = accountID, t_RelatedAccountID = None, t_TransferID = None, t_SourceType = '''',
      t_SourceRefID = None, t_SourceMetadata = '''', t_Type = TransactionTypeInitialBalance, t_Status = '''',
      t_Amount = legacyDepositAmountToDecimal D (dp_Amount deposit), t_CategoryID = None,
      t_Description = legacyInitialDescription legacyID, t_OccurredAt = openedAt, t_CreatedAt = now\<rparr>"

section \<open>The import\<close>

definition CreateMigratedDeposit ::
  "'d decimal_ops \<Rightarrow> Account \<Rightarrow> InterestRule \<Rightarrow> 'd Transaction \<Rightarrow> ('d, unit) dbstm" where
  "CreateMigratedDeposit D account rule transaction =
     pg_tx D ''commit migrated deposit transaction''
     (sbind (swrap ''create migrated account'' (insertAccount account)) (\<lambda>_.
      sbind (swrap ''create migrated interest rule'' (insertInterestRule rule)) (\<lambda>_.
      sbind (swrap ''create migrated initial balance'' (insertTransaction D transaction)) (\<lambda>_.
      sret ()))))"

text \<open>What the deposit at a position meets: the reading of the context, the ids that are drawn (account,
  rule, transaction, audit event) and the clock.\<close>

record import_env =
  me_ctx :: "nat \<Rightarrow> ctx"
  me_id :: "nat \<Rightarrow> nat \<Rightarrow> string"
  me_now :: "nat \<Rightarrow> time"

type_synonym ('d, 'a) importstm = "('d db \<times> 'd ImportReport, err, 'a) stm"

definition on_store :: "('d, 'a) dbstm \<Rightarrow> ('d, 'a) importstm" where
  "on_store m st = (case st of (s, report) \<Rightarrow> (case m s of (r, s') \<Rightarrow> (r, (s', report))))"

definition on_report :: "('d ImportReport \<Rightarrow> 'd ImportReport) \<Rightarrow> ('d, unit) importstm" where
  "on_report f = swrite (\<lambda>(s, report). (s, f report))"

text \<open>\<^verbatim>\<open>migrateExistingDeposit\<close>: the account gets a rule and an initial balance if it has none.\<close>

definition ensureRule ::
  "'d decimal_ops \<Rightarrow> ('f, 'd) float64_ops \<Rightarrow> import_env \<Rightarrow> nat \<Rightarrow> 'f Deposit \<Rightarrow> Account \<Rightarrow> time \<Rightarrow> ('d, unit) importstm" where
  "ensureRule D F env i deposit account openedAt =
     sbind (on_store (swrap ''list existing rules'' (InterestRuleRepository_ListByAccount (a_ID account)))) (\<lambda>rules.
     if rules = []
     then sbind (slift (interestRuleForDeposit D F (me_id env i 1) deposit (a_ID account) openedAt)) (\<lambda>rule.
          sbind (on_store (swrap ''create missing interest rule''
            (InterestRuleRepository_Create D (me_id env i 3) (me_now env i) rule))) (\<lambda>_.
          on_report (\<lambda>r. r\<lparr>im_CreatedInterestRules := im_CreatedInterestRules r + 1\<rparr>)))
     else sret ())"

definition ensureInitialBalance ::
  "'d decimal_ops \<Rightarrow> import_env \<Rightarrow> nat \<Rightarrow> 'f Deposit \<Rightarrow> Account \<Rightarrow> string \<Rightarrow> time \<Rightarrow> ('d, 'd) importstm" where
  "ensureInitialBalance D env i deposit account legacyID openedAt =
     sbind (on_store (swrap ''list existing transactions'' (TransactionRepository_ListByAccount (a_ID account)))) (\<lambda>transactions.
     let (legacyInitialBalance, ok) = legacyInitialBalanceFromTransactions D transactions legacyID
     in if ok then sret legacyInitialBalance
        else sbind (on_store (swrap ''create missing initial balance transaction'' (TransactionRepository_Create D
               (initialTransaction D (me_id env i 2) (a_ID account) deposit legacyID openedAt (UTC (me_now env i)))))) (\<lambda>_.
             sbind (on_report (\<lambda>r. r\<lparr>im_CreatedTransactions := im_CreatedTransactions r + 1\<rparr>)) (\<lambda>_.
             sret (legacyDepositAmountToDecimal D (dp_Amount deposit)))))"

definition migrateExistingDeposit ::
  "'d decimal_ops \<Rightarrow> ('f, 'd) float64_ops \<Rightarrow> import_env \<Rightarrow> nat \<Rightarrow> 'f Deposit \<Rightarrow> Account \<Rightarrow> ('d, 'd) importstm" where
  "migrateExistingDeposit D F env i deposit account =
     sbind (on_report (\<lambda>r. r\<lparr>im_SkippedExisting := im_SkippedExisting r + 1\<rparr>)) (\<lambda>_.
     let legacyID = TrimSpace (dp_ID deposit)
     in sbind (slift (parseRequiredDate ''start date'' (dp_StartDate deposit))) (\<lambda>openedAt.
        sbind (ensureRule D F env i deposit account openedAt) (\<lambda>_.
        ensureInitialBalance D env i deposit account legacyID openedAt)))"

text \<open>The rows of a deposit that was not imported before.\<close>

definition depositAccount ::
  "string \<Rightarrow> string \<Rightarrow> 'f Deposit \<Rightarrow> string \<Rightarrow> AccountType \<Rightarrow> time \<Rightarrow> time \<Rightarrow> Account" where
  "depositAccount accountID owner deposit legacyID accountType openedAt now =
     \<lparr>a_ID = accountID, a_LegacyID = Some legacyID, a_OwnerUserID = ownerUserIDPtr owner,
      a_Name = TrimSpace (dp_Name deposit), a_Bank = TrimSpace (dp_Bank deposit), a_Type = accountType,
      a_Currency = ''RUB'', a_IsActive = True, a_OpenedAt = openedAt,
      a_CreatedAt = firstNonZeroTime [dp_CreatedAt deposit, now],
      a_UpdatedAt = firstNonZeroTime [dp_UpdatedAt deposit, now]\<rparr>"

definition buildDeposit ::
  "'d decimal_ops \<Rightarrow> ('f, 'd) float64_ops \<Rightarrow> import_env \<Rightarrow> nat \<Rightarrow> string \<Rightarrow> 'f Deposit \<Rightarrow>
     err + Account \<times> InterestRule \<times> 'd Transaction" where
  "buildDeposit D F env i owner deposit =
     (let legacyID = TrimSpace (dp_ID deposit); now = UTC (me_now env i)
      in ebind (parseRequiredDate ''start date'' (dp_StartDate deposit)) (\<lambda>openedAt.
         ebind (accountTypeForDeposit (dp_Type deposit)) (\<lambda>accountType.
         let account = depositAccount (me_id env i 0) owner deposit legacyID accountType openedAt now
         in echeck (a_Name account = '''') (Errorf ''deposit name is required'')
            (ebind (interestRuleForDeposit D F (me_id env i 1) deposit (a_ID account) openedAt) (\<lambda>rule.
             Inr (account, rule, initialTransaction D (me_id env i 2) (a_ID account) deposit legacyID openedAt now))))))"

definition migrateNewDeposit ::
  "'d decimal_ops \<Rightarrow> ('f, 'd) float64_ops \<Rightarrow> import_env \<Rightarrow> nat \<Rightarrow> string \<Rightarrow> 'f Deposit \<Rightarrow> ('d, 'd) importstm" where
  "migrateNewDeposit D F env i owner deposit =
     sbind (slift (buildDeposit D F env i owner deposit)) (\<lambda>(account, rule, transaction).
     sbind (on_store (swrap ''create migrated deposit'' (CreateMigratedDeposit D account rule transaction))) (\<lambda>_.
     sbind (on_report (\<lambda>r. r\<lparr>im_CreatedAccounts := im_CreatedAccounts r + 1,
       im_CreatedInterestRules := im_CreatedInterestRules r + 1,
       im_CreatedTransactions := im_CreatedTransactions r + 1\<rparr>)) (\<lambda>_.
     sret (legacyDepositAmountToDecimal D (dp_Amount deposit)))))"

definition migrateDeposit ::
  "'d decimal_ops \<Rightarrow> ('f, 'd) float64_ops \<Rightarrow> import_env \<Rightarrow> nat \<Rightarrow> string \<Rightarrow> 'f Deposit \<Rightarrow> ('d, 'd) importstm" where
  "migrateDeposit D F env i owner deposit =
     (let legacyID = TrimSpace (dp_ID deposit)
      in sbind (scheck (legacyID = '''') (Errorf ''legacy deposit id is required'')) (\<lambda>_.
         sbind (scheck (dp_Amount deposit < 0) (Errorf ''deposit amount must not be negative'')) (\<lambda>_.
         stry (on_store (AccountRepository_GetByLegacyID legacyID))
           (\<lambda>e. if \<not> errorsIs e ErrNotFound then sfail (Wrapped ''lookup legacy account'' e)
                else migrateNewDeposit D F env i owner deposit)
           (migrateExistingDeposit D F env i deposit))))"

definition depositLabel :: "'f Deposit \<Rightarrow> string \<times> string \<times> string" where
  "depositLabel deposit = (dp_ID deposit, dp_Name deposit, dp_Bank deposit)"

text \<open>The loop: an error of the context ends it without a report, an error of a deposit is noted.\<close>

fun importLoop ::
  "'d decimal_ops \<Rightarrow> ('f, 'd) float64_ops \<Rightarrow> import_env \<Rightarrow> string \<Rightarrow> nat \<Rightarrow> 'f Deposit list \<Rightarrow> ('d, unit) importstm" where
  "importLoop D F env owner i [] = sret ()"
| "importLoop D F env owner i (deposit # deposits) =
     sbind (slift (ctxCheck (me_ctx env i) ''migrate deposits'' (Inr ()))) (\<lambda>_.
     sbind (on_report (\<lambda>r. r\<lparr>im_SourceBalance :=
       d_Add D (im_SourceBalance r) (legacyDepositAmountToDecimal D (dp_Amount deposit))\<rparr>)) (\<lambda>_.
     sbind (stry (migrateDeposit D F env i owner deposit)
       (\<lambda>e. on_report (\<lambda>r. r\<lparr>im_Errors := im_Errors r @ [(depositLabel deposit, e)]\<rparr>))
       (\<lambda>balance. on_report (\<lambda>r. r\<lparr>im_MigratedBalance := d_Add D (im_MigratedBalance r) balance\<rparr>))) (\<lambda>_.
     importLoop D F env owner (i + 1) deposits)))"

definition emptyReport :: "'d decimal_ops \<Rightarrow> string \<Rightarrow> nat \<Rightarrow> 'd ImportReport" where
  "emptyReport D owner n =
     \<lparr>im_TotalDeposits = int n, im_CreatedAccounts = 0, im_CreatedInterestRules = 0, im_CreatedTransactions = 0,
      im_SkippedExisting = 0, im_OwnerUserID = owner, im_SourceBalance = d_Zero D, im_MigratedBalance = d_Zero D,
      im_BalanceMatchesSource = False, im_Errors = []\<rparr>"

definition importDeposits ::
  "'d decimal_ops \<Rightarrow> ('f, 'd) float64_ops \<Rightarrow> import_env \<Rightarrow> string \<Rightarrow> 'f Deposit list \<Rightarrow> ('d, 'd ImportReport) dbstm" where
  "importDeposits D F env userID deposits s =
     (let owner = TrimSpace userID
      in case importLoop D F env owner 0 deposits (s, emptyReport D owner (length deposits)) of
           (Inl e, (s', _)) \<Rightarrow> (Inl e, s')
         | (Inr _, (s', r)) \<Rightarrow>
             (Inr (r\<lparr>im_BalanceMatchesSource := d_Equal D (im_SourceBalance r) (im_MigratedBalance r) \<and> im_Errors r = []\<rparr>), s'))"

section \<open>What an import does to the store\<close>

text \<open>The interface between the importer and the repositories: a property of the database that the
  three statements the importer writes with keep. The importer keeps it too, whatever the deposits.\<close>

locale import_store =
  fixes D :: "'d decimal_ops" and P :: "'d db \<Rightarrow> bool"
  assumes create_deposit: "keeps P (CreateMigratedDeposit D account rule transaction)"
    and create_rule: "keeps P (InterestRuleRepository_Create D eid now rule)"
    and create_transaction: "keeps P (TransactionRepository_Create D transaction)"
begin

lemma on_store_keeps: "keeps P m \<Longrightarrow> keeps (\<lambda>st. P (fst st)) (on_store m)"
  by (auto simp: keeps_def on_store_def split: prod.splits)

lemma on_report_keeps: "keeps (\<lambda>st. P (fst st)) (on_report f)"
  by (auto simp: keeps_def on_report_def)

lemma reads_keep:
  "keeps P (AccountRepository_GetByLegacyID i)" "keeps P (InterestRuleRepository_ListByAccount i)"
  "keeps P (TransactionRepository_ListByAccount i)"
  unfolding AccountRepository_GetByLegacyID_def getAccount_def InterestRuleRepository_ListByAccount_def
    TransactionRepository_ListByAccount_def
  by (intro keeps_intros)+

lemmas import_keeps = keeps_intros on_store_keeps on_report_keeps reads_keep create_deposit create_rule create_transaction

lemma ensureRule_keeps: "keeps (\<lambda>st. P (fst st)) (ensureRule D F env i deposit account openedAt)"
  unfolding ensureRule_def by (intro import_keeps)

lemma ensureInitialBalance_keeps:
  "keeps (\<lambda>st. P (fst st)) (ensureInitialBalance D env i deposit account legacyID openedAt)"
  unfolding ensureInitialBalance_def by (intro import_keeps)

lemma migrateDeposit_keeps: "keeps (\<lambda>st. P (fst st)) (migrateDeposit D F env i owner deposit)"
  unfolding migrateDeposit_def migrateExistingDeposit_def migrateNewDeposit_def
  by (intro import_keeps ensureRule_keeps ensureInitialBalance_keeps)

lemma importLoop_keeps: "keeps (\<lambda>st. P (fst st)) (importLoop D F env owner i deposits)"
proof (induction deposits arbitrary: i)
  case (Cons deposit deposits)
  then show ?case unfolding importLoop.simps by (intro import_keeps migrateDeposit_keeps)
qed (simp add: keeps_def)

lemma importDeposits_keeps: "keeps P (importDeposits D F env userID deposits)"
proof (rule keepsI)
  fix s r s' assume "P s" and run: "importDeposits D F env userID deposits s = (r, s')"
  let ?st = "(s, emptyReport D (TrimSpace userID) (length deposits))"
  have "P (fst (snd (importLoop D F env (TrimSpace userID) 0 deposits ?st)))"
    using importLoop_keeps \<open>P s\<close> by (force simp: keeps_def)
  with run show "P s'" by (auto simp: importDeposits_def Let_def split: prod.splits sum.splits)
qed

end

text \<open>Accounts are added at the end; rules and transactions are added.\<close>

definition store_grows :: "'d db \<Rightarrow> 'd db \<Rightarrow> bool" where
  "store_grows s s' \<longleftrightarrow> prefix (db_accounts s) (db_accounts s') \<and>
     prefix (db_rules s) (db_rules s') \<and> prefix (db_transactions s) (db_transactions s')"

interpretation store_growth: import_store D "store_grows t" for D :: "'d decimal_ops" and t
proof -
  have insert: "keeps (store_grows t) (insertAccount account)" "keeps (store_grows t) (insertInterestRule rule)"
    "keeps (store_grows t) (insertTransaction D transaction)" "keeps (store_grows t) (insertAuditEvent event)"
    for account rule transaction event
    by (auto simp: keeps_def store_grows_def insertAccount_def insertInterestRule_def insertTransaction_def
        insertAuditEvent_def Let_def sbind_def intro: prefix_prefix split: sum.splits)
  show "import_store D (store_grows t)"
    by unfold_locales (unfold CreateMigratedDeposit_def InterestRuleRepository_Create_def TransactionRepository_Create_def
      interestRuleActor_def, (intro keeps_intros keeps_pg_tx insert)+)
qed

section \<open>Importing twice\<close>

text \<open>What a completed deposit leaves in the database: its account, a rule and the initial balance.\<close>

definition imported :: "'d db \<Rightarrow> 'f Deposit \<Rightarrow> bool" where
  "imported s deposit =
     (let legacyID = TrimSpace (dp_ID deposit)
      in legacyID \<noteq> '''' \<and> 0 \<le> dp_Amount deposit \<and> isOk (parseRequiredDate ''start date'' (dp_StartDate deposit)) \<and>
         (case find (\<lambda>a. a_LegacyID a = Some legacyID) (db_accounts s) of
            None \<Rightarrow> False
          | Some account \<Rightarrow>
              list_ex (\<lambda>r. r_AccountID r = a_ID account) (db_rules s) \<and>
              list_ex (\<lambda>t. t_AccountID t = a_ID account \<and> t_Type t = TransactionTypeInitialBalance \<and>
                t_Description t = legacyInitialDescription legacyID) (db_transactions s)))"

lemma importedI:
  assumes "TrimSpace (dp_ID deposit) \<noteq> ''''" "0 \<le> dp_Amount deposit"
    "parseRequiredDate ''start date'' (dp_StartDate deposit) = Inr openedAt"
    "find (\<lambda>a. a_LegacyID a = Some (TrimSpace (dp_ID deposit))) (db_accounts s) = Some account"
    "rule \<in> set (db_rules s)" "r_AccountID rule = a_ID account"
    "t \<in> set (db_transactions s)" "t_AccountID t = a_ID account" "t_Type t = TransactionTypeInitialBalance"
    "t_Description t = legacyInitialDescription (TrimSpace (dp_ID deposit))"
  shows "imported s deposit"
  using assms by (auto simp: imported_def Let_def list_ex_iff)

lemma importedE:
  assumes "imported s deposit"
  obtains openedAt account rule t where "TrimSpace (dp_ID deposit) \<noteq> ''''" "0 \<le> dp_Amount deposit"
    "parseRequiredDate ''start date'' (dp_StartDate deposit) = Inr openedAt"
    "find (\<lambda>a. a_LegacyID a = Some (TrimSpace (dp_ID deposit))) (db_accounts s) = Some account"
    "rule \<in> set (db_rules s)" "r_AccountID rule = a_ID account"
    "t \<in> set (db_transactions s)" "t_AccountID t = a_ID account" "t_Type t = TransactionTypeInitialBalance"
    "t_Description t = legacyInitialDescription (TrimSpace (dp_ID deposit))"
  using assms by (auto simp: imported_def Let_def list_ex_iff isOk_iff split: option.splits)

lemma imported_grows:
  assumes "imported s deposit" "store_grows s s'"
  shows "imported s' deposit"
proof -
  from assms(1) obtain openedAt account rule t where h: "TrimSpace (dp_ID deposit) \<noteq> ''''" "0 \<le> dp_Amount deposit"
    "parseRequiredDate ''start date'' (dp_StartDate deposit) = Inr openedAt"
    "find (\<lambda>a. a_LegacyID a = Some (TrimSpace (dp_ID deposit))) (db_accounts s) = Some account"
    "rule \<in> set (db_rules s)" "r_AccountID rule = a_ID account"
    "t \<in> set (db_transactions s)" "t_AccountID t = a_ID account" "t_Type t = TransactionTypeInitialBalance"
    "t_Description t = legacyInitialDescription (TrimSpace (dp_ID deposit))"
    by (rule importedE)
  have "find (\<lambda>a. a_LegacyID a = Some (TrimSpace (dp_ID deposit))) (db_accounts s') = Some account"
    "rule \<in> set (db_rules s')" "t \<in> set (db_transactions s')"
    using h(4,5,7) assms(2) by (auto simp: store_grows_def prefix_def find_append_key)
  with h show ?thesis by (intro importedI)
qed

lemma legacyInitialBalance_found:
  "snd (legacyInitialBalanceFromTransactions D ts legacyID) \<longleftrightarrow>
     (\<exists>t \<in> set ts. t_Type t = TransactionTypeInitialBalance \<and> t_Description t = legacyInitialDescription legacyID)"
proof -
  let ?hit = "\<lambda>t. t_Type t = TransactionTypeInitialBalance \<and> t_Description t = legacyInitialDescription legacyID"
  have "snd (foldl (\<lambda>(balance, found) t. if ?hit t then (d_Add D balance (t_Amount t), True) else (balance, found)) p ts) \<longleftrightarrow>
      snd p \<or> (\<exists>t \<in> set ts. ?hit t)" for p
    by (induction ts arbitrary: p) (auto split: prod.splits)
  then show ?thesis by (simp add: legacyInitialBalanceFromTransactions_def)
qed

lemma on_store_Inr_iff [tx_simps]:
  "on_store m st = (Inr x, st') \<longleftrightarrow> m (fst st) = (Inr x, fst st') \<and> snd st' = snd st"
  by (cases st; cases st') (auto simp: on_store_def split: prod.splits)

lemma on_report_Inr_iff [tx_simps]: "on_report f st = (Inr u, st') \<longleftrightarrow> st' = (fst st, f (snd st))"
  by (cases st) (auto simp: on_report_def)

text \<open>The three ways a deposit can go.\<close>

lemma migrateDeposit_invalid:
  assumes "TrimSpace (dp_ID deposit) = '''' \<or> dp_Amount deposit < 0"
  shows "\<exists>e. migrateDeposit D F env i owner deposit st = (Inl e, st)"
  using assms by (auto simp: migrateDeposit_def Let_def sbind_def scheck_def)

lemma migrateDeposit_valid:
  assumes "TrimSpace (dp_ID deposit) \<noteq> ''''" "0 \<le> dp_Amount deposit"
  shows "migrateDeposit D F env i owner deposit (s, r) =
    (case find (\<lambda>a. a_LegacyID a = Some (TrimSpace (dp_ID deposit))) (db_accounts s) of
       None \<Rightarrow> migrateNewDeposit D F env i owner deposit (s, r)
     | Some account \<Rightarrow> migrateExistingDeposit D F env i deposit account (s, r))"
  using assms
  by (simp add: migrateDeposit_def Let_def sbind_def stry_def on_store_def AccountRepository_GetByLegacyID_def getAccount_def
      QueryRow_def mapNotFound_def errorsIs_def split: option.split)

text \<open>A deposit that is there already changes nothing and counts as skipped.\<close>

lemma imported_skipped:
  assumes "imported s deposit"
  shows "\<exists>balance. migrateDeposit D F env i owner deposit (s, r) =
    (Inr balance, (s, r\<lparr>im_SkippedExisting := im_SkippedExisting r + 1\<rparr>))"
proof -
  from assms obtain openedAt account rule t where h: "TrimSpace (dp_ID deposit) \<noteq> ''''" "0 \<le> dp_Amount deposit"
    "parseRequiredDate ''start date'' (dp_StartDate deposit) = Inr openedAt"
    "find (\<lambda>a. a_LegacyID a = Some (TrimSpace (dp_ID deposit))) (db_accounts s) = Some account"
    and rule: "rule \<in> set (db_rules s)" "r_AccountID rule = a_ID account"
    and t: "t \<in> set (db_transactions s)" "t_AccountID t = a_ID account" "t_Type t = TransactionTypeInitialBalance"
    "t_Description t = legacyInitialDescription (TrimSpace (dp_ID deposit))"
    by (rule importedE)
  let ?rules = "order_rules (filter (\<lambda>r. r_AccountID r = a_ID account) (db_rules s))"
  let ?ts = "order_transactions (filter (\<lambda>t. t_AccountID t = a_ID account) (db_transactions s))"
  have "set ?rules = set (filter (\<lambda>r. r_AccountID r = a_ID account) (db_rules s))" by (simp add: order_rules_def)
  then have rules: "?rules \<noteq> []" using rule by auto
  have "snd (legacyInitialBalanceFromTransactions D ?ts (TrimSpace (dp_ID deposit)))"
    unfolding legacyInitialBalance_found using t by auto
  then obtain b where b: "legacyInitialBalanceFromTransactions D ?ts (TrimSpace (dp_ID deposit)) = (b, True)"
    by (metis prod.collapse)
  have "migrateExistingDeposit D F env i deposit account (s, r) =
      (Inr b, (s, r\<lparr>im_SkippedExisting := im_SkippedExisting r + 1\<rparr>))"
    using h(3) rules b
    by (simp add: migrateExistingDeposit_def ensureRule_def ensureInitialBalance_def Let_def sbind_def on_report_def
        on_store_def swrap_def InterestRuleRepository_ListByAccount_def TransactionRepository_ListByAccount_def)
  then show ?thesis using h by (simp add: migrateDeposit_valid)
qed

text \<open>What the rows of a deposit are, and what the transaction that writes them adds.\<close>

lemma interestRuleForDeposit_account:
  "interestRuleForDeposit D F rid deposit accountID openedAt = Inr rule \<Longrightarrow> r_AccountID rule = accountID"
  by (auto simp: interestRuleForDeposit_def Let_def)

lemma buildDeposit_rows:
  assumes "buildDeposit D F env i owner deposit = Inr (account, rule, t)"
  obtains openedAt where "parseRequiredDate ''start date'' (dp_StartDate deposit) = Inr openedAt"
    "a_LegacyID account = Some (TrimSpace (dp_ID deposit))" "r_AccountID rule = a_ID account" "t_AccountID t = a_ID account"
    "t_Type t = TransactionTypeInitialBalance" "t_Description t = legacyInitialDescription (TrimSpace (dp_ID deposit))"
    "t_Amount t = legacyDepositAmountToDecimal D (dp_Amount deposit)"
  using assms
  by (auto simp: buildDeposit_def Let_def depositAccount_def initialTransaction_def dest: interestRuleForDeposit_account)

lemma CreateMigratedDeposit_effect:
  assumes "CreateMigratedDeposit D account rule t s = (Inr u, s')"
  obtains owner where "db_accounts s' = db_accounts s @ [account\<lparr>a_OwnerUserID := owner\<rparr>]"
    "db_rules s' = db_rules s @ [ruleRow rule]" "db_transactions s' = db_transactions s @ [normalizeTransaction t]"
    "transaction_checks D (normalizeTransaction t)"
  using assms by (auto simp: CreateMigratedDeposit_def insertAccount_def Let_def tx_simps)

lemma ruleRow_account [simp]: "r_AccountID (ruleRow rule) = r_AccountID rule"
  by (simp add: ruleRow_def)

lemma normalizeTransaction_description [simp]: "t_Description (normalizeTransaction t) = t_Description t"
  by (simp add: normalizeTransaction_def)

text \<open>The transaction that writes a deposit meets the contracts of the ledger and of the rules.\<close>

interpretation migrated_deposit: ledger_operation D "CreateMigratedDeposit D account rule transaction"
  for D :: "'d decimal_ops" and account rule transaction
  unfolding CreateMigratedDeposit_def by (intro pg_tx_operation keeps_intros)

lemma CreateMigratedDeposit_rules_ok:
  assumes "rules_ok (db_rules s)" "CreateMigratedDeposit D account rule t s = (Inr u, s')"
  shows "rules_ok (db_rules s')"
proof -
  have "rule_checks (ruleRow rule)" "\<not> rule_excluded (db_rules s) (ruleRow rule)" "r_ID rule \<notin> set (map r_ID (db_rules s))"
    "db_rules s' = db_rules s @ [ruleRow rule]"
    using assms(2) by (auto simp: CreateMigratedDeposit_def insertAccount_def Let_def tx_simps)
  then show ?thesis using rules_ok_insert [OF assms(1)] by simp
qed

lemma migrated_new:
  assumes "TrimSpace (dp_ID deposit) \<noteq> ''''" "0 \<le> dp_Amount deposit"
    "find (\<lambda>a. a_LegacyID a = Some (TrimSpace (dp_ID deposit))) (db_accounts s) = None"
    "buildDeposit D F env i owner deposit = Inr (account, rule, t)" "CreateMigratedDeposit D account rule t s = (Inr u, s')"
  shows "imported s' deposit"
proof -
  from assms(4) obtain openedAt where o: "parseRequiredDate ''start date'' (dp_StartDate deposit) = Inr openedAt"
    and rows: "a_LegacyID account = Some (TrimSpace (dp_ID deposit))" "r_AccountID rule = a_ID account" "t_AccountID t = a_ID account"
    "t_Type t = TransactionTypeInitialBalance" "t_Description t = legacyInitialDescription (TrimSpace (dp_ID deposit))"
    by (rule buildDeposit_rows)
  from assms(5) obtain owner' where s': "db_accounts s' = db_accounts s @ [account\<lparr>a_OwnerUserID := owner'\<rparr>]"
    "db_rules s' = db_rules s @ [ruleRow rule]" "db_transactions s' = db_transactions s @ [normalizeTransaction t]"
    by (rule CreateMigratedDeposit_effect)
  show ?thesis
  proof (rule importedI [OF assms(1,2) o])
    show "find (\<lambda>a. a_LegacyID a = Some (TrimSpace (dp_ID deposit))) (db_accounts s') = Some (account\<lparr>a_OwnerUserID := owner'\<rparr>)"
      using assms(3) rows(1) by (simp add: s'(1) find_append_key)
    show "ruleRow rule \<in> set (db_rules s')" "normalizeTransaction t \<in> set (db_transactions s')" by (simp_all add: s')
  qed (simp_all add: rows)
qed

text \<open>A deposit that exists is completed.\<close>

lemma ensured_rule:
  assumes "ensureRule D F env i deposit account openedAt (s, r) = (Inr u, (s', r'))"
  shows "\<exists>rule \<in> set (db_rules s'). r_AccountID rule = a_ID account"
proof (cases "order_rules (filter (\<lambda>r. r_AccountID r = a_ID account) (db_rules s)) = []")
  case True
  with assms obtain rule where "interestRuleForDeposit D F (me_id env i 1) deposit (a_ID account) openedAt = Inr rule"
    "InterestRuleRepository_Create D (me_id env i 3) (me_now env i) rule s = (Inr (), s')"
    by (auto simp: ensureRule_def InterestRuleRepository_ListByAccount_def tx_simps)
  then show ?thesis
    using InterestRuleRepository_Create_effect [of D "me_id env i 3" "me_now env i" rule s "()" s']
    by (auto dest: interestRuleForDeposit_account)
next
  case False
  then have "set (order_rules (filter (\<lambda>r. r_AccountID r = a_ID account) (db_rules s))) \<noteq> {}" by simp
  then show ?thesis using assms False
    by (auto simp: ensureRule_def InterestRuleRepository_ListByAccount_def order_rules_def tx_simps)
qed

lemma ensured_balance:
  assumes "ensureInitialBalance D env i deposit account legacyID openedAt (s, r) = (Inr b, (s', r'))"
  shows "\<exists>t \<in> set (db_transactions s'). t_AccountID t = a_ID account \<and> t_Type t = TransactionTypeInitialBalance \<and>
    t_Description t = legacyInitialDescription legacyID"
proof -
  let ?ts = "order_transactions (filter (\<lambda>t. t_AccountID t = a_ID account) (db_transactions s))"
  let ?t = "initialTransaction D (me_id env i 2) (a_ID account) deposit legacyID openedAt (UTC (me_now env i))"
  obtain c ok where found: "legacyInitialBalanceFromTransactions D ?ts legacyID = (c, ok)" by fastforce
  show ?thesis
  proof (cases ok)
    case True
    with found have "snd (legacyInitialBalanceFromTransactions D ?ts legacyID)" by simp
    moreover have "s' = s" using assms found True
      by (simp add: ensureInitialBalance_def TransactionRepository_ListByAccount_def tx_simps)
    ultimately show ?thesis unfolding legacyInitialBalance_found by auto
  next
    case False
    then obtain x where "TransactionRepository_Create D ?t s = (Inr x, s')"
      using assms found by (auto simp: ensureInitialBalance_def TransactionRepository_ListByAccount_def tx_simps)
    then show ?thesis
      by (auto simp: TransactionRepository_Create_def tx_simps) (simp_all add: initialTransaction_def)
  qed
qed

lemma store_grows_refl [simp]: "store_grows s s"
  by (simp add: store_grows_def)

lemma migrated_existing:
  assumes "TrimSpace (dp_ID deposit) \<noteq> ''''" "0 \<le> dp_Amount deposit"
    and account: "find (\<lambda>a. a_LegacyID a = Some (TrimSpace (dp_ID deposit))) (db_accounts s) = Some account"
    and run: "migrateExistingDeposit D F env i deposit account (s, r) = (Inr b, (s', r'))"
  shows "imported s' deposit"
proof -
  from run obtain openedAt s1 r1 r0 where o: "parseRequiredDate ''start date'' (dp_StartDate deposit) = Inr openedAt"
    and rule: "ensureRule D F env i deposit account openedAt (s, r0) = (Inr (), (s1, r1))"
    and balance: "ensureInitialBalance D env i deposit account (TrimSpace (dp_ID deposit)) openedAt (s1, r1) = (Inr b, (s', r'))"
    by (auto simp: migrateExistingDeposit_def Let_def tx_simps)
  have grows: "store_grows s s1" "store_grows s1 s'"
    using keepsD [OF store_growth.ensureRule_keeps [where t = s] _ rule]
      keepsD [OF store_growth.ensureInitialBalance_keeps [where t = s1] _ balance] by simp_all
  from ensured_rule [OF rule] obtain q where q: "q \<in> set (db_rules s1)" "r_AccountID q = a_ID account" by blast
  from ensured_balance [OF balance] obtain t where t: "t \<in> set (db_transactions s')" "t_AccountID t = a_ID account"
    "t_Type t = TransactionTypeInitialBalance" "t_Description t = legacyInitialDescription (TrimSpace (dp_ID deposit))"
    by blast
  have "find (\<lambda>a. a_LegacyID a = Some (TrimSpace (dp_ID deposit))) (db_accounts s') = Some account"
    "q \<in> set (db_rules s')"
    using account q(1) grows by (auto simp: store_grows_def prefix_def find_append_key)
  from importedI [OF assms(1,2) o this q(2) t] show ?thesis .
qed

lemma migrated_imported:
  assumes "migrateDeposit D F env i owner deposit (s, r) = (Inr b, (s', r'))"
  shows "imported s' deposit"
proof -
  have deposit: "TrimSpace (dp_ID deposit) \<noteq> ''''" "0 \<le> dp_Amount deposit"
    using assms by (auto simp: migrateDeposit_def Let_def tx_simps)
  show ?thesis
  proof (cases "find (\<lambda>a. a_LegacyID a = Some (TrimSpace (dp_ID deposit))) (db_accounts s)")
    case (Some account)
    then have "migrateExistingDeposit D F env i deposit account (s, r) = (Inr b, (s', r'))"
      using assms deposit by (simp add: migrateDeposit_valid)
    with deposit Some show ?thesis by (rule migrated_existing)
  next
    case None
    then have "migrateNewDeposit D F env i owner deposit (s, r) = (Inr b, (s', r'))"
      using assms deposit by (simp add: migrateDeposit_valid)
    then obtain account rule t where "buildDeposit D F env i owner deposit = Inr (account, rule, t)"
        "CreateMigratedDeposit D account rule t s = (Inr (), s')"
      by (auto simp: migrateNewDeposit_def tx_simps)
    with migrated_new [OF deposit None] show ?thesis by blast
  qed
qed

text \<open>The loop: an error that was noted stays noted, so a report without errors means that every
  deposit was completed.\<close>

lemma keeps_errors:
  "keeps (\<lambda>st. im_Errors (snd st) \<noteq> []) (on_store m)"
  "(\<And>r. im_Errors (f r) = im_Errors r) \<Longrightarrow> keeps (\<lambda>st. im_Errors (snd st) \<noteq> []) (on_report f)"
  by (auto simp: keeps_def on_store_def on_report_def split: prod.splits)

lemma migrateDeposit_errors: "keeps (\<lambda>st. im_Errors (snd st) \<noteq> []) (migrateDeposit D F env i owner deposit)"
  unfolding migrateDeposit_def migrateExistingDeposit_def migrateNewDeposit_def ensureRule_def ensureInitialBalance_def
  by (intro keeps_intros keeps_errors) simp_all

lemma importLoop_errors: "keeps (\<lambda>st. im_Errors (snd st) \<noteq> []) (importLoop D F env owner i deposits)"
proof (induction deposits arbitrary: i)
  case (Cons deposit deposits)
  have noted: "keeps (\<lambda>st. im_Errors (snd st) \<noteq> []) (on_report (\<lambda>r. r\<lparr>im_Errors := im_Errors r @ [x]\<rparr>))" for x
    by (auto simp: keeps_def on_report_def)
  show ?case unfolding importLoop.simps
    by (intro keeps_intros migrateDeposit_errors noted keeps_errors Cons.IH) simp_all
qed (simp add: keeps_def)

lemma importLoop_Cons_Inr:
  assumes "importLoop D F env owner i (deposit # deposits) st = (Inr u, st')"
  obtains (migrated) b r s1 r1 r2 where "migrateDeposit D F env i owner deposit (fst st, r) = (Inr b, (s1, r1))"
      "importLoop D F env owner (i + 1) deposits (s1, r2) = (Inr u, st')"
    | (failed) e r s1 r1 r2 where "migrateDeposit D F env i owner deposit (fst st, r) = (Inl e, (s1, r1))"
      "importLoop D F env owner (i + 1) deposits (s1, r2) = (Inr u, st')" "im_Errors r2 \<noteq> []"
proof -
  let ?r = "(snd st)\<lparr>im_SourceBalance :=
    d_Add D (im_SourceBalance (snd st)) (legacyDepositAmountToDecimal D (dp_Amount deposit))\<rparr>"
  obtain x s1 r1 where m: "migrateDeposit D F env i owner deposit (fst st, ?r) = (x, (s1, r1))" by (metis prod.collapse)
  show thesis
  proof (cases x)
    case (Inr b)
    with assms m have "importLoop D F env owner (i + 1) deposits
        (s1, r1\<lparr>im_MigratedBalance := d_Add D (im_MigratedBalance r1) b\<rparr>) = (Inr u, st')"
      by (auto simp: tx_simps stry_def)
    with m Inr show thesis by (intro migrated) simp_all
  next
    case (Inl e)
    with assms m have "importLoop D F env owner (i + 1) deposits
        (s1, r1\<lparr>im_Errors := im_Errors r1 @ [(depositLabel deposit, e)]\<rparr>) = (Inr u, st')"
      by (auto simp: tx_simps stry_def)
    then show thesis using m Inl by (intro failed [of ?r e s1 r1 "r1\<lparr>im_Errors := im_Errors r1 @ [(depositLabel deposit, e)]\<rparr>"]) simp_all
  qed
qed

lemma importLoop_completes:
  assumes "importLoop D F env owner i deposits (s, r) = (Inr u, (s', r'))" "im_Errors r' = []" "deposit \<in> set deposits"
  shows "imported s' deposit"
  using assms
proof (induction deposits arbitrary: i s r)
  case (Cons d deposits)
  from Cons.prems(1) show ?case
  proof (cases rule: importLoop_Cons_Inr)
    case (failed e r0 s1 r1 r2)
    with keepsD [OF importLoop_errors _ failed(2)] Cons.prems(2) show ?thesis by simp
  next
    case (migrated b r0 s1 r1 r2)
    have "store_grows s1 s'"
      using keepsD [OF store_growth.importLoop_keeps [where t = s1] _ migrated(2)] by simp
    moreover have "imported s1 d" using migrated(1) by (simp add: migrated_imported)
    ultimately show ?thesis using Cons.IH [OF migrated(2) Cons.prems(2)] Cons.prems(3) by (auto intro: imported_grows)
  qed
qed simp

lemma importLoop_again:
  assumes "\<And>d. d \<in> set deposits \<Longrightarrow> imported s d" "\<And>i. me_ctx env i = None"
  shows "\<exists>r'. importLoop D F env owner i deposits (s, r) = (Inr (), (s, r')) \<and> im_Errors r' = im_Errors r \<and>
    im_CreatedAccounts r' = im_CreatedAccounts r \<and> im_CreatedInterestRules r' = im_CreatedInterestRules r \<and>
    im_CreatedTransactions r' = im_CreatedTransactions r \<and>
    im_SkippedExisting r' = im_SkippedExisting r + int (length deposits)"
  using assms(1)
proof (induction deposits arbitrary: i r)
  case (Cons d deposits)
  let ?r = "r\<lparr>im_SourceBalance := d_Add D (im_SourceBalance r) (legacyDepositAmountToDecimal D (dp_Amount d))\<rparr>"
  obtain b where b: "migrateDeposit D F env i owner d (s, ?r) =
      (Inr b, (s, ?r\<lparr>im_SkippedExisting := im_SkippedExisting ?r + 1\<rparr>))"
    using imported_skipped [of s d D F env i owner ?r] Cons.prems by auto
  define q where "q = ?r\<lparr>im_SkippedExisting := im_SkippedExisting ?r + 1, im_MigratedBalance := d_Add D (im_MigratedBalance r) b\<rparr>"
  have "importLoop D F env owner i (d # deposits) (s, r) = importLoop D F env owner (i + 1) deposits (s, q)"
    using b assms(2) by (simp add: sbind_def stry_def on_report_def ctxCheck_def q_def)
  moreover have "im_Errors q = im_Errors r" "im_CreatedAccounts q = im_CreatedAccounts r"
    "im_CreatedInterestRules q = im_CreatedInterestRules r" "im_CreatedTransactions q = im_CreatedTransactions r"
    "im_SkippedExisting q = im_SkippedExisting r + 1"
    by (simp_all add: q_def)
  ultimately show ?case using Cons.IH [of "i + 1" q] Cons.prems by auto
qed simp

section \<open>The report\<close>

text \<open>What the report counts, less what the tables hold.\<close>

definition uncounted :: "'d db \<times> 'd ImportReport \<Rightarrow> int \<times> int \<times> int" where
  "uncounted st =
     (int (length (db_accounts (fst st))) - im_CreatedAccounts (snd st),
      int (length (db_rules (fst st))) - im_CreatedInterestRules (snd st),
      int (length (db_transactions (fst st))) - im_CreatedTransactions (snd st))"

text \<open>A write that fails changes nothing, and one that succeeds is counted.\<close>

lemma keeps_counted:
  assumes "\<And>s e s'. m s = (Inl e, s') \<Longrightarrow> s' = s"
    "\<And>s x s' r. m s = (Inr x, s') \<Longrightarrow> uncounted (s', f r) = uncounted (s, r)"
    "keeps (\<lambda>st. uncounted st = c) k"
  shows "keeps (\<lambda>st. uncounted st = c) (sbind (on_store (swrap msg m)) (\<lambda>_. sbind (on_report f) (\<lambda>_. k)))"
proof (rule keepsI)
  fix st x st' assume c: "uncounted st = c"
    and run: "sbind (on_store (swrap msg m)) (\<lambda>_. sbind (on_report f) (\<lambda>_. k)) st = (x, st')"
  obtain s r where st: "st = (s, r)" by fastforce
  show "uncounted st' = c"
  proof (cases "m s")
    case (Pair y s1)
    show ?thesis
    proof (cases y)
      case (Inl e)
      with Pair run st assms(1) c show ?thesis by (auto simp: sbind_def on_store_def swrap_def)
    next
      case (Inr z)
      with Pair run st have "k (s1, f r) = (x, st')" by (simp add: sbind_def on_store_def swrap_def on_report_def)
      with assms(2) [of s z s1 r] Pair Inr c st keepsD [OF assms(3)] show ?thesis by simp
    qed
  qed
qed

lemma keeps_uncounted_read: "(\<And>s. snd (m s) = s) \<Longrightarrow> keeps (\<lambda>st. uncounted st = c) (on_store m)"
  by (auto simp: keeps_def on_store_def split: prod.splits) (metis snd_conv)

lemma keeps_uncounted_report:
  "(\<And>r. im_CreatedAccounts (f r) = im_CreatedAccounts r \<and> im_CreatedInterestRules (f r) = im_CreatedInterestRules r \<and>
     im_CreatedTransactions (f r) = im_CreatedTransactions r) \<Longrightarrow> keeps (\<lambda>st. uncounted st = c) (on_report f)"
  by (simp add: keeps_def on_report_def uncounted_def split: prod.splits)

lemma write_counted:
  "CreateMigratedDeposit D account rule t s = (Inr u, s') \<Longrightarrow>
     uncounted (s', r\<lparr>im_CreatedAccounts := im_CreatedAccounts r + 1,
       im_CreatedInterestRules := im_CreatedInterestRules r + 1,
       im_CreatedTransactions := im_CreatedTransactions r + 1\<rparr>) = uncounted (s, r)"
  "InterestRuleRepository_Create D eid now rule s = (Inr u, s') \<Longrightarrow>
     uncounted (s', r\<lparr>im_CreatedInterestRules := im_CreatedInterestRules r + 1\<rparr>) = uncounted (s, r)"
  "TransactionRepository_Create D t s = (Inr t', s') \<Longrightarrow>
     uncounted (s', r\<lparr>im_CreatedTransactions := im_CreatedTransactions r + 1\<rparr>) = uncounted (s, r)"
  by (auto simp: uncounted_def CreateMigratedDeposit_def InterestRuleRepository_Create_def TransactionRepository_Create_def
      insertAccount_def Let_def tx_simps)

lemma write_atomic:
  "CreateMigratedDeposit D account rule t s = (Inl e, s') \<Longrightarrow> s' = s"
  "InterestRuleRepository_Create D eid now rule s = (Inl e, s') \<Longrightarrow> s' = s"
  "TransactionRepository_Create D t s = (Inl e, s') \<Longrightarrow> s' = s"
  by (auto simp: CreateMigratedDeposit_def InterestRuleRepository_Create_def TransactionRepository_Create_def swrap_def
      emap_def ewrap_def dest: pg_tx_Inl split: prod.splits sum.splits)

lemma keeps_counted_last:
  assumes "\<And>s e s'. m s = (Inl e, s') \<Longrightarrow> s' = s"
    "\<And>s x s' r. m s = (Inr x, s') \<Longrightarrow> uncounted (s', f r) = uncounted (s, r)"
  shows "keeps (\<lambda>st. uncounted st = c) (sbind (on_store (swrap msg m)) (\<lambda>_. on_report f))"
proof -
  have "keeps (\<lambda>st. uncounted st = c) (sbind (on_store (swrap msg m)) (\<lambda>_. sbind (on_report f) (\<lambda>_. sret ())))"
    using assms by (intro keeps_counted keeps_intros)
  moreover have "sbind (on_report f) (\<lambda>_. sret ()) = on_report f" by (rule ext) (simp add: sbind_def on_report_def split: prod.splits)
  ultimately show ?thesis by simp
qed

lemma reads_uncounted:
  "keeps (\<lambda>st. uncounted st = c) (on_store (AccountRepository_GetByLegacyID i))"
  "keeps (\<lambda>st. uncounted st = c) (on_store (swrap msg (InterestRuleRepository_ListByAccount i)))"
  "keeps (\<lambda>st. uncounted st = c) (on_store (swrap msg (TransactionRepository_ListByAccount i)))"
  by (intro keeps_uncounted_read; simp add: AccountRepository_GetByLegacyID_def getAccount_def swrap_def
      InterestRuleRepository_ListByAccount_def TransactionRepository_ListByAccount_def)+

lemma ensureRule_counted: "keeps (\<lambda>st. uncounted st = c) (ensureRule D F env i deposit account openedAt)"
proof -
  have written: "keeps (\<lambda>st. uncounted st = c) (sbind (on_store (swrap msg (InterestRuleRepository_Create D eid now rule)))
      (\<lambda>_. on_report (\<lambda>r. r\<lparr>im_CreatedInterestRules := im_CreatedInterestRules r + 1\<rparr>)))" for msg eid now rule
    by (rule keeps_counted_last) (erule write_atomic write_counted)+
  show ?thesis unfolding ensureRule_def
    by (rule keeps_sbind [OF reads_uncounted(2)], rule keeps_cases(1), rule keeps_sbind, rule keeps_pure, rule written, rule keeps_pure)
qed

lemma ensureInitialBalance_counted:
  "keeps (\<lambda>st. uncounted st = c) (ensureInitialBalance D env i deposit account legacyID openedAt)"
proof -
  have written: "keeps (\<lambda>st. uncounted st = c) (sbind (on_store (swrap msg (TransactionRepository_Create D t)))
      (\<lambda>_. sbind (on_report (\<lambda>r. r\<lparr>im_CreatedTransactions := im_CreatedTransactions r + 1\<rparr>)) (\<lambda>_. sret b)))" for msg t b
    by (rule keeps_counted, erule write_atomic, erule write_counted, rule keeps_pure)
  show ?thesis unfolding ensureInitialBalance_def Let_def
    by (rule keeps_sbind [OF reads_uncounted(3)], rule keeps_cases(4), rule keeps_cases(1), rule keeps_pure, rule written)
qed

lemma migrateNewDeposit_counted: "keeps (\<lambda>st. uncounted st = c) (migrateNewDeposit D F env i owner deposit)"
  unfolding migrateNewDeposit_def
  by (rule keeps_sbind, rule keeps_pure, rule keeps_cases(4), rule keeps_cases(4), rule keeps_counted, erule write_atomic,
      erule write_counted, rule keeps_pure)

lemma migrateDeposit_counted: "keeps (\<lambda>st. uncounted st = c) (migrateDeposit D F env i owner deposit)"
  unfolding migrateDeposit_def migrateExistingDeposit_def
  by (intro keeps_intros reads_uncounted migrateNewDeposit_counted ensureRule_counted ensureInitialBalance_counted
      keeps_uncounted_report) simp

lemma importLoop_counted: "keeps (\<lambda>st. uncounted st = c) (importLoop D F env owner i deposits)"
proof (induction deposits arbitrary: i)
  case (Cons deposit deposits)
  show ?case unfolding importLoop.simps
    by (intro keeps_intros migrateDeposit_counted keeps_uncounted_report Cons.IH) simp_all
qed (simp add: keeps_def)

text \<open>A sample: rates as decimals, one user, a deposit of 1500.00.\<close>

definition sample_rates :: "(dec, dec) float64_ops" where
  "sample_rates = \<lparr>f_NotPositive = (\<lambda>x. \<not> d_IsPositive dec_ops x), f_NewFromFloat = (\<lambda>x. x)\<rparr>"

definition sample_deposit :: "dec Deposit" where
  "sample_deposit =
     \<lparr>dp_ID = '' d-1 '', dp_Name = ''Savings'', dp_Bank = ''Bank'', dp_Type = ''savings'', dp_Amount = 150000,
      dp_InitialAmount = 150000, dp_InterestRate = Dec 12 0, dp_PromoRate = None, dp_PromoEndDate = '''',
      dp_StartDate = ''2024-02-29'', dp_EndDate = '''', dp_TermMonths = 0, dp_Capitalization = ''daily'',
      dp_AutoRenewal = False, dp_TopUpEndDate = '''', dp_CreatedAt = zero_time, dp_UpdatedAt = zero_time\<rparr>"

definition sample_import_env :: import_env where
  "sample_import_env = \<lparr>me_ctx = (\<lambda>_. None), me_id = (\<lambda>i k. [char_of (97 + i), char_of (65 + k)]), me_now = (\<lambda>_. day_time 739000)\<rparr>"

definition import_result :: "dec db \<Rightarrow> dec Deposit list \<Rightarrow> (err + dec ImportReport) \<times> dec db" where
  "import_result s ds = importDeposits dec_ops sample_rates sample_import_env '''' ds s"

lemma sample_import:
  "isOk (fst (import_result empty_db [sample_deposit]))"
  "case import_result empty_db [sample_deposit] of (Inr r, s') \<Rightarrow> im_Errors r = [] | _ \<Rightarrow> False"
  "length (db_accounts (snd (import_result empty_db [sample_deposit]))) = 1"
  "isOk (fst (import_result empty_db [sample_deposit, sample_deposit\<lparr>dp_ID := ''d-2'', dp_Amount := 0\<rparr>]))"
  by code_simp+

text \<open>C39. Importing twice is safe. When an import ran through and noted no error, importing the same
  deposits again, whatever the clock, the ids and the owner then are, changes nothing in the
  database, creates nothing, notes no error and counts every deposit as skipped.\<close>

theorem import_twice:
  assumes "importDeposits D F env userID deposits s = (Inr r, s')" "im_Errors r = []" "\<And>i. me_ctx env' i = None"
  shows "\<exists>r'. importDeposits D F env' userID' deposits s' = (Inr r', s') \<and> im_Errors r' = [] \<and>
    im_CreatedAccounts r' = 0 \<and> im_CreatedInterestRules r' = 0 \<and> im_CreatedTransactions r' = 0 \<and>
    im_SkippedExisting r' = int (length deposits)"
proof -
  from assms(1,2) obtain r0 where "importLoop D F env (TrimSpace userID) 0 deposits
      (s, emptyReport D (TrimSpace userID) (length deposits)) = (Inr (), (s', r0))" "im_Errors r0 = []"
    by (auto simp: importDeposits_def Let_def split: prod.splits sum.splits)
  then have completed: "imported s' d" if "d \<in> set deposits" for d using that by (rule importLoop_completes)
  from importLoop_again [where D = D and F = F and i = 0 and owner = "TrimSpace userID'" and r = "emptyReport D (TrimSpace userID') (length deposits)",
      OF completed assms(3)]
  obtain q where "importLoop D F env' (TrimSpace userID') 0 deposits
      (s', emptyReport D (TrimSpace userID') (length deposits)) = (Inr (), (s', q))" "im_Errors q = []"
    "im_CreatedAccounts q = 0" "im_CreatedInterestRules q = 0" "im_CreatedTransactions q = 0"
    "im_SkippedExisting q = int (length deposits)"
    by (auto simp: emptyReport_def)
  then show ?thesis by (simp add: importDeposits_def Let_def)
qed

theorem import_twice_witness:
  "let s' = snd (import_result empty_db [sample_deposit])
   in db_accounts s' \<noteq> [] \<and> (\<exists>r'. import_result s' [sample_deposit] = (Inr r', s') \<and> im_SkippedExisting r' = 1)"
proof -
  let ?s' = "snd (import_result empty_db [sample_deposit])"
  obtain r s' where run: "import_result empty_db [sample_deposit] = (Inr r, s')"
    using result_cases [of "\<lambda>s. import_result s [sample_deposit]" empty_db] sample_import(1) by auto
  with sample_import(2,3) have "im_Errors r = []" "db_accounts s' \<noteq> []" by (auto split: sum.splits)
  with import_twice [OF run [unfolded import_result_def], of sample_import_env "''''"] run
  show ?thesis by (auto simp: import_result_def sample_import_env_def)
qed

text \<open>The report counts what was written, also when deposits failed: after an import that ran
  through, the accounts, rules and transactions of the database are those that were there before and
  exactly as many more as the report says were created. A deposit that fails leaves nothing
  uncounted: what it wrote before it failed (a rule of an account that was there) is in the report.\<close>

theorem import_report_counts:
  assumes "importDeposits D F env userID deposits s = (Inr r, s')"
  shows "int (length (db_accounts s')) = int (length (db_accounts s)) + im_CreatedAccounts r \<and>
    int (length (db_rules s')) = int (length (db_rules s)) + im_CreatedInterestRules r \<and>
    int (length (db_transactions s')) = int (length (db_transactions s)) + im_CreatedTransactions r \<and> store_grows s s'"
proof -
  let ?st = "(s, emptyReport D (TrimSpace userID) (length deposits))"
  obtain x t q where run: "importLoop D F env (TrimSpace userID) 0 deposits ?st = (x, (t, q))" by (metis prod.collapse)
  with assms have t: "t = s'" "im_CreatedAccounts r = im_CreatedAccounts q"
    "im_CreatedInterestRules r = im_CreatedInterestRules q" "im_CreatedTransactions r = im_CreatedTransactions q"
    by (auto simp: importDeposits_def Let_def split: sum.splits)
  have grows: "store_grows s s'"
    using keepsD [OF store_growth.importLoop_keeps [where t = s] _ run] t by simp
  moreover have "uncounted (t, q) = uncounted ?st" using keepsD [OF importLoop_counted _ run] by simp
  ultimately show ?thesis using t grows by (simp add: uncounted_def emptyReport_def)
qed

text \<open>The initial balance of a deposit of zero is refused by the check of the table.\<close>

lemma zero_balance_refused:
  fixes deposit :: "'f Deposit"
  assumes "dp_Amount deposit = 0"
  shows "insertTransaction dec_ops (initialTransaction dec_ops tid i deposit legacyID openedAt now) s =
      (Inl (Wrapped ''insert transaction'' (PgError check_violation)), s)"
    and "fst (TransactionRepository_Create dec_ops (initialTransaction dec_ops tid i deposit legacyID openedAt now) s) \<noteq> Inr t"
proof -
  have "\<not> d_IsPositive dec_ops (legacyDepositAmountToDecimal dec_ops 0)" by code_simp
  then have "\<not> transaction_checks dec_ops (normalizeTransaction (initialTransaction dec_ops tid i deposit legacyID openedAt now))"
    using assms by (simp add: transaction_checks_def initialTransaction_def)
  then show refused: "insertTransaction dec_ops (initialTransaction dec_ops tid i deposit legacyID openedAt now) s =
      (Inl (Wrapped ''insert transaction'' (PgError check_violation)), s)"
    by (simp add: insertTransaction_def Let_def sbind_def row_guard_def ewrap_def)
  show "fst (TransactionRepository_Create dec_ops (initialTransaction dec_ops tid i deposit legacyID openedAt now) s) \<noteq> Inr t"
    by (simp add: TransactionRepository_Create_def pg_tx_def swrap_def refused)
qed

text \<open>The accounts and the transactions of the store stay when the import only adds rules.\<close>

definition same_balances :: "'d db \<Rightarrow> 'd db \<times> 'd ImportReport \<Rightarrow> bool" where
  "same_balances s st \<longleftrightarrow> db_accounts (fst st) = db_accounts s \<and> db_transactions (fst st) = db_transactions s"

lemma same_balances_keeps:
  "(\<And>t x t'. m t = (x, t') \<Longrightarrow> db_accounts t' = db_accounts t \<and> db_transactions t' = db_transactions t) \<Longrightarrow>
     keeps (same_balances s) (on_store (swrap msg m))"
  "keeps (same_balances s) (on_report f)"
  by (fastforce simp: keeps_def same_balances_def on_store_def on_report_def swrap_def split: prod.splits sum.splits)+

lemma rule_leaves_balances:
  "InterestRuleRepository_Create D eid now rule s = (x, s') \<Longrightarrow> db_accounts s' = db_accounts s \<and> db_transactions s' = db_transactions s"
proof (cases x)
  case (Inr u)
  assume "InterestRuleRepository_Create D eid now rule s = (x, s')"
  with Inr show ?thesis
    by (auto simp: InterestRuleRepository_Create_def Let_def tx_simps interestRuleActor_def insertInterestRule_def)
qed (use write_atomic(2) in blast)

lemma zero_deposit_same_balances:
  assumes "dp_Amount deposit = 0"
  shows "keeps (same_balances s) (migrateExistingDeposit dec_ops F env i deposit account)"
proof -
  have reads: "db_accounts t' = db_accounts t \<and> db_transactions t' = db_transactions t"
    if "InterestRuleRepository_ListByAccount j t = (x, t') \<or> TransactionRepository_ListByAccount j t = (y, t')" for j t t' x y
    using that by (auto simp: InterestRuleRepository_ListByAccount_def TransactionRepository_ListByAccount_def)
  have balance: "db_accounts t' = db_accounts t \<and> db_transactions t' = db_transactions t"
    if "TransactionRepository_Create dec_ops (initialTransaction dec_ops tid j deposit legacyID openedAt now) t = (x, t')"
    for tid j legacyID openedAt now t x t'
    using that zero_balance_refused(2) [OF assms, of tid j legacyID openedAt now t] by (cases x) (auto dest: write_atomic(3))
  show ?thesis
    unfolding migrateExistingDeposit_def ensureRule_def ensureInitialBalance_def Let_def
    by (intro keeps_intros same_balances_keeps; (use reads in blast | erule rule_leaves_balances | erule balance))
qed

text \<open>A new deposit of zero is refused as a whole.\<close>

lemma zero_rows_refused:
  assumes "dp_Amount deposit = 0" "buildDeposit dec_ops F env i owner deposit = Inr (account, rule, t)"
    "insertAccount account s = (Inr (), s1)" "insertInterestRule rule s1 = (Inr (), s2)"
  shows "CreateMigratedDeposit dec_ops account rule t s =
      (Inl (Wrapped ''create migrated initial balance'' (Wrapped ''insert transaction'' (PgError check_violation))), s)"
proof -
  obtain tid j legacyID openedAt now where "t = initialTransaction dec_ops tid j deposit legacyID openedAt now"
    using assms(2) by (auto simp: buildDeposit_def Let_def)
  with zero_balance_refused(1) [OF assms(1)] assms(3,4) show ?thesis
    by (simp add: CreateMigratedDeposit_def pg_tx_def sbind_def swrap_def)
qed

lemma zero_new_deposit:
  assumes "dp_Amount deposit = 0"
  shows "snd (migrateNewDeposit dec_ops F env i owner deposit (s, r)) = (s, r)"
proof (cases "buildDeposit dec_ops F env i owner deposit")
  case (Inr rows)
  obtain account rule t where rows: "rows = (account, rule, t)" by (cases rows)
  obtain y s1 where run: "CreateMigratedDeposit dec_ops account rule t s = (y, s1)" by fastforce
  have "\<exists>e. y = Inl e"
  proof (cases y)
    case (Inr u)
    then obtain s2 s3 where "insertAccount account s = (Inr (), s2)" "insertInterestRule rule s2 = (Inr (), s3)"
      using run by (auto simp: CreateMigratedDeposit_def tx_simps)
    from zero_rows_refused [OF assms \<open>buildDeposit dec_ops F env i owner deposit = Inr rows\<close> [unfolded rows] this] run
    show ?thesis by simp
  qed simp
  with run have "y \<noteq> Inr u" "s1 = s" for u by (auto dest: write_atomic(1))
  with run rows Inr \<open>\<exists>e. y = Inl e\<close> show ?thesis by (auto simp: migrateNewDeposit_def sbind_def on_store_def swrap_def)
qed (simp add: migrateNewDeposit_def sbind_def)

lemma zero_deposit_changes_no_balance:
  assumes "dp_Amount deposit = 0" "migrateDeposit dec_ops F env i owner deposit (s, r) = (res, (s', r'))"
  shows "same_balances s (s', r')"
proof (cases "TrimSpace (dp_ID deposit) = ''''")
  case True
  then show ?thesis using assms(2) migrateDeposit_invalid [of deposit dec_ops F env i owner "(s, r)"] by (auto simp: same_balances_def)
next
  case False
  with assms have run: "(case find (\<lambda>a. a_LegacyID a = Some (TrimSpace (dp_ID deposit))) (db_accounts s) of
      None \<Rightarrow> migrateNewDeposit dec_ops F env i owner deposit (s, r)
    | Some account \<Rightarrow> migrateExistingDeposit dec_ops F env i deposit account (s, r)) = (res, (s', r'))"
    by (simp add: migrateDeposit_valid)
  show ?thesis
  proof (cases "find (\<lambda>a. a_LegacyID a = Some (TrimSpace (dp_ID deposit))) (db_accounts s)")
    case None
    with run zero_new_deposit [OF assms(1), of F env i owner s r] show ?thesis by (simp add: same_balances_def)
  next
    case (Some account)
    with run have "migrateExistingDeposit dec_ops F env i deposit account (s, r) = (res, (s', r'))" by simp
    from keepsD [OF zero_deposit_same_balances [OF assms(1)] _ this] show ?thesis by (simp add: same_balances_def)
  qed
qed

text \<open>C40. A deposit of amount zero passes the checks of the importer but can never be imported. Whatever
  the store holds, importing it adds neither an account nor a transaction, and it succeeds only where
  its account and initial balance are already there. For a deposit without account whose account and
  rule the database accepts, what refuses it is the database: the initial balance violates the
  check that amounts are positive, the deposit ends with this error, and account and rule are rolled
  back. (Where an account without rule exists, the rule is created before the balance is refused.)\<close>

theorem zero_deposit_never_imported:
  assumes "dp_Amount deposit = 0" "migrateDeposit dec_ops F env i owner deposit (s, r) = (res, (s', r'))"
  shows "db_accounts s' = db_accounts s \<and> db_transactions s' = db_transactions s \<and>
    (\<forall>b. res = Inr b \<longrightarrow> (\<exists>a\<in>set (db_accounts s). \<exists>t\<in>set (db_transactions s).
       a_LegacyID a = Some (TrimSpace (dp_ID deposit)) \<and> t_AccountID t = a_ID a \<and> t_Type t = TransactionTypeInitialBalance \<and>
       t_Description t = legacyInitialDescription (TrimSpace (dp_ID deposit)))) \<and>
    (\<forall>account rule t s1 s2. TrimSpace (dp_ID deposit) \<noteq> '''' \<and>
       (\<forall>a\<in>set (db_accounts s). a_LegacyID a \<noteq> Some (TrimSpace (dp_ID deposit))) \<and>
       buildDeposit dec_ops F env i owner deposit = Inr (account, rule, t) \<and>
       insertAccount account s = (Inr (), s1) \<and> insertInterestRule rule s1 = (Inr (), s2) \<longrightarrow>
       s' = s \<and> r' = r \<and> res = Inl (Wrapped ''create migrated deposit'' (Wrapped ''create migrated initial balance''
         (Wrapped ''insert transaction'' (PgError check_violation)))))"
    (is "?accounts \<and> ?transactions \<and> ?only \<and> ?refused")
proof -
  let ?id = "TrimSpace (dp_ID deposit)"
  have same: "same_balances s (s', r')" by (rule zero_deposit_changes_no_balance [OF assms])
  moreover have ?only
  proof (intro allI impI)
    fix b assume "res = Inr b"
    with assms(2) have "imported s' deposit" by (simp add: migrated_imported)
    then show "\<exists>a\<in>set (db_accounts s). \<exists>t\<in>set (db_transactions s). a_LegacyID a = Some ?id \<and> t_AccountID t = a_ID a \<and>
        t_Type t = TransactionTypeInitialBalance \<and> t_Description t = legacyInitialDescription ?id"
      using same by (elim importedE) (fastforce simp: same_balances_def find_Some_iff)
  qed
  moreover have ?refused
  proof (intro allI impI, elim conjE)
    fix account rule t s1 s2
    assume "?id \<noteq> ''''" "\<forall>a\<in>set (db_accounts s). a_LegacyID a \<noteq> Some ?id"
      and build: "buildDeposit dec_ops F env i owner deposit = Inr (account, rule, t)"
      and rows: "insertAccount account s = (Inr (), s1)" "insertInterestRule rule s1 = (Inr (), s2)"
    moreover from this have "find (\<lambda>a. a_LegacyID a = Some ?id) (db_accounts s) = None" by (auto simp: find_None_iff)
    moreover have "CreateMigratedDeposit dec_ops account rule t s =
        (Inl (Wrapped ''create migrated initial balance'' (Wrapped ''insert transaction'' (PgError check_violation))), s)"
      using zero_rows_refused [OF assms(1) build rows] .
    ultimately show "s' = s \<and> r' = r \<and> res = Inl (Wrapped ''create migrated deposit'' (Wrapped ''create migrated initial balance''
         (Wrapped ''insert transaction'' (PgError check_violation))))"
      using assms by (auto simp: migrateDeposit_valid migrateNewDeposit_def sbind_def on_store_def swrap_def)
  qed
  ultimately show ?thesis by (simp add: same_balances_def)
qed

theorem zero_deposit_never_imported_witness:
  "fst (migrateDeposit dec_ops sample_rates sample_import_env 0 '''' (sample_deposit\<lparr>dp_Amount := 0\<rparr>)
     (empty_db, emptyReport dec_ops '''' 1)) = Inl (Wrapped ''create migrated deposit''
       (Wrapped ''create migrated initial balance'' (Wrapped ''insert transaction'' (PgError check_violation))))"
proof -
  let ?d = "sample_deposit\<lparr>dp_Amount := 0\<rparr>"
  let ?rows = "buildDeposit dec_ops sample_rates sample_import_env 0 '''' ?d"
  let ?run = "migrateDeposit dec_ops sample_rates sample_import_env 0 '''' ?d (empty_db, emptyReport dec_ops '''' 1)"
  have accepted: "case ?rows of Inl _ \<Rightarrow> False | Inr (account, rule, t) \<Rightarrow> isOk (fst (insertAccount account (empty_db :: dec db))) \<and>
      isOk (fst (insertInterestRule rule (snd (insertAccount account (empty_db :: dec db)))))" by code_simp
  then obtain account rule t where rows: "?rows = Inr (account, rule, t)" by (auto split: sum.splits)
  obtain s1 s2 where ok: "insertAccount account (empty_db :: dec db) = (Inr (), s1)" "insertInterestRule rule s1 = (Inr (), s2)"
    using accepted unfolding rows by (auto simp: isOk_iff prod_eq_iff)
  have valid: "TrimSpace (dp_ID ?d) \<noteq> ''''" "dp_Amount ?d = 0" by code_simp+
  obtain s' r' where run: "?run = (fst ?run, (s', r'))" by (metis prod.collapse)
  from zero_deposit_never_imported [OF valid(2) run] valid(1) rows ok show ?thesis by (simp add: empty_db_def)
qed

theorem import_report_counts_witness:
  "\<exists>r s'. import_result empty_db [sample_deposit, sample_deposit\<lparr>dp_ID := ''d-2'', dp_Amount := 0\<rparr>] = (Inr r, s') \<and>
     length (db_accounts s') = im_CreatedAccounts r \<and> length (db_rules s') = im_CreatedInterestRules r \<and>
     length (db_transactions s') = im_CreatedTransactions r"
proof -
  obtain r s' where run: "import_result empty_db [sample_deposit, sample_deposit\<lparr>dp_ID := ''d-2'', dp_Amount := 0\<rparr>] = (Inr r, s')"
    using result_cases [of "\<lambda>s. import_result s [sample_deposit, sample_deposit\<lparr>dp_ID := ''d-2'', dp_Amount := 0\<rparr>]" empty_db]
      sample_import(4) by auto
  with import_report_counts [OF run [unfolded import_result_def]] show ?thesis by (simp add: empty_db_def)
qed

end
