(* ===== verification/Interest_Lifecycle.thy ===== *)
theory Interest_Lifecycle
  imports Interest_Rules
begin

text \<open>
  Interest accruals in the database: the repository of
  \<^verbatim>\<open>internal/postgres/interest_accruals.go\<close> and the account level operations of
  \<^verbatim>\<open>internal/services/interest_lifecycle.go\<close>, which lock the account, choose the rule, load a
  snapshot, run the engine and write what it posts, in one database transaction.

  The lemmas show that every committed accrual is paired with its transaction, that the
  operations meet the contract of a ledger operation, that an accrual of a date is posted
  at most once, and that a recalculation replaces exactly the accruals of its range.
\<close>

section \<open>Repository\<close>

definition accrualRow :: "'d InterestAccrual \<Rightarrow> 'd InterestAccrual" where
  "accrualRow accrual = accrual\<lparr>i_AccrualDate := dateOnly (i_AccrualDate accrual)\<rparr>"

definition accrual_key :: "'d InterestAccrual \<Rightarrow> string \<times> time \<times> string" where
  "accrual_key a = (i_AccountID a, i_AccrualDate a, i_RuleID a)"

definition insertInterestAccrual :: "'d decimal_ops \<Rightarrow> 'd InterestAccrual \<Rightarrow> ('d, unit) dbstm" where
  "insertInterestAccrual D accrual =
     (let row = accrualRow accrual
      in sbind (sread (\<lambda>s. emap (\<lambda>e. Wrapped ''insert interest accrual''
             (if isUniqueViolation e then ErrConflict else e))
           (row_guard (accrual_checks D row)
             (i_ID row \<notin> set (map i_ID (db_accruals s)) \<and>
              accrual_key row \<notin> set (map accrual_key (db_accruals s)) \<and>
              i_TransactionID row \<notin> set (map i_TransactionID (db_accruals s)))
             (i_AccountID row \<in> set (map a_ID (db_accounts s)) \<and>
              list_ex (\<lambda>r. r_ID r = i_RuleID row \<and> r_AccountID r = i_AccountID row) (db_rules s) \<and>
              list_ex (\<lambda>t. t_ID t = i_TransactionID row \<and> t_AccountID t = i_AccountID row)
                (db_transactions s))))) (\<lambda>_.
         swrite (\<lambda>s. s\<lparr>db_accruals := db_accruals s @ [row]\<rparr>)))"

definition InterestAccrualRepository_Create ::
  "'d decimal_ops \<Rightarrow> 'd InterestAccrual \<Rightarrow> ('d, unit) dbstm" where
  "InterestAccrualRepository_Create D accrual =
     swrap ''create interest accrual'' (pg_tx D ''insert interest accrual'' (insertInterestAccrual D accrual))"

definition lockAccountForTransaction :: "string \<Rightarrow> ('d, unit) dbstm" where
  "lockAccountForTransaction accountID =
     sread (\<lambda>s. case QueryRow (\<lambda>a. a_ID a = accountID) (db_accounts s) of
        Inr _ \<Rightarrow> Inr () | Inl e \<Rightarrow> Inl (mapNotFound e))"

definition lockAccountForUser :: "string \<Rightarrow> string \<Rightarrow> ('d, unit) dbstm" where
  "lockAccountForUser accountID userID =
     sread (\<lambda>s. case QueryRow (has_owner accountID userID) (db_accounts s) of
        Inr a \<Rightarrow> echeck (\<not> a_IsActive a) ErrInactiveAccount (Inr ())
      | Inl e \<Rightarrow> Inl (mapNotFound e))"

definition CreateInterestAccrualWithTransaction ::
  "'d decimal_ops \<Rightarrow> 'd Transaction \<Rightarrow> 'd InterestAccrual \<Rightarrow> ('d, unit) dbstm" where
  "CreateInterestAccrualWithTransaction D transaction accrual =
     sbind (swrap ''create interest transaction'' (insertTransaction D transaction)) (\<lambda>_.
     swrap ''create interest accrual'' (insertInterestAccrual D accrual))"

definition InterestAccrualRepository_CreateWithTransaction ::
  "'d decimal_ops \<Rightarrow> 'd Transaction \<Rightarrow> 'd InterestAccrual \<Rightarrow> ('d, unit) dbstm" where
  "InterestAccrualRepository_CreateWithTransaction D transaction accrual =
     pg_tx D ''commit interest accrual transaction''
     (sbind (swrap ''lock interest transaction account''
        (lockAccountForTransaction (t_AccountID transaction))) (\<lambda>_.
      CreateInterestAccrualWithTransaction D (interestSource accrual transaction) accrual))"

text \<open>\<^verbatim>\<open>DELETE FROM interest_accruals WHERE ... RETURNING transaction_id\<close>, then the transactions, whose
  deletion cascades to accruals that still name them.\<close>

definition in_replaced_range :: "string \<Rightarrow> string \<Rightarrow> time \<Rightarrow> time \<Rightarrow> 'd InterestAccrual \<Rightarrow> bool" where
  "in_replaced_range accountID ruleID fromDate toDate a =
     (i_AccountID a = accountID \<and> i_RuleID a = ruleID \<and>
      \<not> Before (i_AccrualDate a) (dateOnly fromDate) \<and> \<not> After (i_AccrualDate a) (dateOnly toDate))"

definition deleteAccrualRange :: "string \<Rightarrow> string \<Rightarrow> time \<Rightarrow> time \<Rightarrow> ('d, string list) dbstm" where
  "deleteAccrualRange accountID ruleID fromDate toDate s =
     (let gone = in_replaced_range accountID ruleID fromDate toDate;
          transactionIDs = map i_TransactionID (filter gone (db_accruals s))
      in (Inr transactionIDs, s\<lparr>db_accruals := filter (\<lambda>a. \<not> gone a) (db_accruals s)\<rparr>))"

definition deleteInterestTransaction :: "string \<Rightarrow> ('d, unit) dbstm" where
  "deleteInterestTransaction transactionID =
     swrite (\<lambda>s.
       let gone = (\<lambda>t. t_ID t = transactionID \<and> t_Type t = TransactionTypeInterestIncome)
       in s\<lparr>db_transactions := filter (\<lambda>t. \<not> gone t) (db_transactions s),
            db_accruals := filter (\<lambda>a. \<not> list_ex (\<lambda>t. gone t \<and> t_ID t = i_TransactionID a) (db_transactions s))
              (db_accruals s)\<rparr>)"

definition replaceInterestAccrualRangeWithTransactions ::
  "'d decimal_ops \<Rightarrow> string \<Rightarrow> string \<Rightarrow> time \<Rightarrow> time \<Rightarrow> 'd Transaction list \<Rightarrow> 'd InterestAccrual list \<Rightarrow>
     ('d, int) dbstm" where
  "replaceInterestAccrualRangeWithTransactions D accountID ruleID fromDate toDate transactions accruals =
     sbind (deleteAccrualRange accountID ruleID fromDate toDate) (\<lambda>transactionIDs.
     sbind (sfor deleteInterestTransaction transactionIDs) (\<lambda>_.
     sbind (scheck (length transactions \<noteq> length accruals)
       (Errorf ''replace interest accruals: transactions and accruals length mismatch'')) (\<lambda>_.
     sbind (sfor (\<lambda>(t, a).
         sbind (swrap ''create recalculated interest transaction'' (insertTransaction D (interestSource a t))) (\<lambda>_.
         swrap ''create recalculated interest accrual'' (insertInterestAccrual D a)))
       (zip transactions accruals)) (\<lambda>_.
     sret (int (length transactionIDs))))))"

definition ReplaceRangeWithTransactions ::
  "'d decimal_ops \<Rightarrow> string \<Rightarrow> string \<Rightarrow> time \<Rightarrow> time \<Rightarrow> 'd Transaction list \<Rightarrow> 'd InterestAccrual list \<Rightarrow>
     ('d, int) dbstm" where
  "ReplaceRangeWithTransactions D accountID ruleID fromDate toDate transactions accruals =
     pg_tx D ''commit replace interest accruals''
     (sbind (swrap ''lock replace interest account'' (lockAccountForTransaction accountID)) (\<lambda>_.
      replaceInterestAccrualRangeWithTransactions D accountID ruleID fromDate toDate transactions accruals))"

definition ListInterestAccrualsByAccount :: "string \<Rightarrow> ('d, 'd InterestAccrual list) dbstm" where
  "ListInterestAccrualsByAccount accountID =
     sread (\<lambda>s. Inr (sort_key (\<lambda>a. t_ns (i_AccrualDate a))
       (filter (\<lambda>a. i_AccountID a = accountID) (db_accruals s))))"

text \<open>\<^verbatim>\<open>ORDER BY occurred_at, created_at\<close>; rows equal in both come in the order of the table.\<close>

definition ListTransactionsByAccountForUser :: "string \<Rightarrow> string \<Rightarrow> ('d, 'd Transaction list) dbstm" where
  "ListTransactionsByAccountForUser accountID userID =
     sread (\<lambda>s. Inr (sort_key (\<lambda>t. t_ns (t_OccurredAt t)) (sort_key (\<lambda>t. t_ns (t_CreatedAt t))
       (filter (\<lambda>t. t_AccountID t = accountID \<and> t_Status t \<in> {''confirmed'', ''reversed''} \<and> owned_by s userID t)
         (db_transactions s)))))"

definition WithAccountInterestLock ::
  "'d decimal_ops \<Rightarrow> string \<Rightarrow> string \<Rightarrow> ('d, 'a) dbstm \<Rightarrow> ('d, 'a) dbstm" where
  "WithAccountInterestLock D accountID userID fn =
     pg_tx D ''commit account interest transaction''
     (sbind (swrap ''lock account interest snapshot'' (lockAccountForUser accountID userID)) (\<lambda>_. fn))"

definition CategoryRepository_GetBySlug :: "string \<Rightarrow> ('d, Category) dbstm" where
  "CategoryRepository_GetBySlug slug =
     sread (\<lambda>s. ewrap ''get category''
       (case QueryRow (\<lambda>c. c_Slug c = slug) (db_categories s) of
          Inr c \<Rightarrow> Inr c | Inl e \<Rightarrow> Inl (mapNotFound (Wrapped ''scan category'' (mapNotFound e)))))"

section \<open>The lifecycle service\<close>

record AccrueAccountInterestRequest =
  la_AccountID :: string
  la_UserID :: string
  la_Currency :: string
  la_RuleID :: string
  la_AccrualDate :: time

record RecalculateAccountInterestRequest =
  lr_AccountID :: string
  lr_UserID :: string
  lr_Currency :: string
  lr_RuleID :: string
  lr_RuleDate :: time
  lr_FromDate :: time
  lr_ToDate :: time

definition validateInterestLifecycleAccount :: "string \<Rightarrow> string \<Rightarrow> err + unit" where
  "validateInterestLifecycleAccount accountID userID =
     echeck (TrimSpace accountID = '''') (validationError ''account id is required'')
     (echeck (TrimSpace userID = '''') (validationError ''user is required'') (Inr ()))"

definition interestTransactionMetadata :: "string \<Rightarrow> string \<Rightarrow> ('d, Account \<times> Category) dbstm" where
  "interestTransactionMetadata accountID userID =
     sbind (swrap ''get interest account'' (AccountRepository_GetByIDForUser accountID userID)) (\<lambda>account.
     sbind (swrap ''get deposit interest category'' (CategoryRepository_GetBySlug ''deposit_interest'')) (\<lambda>category.
     sret (account, category)))"

definition loadInterestSnapshot ::
  "string \<Rightarrow> string \<Rightarrow> ('d, 'd Transaction list \<times> 'd InterestAccrual list) dbstm" where
  "loadInterestSnapshot accountID userID =
     sbind (swrap ''list account transactions'' (ListTransactionsByAccountForUser accountID userID)) (\<lambda>transactions.
     sbind (swrap ''list account interest accruals'' (ListInterestAccrualsByAccount accountID)) (\<lambda>accruals.
     sret (transactions, accruals)))"

definition latestRule :: "InterestRule option \<Rightarrow> InterestRule \<Rightarrow> InterestRule option" where
  "latestRule selected rule =
     (case selected of
        None \<Rightarrow> Some rule
      | Some best \<Rightarrow> if After (dateOnly (r_StartDate rule)) (dateOnly (r_StartDate best)) then Some rule else selected)"

definition selectInterestRule :: "string \<Rightarrow> string \<Rightarrow> time \<Rightarrow> bool \<Rightarrow> ('d, InterestRule) dbstm" where
  "selectInterestRule accountID ruleID date requireActive =
     (let ruleID = TrimSpace ruleID
      in if ruleID \<noteq> ''''
         then sbind (swrap ''get interest rule'' (InterestRuleRepository_GetByID ruleID)) (\<lambda>rule.
              sbind (scheck (r_AccountID rule \<noteq> accountID) ErrNotFound) (\<lambda>_.
              sbind (scheck (requireActive \<and> (\<not> r_IsActive rule \<or> \<not> ruleActiveOn rule date))
                (validationError (''interest rule is not active on '' @ FormatDateOnly date))) (\<lambda>_.
              sret rule)))
         else sbind (swrap ''list account interest rules'' (InterestRuleRepository_ListByAccount accountID)) (\<lambda>rules.
              case foldl (\<lambda>selected rule.
                     if \<not> r_IsActive rule \<or> \<not> ruleActiveOn rule date then selected
                     else latestRule selected rule) None rules of
                None \<Rightarrow> sfail ErrNotFound
              | Some rule \<Rightarrow> sret rule))"

text \<open>The body under the lock, and the operations.\<close>

definition accrueLocked ::
  "'d decimal_ops \<Rightarrow> (string \<Rightarrow> bool) \<Rightarrow> ctx \<Rightarrow> string \<times> string \<Rightarrow> time \<Rightarrow> AccrueAccountInterestRequest \<Rightarrow>
     Account \<Rightarrow> Category \<Rightarrow> string \<Rightarrow> time \<Rightarrow> ('d, 'd AccrueRuleInterestResponse) dbstm" where
  "accrueLocked D uuidParse ctx ids now req account category currency accrualDate =
     sbind (selectInterestRule (la_AccountID req) (la_RuleID req) accrualDate True) (\<lambda>rule.
     sbind (loadInterestSnapshot (la_AccountID req) (la_UserID req)) (\<lambda>(transactions, accruals).
     let transactions = PrincipalTransactionsForRuleAt (transactionsUpToDate transactions accrualDate)
           accruals rule accrualDate
     in sbind (slift (ewrap ''calculate account balance''
          (Calculate D ctx (la_AccountID req) transactions))) (\<lambda>balance.
        sbind (slift (ewrap ''calculate account interest''
          (engine_Accrue D uuidParse ctx ids now (Some
            \<lparr>aq_Rule = rule, aq_AccountName = a_Name account, aq_CategoryID = c_ID category,
             aq_Currency = currency, aq_Balance = cb_Balance balance, aq_AccrualDate = accrualDate,
             aq_Transactions = transactions, aq_ExistingAccruals = accruals\<rparr>)))) (\<lambda>calculated.
        case (ap_Transaction calculated, ap_Accrual calculated) of
          (Some t, Some a) \<Rightarrow>
            if ap_Skipped calculated then sret calculated
            else sbind (swrap ''create account interest accrual''
                   (CreateInterestAccrualWithTransaction D t a)) (\<lambda>_. sret calculated)
        | _ \<Rightarrow> sret calculated))))"

definition skippedAccrual :: "'d AccrueRuleInterestResponse" where
  "skippedAccrual = \<lparr>ap_Transaction = None, ap_Accrual = None, ap_Skipped = True\<rparr>"

text \<open>A conflict counts as skipped.\<close>

definition conflictSkips :: "('d, 'd AccrueRuleInterestResponse) dbstm \<Rightarrow> ('d, 'd AccrueRuleInterestResponse) dbstm" where
  "conflictSkips m s =
     (case m s of
        (Inl e, s') \<Rightarrow>
          if errorsIs e ErrConflict then (Inr skippedAccrual, s')
          else (Inl (Wrapped ''accrue account interest'' e), s')
      | r \<Rightarrow> r)"

definition InterestLifecycle_Accrue ::
  "'d decimal_ops \<Rightarrow> (string \<Rightarrow> bool) \<Rightarrow> ctx \<Rightarrow> string \<times> string \<Rightarrow> time \<Rightarrow> AccrueAccountInterestRequest option \<Rightarrow>
     ('d, 'd AccrueRuleInterestResponse) dbstm" where
  "InterestLifecycle_Accrue D uuidParse ctx ids now r =
     (case r of
        None \<Rightarrow> sfail (validationError ''accrue account interest request is required'')
      | Some req \<Rightarrow>
          sbind (slift (validateInterestLifecycleAccount (la_AccountID req) (la_UserID req))) (\<lambda>_.
          sbind (interestTransactionMetadata (la_AccountID req) (la_UserID req)) (\<lambda>(account, category).
          let currency = (if TrimSpace (la_Currency req) = '''' then a_Currency account else la_Currency req);
              accrualDate = (let d = dateOnly (la_AccrualDate req) in if IsZero d then dateOnly now else d)
          in conflictSkips (WithAccountInterestLock D (la_AccountID req) (la_UserID req)
               (accrueLocked D uuidParse ctx ids now req account category currency accrualDate)))))"

definition recalculateLocked ::
  "'d decimal_ops \<Rightarrow> (string \<Rightarrow> bool) \<Rightarrow> ctx \<Rightarrow> (nat \<Rightarrow> string \<times> string) \<Rightarrow> time \<Rightarrow>
     RecalculateAccountInterestRequest \<Rightarrow> Account \<Rightarrow> Category \<Rightarrow> string \<Rightarrow> time \<Rightarrow>
     ('d, 'd RecalculateRuleInterestResponse) dbstm" where
  "recalculateLocked D uuidParse ctx ids now req account category currency ruleDate =
     sbind (selectInterestRule (lr_AccountID req) (lr_RuleID req) ruleDate False) (\<lambda>rule.
     sbind (loadInterestSnapshot (lr_AccountID req) (lr_UserID req)) (\<lambda>(transactions, accruals).
     sbind (slift (ewrap ''calculate account interest range''
       (engine_Recalculate D uuidParse ctx ids now (Some
         \<lparr>rq_Rule = rule, rq_AccountName = a_Name account, rq_CategoryID = c_ID category,
          rq_Currency = currency, rq_Transactions = transactions, rq_ExistingAccruals = accruals,
          rq_FromDate = lr_FromDate req, rq_ToDate = lr_ToDate req, rq_Today = ruleDate\<rparr>)))) (\<lambda>calculated.
     sbind (swrap ''replace account interest range''
       (replaceInterestAccrualRangeWithTransactions D (rp_AccountID calculated) (rp_RuleID calculated)
         (rp_FromDate calculated) (rp_ToDate calculated) (rp_Transactions calculated) (rp_Accruals calculated)))
       (\<lambda>deleted.
     sret (calculated\<lparr>rp_DeletedAccruals := deleted\<rparr>)))))"

definition InterestLifecycle_Recalculate ::
  "'d decimal_ops \<Rightarrow> (string \<Rightarrow> bool) \<Rightarrow> ctx \<Rightarrow> (nat \<Rightarrow> string \<times> string) \<Rightarrow> time \<Rightarrow>
     RecalculateAccountInterestRequest option \<Rightarrow> ('d, 'd RecalculateRuleInterestResponse) dbstm" where
  "InterestLifecycle_Recalculate D uuidParse ctx ids now r =
     (case r of
        None \<Rightarrow> sfail (validationError ''recalculate account interest request is required'')
      | Some req \<Rightarrow>
          sbind (slift (validateInterestLifecycleAccount (lr_AccountID req) (lr_UserID req))) (\<lambda>_.
          sbind (interestTransactionMetadata (lr_AccountID req) (lr_UserID req)) (\<lambda>(account, category).
          let currency = (if TrimSpace (lr_Currency req) = '''' then a_Currency account else lr_Currency req);
              ruleDate = (let d = dateOnly (lr_RuleDate req); e = dateOnly (lr_ToDate req)
                in if IsZero d then (if IsZero e then dateOnly now else e) else d)
          in swrap ''recalculate account interest''
               (WithAccountInterestLock D (lr_AccountID req) (lr_UserID req)
                 (recalculateLocked D uuidParse ctx ids now req account category currency ruleDate)))))"

section \<open>Contracts\<close>

lemma insertInterestAccrual_Inr_iff [tx_simps]:
  "insertInterestAccrual D accrual s = (Inr u, s') \<longleftrightarrow>
     accrual_checks D (accrualRow accrual) \<and>
     i_ID accrual \<notin> set (map i_ID (db_accruals s)) \<and>
     accrual_key (accrualRow accrual) \<notin> set (map accrual_key (db_accruals s)) \<and>
     i_TransactionID accrual \<notin> set (map i_TransactionID (db_accruals s)) \<and>
     i_AccountID accrual \<in> set (map a_ID (db_accounts s)) \<and>
     list_ex (\<lambda>r. r_ID r = i_RuleID accrual \<and> r_AccountID r = i_AccountID accrual) (db_rules s) \<and>
     list_ex (\<lambda>t. t_ID t = i_TransactionID accrual \<and> t_AccountID t = i_AccountID accrual) (db_transactions s) \<and>
     s' = s\<lparr>db_accruals := db_accruals s @ [accrualRow accrual]\<rparr>"
  by (auto simp: insertInterestAccrual_def Let_def tx_simps accrualRow_def)

lemma lockAccountForUser_Inr_iff [tx_simps]:
  "lockAccountForUser accountID userID s = (Inr u, s') \<longleftrightarrow>
     (\<exists>a. find (has_owner accountID userID) (db_accounts s) = Some a \<and> a_IsActive a) \<and> s' = s"
  by (auto simp: lockAccountForUser_def QueryRow_def split: option.splits)

lemma rows_ok_delete:
  "rows_ok D s \<Longrightarrow> rows_ok D (s\<lparr>db_transactions := filter P (db_transactions s), db_accruals := as\<rparr>)"
  by (auto simp: rows_ok_def list_all_iff intro: distinct_map_filter)

lemma keeps_deleteInterestTransaction [keeps_intros]: "keeps (rows_ok D) (deleteInterestTransaction tid)"
  unfolding deleteInterestTransaction_def Let_def by (rule keeps_swrite) (rule rows_ok_delete)

lemma keeps_accrual_parts [keeps_intros]:
  "keeps (rows_ok D) (insertInterestAccrual D a)" "keeps (rows_ok D) (deleteAccrualRange acc rid f t)"
  "keeps P (lockAccountForTransaction acc)" "keeps P (lockAccountForUser acc u)"
  "keeps P (CategoryRepository_GetBySlug slug)" "keeps P (ListInterestAccrualsByAccount acc)"
  "keeps P (ListTransactionsByAccountForUser acc u)"
proof -
  show "keeps (rows_ok D) (deleteAccrualRange acc rid f t)"
    by (rule keepsI) (auto simp: deleteAccrualRange_def Let_def rows_ok_def)
  show "keeps (rows_ok D) (insertInterestAccrual D a)"
    unfolding insertInterestAccrual_def by (intro keeps_intros keeps_swrite; simp add: rows_ok_def)
qed (unfold lockAccountForTransaction_def lockAccountForUser_def CategoryRepository_GetBySlug_def
    ListInterestAccrualsByAccount_def ListTransactionsByAccountForUser_def, (intro keeps_intros)+)

lemma keeps_accrual_writes [keeps_intros]:
  "keeps (rows_ok D) (CreateInterestAccrualWithTransaction D t a)"
  "keeps (rows_ok D) (replaceInterestAccrualRangeWithTransactions D acc rid f tt ts as)"
  unfolding CreateInterestAccrualWithTransaction_def replaceInterestAccrualRangeWithTransactions_def
  by (intro keeps_intros)+

lemma keeps_lifecycle_reads [keeps_intros]:
  "keeps P (interestTransactionMetadata acc u)" "keeps P (loadInterestSnapshot acc u)"
  "keeps P (selectInterestRule acc rid date b)"
  unfolding interestTransactionMetadata_def loadInterestSnapshot_def selectInterestRule_def
    AccountRepository_GetByIDForUser_def InterestRuleRepository_GetByID_def InterestRuleRepository_ListByAccount_def
  by (intro keeps_intros)+

lemma keeps_locked [keeps_intros]:
  "keeps (rows_ok D) (accrueLocked D uuidParse ctx ids now req account category currency date)"
  "keeps (rows_ok D) (recalculateLocked D uuidParse ctx ids' now req' account category currency date)"
  unfolding accrueLocked_def recalculateLocked_def by (intro keeps_intros)+

lemma WithAccountInterestLock_operation [operation_intros]:
  "keeps (rows_ok D) fn \<Longrightarrow> ledger_operation D (WithAccountInterestLock D acc u fn)"
  unfolding WithAccountInterestLock_def by (intro pg_tx_operation keeps_intros)

lemma conflictSkips_operation [operation_intros]:
  assumes "ledger_operation D m"
  shows "ledger_operation D (conflictSkips m)"
proof
  show "s' = s" if "conflictSkips m s = (Inl e, s')" for s e s'
    using that ledger_operation.atomic [OF assms, of s]
    by (auto simp: conflictSkips_def split: prod.splits sum.splits if_splits)
  show "keeps (ledger_ok D) (conflictSkips m)"
    using ledger_operation.keeps_ledger [OF assms]
    by (auto simp: keeps_def conflictSkips_def split: prod.splits sum.splits)
qed

interpretation accrual_create_with_transaction:
  ledger_operation D "InterestAccrualRepository_CreateWithTransaction D t a" for D t a
  unfolding InterestAccrualRepository_CreateWithTransaction_def by (intro pg_tx_operation keeps_intros)

interpretation accrual_replace_range:
  ledger_operation D "ReplaceRangeWithTransactions D acc rid f t ts as" for D acc rid f t ts as
  unfolding ReplaceRangeWithTransactions_def by (intro pg_tx_operation keeps_intros)

interpretation lifecycle_accrue: ledger_operation D "InterestLifecycle_Accrue D uuidParse ctx ids now r"
  for D uuidParse ctx ids now r
  unfolding InterestLifecycle_Accrue_def by (intro operation_intros keeps_intros)

interpretation lifecycle_recalculate: ledger_operation D "InterestLifecycle_Recalculate D uuidParse ctx ids now r"
  for D uuidParse ctx ids now r
  unfolding InterestLifecycle_Recalculate_def by (intro operation_intros keeps_intros)

text \<open>A transaction that changes nothing commits.\<close>

lemma deferred_ok_refl [simp]: "deferred_ok D s s"
  by (simp add: deferred_ok_def Let_def rows_changed_def)

text \<open>The triggers keep every accrual paired with an interest transaction.\<close>

definition interest_ok :: "'d db \<Rightarrow> bool" where
  "interest_ok s = list_all (interest_accrual_ok s) (db_accruals s)"

lemma deferred_ok_interest:
  assumes "deferred_ok D s s'" "interest_ok s"
  shows "interest_ok s'"
proof -
  have "interest_pair_ok t a" if a: "a \<in> set (db_accruals s')" and t: "t \<in> set (db_transactions s')" "t_ID t = i_TransactionID a" for a t
  proof (cases "a \<in> set (db_accruals s) \<and> t \<in> set (db_transactions s)")
    case True
    with assms(2) t(2) show ?thesis by (auto simp: interest_ok_def interest_accrual_ok_def list_all_iff)
  next
    case False
    with a t have "a \<in> set (rows_changed (db_accruals s) (db_accruals s')) \<or>
        t \<in> set (rows_changed (db_transactions s) (db_transactions s'))"
      by (auto simp: rows_changed_def)
    with assms(1) a t show ?thesis
      by (auto simp: deferred_ok_def Let_def list_all_iff interest_accrual_ok_def interest_transaction_ok_def)
  qed
  then show ?thesis by (auto simp: interest_ok_def interest_accrual_ok_def list_all_iff)
qed

lemma pg_tx_interest_ok: "interest_ok s \<Longrightarrow> interest_ok (snd (pg_tx D msg m s))"
  using deferred_ok_interest by (auto simp: pg_tx_def split: prod.splits sum.splits)

section \<open>An accrual is posted once\<close>

text \<open>Reads depend on the tables they read alone.\<close>

lemma selectInterestRule_read:
  assumes "selectInterestRule acc rid date b s = (Inr rule, t)" "db_rules s' = db_rules s"
  shows "selectInterestRule acc rid date b s' = (Inr rule, s')"
  using assms
  by (auto simp: selectInterestRule_def InterestRuleRepository_GetByID_def InterestRuleRepository_ListByAccount_def
      scanInterestRule_def notFound_def tx_simps Let_def sbind_def swrap_def scheck_def QueryRow_def
      split: if_splits option.splits)

lemma selectInterestRule_Inr:
  assumes "selectInterestRule acc rid date b s = (Inr rule, t)"
  shows "t = s" "rule \<in> set (db_rules s)" "r_AccountID rule = acc"
proof -
  let ?f = "\<lambda>selected rule. if \<not> r_IsActive rule \<or> \<not> ruleActiveOn rule date then selected else latestRule selected rule"
  have fold: "foldl ?f z rs = Some r \<Longrightarrow> z = Some r \<or> r \<in> set rs" for z rs r
    by (induction rs arbitrary: z) (auto simp: latestRule_def split: if_splits option.splits)
  show "t = s" "rule \<in> set (db_rules s)" "r_AccountID rule = acc"
    using assms fold [of None "order_rules (filter (\<lambda>r. r_AccountID r = acc) (db_rules s))" rule]
    by (auto simp: selectInterestRule_def InterestRuleRepository_GetByID_def InterestRuleRepository_ListByAccount_def
        tx_simps Let_def order_rules_def find_Some_iff split: if_splits option.splits)
qed

lemma ledger_ok_typed: "ledger_ok D s \<Longrightarrow> set ts \<subseteq> set (db_transactions s) \<Longrightarrow> typed a ts"
  by (auto simp: ledger_ok_def rows_ok_def list_all_iff typed_def dest!: transaction_checksD(1) subsetD)

text \<open>The engine skips a date that has an accrual.\<close>

lemma engine_Accrue_posted:
  assumes "engine_Accrue D uuidParse None ids now (Some req) = Inr resp" "\<not> ap_Skipped resp"
    "dateOnly (aq_AccrualDate req) = day_time d" "d \<noteq> 0"
  shows "\<exists>t a. ap_Transaction resp = Some t \<and> ap_Accrual resp = Some a \<and>
    i_AccountID a = r_AccountID (aq_Rule req) \<and> i_RuleID a = r_ID (aq_Rule req) \<and> i_AccrualDate a = day_time d \<and>
    validateRuleForAccrual (aq_Rule req) = Inr () \<and> ruleActiveOn (aq_Rule req) (day_time d) \<and>
    shouldPostAccrual (aq_Rule req) (day_time d)"
  using assms by (auto simp: engine_Accrue_def Let_def interestAccrual_def split: if_splits prod.splits)

lemma engine_Accrue_skips:
  assumes "validateRuleForAccrual (aq_Rule req) = Inr ()" "ruleActiveOn (aq_Rule req) (day_time d)"
    "shouldPostAccrual (aq_Rule req) (day_time d)" "dateOnly (aq_AccrualDate req) = day_time d" "d \<noteq> 0"
    "hasInterestAccrual (aq_ExistingAccruals req) (aq_Rule req) (day_time d)"
  shows "engine_Accrue D uuidParse None ids now (Some req) = Inr skippedAccrual"
  using assms by (simp add: engine_Accrue_def Let_def skippedAccrual_def)

text \<open>The body under the lock, with the rule chosen and the snapshot loaded.\<close>

definition snapshot_transactions :: "string \<Rightarrow> string \<Rightarrow> 'd db \<Rightarrow> 'd Transaction list" where
  "snapshot_transactions acc u s =
     sort_key (\<lambda>t. t_ns (t_OccurredAt t)) (sort_key (\<lambda>t. t_ns (t_CreatedAt t))
       (filter (\<lambda>t. t_AccountID t = acc \<and> t_Status t \<in> {''confirmed'', ''reversed''} \<and> owned_by s u t)
         (db_transactions s)))"

definition snapshot_accruals :: "string \<Rightarrow> 'd db \<Rightarrow> 'd InterestAccrual list" where
  "snapshot_accruals acc s =
     sort_key (\<lambda>a. t_ns (i_AccrualDate a)) (filter (\<lambda>a. i_AccountID a = acc) (db_accruals s))"

lemma loadInterestSnapshot_eq:
  "loadInterestSnapshot acc u s = (Inr (snapshot_transactions acc u s, snapshot_accruals acc s), s)"
  by (simp add: loadInterestSnapshot_def ListTransactionsByAccountForUser_def ListInterestAccrualsByAccount_def
      sbind_def swrap_def snapshot_transactions_def snapshot_accruals_def)

lemma snapshot_sets:
  "set (snapshot_transactions acc u s) \<subseteq> set (db_transactions s)"
  "set (snapshot_accruals acc s) = {a \<in> set (db_accruals s). i_AccountID a = acc}"
  by (auto simp: snapshot_transactions_def snapshot_accruals_def)

definition accrue_request ::
  "AccrueAccountInterestRequest \<Rightarrow> Account \<Rightarrow> Category \<Rightarrow> string \<Rightarrow> time \<Rightarrow> InterestRule \<Rightarrow> 'd \<Rightarrow> 'd db \<Rightarrow>
     'd AccrueRuleInterestRequest" where
  "accrue_request req account category currency accrualDate rule balance s =
     \<lparr>aq_Rule = rule, aq_AccountName = a_Name account, aq_CategoryID = c_ID category,
      aq_Currency = currency, aq_Balance = balance, aq_AccrualDate = accrualDate,
      aq_Transactions = PrincipalTransactionsForRuleAt
        (transactionsUpToDate (snapshot_transactions (la_AccountID req) (la_UserID req) s) accrualDate)
        (snapshot_accruals (la_AccountID req) s) rule accrualDate,
      aq_ExistingAccruals = snapshot_accruals (la_AccountID req) s\<rparr>"

lemma accrueLocked_eval:
  assumes "selectInterestRule (la_AccountID req) (la_RuleID req) date True s = (Inr rule, s)"
  shows "accrueLocked D uuidParse ctx ids now req account category currency date s =
    sbind (slift (ewrap ''calculate account balance'' (Calculate D ctx (la_AccountID req)
        (aq_Transactions (accrue_request req account category currency date rule undefined s))))) (\<lambda>balance.
     sbind (slift (ewrap ''calculate account interest'' (engine_Accrue D uuidParse ctx ids now
        (Some (accrue_request req account category currency date rule (cb_Balance balance) s))))) (\<lambda>calculated.
     case (ap_Transaction calculated, ap_Accrual calculated) of
       (Some t, Some a) \<Rightarrow>
         if ap_Skipped calculated then sret calculated
         else sbind (swrap ''create account interest accrual''
                (CreateInterestAccrualWithTransaction D t a)) (\<lambda>_. sret calculated)
     | _ \<Rightarrow> sret calculated)) s"
  by (simp add: accrueLocked_def sbind_def assms loadInterestSnapshot_eq accrue_request_def Let_def)

lemma accrueLocked_posted:
  assumes run: "accrueLocked D uuidParse None ids now req account category currency (day_time d) s = (Inr resp, s')"
    and new: "\<not> ap_Skipped resp" and d: "d \<noteq> 0"
  obtains rule t a where "selectInterestRule (la_AccountID req) (la_RuleID req) (day_time d) True s = (Inr rule, s)"
    "validateRuleForAccrual rule = Inr ()" "ruleActiveOn rule (day_time d)" "shouldPostAccrual rule (day_time d)"
    "ofRule rule a" "r_AccountID rule = la_AccountID req" "i_AccrualDate a = day_time d"
    "s' = s\<lparr>db_transactions := db_transactions s @ [normalizeTransaction t], db_accruals := db_accruals s @ [a]\<rparr>"
    "ap_Transaction resp = Some t" "ap_Accrual resp = Some a"
proof -
  from run obtain rule s1 where "selectInterestRule (la_AccountID req) (la_RuleID req) (day_time d) True s = (Inr rule, s1)"
    unfolding accrueLocked_def sbind_Inr_iff by blast
  with selectInterestRule_Inr [OF this]
  have sel: "selectInterestRule (la_AccountID req) (la_RuleID req) (day_time d) True s = (Inr rule, s)"
    and acc: "r_AccountID rule = la_AccountID req" by simp_all
  obtain bal where eng: "engine_Accrue D uuidParse None ids now
      (Some (accrue_request req account category currency (day_time d) rule bal s)) = Inr resp"
    and ins: "\<And>t a. ap_Transaction resp = Some t \<Longrightarrow> ap_Accrual resp = Some a \<Longrightarrow>
      \<exists>u. CreateInterestAccrualWithTransaction D t a s = (Inr u, s')"
  proof -
    from run [unfolded accrueLocked_eval [OF sel]] obtain b c where
      e: "engine_Accrue D uuidParse None ids now
        (Some (accrue_request req account category currency (day_time d) rule b s)) = Inr c"
      and tail: "(case (ap_Transaction c, ap_Accrual c) of
         (Some t, Some a) \<Rightarrow>
           if ap_Skipped c then sret c
           else sbind (swrap ''create account interest accrual''
                  (CreateInterestAccrualWithTransaction D t a)) (\<lambda>_. sret c)
       | _ \<Rightarrow> sret c) s = (Inr resp, s')"
      unfolding sbind_Inr_iff slift_simp by (auto simp only: Pair_inject ewrap_eq_Inr_iff intro!: that)
    from tail have "c = resp" by (auto simp: tx_simps split: option.splits if_splits)
    with e tail new show ?thesis by (intro that [of b]) (auto simp: tx_simps)
  qed
  have "dateOnly (aq_AccrualDate (accrue_request req account category currency (day_time d) rule bal s)) = day_time d"
    by (simp add: accrue_request_def)
  from engine_Accrue_posted [OF eng new this d] obtain t a where
    p: "ap_Transaction resp = Some t" "ap_Accrual resp = Some a" "i_AccountID a = r_AccountID rule"
      "i_RuleID a = r_ID rule" "i_AccrualDate a = day_time d" "validateRuleForAccrual rule = Inr ()"
      "ruleActiveOn rule (day_time d)" "shouldPostAccrual rule (day_time d)"
    by (auto simp: accrue_request_def)
  have "accrualRow a = a" using p(5) by (cases a) (simp add: accrualRow_def)
  with ins [OF p(1,2)] have "s' = s\<lparr>db_transactions := db_transactions s @ [normalizeTransaction t],
      db_accruals := db_accruals s @ [a]\<rparr>"
    by (auto simp: CreateInterestAccrualWithTransaction_def tx_simps)
  with sel p acc show ?thesis by (intro that) (auto simp: ofRule_def)
qed

context decimal_pkg
begin

lemma accrueLocked_again:
  assumes ok: "ledger_ok D s" and acc: "la_AccountID req \<noteq> []"
    and sel: "selectInterestRule (la_AccountID req) (la_RuleID req) (day_time d) True s = (Inr rule, s)"
    and rule: "validateRuleForAccrual rule = Inr ()" "ruleActiveOn rule (day_time d)" "shouldPostAccrual rule (day_time d)"
    and a: "a \<in> set (db_accruals s)" "ofRule rule a" "r_AccountID rule = la_AccountID req" "i_AccrualDate a = day_time d"
    and d: "d \<noteq> 0"
  shows "accrueLocked D uuidParse None ids now req account category currency (day_time d) s = (Inr skippedAccrual, s)"
proof -
  let ?q = "\<lambda>bal. accrue_request req account category currency (day_time d) rule bal s"
  have "set (aq_Transactions (?q undefined)) \<subseteq> set (db_transactions s)"
    using snapshot_sets(1)
    by (fastforce simp: accrue_request_def PrincipalTransactionsForRuleAt_def Let_def transactionsUpToDate_def)
  then have "typed (la_AccountID req) (aq_Transactions (?q undefined))" by (rule ledger_ok_typed [OF ok])
  then obtain bal where bal: "Calculate D None (la_AccountID req) (aq_Transactions (?q undefined)) = Inr bal"
    using Calculate_ledger [OF acc] unfolding typed_def by blast
  have "a \<in> set (snapshot_accruals (la_AccountID req) s)"
    using a by (simp add: snapshot_sets(2) ofRule_def)
  then have "hasInterestAccrual (snapshot_accruals (la_AccountID req) s) rule (day_time d)"
    using a by (auto simp: hasInterestAccrual_def list_ex_iff)
  then have "engine_Accrue D uuidParse None ids now (Some (?q (cb_Balance bal))) = Inr skippedAccrual"
    using rule d by (intro engine_Accrue_skips) (simp_all add: accrue_request_def)
  with bal show ?thesis unfolding accrueLocked_eval [OF sel] by (simp add: sbind_def skippedAccrual_def)
qed

end

lemma conflictSkips_posted:
  "conflictSkips m s = (Inr resp, s') \<Longrightarrow> \<not> ap_Skipped resp \<Longrightarrow> m s = (Inr resp, s')"
  by (auto simp: conflictSkips_def skippedAccrual_def split: prod.splits sum.splits if_splits)

lemma interestTransactionMetadata_Inr_iff [tx_simps]:
  "interestTransactionMetadata acc u s = (Inr (account, category), s') \<longleftrightarrow>
     find (has_owner acc u) (db_accounts s) = Some account \<and>
     find (\<lambda>c. c_Slug c = ''deposit_interest'') (db_categories s) = Some category \<and> s' = s"
  by (auto simp: interestTransactionMetadata_def AccountRepository_GetByIDForUser_def CategoryRepository_GetBySlug_def
      tx_simps QueryRow_def has_owner_def split: option.splits)

section \<open>A recalculation replaces its range\<close>

lemma delete_transactions:
  "sfor deleteInterestTransaction ids s = (Inr (), s\<lparr>
     db_transactions := filter (\<lambda>t. \<not> (t_ID t \<in> set ids \<and> t_Type t = TransactionTypeInterestIncome)) (db_transactions s),
     db_accruals := filter (\<lambda>a. \<not> list_ex (\<lambda>t. t_ID t \<in> set ids \<and> t_Type t = TransactionTypeInterestIncome \<and>
       t_ID t = i_TransactionID a) (db_transactions s)) (db_accruals s)\<rparr>)"
proof (induction ids arbitrary: s)
  case Nil
  then show ?case by (simp add: list_ex_iff)
next
  case (Cons i ids)
  let ?s1 = "s\<lparr>db_transactions := filter (\<lambda>t. \<not> (t_ID t = i \<and> t_Type t = TransactionTypeInterestIncome)) (db_transactions s),
      db_accruals := filter (\<lambda>a. \<not> list_ex (\<lambda>t. (t_ID t = i \<and> t_Type t = TransactionTypeInterestIncome) \<and>
        t_ID t = i_TransactionID a) (db_transactions s)) (db_accruals s)\<rparr>"
  have "deleteInterestTransaction i s = (Inr (), ?s1)"
    by (simp only: deleteInterestTransaction_def Let_def swrite_simp)
  then have "sfor deleteInterestTransaction (i # ids) s = sfor deleteInterestTransaction ids ?s1"
    by (simp only: sfor.simps sbind_eval(1))
  then show ?case unfolding Cons.IH
    by (simp add: list_ex_iff) (rule db.equality; simp; intro filter_cong refl; fastforce)
qed

lemma insert_postings:
  assumes "sfor (\<lambda>(t, a).
      sbind (swrap m (insertTransaction D (interestSource a t))) (\<lambda>_. swrap m' (insertInterestAccrual D a))) ps s = (Inr u, s')"
  shows "s' = s\<lparr>db_transactions := db_transactions s @ map (\<lambda>(t, a). normalizeTransaction (interestSource a t)) ps,
    db_accruals := db_accruals s @ map (\<lambda>(t, a). accrualRow a) ps\<rparr>"
  using assms
proof (induction ps arbitrary: s)
  case Nil
  then show ?case by simp
next
  case (Cons p ps)
  obtain t a where p: "p = (t, a)" by (cases p)
  from Cons.prems obtain s1 where
    "s1 = s\<lparr>db_transactions := db_transactions s @ [normalizeTransaction (interestSource a t)],
       db_accruals := db_accruals s @ [accrualRow a]\<rparr>"
    and "sfor (\<lambda>(t, a). sbind (swrap m (insertTransaction D (interestSource a t))) (\<lambda>_.
       swrap m' (insertInterestAccrual D a))) ps s1 = (Inr u, s')"
    by (auto simp: p tx_simps)
  with Cons.IH [of s1] show ?case by (simp add: p)
qed

lemma replace_range_effect:
  assumes run: "replaceInterestAccrualRangeWithTransactions D acc rid f t ts as s = (Inr n, s')"
    and dist: "distinct (map i_TransactionID (db_accruals s))"
  defines "gone \<equiv> in_replaced_range acc rid f t"
  shows "length ts = length as \<and> n = int (length (filter gone (db_accruals s))) \<and>
    s' = s\<lparr>db_transactions :=
        filter (\<lambda>t. \<not> (t_ID t \<in> set (map i_TransactionID (filter gone (db_accruals s))) \<and>
          t_Type t = TransactionTypeInterestIncome)) (db_transactions s) @
        map (\<lambda>(t, a). normalizeTransaction (interestSource a t)) (zip ts as),
      db_accruals := filter (\<lambda>a. \<not> gone a) (db_accruals s) @ map accrualRow as\<rparr>"
proof -
  let ?ids = "map i_TransactionID (filter gone (db_accruals s))"
  let ?s1 = "s\<lparr>db_accruals := filter (\<lambda>a. \<not> gone a) (db_accruals s)\<rparr>"
  have other: "i_TransactionID a \<noteq> i_TransactionID b"
    if "a \<in> set (db_accruals s)" "\<not> gone a" "b \<in> set (db_accruals s)" "gone b" for a b
    using that dist by (auto simp: distinct_map dest: inj_onD)
  have acc: "filter (\<lambda>a. \<not> list_ex (\<lambda>t. t_ID t \<in> set ?ids \<and> t_Type t = TransactionTypeInterestIncome \<and>
      t_ID t = i_TransactionID a) (db_transactions s)) (filter (\<lambda>a. \<not> gone a) (db_accruals s)) =
      filter (\<lambda>a. \<not> gone a) (db_accruals s)"
    unfolding filter_filter by (rule filter_cong [OF refl]) (use other in \<open>auto simp: list_ex_iff\<close>)
  have del: "deleteAccrualRange acc rid f t s = (Inr ?ids, ?s1)"
    by (simp add: deleteAccrualRange_def Let_def gone_def)
  from run have len: "length ts = length as" and n: "n = int (length ?ids)"
    and ins: "\<exists>u. sfor (\<lambda>(t, a). sbind (swrap ''create recalculated interest transaction''
        (insertTransaction D (interestSource a t))) (\<lambda>_. swrap ''create recalculated interest accrual''
        (insertInterestAccrual D a))) (zip ts as)
      (s\<lparr>db_transactions := filter (\<lambda>t. \<not> (t_ID t \<in> set ?ids \<and> t_Type t = TransactionTypeInterestIncome)) (db_transactions s),
         db_accruals := filter (\<lambda>a. \<not> gone a) (db_accruals s)\<rparr>) = (Inr u, s')"
    unfolding replaceInterestAccrualRangeWithTransactions_def
    by (auto simp: tx_simps del delete_transactions acc [simplified])
  have "map (\<lambda>(t, a). accrualRow a) (zip ts as) = map accrualRow as"
    using len by (induction ts as rule: list_induct2) simp_all
  with ins insert_postings len n show ?thesis by fastforce
qed

lemma posting_stored:
  assumes "posting_ok D rule t a"
  shows "normalizeTransaction (interestSource a t) = t" "accrualRow a = a"
proof -
  have "t_SourceMetadata t \<noteq> ''''" "t_SourceType t \<noteq> ''''" "t_SourceType t = TransactionSourceDepositInterest"
    "t_SourceRefID t = Some (i_ID a)" "t_Status t \<noteq> ''''"
    using assms transaction_checksD(4) [of D t]
    by (auto simp: posting_ok_def interest_pair_ok_def json_object_def)
  then show "normalizeTransaction (interestSource a t) = t"
    by (cases t) (simp add: normalizeTransaction_def interestSource_def)
  have "dateOnly (i_AccrualDate a) = i_AccrualDate a" using assms by (metis dateOnly_day posting_ok_def)
  then show "accrualRow a = a" by (cases a) (simp add: accrualRow_def)
qed

lemma postings_stored:
  assumes "list_all2 (posting_ok D rule) ts as"
  shows "map (\<lambda>(t, a). normalizeTransaction (interestSource a t)) (zip ts as) = ts" "map accrualRow as = as"
  using assms by (induction rule: list_all2_induct) (simp_all add: posting_stored)

lemma postings_ledger:
  assumes "list_all2 (posting_ok D rule) ts as"
  shows "ledger val x ts = (if x = r_AccountID rule then sum_list (map (\<lambda>a. val (i_Amount a)) as) else 0)"
  using assms
proof (induction rule: list_all2_induct)
  case Nil
  then show ?case by simp
next
  case (Cons t ts a as)
  from Cons(1) have "counts x t \<longleftrightarrow> x = r_AccountID rule" "signed val t = val (i_Amount a)"
    by (auto simp: posting_ok_def counts_def AffectsBalance_def signed_def interest_pair_ok_def)
  with Cons(3) show ?case by (simp add: ledger_Cons)
qed

lemma recalculateLocked_inv:
  assumes "recalculateLocked D uuidParse ctx ids now req account category currency date s = (Inr resp, s')"
  obtains rule calc n where "rule \<in> set (db_rules s)" "r_AccountID rule = lr_AccountID req"
    "engine_Recalculate D uuidParse ctx ids now (Some
       \<lparr>rq_Rule = rule, rq_AccountName = a_Name account, rq_CategoryID = c_ID category, rq_Currency = currency,
        rq_Transactions = snapshot_transactions (lr_AccountID req) (lr_UserID req) s,
        rq_ExistingAccruals = snapshot_accruals (lr_AccountID req) s,
        rq_FromDate = lr_FromDate req, rq_ToDate = lr_ToDate req, rq_Today = date\<rparr>) = Inr calc"
    "replaceInterestAccrualRangeWithTransactions D (rp_AccountID calc) (rp_RuleID calc) (rp_FromDate calc)
       (rp_ToDate calc) (rp_Transactions calc) (rp_Accruals calc) s = (Inr n, s')"
    "resp = calc\<lparr>rp_DeletedAccruals := n\<rparr>"
proof -
  from assms obtain rule s1 where r: "selectInterestRule (lr_AccountID req) (lr_RuleID req) date False s = (Inr rule, s1)"
    unfolding recalculateLocked_def sbind_Inr_iff by blast
  from selectInterestRule_Inr [OF this] have "s1 = s" and mem: "rule \<in> set (db_rules s)" "r_AccountID rule = lr_AccountID req"
    by simp_all
  from assms show ?thesis
    unfolding recalculateLocked_def
    by (simp add: tx_simps r \<open>s1 = s\<close> loadInterestSnapshot_eq, elim exE conjE) (rule that [OF mem]; (assumption | erule sym))
qed

lemma recalculateLocked_eval:
  assumes "fst (selectInterestRule (lr_AccountID req) (lr_RuleID req) ruleDate False s) = Inr rule"
    "engine_Recalculate D uuidParse ctx ids now (Some
       \<lparr>rq_Rule = rule, rq_AccountName = a_Name account, rq_CategoryID = c_ID category, rq_Currency = currency,
        rq_Transactions = snapshot_transactions (lr_AccountID req) (lr_UserID req) s,
        rq_ExistingAccruals = snapshot_accruals (lr_AccountID req) s,
        rq_FromDate = lr_FromDate req, rq_ToDate = lr_ToDate req, rq_Today = ruleDate\<rparr>) = Inr calc"
    "replaceInterestAccrualRangeWithTransactions D (rp_AccountID calc) (rp_RuleID calc) (rp_FromDate calc) (rp_ToDate calc)
       (rp_Transactions calc) (rp_Accruals calc) s = (Inr n, s')"
  shows "recalculateLocked D uuidParse ctx ids now req account category currency ruleDate s =
    (Inr (calc\<lparr>rp_DeletedAccruals := n\<rparr>), s')"
proof -
  have "selectInterestRule (lr_AccountID req) (lr_RuleID req) ruleDate False s = (Inr rule, s)"
    using assms(1) selectInterestRule_Inr(1) by (metis prod.collapse)
  with assms show ?thesis
    by (simp add: recalculateLocked_def sbind_def loadInterestSnapshot_eq swrap_eval(1))
qed

lemma InterestLifecycle_Recalculate_eval:
  assumes "validateInterestLifecycleAccount (lr_AccountID req) (lr_UserID req) = Inr ()"
    "find (has_owner (lr_AccountID req) (lr_UserID req)) (db_accounts s) = Some account" "a_IsActive account"
    "find (\<lambda>c. c_Slug c = ''deposit_interest'') (db_categories s) = Some category"
    "TrimSpace (lr_Currency req) \<noteq> ''''" "IsZero (dateOnly (lr_RuleDate req))" "\<not> IsZero (dateOnly (lr_ToDate req))"
    "recalculateLocked D uuidParse ctx ids now req account category (lr_Currency req) (dateOnly (lr_ToDate req)) s =
       (Inr resp, s')" "deferred_ok D s s'"
  shows "InterestLifecycle_Recalculate D uuidParse ctx ids now (Some req) s = (Inr resp, s')"
  using assms by (simp add: InterestLifecycle_Recalculate_def WithAccountInterestLock_def tx_simps Let_def)

section \<open>Properties\<close>

text \<open>C14. Interest for a date is posted at most once: after an accrual has been posted, which adds one
  transaction and one accrual and nothing else, the same request (a repeated job, a second
  client) is skipped and changes nothing.\<close>

theorem accrual_posted_once:
  assumes "decimal_pkg D val" "ledger_ok D s" "dateOnly (la_AccrualDate req) = day_time d" "d \<noteq> 0"
    "InterestLifecycle_Accrue D uuidParse None ids now (Some req) s = (Inr resp, s')" "\<not> ap_Skipped resp"
  shows "(\<exists>t a. ap_Transaction resp = Some t \<and> ap_Accrual resp = Some a \<and>
      s' = s\<lparr>db_transactions := db_transactions s @ [normalizeTransaction t], db_accruals := db_accruals s @ [a]\<rparr>) \<and>
    InterestLifecycle_Accrue D uuidParse None ids' now' (Some req) s' = (Inr skippedAccrual, s')"
proof -
  let ?cur = "\<lambda>account. if TrimSpace (la_Currency req) = '''' then a_Currency account else la_Currency req"
  have z: "\<not> IsZero (day_time d)" using assms(4) by simp
  from assms(3,5) z obtain account category where v: "validateInterestLifecycleAccount (la_AccountID req) (la_UserID req) = Inr ()"
    and acc: "find (has_owner (la_AccountID req) (la_UserID req)) (db_accounts s) = Some account"
    and cat: "find (\<lambda>c. c_Slug c = ''deposit_interest'') (db_categories s) = Some category"
    and run: "conflictSkips (WithAccountInterestLock D (la_AccountID req) (la_UserID req)
      (accrueLocked D uuidParse None ids now req account category (?cur account) (day_time d))) s = (Inr resp, s')"
    by (auto simp: InterestLifecycle_Accrue_def tx_simps Let_def)
  have "ledger_ok D s'" using lifecycle_accrue.ledger_ok_step [OF assms(2)] assms(5) by (metis snd_conv)
  from conflictSkips_posted [OF run assms(6)] have active: "a_IsActive account"
    and locked: "accrueLocked D uuidParse None ids now req account category (?cur account) (day_time d) s = (Inr resp, s')"
    using acc by (auto simp: WithAccountInterestLock_def tx_simps)
  show ?thesis
  proof (rule accrueLocked_posted [OF locked assms(6,4)])
    fix rule t a
    assume sel: "selectInterestRule (la_AccountID req) (la_RuleID req) (day_time d) True s = (Inr rule, s)"
      and rule: "validateRuleForAccrual rule = Inr ()" "ruleActiveOn rule (day_time d)" "shouldPostAccrual rule (day_time d)"
      and a: "ofRule rule a" "r_AccountID rule = la_AccountID req" "i_AccrualDate a = day_time d"
      and s': "s' = s\<lparr>db_transactions := db_transactions s @ [normalizeTransaction t], db_accruals := db_accruals s @ [a]\<rparr>"
      and resp: "ap_Transaction resp = Some t" "ap_Accrual resp = Some a"
    have "la_AccountID req \<noteq> []" using v by (auto simp: validateInterestLifecycleAccount_def)
    moreover have "selectInterestRule (la_AccountID req) (la_RuleID req) (day_time d) True s' = (Inr rule, s')"
      by (rule selectInterestRule_read [OF sel]) (simp add: s')
    moreover have "a \<in> set (db_accruals s')" by (simp add: s')
    ultimately have again: "accrueLocked D uuidParse None ids' now' req account category (?cur account) (day_time d) s' =
        (Inr skippedAccrual, s')"
      using decimal_pkg.accrueLocked_again [OF assms(1) \<open>ledger_ok D s'\<close>] rule a assms(4) by blast
    have same: "db_accounts s' = db_accounts s" "db_categories s' = db_categories s" by (simp_all add: s')
    have lock: "WithAccountInterestLock D (la_AccountID req) (la_UserID req)
        (accrueLocked D uuidParse None ids' now' req account category (?cur account) (day_time d)) s' = (Inr skippedAccrual, s')"
      using again acc active same by (auto simp: WithAccountInterestLock_def tx_simps)
    have "interestTransactionMetadata (la_AccountID req) (la_UserID req) s' = (Inr (account, category), s')"
      using acc cat same by (simp add: interestTransactionMetadata_Inr_iff)
    then have "InterestLifecycle_Accrue D uuidParse None ids' now' (Some req) s' = (Inr skippedAccrual, s')"
      using v z assms(3) lock by (simp add: InterestLifecycle_Accrue_def sbind_def Let_def conflictSkips_def)
    with s' resp show ?thesis by blast
  qed
qed

definition interest_db :: "string \<Rightarrow> dec db" where
  "interest_db accrual = sample_db\<lparr>db_rules := [sample_rule accrual ''none''],
     db_categories := [\<lparr>c_ID = ''c1'', c_Slug = ''deposit_interest'', c_Name = ''Interest'',
       c_CreatedAt = day_time 737000, c_UpdatedAt = day_time 737000\<rparr>]\<rparr>"

definition sample_accrue_account :: AccrueAccountInterestRequest where
  "sample_accrue_account =
     \<lparr>la_AccountID = ''A'', la_UserID = ''U'', la_Currency = '''', la_RuleID = '''', la_AccrualDate = day_time 738002\<rparr>"

theorem accrual_posted_once_witness:
  "\<exists>resp s. InterestLifecycle_Accrue dec_ops (\<lambda>_. True) None (''t2'', ''i2'') (day_time 738010)
      (Some sample_accrue_account) (interest_db ''end_of_term'') = (Inr resp, s) \<and>
    InterestLifecycle_Accrue dec_ops (\<lambda>_. True) None (''t3'', ''i3'') (day_time 738011)
      (Some sample_accrue_account) s = (Inr skippedAccrual, s)"
proof -
  let ?run = "InterestLifecycle_Accrue dec_ops (\<lambda>_. True) None (''t2'', ''i2'') (day_time 738010)
      (Some sample_accrue_account) (interest_db ''end_of_term'')"
  have "case fst ?run of Inl _ \<Rightarrow> False | Inr r \<Rightarrow> \<not> ap_Skipped r" by code_simp
  then obtain resp s where run: "?run = (Inr resp, s)" "\<not> ap_Skipped resp"
    by (cases ?run) (auto split: sum.splits)
  have "ledger_ok dec_ops (interest_db ''end_of_term'')" "dateOnly (la_AccrualDate sample_accrue_account) = day_time 738002"
    "(738002::int) \<noteq> 0" by code_simp+
  from accrual_posted_once [OF decimal_pkg_dec this run, of "(''t3'', ''i3'')" "day_time 738011"] run(1)
  show ?thesis by blast
qed

text \<open>C15. A recalculation replaces exactly its range: the accruals of the rule in the requested dates
  are deleted with their transactions and replaced by the new ones, which lie in the same
  dates; every other accrual, transaction, account and rule stays, and the balance of the
  account gains the new total over what was kept.\<close>

theorem recalculation_replaces_range:
  assumes "decimal_pkg D val" "ledger_ok D s" "rules_ok (db_rules s)" "distinct (map i_TransactionID (db_accruals s))"
    "TrimSpace (lr_AccountID req) = lr_AccountID req"
    "InterestLifecycle_Recalculate D uuidParse None ids now (Some req) s = (Inr resp, s')"
    "0 < date_day (rp_FromDate resp)"
    "gone = in_replaced_range (lr_AccountID req) (rp_RuleID resp) (rp_FromDate resp) (rp_ToDate resp)"
    "kept = filter (\<lambda>t. \<not> (t_ID t \<in> set (map i_TransactionID (filter gone (db_accruals s))) \<and>
       t_Type t = TransactionTypeInterestIncome)) (db_transactions s)"
  shows "db_accruals s' = filter (\<lambda>a. \<not> gone a) (db_accruals s) @ rp_Accruals resp \<and>
    list_all gone (rp_Accruals resp) \<and> db_transactions s' = kept @ rp_Transactions resp \<and>
    rp_DeletedAccruals resp = int (length (filter gone (db_accruals s))) \<and>
    db_accounts s' = db_accounts s \<and> db_rules s' = db_rules s \<and> db_transfers s' = db_transfers s \<and>
    (\<forall>x. ledger val x (db_transactions s') =
       ledger val x kept + (if x = lr_AccountID req then val (rp_TotalAmount resp) else 0)) \<and>
    ledger_ok D s'"
proof -
  from assms(6) obtain account category currency date where
    "recalculateLocked D uuidParse None ids now req account category currency date s = (Inr resp, s')"
    by (auto simp: InterestLifecycle_Recalculate_def WithAccountInterestLock_def tx_simps Let_def)
  then show ?thesis
  proof (rule recalculateLocked_inv)
    fix rule calc n
    let ?q = "\<lparr>rq_Rule = rule, rq_AccountName = a_Name account, rq_CategoryID = c_ID category, rq_Currency = currency,
        rq_Transactions = snapshot_transactions (lr_AccountID req) (lr_UserID req) s,
        rq_ExistingAccruals = snapshot_accruals (lr_AccountID req) s,
        rq_FromDate = lr_FromDate req, rq_ToDate = lr_ToDate req, rq_Today = date\<rparr>"
    assume rule: "rule \<in> set (db_rules s)" "r_AccountID rule = lr_AccountID req"
      and eng: "engine_Recalculate D uuidParse None ids now (Some ?q) = Inr calc"
      and rep: "replaceInterestAccrualRangeWithTransactions D (rp_AccountID calc) (rp_RuleID calc) (rp_FromDate calc)
        (rp_ToDate calc) (rp_Transactions calc) (rp_Accruals calc) s = (Inr n, s')"
      and resp: "resp = calc\<lparr>rp_DeletedAccruals := n\<rparr>"
    note h = engine_Recalculate_frame [OF eng]
    have "rule_checks rule" using assms(3) rule(1) by (auto simp: rules_ok_def)
    then have rec: "recalculable (rq_Rule ?q)"
      using h(4) rule(2) assms(5) by (auto simp: recalculable_def rule_checks_def split: option.splits)
    have ty: "typed (r_AccountID (rq_Rule ?q)) (rq_Transactions ?q)"
      using ledger_ok_typed [OF assms(2) snapshot_sets(1)] by simp
    have rg: "recalcRange now ?q = (day_time (date_day (rp_FromDate calc)), day_time (date_day (rp_ToDate calc)))"
      using recalcRange_days [of now ?q] h(3) by simp
    then have days: "rp_FromDate calc = day_time (date_day (rp_FromDate calc))" "rp_ToDate calc = day_time (date_day (rp_ToDate calc))"
      using h(3) by simp_all
    have pos: "0 < date_day (rp_FromDate calc)" using assms(7) resp by simp
    note posts = decimal_pkg.Recalculate_posts [OF assms(1) rec ty rg pos eng]
    have ok: "response_ok D val ids rule calc" using posts(1) by simp
    have all2: "list_all2 (posting_ok D rule) (rp_Transactions calc) (rp_Accruals calc)"
      using ok by (simp add: response_ok_def)
    have gone: "gone = in_replaced_range (rp_AccountID calc) (rp_RuleID calc) (rp_FromDate calc) (rp_ToDate calc)"
      using assms(8) h(1,2) rule(2) resp by simp
    have in_range: "list_all gone (rp_Accruals calc)"
    proof -
      have "gone a" if a: "a \<in> set (rp_Accruals calc)" for a
      proof -
        have "i_AccountID a = r_AccountID rule \<and> i_RuleID a = r_ID rule"
          using all2 a by (auto simp: list_all2_conv_all_nth in_set_conv_nth posting_ok_def)
        moreover have "\<not> Before (i_AccrualDate a) (rp_FromDate calc)" "\<not> After (i_AccrualDate a) (rp_ToDate calc)"
          using posts(3) [OF a] days by (metis day_time_cmp(1,2) not_less)+
        ultimately show ?thesis
          using days h(1,2) by (simp add: gone in_replaced_range_def) (metis dateOnly_day)
      qed
      then show ?thesis by (simp add: list_all_iff)
    qed
    from replace_range_effect [OF rep assms(4)] have eff: "n = int (length (filter gone (db_accruals s)))"
      "s' = s\<lparr>db_transactions := kept @ rp_Transactions calc,
         db_accruals := filter (\<lambda>a. \<not> gone a) (db_accruals s) @ rp_Accruals calc\<rparr>"
      using postings_stored [OF all2] unfolding gone assms(9) by simp_all
    have tot: "val (rp_TotalAmount calc) = sum_list (map (\<lambda>a. val (i_Amount a)) (rp_Accruals calc))"
      using ok by (simp add: response_ok_def)
    have "ledger_ok D s'" using lifecycle_recalculate.ledger_ok_step [OF assms(2)] assms(6) by (metis snd_conv)
    with eff in_range tot postings_ledger [OF all2] rule(2) resp show ?thesis by simp
  qed
qed

definition sample_recalculate_account :: RecalculateAccountInterestRequest where
  "sample_recalculate_account =
     \<lparr>lr_AccountID = ''A'', lr_UserID = ''U'', lr_Currency = ''RUB'', lr_RuleID = ''r1'', lr_RuleDate = zero_time,
      lr_FromDate = day_time 738001, lr_ToDate = day_time 738001\<rparr>"

definition fresh_ids :: "nat \<Rightarrow> string \<times> string" where
  "fresh_ids k = (if k = 0 then (''t2'', ''i2'') else (''t3'', ''i3''))"

text \<open>A deposit that has changed from daily to end-of-term accrual: the posting of a day is withdrawn.\<close>

definition stale_interest_db :: "dec db" where
  "stale_interest_db = (interest_db ''end_of_term'')\<lparr>
     db_transactions := [sample_transaction ''t1'' ''A'' ''income'' (Dec 100000 2),
       (sample_transaction ''t2'' ''A'' ''interest_income'' (Dec 100 2))\<lparr>t_SourceType := ''deposit_interest'',
          t_SourceRefID := Some ''i2''\<rparr>],
     db_accruals := [\<lparr>i_ID = ''i2'', i_AccountID = ''A'', i_RuleID = ''r1'', i_TransactionID = ''t2'',
       i_AccrualDate = day_time 738001, i_Amount = Dec 100 2, i_Balance = Dec 100000 2, i_AnnualRateBps = 3650,
       i_CreatedAt = day_time 738001\<rparr>]\<rparr>"

theorem recalculation_replaces_range_witness:
  "\<exists>resp s. InterestLifecycle_Recalculate dec_ops (\<lambda>_. True) None fresh_ids (day_time 738010)
      (Some sample_recalculate_account) stale_interest_db = (Inr resp, s) \<and>
    db_accruals s = rp_Accruals resp \<and> rp_DeletedAccruals resp = 1 \<and> ledger_ok dec_ops s"
proof -
  let ?s = "stale_interest_db" and ?req = sample_recalculate_account
  let ?account = "sample_account ''A'' ''U'' ''RUB''" and ?category = "hd (db_categories ?s)"
  let ?q = "\<lparr>rq_Rule = sample_rule ''end_of_term'' ''none'', rq_AccountName = a_Name ?account, rq_CategoryID = c_ID ?category,
      rq_Currency = ''RUB'', rq_Transactions = snapshot_transactions ''A'' ''U'' ?s,
      rq_ExistingAccruals = snapshot_accruals ''A'' ?s, rq_FromDate = day_time 738001, rq_ToDate = day_time 738001,
      rq_Today = day_time 738001\<rparr>"
  have "case engine_Recalculate dec_ops (\<lambda>_. True) None fresh_ids (day_time 738010) (Some ?q) of Inl _ \<Rightarrow> False
    | Inr calc \<Rightarrow> 0 < date_day (rp_FromDate calc) \<and>
       (case replaceInterestAccrualRangeWithTransactions dec_ops (rp_AccountID calc) (rp_RuleID calc) (rp_FromDate calc)
          (rp_ToDate calc) (rp_Transactions calc) (rp_Accruals calc) ?s of (r, t) \<Rightarrow> r = Inr 1 \<and> deferred_ok dec_ops ?s t)"
    by code_simp
  then obtain calc s where run: "engine_Recalculate dec_ops (\<lambda>_. True) None fresh_ids (day_time 738010) (Some ?q) = Inr calc"
    "replaceInterestAccrualRangeWithTransactions dec_ops (rp_AccountID calc) (rp_RuleID calc) (rp_FromDate calc)
       (rp_ToDate calc) (rp_Transactions calc) (rp_Accruals calc) ?s = (Inr 1, s)"
    "deferred_ok dec_ops ?s s" "0 < date_day (rp_FromDate calc)"
    by (auto split: sum.splits prod.splits)
  have sel: "fst (selectInterestRule (lr_AccountID ?req) (lr_RuleID ?req) (day_time 738001) False ?s) =
      Inr (sample_rule ''end_of_term'' ''none'')" by code_simp
  have locked: "recalculateLocked dec_ops (\<lambda>_. True) None fresh_ids (day_time 738010) ?req ?account ?category ''RUB''
      (day_time 738001) ?s = (Inr (calc\<lparr>rp_DeletedAccruals := 1\<rparr>), s)"
    using run by (intro recalculateLocked_eval [OF sel]) (simp_all add: sample_recalculate_account_def)
  have found: "find (has_owner (lr_AccountID ?req) (lr_UserID ?req)) (db_accounts ?s) = Some ?account"
    "find (\<lambda>c. c_Slug c = ''deposit_interest'') (db_categories ?s) = Some ?category"
    by (simp_all add: stale_interest_db_def interest_db_def sample_db_def has_owner_def sample_account_def sample_recalculate_account_def)
  have checks: "validateInterestLifecycleAccount (lr_AccountID ?req) (lr_UserID ?req) = Inr ()" "a_IsActive ?account"
    "TrimSpace (lr_Currency ?req) \<noteq> ''''" "IsZero (dateOnly (lr_RuleDate ?req))" "\<not> IsZero (dateOnly (lr_ToDate ?req))"
    by code_simp+
  have "lr_Currency ?req = ''RUB''" "dateOnly (lr_ToDate ?req) = day_time 738001" by (simp_all add: sample_recalculate_account_def)
  with locked run(3) have run': "InterestLifecycle_Recalculate dec_ops (\<lambda>_. True) None fresh_ids (day_time 738010) (Some ?req) ?s =
      (Inr (calc\<lparr>rp_DeletedAccruals := 1\<rparr>), s)"
    by (intro InterestLifecycle_Recalculate_eval [OF checks(1) found(1) checks(2) found(2) checks(3-5)]) simp_all
  have h: "ledger_ok dec_ops ?s" "rules_ok (db_rules ?s)" "distinct (map i_TransactionID (db_accruals ?s))"
    "TrimSpace (lr_AccountID ?req) = lr_AccountID ?req" by code_simp+
  obtain a where "db_accruals ?s = [a]" by (simp add: stale_interest_db_def)
  with recalculation_replaces_range [OF decimal_pkg_dec h run' _ refl refl] run(4) run' show ?thesis
    by (auto split: if_splits)
qed

end
