(* ===== verification/Interest_Jobs.thy ===== *)
theory Interest_Jobs
  imports Interest_Lifecycle "HOL-Library.AList" "HOL-Library.Multiset"
begin

text \<open>
  The scheduled jobs of \<^verbatim>\<open>internal/jobs/interest.go\<close>: the daily, monthly and maturity runs list the
  active rules of a frequency, keep the latest rule of each account, and accrue each through
  the lifecycle service.

  The package has copies of the schedule functions of the engine; the lemmas show that they
  agree with the originals, that the run counts every target once, and that it writes one
  accrual and one transaction for each target it counts as posted, and nothing else.
\<close>

section \<open>The schedule\<close>

definition jobs_lastActiveDayOfMonth :: "InterestRule \<Rightarrow> time \<Rightarrow> time" where
  "jobs_lastActiveDayOfMonth rule date =
     (let date = dateOnly date;
          monthEnd = Date (Year date) (Month date + 1) 0 0 0
      in case r_EndDate rule of
           Some endDate \<Rightarrow> if Before (dateOnly endDate) monthEnd then dateOnly endDate else monthEnd
         | None \<Rightarrow> monthEnd)"

definition rulePayableOn :: "InterestRule \<Rightarrow> time \<Rightarrow> bool" where
  "rulePayableOn rule date =
     (let date = dateOnly date
      in if Before date (dateOnly (r_StartDate rule)) then False
         else if (case r_EndDate rule of Some endDate \<Rightarrow> After date (dateOnly endDate) | None \<Rightarrow> False) then False
         else if r_AccrualFrequency rule = AccrualFrequencyMonthly
         then TimeEqual (jobs_lastActiveDayOfMonth rule date) date
         else if r_AccrualFrequency rule = AccrualFrequencyEndOfTerm
         then (case r_EndDate rule of Some endDate \<Rightarrow> TimeEqual (dateOnly endDate) date | None \<Rightarrow> False)
         else True)"

section \<open>The run\<close>

text \<open>\<^verbatim>\<open>best\<close> is a Go map, here an association list; the order in which Go ranges over it is not
  specified and is the argument \<open>order\<close>.\<close>

definition selectBest ::
  "time \<Rightarrow> ((string \<times> string) \<times> InterestRuleJobTarget) list \<Rightarrow> InterestRuleJobTarget \<Rightarrow>
     ((string \<times> string) \<times> InterestRuleJobTarget) list" where
  "selectBest accrualDate best t =
     (if After (r_StartDate (jt_Rule t)) accrualDate then best
      else let k = (r_AccountID (jt_Rule t), jt_OwnerUserID t)
        in case map_of best k of
             None \<Rightarrow> AList.update k t best
           | Some existing \<Rightarrow>
               if After (r_StartDate (jt_Rule t)) (r_StartDate (jt_Rule existing)) then AList.update k t best
               else best)"

definition selectLatestRulesForAccounts ::
  "(InterestRuleJobTarget list \<Rightarrow> InterestRuleJobTarget list) \<Rightarrow> InterestRuleJobTarget list \<Rightarrow> time \<Rightarrow>
     InterestRuleJobTarget list" where
  "selectLatestRulesForAccounts order targets accrualDate =
     order (map snd (foldl (selectBest accrualDate) [] targets))"

record InterestJobRunResult =
  jr_JobName :: string
  jr_AccrualDate :: time
  jr_Scanned :: int
  jr_Posted :: int
  jr_Skipped :: int
  jr_Failed :: int

text \<open>What the targets of a run meet, by their position: the reading of the context, the ids the
  lifecycle draws and its clock.\<close>

record job_env =
  je_ctx :: "nat \<Rightarrow> ctx"
  je_ids :: "nat \<Rightarrow> string \<times> string"
  je_now :: "nat \<Rightarrow> time"

definition accrueTarget ::
  "'d decimal_ops \<Rightarrow> (string \<Rightarrow> bool) \<Rightarrow> ctx \<Rightarrow> string \<times> string \<Rightarrow> time \<Rightarrow> InterestRuleJobTarget \<Rightarrow> time \<Rightarrow>
     ('d, bool) dbstm" where
  "accrueTarget D uuidParse ctx ids now target accrualDate s =
     (let req = \<lparr>la_AccountID = r_AccountID (jt_Rule target), la_UserID = jt_OwnerUserID target,
            la_Currency = jt_AccountCurrency target, la_RuleID = r_ID (jt_Rule target),
            la_AccrualDate = accrualDate\<rparr>
      in case InterestLifecycle_Accrue D uuidParse ctx ids now (Some req) s of
           (Inl e, s') \<Rightarrow>
             if IsValidationError e then (Inr False, s')
             else (Inl (Wrapped (''accrue rule '' @ r_ID (jt_Rule target) @ '' account '' @
                    r_AccountID (jt_Rule target)) e), s')
         | (Inr response, s') \<Rightarrow> (Inr (\<not> ap_Skipped response), s'))"

text \<open>The loop over the targets: the result, the errors of the targets that failed, and the error
  of the context, which ends the run.\<close>

fun runTargets ::
  "'d decimal_ops \<Rightarrow> (string \<Rightarrow> bool) \<Rightarrow> job_env \<Rightarrow> time \<Rightarrow> nat \<Rightarrow> InterestRuleJobTarget list \<Rightarrow>
     InterestJobRunResult \<Rightarrow> err list \<Rightarrow> 'd db \<Rightarrow> (InterestJobRunResult \<times> err list \<times> err option) \<times> 'd db" where
  "runTargets D uuidParse env accrualDate i [] result runErrs s = ((result, runErrs, None), s)"
| "runTargets D uuidParse env accrualDate i (target # targets) result runErrs s =
     (case je_ctx env i of
        Some e \<Rightarrow> ((result, runErrs, Some e), s)
      | None \<Rightarrow>
          if \<not> rulePayableOn (jt_Rule target) accrualDate
          then runTargets D uuidParse env accrualDate (i + 1) targets
                 (result\<lparr>jr_Skipped := jr_Skipped result + 1\<rparr>) runErrs s
          else case accrueTarget D uuidParse None (je_ids env i) (je_now env i) target accrualDate s of
             (Inl e, s') \<Rightarrow> runTargets D uuidParse env accrualDate (i + 1) targets
                 (result\<lparr>jr_Failed := jr_Failed result + 1\<rparr>) (runErrs @ [e]) s'
           | (Inr True, s') \<Rightarrow> runTargets D uuidParse env accrualDate (i + 1) targets
                 (result\<lparr>jr_Posted := jr_Posted result + 1\<rparr>) runErrs s'
           | (Inr False, s') \<Rightarrow> runTargets D uuidParse env accrualDate (i + 1) targets
                 (result\<lparr>jr_Skipped := jr_Skipped result + 1\<rparr>) runErrs s')"

record InterestJob =
  ij_Rules :: bool
  ij_Lifecycle :: bool
  ij_Now :: "time option"

text \<open>A run returns a result and an error, both possibly nil. The error is the job's name with the
  errors it wraps: one, or those of \<^verbatim>\<open>errors.Join\<close>.\<close>

type_synonym job_return = "InterestJobRunResult option \<times> (string \<times> err list) option"

definition job_run ::
  "'d decimal_ops \<Rightarrow> (string \<Rightarrow> bool) \<Rightarrow> (InterestRuleJobTarget list \<Rightarrow> InterestRuleJobTarget list) \<Rightarrow> job_env \<Rightarrow>
     InterestJob \<Rightarrow> string \<Rightarrow> AccrualFrequency \<Rightarrow> time \<Rightarrow> 'd db \<Rightarrow> job_return \<times> 'd db" where
  "job_run D uuidParse order env j jobName frequency accrualDate s =
     (if \<not> ij_Rules j then ((None, Some (jobName, [Errorf ''interest rule repository is required''])), s)
      else if \<not> ij_Lifecycle j then ((None, Some (jobName, [Errorf ''interest lifecycle is required''])), s)
      else let accrualDate = dateOnly accrualDate
        in case ListActiveForAccrual frequency accrualDate s of
             (Inl e, s') \<Rightarrow> ((None, Some (jobName, [Wrapped ''list active rules'' e])), s')
           | (Inr targets, s') \<Rightarrow>
               let targets = selectLatestRulesForAccounts order targets accrualDate;
                   result = \<lparr>jr_JobName = jobName, jr_AccrualDate = accrualDate,
                     jr_Scanned = int (length targets), jr_Posted = 0, jr_Skipped = 0, jr_Failed = 0\<rparr>
               in case runTargets D uuidParse env accrualDate 0 targets result [] s' of
                    ((result, runErrs, Some e), s'') \<Rightarrow> ((Some result, Some (jobName, [e])), s'')
                  | ((result, runErrs, None), s'') \<Rightarrow>
                      if runErrs \<noteq> [] then ((Some result, Some (jobName, runErrs)), s'')
                      else ((Some result, None), s''))"

definition today :: "InterestJob \<Rightarrow> time \<Rightarrow> time" where
  "today j clock = (case ij_Now j of Some now \<Rightarrow> dateOnly now | None \<Rightarrow> dateOnly clock)"

definition RunDailyInterestAccrual ::
  "'d decimal_ops \<Rightarrow> (string \<Rightarrow> bool) \<Rightarrow> (InterestRuleJobTarget list \<Rightarrow> InterestRuleJobTarget list) \<Rightarrow> job_env \<Rightarrow>
     InterestJob \<Rightarrow> time \<Rightarrow> 'd db \<Rightarrow> job_return \<times> 'd db" where
  "RunDailyInterestAccrual D uuidParse order env j clock =
     job_run D uuidParse order env j ''daily_interest_accrual_job'' AccrualFrequencyDaily (today j clock)"

definition RunMonthlyInterestAccrual ::
  "'d decimal_ops \<Rightarrow> (string \<Rightarrow> bool) \<Rightarrow> (InterestRuleJobTarget list \<Rightarrow> InterestRuleJobTarget list) \<Rightarrow> job_env \<Rightarrow>
     InterestJob \<Rightarrow> time \<Rightarrow> 'd db \<Rightarrow> job_return \<times> 'd db" where
  "RunMonthlyInterestAccrual D uuidParse order env j clock =
     job_run D uuidParse order env j ''monthly_interest_accrual_job'' AccrualFrequencyMonthly (today j clock)"

definition RunDepositMaturityCheck ::
  "'d decimal_ops \<Rightarrow> (string \<Rightarrow> bool) \<Rightarrow> (InterestRuleJobTarget list \<Rightarrow> InterestRuleJobTarget list) \<Rightarrow> job_env \<Rightarrow>
     InterestJob \<Rightarrow> time \<Rightarrow> 'd db \<Rightarrow> job_return \<times> 'd db" where
  "RunDepositMaturityCheck D uuidParse order env j clock =
     job_run D uuidParse order env j ''deposit_maturity_check_job'' AccrualFrequencyEndOfTerm (today j clock)"

section \<open>The targets\<close>

lemma jobs_lastActiveDayOfMonth_eq: "jobs_lastActiveDayOfMonth rule date = lastActiveDayOfMonth rule date"
proof -
  let ?month_end = "Date (Year (dateOnly date)) (Month (dateOnly date) + 1) 0 0 0"
  obtain n where n: "?month_end = day_time n" by (auto simp: Date_def day_time_def)
  show ?thesis
    unfolding jobs_lastActiveDayOfMonth_def lastActiveDayOfMonth_def Let_def n
    by (auto simp: minDate_def Let_def dateOnly_day_time split: option.splits)
qed

text \<open>The key under which a run keeps a target.\<close>

definition target_key :: "InterestRuleJobTarget \<Rightarrow> string \<times> string" where
  "target_key t = (r_AccountID (jt_Rule t), jt_OwnerUserID t)"

lemma selectBest_invariant:
  assumes "foldl (selectBest d) [] ts = best"
  shows "distinct (map fst best)"
    "(k, t) \<in> set best \<Longrightarrow> k = target_key t \<and> t \<in> set ts \<and> \<not> After (r_StartDate (jt_Rule t)) d"
    "t \<in> set ts \<Longrightarrow> \<not> After (r_StartDate (jt_Rule t)) d \<Longrightarrow>
       \<exists>t'. (target_key t, t') \<in> set best \<and> \<not> After (r_StartDate (jt_Rule t)) (r_StartDate (jt_Rule t'))"
proof -
  have "distinct (map fst best) \<and>
    (\<forall>(k, t)\<in>set best. k = target_key t \<and> t \<in> set ts \<and> \<not> After (r_StartDate (jt_Rule t)) d) \<and>
    (\<forall>t\<in>set ts. \<not> After (r_StartDate (jt_Rule t)) d \<longrightarrow>
       (\<exists>t'. map_of best (target_key t) = Some t' \<and> \<not> After (r_StartDate (jt_Rule t)) (r_StartDate (jt_Rule t'))))"
    using assms
  proof (induction ts arbitrary: best rule: rev_induct)
    case Nil
    then show ?case by simp
  next
    case (snoc t ts)
    define old where "old = foldl (selectBest d) [] ts"
    have IH: "distinct (map fst old)" "\<forall>(k, t)\<in>set old. k = target_key t \<and> t \<in> set ts \<and> \<not> After (r_StartDate (jt_Rule t)) d"
      "\<forall>t\<in>set ts. \<not> After (r_StartDate (jt_Rule t)) d \<longrightarrow>
       (\<exists>t'. map_of old (target_key t) = Some t' \<and> \<not> After (r_StartDate (jt_Rule t)) (r_StartDate (jt_Rule t')))"
      using snoc.IH [OF old_def [symmetric]] by blast+
    have best: "best = selectBest d old t" using snoc.prems by (simp add: old_def)
    show ?case
    proof (cases "After (r_StartDate (jt_Rule t)) d \<or>
        (\<exists>e. map_of old (target_key t) = Some e \<and> \<not> After (r_StartDate (jt_Rule t)) (r_StartDate (jt_Rule e)))")
      case True
      then have "best = old" using best by (auto simp: selectBest_def target_key_def Let_def)
      with True IH show ?thesis by (auto simp del: map_of_eq_Some_iff)
    next
      case False
      then have new: "best = AList.update (target_key t) t old" "\<not> After (r_StartDate (jt_Rule t)) d"
        and later: "\<And>e. map_of old (target_key t) = Some e \<Longrightarrow> After (r_StartDate (jt_Rule t)) (r_StartDate (jt_Rule e))"
        using best by (auto simp: selectBest_def target_key_def Let_def split: if_splits option.splits)
      have "set best \<subseteq> insert (target_key t, t) (set old)"
        unfolding new by (induction old) (auto split: if_splits)
      with IH new(2) have "\<forall>(k, t')\<in>set best. k = target_key t' \<and> t' \<in> set (ts @ [t]) \<and> \<not> After (r_StartDate (jt_Rule t')) d"
        by auto
      moreover have "distinct (map fst best)" unfolding new by (rule distinct_update [OF IH(1)])
      moreover have "\<exists>t''. map_of best (target_key t') = Some t'' \<and> \<not> After (r_StartDate (jt_Rule t')) (r_StartDate (jt_Rule t''))"
        if t': "t' \<in> set (ts @ [t])" "\<not> After (r_StartDate (jt_Rule t')) d" for t'
      proof (cases "target_key t' = target_key t")
        case same: True
        have "\<not> After (r_StartDate (jt_Rule t')) (r_StartDate (jt_Rule t))"
        proof (cases "t' \<in> set ts")
          case True
          with IH(3) t'(2) same obtain e where "map_of old (target_key t) = Some e"
            "\<not> After (r_StartDate (jt_Rule t')) (r_StartDate (jt_Rule e))" by auto
          with later show ?thesis by (fastforce simp: After_def)
        next
          case False
          with t' show ?thesis by (auto simp: After_def)
        qed
        with same show ?thesis by (simp add: new update_conv)
      next
        case other: False
        with t' have "t' \<in> set ts" by auto
        with IH(3) t'(2) other show ?thesis by (auto simp: new update_conv)
      qed
      ultimately show ?thesis by blast
    qed
  qed
  then show "distinct (map fst best)"
    "(k, t) \<in> set best \<Longrightarrow> k = target_key t \<and> t \<in> set ts \<and> \<not> After (r_StartDate (jt_Rule t)) d"
    "t \<in> set ts \<Longrightarrow> \<not> After (r_StartDate (jt_Rule t)) d \<Longrightarrow>
       \<exists>t'. (target_key t, t') \<in> set best \<and> \<not> After (r_StartDate (jt_Rule t)) (r_StartDate (jt_Rule t'))"
    by (fastforce dest: map_of_SomeD)+
qed

text \<open>Targets with different keys are all kept.\<close>

lemma selectBest_all:
  assumes "distinct (map target_key ts)" "\<And>t. t \<in> set ts \<Longrightarrow> \<not> After (r_StartDate (jt_Rule t)) d"
  shows "map snd (foldl (selectBest d) [] ts) = ts"
proof -
  have app: "AList.update k v xs = xs @ [(k, v)]" if "k \<notin> fst ` set xs" for k v and xs :: "((string \<times> string) \<times> InterestRuleJobTarget) list"
    using that by (induction xs) auto
  have "foldl (selectBest d) [] ts = map (\<lambda>t. (target_key t, t)) ts"
    using assms
  proof (induction ts rule: rev_induct)
    case (snoc t ts)
    then have "map_of (map (\<lambda>t. (target_key t, t)) ts) (target_key t) = None"
      by (auto simp: map_of_eq_None_iff)
    with snoc show ?case by (simp add: selectBest_def Let_def target_key_def [symmetric] app)
      (subst app; force)
  qed simp
  then show ?thesis by (simp add: comp_def)
qed

text \<open>The targets of a date are active rules of the database, and with rules that never overlap
  there is one for each account.\<close>

lemma ListActiveForAccrual_targets:
  assumes "ListActiveForAccrual frequency (day_time d) s = (Inr targets, s')"
  shows "s' = s" "t \<in> set targets \<Longrightarrow> jt_Rule t \<in> set (db_rules s) \<and> r_IsActive (jt_Rule t) \<and>
      r_AccrualFrequency (jt_Rule t) = frequency \<and> \<not> After (r_StartDate (jt_Rule t)) (day_time d) \<and>
      (case r_EndDate (jt_Rule t) of None \<Rightarrow> True | Some e \<Rightarrow> \<not> Before e (day_time d))"
    "rules_ok (db_rules s) \<Longrightarrow> distinct (map target_key targets)"
proof -
  let ?rules = "filter (\<lambda>r. r_IsActive r \<and> r_AccrualFrequency r = frequency \<and> \<not> After (r_StartDate r) (day_time d) \<and>
    (case r_EndDate r of None \<Rightarrow> True | Some e \<Rightarrow> \<not> Before e (day_time d))) (db_rules s)"
  let ?sorted = "sort_key r_AccountID (sort_key (\<lambda>r. t_ns (r_StartDate r)) (sort_key r_ID ?rules))"
  have targets: "targets = List.map_filter (job_target (db_accounts s)) ?sorted" and "s' = s"
    using assms by (auto simp: ListActiveForAccrual_def Let_def)
  then show "s' = s" by simp
  have rule: "job_target as r = Some t \<Longrightarrow> jt_Rule t = r" for as r t
    by (auto simp: job_target_def split: option.splits if_splits)
  show "jt_Rule t \<in> set (db_rules s) \<and> r_IsActive (jt_Rule t) \<and>
      r_AccrualFrequency (jt_Rule t) = frequency \<and> \<not> After (r_StartDate (jt_Rule t)) (day_time d) \<and>
      (case r_EndDate (jt_Rule t) of None \<Rightarrow> True | Some e \<Rightarrow> \<not> Before e (day_time d))" if "t \<in> set targets"
    using that rule by (fastforce simp: targets map_filter_def)
  assume ok: "rules_ok (db_rules s)"
  have active: "active_day r d" if "r \<in> set ?rules" for r
  proof -
    have "ruleRow r = r" using ok that by (auto simp: rules_ok_def)
    then have "r_StartDate r = dateOnly (r_StartDate r)" "r_EndDate r = map_option dateOnly (r_EndDate r)"
      by (simp_all add: ruleRow_def) (metis InterestRule.select_convs(10,11) InterestRule.surjective InterestRule.update_convs(10,11))+
    then obtain m e where "r_StartDate r = day_time m" "r_EndDate r = map_option day_time e"
      unfolding dateOnly_day_time by (metis (no_types, lifting) option.map_comp option.map_cong comp_apply)
    with that show ?thesis
      by (cases e) (auto simp: active_day_def start_day_def)
  qed
  have accounts: "map (\<lambda>t. r_AccountID (jt_Rule t)) (List.map_filter (job_target as) rs) =
      map r_AccountID (filter (\<lambda>r. job_target as r \<noteq> None) rs)" for as rs
    using rule by (induction rs) (fastforce simp: map_filter_simps)+
  have "inj_on r_AccountID (set ?sorted)"
    using active by (auto intro!: inj_onI intro: rules_ok_unique [OF ok])
  moreover have "distinct ?sorted"
    using ok by (simp add: rules_ok_def distinct_map distinct_filter)
  ultimately have "distinct (map r_AccountID ?sorted)" by (simp add: distinct_map)
  then have "distinct (map (\<lambda>t. r_AccountID (jt_Rule t)) targets)"
    unfolding targets accounts by (rule distinct_map_filter)
  then show "distinct (map target_key targets)"
    by (auto simp: distinct_map target_key_def intro!: inj_onI dest: inj_onD)
qed

section \<open>The loop\<close>

lemma InterestLifecycle_Accrue_skipped:
  assumes "InterestLifecycle_Accrue D uuidParse ctx ids now r s = (Inr resp, s')" "ap_Skipped resp"
  shows "s' = s"
proof -
  have body: "t = s" if "accrueLocked D uuidParse ctx ids now req account category currency date s = (Inr resp, t)"
    for req account category currency date t
    using that assms(2) selectInterestRule_Inr(1)
    by (fastforce simp: accrueLocked_def tx_simps loadInterestSnapshot_eq Let_def split: option.splits if_splits)
  have "t = s" if "conflictSkips (WithAccountInterestLock D acc u
      (accrueLocked D uuidParse ctx ids now req account category currency date)) s = (Inr resp, t)"
    for acc u req account category currency date t
    using that body pg_tx_Inl
    by (fastforce simp: conflictSkips_def WithAccountInterestLock_def tx_simps split: prod.splits sum.splits if_splits)
  with assms(1) show ?thesis
    by (auto simp: InterestLifecycle_Accrue_def tx_simps Let_def split: option.splits)
qed

lemma InterestLifecycle_Accrue_posted:
  assumes "InterestLifecycle_Accrue D uuidParse None ids now (Some req) s = (Inr resp, s')" "\<not> ap_Skipped resp"
    "dateOnly (la_AccrualDate req) = day_time d" "d \<noteq> 0"
  obtains rule t a where "rule \<in> set (db_rules s)" "ofRule rule a" "r_AccountID rule = la_AccountID req"
    "shouldPostAccrual rule (day_time d)" "i_AccrualDate a = day_time d"
    "s' = s\<lparr>db_transactions := db_transactions s @ [t], db_accruals := db_accruals s @ [a]\<rparr>"
proof -
  have z: "\<not> IsZero (day_time d)" using assms(4) by simp
  with assms(1,3) obtain account category currency where
    "conflictSkips (WithAccountInterestLock D (la_AccountID req) (la_UserID req)
      (accrueLocked D uuidParse None ids now req account category currency (day_time d))) s = (Inr resp, s')"
    by (auto simp: InterestLifecycle_Accrue_def tx_simps Let_def)
  from conflictSkips_posted [OF this assms(2)]
  have "accrueLocked D uuidParse None ids now req account category currency (day_time d) s = (Inr resp, s')"
    by (auto simp: WithAccountInterestLock_def tx_simps)
  then show ?thesis
    by (rule accrueLocked_posted [OF _ assms(2,4)]) (rule that; (assumption | erule selectInterestRule_Inr(2)))
qed

lemma accrueTarget_effect:
  assumes "accrueTarget D uuidParse None ids now target (day_time d) s = (r, s')" "d \<noteq> 0"
  shows "r \<noteq> Inr True \<Longrightarrow> s' = s"
    "r = Inr True \<Longrightarrow> \<exists>t a. i_AccrualDate a = day_time d \<and> i_AccountID a = r_AccountID (jt_Rule target) \<and>
       s' = s\<lparr>db_transactions := db_transactions s @ [t], db_accruals := db_accruals s @ [a]\<rparr>"
    "ledger_ok D s \<Longrightarrow> ledger_ok D s'"
proof -
  let ?req = "\<lparr>la_AccountID = r_AccountID (jt_Rule target), la_UserID = jt_OwnerUserID target,
      la_Currency = jt_AccountCurrency target, la_RuleID = r_ID (jt_Rule target), la_AccrualDate = day_time d\<rparr>"
  obtain q t where run: "InterestLifecycle_Accrue D uuidParse None ids now (Some ?req) s = (q, t)" by fastforce
  with assms(1) have [simp]: "t = s'" by (auto simp: accrueTarget_def split: sum.splits if_splits)
  show "ledger_ok D s'" if "ledger_ok D s"
    using lifecycle_accrue.ledger_ok_step [OF that] run by (metis snd_conv \<open>t = s'\<close>)
  show "s' = s" if "r \<noteq> Inr True"
  proof (cases q)
    case (Inl e)
    with run lifecycle_accrue.atomic show ?thesis by (metis \<open>t = s'\<close>)
  next
    case (Inr resp)
    with assms(1) that run have "ap_Skipped resp" by (auto simp: accrueTarget_def)
    with run Inr InterestLifecycle_Accrue_skipped show ?thesis by (metis \<open>t = s'\<close>)
  qed
  assume "r = Inr True"
  with assms(1) run obtain resp where "q = Inr resp" "\<not> ap_Skipped resp"
    by (auto simp: accrueTarget_def split: sum.splits if_splits)
  with run have "InterestLifecycle_Accrue D uuidParse None ids now (Some ?req) s = (Inr resp, s')" by simp
  then show "\<exists>t a. i_AccrualDate a = day_time d \<and> i_AccountID a = r_AccountID (jt_Rule target) \<and>
       s' = s\<lparr>db_transactions := db_transactions s @ [t], db_accruals := db_accruals s @ [a]\<rparr>"
    by (rule InterestLifecycle_Accrue_posted [OF _ \<open>\<not> ap_Skipped resp\<close> _ assms(2)]) (auto simp: ofRule_def)
qed

text \<open>The rows a run adds: accruals of the day, with as many transactions.\<close>

definition accruals_added :: "int \<Rightarrow> string set \<Rightarrow> int \<Rightarrow> 'd db \<Rightarrow> 'd db \<Rightarrow> bool" where
  "accruals_added d accounts n s s' \<longleftrightarrow>
     (\<exists>ts as. s' = s\<lparr>db_transactions := db_transactions s @ ts, db_accruals := db_accruals s @ as\<rparr> \<and>
        length ts = length as \<and> int (length as) = n \<and>
        (\<forall>a\<in>set as. i_AccrualDate a = day_time d \<and> i_AccountID a \<in> accounts))"

lemma accruals_added_refl: "accruals_added d accounts 0 s s"
  by (auto simp: accruals_added_def intro!: exI [of _ "[]"])

lemma accruals_added_step:
  assumes "accruals_added d accounts m s' s''" "i_AccrualDate a = day_time d" "i_AccountID a \<in> accounts"
    "s' = s\<lparr>db_transactions := db_transactions s @ [t], db_accruals := db_accruals s @ [a]\<rparr>"
  shows "accruals_added d accounts (m + 1) s s''"
proof -
  from assms(1) obtain ts as where "s'' = s'\<lparr>db_transactions := db_transactions s' @ ts, db_accruals := db_accruals s' @ as\<rparr>"
    "length ts = length as" "int (length as) = m" "\<forall>a\<in>set as. i_AccrualDate a = day_time d \<and> i_AccountID a \<in> accounts"
    unfolding accruals_added_def by blast
  with assms(2-) show ?thesis
    unfolding accruals_added_def by (intro exI [of _ "t # ts"] exI [of _ "a # as"]) simp
qed

lemma runTargets_effect:
  assumes "runTargets D uuidParse env (day_time d) i targets result errs s = ((result', errs', cancelled), s')"
    "d \<noteq> 0" "(\<lambda>t. r_AccountID (jt_Rule t)) ` set targets \<subseteq> accounts"
  shows "accruals_added d accounts (jr_Posted result' - jr_Posted result) s s' \<and>
    jr_Scanned result' = jr_Scanned result \<and>
    int (length errs') - int (length errs) = jr_Failed result' - jr_Failed result \<and>
    (cancelled = None \<longrightarrow> jr_Posted result' + jr_Skipped result' + jr_Failed result' =
       jr_Posted result + jr_Skipped result + jr_Failed result + int (length targets)) \<and>
    (cancelled \<noteq> None \<longrightarrow> (\<exists>k. je_ctx env k = cancelled)) \<and>
    (ledger_ok D s \<longrightarrow> ledger_ok D s')"
  using assms
proof (induction targets arbitrary: i result errs s)
  case Nil
  then show ?case by (simp add: accruals_added_refl)
next
  case (Cons target targets)
  show ?case
  proof (cases "je_ctx env i")
    case (Some e)
    with Cons.prems(1) show ?thesis by (cases cancelled) (auto simp: accruals_added_refl intro!: exI [of _ i])
  next
    case live: None
    have acc: "(\<lambda>t. r_AccountID (jt_Rule t)) ` set targets \<subseteq> accounts" "r_AccountID (jt_Rule target) \<in> accounts"
      using Cons.prems(3) by auto
    note IH = Cons.IH [OF _ Cons.prems(2) acc(1)]
    obtain r s1 where run: "accrueTarget D uuidParse None (je_ids env i) (je_now env i) target (day_time d) s = (r, s1)"
      by fastforce
    note eff = accrueTarget_effect [OF run Cons.prems(2)]
    consider "\<not> rulePayableOn (jt_Rule target) (day_time d)"
      | "rulePayableOn (jt_Rule target) (day_time d)" "r \<noteq> Inr True"
      | "rulePayableOn (jt_Rule target) (day_time d)" "r = Inr True" by blast
    then show ?thesis
    proof cases
      case 1
      with Cons.prems(1) live IH show ?thesis by fastforce
    next
      case 2
      with eff(1) have "s1 = s" by simp
      show ?thesis
      proof (cases r)
        case (Inl e)
        with 2 Cons.prems(1) live run have "runTargets D uuidParse env (day_time d) (i + 1) targets
          (result\<lparr>jr_Failed := jr_Failed result + 1\<rparr>) (errs @ [e]) s = ((result', errs', cancelled), s')"
          by (simp add: \<open>s1 = s\<close>)
        from IH [OF this] show ?thesis by simp
      next
        case (Inr b)
        with 2 Cons.prems(1) live run have "runTargets D uuidParse env (day_time d) (i + 1) targets
          (result\<lparr>jr_Skipped := jr_Skipped result + 1\<rparr>) errs s = ((result', errs', cancelled), s')"
          by (simp add: \<open>s1 = s\<close>)
        from IH [OF this] show ?thesis by simp
      qed
    next
      case 3
      with eff(2) obtain t a where new: "i_AccrualDate a = day_time d" "i_AccountID a \<in> accounts"
        "s1 = s\<lparr>db_transactions := db_transactions s @ [t], db_accruals := db_accruals s @ [a]\<rparr>"
        using acc(2) by auto
      from 3 Cons.prems(1) live run have "runTargets D uuidParse env (day_time d) (i + 1) targets
          (result\<lparr>jr_Posted := jr_Posted result + 1\<rparr>) errs s1 = ((result', errs', cancelled), s')" by simp
      note rest = IH [OF this]
      from rest have "accruals_added d accounts (jr_Posted result' - (jr_Posted result + 1)) s1 s'" by simp
      from accruals_added_step [OF this new] have "accruals_added d accounts (jr_Posted result' - jr_Posted result) s s'"
        by simp
      with rest eff(3) show ?thesis by simp
    qed
  qed
qed

section \<open>Properties\<close>

text \<open>The schedule the jobs check before they accrue is the schedule of the engine: a target the
  job lets through is never refused as not payable, and none that is payable is skipped.\<close>

theorem job_schedule_agrees: "rulePayableOn rule date \<longleftrightarrow> shouldPostAccrual rule date"
  by (auto simp: rulePayableOn_def shouldPostAccrual_def ruleActiveOn_def isLastActiveDayOfMonth_def isEndOfTerm_def
      jobs_lastActiveDayOfMonth_eq Let_def split: option.splits)

text \<open>C19. Whatever the order in which Go ranges over the map, a job accrues at most one rule of an
  account: the selected targets have different accounts or owners, each has started, and no
  other started target of the same account started later. With rules that never overlap no
  active rule is dropped.\<close>

theorem job_selects_latest_rules:
  assumes "\<And>xs. mset (order xs) = mset xs" "ListActiveForAccrual frequency (day_time d) s = (Inr targets, s')"
    "selected = selectLatestRulesForAccounts order targets (day_time d)"
  shows "distinct (map target_key selected) \<and> set selected \<subseteq> set targets \<and>
    (\<forall>t\<in>set targets. \<exists>t'\<in>set selected. target_key t' = target_key t \<and>
       \<not> After (r_StartDate (jt_Rule t)) (r_StartDate (jt_Rule t'))) \<and>
    (rules_ok (db_rules s) \<longrightarrow> mset selected = mset targets)"
proof -
  let ?best = "foldl (selectBest (day_time d)) [] targets"
  note inv = selectBest_invariant [OF refl, where d = "day_time d" and ts = targets]
  have perm: "mset selected = mset (map snd ?best)" using assms(1,3) by (simp add: selectLatestRulesForAccounts_def)
  then have set: "set selected = snd ` set ?best" by (metis image_set mset_eq_setD)
  have "map target_key (map snd ?best) = map fst ?best" using inv(2) by fastforce
  then have "distinct (map target_key (map snd ?best))" using inv(1) by (simp only:)
  moreover have "mset (map target_key selected) = mset (map target_key (map snd ?best))" using perm by (metis mset_map)
  ultimately have "distinct (map target_key selected)" using mset_eq_imp_distinct_iff by blast
  moreover have "\<exists>t'\<in>set selected. target_key t' = target_key t \<and> \<not> After (r_StartDate (jt_Rule t)) (r_StartDate (jt_Rule t'))"
    if t: "t \<in> set targets" for t
  proof -
    from t have "\<not> After (r_StartDate (jt_Rule t)) (day_time d)" using ListActiveForAccrual_targets(2) [OF assms(2)] by blast
    from inv(3) [OF t this] obtain t' where b: "(target_key t, t') \<in> set ?best"
      and "\<not> After (r_StartDate (jt_Rule t)) (r_StartDate (jt_Rule t'))" by blast
    moreover have "target_key t' = target_key t" using inv(2) [OF b] by simp
    moreover have "t' \<in> set selected" unfolding set using b by (metis imageI snd_conv)
    ultimately show ?thesis by blast
  qed
  moreover have "mset selected = mset targets" if "rules_ok (db_rules s)"
    using that ListActiveForAccrual_targets(2,3) [OF assms(2)] unfolding perm by (subst selectBest_all) auto
  ultimately show ?thesis using inv(2) unfolding set by force
qed

definition two_targets_db :: "dec db" where
  "two_targets_db = sample_db\<lparr>db_rules := [sample_rule ''daily'' ''none'',
     (sample_rule ''daily'' ''none'')\<lparr>r_ID := ''r2'', r_AccountID := ''B''\<rparr>]\<rparr>"

theorem job_selects_latest_rules_witness:
  "mset (selectLatestRulesForAccounts rev
     (projr (fst (ListActiveForAccrual ''daily'' (day_time 738001) two_targets_db))) (day_time 738001)) =
   mset (projr (fst (ListActiveForAccrual ''daily'' (day_time 738001) two_targets_db)))"
proof -
  let ?run = "ListActiveForAccrual ''daily'' (day_time 738001) two_targets_db"
  have "rules_ok (db_rules two_targets_db)" by code_simp
  moreover have "?run = (Inr (projr (fst ?run)), two_targets_db)" by (simp add: ListActiveForAccrual_def Let_def)
  moreover have "\<And>xs :: InterestRuleJobTarget list. mset (rev xs) = mset xs" by simp
  ultimately show ?thesis using job_selects_latest_rules [of rev "''daily''" 738001 two_targets_db] by blast
qed

text \<open>C18. A run writes what it reports: for each target it counts as posted the database gains one
  accrual of the day and one transaction, and nothing else changes, even when targets fail or
  the context ends the run; the ledger stays valid. While the context is live every target is
  counted exactly once, and an error is returned exactly when a target failed.\<close>

theorem job_run_posts_what_it_counts:
  assumes "job_run D uuidParse order env j jobName frequency accrualDate s = ((Some result, error), s')"
    "date_day accrualDate \<noteq> 0" "ledger_ok D s" "\<And>xs. mset (order xs) = mset xs"
  shows "accruals_added (date_day accrualDate) (r_AccountID ` set (db_rules s)) (jr_Posted result) s s' \<and>
    ledger_ok D s' \<and>
    ((\<forall>k. je_ctx env k = None) \<longrightarrow>
       jr_Posted result + jr_Skipped result + jr_Failed result = jr_Scanned result \<and>
       (error = None \<longleftrightarrow> jr_Failed result = 0) \<and>
       (\<forall>name errs. error = Some (name, errs) \<longrightarrow> int (length errs) = jr_Failed result))"
proof -
  let ?d = "date_day accrualDate"
  obtain targets where list: "ListActiveForAccrual frequency (day_time ?d) s = (Inr targets, s)"
    by (simp add: ListActiveForAccrual_def Let_def)
  let ?sel = "selectLatestRulesForAccounts order targets (day_time ?d)"
  let ?init = "\<lparr>jr_JobName = jobName, jr_AccrualDate = day_time ?d, jr_Scanned = int (length ?sel), jr_Posted = 0,
      jr_Skipped = 0, jr_Failed = 0\<rparr>"
  obtain result' errs cancelled t where
    run: "runTargets D uuidParse env (day_time ?d) 0 ?sel ?init [] s = ((result', errs, cancelled), t)"
    by (metis prod.collapse)
  have "set ?sel \<subseteq> set targets"
    using selectBest_invariant(2) [OF refl, where d = "day_time ?d" and ts = targets] mset_eq_setD [OF assms(4)]
    by (fastforce simp: selectLatestRulesForAccounts_def)
  then have "(\<lambda>t. r_AccountID (jt_Rule t)) ` set ?sel \<subseteq> r_AccountID ` set (db_rules s)"
    using ListActiveForAccrual_targets(2) [OF list] by blast
  note eff = runTargets_effect [OF run assms(2) this]
  from assms(1) list run have "result' = result" "t = s'"
    and err: "cancelled = None \<Longrightarrow> error = (if errs = [] then None else Some (jobName, errs))"
    by (auto simp: job_run_def dateOnly_day_time Let_def split: if_splits option.splits)
  have "cancelled = None" if "\<forall>k. je_ctx env k = None" using eff that by auto
  with eff err assms(3) show ?thesis by (auto simp: \<open>result' = result\<close> \<open>t = s'\<close>)
qed

definition sample_job_env :: job_env where
  "sample_job_env = \<lparr>je_ctx = (\<lambda>_. None), je_ids = fresh_ids, je_now = (\<lambda>_. day_time 738010)\<rparr>"

theorem job_run_posts_what_it_counts_witness:
  "let r = RunDailyInterestAccrual dec_ops (\<lambda>_. True) rev sample_job_env
       \<lparr>ij_Rules = True, ij_Lifecycle = True, ij_Now = Some (day_time 738001)\<rparr> zero_time (interest_db ''daily'')
   in (\<exists>result. fst r = (Some result, None) \<and> jr_Posted result = 1) \<and> length (db_accruals (snd r)) = 1"
proof -
  let ?r = "RunDailyInterestAccrual dec_ops (\<lambda>_. True) rev sample_job_env
       \<lparr>ij_Rules = True, ij_Lifecycle = True, ij_Now = Some (day_time 738001)\<rparr> zero_time (interest_db ''daily'')"
  have "(case fst ?r of (Some result, None) \<Rightarrow> jr_Posted result = 1 | _ \<Rightarrow> False)" by code_simp
  then obtain result where r: "fst ?r = (Some result, None)" "jr_Posted result = 1"
    by (auto split: prod.splits option.splits)
  then have run: "job_run dec_ops (\<lambda>_. True) rev sample_job_env
       \<lparr>ij_Rules = True, ij_Lifecycle = True, ij_Now = Some (day_time 738001)\<rparr> ''daily_interest_accrual_job''
       AccrualFrequencyDaily (day_time 738001) (interest_db ''daily'') = ((Some result, None), snd ?r)"
    by (simp add: RunDailyInterestAccrual_def today_def prod_eq_iff)
  have h: "date_day (day_time 738001) \<noteq> 0" "ledger_ok dec_ops (interest_db ''daily'')" by (simp, code_simp)
  from job_run_posts_what_it_counts [OF run h] r
  have "accruals_added 738001 (r_AccountID ` set (db_rules (interest_db ''daily''))) 1 (interest_db ''daily'') (snd ?r)"
    by simp
  then have "length (db_accruals (snd ?r)) = 1"
    by (auto simp: accruals_added_def interest_db_def sample_db_def empty_db_def)
  with r show ?thesis by (simp add: Let_def)
qed

end
