(* ===== verification/Commands.thy ===== *)
theory Commands
  imports Legacy_Import Interest_Jobs Auth_Store
begin

text \<open>
  The commands of the command line, \<^verbatim>\<open>internal/application/commands.go\<close>: they work on the repositories
  and services of the HTTP program without a logged in user, on accounts with or without an owner.
  \<^verbatim>\<open>WithAdvisoryLock\<close> of \<^verbatim>\<open>internal/postgres/store.go\<close> is here too: whether another session holds the
  lock is an argument. Reading the file of an import is an argument; that the module is configured
  (\<^verbatim>\<open>requireStore\<close>) is taken for granted.
\<close>

section \<open>Accounts and transactions\<close>

definition resolveOwnerUserID :: "string \<Rightarrow> ('d, string) dbstm" where
  "resolveOwnerUserID owner =
     (let owner = TrimSpace owner
      in sbind (swrap ''count users'' UserRepository_Count) (\<lambda>n.
         if n = 0 then
           sbind (scheck (owner \<noteq> '''') (Errorf ''owner-user-id was provided, but setup has not created a user yet''))
             (\<lambda>_. sret '''')
         else if owner \<noteq> '''' then sbind (swrap ''get owner user'' (UserRepository_GetByID owner)) (\<lambda>_. sret owner)
         else if n = 1 then sret ''''
         else sfail (Errorf ''owner-user-id is required when multiple users exist'')))"

record CreateAccountCommand =
  cm_OwnerUserID :: string
  cm_Name :: string
  cm_Bank :: string
  cm_Type :: AccountType
  cm_Currency :: string
  cm_OpenedAt :: time

definition Command_ListAccounts :: "('d, Account list) dbstm" where
  "Command_ListAccounts = swrap ''list accounts'' AccountRepository_List"

definition Command_CreateAccount ::
  "'d decimal_ops \<Rightarrow> ctx \<Rightarrow> string \<Rightarrow> string \<Rightarrow> time \<Rightarrow> CreateAccountCommand option \<Rightarrow> ('d, Account) dbstm" where
  "Command_CreateAccount D ctx accountID eid now c =
     (case c of
        None \<Rightarrow> sfail (Errorf ''create account command is required'')
      | Some cmd \<Rightarrow>
          sbind (resolveOwnerUserID (cm_OwnerUserID cmd)) (\<lambda>owner.
          swrap ''create account'' (AccountService_Create D ctx accountID eid now (Some
            \<lparr>ca_OwnerUserID = owner, ca_Name = cm_Name cmd, ca_Bank = cm_Bank cmd, ca_Type = cm_Type cmd,
             ca_Currency = cm_Currency cmd, ca_OpenedAt = cm_OpenedAt cmd\<rparr>))))"

definition Command_ListTransactions :: "string \<Rightarrow> ('d, 'd Transaction list) dbstm" where
  "Command_ListTransactions accountID =
     (let accountID = TrimSpace accountID
      in if accountID = '''' then swrap ''list transactions'' TransactionRepository_List
         else swrap ''list account transactions'' (TransactionRepository_ListByAccount accountID))"

record 'd CreateTransactionCommand =
  cx_AccountID :: string
  cx_Type :: TransactionType
  cx_Amount :: 'd
  cx_Description :: string
  cx_OccurredAt :: time

definition Command_CreateTransaction ::
  "'d decimal_ops \<Rightarrow> (string \<Rightarrow> bool) \<Rightarrow> ctx \<Rightarrow> string \<Rightarrow> string \<Rightarrow> time \<Rightarrow> 'd CreateTransactionCommand option \<Rightarrow>
     ('d, 'd Transaction) dbstm" where
  "Command_CreateTransaction D uuidParse ctx tid eid now c =
     (case c of
        None \<Rightarrow> sfail (Errorf ''create transaction command is required'')
      | Some cmd \<Rightarrow>
          sbind (swrap ''get transaction account'' (AccountRepository_GetByID (TrimSpace (cx_AccountID cmd)))) (\<lambda>account.
          let req = \<lparr>ct_AccountID = cx_AccountID cmd, ct_RelatedAccountID = None, ct_Type = cx_Type cmd,
                ct_Amount = cx_Amount cmd, ct_Currency = a_Currency account, ct_CategoryID = None, ct_SourceType = '''',
                ct_SourceRefID = None, ct_SourceMetadata = '''', ct_Description = cx_Description cmd,
                ct_OccurredAt = cx_OccurredAt cmd, ct_AccountOpenedAt = a_OpenedAt account, ct_AllowFutureDate = False\<rparr>
          in case a_OwnerUserID account of
               Some owner \<Rightarrow>
                 if TrimSpace owner \<noteq> ''''
                 then swrap ''create owned transaction'' (TransactionService_CreateForUser D uuidParse ctx tid eid now owner (Some req))
                 else swrap ''create transaction'' (TransactionService_Create D uuidParse ctx tid now (Some req))
             | None \<Rightarrow> swrap ''create transaction'' (TransactionService_Create D uuidParse ctx tid now (Some req))))"

definition Command_Balance :: "'d decimal_ops \<Rightarrow> ctx \<Rightarrow> string \<Rightarrow> ('d, 'd CalculateBalanceResponse) dbstm" where
  "Command_Balance D ctx accountID =
     sbind (Command_ListTransactions accountID) (\<lambda>transactions.
     slift (ewrap ''calculate account balance'' (Calculate D ctx (TrimSpace accountID) transactions)))"

definition Command_ImportLegacyDeposits ::
  "'d decimal_ops \<Rightarrow> ('f, 'd) float64_ops \<Rightarrow> import_env \<Rightarrow> err + 'f Deposit list \<Rightarrow> string \<Rightarrow> ('d, 'd ImportReport) dbstm" where
  "Command_ImportLegacyDeposits D F env load owner =
     sbind (resolveOwnerUserID owner) (\<lambda>owner.
     swrap ''import legacy deposits'' (sbind (slift load) (importDeposits D F env owner)))"

section \<open>Interest jobs\<close>

text \<open>\<^verbatim>\<open>acquired\<close> is what \<^verbatim>\<open>pg_try_advisory_xact_lock\<close> answers; the callback runs outside the transaction of
  the lock, so its changes stay when it fails.\<close>

definition WithAdvisoryLock :: "bool \<Rightarrow> string \<Rightarrow> ('s \<Rightarrow> ('r \<times> err option) \<times> 's) \<Rightarrow> 's \<Rightarrow> (bool \<times> 'r option \<times> err option) \<times> 's" where
  "WithAdvisoryLock acquired lockName fn s =
     (if lockName = '''' then ((False, None, Some (Errorf ''advisory lock name is required'')), s)
      else if length lockName > 256 then ((False, None, Some (Errorf ''advisory lock name is too long'')), s)
      else if \<not> acquired then ((False, None, None), s)
      else case fn s of ((run, e), s') \<Rightarrow> ((True, Some run, e), s'))"

definition job_error :: "string \<times> err list \<Rightarrow> err" where
  "job_error e = Wrapped (fst e) (case snd e of [] \<Rightarrow> Errorf '''' | x # _ \<Rightarrow> x)"

record InterestJobCommandResult =
  jc_Acquired :: bool
  jc_Run :: "InterestJobRunResult option"

definition runNamedJob ::
  "'d decimal_ops \<Rightarrow> (string \<Rightarrow> bool) \<Rightarrow> (InterestRuleJobTarget list \<Rightarrow> InterestRuleJobTarget list) \<Rightarrow> job_env \<Rightarrow> string \<Rightarrow> time \<Rightarrow>
     'd db \<Rightarrow> (InterestJobRunResult option \<times> err option) \<times> 'd db" where
  "runNamedJob D uuidParse order env name date s =
     (let job = \<lparr>ij_Rules = True, ij_Lifecycle = True, ij_Now = Some date\<rparr>;
          finish = (\<lambda>((run, e), s'). ((run, map_option (\<lambda>e. Wrapped ''run interest job'' (job_error e)) e), s'))
      in if name = ''daily_interest_accrual_job'' then finish (RunDailyInterestAccrual D uuidParse order env job date s)
         else if name = ''monthly_interest_accrual_job'' then finish (RunMonthlyInterestAccrual D uuidParse order env job date s)
         else if name = ''deposit_maturity_check_job'' then finish (RunDepositMaturityCheck D uuidParse order env job date s)
         else ((None, Some (Errorf (''unknown job name: '' @ name))), s))"

definition Command_RunInterestJob ::
  "'d decimal_ops \<Rightarrow> (string \<Rightarrow> bool) \<Rightarrow> (InterestRuleJobTarget list \<Rightarrow> InterestRuleJobTarget list) \<Rightarrow> job_env \<Rightarrow> bool \<Rightarrow> string \<Rightarrow> time \<Rightarrow>
     'd db \<Rightarrow> (InterestJobCommandResult \<times> err option) \<times> 'd db" where
  "Command_RunInterestJob D uuidParse order env free name date s =
     (case WithAdvisoryLock free (''capitalflow:'' @ name) (runNamedJob D uuidParse order env name date) s of
        ((acquired, run, e), s') \<Rightarrow>
          ((\<lparr>jc_Acquired = acquired, jc_Run = (case run of Some r \<Rightarrow> r | None \<Rightarrow> None)\<rparr>,
            map_option (Wrapped ''run locked interest job'') e), s'))"

section \<open>Interest of one account\<close>

record InterestCommand =
  ic_AccountID :: string
  ic_RuleID :: string
  ic_Date :: time
  ic_FromDate :: time
  ic_ToDate :: time
  ic_Days :: int

definition interestRuleActiveOn :: "time \<Rightarrow> InterestRule \<Rightarrow> time \<Rightarrow> bool" where
  "interestRuleActiveOn now rule date =
     (let date = dateOnly date; date = (if IsZero date then dateOnly now else date)
      in if Before date (dateOnly (r_StartDate rule)) then False
         else case r_EndDate rule of None \<Rightarrow> True | Some e \<Rightarrow> \<not> After date (dateOnly e))"

definition Command_selectInterestRule :: "time \<Rightarrow> string \<Rightarrow> string \<Rightarrow> time \<Rightarrow> ('d, InterestRule) dbstm" where
  "Command_selectInterestRule now accountID ruleID date =
     (let ruleID = TrimSpace ruleID
      in if ruleID \<noteq> ''''
         then sbind (swrap ''get interest rule'' (InterestRuleRepository_GetByID ruleID)) (\<lambda>rule.
              sbind (scheck (r_AccountID rule \<noteq> accountID) ErrNotFound) (\<lambda>_.
              sret rule))
         else sbind (swrap ''list account interest rules'' (InterestRuleRepository_ListByAccount accountID)) (\<lambda>rules.
              case foldl (\<lambda>selected rule.
                     if \<not> r_IsActive rule \<or> \<not> interestRuleActiveOn now rule date then selected
                     else latestRule selected rule) None rules of
                None \<Rightarrow> sfail ErrNotFound
              | Some rule \<Rightarrow> sret rule))"

definition interestSnapshot ::
  "time \<Rightarrow> string \<Rightarrow> string \<Rightarrow> time \<Rightarrow>
     ('d, Account \<times> InterestRule \<times> 'd Transaction list \<times> 'd InterestAccrual list) dbstm" where
  "interestSnapshot now accountID ruleID date =
     (let accountID = TrimSpace accountID
      in sbind (swrap ''get interest account'' (AccountRepository_GetByID accountID)) (\<lambda>account.
         sbind (Command_selectInterestRule now accountID ruleID date) (\<lambda>rule.
         sbind (swrap ''list interest transactions'' (TransactionRepository_ListByAccount accountID)) (\<lambda>transactions.
         sbind (swrap ''list interest accruals'' (ListInterestAccrualsByAccount accountID)) (\<lambda>accruals.
         sret (account, rule, transactions, accruals))))))"

record 'd AccrueInterestResult =
  ai_RuleID :: string
  ai_Accrual :: "'d InterestAccrual option"
  ai_Skipped :: bool

text \<open>A conflict, another accrual of the day, is an answer of its own.\<close>

definition persistCalculatedAccrual ::
  "'d decimal_ops \<Rightarrow> 'd Transaction \<Rightarrow> 'd InterestAccrual \<Rightarrow> ('d, bool) dbstm" where
  "persistCalculatedAccrual D transaction accrual =
     stry (InterestAccrualRepository_CreateWithTransaction D transaction accrual)
       (\<lambda>e. if errorsIs e ErrConflict then sret True
            else sfail (Wrapped ''create interest accrual with transaction'' e))
       (\<lambda>_. sret False)"

definition Command_AccrueInterest ::
  "'d decimal_ops \<Rightarrow> (string \<Rightarrow> bool) \<Rightarrow> ctx \<Rightarrow> string \<times> string \<Rightarrow> time \<Rightarrow> InterestCommand option \<Rightarrow>
     ('d, 'd AccrueInterestResult) dbstm" where
  "Command_AccrueInterest D uuidParse ctx ids now c =
     (case c of
        None \<Rightarrow> sfail (Errorf ''accrue interest command is required'')
      | Some cmd \<Rightarrow>
          sbind (swrap ''load interest snapshot'' (interestSnapshot now (ic_AccountID cmd) (ic_RuleID cmd) (ic_Date cmd)))
            (\<lambda>(account, rule, transactions, accruals).
          sbind (slift (ewrap ''calculate accrual balance''
            (Calculate D ctx (a_ID account) (transactionsUpToDate transactions (ic_Date cmd))))) (\<lambda>balance.
          let transactions =
                (if r_CapitalizationFrequency rule = CapitalizationFrequencyNone \<or> r_CapitalizationFrequency rule = ''''
                 then PrincipalTransactionsForRuleAt transactions accruals rule zero_time else transactions)
          in sbind (swrap ''get deposit interest category'' (CategoryRepository_GetBySlug ''deposit_interest'')) (\<lambda>category.
             sbind (slift (ewrap ''accrue interest'' (engine_Accrue D uuidParse ctx ids now (Some
               \<lparr>aq_Rule = rule, aq_AccountName = a_Name account, aq_CategoryID = c_ID category,
                aq_Currency = a_Currency account, aq_Balance = cb_Balance balance, aq_AccrualDate = ic_Date cmd,
                aq_Transactions = transactions, aq_ExistingAccruals = accruals\<rparr>)))) (\<lambda>result.
             let saved = sret \<lparr>ai_RuleID = r_ID rule, ai_Accrual = ap_Accrual result, ai_Skipped = ap_Skipped result\<rparr>
             in case (ap_Transaction result, ap_Accrual result) of
                  (Some t, Some a) \<Rightarrow>
                    if ap_Skipped result then saved
                    else sbind (swrap ''save interest accrual'' (persistCalculatedAccrual D t a)) (\<lambda>conflict.
                         if conflict then sret \<lparr>ai_RuleID = r_ID rule, ai_Accrual = None, ai_Skipped = True\<rparr> else saved)
                | _ \<Rightarrow> saved)))))"

definition Command_ForecastInterest ::
  "'d decimal_ops \<Rightarrow> (string \<Rightarrow> bool) \<Rightarrow> ctx \<Rightarrow> (nat \<Rightarrow> string \<times> string) \<Rightarrow> time \<Rightarrow> InterestCommand option \<Rightarrow>
     ('d, 'd ForecastRuleInterestResponse) dbstm" where
  "Command_ForecastInterest D uuidParse ctx ids now c =
     (case c of
        None \<Rightarrow> sfail (Errorf ''forecast interest command is required'')
      | Some cmd \<Rightarrow>
          sbind (interestSnapshot now (ic_AccountID cmd) (ic_RuleID cmd) (ic_Date cmd))
            (\<lambda>(account, rule, transactions, accruals).
          slift (ewrap ''forecast interest'' (engine_Forecast D uuidParse ctx ids now (Some
            \<lparr>fq_Rule = rule, fq_Currency = a_Currency account, fq_Transactions = transactions,
             fq_ExistingAccruals = accruals, fq_FromDate = ic_Date cmd, fq_Days = ic_Days cmd, fq_Today = zero_time\<rparr>)))))"

definition replaceCalculatedAccruals :: "'d decimal_ops \<Rightarrow> 'd RecalculateRuleInterestResponse \<Rightarrow> ('d, int) dbstm" where
  "replaceCalculatedAccruals D result =
     swrap ''replace interest accrual range'' (ReplaceRangeWithTransactions D (rp_AccountID result) (rp_RuleID result)
       (rp_FromDate result) (rp_ToDate result) (rp_Transactions result) (rp_Accruals result))"

definition Command_RecalculateInterest ::
  "'d decimal_ops \<Rightarrow> (string \<Rightarrow> bool) \<Rightarrow> ctx \<Rightarrow> (nat \<Rightarrow> string \<times> string) \<Rightarrow> time \<Rightarrow> InterestCommand option \<Rightarrow>
     ('d, 'd RecalculateRuleInterestResponse) dbstm" where
  "Command_RecalculateInterest D uuidParse ctx ids now c =
     (case c of
        None \<Rightarrow> sfail (Errorf ''recalculate interest command is required'')
      | Some cmd \<Rightarrow>
          sbind (interestSnapshot now (ic_AccountID cmd) (ic_RuleID cmd) (ic_Date cmd))
            (\<lambda>(account, rule, transactions, accruals).
          sbind (swrap ''get deposit interest category'' (CategoryRepository_GetBySlug ''deposit_interest'')) (\<lambda>category.
          sbind (slift (ewrap ''recalculate interest'' (engine_Recalculate D uuidParse ctx ids now (Some
            \<lparr>rq_Rule = rule, rq_AccountName = a_Name account, rq_CategoryID = c_ID category,
             rq_Currency = a_Currency account, rq_Transactions = transactions, rq_ExistingAccruals = accruals,
             rq_FromDate = ic_FromDate cmd, rq_ToDate = ic_ToDate cmd, rq_Today = zero_time\<rparr>)))) (\<lambda>result.
          sbind (swrap ''replace recalculated interest accruals'' (replaceCalculatedAccruals D result)) (\<lambda>deleted.
          sret (result\<lparr>rp_DeletedAccruals := deleted\<rparr>))))))"

section \<open>Contracts\<close>

text \<open>The commands that write meet the contract of the ledger, as the services they call do; the others
  change nothing.\<close>

lemma keeps_command_reads:
  "keeps P (resolveOwnerUserID owner)" "keeps P (Command_selectInterestRule now accountID ruleID date)"
  "keeps P (Command_ListTransactions accountID)" "keeps P (Command_Balance D ctx accountID)" "keeps P Command_ListAccounts"
  unfolding resolveOwnerUserID_def UserRepository_Count_def UserRepository_GetByID_def getUser_def
    Command_selectInterestRule_def InterestRuleRepository_GetByID_def scanInterestRule_def InterestRuleRepository_ListByAccount_def
    Command_ListTransactions_def Command_Balance_def TransactionRepository_List_def TransactionRepository_ListByAccount_def
    Command_ListAccounts_def AccountRepository_List_def
  by (intro keeps_intros)+

lemma keeps_interestSnapshot: "keeps P (interestSnapshot now accountID ruleID date)"
  unfolding interestSnapshot_def AccountRepository_GetByID_def getAccount_def TransactionRepository_ListByAccount_def
    ListInterestAccrualsByAccount_def
  by (intro keeps_intros keeps_command_reads)

lemma keeps_category_by_slug: "keeps P (CategoryRepository_GetBySlug slug)"
  unfolding CategoryRepository_GetBySlug_def by (intro keeps_intros)

interpretation command_create_account: ledger_operation D "Command_CreateAccount D ctx i eid now c" for D ctx i eid now c
  unfolding Command_CreateAccount_def
  by (intro operation_intros keeps_command_reads account_service_create.ledger_operation_axioms)

interpretation command_create_transaction: ledger_operation D "Command_CreateTransaction D uuidParse ctx tid eid now c"
  for D uuidParse ctx tid eid now c
  unfolding Command_CreateTransaction_def AccountRepository_GetByID_def getAccount_def
  by (intro operation_intros keeps_intros service_create.ledger_operation_axioms service_create_for_user.ledger_operation_axioms)

text \<open>A conflict leaves the database as it was.\<close>

interpretation persist_accrual: ledger_operation D "persistCalculatedAccrual D transaction accrual" for D transaction accrual
proof
  show "s' = s" if "persistCalculatedAccrual D transaction accrual s = (Inl e, s')" for s e s'
    using that accrual_create_with_transaction.atomic [of D transaction accrual s]
    by (auto simp: persistCalculatedAccrual_def stry_def split: prod.splits sum.splits if_splits)
  show "keeps (ledger_ok D) (persistCalculatedAccrual D transaction accrual)"
    unfolding persistCalculatedAccrual_def by (intro keeps_intros accrual_create_with_transaction.keeps_ledger)
qed

lemma operation_persist [operation_intros]:
  assumes "\<And>b. f b = sret (g b)"
  shows "ledger_operation D (sbind (swrap m (persistCalculatedAccrual D transaction accrual)) f)"
proof -
  have "f = (\<lambda>b. sret (g b))" using assms by blast
  then show ?thesis by (auto intro: operation_intros persist_accrual.ledger_operation_axioms)
qed

interpretation command_accrue: ledger_operation D "Command_AccrueInterest D uuidParse ctx ids now c" for D uuidParse ctx ids now c
proof -
  have conflict: "ledger_operation D (sbind (swrap m (persistCalculatedAccrual D t a)) (\<lambda>conflict. if conflict then sret x else sret y))"
    for m t a and x y :: "'a AccrueInterestResult"
    by (rule operation_persist [where g = "\<lambda>b. if b then x else y"]) simp
  show "ledger_operation D (Command_AccrueInterest D uuidParse ctx ids now c)"
    unfolding Command_AccrueInterest_def Let_def
    by (intro conflict operation_intros keeps_intros keeps_interestSnapshot keeps_category_by_slug)
qed

interpretation command_recalculate: ledger_operation D "Command_RecalculateInterest D uuidParse ctx ids now c"
  for D uuidParse ctx ids now c
  unfolding Command_RecalculateInterest_def replaceCalculatedAccruals_def
  by (intro operation_intros keeps_intros keeps_interestSnapshot keeps_category_by_slug
      accrual_replace_range.ledger_operation_axioms)

text \<open>What a job or an import keeps, its command keeps.\<close>

lemma keeps_command_import:
  "(\<And>owner deposits. keeps P (importDeposits D F env owner deposits)) \<Longrightarrow> keeps P (Command_ImportLegacyDeposits D F env load owner)"
  unfolding Command_ImportLegacyDeposits_def by (intro keeps_intros keeps_command_reads)

lemma command_job_keeps:
  assumes "P s" "\<And>job. P (snd (RunDailyInterestAccrual D uuidParse order env job date s))"
    "\<And>job. P (snd (RunMonthlyInterestAccrual D uuidParse order env job date s))"
    "\<And>job. P (snd (RunDepositMaturityCheck D uuidParse order env job date s))"
  shows "P (snd (Command_RunInterestJob D uuidParse order env free name date s))"
proof -
  have named: "P (snd (runNamedJob D uuidParse order env name date s))"
    using assms by (simp add: runNamedJob_def Let_def case_prod_unfold)
  show ?thesis using assms(1) named by (simp add: Command_RunInterestJob_def WithAdvisoryLock_def case_prod_unfold)
qed

end
