(* ===== verification/System.thy ===== *)
theory System
  imports Transfers Idempotency Auth_Http Planning Passkeys Commands
begin

text \<open>
  The whole program on one database. The services of accounts, transactions, transfers, interest,
  planning, authentication, passkeys and the idempotency store change different tables of the same
  schema; \<open>system_step\<close> lets all their operations run one after another in any order, with any
  requests, clocks, ids and random bytes, and the scheduled jobs and the commands of the command
  line, the import among them, between them.

  Each group of operations has a relation that says what it leaves alone (\<open>beside_ledger\<close>,
  \<open>beside_auth\<close>, \<open>beside_passkeys\<close>): the contracts of the groups are proved once for it, and with
  the invariants of the components they give the invariant \<open>app_ok\<close> of the whole database. No
  operation removes a user, an account or a category, or takes an account from its owner
  (\<open>db_grows\<close>), so that the references between the tables stay intact.
\<close>

section \<open>What grows\<close>

definition owner_pairs :: "'d db \<Rightarrow> (string \<times> string) set" where
  "owner_pairs s = {p. list_ex (has_owner (fst p) (snd p)) (db_accounts s)}"

definition db_grows :: "'d db \<Rightarrow> 'd db \<Rightarrow> bool" where
  "db_grows s s' \<longleftrightarrow>
     set (map u_ID (db_users s)) \<subseteq> set (map u_ID (db_users s')) \<and>
     set (map a_ID (db_accounts s)) \<subseteq> set (map a_ID (db_accounts s')) \<and>
     owner_pairs s \<subseteq> owner_pairs s' \<and>
     set (map c_ID (db_categories s)) \<subseteq> set (map c_ID (db_categories s'))"

lemma db_grows_refl [simp]: "db_grows s s"
  by (simp add: db_grows_def)

lemma db_grows_trans: "db_grows s t \<Longrightarrow> db_grows t u \<Longrightarrow> db_grows s u"
  unfolding db_grows_def by blast

lemma owner_pairs_iff: "(i, u) \<in> owner_pairs s \<longleftrightarrow> list_ex (has_owner i u) (db_accounts s)"
  by (simp add: owner_pairs_def)

lemma owner_pairs_append [simp]: "owner_pairs s \<subseteq> owner_pairs (s\<lparr>db_accounts := db_accounts s @ rows\<rparr>)"
  by (auto simp: owner_pairs_def)

lemma owner_pairs_simps [simp]:
  "owner_pairs (s\<lparr>db_transactions := ts\<rparr>) = owner_pairs s" "owner_pairs (s\<lparr>db_transfers := xs\<rparr>) = owner_pairs s"
  "owner_pairs (s\<lparr>db_accruals := as\<rparr>) = owner_pairs s" "owner_pairs (s\<lparr>db_audit := es\<rparr>) = owner_pairs s"
  "owner_pairs (s\<lparr>db_rules := rs\<rparr>) = owner_pairs s" "owner_pairs (s\<lparr>db_users := us\<rparr>) = owner_pairs s"
  "owner_pairs (s\<lparr>db_tokens := ks\<rparr>) = owner_pairs s" "owner_pairs (s\<lparr>db_auth_audit := ls\<rparr>) = owner_pairs s"
  "owner_pairs (s\<lparr>db_passkeys := ps\<rparr>) = owner_pairs s" "owner_pairs (s\<lparr>db_challenges := cs\<rparr>) = owner_pairs s"
  "owner_pairs (s\<lparr>db_goals := gs\<rparr>) = owner_pairs s" "owner_pairs (s\<lparr>db_limits := ms\<rparr>) = owner_pairs s"
  "owner_pairs (s\<lparr>db_categories := qs\<rparr>) = owner_pairs s" "owner_pairs (s\<lparr>db_idempotency := is\<rparr>) = owner_pairs s"
  by (simp_all add: owner_pairs_def)

lemma db_grows_append: "db_grows s (s\<lparr>db_accounts := db_accounts s @ rows\<rparr>)"
  by (simp add: db_grows_def)

text \<open>A change of accounts that keeps their ids and gives up no owner.\<close>

lemma db_grows_accounts:
  assumes "\<And>a. a_ID (f a) = a_ID a" "\<And>a u. a \<in> set (db_accounts s) \<Longrightarrow> a_OwnerUserID a = Some u \<Longrightarrow> a_OwnerUserID (f a) = Some u"
  shows "db_grows s (s\<lparr>db_accounts := map f (db_accounts s)\<rparr>)"
proof -
  have "owner_pairs s \<subseteq> owner_pairs (s\<lparr>db_accounts := map f (db_accounts s)\<rparr>)"
    using assms by (fastforce simp: owner_pairs_def list_ex_iff has_owner_def)
  then show ?thesis using assms(1) by (auto simp: db_grows_def image_image)
qed

section \<open>The ledger\<close>

lemma keeps_conflictSkips: "keeps P m \<Longrightarrow> keeps P (conflictSkips m)"
  by (auto simp: keeps_def conflictSkips_def split: prod.splits sum.splits)

text \<open>The interface between the repositories of the ledger and its services: a property of the
  database that the statements on accounts, transactions, transfers and accruals keep. What the services
  need of the updates of accounts are the archiving of an account and the update that guards its
  currency, no others.\<close>

locale ledger_rows =
  fixes D :: "'d decimal_ops" and P :: "'d db \<Rightarrow> bool"
  assumes insert_account: "keeps P (insertAccount account)"
    and insert_transaction: "keeps P (insertTransaction D t)"
    and mark_transaction: "keeps P (set_status D status tid)"
    and insert_transfer: "keeps P (insertTransfer D tr)"
    and insert_accrual: "keeps P (insertInterestAccrual D accrual)"
    and delete_accruals: "keeps P (deleteAccrualRange accountID ruleID fromDate toDate)"
    and delete_transaction: "keeps P (deleteInterestTransaction tid)"
    and insert_event: "keeps P (insertAuditEvent event)"

locale guarded_ledger = ledger_rows D P for D :: "'d decimal_ops" and P :: "'d db \<Rightarrow> bool" +
  assumes archive_account: "keeps P (update_accounts Q (\<lambda>a. a\<lparr>a_IsActive := False, a_UpdatedAt := now\<rparr>))"
    and guarded_update: "keeps P (UpdateForUserEnforcingCurrencyInvariant D eid now account userID)"
begin

lemmas ledger_keeps = keeps_intros keeps_pg_tx keeps_conflictSkips insert_account archive_account guarded_update
  insert_transaction mark_transaction insert_transfer insert_accrual delete_accruals delete_transaction insert_event

lemma keeps_account_services:
  "keeps P (AccountService_Create D ctx i eid now r)" "keeps P (AccountService_UpdateForUser D ctx eid now ur)"
  "keeps P (AccountService_ArchiveForUser D ctx eid now i u)"
  unfolding AccountService_Create_def AccountService_UpdateForUser_def AccountService_ArchiveForUser_def
    AccountRepository_Create_def AccountRepository_ArchiveForUser_def
    AccountRepository_GetByIDForUser_def
  by (intro ledger_keeps)+

lemma keeps_transaction_services:
  "keeps P (TransactionService_Create D uuidParse ctx tid now r)"
  "keeps P (TransactionService_CreateForUser D uuidParse ctx tid eid now u r)"
  "keeps P (TransactionService_CreateMany D uuidParse ctx now rs)"
  "keeps P (TransactionService_CancelForUser D eid now u tid)"
  "keeps P (TransactionService_SoftDeleteForUser D eid now u tid)"
  "keeps P (TransactionService_ReverseForUser D rid eid eid' now u tid)"
  unfolding TransactionService_Create_def TransactionService_CreateForUser_def TransactionService_CreateMany_def
    TransactionService_CancelForUser_def TransactionService_SoftDeleteForUser_def TransactionService_ReverseForUser_def
    TransactionRepository_Create_def TransactionRepository_CreateForUser_def TransactionRepository_CreateMany_def
    TransactionRepository_CancelForUser_def TransactionRepository_SoftDeleteForUser_def
    TransactionRepository_ReverseForUser_def updateManualTransactionStatusForUser_def TransactionRepository_GetByIDForUser_def
  by (intro ledger_keeps)+

lemma keeps_adjustment: "keeps P (AdjustmentService_Create D uuidParse ctx tid now r)"
  unfolding AdjustmentService_Create_def by (intro keeps_intros keeps_transaction_services)

lemma keeps_transfer: "keeps P (TransferService_Create D uuidParse latest ctx xids now r)"
  unfolding TransferService_Create_def TransactionService_CreateTransfer_def TransactionRepository_CreateTransfer_def
    AccountRepository_GetByIDForUser_def
  by (intro ledger_keeps)

lemma keeps_locked_bodies:
  "keeps P (accrueLocked D uuidParse ctx ids now req account category currency date)"
  "keeps P (recalculateLocked D uuidParse ctx ids' now req' account category currency date)"
  unfolding accrueLocked_def recalculateLocked_def CreateInterestAccrualWithTransaction_def
    replaceInterestAccrualRangeWithTransactions_def
  by (intro ledger_keeps)+

lemma keeps_lifecycle:
  "keeps P (InterestLifecycle_Accrue D uuidParse ctx ids now r)" "keeps P (InterestLifecycle_Recalculate D uuidParse ctx ids' now q)"
  unfolding InterestLifecycle_Accrue_def InterestLifecycle_Recalculate_def WithAccountInterestLock_def
  by (intro ledger_keeps keeps_locked_bodies)+

lemma keeps_commands:
  "keeps P (Command_CreateAccount D ctx i eid now ca)" "keeps P (Command_CreateTransaction D uuidParse ctx tid eid now ct)"
  "keeps P (Command_AccrueInterest D uuidParse ctx ids now ci)" "keeps P (Command_RecalculateInterest D uuidParse ctx ids' now ci)"
proof -
  show "keeps P (Command_CreateAccount D ctx i eid now ca)" "keeps P (Command_CreateTransaction D uuidParse ctx tid eid now ct)"
    unfolding Command_CreateAccount_def Command_CreateTransaction_def AccountRepository_GetByID_def getAccount_def
    by (intro keeps_intros keeps_command_reads keeps_account_services keeps_transaction_services)+
  have persist: "keeps P (persistCalculatedAccrual D transaction accrual)" for transaction accrual
    unfolding persistCalculatedAccrual_def InterestAccrualRepository_CreateWithTransaction_def
      CreateInterestAccrualWithTransaction_def lockAccountForTransaction_def
    by (intro ledger_keeps)
  have replace: "keeps P (replaceCalculatedAccruals D result)" for result
    unfolding replaceCalculatedAccruals_def ReplaceRangeWithTransactions_def
      replaceInterestAccrualRangeWithTransactions_def lockAccountForTransaction_def
    by (intro ledger_keeps)
  show "keeps P (Command_AccrueInterest D uuidParse ctx ids now ci)"
    unfolding Command_AccrueInterest_def Let_def by (intro ledger_keeps persist keeps_interestSnapshot keeps_category_by_slug)
  show "keeps P (Command_RecalculateInterest D uuidParse ctx ids' now ci)"
    unfolding Command_RecalculateInterest_def by (intro ledger_keeps replace keeps_interestSnapshot keeps_category_by_slug)
qed

lemmas keeps_ledger_services = keeps_account_services keeps_transaction_services keeps_adjustment keeps_transfer keeps_lifecycle
  keeps_commands

end

text \<open>A property that every update of accounts keeps, if it keeps their ids and owners, is kept by these two.\<close>

locale ledger_statements = ledger_rows D P for D :: "'d decimal_ops" and P :: "'d db \<Rightarrow> bool" +
  assumes change_account: "(\<And>a. a_ID (f a) = a_ID a \<and> a_OwnerUserID (f a) = a_OwnerUserID a) \<Longrightarrow> keeps P (update_accounts Q f)"

sublocale ledger_statements \<subseteq> guarded_ledger D P
proof
  show "keeps P (update_accounts Q (\<lambda>a. a\<lparr>a_IsActive := False, a_UpdatedAt := now\<rparr>))" for Q now
    by (rule change_account) simp
  have "keeps P (update_accounts Q (set_account account))" for Q account
    by (rule change_account) (simp add: set_account_def)
  then show "keeps P (UpdateForUserEnforcingCurrencyInvariant D eid now account userID)" for eid now account userID
    unfolding UpdateForUserEnforcingCurrencyInvariant_def by (intro keeps_intros keeps_pg_tx insert_event)
qed


text \<open>What the ledger and its rules leave alone.\<close>

definition beside_ledger :: "'d db \<Rightarrow> 'd db \<Rightarrow> bool" where
  "beside_ledger t s \<longleftrightarrow> db_grows t s \<and> db_users s = db_users t \<and> db_tokens s = db_tokens t \<and>
     db_auth_audit s = db_auth_audit t \<and> db_passkeys s = db_passkeys t \<and> db_challenges s = db_challenges t \<and>
     db_goals s = db_goals t \<and> db_limits s = db_limits t \<and> db_idempotency s = db_idempotency t"

lemma insertAccount_changes:
  "insertAccount account s = (r, s') \<Longrightarrow> s' = s \<or> (\<exists>row. s' = s\<lparr>db_accounts := db_accounts s @ [row]\<rparr>)"
  by (auto simp: insertAccount_def Let_def sbind_def split: sum.splits)

lemma beside_ledger_accounts:
  assumes "\<And>a. a_ID (f a) = a_ID a \<and> a_OwnerUserID (f a) = a_OwnerUserID a" "beside_ledger t s"
  shows "beside_ledger t (s\<lparr>db_accounts := map (\<lambda>a. if Q a then f a else a) (db_accounts s)\<rparr>)"
proof -
  have "db_grows s (s\<lparr>db_accounts := map (\<lambda>a. if Q a then f a else a) (db_accounts s)\<rparr>)"
    by (rule db_grows_accounts) (simp_all add: assms(1))
  with assms(2) show ?thesis by (auto simp: beside_ledger_def intro: db_grows_trans)
qed

lemmas ledger_writes = insertTransaction_def set_status_def insertTransfer_def insertInterestAccrual_def
  deleteAccrualRange_def deleteInterestTransaction_def insertAuditEvent_def update_accounts_def

interpretation ledger_access: ledger_statements D "beside_ledger t" for D :: "'d decimal_ops" and t
proof
  show "keeps (beside_ledger t) (insertAccount account)" for account
  proof (rule keepsI)
    fix s r and s' :: "'d db" assume "beside_ledger t s" "insertAccount account s = (r, s')"
    with insertAccount_changes [of account s r s'] show "beside_ledger t s'"
      by (auto simp: beside_ledger_def intro: db_grows_trans db_grows_append)
  qed
  show "keeps (beside_ledger t) (update_accounts Q f)"
    if "\<And>a. a_ID (f a) = a_ID a \<and> a_OwnerUserID (f a) = a_OwnerUserID a" for Q f
    unfolding ledger_writes by (intro keeps_intros keeps_swrite beside_ledger_accounts that)
  show "keeps (beside_ledger t) (deleteAccrualRange a r f u)" for a r f u
    by (auto simp: ledger_writes keeps_def Let_def beside_ledger_def db_grows_def)
qed (unfold ledger_writes Let_def, (intro keeps_intros keeps_swrite; simp add: beside_ledger_def db_grows_def)+)

interpretation ledger_rules: ledger_statements D "\<lambda>s. db_rules s = rs" for D :: "'d decimal_ops" and rs
proof
  show "keeps (\<lambda>s :: 'd db. db_rules s = rs) (insertAccount account)" for account
  proof (rule keepsI)
    fix s r and s' :: "'d db" assume "db_rules s = rs" "insertAccount account s = (r, s')"
    with insertAccount_changes [of account s r s'] show "db_rules s' = rs" by auto
  qed
  show "keeps (\<lambda>s :: 'd db. db_rules s = rs) (deleteAccrualRange a r f u)" for a r f u
    by (auto simp: ledger_writes keeps_def Let_def)
qed (unfold ledger_writes Let_def, (intro keeps_intros keeps_swrite; simp)+)

text \<open>The same interface for the rules.\<close>

locale rule_statements =
  fixes P :: "'d db \<Rightarrow> bool"
  assumes insert_rule: "keeps P (insertInterestRule rule)"
    and update_rule: "keeps P (updateInterestRule rule)"
    and insert_rule_event: "keeps P (insertAuditEvent event)"
begin

lemma keeps_rule_create: "keeps P (InterestRuleRepository_Create D eid now rule)"
  unfolding InterestRuleRepository_Create_def interestRuleActor_def
  by (intro keeps_intros keeps_pg_tx insert_rule insert_rule_event)

lemma keeps_rule_services:
  "keeps P (InterestRuleService_Create D ctx rid eid now r)" "keeps P (InterestRuleService_UpdateForUser D eid now ur)"
  unfolding InterestRuleService_Create_def InterestRuleService_UpdateForUser_def InterestRuleRepository_Update_def
    InterestRuleRepository_GetByID_def AccountRepository_GetByIDForUser_def interestRuleActor_def
  by (intro keeps_intros keeps_pg_tx insert_rule_event update_rule keeps_rule_create)+

end

interpretation rule_access: rule_statements "beside_ledger t" for t :: "'d db"
proof
  show "keeps (beside_ledger t) (insertInterestRule rule)" "keeps (beside_ledger t) (updateInterestRule rule)" for rule
    unfolding insertInterestRule_def updateInterestRule_def Let_def
    by (intro keeps_intros keeps_swrite; simp add: beside_ledger_def db_grows_def)+
qed (rule ledger_access.insert_event)

text \<open>The scheduled jobs are accruals of the lifecycle one after another.\<close>

lemma accrueTarget_keeps:
  assumes "\<And>ids now r. keeps P (InterestLifecycle_Accrue D uuidParse None ids now r)"
  shows "keeps P (accrueTarget D uuidParse None ids now target date)"
proof (rule keepsI)
  fix s r s' assume "P s" and run: "accrueTarget D uuidParse None ids now target date s = (r, s')"
  let ?q = "\<lparr>la_AccountID = r_AccountID (jt_Rule target), la_UserID = jt_OwnerUserID target,
    la_Currency = jt_AccountCurrency target, la_RuleID = r_ID (jt_Rule target), la_AccrualDate = date\<rparr>"
  obtain x t where accrue: "InterestLifecycle_Accrue D uuidParse None ids now (Some ?q) s = (x, t)" by fastforce
  then have "s' = t" using run by (auto simp: accrueTarget_def Let_def split: sum.splits if_splits)
  with keepsD [OF assms \<open>P s\<close> accrue] show "P s'" by simp
qed

lemma runTargets_keeps:
  assumes "\<And>ids now target. keeps P (accrueTarget D uuidParse None ids now target date)" "P s"
  shows "P (snd (runTargets D uuidParse env date i targets result errs s))"
  using assms(2)
proof (induction targets arbitrary: i result errs s)
  case (Cons target targets)
  have "P s'" if "accrueTarget D uuidParse None (je_ids env i) (je_now env i) target date s = (r, s')" for r s'
    using keepsD [OF assms(1) Cons.prems that] .
  then show ?case using Cons
    by (auto split: option.splits prod.splits sum.splits bool.splits)
qed simp

lemma job_run_keeps:
  assumes "\<And>ids now r. keeps P (InterestLifecycle_Accrue D uuidParse None ids now r)" "P s"
  shows "P (snd (job_run D uuidParse order env j jobName frequency date s))"
proof -
  have list: "ListActiveForAccrual frequency (dateOnly date) s = (r, s')  \<Longrightarrow> s' = s" for r s'
    by (simp add: ListActiveForAccrual_def Let_def)
  have "P (snd (runTargets D uuidParse env (dateOnly date) 0 targets result [] s))" for targets result
    using accrueTarget_keeps [OF assms(1)] assms(2) by (rule runTargets_keeps)
  then have "P s'" if "runTargets D uuidParse env (dateOnly date) 0 targets result [] s = (r, s')" for targets result r s'
    using that by (metis snd_conv)
  with list assms(2) show ?thesis
    by (auto simp: job_run_def Let_def split: prod.splits sum.splits option.splits)
qed

section \<open>Authentication\<close>

definition beside_auth :: "'d db \<Rightarrow> 'd db \<Rightarrow> bool" where
  "beside_auth t s \<longleftrightarrow> db_grows t s \<and> map a_ID (db_accounts s) = map a_ID (db_accounts t) \<and>
     db_categories s = db_categories t \<and> db_transactions s = db_transactions t \<and> db_transfers s = db_transfers t \<and>
     db_rules s = db_rules t \<and> db_accruals s = db_accruals t \<and> db_passkeys s = db_passkeys t \<and>
     db_challenges s = db_challenges t \<and> db_goals s = db_goals t \<and> db_limits s = db_limits t \<and>
     db_idempotency s = db_idempotency t"

lemma beside_auth_refl: "beside_auth s s"
  by (simp add: beside_auth_def)

lemma beside_auth_trans: "beside_auth s t \<Longrightarrow> beside_auth t u \<Longrightarrow> beside_auth s u"
  using db_grows_trans [of s t u] by (simp add: beside_auth_def)

lemma beside_auth_users:
  assumes "map u_ID us = map u_ID (db_users s) @ new"
  shows "beside_auth s (s\<lparr>db_users := us\<rparr>)"
proof -
  have "set (map u_ID (db_users s)) \<subseteq> set (map u_ID us)" unfolding assms by simp
  then show ?thesis by (simp add: beside_auth_def db_grows_def)
qed

lemma beside_auth_tables:
  "beside_auth s (s\<lparr>db_tokens := ks\<rparr>)" "beside_auth s (s\<lparr>db_auth_audit := ls\<rparr>)"
  "beside_auth s t \<Longrightarrow> beside_auth s (t\<lparr>db_audit := es\<rparr>)"
  by (simp_all add: beside_auth_def db_grows_def)

lemma beside_auth_accounts:
  assumes "\<And>a. a_ID (f a) = a_ID a" "\<And>a u. a_OwnerUserID a = Some u \<Longrightarrow> a_OwnerUserID (f a) = Some u"
  shows "beside_auth s (s\<lparr>db_accounts := map f (db_accounts s)\<rparr>)"
  using db_grows_accounts [of f s] assms by (simp add: beside_auth_def)

text \<open>A statement that makes such changes keeps what they keep.\<close>

lemma keeps_changes:
  assumes "\<And>s r s'. m s = (r, s') \<Longrightarrow> R s s'" "\<And>s s'. P s \<Longrightarrow> R s s' \<Longrightarrow> P s'"
  shows "keeps P m"
  using assms by (intro keepsI) blast

lemma claim_changes:
  assumes "claimUnownedAccounts sqlNow userID s = (r, s')"
  shows "beside_auth s s'"
proof -
  let ?f = "\<lambda>a. if a_OwnerUserID a = None then a\<lparr>a_OwnerUserID := Some userID, a_UpdatedAt := sqlNow\<rparr> else a"
  have "s' = s \<or> s' = s\<lparr>db_accounts := map ?f (db_accounts s)\<rparr>"
    using assms by (auto simp: claimUnownedAccounts_def swrap_def sbind_def update_accounts_def split: prod.splits sum.splits)
  moreover have "beside_auth s (s\<lparr>db_accounts := map ?f (db_accounts s)\<rparr>)" by (rule beside_auth_accounts) auto
  ultimately show ?thesis using beside_auth_refl by blast
qed

text \<open>A relation of two states that allows new tokens and events and changes of users that keep their
  ids, is kept by every statement of a session.\<close>

lemma sessions_keep:
  fixes R :: "'d db \<Rightarrow> 'd db \<Rightarrow> bool"
  assumes refl: "\<And>s. R s s" and trans: "\<And>s t u. R s t \<Longrightarrow> R t u \<Longrightarrow> R s u"
    and tables: "\<And>s ks. R s (s\<lparr>db_tokens := ks\<rparr>)" "\<And>s ls. R s (s\<lparr>db_auth_audit := ls\<rparr>)" "\<And>s es. R s (s\<lparr>db_audit := es\<rparr>)"
    and users: "\<And>s i f. (\<And>u. u_ID (f u) = u_ID u) \<Longrightarrow> R s (s\<lparr>db_users := map_user i f (db_users s)\<rparr>)"
  shows "session_statements (R t)"
proof
  have step: "keeps (R t) m" if "\<And>s r s'. m s = (r, s') \<Longrightarrow> R s s'" for m :: "('d, 'a) dbstm"
    using keeps_changes [where R = R, OF that trans] .
  have success: "keeps (R t) m"
    if "\<And>s e s'. m s = (Inl e, s') \<Longrightarrow> s' = s" "\<And>s x s'. m s = (Inr x, s') \<Longrightarrow> R s s'" for m :: "('d, 'a) dbstm"
    using that by (intro keeps_on_success) (blast intro: trans)+
  show "keeps (R t) (insertRefreshToken token)" for token
    by (rule success) (auto simp: tx_simps dest: insertRefreshToken_Inl intro: tables)
  show "keeps (R t) (insertAuthAuditEvent event)" for event
    by (rule success) (auto simp: tx_simps dest: insertAuthAuditEvent_Inl intro: tables)
  show "keeps (R t) (revoke_tokens Q a r)" for Q a r by (rule step) (auto intro: tables)
  show "keeps (R t) (update_user i (set_failures 0 None now'))" for i now'
    by (rule step) (auto simp: set_failures_def intro: users)
  show "keeps (R t) (update_user i (set_password h now'))" for i h now'
    by (rule step) (auto simp: set_password_def intro: users)
  show "keeps (R t) (UserRepository_RecordLoginFailure i loginLockoutThreshold loginLockoutDelays now')" for i now'
    by (rule success) (auto simp: tx_simps intro!: users dest: RecordLoginFailure_Inl simp: set_failures_def)
  show "keeps (R t) (UserRepository_UpdatePrimaryCurrency eid now i c now')" for eid now i c now'
  proof (rule step)
    fix s r and s' :: "'d db" assume "UserRepository_UpdatePrimaryCurrency eid now i c now' s = (r, s')"
    then show "R s s'"
    proof (cases rule: UpdatePrimaryCurrency_changes)
      case 1
      with refl show ?thesis by simp
    next
      case (2 es)
      have "R s (s\<lparr>db_users := map_user i (set_primary_currency c now') (db_users s)\<rparr>)"
        by (rule users) (simp add: set_primary_currency_def)
      from trans [OF this tables(3) [of _ es]] 2 show ?thesis by simp
    qed
  qed
qed

interpretation auth_access: auth_statements "beside_auth t" for t :: "'d db"
proof (rule auth_statements.intro)
  show "session_statements (beside_auth t)"
  proof (rule sessions_keep)
    show "beside_auth s (s\<lparr>db_users := map_user i f (db_users s)\<rparr>)" if "\<And>u. u_ID (f u) = u_ID u" for s :: "'d db" and i f
      by (rule beside_auth_users [where new = "[]"]) (simp add: map_user_def that)
    show "beside_auth s u" if "beside_auth s t" "beside_auth t u" for s t u :: "'d db" using that by (rule beside_auth_trans)
  qed (rule beside_auth_refl beside_auth_tables(1) beside_auth_tables(2) beside_auth_tables(3) [OF beside_auth_refl])+
  show "auth_statements_axioms (beside_auth t)"
  proof
    show "keeps (beside_auth t) (claimUnownedAccounts sqlNow userID)" for sqlNow userID
      using keeps_changes [where R = beside_auth, OF claim_changes beside_auth_trans] .
    show "keeps (beside_auth t) (insertUser u)" for u
    proof (rule keeps_on_success)
      fix s x and s' :: "'d db" assume "beside_auth t s" "insertUser u s = (Inr x, s')"
      moreover have "beside_auth s (s\<lparr>db_users := db_users s @ [u]\<rparr>)"
        by (rule beside_auth_users [where new = "[u_ID u]"]) simp
      ultimately show "beside_auth t s'" by (auto simp: tx_simps intro: beside_auth_trans)
    qed (rule insertUser_Inl)
  qed
qed

section \<open>Passkeys\<close>

definition passkey_refs :: "'d db \<Rightarrow> bool" where
  "passkey_refs s \<longleftrightarrow> (\<forall>c\<in>set (db_passkeys s). pk_UserID c \<in> set (map u_ID (db_users s)))"

definition beside_passkeys :: "'d db \<Rightarrow> 'd db \<Rightarrow> bool" where
  "beside_passkeys t s \<longleftrightarrow> beside_auth t (s\<lparr>db_passkeys := db_passkeys t, db_challenges := db_challenges t\<rparr>)"

lemma keeps_relation:
  assumes "\<And>t. keeps (R t) m" "\<And>s. R s s" "\<And>s s'. P s \<Longrightarrow> R s s' \<Longrightarrow> P s'"
  shows "keeps P m"
  using assms by (intro keepsI) (blast dest: keepsD)

lemma beside_passkeys_auth: "beside_passkeys t s \<Longrightarrow> beside_auth s s' \<Longrightarrow> beside_passkeys t s'"
  unfolding beside_passkeys_def beside_auth_def db_grows_def by auto

lemma passkey_refs_auth: "passkey_refs s \<Longrightarrow> beside_auth s s' \<Longrightarrow> passkey_refs s'"
  unfolding passkey_refs_def beside_auth_def db_grows_def by auto

lemma keeps_auth_calls:
  fixes P :: "'d db \<Rightarrow> bool"
  assumes "\<And>s s'. P s \<Longrightarrow> beside_auth s s' \<Longrightarrow> P s'"
  shows "keeps P (Audit A E ev email uid success reason)" "keeps P (ConfirmPassword A E ctx user password)"
    "keeps P (IssueSessionForUser A E ctx userID)"
proof -
  have step: "keeps P m" if "\<And>t. keeps (beside_auth t) m" for m :: "('d, 'b) dbstm"
    using that beside_auth_refl assms by (rule keeps_relation)
  show "keeps P (ConfirmPassword A E ctx user password)" by (rule step) (rule auth_access.keeps_ConfirmPassword)
  show "keeps P (IssueSessionForUser A E ctx userID)" by (rule step) (rule auth_access.keeps_IssueSessionForUser)
  show "keeps P (Audit A E ev email uid success reason)"
    using auth_access.keeps_audit(1) beside_auth_refl assms by (rule keeps_relation)
qed

interpretation passkey_access: passkey_operations "beside_passkeys t" "\<lambda>_. True" for t :: "'d db"
proof
  show "keeps (beside_passkeys t) (Audit A E ev email uid success reason)" for A E ev email uid success reason
    by (rule keeps_auth_calls(1)) (rule beside_passkeys_auth)
  show "keeps (beside_passkeys t) (ConfirmPassword A E ctx user password)" for A E ctx user password
    by (rule keeps_auth_calls(2)) (rule beside_passkeys_auth)
  show "keeps (beside_passkeys t) (IssueSessionForUser A E ctx userID)" for A E ctx userID
    by (rule keeps_auth_calls(3)) (rule beside_passkeys_auth)
qed (unfold passkey_statements, (intro keeps_intros keeps_swrite; simp add: beside_passkeys_def)+)

interpretation passkey_auth: passkey_operations "auth_ok :: 'd db \<Rightarrow> bool" "\<lambda>_. True"
proof
  show "keeps (auth_ok :: 'd db \<Rightarrow> bool) (Audit A E ev email uid success reason)" for A E ev email uid success reason
    by (rule schema.keeps_audit)
  show "keeps (auth_ok :: 'd db \<Rightarrow> bool) (ConfirmPassword A E ctx user password)" for A E ctx user password
    by (rule schema.keeps_ConfirmPassword)
  show "keeps (auth_ok :: 'd db \<Rightarrow> bool) (IssueSessionForUser A E ctx userID)" for A E ctx userID
    by (rule schema.keeps_IssueSessionForUser)
qed (unfold passkey_statements, (intro keeps_intros keeps_swrite; simp add: auth_ok_def)+)

interpretation passkey_users: passkey_operations "passkey_refs :: 'd db \<Rightarrow> bool" "\<lambda>_. True"
proof
  show "keeps (passkey_refs :: 'd db \<Rightarrow> bool) (Audit A E ev email uid success reason)" for A E ev email uid success reason
    by (rule keeps_auth_calls(1)) (rule passkey_refs_auth)
  show "keeps (passkey_refs :: 'd db \<Rightarrow> bool) (ConfirmPassword A E ctx user password)" for A E ctx user password
    by (rule keeps_auth_calls(2)) (rule passkey_refs_auth)
  show "keeps (passkey_refs :: 'd db \<Rightarrow> bool) (IssueSessionForUser A E ctx userID)" for A E ctx userID
    by (rule keeps_auth_calls(3)) (rule passkey_refs_auth)
  show "keeps passkey_refs (PasskeyRepository_CreateCredential credential)" for credential
    unfolding passkey_statements by (rule keeps_guarded_write') (auto simp: passkey_refs_def)
  show "keeps passkey_refs (update_credentials Q f)"
    if "\<And>c. pk_ID (f c) = pk_ID c \<and> pk_CredentialID (f c) = pk_CredentialID c \<and> pk_UserID (f c) = pk_UserID c" for Q f
    unfolding passkey_statements by (intro keeps_intros keeps_swrite) (auto simp: passkey_refs_def that)
qed (unfold passkey_statements, (intro keeps_intros keeps_swrite; simp add: passkey_refs_def)+)


section \<open>Planning and the idempotency store\<close>

text \<open>Every goal and limit has its user, its account and its category.\<close>

definition goals_ok :: "'d db \<Rightarrow> bool" where
  "goals_ok s \<longleftrightarrow> distinct (map g_ID (db_goals s)) \<and> (\<forall>g\<in>set (db_goals s). goal_fks s g)"

definition limits_ok :: "'d db \<Rightarrow> bool" where
  "limits_ok s \<longleftrightarrow> distinct (map l_ID (db_limits s)) \<and> (\<forall>l\<in>set (db_limits s). limit_fks s l)"

definition idempotency_refs :: "'d db \<Rightarrow> bool" where
  "idempotency_refs s \<longleftrightarrow> (\<forall>r\<in>set (db_idempotency s). ik_UserID r \<in> set (map u_ID (db_users s)))"

lemma goal_fks_grows: "db_grows s s' \<Longrightarrow> goal_fks s g \<Longrightarrow> goal_fks s' g"
  by (auto simp: goal_fks_def db_grows_def simp flip: owner_pairs_iff split: option.splits)

lemma limit_fks_grows: "db_grows s s' \<Longrightarrow> limit_fks s l \<Longrightarrow> limit_fks s' l"
  by (auto simp: limit_fks_def db_grows_def)

lemma fks_tables [simp]:
  "goal_fks (s\<lparr>db_goals := gs\<rparr>) g = goal_fks s g" "limit_fks (s\<lparr>db_limits := ls\<rparr>) l = limit_fks s l"
  "goal_fks s (goalRow h) = goal_fks s h"
  by (simp_all add: goal_fks_def limit_fks_def goalRow_def split: option.split)

lemma keeps_goals_ok:
  "keeps goals_ok (FinancialGoalService_Create D newID now r)" "keeps goals_ok (FinancialGoalService_Update D now ur)"
proof -
  have create: "keeps goals_ok (FinancialGoalRepository_Create D goal)" for goal
    unfolding FinancialGoalRepository_Create_def
    by (rule keeps_guarded_write') (auto simp: goals_ok_def)
  have update: "keeps goals_ok (FinancialGoalRepository_UpdateForUser D u goal)" for u goal
    unfolding FinancialGoalRepository_UpdateForUser_def
  proof (rule keeps_guarded_write, goal_cases)
    case (1 s old)
    then have old: "goal_fks s (updatedGoal goal old)" "goal_matches goal u old"
      by (auto split: sum.splits dest!: QueryRow_D)
    have "goal_fks s (updatedGoal goal g)" if "goal_matches goal u g" for g
      using that old by (simp add: goal_fks_def updatedGoal_def goal_matches_def split: option.splits)
    with 1(1) show ?case by (auto simp: goals_ok_def comp_def if_distrib cong: if_cong)
  qed (intro keeps_intros)
  show "keeps goals_ok (FinancialGoalService_Create D newID now r)" "keeps goals_ok (FinancialGoalService_Update D now ur)"
    unfolding FinancialGoalService_Create_def FinancialGoalService_Update_def Let_def
    by (intro keeps_intros create update)+
qed

lemma keeps_limits_ok:
  "keeps limits_ok (CategoryLimitService_Create D newID now r)" "keeps limits_ok (CategoryLimitService_Update D now ur)"
proof -
  have create: "keeps limits_ok (CategoryLimitRepository_Create D limit)" for limit
    unfolding CategoryLimitRepository_Create_def
    by (rule keeps_guarded_write') (auto simp: limits_ok_def)
  have update: "keeps limits_ok (CategoryLimitRepository_UpdateForUser D u limit)" for u limit
    unfolding CategoryLimitRepository_UpdateForUser_def
  proof (rule keeps_guarded_write, goal_cases)
    case (1 s old)
    then have old: "limit_fks s (updatedLimit limit old)" "limit_matches limit u old"
      by (auto split: sum.splits dest!: QueryRow_D)
    have "limit_fks s (updatedLimit limit l)" if "limit_matches limit u l" for l
      using that old by (simp add: limit_fks_def updatedLimit_def limit_matches_def)
    with 1(1) show ?case by (auto simp: limits_ok_def comp_def if_distrib cong: if_cong)
  qed (intro keeps_intros)
  show "keeps limits_ok (CategoryLimitService_Create D newID now r)" "keeps limits_ok (CategoryLimitService_Update D now ur)"
    unfolding CategoryLimitService_Create_def CategoryLimitService_Update_def Let_def
    by (intro keeps_intros create update)+
qed

text \<open>The planning services and the store change one table each.\<close>

lemma keeps_one_table:
  "keeps (\<lambda>s. s\<lparr>db_goals := gs\<rparr> = t) (FinancialGoalService_Create D newID now gc)"
  "keeps (\<lambda>s. s\<lparr>db_goals := gs\<rparr> = t) (FinancialGoalService_Update D now gu)"
  "keeps (\<lambda>s. s\<lparr>db_limits := ls\<rparr> = t) (CategoryLimitService_Create D newID now lc)"
  "keeps (\<lambda>s. s\<lparr>db_limits := ls\<rparr> = t) (CategoryLimitService_Update D now lu)"
  "keeps (\<lambda>s. s\<lparr>db_categories := cs\<rparr> = t \<and> set (map c_ID c0) \<subseteq> set (map c_ID (db_categories s))) (CategoryService_Create newID now cc)"
  unfolding FinancialGoalService_Create_def FinancialGoalService_Update_def CategoryLimitService_Create_def
    CategoryLimitService_Update_def CategoryService_Create_def FinancialGoalRepository_Create_def
    FinancialGoalRepository_UpdateForUser_def CategoryLimitRepository_Create_def CategoryLimitRepository_UpdateForUser_def
    CategoryRepository_Create_def Let_def
  by (intro keeps_intros keeps_swrite; auto)+

lemma keeps_idempotency:
  "keeps (\<lambda>s. s\<lparr>db_idempotency := is\<rparr> = t) (IdempotencyRepository_CreatePending clock sqlNow newID r)"
  "keeps (\<lambda>s. s\<lparr>db_idempotency := is\<rparr> = t) (IdempotencyRepository_Complete n i k u m p c b)"
  by (auto simp: keeps_def IdempotencyRepository_CreatePending_def sbind_def swrap_def deleteExpired_def insertPending_def
      IdempotencyRepository_Complete_def Let_def split: sum.splits)

lemma insertPending_changes:
  "insertPending r s = (q, s') \<Longrightarrow> s' = s \<or> q = Inr True \<and> insertPending r s = (Inr True, s')"
  by (auto simp: insertPending_def split: sum.splits if_splits)

lemma keeps_idempotency_ok:
  "keeps (\<lambda>s. idempotency_ok s \<and> idempotency_refs s) (IdempotencyRepository_CreatePending clock sqlNow newID r)"
  "keeps (\<lambda>s. idempotency_ok s \<and> idempotency_refs s) (IdempotencyRepository_Complete n i k u m p c b)"
proof -
  have "keeps (\<lambda>s. idempotency_ok s \<and> idempotency_refs s) (deleteExpired sqlNow)"
    using deleteExpired_ok by (auto simp: keeps_def) (auto simp: deleteExpired_def idempotency_refs_def)
  moreover have "keeps (\<lambda>s. idempotency_ok s \<and> idempotency_refs s) (insertPending (pendingRecord clock newID r))"
  proof (rule keepsI)
    fix s q s' assume "idempotency_ok s \<and> idempotency_refs s" "insertPending (pendingRecord clock newID r) s = (q, s')"
    with insertPending_changes [of "pendingRecord clock newID r" s q s'] show "idempotency_ok s' \<and> idempotency_refs s'"
      by (auto simp: insertPending_True_iff idempotency_ok_def idempotency_refs_def)
  qed
  ultimately show "keeps (\<lambda>s. idempotency_ok s \<and> idempotency_refs s) (IdempotencyRepository_CreatePending clock sqlNow newID r)"
    unfolding IdempotencyRepository_CreatePending_def by (intro keeps_intros)
  show "keeps (\<lambda>s. idempotency_ok s \<and> idempotency_refs s) (IdempotencyRepository_Complete n i k u m p c b)"
  proof (rule keepsI)
    fix s q and s' :: "'d db"
    assume ok: "idempotency_ok s \<and> idempotency_refs s" and run: "IdempotencyRepository_Complete n i k u m p c b s = (q, s')"
    have "ik_UserID (completedRecord n c b r) = ik_UserID r" for r by (simp add: completedRecord_def)
    then have "idempotency_refs s'" using ok run
      by (auto simp: IdempotencyRepository_Complete_def Let_def idempotency_refs_def split: if_splits)
    with Complete_ok run ok show "idempotency_ok s' \<and> idempotency_refs s'" by blast
  qed
qed

section \<open>The invariant of the whole database\<close>

definition app_ok :: "'d decimal_ops \<Rightarrow> 'd db \<Rightarrow> bool" where
  "app_ok D s \<longleftrightarrow> ledger_ok D s \<and> rules_ok (db_rules s) \<and> auth_ok s \<and> passkeys_ok s \<and> passkey_refs s \<and>
     goals_ok s \<and> limits_ok s \<and> idempotency_ok s \<and> idempotency_refs s"

lemma app_okD:
  assumes "app_ok D s"
  shows "ledger_ok D s" "rules_ok (db_rules s)" "auth_ok s" "passkeys_ok s" "passkey_refs s" "goals_ok s" "limits_ok s"
    "idempotency_ok s" "idempotency_refs s"
  using assms by (simp_all add: app_ok_def)

text \<open>What refers to other tables survives their growth.\<close>

lemma references_grow:
  assumes "db_grows s s'"
  shows "db_passkeys s' = db_passkeys s \<Longrightarrow> passkey_refs s \<Longrightarrow> passkey_refs s'"
    "db_goals s' = db_goals s \<Longrightarrow> goals_ok s \<Longrightarrow> goals_ok s'"
    "db_limits s' = db_limits s \<Longrightarrow> limits_ok s \<Longrightarrow> limits_ok s'"
    "db_idempotency s' = db_idempotency s \<Longrightarrow> idempotency_refs s \<Longrightarrow> idempotency_refs s'"
proof -
  show "db_passkeys s' = db_passkeys s \<Longrightarrow> passkey_refs s \<Longrightarrow> passkey_refs s'"
    "db_idempotency s' = db_idempotency s \<Longrightarrow> idempotency_refs s \<Longrightarrow> idempotency_refs s'"
    using assms by (auto simp: passkey_refs_def idempotency_refs_def db_grows_def)
  show "db_goals s' = db_goals s \<Longrightarrow> goals_ok s \<Longrightarrow> goals_ok s'"
    using goal_fks_grows [OF assms] by (simp add: goals_ok_def)
  show "db_limits s' = db_limits s \<Longrightarrow> limits_ok s \<Longrightarrow> limits_ok s'"
    using limit_fks_grows [OF assms] by (simp add: limits_ok_def)
qed

text \<open>A step is sound if it keeps the invariant and nothing shrinks.\<close>

definition sound :: "'d decimal_ops \<Rightarrow> ('d db \<Rightarrow> 'd db) \<Rightarrow> bool" where
  "sound D f \<longleftrightarrow> (\<forall>s. app_ok D s \<longrightarrow> app_ok D (f s) \<and> db_grows s (f s))"

lemma sound_ledger:
  assumes "ledger_operation D m" "\<And>t. keeps (beside_ledger t) m"
    "\<And>s. rules_ok (db_rules s) \<Longrightarrow> rules_ok (db_rules (snd (m s)))"
  shows "sound D (\<lambda>s. snd (m s))"
  unfolding sound_def
proof (intro allI impI)
  fix s assume ok: "app_ok D s"
  let ?t = "snd (m s)"
  have "beside_ledger s s" by (simp add: beside_ledger_def)
  with assms(2) have "beside_ledger s ?t" by (auto simp: keeps_def)
  then have b: "db_grows s ?t" "db_users ?t = db_users s" "db_tokens ?t = db_tokens s" "db_auth_audit ?t = db_auth_audit s"
    "db_passkeys ?t = db_passkeys s" "db_challenges ?t = db_challenges s" "db_goals ?t = db_goals s" "db_limits ?t = db_limits s"
    "db_idempotency ?t = db_idempotency s" by (simp_all add: beside_ledger_def)
  have "ledger_ok D ?t" using assms(1) app_okD(1) [OF ok] by (rule ledger_operation.ledger_ok_step)
  moreover have "auth_ok ?t" "passkeys_ok ?t" "idempotency_ok ?t"
    using app_okD [OF ok] b by (simp_all add: auth_ok_def passkeys_ok_def idempotency_ok_def)
  moreover have "passkey_refs ?t" "goals_ok ?t" "limits_ok ?t" "idempotency_refs ?t"
    using references_grow [OF b(1)] b app_okD [OF ok] by blast+
  ultimately show "app_ok D ?t \<and> db_grows s ?t" using assms(3) app_okD(2) [OF ok] b(1) by (simp add: app_ok_def)
qed

lemma sound_money:
  assumes "ledger_operation D m" "\<And>t. keeps (beside_ledger t) m" "\<And>rs. keeps (\<lambda>s. db_rules s = rs) m"
  shows "sound D (\<lambda>s. snd (m s))"
  using assms(1,2)
proof (rule sound_ledger)
  show "rules_ok (db_rules (snd (m s)))" if "rules_ok (db_rules s)" for s
    using that assms(3) [of "db_rules s"] by (simp add: keeps_def)
qed

lemma sound_auth:
  assumes "\<And>t. keeps (beside_auth t) m" "keeps auth_ok m"
  shows "sound D (\<lambda>s. snd (m s))"
  unfolding sound_def
proof (intro allI impI)
  fix s assume ok: "app_ok D s"
  let ?t = "snd (m s)"
  have b: "beside_auth s ?t" using assms(1) [of s] beside_auth_refl by (auto simp: keeps_def)
  then have g: "db_grows s ?t" by (simp add: beside_auth_def)
  have "auth_ok ?t" using assms(2) app_okD(3) [OF ok] by (simp add: keeps_def)
  moreover have "set (map a_ID (db_accounts ?t)) = set (map a_ID (db_accounts s))"
    "distinct (map a_ID (db_accounts ?t)) = distinct (map a_ID (db_accounts s))" using b unfolding beside_auth_def by metis+
  then have "ledger_ok D ?t" "rules_ok (db_rules ?t)" "passkeys_ok ?t" "idempotency_ok ?t"
    using app_okD [OF ok] b
    by (simp_all add: ledger_ok_def rows_ok_def passkeys_ok_def idempotency_ok_def beside_auth_def del: set_map)
  moreover have "passkey_refs ?t" "goals_ok ?t" "limits_ok ?t" "idempotency_refs ?t"
    using references_grow [OF g] b app_okD [OF ok] by (simp_all add: beside_auth_def)
  ultimately show "app_ok D ?t \<and> db_grows s ?t" using g by (simp add: app_ok_def)
qed

lemma sound_passkeys:
  assumes "\<And>t. keeps (\<lambda>st. beside_passkeys t (fst st)) m" "keeps (\<lambda>st. auth_ok (fst st)) m"
    "keeps (\<lambda>st. passkeys_ok (fst st)) m" "keeps (\<lambda>st. passkey_refs (fst st)) m"
  shows "sound D (\<lambda>s. fst (snd (m (s, u))))"
  unfolding sound_def
proof (intro allI impI)
  fix s assume ok: "app_ok D s"
  let ?t = "fst (snd (m (s, u)))"
  have "beside_passkeys s s" by (simp add: beside_passkeys_def beside_auth_refl)
  then have "beside_passkeys s ?t" using keeps_on_state [OF assms(1), of s "(s, u)"] by simp
  then have b: "db_grows s ?t" "map a_ID (db_accounts ?t) = map a_ID (db_accounts s)" "db_transactions ?t = db_transactions s"
    "db_transfers ?t = db_transfers s" "db_rules ?t = db_rules s" "db_goals ?t = db_goals s" "db_limits ?t = db_limits s"
    "db_idempotency ?t = db_idempotency s"
    by (simp_all add: beside_passkeys_def beside_auth_def db_grows_def)
  have "auth_ok ?t" "passkeys_ok ?t" "passkey_refs ?t"
    using keeps_on_state [OF assms(2), of "(s, u)"] keeps_on_state [OF assms(3), of "(s, u)"]
      keeps_on_state [OF assms(4), of "(s, u)"] app_okD [OF ok] by simp_all
  moreover have "set (map a_ID (db_accounts ?t)) = set (map a_ID (db_accounts s))" using b(2) by metis
  then have "ledger_ok D ?t" "rules_ok (db_rules ?t)" "idempotency_ok ?t"
    using app_okD [OF ok] b by (simp_all add: ledger_ok_def rows_ok_def idempotency_ok_def del: set_map)
  moreover have "goals_ok ?t" "limits_ok ?t" "idempotency_refs ?t"
    using references_grow [OF b(1)] b app_okD [OF ok] by blast+
  ultimately show "app_ok D ?t \<and> db_grows s ?t" using b(1) by (simp add: app_ok_def)
qed

text \<open>Steps that write one table of planning, or the store.\<close>

lemma app_ok_tables:
  assumes "app_ok D s"
  shows "goals_ok (s\<lparr>db_goals := gs\<rparr>) \<Longrightarrow> app_ok D (s\<lparr>db_goals := gs\<rparr>)"
    "limits_ok (s\<lparr>db_limits := ls\<rparr>) \<Longrightarrow> app_ok D (s\<lparr>db_limits := ls\<rparr>)"
    "set (map c_ID (db_categories s)) \<subseteq> set (map c_ID cs) \<Longrightarrow> app_ok D (s\<lparr>db_categories := cs\<rparr>)"
    "idempotency_ok (s\<lparr>db_idempotency := is\<rparr>) \<Longrightarrow> idempotency_refs (s\<lparr>db_idempotency := is\<rparr>) \<Longrightarrow>
      app_ok D (s\<lparr>db_idempotency := is\<rparr>)"
proof -
  note parts = ledger_ok_def rows_ok_def auth_ok_def passkeys_ok_def idempotency_ok_def
  have g: "db_grows s (s\<lparr>db_goals := gs\<rparr>)" "db_grows s (s\<lparr>db_limits := ls\<rparr>)" "db_grows s (s\<lparr>db_idempotency := is\<rparr>)"
    by (simp_all add: db_grows_def)
  note ok = app_okD [OF assms]
  show "goals_ok (s\<lparr>db_goals := gs\<rparr>) \<Longrightarrow> app_ok D (s\<lparr>db_goals := gs\<rparr>)"
    using ok references_grow [OF g(1)] by (simp add: app_ok_def parts)
  show "limits_ok (s\<lparr>db_limits := ls\<rparr>) \<Longrightarrow> app_ok D (s\<lparr>db_limits := ls\<rparr>)"
    using ok references_grow [OF g(2)] by (simp add: app_ok_def parts)
  show "idempotency_ok (s\<lparr>db_idempotency := is\<rparr>) \<Longrightarrow> idempotency_refs (s\<lparr>db_idempotency := is\<rparr>) \<Longrightarrow>
      app_ok D (s\<lparr>db_idempotency := is\<rparr>)"
    using ok references_grow [OF g(3)] by (simp add: app_ok_def parts)
  assume "set (map c_ID (db_categories s)) \<subseteq> set (map c_ID cs)"
  then have "db_grows s (s\<lparr>db_categories := cs\<rparr>)" by (simp add: db_grows_def)
  from ok references_grow [OF this] show "app_ok D (s\<lparr>db_categories := cs\<rparr>)" by (simp add: app_ok_def parts)
qed

lemma sound_table:
  assumes "\<And>s. \<exists>x. f s = upd x s" "\<And>s x. app_ok D s \<Longrightarrow> Q (upd x s) \<Longrightarrow> app_ok D (upd x s)"
    "\<And>s x. db_grows s (upd x s)" "\<And>s. app_ok D s \<Longrightarrow> Q (f s)"
  shows "sound D f"
  using assms unfolding sound_def by metis

lemma one_table:
  fixes m :: "('d, 'a) dbstm"
  shows
  "(\<And>t gs. keeps (\<lambda>s. s\<lparr>db_goals := gs\<rparr> = t) m) \<Longrightarrow> \<exists>gs. snd (m t) = t\<lparr>db_goals := gs\<rparr>"
  "(\<And>t ls. keeps (\<lambda>s. s\<lparr>db_limits := ls\<rparr> = t) m) \<Longrightarrow> \<exists>ls. snd (m t) = t\<lparr>db_limits := ls\<rparr>"
  "(\<And>t is. keeps (\<lambda>s. s\<lparr>db_idempotency := is\<rparr> = t) m) \<Longrightarrow> \<exists>is. snd (m t) = t\<lparr>db_idempotency := is\<rparr>"
proof -
  have same: "t\<lparr>db_goals := db_goals t\<rparr> = t" "t\<lparr>db_limits := db_limits t\<rparr> = t" "t\<lparr>db_idempotency := db_idempotency t\<rparr> = t"
    for t :: "'d db" by simp_all
  have inverse: "s\<lparr>db_goals := x\<rparr> = t \<Longrightarrow> s = t\<lparr>db_goals := db_goals s\<rparr>"
    "s\<lparr>db_limits := y\<rparr> = t \<Longrightarrow> s = t\<lparr>db_limits := db_limits s\<rparr>"
    "s\<lparr>db_idempotency := z\<rparr> = t \<Longrightarrow> s = t\<lparr>db_idempotency := db_idempotency s\<rparr>" for s t :: "'d db" and x y z by auto
  show "\<exists>gs. snd (m t) = t\<lparr>db_goals := gs\<rparr>" if "\<And>t gs. keeps (\<lambda>s. s\<lparr>db_goals := gs\<rparr> = t) m"
    using that [of "db_goals t" t] same(1) [of t] inverse(1) unfolding keeps_def by blast
  show "\<exists>ls. snd (m t) = t\<lparr>db_limits := ls\<rparr>" if "\<And>t ls. keeps (\<lambda>s. s\<lparr>db_limits := ls\<rparr> = t) m"
    using that [of "db_limits t" t] same(2) [of t] inverse(2) unfolding keeps_def by blast
  show "\<exists>is. snd (m t) = t\<lparr>db_idempotency := is\<rparr>" if "\<And>t is. keeps (\<lambda>s. s\<lparr>db_idempotency := is\<rparr> = t) m"
    using that [of "db_idempotency t" t] same(3) [of t] inverse(3) unfolding keeps_def by blast
qed

lemma sound_goals:
  fixes m :: "('d, 'a) dbstm"
  assumes "\<And>t x. keeps (\<lambda>s. s\<lparr>db_goals := x\<rparr> = t) m" "keeps goals_ok m"
  shows "sound D (\<lambda>s. snd (m s))"
proof (rule sound_table [where upd = "\<lambda>x s. s\<lparr>db_goals := x\<rparr>" and Q = "goals_ok"])
  show "\<exists>x. snd (m s) = s\<lparr>db_goals := x\<rparr>" for s by (rule one_table(1)) (rule assms(1))
qed (use assms(2) in \<open>auto simp: db_grows_def keeps_def intro: app_ok_tables dest: app_okD(6-9)\<close>)

lemma sound_limits:
  fixes m :: "('d, 'a) dbstm"
  assumes "\<And>t x. keeps (\<lambda>s. s\<lparr>db_limits := x\<rparr> = t) m" "keeps limits_ok m"
  shows "sound D (\<lambda>s. snd (m s))"
proof (rule sound_table [where upd = "\<lambda>x s. s\<lparr>db_limits := x\<rparr>" and Q = "limits_ok"])
  show "\<exists>x. snd (m s) = s\<lparr>db_limits := x\<rparr>" for s by (rule one_table(2)) (rule assms(1))
qed (use assms(2) in \<open>auto simp: db_grows_def keeps_def intro: app_ok_tables dest: app_okD(6-9)\<close>)

lemma sound_store:
  fixes m :: "('d, 'a) dbstm"
  assumes "\<And>t x. keeps (\<lambda>s. s\<lparr>db_idempotency := x\<rparr> = t) m" "keeps (\<lambda>s. idempotency_ok s \<and> idempotency_refs s) m"
  shows "sound D (\<lambda>s. snd (m s))"
proof (rule sound_table [where upd = "\<lambda>x s. s\<lparr>db_idempotency := x\<rparr>" and Q = "\<lambda>s. idempotency_ok s \<and> idempotency_refs s"])
  show "\<exists>x. snd (m s) = s\<lparr>db_idempotency := x\<rparr>" for s by (rule one_table(3)) (rule assms(1))
qed (use assms(2) in \<open>auto simp: db_grows_def keeps_def intro: app_ok_tables dest: app_okD(6-9)\<close>)


lemma sound_category:
  fixes D :: "'d decimal_ops"
  shows "sound D (\<lambda>s. snd (CategoryService_Create newID now r s))"
  unfolding sound_def
proof (intro allI impI)
  fix s :: "'d db" assume ok: "app_ok D s"
  let ?t = "snd (CategoryService_Create newID now r s)"
  have inverse: "t\<lparr>db_categories := cs\<rparr> = u \<Longrightarrow> t = u\<lparr>db_categories := db_categories t\<rparr>" for t u :: "'d db" and cs by auto
  have t: "?t\<lparr>db_categories := db_categories s\<rparr> = s" "set (map c_ID (db_categories s)) \<subseteq> set (map c_ID (db_categories ?t))"
    using keeps_one_table(5) [of "db_categories s" s "db_categories s" newID now r] by (auto simp: keeps_def)
  have "db_grows s (s\<lparr>db_categories := db_categories ?t\<rparr>)" using t(2) by (simp add: db_grows_def)
  then show "app_ok D ?t \<and> db_grows s ?t"
    using app_ok_tables(3) [OF ok t(2)] inverse [OF t(1)] by simp
qed

section \<open>The program\<close>

text \<open>One step is one operation, on the database and the time of the last cleanup of challenges.\<close>

definition on_db :: "('d db \<Rightarrow> 'r \<times> 'd db) \<Rightarrow> 'd db \<times> time \<Rightarrow> 'd db \<times> time" where
  "on_db m st = (snd (m (fst st)), snd st)"

inductive system_step ::
  "'d decimal_ops \<Rightarrow> (string \<Rightarrow> bool) \<Rightarrow> ('s, 'c, 'a, 'o) webauthn_lib \<Rightarrow> auth_service \<Rightarrow> 'd db \<times> time \<Rightarrow> 'd db \<times> time \<Rightarrow> bool"
  for D uuidParse W A where
  account_create: "system_step D uuidParse W A st (on_db (AccountService_Create D ctx i eid now account_req) st)"
| account_update: "system_step D uuidParse W A st (on_db (AccountService_UpdateForUser D ctx eid now account_upd) st)"
| account_archive: "system_step D uuidParse W A st (on_db (AccountService_ArchiveForUser D ctx eid now i u) st)"
| transaction_create: "system_step D uuidParse W A st (on_db (TransactionService_CreateForUser D uuidParse ctx tid eid now u tx_req) st)"
| transaction_internal: "system_step D uuidParse W A st (on_db (TransactionService_Create D uuidParse ctx tid now tx_req) st)"
| transaction_many: "system_step D uuidParse W A st (on_db (TransactionService_CreateMany D uuidParse ctx now tx_reqs) st)"
| transaction_cancel: "system_step D uuidParse W A st (on_db (TransactionService_CancelForUser D eid now u tid) st)"
| transaction_delete: "system_step D uuidParse W A st (on_db (TransactionService_SoftDeleteForUser D eid now u tid) st)"
| transaction_reverse: "system_step D uuidParse W A st (on_db (TransactionService_ReverseForUser D rid eid eid' now u tid) st)"
| adjustment: "system_step D uuidParse W A st (on_db (AdjustmentService_Create D uuidParse ctx tid now adj_req) st)"
| transfer: "system_step D uuidParse W A st (on_db (TransferService_Create D uuidParse latest ctx xids now x_req) st)"
| rule_create: "system_step D uuidParse W A st (on_db (InterestRuleService_Create D ctx rid eid now rule_req) st)"
| rule_update: "system_step D uuidParse W A st (on_db (InterestRuleService_UpdateForUser D eid now rule_upd) st)"
| accrue: "system_step D uuidParse W A st (on_db (InterestLifecycle_Accrue D uuidParse ctx ids now accrue_req) st)"
| recalculate: "system_step D uuidParse W A st (on_db (InterestLifecycle_Recalculate D uuidParse ctx ids' now recalc_req) st)"
| daily_job: "system_step D uuidParse W A st (on_db (RunDailyInterestAccrual D uuidParse order env job clock) st)"
| monthly_job: "system_step D uuidParse W A st (on_db (RunMonthlyInterestAccrual D uuidParse order env job clock) st)"
| maturity_job: "system_step D uuidParse W A st (on_db (RunDepositMaturityCheck D uuidParse order env job clock) st)"
| category_create: "system_step D uuidParse W A st (on_db (CategoryService_Create newID now category_req) st)"
| goal_create: "system_step D uuidParse W A st (on_db (FinancialGoalService_Create D newID now goal_req) st)"
| goal_update: "system_step D uuidParse W A st (on_db (FinancialGoalService_Update D now goal_upd) st)"
| limit_create: "system_step D uuidParse W A st (on_db (CategoryLimitService_Create D newID now limit_req) st)"
| limit_update: "system_step D uuidParse W A st (on_db (CategoryLimitService_Update D now limit_upd) st)"
| profile: "system_step D uuidParse W A st (on_db (ProfileService_Update ctx eid now clock profile_req) st)"
| first_setup: "system_step D uuidParse W A st (on_db (Setup A E ctx auth_req) st)"
| login: "system_step D uuidParse W A st (on_db (Login A E ctx auth_req) st)"
| refresh: "system_step D uuidParse W A st (on_db (Refresh A E ctx raw) st)"
| logout: "system_step D uuidParse W A st (on_db (Logout A E ctx raw) st)"
| change_password: "system_step D uuidParse W A st (on_db (ChangePassword A E ctx password_req) st)"
| list_sessions: "system_step D uuidParse W A st (on_db (ListSessions A E ctx u sid) st)"
| revoke_session: "system_step D uuidParse W A st (on_db (RevokeSession A E ctx u sid) st)"
| passkey_options: "system_step D uuidParse W A st (snd (RegistrationOptions W A E ctx passkey_req st))"
| passkey_register: "system_step D uuidParse W A st (snd (VerifyRegistration W A E u body st))"
| passkey_login_options: "system_step D uuidParse W A st (snd (LoginOptions W A E st))"
| passkey_login: "system_step D uuidParse W A st (snd (VerifyLogin W A E ctx body st))"
| passkey_list: "system_step D uuidParse W A st (snd (PasskeyService_List u st))"
| passkey_rename: "system_step D uuidParse W A st (snd (PasskeyService_Rename A E rename_req st))"
| passkey_delete: "system_step D uuidParse W A st (snd (PasskeyService_Delete A E delete_req st))"
| key_pending: "system_step D uuidParse W A st (on_db (IdempotencyRepository_CreatePending clock now newID record) st)"
| key_complete: "system_step D uuidParse W A st (on_db (IdempotencyRepository_Complete now newID k u method path code body) st)"
| command_account: "system_step D uuidParse W A st (on_db (Command_CreateAccount D ctx i eid now account_cmd) st)"
| command_transaction: "system_step D uuidParse W A st (on_db (Command_CreateTransaction D uuidParse ctx tid eid now tx_cmd) st)"
| command_accrue: "system_step D uuidParse W A st (on_db (Command_AccrueInterest D uuidParse ctx ids now interest_cmd) st)"
| command_recalculate: "system_step D uuidParse W A st (on_db (Command_RecalculateInterest D uuidParse ctx ids' now interest_cmd) st)"
| command_job: "system_step D uuidParse W A st (on_db (Command_RunInterestJob D uuidParse order env free name date) st)"
| command_import:
    "system_step D uuidParse W A st
       (on_db (Command_ImportLegacyDeposits D rates import_env (snapshot :: err + 64 word Deposit list) owner) st)"

abbreviation "system_steps D uuidParse W A \<equiv> (system_step D uuidParse W A)\<^sup>*\<^sup>*"

lemmas ledger_operations =
  account_service_create.ledger_operation_axioms account_service_update.ledger_operation_axioms
  account_service_archive.ledger_operation_axioms service_create.ledger_operation_axioms
  service_create_for_user.ledger_operation_axioms service_create_many.ledger_operation_axioms
  service_cancel.ledger_operation_axioms service_soft_delete.ledger_operation_axioms
  service_reverse.ledger_operation_axioms service_adjust.ledger_operation_axioms
  service_transfer.ledger_operation_axioms lifecycle_accrue.ledger_operation_axioms
  lifecycle_recalculate.ledger_operation_axioms command_create_account.ledger_operation_axioms
  command_create_transaction.ledger_operation_axioms command_accrue.ledger_operation_axioms
  command_recalculate.ledger_operation_axioms

lemma sound_money_services:
  "sound D (\<lambda>s. snd (AccountService_Create D ctx i eid now ar s))"
  "sound D (\<lambda>s. snd (AccountService_UpdateForUser D ctx eid now au s))"
  "sound D (\<lambda>s. snd (AccountService_ArchiveForUser D ctx eid now i u s))"
  "sound D (\<lambda>s. snd (TransactionService_CreateForUser D uuidParse ctx tid eid now u tr s))"
  "sound D (\<lambda>s. snd (TransactionService_Create D uuidParse ctx tid now tr s))"
  "sound D (\<lambda>s. snd (TransactionService_CreateMany D uuidParse ctx now trs s))"
  "sound D (\<lambda>s. snd (TransactionService_CancelForUser D eid now u tid s))"
  "sound D (\<lambda>s. snd (TransactionService_SoftDeleteForUser D eid now u tid s))"
  "sound D (\<lambda>s. snd (TransactionService_ReverseForUser D rid eid eid' now u tid s))"
  "sound D (\<lambda>s. snd (AdjustmentService_Create D uuidParse ctx tid now jr s))"
  "sound D (\<lambda>s. snd (TransferService_Create D uuidParse latest ctx xids now xr s))"
  "sound D (\<lambda>s. snd (InterestLifecycle_Accrue D uuidParse ctx ids now lr s))"
  "sound D (\<lambda>s. snd (InterestLifecycle_Recalculate D uuidParse ctx ids' now cr s))"
  "sound D (\<lambda>s. snd (Command_CreateAccount D ctx i eid now ca s))"
  "sound D (\<lambda>s. snd (Command_CreateTransaction D uuidParse ctx tid eid now ct s))"
  "sound D (\<lambda>s. snd (Command_AccrueInterest D uuidParse ctx ids now ci s))"
  "sound D (\<lambda>s. snd (Command_RecalculateInterest D uuidParse ctx ids' now ci s))"
  by (intro sound_money ledger_operations ledger_access.keeps_ledger_services ledger_rules.keeps_ledger_services)+

lemma sound_rule_services:
  "sound D (\<lambda>s. snd (InterestRuleService_Create D ctx rid eid now rr s))"
  "sound D (\<lambda>s. snd (InterestRuleService_UpdateForUser D eid now ru s))"
proof -
  show "sound D (\<lambda>s. snd (InterestRuleService_Create D ctx rid eid now rr s))"
    using service_rule_create.ledger_operation_axioms rule_access.keeps_rule_services(1) service_rule_create_rules_ok by (rule sound_ledger)
  show "sound D (\<lambda>s. snd (InterestRuleService_UpdateForUser D eid now ru s))"
    using service_rule_update.ledger_operation_axioms rule_access.keeps_rule_services(2) service_rule_update_rules_ok by (rule sound_ledger)
qed

lemma sound_job: "sound D (\<lambda>s. snd (job_run D uuidParse order env job jobName frequency date s))"
  unfolding sound_def
proof (intro allI impI)
  fix s :: "'a db" assume ok: "app_ok D s"
  have "keeps (\<lambda>t. app_ok D t \<and> db_grows s t) (InterestLifecycle_Accrue D uuidParse None ids now r)" for ids now r
    using sound_money_services(12) unfolding sound_def keeps_def by (blast intro: db_grows_trans)
  from job_run_keeps [OF this] ok
  show "app_ok D (snd (job_run D uuidParse order env job jobName frequency date s)) \<and>
      db_grows s (snd (job_run D uuidParse order env job jobName frequency date s))"
    by simp
qed

text \<open>The import of legacy deposits is its writes one after another.\<close>

lemma rules_ok_step:
  assumes "\<And>u s'. m s = (Inr u, s') \<Longrightarrow> rules_ok (db_rules s')" "\<And>e s'. m s = (Inl e, s') \<Longrightarrow> s' = s" "rules_ok (db_rules s)"
  shows "rules_ok (db_rules (snd (m s)))"
  using assms by (cases "m s"; cases "fst (m s)") auto

lemma sound_import_writes:
  "sound D (\<lambda>s. snd (CreateMigratedDeposit D account rule transaction s))"
  "sound D (\<lambda>s. snd (InterestRuleRepository_Create D eid now rule s))"
  "sound D (\<lambda>s. snd (TransactionRepository_Create D transaction s))"
proof -
  show "sound D (\<lambda>s. snd (CreateMigratedDeposit D account rule transaction s))"
    using migrated_deposit.ledger_operation_axioms
  proof (rule sound_ledger)
    show "keeps (beside_ledger t) (CreateMigratedDeposit D account rule transaction)" for t :: "'a db"
      unfolding CreateMigratedDeposit_def by (intro ledger_access.ledger_keeps rule_access.insert_rule)
  qed (rule rules_ok_step, erule (1) CreateMigratedDeposit_rules_ok, erule migrated_deposit.atomic)
  show "sound D (\<lambda>s. snd (InterestRuleRepository_Create D eid now rule s))"
    using rule_create.ledger_operation_axioms rule_access.keeps_rule_create
    by (rule sound_ledger) (rule rules_ok_step, erule (1) InterestRuleRepository_Create_rules_ok, erule rule_create.atomic)
  show "sound D (\<lambda>s. snd (TransactionRepository_Create D transaction s))"
    unfolding TransactionRepository_Create_def
    by (intro sound_money operation_wrapped pg_tx_operation keeps_intros ledger_access.ledger_keeps ledger_rules.ledger_keeps)
qed

interpretation import_access: import_store D "\<lambda>t. app_ok D t \<and> db_grows s t" for D :: "'d decimal_ops" and s
proof
  have sound: "sound D (\<lambda>s. snd (m s)) \<Longrightarrow> keeps (\<lambda>t. app_ok D t \<and> db_grows s t) m" for m :: "('d, 'a) dbstm"
    unfolding sound_def keeps_def by (blast intro: db_grows_trans)
  show "keeps (\<lambda>t. app_ok D t \<and> db_grows s t) (CreateMigratedDeposit D account rule transaction)" for account rule transaction
    by (rule sound) (rule sound_import_writes)
  show "keeps (\<lambda>t. app_ok D t \<and> db_grows s t) (InterestRuleRepository_Create D eid now rule)" for eid now rule
    by (rule sound) (rule sound_import_writes)
  show "keeps (\<lambda>t. app_ok D t \<and> db_grows s t) (TransactionRepository_Create D transaction)" for transaction
    by (rule sound) (rule sound_import_writes)
qed

lemma sound_import: "sound D (\<lambda>s. snd (Command_ImportLegacyDeposits D F env load owner s))"
  unfolding sound_def
proof (intro allI impI)
  fix s assume ok: "app_ok D s"
  have "keeps (\<lambda>t. app_ok D t \<and> db_grows s t) (Command_ImportLegacyDeposits D F env load owner)"
    by (rule keeps_command_import) (rule import_access.importDeposits_keeps)
  with ok show "app_ok D (snd (Command_ImportLegacyDeposits D F env load owner s)) \<and>
      db_grows s (snd (Command_ImportLegacyDeposits D F env load owner s))" by (simp add: keeps_def)
qed

lemma sound_auth_services:
  "sound D (\<lambda>s. snd (Setup A E ctx ar s))" "sound D (\<lambda>s. snd (Login A E ctx ar s))"
  "sound D (\<lambda>s. snd (Refresh A E ctx raw s))" "sound D (\<lambda>s. snd (Logout A E ctx raw s))"
  "sound D (\<lambda>s. snd (ChangePassword A E ctx cr s))" "sound D (\<lambda>s. snd (ListSessions A E ctx u sid s))"
  "sound D (\<lambda>s. snd (RevokeSession A E ctx u sid s))"
  by (intro sound_auth auth_access.keeps_service schema.keeps_service)+

lemma sound_profile: "sound D (\<lambda>s. snd (ProfileService_Update ctx eid now clock pr s))"
proof (rule sound_auth)
  show "keeps (beside_auth t) (ProfileService_Update ctx eid now clock pr)" for t :: "'a db"
    unfolding ProfileService_Update_def Let_def
    by (intro keeps_intros auth_access.primary_currency auth_access.keeps_reads)
  show "keeps (auth_ok :: 'a db \<Rightarrow> bool) (ProfileService_Update ctx eid now clock pr)"
    unfolding ProfileService_Update_def Let_def by (intro keeps_intros schema.primary_currency schema.keeps_reads)
qed

lemma sound_passkey_services:
  "sound D (\<lambda>s. fst (snd (RegistrationOptions W A E ctx po (s, u))))"
  "sound D (\<lambda>s. fst (snd (VerifyRegistration W A E i body (s, u))))"
  "sound D (\<lambda>s. fst (snd (LoginOptions W A E (s, u))))"
  "sound D (\<lambda>s. fst (snd (VerifyLogin W A E ctx body (s, u))))"
  "sound D (\<lambda>s. fst (snd (PasskeyService_List i (s, u))))"
  "sound D (\<lambda>s. fst (snd (PasskeyService_Rename A E rn (s, u))))"
  "sound D (\<lambda>s. fst (snd (PasskeyService_Delete A E pd (s, u))))"
  by (rule sound_passkeys; intro passkey_access.keeps_passkey_service passkey_auth.keeps_passkey_service
      keys.keeps_passkey_service passkey_users.keeps_passkey_service; simp)+

lemma sound_planning:
  "sound D (\<lambda>s. snd (FinancialGoalService_Create D newID now gc s))" "sound D (\<lambda>s. snd (FinancialGoalService_Update D now gu s))"
  "sound D (\<lambda>s. snd (CategoryLimitService_Create D newID now lc s))" "sound D (\<lambda>s. snd (CategoryLimitService_Update D now lu s))"
  "sound D (\<lambda>s. snd (IdempotencyRepository_CreatePending clock now newID r s))"
  "sound D (\<lambda>s. snd (IdempotencyRepository_Complete now newID k u m p c b s))"
  by (intro sound_goals sound_limits sound_store keeps_one_table keeps_goals_ok keeps_limits_ok keeps_idempotency keeps_idempotency_ok)+

lemma sound_jobs:
  "sound D (\<lambda>s. snd (RunDailyInterestAccrual D uuidParse order env job clock s))"
  "sound D (\<lambda>s. snd (RunMonthlyInterestAccrual D uuidParse order env job clock s))"
  "sound D (\<lambda>s. snd (RunDepositMaturityCheck D uuidParse order env job clock s))"
  unfolding RunDailyInterestAccrual_def RunMonthlyInterestAccrual_def RunDepositMaturityCheck_def by (rule sound_job)+

lemma sound_command_job: "sound D (\<lambda>s. snd (Command_RunInterestJob D uuidParse order env free name date s))"
  unfolding sound_def
proof (intro allI impI)
  fix s :: "'a db" assume ok: "app_ok D s"
  have step: "app_ok D (f s) \<and> db_grows s (f s)" if "sound D f" for f using that ok by (simp add: sound_def)
  show "app_ok D (snd (Command_RunInterestJob D uuidParse order env free name date s)) \<and>
      db_grows s (snd (Command_RunInterestJob D uuidParse order env free name date s))"
    by (rule command_job_keeps [where P = "\<lambda>t. app_ok D t \<and> db_grows s t"])
      (simp add: ok, (rule step, rule sound_jobs)+)
qed

lemmas sound_services = sound_money_services sound_rule_services sound_import sound_command_job sound_jobs sound_auth_services sound_profile sound_planning
  sound_category sound_passkey_services

lemma sound_on_db:
  "sound D (\<lambda>s. snd (m s)) \<Longrightarrow> app_ok D (fst st) \<Longrightarrow> app_ok D (fst (on_db m st)) \<and> db_grows (fst st) (fst (on_db m st))"
  by (simp add: sound_def on_db_def)

lemma sound_on_state:
  assumes "\<And>u. sound D (\<lambda>s. fst (snd (m (s, u))))" "app_ok D (fst st)"
  shows "app_ok D (fst (snd (m st))) \<and> db_grows (fst st) (fst (snd (m st)))"
  using assms(1) [of "snd st"] assms(2) by (cases st) (simp add: sound_def)

lemma system_step_sound:
  "system_step D uuidParse W A st st' \<Longrightarrow> app_ok D (fst st) \<Longrightarrow> app_ok D (fst st') \<and> db_grows (fst st) (fst st')"
  by (induction rule: system_step.induct) (rule sound_on_db sound_on_state, rule sound_services, assumption)+

lemma system_steps_sound:
  assumes "system_steps D uuidParse W A st st'" "app_ok D (fst st)"
  shows "app_ok D (fst st') \<and> db_grows (fst st) (fst st')"
  using assms
proof (induction rule: rtranclp_induct)
  case (step t u)
  with system_step_sound [OF step.hyps(2)] show ?case by (blast intro: db_grows_trans)
qed simp

text \<open>The database the migrations leave: their categories and nothing else.\<close>

lemma app_ok_initial: "app_ok D (empty_db\<lparr>db_categories := cs\<rparr>)"
  by (simp add: app_ok_def ledger_ok_def rows_ok_def rules_ok_def auth_ok_def passkeys_ok_def passkey_refs_def goals_ok_def
      limits_ok_def idempotency_ok_def idempotency_refs_def empty_db_def)


definition sample_setup_request :: AuthRequest where
  "sample_setup_request = \<lparr>aq_Email = ''new@b'', aq_Password = ''correct horse battery'', aq_PrimaryCurrency = ''''\<rparr>"

definition set_up_db :: "dec db" where
  "set_up_db = snd (Setup sample_auth sample_env None sample_setup_request empty_db)"

definition sample_account_request :: CreateAccountRequest where
  "sample_account_request = \<lparr>ca_OwnerUserID = ''id2'', ca_Name = ''Cash'', ca_Bank = '''', ca_Type = ''cash'',
     ca_Currency = ''RUB'', ca_OpenedAt = day_time 738000\<rparr>"

lemma sample_system_run:
  "map u_ID (db_users set_up_db) = [''id2'']"
  "map a_OwnerUserID (db_accounts (snd (AccountService_Create dec_ops None ''A'' ''e1'' (day_time 738001)
     (Some sample_account_request) set_up_db))) = [Some ''id2'']"
  by code_simp+


end
