(* ===== verification/Invariants.thy ===== *)
theory Invariants
  imports System
begin

text \<open>
  Invariants of the whole program. \<open>system_property\<close> is what a property of the database has to meet to
  be kept by every step of the program: the statements of the ledger, of the rules and of the sessions
  keep it, so does the first setup, and it does not look at the tables of planning, of passkeys and of
  the idempotency store. \<open>system_step_keeps\<close> concludes that all operations, jobs and commands keep it;
  \<^verbatim>\<open>Ownership\<close> and \<^verbatim>\<open>Currency\<close> interpret it for theirs.
\<close>

section \<open>The interface\<close>

text \<open>What follows along a relation that the statements of sessions keep, they keep too.\<close>

lemma session_statements_along:
  assumes "\<And>t. session_statements (R t)" "\<And>s. R s s" "\<And>s s'. P s \<Longrightarrow> R s s' \<Longrightarrow> P s'"
  shows "session_statements P"
proof -
  note statements = session_statements.insert_token [OF assms(1)] session_statements.insert_audit [OF assms(1)]
    session_statements.revoke_any [OF assms(1)] session_statements.clear_failures [OF assms(1)]
    session_statements.record_failure [OF assms(1)] session_statements.new_password [OF assms(1)]
    session_statements.primary_currency [OF assms(1)]
  show ?thesis
    by unfold_locales
      (rule keeps_relation [where R = R], rule statements, (assumption+)?, rule assms(2), erule assms(3), assumption)+
qed

locale system_property =
  guarded_ledger D P + rule_statements P + session_statements P
  for D :: "'d decimal_ops" and P :: "'d db \<Rightarrow> bool" +
  assumes first_user: "keeps P (UserRepository_Setup sqlNow user token event)"
    and other_tables [simp]:
      "P (s\<lparr>db_passkeys := ps\<rparr>) = P s" "P (s\<lparr>db_challenges := cs\<rparr>) = P s" "P (s\<lparr>db_goals := gs\<rparr>) = P s"
      "P (s\<lparr>db_limits := ms\<rparr>) = P s" "P (s\<lparr>db_categories := qs\<rparr>) = P s" "P (s\<lparr>db_idempotency := is\<rparr>) = P s"
begin

text \<open>The setup of a program whose user store creates the first user in one transaction.\<close>

lemma keeps_first_setup: "as_setupRepo A \<Longrightarrow> keeps P (Setup A E ctx req)"
  unfolding Setup_def setupAtomic_def
  by (intro keeps_intros keeps_reads keeps_audit first_user) simp

text \<open>The services that change one table of their own.\<close>

lemma keeps_planning:
  "keeps P (CategoryService_Create newID now category_req)"
  "keeps P (FinancialGoalService_Create D newID now goal_req)" "keeps P (FinancialGoalService_Update D now goal_upd)"
  "keeps P (CategoryLimitService_Create D newID now limit_req)" "keeps P (CategoryLimitService_Update D now limit_upd)"
  unfolding CategoryService_Create_def CategoryRepository_Create_def FinancialGoalService_Create_def
    FinancialGoalService_Update_def CategoryLimitService_Create_def CategoryLimitService_Update_def
    FinancialGoalRepository_Create_def FinancialGoalRepository_UpdateForUser_def CategoryLimitRepository_Create_def
    CategoryLimitRepository_UpdateForUser_def Let_def
  by (intro keeps_intros keeps_swrite; simp)+

lemma keeps_profile: "keeps P (ProfileService_Update ctx eid now clock profile_req)"
  unfolding ProfileService_Update_def Let_def by (intro keeps_intros primary_currency keeps_reads)

lemma keeps_store:
  "keeps P (IdempotencyRepository_CreatePending clock now newID record)"
  "keeps P (IdempotencyRepository_Complete now newID k u method path code body)"
  by (auto simp: keeps_def IdempotencyRepository_CreatePending_def sbind_def swrap_def deleteExpired_def insertPending_def
      IdempotencyRepository_Complete_def Let_def split: sum.splits)

text \<open>The jobs are accruals one after another.\<close>

lemma jobs_keep:
  assumes "P s"
  shows "P (snd (RunDailyInterestAccrual D uuidParse order env job clock s))"
    "P (snd (RunMonthlyInterestAccrual D uuidParse order env job clock s))"
    "P (snd (RunDepositMaturityCheck D uuidParse order env job clock s))"
  unfolding RunDailyInterestAccrual_def RunMonthlyInterestAccrual_def RunDepositMaturityCheck_def
  using keeps_lifecycle(1) assms by (rule job_run_keeps)+

lemma named_job_keeps: "P s \<Longrightarrow> P (snd (Command_RunInterestJob D uuidParse order env free name date s))"
  by (rule command_job_keeps) (simp_all add: jobs_keep)

end

text \<open>The import and the passkeys write through the same statements and through tables of their own.\<close>

sublocale system_property \<subseteq> import_store D P
proof
  show "keeps P (CreateMigratedDeposit D account rule transaction)" for account rule transaction
    unfolding CreateMigratedDeposit_def by (intro ledger_keeps insert_rule)
  show "keeps P (InterestRuleRepository_Create D eid now rule)" for eid now rule by (rule keeps_rule_create)
  show "keeps P (TransactionRepository_Create D transaction)" for transaction
    unfolding TransactionRepository_Create_def by (intro ledger_keeps)
qed

sublocale system_property \<subseteq> passkey_operations P "\<lambda>_. True"
proof
  show "keeps P (Audit A E ev email uid success reason)" for A E ev email uid success reason by (rule keeps_audit)
  show "keeps P (ConfirmPassword A E ctx user password)" for A E ctx user password by (rule keeps_ConfirmPassword)
  show "keeps P (IssueSessionForUser A E ctx userID)" for A E ctx userID by (rule keeps_IssueSessionForUser)
qed (unfold passkey_statements, (intro keeps_intros keeps_swrite; simp)+)

section \<open>Every step of the program\<close>

lemma on_db_keeps: "keeps P m \<Longrightarrow> P (fst st) \<Longrightarrow> P (fst (on_db m st))"
  by (simp add: keeps_def on_db_def)

lemma on_db_run: "(\<And>s. P s \<Longrightarrow> P (snd (m s))) \<Longrightarrow> P (fst st) \<Longrightarrow> P (fst (on_db m st))"
  by (simp add: on_db_def)

lemma on_state_keeps: "keeps (\<lambda>st. P (fst st)) m \<Longrightarrow> P (fst st) \<Longrightarrow> P (fst (snd (m st)))"
  by (cases st) (simp add: keeps_def)

context system_property
begin

lemma import_keeps_it: "keeps P (Command_ImportLegacyDeposits D F env load owner)"
  by (rule keeps_command_import) (rule importDeposits_keeps)

lemma system_step_keeps:
  assumes "as_setupRepo A" "system_step D uuidParse W A st st'" "P (fst st)"
  shows "P (fst st')"
  using assms(2,3)
  by (induction rule: system_step.induct)
    ((rule on_db_keeps, rule keeps_ledger_services keeps_rule_services keeps_planning keeps_profile
        keeps_first_setup [OF assms(1)] keeps_session_service keeps_store import_keeps_it
      | rule on_db_run, erule jobs_keep named_job_keeps
      | rule on_state_keeps, rule keeps_passkey_service, (rule TrueI)?), assumption)+

lemma system_steps_keep:
  assumes "as_setupRepo A" "system_steps D uuidParse W A st st'" "P (fst st)"
  shows "P (fst st')"
  using assms(2,3) by (induction rule: rtranclp_induct) (auto intro: system_step_keeps [OF assms(1)])

end

end
