(* ===== verification/Ownership.thy ===== *)
theory Ownership
  imports Invariants
begin

text \<open>
  Whose the accounts are. Accounts come from requests, from the command line and from imports, with an
  owner or without one; users come from \<^verbatim>\<open>Setup\<close> alone, which takes over the accounts that have no
  owner, and \<^verbatim>\<open>insertAccount\<close> gives an account without owner to the only user. None of these knows of
  the others; together they keep \<open>single_owner\<close>: there is at most one user, and every account belongs
  to this user as soon as there is one. The user store is the one of PostgreSQL, which creates the
  first user and takes over the accounts in one transaction (\<open>as_setupRepo\<close>).
\<close>

section \<open>The invariant\<close>

definition single_owner :: "'d db \<Rightarrow> bool" where
  "single_owner s \<longleftrightarrow> length (db_users s) \<le> 1 \<and> (\<forall>a\<in>set (db_accounts s). a_OwnerUserID a = sole_user s)"

text \<open>It looks at the ids of the users and the owners of the accounts only.\<close>

lemma sole_user_ids: "sole_user s = (case map u_ID (db_users s) of [i] \<Rightarrow> Some i | _ \<Rightarrow> None)"
  by (auto simp: sole_user_def split: list.splits)

definition same_owners :: "'d db \<Rightarrow> 'd db \<Rightarrow> bool" where
  "same_owners s s' \<longleftrightarrow> map u_ID (db_users s') = map u_ID (db_users s) \<and>
     map a_OwnerUserID (db_accounts s') = map a_OwnerUserID (db_accounts s)"

lemma single_owner_iff:
  "single_owner s \<longleftrightarrow> length (map u_ID (db_users s)) \<le> 1 \<and> (\<forall>i\<in>set (map a_OwnerUserID (db_accounts s)). i = sole_user s)"
  by (simp add: single_owner_def)

lemma same_owners_keeps: "single_owner s \<Longrightarrow> same_owners s s' \<Longrightarrow> single_owner s'"
  unfolding single_owner_iff same_owners_def sole_user_ids by simp

lemma same_owners_refl: "same_owners s s"
  by (simp add: same_owners_def)

lemma same_owners_trans: "same_owners s t \<Longrightarrow> same_owners t u \<Longrightarrow> same_owners s u"
  by (simp add: same_owners_def)

lemma single_owner_tables [simp]:
  "single_owner (s\<lparr>db_transactions := ts\<rparr>) = single_owner s" "single_owner (s\<lparr>db_transfers := xs\<rparr>) = single_owner s"
  "single_owner (s\<lparr>db_accruals := as\<rparr>) = single_owner s" "single_owner (s\<lparr>db_audit := es\<rparr>) = single_owner s"
  "single_owner (s\<lparr>db_rules := rs\<rparr>) = single_owner s" "single_owner (s\<lparr>db_passkeys := ps\<rparr>) = single_owner s"
  "single_owner (s\<lparr>db_challenges := cs\<rparr>) = single_owner s" "single_owner (s\<lparr>db_goals := gs\<rparr>) = single_owner s"
  "single_owner (s\<lparr>db_limits := ms\<rparr>) = single_owner s" "single_owner (s\<lparr>db_categories := qs\<rparr>) = single_owner s"
  "single_owner (s\<lparr>db_idempotency := is\<rparr>) = single_owner s"
  by (simp_all add: single_owner_def sole_user_def)

section \<open>The operations\<close>

text \<open>An account that is inserted belongs to the only user, or there is no user.\<close>

lemma keeps_insertAccount_owner: "keeps single_owner (insertAccount account)"
proof (rule keepsI)
  fix s r and s' :: "'d db" assume ok: "single_owner s" and run: "insertAccount account s = (r, s')"
  let ?owner = "case a_OwnerUserID account of Some u \<Rightarrow> Some u | None \<Rightarrow> sole_user s"
  show "single_owner s'"
  proof (cases "s' = s")
    case False
    with run have fk: "case ?owner of None \<Rightarrow> True | Some u \<Rightarrow> u \<in> set (map u_ID (db_users s))"
      and s': "s' = s\<lparr>db_accounts := db_accounts s @ [account\<lparr>a_OwnerUserID := ?owner\<rparr>]\<rparr>"
      by (auto simp: insertAccount_def Let_def sbind_def split: sum.splits)
    have "?owner = sole_user s"
    proof (cases "a_OwnerUserID account")
      case (Some u)
      with fk have "u \<in> set (map u_ID (db_users s))" by simp
      moreover have "length (db_users s) \<le> 1" using ok by (simp add: single_owner_def)
      ultimately show ?thesis using Some by (cases "db_users s") (auto simp: sole_user_def)
    qed simp
    with ok show ?thesis unfolding s' by (simp add: single_owner_def sole_user_def)
  qed (use ok in simp)
qed

interpretation ledger_owner: ledger_statements D "single_owner :: 'd db \<Rightarrow> bool" for D :: "'d decimal_ops"
proof
  show "keeps (single_owner :: 'd db \<Rightarrow> bool) (insertAccount account)" for account by (rule keeps_insertAccount_owner)
  show "keeps (single_owner :: 'd db \<Rightarrow> bool) (update_accounts Q f)"
    if "\<And>a. a_ID (f a) = a_ID a \<and> a_OwnerUserID (f a) = a_OwnerUserID a" for Q f
    unfolding update_accounts_def
    by (intro keeps_intros keeps_swrite) (auto simp: single_owner_def sole_user_def that)
  show "keeps (single_owner :: 'd db \<Rightarrow> bool) (deleteAccrualRange a r f u)" for a r f u
    by (auto simp: ledger_writes keeps_def Let_def)
qed (unfold ledger_writes Let_def, (intro keeps_intros keeps_swrite; simp)+)

interpretation rule_owner: rule_statements "single_owner :: 'd db \<Rightarrow> bool"
proof
  show "keeps (single_owner :: 'd db \<Rightarrow> bool) (insertInterestRule rule)" "keeps (single_owner :: 'd db \<Rightarrow> bool) (updateInterestRule rule)"
    for rule unfolding insertInterestRule_def updateInterestRule_def Let_def by (intro keeps_intros keeps_swrite; simp)+
qed (rule ledger_owner.insert_event)

text \<open>Sessions and profiles leave ids of users and accounts alone; \<open>Setup\<close> does not.\<close>

lemma sessions_same_owners: "session_statements (same_owners t)"
proof (rule sessions_keep)
  show "same_owners s u" if "same_owners s t" "same_owners t u" for s t u :: "'d db" using that by (rule same_owners_trans)
  show "same_owners s (s\<lparr>db_users := map_user i f (db_users s)\<rparr>)" if "\<And>u. u_ID (f u) = u_ID u" for s :: "'d db" and i f
    by (simp add: same_owners_def map_user_def that)
qed (simp_all add: same_owners_def)

lemma keeps_first_user_owner: "keeps (single_owner :: 'd db \<Rightarrow> bool) (UserRepository_Setup sqlNow user token event)"
proof (rule keeps_on_success)
  fix s x and s' :: "'d db" assume ok: "single_owner s" and run: "UserRepository_Setup sqlNow user token event s = (Inr x, s')"
  have none: "db_users s = []" using run by (auto simp: UserRepository_Setup_def tx_simps split: if_splits)
  with ok have unowned: "a_OwnerUserID a = None" if "a \<in> set (db_accounts s)" for a
    using that by (auto simp: single_owner_def sole_user_def)
  have "db_users s' = [user] \<and> (\<forall>a\<in>set (db_accounts s'). a_OwnerUserID a = Some (u_ID user))"
    using run none unowned
    by (auto simp: UserRepository_Setup_def claimUnownedAccounts_def update_accounts_def tx_simps split: option.splits)
  then show "single_owner s'" by (simp add: single_owner_def sole_user_def)
qed (unfold UserRepository_Setup_def, erule in_tx_Inl)

section \<open>The whole program\<close>

interpretation owners: system_property D "single_owner :: 'd db \<Rightarrow> bool" for D :: "'d decimal_ops"
proof (intro system_property.intro)
  show "guarded_ledger D (single_owner :: 'd db \<Rightarrow> bool)" by (rule ledger_owner.guarded_ledger_axioms)
  show "rule_statements (single_owner :: 'd db \<Rightarrow> bool)" by (rule rule_owner.rule_statements_axioms)
  show "session_statements (single_owner :: 'd db \<Rightarrow> bool)"
    using sessions_same_owners same_owners_refl same_owners_keeps by (rule session_statements_along)
  show "system_property_axioms (single_owner :: 'd db \<Rightarrow> bool)"
    by (intro system_property_axioms.intro keeps_first_user_owner single_owner_tables)
qed

text \<open>C5. Every account has the owner it should have. From the database the migrations leave, whatever
  operations of the HTTP program, jobs and commands of the command line run in whatever order: there is
  never more than one user, an account has no owner only as long as there is no user, and once the
  program is set up every account, wherever it came from, belongs to its user.\<close>

theorem accounts_belong_to_the_user:
  assumes "as_setupRepo A" "system_steps D uuidParse W A (empty_db\<lparr>db_categories := cs\<rparr>, t0) st"
  shows "length (db_users (fst st)) \<le> 1 \<and> (\<forall>a\<in>set (db_accounts (fst st)). a_OwnerUserID a = sole_user (fst st))"
proof -
  have "single_owner (empty_db\<lparr>db_categories := cs\<rparr> :: 'a db)" by (simp add: single_owner_def empty_db_def)
  then have "single_owner (fst st)" using owners.system_steps_keep [OF assms] by simp
  then show ?thesis by (simp add: single_owner_def)
qed

text \<open>An account of the command line, created before the program is set up, belongs to the user afterwards.\<close>

definition sample_account_command :: CreateAccountCommand where
  "sample_account_command = \<lparr>cm_OwnerUserID = '''', cm_Name = ''Cash'', cm_Bank = '''', cm_Type = ''cash'',
     cm_Currency = ''RUB'', cm_OpenedAt = day_time 738000\<rparr>"

definition before_setup_db :: "dec db" where
  "before_setup_db = snd (Command_CreateAccount dec_ops None ''A'' ''e1'' (day_time 738001) (Some sample_account_command) empty_db)"

lemma sample_ownership_run:
  "map a_OwnerUserID (db_accounts before_setup_db) = [None]" "as_setupRepo sample_auth"
  "map u_ID (db_users (snd (Setup sample_auth sample_env None sample_setup_request before_setup_db))) = [''id2'']"
  "map a_ID (db_accounts (snd (Setup sample_auth sample_env None sample_setup_request before_setup_db))) = [''A'']"
  by code_simp+

theorem accounts_belong_to_the_user_witness:
  "map a_OwnerUserID (db_accounts before_setup_db) = [None] \<and>
   map a_OwnerUserID (db_accounts (snd (Setup sample_auth sample_env None sample_setup_request before_setup_db))) = [Some ''id2'']"
proof -
  let ?s = "snd (Setup sample_auth sample_env None sample_setup_request before_setup_db)"
  let ?step = "system_step dec_ops (\<lambda>_. True) sample_webauthn sample_auth"
  have initial: "empty_db\<lparr>db_categories := []\<rparr> = (empty_db :: dec db)" by (simp add: empty_db_def)
  have "?step (empty_db, sample_now) (on_db (Command_CreateAccount dec_ops None ''A'' ''e1'' (day_time 738001)
      (Some sample_account_command)) (empty_db, sample_now))"
    by (rule command_account)
  moreover have "?step (before_setup_db, sample_now)
      (on_db (Setup sample_auth sample_env None sample_setup_request) (before_setup_db, sample_now))"
    by (rule first_setup)
  ultimately have "?step\<^sup>*\<^sup>* (empty_db\<lparr>db_categories := []\<rparr>, sample_now) (?s, sample_now)"
    unfolding initial by (simp add: on_db_def before_setup_db_def)
  from accounts_belong_to_the_user [OF sample_ownership_run(2) this]
  have "\<forall>a\<in>set (db_accounts ?s). a_OwnerUserID a = sole_user ?s" by simp
  moreover have "sole_user ?s = Some ''id2''" using sample_ownership_run(3) by (simp add: sole_user_ids)
  moreover obtain a where "db_accounts ?s = [a]" using sample_ownership_run(4) by auto
  ultimately show ?thesis using sample_ownership_run(1) by simp
qed

end
