(* ===== verification/Currency.thy ===== *)
theory Currency
  imports Invariants
begin

text \<open>
  The currency of accounts. The repository has three updates that write the currency of an account; the
  two plain ones (\<open>AccountRepository_Update\<close>, \<open>AccountRepository_UpdateForUser\<close>) do not check it and have
  no caller in the program, the third (\<open>UpdateForUserEnforcingCurrencyInvariant\<close>) refuses to change it
  while the account has a transaction. A transaction that is not an interest posting is never
  deleted, whatever its status becomes; a recalculation may delete the postings of its range. So an
  account with a transaction that is not a posting keeps its currency for good: \<open>pinned\<close> says so as an
  invariant of the database, and \<open>pins\<close> shows that every step of the program keeps it.
\<close>

section \<open>The invariant\<close>

text \<open>The accounts, with their currencies, that have such a transaction.\<close>

definition fixed_currency :: "'d db \<Rightarrow> (string \<times> string) set" where
  "fixed_currency s = {(i, c). (\<exists>a\<in>set (db_accounts s). a_ID a = i \<and> a_Currency a = c) \<and>
     (\<exists>t\<in>set (db_transactions s). t_AccountID t = i \<and> t_Type t \<noteq> TransactionTypeInterestIncome)}"

definition pinned :: "(string \<times> string) set \<Rightarrow> 'd db \<Rightarrow> bool" where
  "pinned A s \<longleftrightarrow> distinct (map a_ID (db_accounts s)) \<and> A \<subseteq> fixed_currency s"

lemma pinned_tables [simp]:
  "pinned A (s\<lparr>db_transfers := xs\<rparr>) = pinned A s" "pinned A (s\<lparr>db_accruals := as\<rparr>) = pinned A s"
  "pinned A (s\<lparr>db_audit := es\<rparr>) = pinned A s" "pinned A (s\<lparr>db_rules := rs\<rparr>) = pinned A s"
  "pinned A (s\<lparr>db_users := us\<rparr>) = pinned A s" "pinned A (s\<lparr>db_tokens := ks\<rparr>) = pinned A s"
  "pinned A (s\<lparr>db_passkeys := ps\<rparr>) = pinned A s" "pinned A (s\<lparr>db_challenges := cs\<rparr>) = pinned A s"
  "pinned A (s\<lparr>db_goals := gs\<rparr>) = pinned A s" "pinned A (s\<lparr>db_limits := ms\<rparr>) = pinned A s"
  "pinned A (s\<lparr>db_categories := qs\<rparr>) = pinned A s" "pinned A (s\<lparr>db_idempotency := is\<rparr>) = pinned A s"
  by (simp_all add: pinned_def fixed_currency_def)

text \<open>What changes of the two tables keep it.\<close>

lemma pinned_transactions:
  assumes "pinned A s"
    "\<And>t. t \<in> set (db_transactions s) \<Longrightarrow> t_Type t \<noteq> TransactionTypeInterestIncome \<Longrightarrow>
       \<exists>t'\<in>set ts. t_AccountID t' = t_AccountID t \<and> t_Type t' = t_Type t"
  shows "pinned A (s\<lparr>db_transactions := ts\<rparr>)"
proof -
  have "fixed_currency s \<subseteq> fixed_currency (s\<lparr>db_transactions := ts\<rparr>)"
    unfolding fixed_currency_def using assms(2) by (auto, metis)
  with assms(1) show ?thesis by (auto simp: pinned_def)
qed

lemma pinned_marked:
  assumes "pinned A s" "\<And>t. t_AccountID (f t) = t_AccountID t \<and> t_Type (f t) = t_Type t"
  shows "pinned A (s\<lparr>db_transactions := map f (db_transactions s)\<rparr>)"
proof (rule pinned_transactions [OF assms(1)])
  show "\<exists>t'\<in>set (map f (db_transactions s)). t_AccountID t' = t_AccountID t \<and> t_Type t' = t_Type t"
    if "t \<in> set (db_transactions s)" for t using that assms(2) by (intro bexI [of _ "f t"]) simp_all
qed

lemma pinned_accounts:
  assumes "pinned A s" "\<And>a. a_ID (f a) = a_ID a"
    "\<And>a t. a \<in> set (db_accounts s) \<Longrightarrow> t \<in> set (db_transactions s) \<Longrightarrow> t_AccountID t = a_ID a \<Longrightarrow> a_Currency (f a) = a_Currency a"
  shows "pinned A (s\<lparr>db_accounts := map f (db_accounts s)\<rparr>)"
proof -
  have "fixed_currency s \<subseteq> fixed_currency (s\<lparr>db_accounts := map f (db_accounts s)\<rparr>)"
    unfolding fixed_currency_def using assms(2,3) by fastforce
  with assms(1,2) show ?thesis by (auto simp: pinned_def comp_def)
qed

section \<open>The operations\<close>

text \<open>The enforced update finds the one account of the id, and looks for its transactions.\<close>

lemma keeps_guarded_update: "keeps (pinned A) (UpdateForUserEnforcingCurrencyInvariant D eid now account userID)"
proof (rule keeps_on_success)
  fix s x and s' :: "'a db" assume ok: "pinned A s"
    and run: "UpdateForUserEnforcingCurrencyInvariant D eid now account userID s = (Inr x, s')"
  let ?f = "\<lambda>a. if has_owner (a_ID account) userID a then set_account account a else a"
  from run have "UpdateForUserEnforcingCurrencyInvariant D eid now account userID s = (Inr (), s')" by simp
  then obtain before e where before: "find (has_owner (a_ID account) userID) (db_accounts s) = Some before"
    and guard: "a_Currency before = a_Currency account \<or> (\<forall>t\<in>set (db_transactions s). t_AccountID t \<noteq> a_ID account)"
    and s': "s' = s\<lparr>db_accounts := map ?f (db_accounts s), db_audit := db_audit s @ [e]\<rparr>"
    by (rule UpdateForUserEnforcingCurrencyInvariant_Inr)
  have one: "a = before" if "a \<in> set (db_accounts s)" "has_owner (a_ID account) userID a" for a
    using that ok find_has_owner [OF before] unfolding pinned_def has_owner_def by (metis distinct_map inj_onD)
  have "pinned A (s\<lparr>db_accounts := map ?f (db_accounts s)\<rparr>)"
  proof (rule pinned_accounts [OF ok])
    fix a t assume a: "a \<in> set (db_accounts s)" and t: "t \<in> set (db_transactions s)" "t_AccountID t = a_ID a"
    show "a_Currency (?f a) = a_Currency a"
    proof (cases "has_owner (a_ID account) userID a")
      case True
      with one [OF a] guard t show ?thesis by (auto simp: has_owner_def)
    qed simp
  qed simp
  then show "pinned A s'" using pinned_tables(3) unfolding s' by simp
qed (unfold UpdateForUserEnforcingCurrencyInvariant_def, erule pg_tx_Inl)

interpretation ledger_currency: guarded_ledger D "pinned A :: 'd db \<Rightarrow> bool" for D :: "'d decimal_ops" and A
proof
  show "keeps (pinned A :: 'd db \<Rightarrow> bool) (insertAccount account)" for account
  proof (rule keepsI)
    fix s r and s' :: "'d db" assume ok: "pinned A s" and run: "insertAccount account s = (r, s')"
    define row where "row = account\<lparr>a_OwnerUserID := (case a_OwnerUserID account of Some u \<Rightarrow> Some u | None \<Rightarrow> sole_user s)\<rparr>"
    have "s' = s \<or> a_ID row \<notin> set (map a_ID (db_accounts s)) \<and> s' = s\<lparr>db_accounts := db_accounts s @ [row]\<rparr>"
      using run by (auto simp: insertAccount_def Let_def row_def [symmetric] sbind_def row_guard_def ewrap_def echeck_def
          split: if_splits sum.splits)
    with ok show "pinned A s'" by (auto simp: pinned_def fixed_currency_def)
  qed
  show "keeps (pinned A :: 'd db \<Rightarrow> bool) (update_accounts Q (\<lambda>a. a\<lparr>a_IsActive := False, a_UpdatedAt := now\<rparr>))" for Q now
    unfolding update_accounts_def by (intro keeps_intros keeps_swrite pinned_accounts) (simp_all split: if_split)
  show "keeps (pinned A :: 'd db \<Rightarrow> bool) (UpdateForUserEnforcingCurrencyInvariant D eid now account userID)" for eid now account userID
    by (rule keeps_guarded_update)
  show "keeps (pinned A :: 'd db \<Rightarrow> bool) (insertTransaction D t)" for t
    unfolding insertTransaction_def Let_def by (intro keeps_intros keeps_swrite pinned_transactions) auto
  show "keeps (pinned A :: 'd db \<Rightarrow> bool) (set_status D status tid)" for status tid
    unfolding set_status_def by (intro keeps_intros keeps_swrite pinned_marked) simp_all
  show "keeps (pinned A :: 'd db \<Rightarrow> bool) (deleteInterestTransaction tid)" for tid
  proof (unfold deleteInterestTransaction_def Let_def, intro keeps_swrite)
    fix s :: "'d db" assume "pinned A s"
    then have "pinned A (s\<lparr>db_transactions := filter (\<lambda>t. \<not> (t_ID t = tid \<and> t_Type t = TransactionTypeInterestIncome)) (db_transactions s)\<rparr>)"
      by (rule pinned_transactions) auto
    then show "pinned A (s\<lparr>db_transactions := filter (\<lambda>t. \<not> (t_ID t = tid \<and> t_Type t = TransactionTypeInterestIncome)) (db_transactions s),
        db_accruals := filter (\<lambda>a. \<not> list_ex (\<lambda>t. (t_ID t = tid \<and> t_Type t = TransactionTypeInterestIncome) \<and>
          t_ID t = i_TransactionID a) (db_transactions s)) (db_accruals s)\<rparr>)"
      using pinned_tables(2) by blast
  qed
  show "keeps (pinned A :: 'd db \<Rightarrow> bool) (deleteAccrualRange a r f u)" for a r f u
    by (auto simp: deleteAccrualRange_def keeps_def Let_def)
qed (unfold ledger_writes Let_def, (intro keeps_intros keeps_swrite; simp)+)

text \<open>The statements of sessions, and the setup, leave currencies and transactions alone.\<close>

definition same_money :: "'d db \<Rightarrow> 'd db \<Rightarrow> bool" where
  "same_money s s' \<longleftrightarrow> db_accounts s' = db_accounts s \<and> db_transactions s' = db_transactions s"

lemma keeps_first_user_currency: "keeps (pinned A :: 'd db \<Rightarrow> bool) (UserRepository_Setup sqlNow user token event)"
proof (rule keeps_on_success)
  fix s x and s' :: "'d db" assume ok: "pinned A s" and run: "UserRepository_Setup sqlNow user token event s = (Inr x, s')"
  let ?f = "\<lambda>a. if a_OwnerUserID a = None then a\<lparr>a_OwnerUserID := Some (u_ID user), a_UpdatedAt := sqlNow\<rparr> else a"
  have "same_money (s\<lparr>db_accounts := map ?f (db_accounts s)\<rparr>) s'"
    using run by (auto simp: same_money_def UserRepository_Setup_def claimUnownedAccounts_def update_accounts_def tx_simps
        split: option.splits)
  moreover have "pinned A (s\<lparr>db_accounts := map ?f (db_accounts s)\<rparr>)" by (rule pinned_accounts [OF ok]) auto
  ultimately show "pinned A s'" by (simp add: pinned_def fixed_currency_def same_money_def)
qed (unfold UserRepository_Setup_def, erule in_tx_Inl)

interpretation pins: system_property D "pinned A :: 'd db \<Rightarrow> bool" for D :: "'d decimal_ops" and A
proof (intro system_property.intro)
  show "guarded_ledger D (pinned A :: 'd db \<Rightarrow> bool)" by (rule ledger_currency.guarded_ledger_axioms)
  show "rule_statements (pinned A :: 'd db \<Rightarrow> bool)"
  proof
    show "keeps (pinned A :: 'd db \<Rightarrow> bool) (insertInterestRule rule)" "keeps (pinned A :: 'd db \<Rightarrow> bool) (updateInterestRule rule)"
      for rule unfolding insertInterestRule_def updateInterestRule_def Let_def by (intro keeps_intros keeps_swrite; simp)+
  qed (rule ledger_currency.insert_event)
  have "session_statements (same_money t)" for t :: "'d db"
    by (rule sessions_keep) (simp_all add: same_money_def)
  moreover have "same_money s s" for s :: "'d db" by (simp add: same_money_def)
  moreover have "pinned A s \<Longrightarrow> same_money s s' \<Longrightarrow> pinned A s'" for s s' :: "'d db"
    by (simp add: pinned_def fixed_currency_def same_money_def)
  ultimately show "session_statements (pinned A :: 'd db \<Rightarrow> bool)" by (rule session_statements_along)
  show "system_property_axioms (pinned A :: 'd db \<Rightarrow> bool)"
    by (intro system_property_axioms.intro keeps_first_user_currency pinned_tables)
qed

section \<open>The whole program\<close>

text \<open>C9. The currency of an account that has a transaction does not change. From the database the
  migrations leave, whatever operations of the HTTP program, jobs and commands of the command line
  have run, and whatever runs afterwards: an account that has a transaction other than an interest
  posting, in whatever status, is still there, is still the only account of its id and has the currency it
  had. (A recalculation may delete the interest postings of its range, so that an account whose
  only transactions they were is without any; such an account may change its currency.)\<close>

theorem account_keeps_currency:
  assumes "as_setupRepo A" "system_steps D uuidParse W A (empty_db\<lparr>db_categories := cs\<rparr>, t0) st" "system_steps D uuidParse W A st st'"
    "a \<in> set (db_accounts (fst st))" "t \<in> set (db_transactions (fst st))" "t_AccountID t = a_ID a"
    "t_Type t \<noteq> TransactionTypeInterestIncome"
  shows "\<exists>a'. filter (\<lambda>b. a_ID b = a_ID a) (db_accounts (fst st')) = [a'] \<and> a_Currency a' = a_Currency a"
proof -
  let ?A = "{(a_ID a, a_Currency a)}"
  have "pinned {} (empty_db\<lparr>db_categories := cs\<rparr> :: 'a db)" by (simp add: pinned_def empty_db_def)
  then have "pinned {} (fst st)" using pins.system_steps_keep [OF assms(1,2), of "{}"] by simp
  then have "pinned ?A (fst st)" using assms(4-7) by (auto simp: pinned_def fixed_currency_def)
  then have "pinned ?A (fst st')" by (rule pins.system_steps_keep [OF assms(1,3)])
  then obtain a' where "distinct (map a_ID (db_accounts (fst st')))" "a' \<in> set (db_accounts (fst st'))" "a_ID a' = a_ID a"
    "a_Currency a' = a_Currency a" by (auto simp: pinned_def fixed_currency_def)
  then show ?thesis using filter_length_le_one_distinct_key [of a_ID "db_accounts (fst st')" a'] by auto
qed

text \<open>An account with an income; then its user asks for dollars.\<close>

definition opened_db :: "dec db" where
  "opened_db = snd (AccountService_Create dec_ops None ''A'' ''e1'' (day_time 738001) (Some sample_account_request) set_up_db)"

definition earning_db :: "dec db" where
  "earning_db = snd (TransactionRepository_CreateForUser dec_ops ''e2'' (day_time 738001) ''id2'' sample_built opened_db)"

definition dollar_request :: UpdateAccountRequest where
  "dollar_request = \<lparr>ua_ID = ''A'', ua_UserID = ''id2'', ua_Name = None, ua_Bank = None, ua_Type = None,
     ua_Currency = Some ''USD'', ua_OpenedAt = None, ua_IsActive = None\<rparr>"

lemma sample_currency_run:
  "map (\<lambda>t. (t_AccountID t, t_Type t)) (db_transactions earning_db) = [(''A'', TransactionTypeIncome)]"
  "map (\<lambda>a. (a_ID a, a_Currency a)) (db_accounts earning_db) = [(''A'', ''RUB'')]"
proof -
  have "(map (\<lambda>t. (t_AccountID t, t_Type t)) (db_transactions earning_db), map (\<lambda>a. (a_ID a, a_Currency a)) (db_accounts earning_db)) =
      ([(''A'', TransactionTypeIncome)], [(''A'', ''RUB'')])" by code_simp
  then show "map (\<lambda>t. (t_AccountID t, t_Type t)) (db_transactions earning_db) = [(''A'', TransactionTypeIncome)]"
    "map (\<lambda>a. (a_ID a, a_Currency a)) (db_accounts earning_db) = [(''A'', ''RUB'')]" by (simp_all only: prod.inject simp_thms)
qed

lemma sample_income:
  "snd (TransactionService_CreateForUser dec_ops (\<lambda>_. True) None ''n'' ''e2'' (day_time 738001) ''id2''
     (Some Transactions.sample_request) opened_db) = earning_db"
proof -
  let ?req = "Transactions.sample_request\<lparr>ct_AccountOpenedAt := day_time 738000\<rparr>"
  let ?resolved = "resolveCreateRequest ''id2'' (Some Transactions.sample_request) opened_db"
  have "fst ?resolved = Inr ?req" by code_simp
  moreover have "snd ?resolved = opened_db"
    using keepsD [OF keeps_resolve [where P = "\<lambda>s. s = opened_db"]] by (metis prod.collapse)
  ultimately have res: "?resolved = (Inr ?req, opened_db)" by (simp add: prod_eq_iff)
  have built: "buildTransaction dec_ops (\<lambda>_. True) None ''n'' (day_time 738001) (Some ?req) False = Inr sample_built" by code_simp
  have "isOk (fst (TransactionRepository_CreateForUser dec_ops ''e2'' (day_time 738001) ''id2'' sample_built opened_db))" by code_simp
  moreover have "TrimSpace ''id2'' = ''id2''" by code_simp
  ultimately show ?thesis
    by (auto simp: TransactionService_CreateForUser_def Let_def sbind_def res built earning_db_def swrap_def split: prod.splits sum.splits)
qed

theorem account_keeps_currency_witness:
  "db_transactions earning_db \<noteq> [] \<and>
   (\<exists>a. filter (\<lambda>b. a_ID b = ''A'') (db_accounts (snd (AccountService_UpdateForUser dec_ops None ''e3'' (day_time 738001)
      (Some dollar_request) earning_db))) = [a] \<and> a_Currency a = ''RUB'')"
proof -
  let ?step = "system_step dec_ops (\<lambda>_. True) sample_webauthn sample_auth"
  let ?asked = "snd (AccountService_UpdateForUser dec_ops None ''e3'' (day_time 738001) (Some dollar_request) earning_db)"
  have store: "as_setupRepo sample_auth" by code_simp
  have initial: "empty_db\<lparr>db_categories := []\<rparr> = (empty_db :: dec db)" by (simp add: empty_db_def)
  have "?step (empty_db, sample_now) (on_db (Setup sample_auth sample_env None sample_setup_request) (empty_db, sample_now))"
    by (rule first_setup)
  moreover have "?step (set_up_db, sample_now) (on_db (AccountService_Create dec_ops None ''A'' ''e1'' (day_time 738001)
      (Some sample_account_request)) (set_up_db, sample_now))" by (rule account_create)
  moreover have "?step (opened_db, sample_now) (on_db (TransactionService_CreateForUser dec_ops (\<lambda>_. True) None ''n'' ''e2''
      (day_time 738001) ''id2'' (Some Transactions.sample_request)) (opened_db, sample_now))" by (rule transaction_create)
  ultimately have 1: "?step\<^sup>*\<^sup>* (empty_db\<lparr>db_categories := []\<rparr>, sample_now) (earning_db, sample_now)"
    unfolding initial on_db_def fst_conv snd_conv sample_income set_up_db_def [symmetric] opened_db_def [symmetric]
    by (meson converse_rtranclp_into_rtranclp rtranclp.rtrancl_refl)
  have "?step (earning_db, sample_now) (on_db (AccountService_UpdateForUser dec_ops None ''e3'' (day_time 738001)
      (Some dollar_request)) (earning_db, sample_now))" by (rule account_update)
  then have 2: "?step\<^sup>*\<^sup>* (earning_db, sample_now) (?asked, sample_now)" by (simp add: on_db_def)
  obtain a where a: "a \<in> set (db_accounts (fst (earning_db, sample_now)))" "a_ID a = ''A''" "a_Currency a = ''RUB''"
    using sample_currency_run(2) by auto
  obtain t where t: "t \<in> set (db_transactions (fst (earning_db, sample_now)))" "t_AccountID t = a_ID a"
    "t_Type t \<noteq> TransactionTypeInterestIncome"
    using sample_currency_run(1) a(2) by auto
  from account_keeps_currency [OF store 1 2 a(1) t] a t(1) show ?thesis by auto
qed

end
