(* ===== verification/Spec2Isabelle.thy ===== *)
theory Spec2Isabelle
  imports Auth_Http Rate_Limit Dashboard Ownership Currency
begin

text \<open>
  CapitalFlow is a self-hosted tracker of personal finances: an HTTP API in Go over PostgreSQL.
  This library models the services and repositories behind the API (\<^verbatim>\<open>internal/services\<close>,
  \<^verbatim>\<open>internal/postgres\<close>, \<^verbatim>\<open>internal/domain\<close>, \<^verbatim>\<open>internal/models\<close>, \<^verbatim>\<open>internal/auth\<close>,
  \<^verbatim>\<open>internal/jobs\<close>, \<^verbatim>\<open>pkg\<close>) and the middleware that decides whether and how often a request
  reaches them (\<^verbatim>\<open>internal/http/middleware\<close>). Definitions keep the names of the code, with the
  type of the receiver in front where a method name occurs twice.

  \<^bold>\<open>How the program is built.\<close> A request passes the rate limit, the token check and, for the
  operations that move money, the idempotency middleware; its handler calls a service; the service
  validates with \<^verbatim>\<open>internal/domain\<close>, builds rows and calls a repository; the repository runs SQL
  in one transaction. Balances are never stored: they are sums over confirmed transactions. The
  interest engine computes accruals from a snapshot of the account; the interest lifecycle posts
  them as transactions under a lock of the account, and the scheduled jobs call it for every rule.

  \<^bold>\<open>How the model is built.\<close>
  \<^item> The database is the record \<open>'d db\<close> (theory \<open>Database\<close>), one list of rows per table, in
    insertion order. A repository method is a statement \<open>('d db, err, 'a) stm\<close>: it takes the
    database, returns \<open>Inl\<close> an error or \<open>Inr\<close> a result, and the database afterwards.
    \<open>pg_tx\<close> is a transaction block with its deferred constraints: any error restores the state at
    its begin. Constraints of the migrations (keys, checks, foreign keys, the exclusion constraint
    on rules) are guards of the statements that write the tables.
  \<^item> Go errors are the type \<open>err\<close>: sentinels, wrapped errors and conflicts, with \<open>errorsIs\<close>. Every
    early return of the code is a branch of the model.
  \<^item> Integers of fixed width are words where the code can wrap (\<open>64 word\<close> for clock arithmetic,
    bytes and minor units); \<^verbatim>\<open>time.Time\<close> is an instant in nanoseconds with a zone offset. Strings
    are the bytes of UTF-8 text as character lists.
  \<^item> Loops are functions by recursion on lists; the loops over the days of a range, over digits and
    over the bytes of a text are \<open>function\<close>s with a termination proof by a measure. No definition
    uses fuel.
  \<^item> The clock, random bytes and new ids are arguments of the operations.

  \<^bold>\<open>Theories and code.\<close>
  \<^item> \<open>Prelude\<close>: results, the statement monad, transactions, \<open>keeps\<close> (a statement keeps a property
    of the state), list facts. \<open>Go_Strings\<close>, \<open>Go_Time\<close>, \<open>Go_Json\<close>, \<open>Go_Bytes\<close>: what the code uses
    of \<^verbatim>\<open>strings\<close>, \<^verbatim>\<open>time\<close>, \<^verbatim>\<open>encoding/json\<close>, \<^verbatim>\<open>encoding/base64\<close> and \<^verbatim>\<open>fmt\<close>.
  \<^item> \<open>Decimal\<close>: the interface of \<^verbatim>\<open>shopspring/decimal\<close> (locale \<open>decimal\<close>) and an implementation on
    which witnesses compute. \<open>Models\<close>: \<^verbatim>\<open>internal/models\<close> and the error values. \<open>Money\<close>:
    \<^verbatim>\<open>pkg/money\<close>, \<^verbatim>\<open>internal/domain/money\<close>. \<open>Domain\<close>: the validators of \<^verbatim>\<open>internal/domain\<close>.
    \<open>Balance\<close>: \<^verbatim>\<open>balance_service.go\<close> and the specification \<open>ledger\<close> of a balance.
  \<^item> \<open>Database\<close>: the schema, its constraints and the invariant \<open>ledger_ok\<close>; the locale
    \<open>ledger_operation\<close> (atomic, keeps the invariant) that the operations of the services interpret.
    \<open>Accounts\<close>, \<open>Transactions\<close>, \<open>Transfers\<close>: services and repositories of these names,
    \<^verbatim>\<open>adjustment_service.go\<close> and \<^verbatim>\<open>currency_service.go\<close>. \<open>Transaction_Query\<close>: filters,
    search and pages. \<open>Dashboard\<close>: \<^verbatim>\<open>dashboard.go\<close> and \<^verbatim>\<open>dashboard_reporting.go\<close>.
  \<^item> \<open>Interest_Engine\<close> and \<open>Interest_Correct\<close>: the engine of \<^verbatim>\<open>interest_rule_service.go\<close> and its
    refinement of compound interest by day. \<open>Interest_Rules\<close>: rules and their repository.
    \<open>Interest_Lifecycle\<close>: \<^verbatim>\<open>interest_lifecycle.go\<close>, \<^verbatim>\<open>interest_accruals.go\<close>. \<open>Interest_Jobs\<close>:
    \<^verbatim>\<open>internal/jobs/interest.go\<close>.
  \<^item> \<open>Planning\<close>: categories, category limits, financial goals and the profile.
  \<^item> \<open>Passwords\<close>: \<^verbatim>\<open>pkg/security/password.go\<close>. \<open>Tokens\<close>: \<^verbatim>\<open>internal/auth/tokens.go\<close>.
    \<open>Auth_Store\<close>, \<open>Auth\<close>, \<open>Auth_Correct\<close>: \<^verbatim>\<open>internal/postgres/auth.go\<close>,
    \<^verbatim>\<open>auth_service.go\<close>, \<^verbatim>\<open>authentication_policy.go\<close> and what they promise. \<open>Passkeys\<close>:
    \<^verbatim>\<open>passkey_service.go\<close> and its repository.
  \<^item> \<open>System\<close>: all operations on one database, as the step relation \<open>system_step\<close>, and the
    invariant \<open>app_ok\<close> of every state it reaches; the services meet it through the contracts
    \<open>guarded_ledger\<close>, \<open>auth_statements\<close> and \<open>passkey_operations\<close>, each interpreted for
    what its operations leave alone. \<open>Invariants\<close>: the contract \<open>system_property\<close> under which every
    step keeps a property; \<open>Ownership\<close> (whose the accounts are) and \<open>Currency\<close> (what currency they
    have) interpret it.
  \<^item> \<open>Legacy_Import\<close>: \<^verbatim>\<open>internal/legacyjson/importer.go\<close> and \<^verbatim>\<open>internal/postgres/migration.go\<close>, the
    import of deposits of an earlier version; the locale \<open>import_store\<close> is the store it writes to.
    \<open>Commands\<close>: \<^verbatim>\<open>internal/application/commands.go\<close>, the commands of the command line, and the
    advisory lock of \<^verbatim>\<open>internal/postgres/store.go\<close>.
  \<^item> \<open>Http\<close>, \<open>Idempotency\<close>, \<open>Auth_Http\<close>, \<open>Rate_Limit\<close>: \<^verbatim>\<open>internal/http/middleware\<close>;
    \<open>Idempotency\<close> also holds the PostgreSQL store, and the concurrent system of requests as a step
    relation in which store calls of different requests interleave.

  \<^bold>\<open>What the lemmas show.\<close>
  \<^item> Money: every operation changes the balance of each account by exactly what it should, on
    success, and nothing on an error; transfers conserve money, happen once and atomically; the
    balance of the service, of the SQL query and of the dashboard agree with the ledger; amounts
    stay within their column and the scale of their currency.
  \<^item> Interest: recalculation refines compound interest with the rounding of the code; an accrual is
    posted once, its amount is the interest of exactly the days no earlier accrual paid; active rules of an account never
    overlap; the jobs post what they count and select the latest version of a rule.
  \<^item> Access: a refresh token is used once and its reuse ends all sessions; a password change shuts
    earlier sessions out; the lockout bounds the number of guesses; setup happens once; passkey
    challenges are consumed once and a login is for an active credential of an unlocked user.
  \<^item> The whole: every state the operations, jobs and commands reach has valid rows, whole transfers,
    unique keys and intact references; it has at most one user, to whom every account belongs; an
    account with a transaction other than an interest posting keeps its currency for good.
  \<^item> Requests: an idempotency key runs its handler at most once under every interleaving, and is
    replayed or refused afterwards; an admitted request always finds its record again and sends
    what its handler answered; the rate limit bounds memory and the
    requests of a window, with the readings of the clock in the order of the requests.
  \<^item> Planning: an update based on an old version is never applied; a goal is stored exactly when
    the database accepts the currency code.
  \<^item> Import: importing the same deposits twice changes nothing the second time; the report counts
    the rows that were written; a deposit of amount zero passes the importer's checks and is refused
    by the database on every run.

  \<^bold>\<open>Arguments of the model\<close> are the functions of packages outside the repository: decimals,
  JWT signing and parsing, Argon2, SHA-256, WebAuthn, UUIDs, mail addresses, the password score,
  network addresses, the rate provider's answer, the time zone of the database session and the
  iteration order of Go maps. Where a property needs a law of them (a decimal operation is exact,
  a parsed token is the one signed, a fresh id is new) the law is a hypothesis of the property, and
  its witness discharges it on concrete functions.

  \<^bold>\<open>Assumptions.\<close> A location is a constant zone offset; lower and upper case are those of ASCII;
  text is valid UTF-8; statements do not fail for lack of a connection, and a transaction block is
  atomic and isolated, as its row locks make it for the rows it reads. Logging and metrics have no
  effect.

  \<^bold>\<open>Not modelled.\<close> The programs under \<^verbatim>\<open>cmd\<close> (flags, prompts and output around the modelled
  commands), the wiring of \<^verbatim>\<open>internal/application/application.go\<close>, configuration apart from the
  check of the secret, migrations (their constraints are in \<open>Database\<close>), backup archives, the demo
  data, and reading and decoding the JSON file of an import: they read and write files, parse flags
  and wire the parts together. Of \<^verbatim>\<open>internal/http\<close>: routing, the JSON shapes of requests and answers,
  the handlers (they decode, call one service operation and encode), CORS, security headers,
  body limits, request logs and metrics. The web client is another program.
\<close>

end
